(* ===== verification/LwsPrelude.thy ===== *)
theory LwsPrelude
  imports Main "HOL-Library.Word" "HOL-Library.Monad_Syntax"
begin

text \<open>
  Shared vocabulary of the LWS development: bytes and \<open>ngx_str_t\<close> strings, the part of the
  C library the sources use (\<open>strncmp\<close>), the process environment that the sources call into
  (clock, allocator, NGINX string helpers), the binary search loop that the HTTP status and the
  table size lookups share, and generic lemmas on lists.
\<close>

named_theorems lws_simps "unfoldings that component proofs share"

section \<open>Bytes and strings\<close>

type_synonym byte = "8 word"

text \<open>An \<open>ngx_str_t\<close> is a pointer and a length; its value is the list of its bytes. It may
  hold NUL bytes.\<close>

type_synonym ngx_str = "byte list"

text \<open>A string that \<open>lws_strdup\<close> assigns: the pointer, which may be NULL, and the length.\<close>

type_synonym dup_str = "ngx_str option \<times> nat"

definition lit :: "string \<Rightarrow> ngx_str" where
  "lit s = map of_char s"

lemma length_lit [simp]: "length (lit s) = length s"
  by (simp add: lit_def)

lemma find_append: "find P (xs @ ys) = (case find P xs of None \<Rightarrow> find P ys | Some x \<Rightarrow> Some x)"
  by (induction xs) simp_all

lemma lit_inject: "lit s = lit t \<longleftrightarrow> s = t"
proof -
  have "unat (of_char c :: byte) = of_char c" for c
  proof -
    have "of_char c = (of_nat (of_char c) :: byte)" by (rule of_nat_of_char [symmetric])
    then show ?thesis by (simp only: unat_of_nat) simp
  qed
  then have "inj (of_char :: char \<Rightarrow> byte)" by (metis injI of_char_eq_iff)
  then show ?thesis by (simp add: lit_def)
qed

text \<open>C's \<open>strncmp\<close>: at most \<open>n\<close> bytes, stopping after a NUL byte. The end of a list stands
  for the terminating NUL of a C string.\<close>

fun strncmp :: "ngx_str \<Rightarrow> ngx_str \<Rightarrow> nat \<Rightarrow> int" where
  "strncmp xs ys 0 = 0"
| "strncmp [] [] (Suc n) = 0"
| "strncmp [] (y # ys) (Suc n) = - uint y"
| "strncmp (x # xs) [] (Suc n) = uint x"
| "strncmp (x # xs) (y # ys) (Suc n) =
     (if x \<noteq> y then uint x - uint y else if x = 0 then 0 else strncmp xs ys n)"

text \<open>What a NUL-terminated comparison can see of a string.\<close>

definition c_view :: "ngx_str \<Rightarrow> ngx_str" where
  "c_view s = takeWhile (\<lambda>b. b \<noteq> 0) s"

lemma c_view_no_nul: "0 \<notin> set s \<Longrightarrow> c_view s = s"
  by (auto simp: c_view_def takeWhile_eq_all_conv)

lemma strncmp_eq_0:
  "length xs = length ys \<Longrightarrow> strncmp xs ys (length ys) = 0 \<longleftrightarrow> c_view xs = c_view ys"
  by (induction xs ys rule: list_induct2) (auto simp: c_view_def word_uint_eq_iff)

section \<open>Environment\<close>

text \<open>
  What the sources call outside the repository, as arguments of the operations that call it:
  the clock (\<open>time(NULL)\<close>), the allocator's answer to a request of \<open>n\<close> bytes
  (\<open>ngx_alloc\<close>, \<open>ngx_calloc\<close>), and NGINX's \<open>ngx_tolower\<close> and \<open>ngx_strncasecmp\<close>. The
  process-wide \<open>lws_table_hash_seed\<close> of lws_table.c is kept here as well: it is written once
  per process, before any table is filled.
\<close>

record lws_env =
  env_time :: int
  env_alloc_ok :: "nat \<Rightarrow> bool"
  env_calloc_ok :: "nat \<Rightarrow> bool"
  env_tolower :: "byte \<Rightarrow> byte"
  env_strncasecmp :: "ngx_str \<Rightarrow> ngx_str \<Rightarrow> nat \<Rightarrow> int"
  lws_table_hash_seed :: "64 word"

text \<open>
  The documented behaviour of \<open>ngx_strncasecmp\<close> that the sources rely on: on strings of equal
  length it returns 0 exactly if they agree byte by byte up to letter case, where the comparison
  ends at a NUL byte, and \<open>ngx_tolower\<close> keeps NUL and non-NUL bytes apart.
\<close>

definition strncasecmp_ok :: "lws_env \<Rightarrow> bool" where
  "strncasecmp_ok E \<longleftrightarrow>
     (\<forall>b. env_tolower E b = 0 \<longleftrightarrow> b = 0) \<and>
     (\<forall>xs ys. length xs = length ys \<longrightarrow>
        (env_strncasecmp E xs ys (length ys) = 0 \<longleftrightarrow>
         map (env_tolower E) (c_view xs) = map (env_tolower E) (c_view ys)))"

section \<open>Binary search\<close>

text \<open>
  The search loop of \<open>lws_find_http_status\<close> and \<open>lws_table_size\<close>: \<open>below i\<close> is the test
  \<open>a[i] < x\<close> of the source, \<open>lower\<close> and \<open>upper\<close> are its C integers (\<open>upper\<close> reaches -1).
\<close>

function bsearch_loop :: "(nat \<Rightarrow> bool) \<Rightarrow> int \<Rightarrow> int \<Rightarrow> int" where
  "bsearch_loop below lower upper =
     (if lower \<le> upper then
        let mid = (lower + upper) div 2 in
        if below (nat mid) then bsearch_loop below (mid + 1) upper
        else bsearch_loop below lower (mid - 1)
      else lower)"
  by pat_completeness auto
termination
  by (relation "measure (\<lambda>(b, l, u). nat (u - l + 1))") auto

declare bsearch_loop.simps [simp del]

lemma bsearch_loop_bounds:
  assumes "0 \<le> lower" "lower \<le> upper + 1"
  shows "lower \<le> bsearch_loop below lower upper \<and> bsearch_loop below lower upper \<le> upper + 1"
  using assms
proof (induction below lower upper rule: bsearch_loop.induct)
  case (1 below lower upper)
  let ?mid = "(lower + upper) div 2"
  show ?case
  proof (cases "lower \<le> upper")
    case True
    then have mid: "lower \<le> ?mid" "?mid \<le> upper" by auto
    show ?thesis
    proof (cases "below (nat ?mid)")
      case below: True
      from "1.IH"(1)[OF True refl below] mid "1.prems" have
        "?mid + 1 \<le> bsearch_loop below (?mid + 1) upper \<and>
         bsearch_loop below (?mid + 1) upper \<le> upper + 1" by simp
      with True below mid show ?thesis
        by (simp add: bsearch_loop.simps [of below lower upper] Let_def)
    next
      case above: False
      from "1.IH"(2)[OF True refl above] mid "1.prems" have
        "lower \<le> bsearch_loop below lower (?mid - 1) \<and>
         bsearch_loop below lower (?mid - 1) \<le> ?mid - 1 + 1" by simp
      with True above mid show ?thesis
        by (simp add: bsearch_loop.simps [of below lower upper] Let_def)
    qed
  next
    case False
    with "1.prems" show ?thesis by (simp add: bsearch_loop.simps [of below lower upper])
  qed
qed

text \<open>On a test that holds on a prefix of \<open>[0..<n]\<close> only, the loop returns the end of that
  prefix.\<close>

lemma bsearch_loop_inv:
  assumes mono: "\<And>i j. i \<le> j \<Longrightarrow> j < n \<Longrightarrow> below j \<Longrightarrow> below i"
    and "0 \<le> lower" "lower \<le> upper + 1" "upper < int n"
    and "\<And>i. int i < lower \<Longrightarrow> below i"
    and "\<And>i. upper < int i \<Longrightarrow> i < n \<Longrightarrow> \<not> below i"
  shows "(\<forall>i. int i < bsearch_loop below lower upper \<longrightarrow> below i) \<and>
    (\<forall>i. bsearch_loop below lower upper \<le> int i \<longrightarrow> i < n \<longrightarrow> \<not> below i)"
  using assms(2-)
proof (induction "nat (upper - lower + 1)" arbitrary: lower upper rule: less_induct)
  case less
  let ?mid = "(lower + upper) div 2"
  show ?case
  proof (cases "lower \<le> upper")
    case True
    then have mid: "lower \<le> ?mid" "?mid \<le> upper" by auto
    show ?thesis
    proof (cases "below (nat ?mid)")
      case below: True
      have "below i" if "int i < ?mid + 1" for i
        using mono [of i "nat ?mid"] below that mid less.prems by auto
      with less.hyps [of upper "?mid + 1"] less.prems mid True
      show ?thesis by (simp add: bsearch_loop.simps [of below lower upper] Let_def below)
    next
      case above: False
      have "\<not> below i" if "?mid - 1 < int i" "i < n" for i
        using mono [of "nat ?mid" i] above that by (auto simp: nat_le_iff)
      with less.hyps [of "?mid - 1" lower] less.prems mid True
      show ?thesis by (simp add: bsearch_loop.simps [of below lower upper] Let_def above)
    qed
  next
    case False
    with less.prems show ?thesis by (auto simp: bsearch_loop.simps [of below lower upper])
  qed
qed

definition below_prefix :: "(nat \<Rightarrow> bool) \<Rightarrow> nat \<Rightarrow> bool" where
  "below_prefix below n \<longleftrightarrow> (\<forall>i j. i \<le> j \<longrightarrow> j < n \<longrightarrow> below j \<longrightarrow> below i)"

text \<open>The search over a whole array of \<open>n\<close> elements returns the number of elements below.\<close>

lemma bsearch_prefix:
  assumes "below_prefix below n" and "0 < n"
  obtains r where "bsearch_loop below 0 (int n - 1) = int r" "r \<le> n"
    "\<And>i. i < r \<Longrightarrow> below i" "\<And>i. r \<le> i \<Longrightarrow> i < n \<Longrightarrow> \<not> below i"
proof -
  let ?r = "bsearch_loop below 0 (int n - 1)"
  have bounds: "0 \<le> ?r" "?r \<le> int n"
    using bsearch_loop_bounds [of 0 "int n - 1" below] assms(2) by auto
  have inv: "(\<forall>i. int i < ?r \<longrightarrow> below i) \<and> (\<forall>i. ?r \<le> int i \<longrightarrow> i < n \<longrightarrow> \<not> below i)"
    by (rule bsearch_loop_inv) (use assms in \<open>auto simp: below_prefix_def\<close>)
  show ?thesis
    by (rule that [of "nat ?r"]) (use bounds inv in auto)
qed

section \<open>Lists\<close>

lemma find_first_nth:
  "i < length xs \<Longrightarrow> P (xs ! i) \<Longrightarrow> (\<And>j. j < i \<Longrightarrow> \<not> P (xs ! j)) \<Longrightarrow> find P xs = Some (xs ! i)"
  unfolding find_Some_iff by blast

lemma find_none_nth: "(\<And>i. i < length xs \<Longrightarrow> \<not> P (xs ! i)) \<Longrightarrow> find P xs = None"
  unfolding find_None_iff by (metis in_set_conv_nth)

lemma take_drop_while:
  assumes "\<forall>x\<in>set f. P x" and "r = [] \<or> \<not> P (hd r)"
  shows "takeWhile P (f @ r) = f" "dropWhile P (f @ r) = r"
  using assms by (cases r; simp)+

text \<open>The fields of a list with separator \<open>c\<close>; there is one field more than separators.\<close>

fun split_on :: "'a \<Rightarrow> 'a list \<Rightarrow> 'a list list" where
  "split_on c [] = [[]]"
| "split_on c (x # xs) =
     (if x = c then [] # split_on c xs
      else (x # hd (split_on c xs)) # tl (split_on c xs))"

lemma split_on_not_Nil [simp]: "split_on c xs \<noteq> []"
  by (cases xs) auto

lemma length_split_on: "length (split_on c xs) = Suc (count_list xs c)"
  by (induction xs) auto

lemma split_on_field [simp]: "c \<notin> set f \<Longrightarrow> split_on c f = [f]"
  by (induction f) auto

lemma split_on_append [simp]: "c \<notin> set f \<Longrightarrow> split_on c (f @ c # r) = f # split_on c r"
  by (induction f) auto

fun join_with :: "'a list \<Rightarrow> 'a list list \<Rightarrow> 'a list" where
  "join_with sep [] = []"
| "join_with sep [f] = f"
| "join_with sep (f # g # fs) = f @ sep @ join_with sep (g # fs)"

lemma split_join: "fs \<noteq> [] \<Longrightarrow> \<forall>f\<in>set fs. c \<notin> set f \<Longrightarrow> split_on c (join_with [c] fs) = fs"
  by (induction "[c]" fs rule: join_with.induct) auto

end
