(* ===== verification/LwsArgs.thy ===== *)
theory LwsArgs
  imports LwsPrelude
begin

text \<open>
  URL decoding and the parsing of query arguments, \<open>lws_unescape_url\<close> and \<open>lws_parseargs\<close> of
  src/lws_lib.c. The code scans with pointers; here the bytes from a pointer to the end are a list.
  The Lua table that \<open>lws_parseargs\<close> builds with \<open>lua_rawset\<close> is a map from strings to strings, and
  an argument error or \<open>luaL_error\<close> is a value of \<open>args_error\<close>.
\<close>

abbreviation (input) CHR_PLUS :: byte where "CHR_PLUS \<equiv> 43"
abbreviation (input) CHR_SPACE :: byte where "CHR_SPACE \<equiv> 32"
abbreviation (input) CHR_PERCENT :: byte where "CHR_PERCENT \<equiv> 37"
abbreviation (input) CHR_AMP :: byte where "CHR_AMP \<equiv> 38"
abbreviation (input) CHR_EQ :: byte where "CHR_EQ \<equiv> 61"

section \<open>URL decoding\<close>

text \<open>The value of a hexadecimal digit, as the three tests of the code compute it.\<close>

definition hex_digit :: "byte \<Rightarrow> byte option" where
  "hex_digit b =
     (if 48 \<le> b \<and> b \<le> 57 then Some (b - 48)
      else if 97 \<le> b \<and> b \<le> 102 then Some (b - 97 + 10)
      else if 65 \<le> b \<and> b \<le> 70 then Some (b - 65 + 10)
      else None)"

text \<open>The loop of the decoder: \<open>state\<close> and \<open>c\<close> are its variables, \<open>prev\<close> is the byte before the
  pointer, to which the code can step back by one, and the result is what it writes.\<close>

function unescape_loop :: "nat \<Rightarrow> byte \<Rightarrow> byte \<Rightarrow> ngx_str \<Rightarrow> ngx_str" where
  "unescape_loop state c prev [] =
     (if state = 1 then [CHR_PERCENT] else if state = 2 then [CHR_PERCENT, prev] else [])"
| "unescape_loop state c prev (b # s) =
     (if state = 0 then
        if b = CHR_PLUS then CHR_SPACE # unescape_loop 0 c b s
        else if b = CHR_PERCENT then unescape_loop 1 c b s
        else b # unescape_loop 0 c b s
      else if state = 1 then
        case hex_digit b of
          Some v \<Rightarrow> unescape_loop 2 (v * 16) b s
        | None \<Rightarrow> CHR_PERCENT # unescape_loop 0 c prev (b # s)
      else
        case hex_digit b of
          Some v \<Rightarrow> (c + v) # unescape_loop 0 c b s
        | None \<Rightarrow> CHR_PERCENT # unescape_loop 0 c prev (prev # b # s))"
  by pat_completeness auto
termination
  by (relation "measure (\<lambda>(state, c, prev, s).
      3 * length s + (if state = 0 then 0 else if state = 1 then 2 else 4))") auto

declare unescape_loop.simps [simp del]

definition lws_unescape_url :: "ngx_str \<Rightarrow> ngx_str" where
  "lws_unescape_url src = unescape_loop 0 0 0 src"

text \<open>The decoding that is meant: \<open>+\<close> is a space, \<open>%\<close> with two hexadecimal digits is a byte, and
  everything else, a \<open>%\<close> without two digits included, stands for itself.\<close>

definition escape_at :: "ngx_str \<Rightarrow> byte option" where
  "escape_at s =
     (case s of
        x # y # _ \<Rightarrow> (case (hex_digit x, hex_digit y) of (Some v, Some w) \<Rightarrow> Some (v * 16 + w) | _ \<Rightarrow> None)
      | _ \<Rightarrow> None)"

function url_decode :: "ngx_str \<Rightarrow> ngx_str" where
  "url_decode [] = []"
| "url_decode (b # s) =
     (if b = CHR_PLUS then CHR_SPACE # url_decode s
      else if b = CHR_PERCENT \<and> escape_at s \<noteq> None
      then the (escape_at s) # url_decode (drop 2 s)
      else b # url_decode s)"
  by pat_completeness auto
termination
  by (relation "measure length") auto

declare url_decode.simps(2) [simp del]

lemma hex_digit_special: "hex_digit CHR_PERCENT = None" "hex_digit CHR_PLUS = None"
  by (simp_all add: hex_digit_def)

lemma hex_not_special: "hex_digit b = Some v \<Longrightarrow> b \<noteq> CHR_PERCENT \<and> b \<noteq> CHR_PLUS"
  using hex_digit_special by auto

lemma url_decode_plain:
  "b \<noteq> CHR_PLUS \<Longrightarrow> b \<noteq> CHR_PERCENT \<Longrightarrow> url_decode (b # s) = b # url_decode s"
  by (simp add: url_decode.simps)

lemma url_decode_cases:
  "url_decode (CHR_PLUS # s) = CHR_SPACE # url_decode s"
  "url_decode [CHR_PERCENT] = [CHR_PERCENT]"
  "url_decode [CHR_PERCENT, x] = CHR_PERCENT # url_decode [x]"
  "hex_digit x = None \<Longrightarrow> url_decode (CHR_PERCENT # x # s) = CHR_PERCENT # url_decode (x # s)"
  "hex_digit y = None \<Longrightarrow>
    url_decode (CHR_PERCENT # x # y # s) = CHR_PERCENT # url_decode (x # y # s)"
  "hex_digit x = Some v \<Longrightarrow> hex_digit y = Some w \<Longrightarrow>
    url_decode (CHR_PERCENT # x # y # s) = (v * 16 + w) # url_decode s"
  by (simp_all add: url_decode.simps(2) [of CHR_PLUS] url_decode.simps(2) [of CHR_PERCENT]
      escape_at_def split: list.split option.split)

lemma url_decode_hex: "hex_digit x = Some v \<Longrightarrow> url_decode (x # s) = x # url_decode s"
  using hex_not_special [of x v] by (simp add: url_decode_plain)

text \<open>In state 1 a \<open>%\<close> was read, in state 2 a \<open>%\<close> and the digit \<open>prev\<close>.\<close>

lemma unescape_loop_decode:
  "(state = 0 \<longrightarrow> unescape_loop state c prev s = url_decode s) \<and>
   (state = 1 \<longrightarrow> unescape_loop state c prev s = url_decode (CHR_PERCENT # s)) \<and>
   (state = 2 \<longrightarrow> (\<exists>v. hex_digit prev = Some v \<and> c = v * 16) \<longrightarrow>
      unescape_loop state c prev s = url_decode (CHR_PERCENT # prev # s))"
proof (induction state c prev s rule: unescape_loop.induct)
  case (1 state c prev)
  show ?case by (auto simp: unescape_loop.simps(1) url_decode_cases(2,3) url_decode_hex)
next
  case (2 state c prev b s)
  show ?case
  proof (intro conjI impI)
    assume state: "state = 0"
    show "unescape_loop state c prev (b # s) = url_decode (b # s)"
    proof (cases "b = CHR_PLUS")
      case True
      with 2(1) state show ?thesis by (simp add: unescape_loop.simps(2) url_decode_cases(1))
    next
      case False
      with 2(2,3) state show ?thesis by (simp add: unescape_loop.simps(2) url_decode_plain)
    qed
  next
    assume state: "state = 1"
    show "unescape_loop state c prev (b # s) = url_decode (CHR_PERCENT # b # s)"
    proof (cases "hex_digit b")
      case None
      with 2(4) state show ?thesis by (simp add: unescape_loop.simps(2) url_decode_cases(4))
    next
      case (Some v)
      with 2(5) state show ?thesis by (simp add: unescape_loop.simps(2))
    qed
  next
    assume state: "state = 2" "\<exists>v. hex_digit prev = Some v \<and> c = v * 16"
    show "unescape_loop state c prev (b # s) = url_decode (CHR_PERCENT # prev # b # s)"
    proof (cases "hex_digit b")
      case None
      with 2(6) state show ?thesis
        by (auto simp: unescape_loop.simps(2) url_decode_cases(5) url_decode_hex)
    next
      case (Some v)
      with 2(7) state show ?thesis by (auto simp: unescape_loop.simps(2) url_decode_cases(6))
    qed
  qed
qed

text \<open>The decoder writes at most as many bytes as it reads.\<close>

lemma url_decode_length: "length (url_decode s) \<le> length s"
proof (induction s rule: url_decode.induct)
  case (2 b s)
  have "escape_at s \<noteq> None \<Longrightarrow> 2 \<le> length s"
    by (auto simp: escape_at_def split: list.splits)
  with 2 show ?case by (auto simp: url_decode.simps)
qed simp

text \<open>Percent encoding of every byte is inverted.\<close>

definition hex_char :: "byte \<Rightarrow> byte" where
  "hex_char v = (if v < 10 then v + 48 else v - 10 + 65)"

definition url_encode :: "ngx_str \<Rightarrow> ngx_str" where
  "url_encode s = concat (map (\<lambda>b. [CHR_PERCENT, hex_char (b div 16), hex_char (b mod 16)]) s)"

lemma hex_char_all: "map (\<lambda>n. hex_digit (hex_char (word_of_nat n))) [0..<16] = map (Some \<circ> word_of_nat) [0..<16]"
  by code_simp

lemma hex_char_digit: "v < 16 \<Longrightarrow> hex_digit (hex_char v) = Some v"
proof -
  assume "v < 16"
  then have "unat v < 16" by (simp add: word_less_nat_alt)
  with arg_cong [OF hex_char_all, of "\<lambda>xs. xs ! unat v"] show ?thesis by simp
qed

lemma byte_digits: "(b :: byte) div 16 < 16" "b mod 16 < 16" "b div 16 * 16 + b mod 16 = b"
  using unsigned_less [of b, where 'a = nat]
  by (simp_all add: word_less_nat_alt unat_div unat_mod less_mult_imp_div_less word_mod_div_equality)

lemma url_decode_encode: "url_decode (url_encode s) = s"
proof (induction s)
  case (Cons b s)
  have "url_encode (b # s) = CHR_PERCENT # hex_char (b div 16) # hex_char (b mod 16) # url_encode s"
    by (simp add: url_encode_def)
  with Cons show ?case
    by (simp add: url_decode_cases(6) [OF hex_char_digit hex_char_digit] byte_digits)
qed (simp add: url_encode_def)

section \<open>Parsing arguments\<close>

datatype args_error = LimitOutOfRange | TooManyFields | ArgumentTooLong

definition LWS_PARSEARGS_MAX_FIELDS_DEFAULT :: int where
  "LWS_PARSEARGS_MAX_FIELDS_DEFAULT = 255"

definition INT_MAX :: int where
  "INT_MAX = 2147483647"

text \<open>The loop that counts the fields; \<open>None\<close> if there are too many.\<close>

fun parseargs_count :: "int \<Rightarrow> int \<Rightarrow> ngx_str \<Rightarrow> int option" where
  "parseargs_count max_fields nrec [] = Some nrec"
| "parseargs_count max_fields nrec (b # pos) =
     (if b = CHR_AMP then
        if nrec = max_fields then None else parseargs_count max_fields (nrec + 1) pos
      else parseargs_count max_fields nrec pos)"

text \<open>The parse loop. In state 1 the decoded key is on the Lua stack. \<open>buffer\<close> is the size of the
  string buffer before Lua 5.2, and \<open>None\<close> if buffers grow. At the end of the arguments, the test
  \<open>*pos == '='\<close> of the code reads the NUL byte that follows every Lua string.\<close>

function parseargs_loop ::
  "nat option \<Rightarrow> nat \<Rightarrow> ngx_str \<Rightarrow> ngx_str \<Rightarrow> (ngx_str \<rightharpoonup> ngx_str) \<Rightarrow> args_error + (ngx_str \<rightharpoonup> ngx_str)" where
  "parseargs_loop buffer state key start tbl =
     (let part = (\<lambda>b. b \<noteq> CHR_AMP \<and> (state \<noteq> 0 \<or> b \<noteq> CHR_EQ));
          n = length (takeWhile part start);
          pos = dropWhile part start;
          str = (if n > 0 then lws_unescape_url (takeWhile part start) else [])
      in
      if (case buffer of Some m \<Rightarrow> n > m | None \<Rightarrow> False) then Inl ArgumentTooLong
      else
        let (state, key, tbl) =
              (if state = 0 then
                 if pos \<noteq> [] \<and> hd pos = CHR_EQ then (1, str, tbl)
                 else if n > 0 then (0, key, tbl(str \<mapsto> [])) else (0, key, tbl)
               else (0, key, tbl(key \<mapsto> str)))
        in if pos = [] then Inr tbl else parseargs_loop buffer state key (tl pos) tbl)"
  by pat_completeness auto
termination
proof (relation "measure (\<lambda>(buffer, state, key, start, tbl). length start)", goal_cases)
  case (2 buffer state key start tbl part n pos)
  then have "0 < length pos" by simp
  moreover have "length pos \<le> length start" using 2(3) by (simp add: length_dropWhile_le)
  ultimately show ?case by (cases pos) simp_all
qed simp

declare parseargs_loop.simps [simp del]

definition lws_parseargs ::
  "nat option \<Rightarrow> ngx_str \<Rightarrow> int option \<Rightarrow> args_error + (ngx_str \<rightharpoonup> ngx_str)" where
  "lws_parseargs buffer args opt_limit =
     (let limit = (case opt_limit of Some l \<Rightarrow> l | None \<Rightarrow> LWS_PARSEARGS_MAX_FIELDS_DEFAULT) in
      if \<not> (limit > 0 \<and> limit \<le> INT_MAX) then Inl LimitOutOfRange
      else if args = [] then Inr Map.empty
      else case parseargs_count limit 1 args of
        None \<Rightarrow> Inl TooManyFields
      | Some nrec \<Rightarrow> parseargs_loop buffer 0 [] args Map.empty)"

section \<open>What the parser computes\<close>

lemma lws_unescape_url_decode: "lws_unescape_url s = url_decode s"
  using unescape_loop_decode [of 0 0 0 s] by (simp add: lws_unescape_url_def)

definition field_key :: "ngx_str \<Rightarrow> ngx_str" where
  "field_key f = takeWhile (\<lambda>b. b \<noteq> CHR_EQ) f"

definition field_value :: "ngx_str \<Rightarrow> ngx_str" where
  "field_value f = tl (dropWhile (\<lambda>b. b \<noteq> CHR_EQ) f)"

definition add_field :: "(ngx_str \<rightharpoonup> ngx_str) \<Rightarrow> ngx_str \<Rightarrow> (ngx_str \<rightharpoonup> ngx_str)" where
  "add_field tbl f =
     (if f = [] then tbl else tbl(url_decode (field_key f) \<mapsto> url_decode (field_value f)))"

definition too_long :: "nat option \<Rightarrow> ngx_str \<Rightarrow> bool" where
  "too_long buffer s = (case buffer of Some m \<Rightarrow> m < length s | None \<Rightarrow> False)"

definition field_too_long :: "nat option \<Rightarrow> ngx_str \<Rightarrow> bool" where
  "field_too_long buffer f \<longleftrightarrow> too_long buffer (field_key f) \<or> too_long buffer (field_value f)"

lemma too_long_Nil [simp]: "\<not> too_long buffer []"
  by (simp add: too_long_def split: option.split)

lemma parse_key:
  assumes "takeWhile (\<lambda>b. b \<noteq> CHR_AMP \<and> b \<noteq> CHR_EQ) s = f"
    and "dropWhile (\<lambda>b. b \<noteq> CHR_AMP \<and> b \<noteq> CHR_EQ) s = r"
  shows "parseargs_loop buffer 0 key s tbl =
    (if too_long buffer f then Inl ArgumentTooLong
     else if r \<noteq> [] \<and> hd r = CHR_EQ then parseargs_loop buffer 1 (url_decode f) (tl r) tbl
     else let tbl = (if f = [] then tbl else tbl(url_decode f \<mapsto> [])) in
       if r = [] then Inr tbl else parseargs_loop buffer 0 key (tl r) tbl)"
proof -
  have "(\<lambda>b. b \<noteq> CHR_AMP \<and> ((0::nat) \<noteq> 0 \<or> b \<noteq> CHR_EQ)) = (\<lambda>b. b \<noteq> CHR_AMP \<and> b \<noteq> CHR_EQ)"
    by simp
  note part = this assms
  show ?thesis
    by (simp only: parseargs_loop.simps [of buffer 0 key s tbl] Let_def part)
       (simp add: too_long_def lws_unescape_url_decode cong: if_cong)
qed

lemma parse_value:
  assumes "takeWhile (\<lambda>b. b \<noteq> CHR_AMP) s = f" "dropWhile (\<lambda>b. b \<noteq> CHR_AMP) s = r"
  shows "parseargs_loop buffer 1 key s tbl =
    (if too_long buffer f then Inl ArgumentTooLong
     else if r = [] then Inr (tbl(key \<mapsto> url_decode f))
     else parseargs_loop buffer 0 key (tl r) (tbl(key \<mapsto> url_decode f)))"
proof -
  have "(\<lambda>b. b \<noteq> CHR_AMP \<and> ((1::nat) \<noteq> 0 \<or> b \<noteq> CHR_EQ)) = (\<lambda>b. b \<noteq> CHR_AMP)" by simp
  note part = this assms
  show ?thesis
    by (simp only: parseargs_loop.simps [of buffer 1 key s tbl] Let_def part)
       (simp add: too_long_def lws_unescape_url_decode cong: if_cong)
qed

lemma field_cases:
  obtains "CHR_EQ \<notin> set f" "field_key f = f" "field_value f = []"
  | "f = field_key f @ CHR_EQ # field_value f" "CHR_EQ \<notin> set (field_key f)"
proof (cases "CHR_EQ \<in> set f")
  case False
  then have "field_key f = f \<and> field_value f = []"
    by (induction f) (auto simp: field_key_def field_value_def)
  with False that(1) show thesis by blast
next
  case True
  then have "f = field_key f @ CHR_EQ # field_value f"
    by (induction f) (auto simp: field_key_def field_value_def)
  moreover have "CHR_EQ \<notin> set (field_key f)" by (auto simp: field_key_def dest: set_takeWhileD)
  ultimately show thesis by (rule that(2))
qed

text \<open>One field of the arguments, up to the next \<open>&\<close>.\<close>

lemma parse_field:
  assumes "CHR_AMP \<notin> set f" "r = [] \<or> hd r = CHR_AMP"
  shows "\<exists>key'. parseargs_loop buffer 0 key (f @ r) tbl =
    (if field_too_long buffer f then Inl ArgumentTooLong
     else if r = [] then Inr (add_field tbl f)
     else parseargs_loop buffer 0 key' (tl r) (add_field tbl f))"
proof (cases rule: field_cases [of f])
  case 1
  then have "\<forall>b\<in>set f. b \<noteq> CHR_AMP \<and> b \<noteq> CHR_EQ" using assms(1) by auto
  from parse_key [OF take_drop_while [OF this], of r buffer key tbl] assms(2) 1 show ?thesis
    by (auto simp: Let_def field_too_long_def add_field_def)
next
  case 2
  let ?k = "field_key f" and ?v = "field_value f"
  have k: "\<forall>b\<in>set ?k. b \<noteq> CHR_AMP \<and> b \<noteq> CHR_EQ"
    using 2 assms(1) by (auto simp: field_key_def dest: set_takeWhileD)
  have "set ?v \<subseteq> set f" by (subst (2) 2(1)) auto
  then have v: "\<forall>b\<in>set ?v. b \<noteq> CHR_AMP" using assms(1) by auto
  have s: "f @ r = ?k @ CHR_EQ # ?v @ r" and "f \<noteq> []" by (subst 2(1); simp)+
  note key = parse_key [OF take_drop_while [OF k], of "CHR_EQ # ?v @ r" buffer key tbl]
  note val = parse_value [OF take_drop_while [OF v], of r buffer "url_decode ?k" tbl]
  have "parseargs_loop buffer 0 key (f @ r) tbl = (if too_long buffer ?k then Inl ArgumentTooLong
      else parseargs_loop buffer 1 (url_decode ?k) (?v @ r) tbl)"
    unfolding s using key by simp
  moreover note val
  ultimately show ?thesis using assms(2) \<open>f \<noteq> []\<close>
    by (simp add: field_too_long_def add_field_def cong: if_cong) blast
qed

lemma parseargs_loop_correct:
  "parseargs_loop buffer 0 key s tbl =
     (if list_ex (field_too_long buffer) (split_on CHR_AMP s) then Inl ArgumentTooLong
      else Inr (foldl add_field tbl (split_on CHR_AMP s)))"
proof (induction "length s" arbitrary: key s tbl rule: less_induct)
  case less
  let ?P = "\<lambda>b. b \<noteq> CHR_AMP"
  have f: "CHR_AMP \<notin> set (takeWhile ?P s)" by (auto dest: set_takeWhileD)
  obtain f r where s: "s = f @ r" "CHR_AMP \<notin> set f" "r = [] \<or> hd r = CHR_AMP"
    using that [of "takeWhile ?P s" "dropWhile ?P s"] f hd_dropWhile [of ?P s] by auto
  from parse_field [OF s(2,3), of buffer key tbl] obtain key' where
    step: "parseargs_loop buffer 0 key (f @ r) tbl =
      (if field_too_long buffer f then Inl ArgumentTooLong
       else if r = [] then Inr (add_field tbl f)
       else parseargs_loop buffer 0 key' (tl r) (add_field tbl f))" by blast
  show ?case
  proof (cases r)
    case Nil
    with step s show ?thesis by simp
  next
    case (Cons b r')
    with s have "split_on CHR_AMP s = f # split_on CHR_AMP r'" "length r' < length s" by auto
    with step s(1) Cons less [of r' key' "add_field tbl f"] show ?thesis by simp
  qed
qed

lemma parseargs_count_correct:
  "nrec \<le> max_fields \<Longrightarrow> parseargs_count max_fields nrec s =
     (if nrec + int (count_list s CHR_AMP) \<le> max_fields
      then Some (nrec + int (count_list s CHR_AMP)) else None)"
  by (induction s arbitrary: nrec) auto

section \<open>Properties\<close>

text \<open>The URL decoder of the code, a state machine that steps back over a digit that turns out not
  to be part of an escape, computes the decoding that is meant, for every input; it writes at most
  as many bytes as it reads, so the buffer that the parser reserves is large enough; and it inverts
  the percent encoding of any string of bytes.\<close>

theorem lws_unescape_url_correct:
  "lws_unescape_url s = url_decode s \<and> length (lws_unescape_url s) \<le> length s \<and>
     lws_unescape_url (url_encode s) = s"
  by (simp add: lws_unescape_url_decode url_decode_length url_decode_encode)

text \<open>C33: \<open>lws_parseargs\<close> parses arguments as splitting at every \<open>&\<close>, then at the first \<open>=\<close>, and decoding
  both parts does: fields that are empty are skipped, a field without \<open>=\<close> has an empty value, and the
  last of several fields with the same key counts. It refuses a limit out of range, more fields than
  the limit and, where buffers do not grow, parts that do not fit a buffer, and nothing else.\<close>

theorem lws_parseargs_correct:
  "lws_parseargs buffer args opt_limit =
     (let limit = (case opt_limit of Some l \<Rightarrow> l | None \<Rightarrow> 255) in
      if limit \<le> 0 \<or> INT_MAX < limit then Inl LimitOutOfRange
      else if limit < int (length (split_on CHR_AMP args)) then Inl TooManyFields
      else if list_ex (field_too_long buffer) (split_on CHR_AMP args) then Inl ArgumentTooLong
      else Inr (foldl add_field Map.empty (split_on CHR_AMP args)))"
proof -
  define limit where "limit = (case opt_limit of Some l \<Rightarrow> l | None \<Rightarrow> 255)"
  have "(case opt_limit of Some l \<Rightarrow> l | None \<Rightarrow> LWS_PARSEARGS_MAX_FIELDS_DEFAULT) = limit"
    by (cases opt_limit) (simp_all add: limit_def LWS_PARSEARGS_MAX_FIELDS_DEFAULT_def)
  moreover have "\<not> field_too_long buffer []"
    by (simp add: field_too_long_def field_key_def field_value_def)
  ultimately show ?thesis
    unfolding lws_parseargs_def Let_def limit_def [symmetric]
    by (cases "args = []") (auto simp: not_less parseargs_count_correct length_split_on
        parseargs_loop_correct add_field_def)
qed

definition query_field :: "ngx_str \<times> ngx_str \<Rightarrow> ngx_str" where
  "query_field kv = url_encode (fst kv) @ [CHR_EQ] @ url_encode (snd kv)"

definition query_string :: "(ngx_str \<times> ngx_str) list \<Rightarrow> ngx_str" where
  "query_string kvs = join_with [CHR_AMP] (map query_field kvs)"

lemma hex_char_plain: "v < 16 \<Longrightarrow> hex_char v \<noteq> CHR_AMP \<and> hex_char v \<noteq> CHR_EQ"
  using hex_char_digit [of v] by (auto simp: hex_digit_def)

lemma url_encode_plain: "CHR_AMP \<notin> set (url_encode s)" "CHR_EQ \<notin> set (url_encode s)"
proof -
  have "hex_char (b div 16) \<noteq> CHR_AMP \<and> hex_char (b div 16) \<noteq> CHR_EQ"
    "hex_char (b mod 16) \<noteq> CHR_AMP \<and> hex_char (b mod 16) \<noteq> CHR_EQ" for b
    by (simp_all only: hex_char_plain byte_digits simp_thms)
  then show "CHR_AMP \<notin> set (url_encode s)" "CHR_EQ \<notin> set (url_encode s)"
    by (auto simp: url_encode_def dest: sym)
qed

lemma add_query_field:
  "add_field tbl (query_field kv) = tbl(fst kv \<mapsto> snd kv)"
  "CHR_AMP \<notin> set (query_field kv)"
proof -
  have k: "field_key (query_field kv) = url_encode (fst kv)"
    "field_value (query_field kv) = url_encode (snd kv)"
  proof -
    have "\<forall>b\<in>set (url_encode (fst kv)). b \<noteq> CHR_EQ" using url_encode_plain(2) by metis
    from take_drop_while [OF this, of "CHR_EQ # url_encode (snd kv)"]
    show "field_key (query_field kv) = url_encode (fst kv)"
      "field_value (query_field kv) = url_encode (snd kv)"
      by (simp_all add: field_key_def field_value_def query_field_def)
  qed
  then show "add_field tbl (query_field kv) = tbl(fst kv \<mapsto> snd kv)"
    by (simp add: add_field_def url_decode_encode) (simp add: query_field_def)
  show "CHR_AMP \<notin> set (query_field kv)" by (simp add: query_field_def url_encode_plain)
qed

lemma query_fields: "kvs \<noteq> [] \<Longrightarrow> split_on CHR_AMP (query_string kvs) = map query_field kvs"
  unfolding query_string_def by (rule split_join) (auto simp: add_query_field(2))

text \<open>C34: The arguments that a client makes from keys and values, percent encoding both, parse back to
  the map of these keys and values.\<close>

theorem lws_parseargs_roundtrip:
  assumes "kvs \<noteq> []" "int (length kvs) \<le> limit" "limit \<le> INT_MAX"
  shows "lws_parseargs None (query_string kvs) (Some limit) =
    Inr (foldl (\<lambda>tbl kv. tbl(fst kv \<mapsto> snd kv)) Map.empty kvs)"
proof -
  have "query_string kvs \<noteq> []"
    using query_fields [OF assms(1)] assms(1) by (cases kvs) (auto simp: query_field_def)
  moreover have "list_ex (field_too_long None) fs = False" for fs
    by (induction fs) (simp_all add: field_too_long_def too_long_def)
  moreover have "0 < limit" using assms by (cases kvs) auto
  moreover have "Suc (count_list (query_string kvs) CHR_AMP) = length kvs"
    by (metis length_map length_split_on query_fields [OF assms(1)])
  ultimately show ?thesis using assms(2,3)
    by (simp add: lws_parseargs_def Let_def parseargs_count_correct parseargs_loop_correct
        query_fields [OF assms(1)] foldl_map add_query_field(1))
qed

theorem lws_parseargs_roundtrip_witness:
  "lws_parseargs None (query_string [(lit ''a&b'', lit ''c=d''), (lit ''e'', [])]) (Some 2) =
     Inr [lit ''a&b'' \<mapsto> lit ''c=d'', lit ''e'' \<mapsto> []]"
  using lws_parseargs_roundtrip [of "[(lit ''a&b'', lit ''c=d''), (lit ''e'', [])]" 2]
  by (simp add: INT_MAX_def)

end
