(* ===== verification/LwsPrimes.thy ===== *)
theory LwsPrimes
  imports LwsPrelude
begin

text \<open>
  Prime numbers, as far as the hash table needs them: its probe sequences visit every slot only
  because every table size is a prime. The sizes reach \<open>2 ^ 48\<close>, too large for trial division in
  the kernel, so this theory proves Pocklington's criterion and a certificate checker that rests
  on it. HOL-Library has no theory of primes, hence the elementary facts at the start.
\<close>

section \<open>Primes\<close>

definition prime_nat :: "nat \<Rightarrow> bool" where
  "prime_nat p \<longleftrightarrow> 1 < p \<and> (\<forall>d. d dvd p \<longrightarrow> d = 1 \<or> d = p)"

lemma prime_natD: "prime_nat p \<Longrightarrow> 1 < p" "prime_nat p \<Longrightarrow> d dvd p \<Longrightarrow> d = 1 \<or> d = p"
  by (auto simp: prime_nat_def)

lemma prime_nat_coprime: "prime_nat p \<Longrightarrow> \<not> p dvd a \<Longrightarrow> coprime p a"
  unfolding coprime_iff_gcd_eq_1 by (metis gcd_dvd1 gcd_dvd2 prime_natD(2))

lemma prime_nat_dvd_mult: "prime_nat p \<Longrightarrow> p dvd a * b \<longleftrightarrow> p dvd a \<or> p dvd b"
  by (metis coprime_dvd_mult_left_iff coprime_dvd_mult_right_iff dvd_mult dvd_mult2
      prime_nat_coprime)

lemma prime_nat_not_dvd_small: "0 < a \<Longrightarrow> a < p \<Longrightarrow> \<not> p dvd (a :: nat)"
  using dvd_imp_le by fastforce

lemma prime_nat_not_dvd_fact: "prime_nat p \<Longrightarrow> n < p \<Longrightarrow> \<not> p dvd fact n"
proof (induction n)
  case 0
  then show ?case by (simp add: prime_nat_def)
next
  case (Suc n)
  then show ?case
    using prime_nat_not_dvd_small [of "Suc n" p]
    by (simp add: prime_nat_dvd_mult del: mult_Suc)
qed

lemma prime_nat_2: "prime_nat 2"
  unfolding prime_nat_def
proof (intro conjI allI impI)
  fix d :: nat assume "d dvd 2"
  moreover from this have "d \<le> 2" by (rule dvd_imp_le) simp
  moreover from calculation have "d \<noteq> 0" by (intro notI) simp
  ultimately show "d = 1 \<or> d = 2" by linarith
qed simp

lemma prime_nat_exists_dvd:
  assumes "n \<noteq> 1" shows "\<exists>p. prime_nat p \<and> p dvd n"
proof (cases "n = 0")
  case True
  then show ?thesis using prime_nat_2 by auto
next
  case False
  with assms show ?thesis
  proof (induction n rule: less_induct)
    case (less n)
    show ?case
    proof (cases "prime_nat n")
      case True
      then show ?thesis by auto
    next
      case False
      with less.prems obtain d where d: "d dvd n" "d \<noteq> 1" "d \<noteq> n"
        by (auto simp: prime_nat_def)
      with less.prems have "d < n" "d \<noteq> 0"
        using dvd_imp_le le_neq_implies_less by (auto intro: dvd_imp_le le_neq_implies_less)
      with less.IH [of d] d show ?thesis using dvd_trans by blast
    qed
  qed
qed

section \<open>Fermat's little theorem\<close>

lemma mult_mod_permutes:
  assumes "prime_nat p" "\<not> p dvd a"
  shows "bij_betw (\<lambda>x. a * x mod p) {1..p - 1} {1..p - 1}"
proof -
  have p: "1 < p" using assms(1) by (rule prime_natD)
  have inj: "inj_on (\<lambda>x. a * x mod p) {1..p - 1}"
  proof (rule linorder_inj_onI)
    fix x y assume xy: "x < y" "x \<in> {1..p - 1}" "y \<in> {1..p - 1}"
    show "a * x mod p \<noteq> a * y mod p"
    proof
      assume "a * x mod p = a * y mod p"
      then have "p dvd a * y - a * x"
        using xy by (metis mod_eq_dvd_iff_nat mult_le_mono2 less_imp_le)
      then have "p dvd a * (y - x)" by (simp add: diff_mult_distrib2)
      with assms have "p dvd y - x" by (simp add: prime_nat_dvd_mult)
      with xy show False using prime_nat_not_dvd_small [of "y - x" p] by auto
    qed
  qed auto
  have "a * x mod p \<in> {1..p - 1}" if "x \<in> {1..p - 1}" for x
  proof -
    have "\<not> p dvd x" using that p by (intro prime_nat_not_dvd_small) auto
    then have "a * x mod p \<noteq> 0"
      using assms by (auto simp: prime_nat_dvd_mult simp flip: dvd_eq_mod_eq_0)
    moreover have "a * x mod p < p" using p by simp
    ultimately show ?thesis by simp
  qed
  then have "(\<lambda>x. a * x mod p) ` {1..p - 1} \<subseteq> {1..p - 1}" by blast
  with inj show ?thesis
    by (simp add: bij_betw_def endo_inj_surj)
qed

theorem fermat_little:
  assumes "prime_nat p" "\<not> p dvd a"
  shows "a ^ (p - 1) mod p = 1"
proof -
  let ?S = "{1..p - 1}"
  have p: "1 < p" using assms(1) by (rule prime_natD)
  have "(\<Prod>x\<in>?S. a * x) mod p = (\<Prod>x\<in>?S. a * x mod p) mod p"
    by (simp add: mod_prod_eq)
  also have "(\<Prod>x\<in>?S. a * x mod p) = \<Prod>?S"
    using mult_mod_permutes [OF assms] by (rule prod.reindex_bij_betw)
  also have "\<Prod>?S = fact (p - 1)" by (simp add: fact_prod)
  finally have "a ^ (p - 1) * fact (p - 1) mod p = fact (p - 1) mod p"
    by (simp add: prod.distrib fact_prod)
  moreover have "1 \<le> a ^ (p - 1)"
    using assms(2) by (cases "a = 0") auto
  ultimately have "p dvd (a ^ (p - 1) - 1) * fact (p - 1)"
    by (metis mod_eq_dvd_iff_nat diff_mult_distrib mult_1 mult_le_mono1)
  then have "p dvd a ^ (p - 1) - 1"
    using assms p by (simp add: prime_nat_dvd_mult prime_nat_not_dvd_fact)
  then have "a ^ (p - 1) mod p = 1 mod p"
    using \<open>1 \<le> a ^ (p - 1)\<close> mod_eq_dvd_iff_nat by blast
  with p show ?thesis by simp
qed

section \<open>Pocklington's criterion\<close>

lemma prime_power_dvd_cases:
  assumes "prime_nat q" "d dvd q ^ Suc k"
  shows "d = q ^ Suc k \<or> d dvd q ^ k"
proof -
  obtain c where c: "q ^ Suc k = d * c" using assms(2) by (rule dvdE)
  show ?thesis
  proof (cases "q dvd c")
    case True
    then obtain c' where "c = q * c'" by (rule dvdE)
    with c assms(1) have "q ^ k = d * c'"
      by (metis mult.left_commute mult_cancel1 not_one_less_zero power_Suc prime_natD(1))
    then show ?thesis by simp
  next
    case False
    with assms(1) have "coprime c (q ^ Suc k)"
      by (metis coprime_commute coprime_power_right_iff prime_nat_coprime)
    with c have "c = 1"
      by (metis coprime_mult_right_iff coprime_self nat_dvd_1_iff_1 is_unit_gcd coprime_def
          dvd_refl)
    with c show ?thesis by simp
  qed
qed

lemma power_mod_eq_1: "b ^ m mod p = 1 \<Longrightarrow> 1 < p \<Longrightarrow> b ^ (m * c) mod p = (1 :: nat)"
  by (metis power_mod power_mult power_one mod_less)

lemma power_mod_gcd_eq_1:
  fixes b m k p :: nat
  assumes "b ^ m mod p = 1" "b ^ k mod p = 1" "1 < p" "0 < m"
  shows "b ^ gcd m k mod p = 1"
proof -
  obtain x y where xy: "m * x = k * y + gcd m k"
    using bezout_nat [of m k] assms(4) by auto
  have "b ^ (m * x) mod p = (b ^ (k * y) mod p) * b ^ gcd m k mod p"
    by (simp add: xy power_add mod_mult_left_eq)
  with power_mod_eq_1 [OF assms(1,3)] power_mod_eq_1 [OF assms(2,3)] show ?thesis
    by simp
qed

lemma prime_power_dvd_pred:
  assumes "prime_nat p" "prime_nat q"
    and "b ^ (q ^ Suc k) mod p = 1" "b ^ (q ^ k) mod p \<noteq> 1"
  shows "q ^ Suc k dvd p - 1"
proof (rule ccontr)
  assume contra: "\<not> q ^ Suc k dvd p - 1"
  have p: "1 < p" using assms(1) by (rule prime_natD)
  have q: "0 < q ^ Suc k" using prime_natD(1) [OF assms(2)] by simp
  have "\<not> p dvd b"
  proof
    assume "p dvd b"
    then have "p dvd b ^ (q ^ Suc k)" using q by (metis dvd_power dvd_trans)
    with assms(3) show False by (simp add: dvd_eq_mod_eq_0)
  qed
  with assms(1) have "b ^ (p - 1) mod p = 1" by (rule fermat_little)
  with assms(3) p q have one: "b ^ gcd (q ^ Suc k) (p - 1) mod p = 1"
    by (intro power_mod_gcd_eq_1)
  have "gcd (q ^ Suc k) (p - 1) \<noteq> q ^ Suc k" using contra by (metis gcd_dvd2)
  with prime_power_dvd_cases [OF assms(2), of "gcd (q ^ Suc k) (p - 1)" k]
  obtain c where "q ^ k = gcd (q ^ Suc k) (p - 1) * c" by (auto simp del: power_Suc)
  with power_mod_eq_1 [OF one p] assms(4) show False by metis
qed

lemma prime_powers_coprime:
  "prime_nat p \<Longrightarrow> prime_nat q \<Longrightarrow> p \<noteq> q \<Longrightarrow> coprime (p ^ j) (q ^ k)"
  by (metis coprime_power_left_iff coprime_power_right_iff prime_natD prime_nat_coprime
      less_irrefl)

text \<open>The product of prime powers, each of which divides \<open>m\<close>, divides \<open>m\<close>.\<close>

definition prime_powers :: "(nat \<times> nat) list \<Rightarrow> nat" where
  "prime_powers fs = (\<Prod>(q, k)\<leftarrow>fs. q ^ k)"

lemma prime_powers_Cons [simp]: "prime_powers ((q, k) # fs) = q ^ k * prime_powers fs"
  by (simp add: prime_powers_def)

lemma prime_powers_Nil [simp]: "prime_powers [] = 1"
  by (simp add: prime_powers_def)

lemma coprime_prime_powers:
  "prime_nat p \<Longrightarrow> \<forall>(q, k)\<in>set fs. prime_nat q \<and> q \<noteq> p \<Longrightarrow> coprime (p ^ j) (prime_powers fs)"
  by (induction fs)
    (auto simp: prime_powers_coprime simp del: coprime_power_left_iff coprime_power_right_iff)

lemma prime_powers_dvd:
  "distinct (map fst fs) \<Longrightarrow> \<forall>(q, k)\<in>set fs. prime_nat q \<and> q ^ k dvd m \<Longrightarrow>
   prime_powers fs dvd m"
proof (induction fs)
  case (Cons f fs)
  obtain q k where f: "f = (q, k)" by (cases f)
  from Cons.prems f have "coprime (q ^ k) (prime_powers fs)"
    by (intro coprime_prime_powers) (auto simp: image_iff)
  with Cons f show ?case by (auto intro: divides_mult)
qed simp

theorem pocklington:
  assumes n: "1 < n" "n < prime_powers fs * prime_powers fs"
    and fs: "distinct (map fst fs)"
    and one: "a ^ (n - 1) mod n = 1"
    and each: "\<And>q k. (q, k) \<in> set fs \<Longrightarrow> prime_nat q \<and> 0 < k \<and> q ^ k dvd n - 1 \<and>
      (\<forall>p. prime_nat p \<longrightarrow> p dvd n \<longrightarrow> a ^ ((n - 1) div q) mod p \<noteq> 1)"
  shows "prime_nat n"
proof (rule ccontr)
  assume "\<not> prime_nat n"
  with n obtain d where d: "d dvd n" "d \<noteq> 1" "d \<noteq> n" by (auto simp: prime_nat_def)
  then obtain c where c: "n = d * c" by (auto elim: dvdE)
  with d have "c \<noteq> 1" by auto
  have "c \<noteq> 0" "d \<noteq> 0"
    using n(1) c by (metis mult_0_right mult_0 not_one_less_zero)+
  have big: "prime_powers fs < p" if p: "prime_nat p" "p dvd n" for p
  proof -
    have "q ^ k dvd p - 1" if qk: "(q, k) \<in> set fs" for q k
    proof -
      from each [OF qk] obtain j where j: "k = Suc j" by (cases k) auto
      from each [OF qk] obtain m where m: "n - 1 = q ^ k * m" by (auto elim: dvdE)
      have q: "0 < q" using each [OF qk] prime_natD(1) [of q] by auto
      have "(a ^ m) ^ (q ^ Suc j) mod p = 1"
      proof -
        have "(a ^ m) ^ (q ^ Suc j) = a ^ (n - 1)" by (metis m j mult.commute power_mult)
        moreover have "a ^ (n - 1) mod p = 1"
          using one p(2) prime_natD(1) [OF p(1)] by (metis mod_less mod_mod_cancel)
        ultimately show ?thesis by simp
      qed
      moreover have "(a ^ m) ^ (q ^ j) mod p \<noteq> 1"
      proof -
        have "(n - 1) div q = m * q ^ j" using m j q by (simp add: mult.commute)
        with each [OF qk] p show ?thesis by (metis power_mult)
      qed
      ultimately show ?thesis
        using prime_power_dvd_pred [OF p(1)] each [OF qk] j by metis
    qed
    with each have "prime_powers fs dvd p - 1"
      by (intro prime_powers_dvd [OF fs]) auto
    moreover have "0 < p - 1" using prime_natD(1) [OF p(1)] by simp
    ultimately show ?thesis by (auto dest: dvd_imp_le)
  qed
  from prime_nat_exists_dvd [OF d(2)] prime_nat_exists_dvd [OF \<open>c \<noteq> 1\<close>]
  obtain p r where pr: "prime_nat p" "p dvd d" "prime_nat r" "r dvd c" by auto
  have "prime_powers fs < p" "prime_powers fs < r" using big pr c by auto
  moreover have "p \<le> d" "r \<le> c"
    using pr \<open>c \<noteq> 0\<close> \<open>d \<noteq> 0\<close> by (auto intro!: dvd_imp_le)
  ultimately have "prime_powers fs * prime_powers fs \<le> d * c"
    by (intro mult_le_mono) simp_all
  with n c show False by simp
qed

section \<open>Certificates\<close>

text \<open>
  A certificate replaces every modular reduction by a quotient and a remainder, so that checking
  it takes multiplications only. \<open>pow_chain n x cur e steps\<close> continues a left-to-right binary
  power of \<open>x\<close> modulo \<open>n\<close> from \<open>cur\<close>, a power with exponent \<open>e\<close>: each step squares, multiplies by
  \<open>x\<close> if its bit is set, and replaces the result by the congruent \<open>r\<close>.
\<close>

fun pow_chain :: "int \<Rightarrow> int \<Rightarrow> int \<Rightarrow> int \<Rightarrow> (bool \<times> int \<times> int) list \<Rightarrow> (int \<times> int) option" where
  "pow_chain n x cur e [] = Some (cur, e)"
| "pow_chain n x cur e ((b, q, r) # steps) =
     (if (if b then cur * cur * x else cur * cur) = q * n + r
      then pow_chain n x r (if b then 2 * e + 1 else 2 * e) steps else None)"

lemma pow_chain_sound:
  "pow_chain n x cur e steps = Some (r, e') \<Longrightarrow> 0 \<le> e \<Longrightarrow> n dvd cur - x ^ nat e \<Longrightarrow>
   0 \<le> e' \<and> n dvd r - x ^ nat e'"
proof (induction n x cur e steps rule: pow_chain.induct)
  case (2 n x cur e b q r0 steps)
  define y where "y = (if b then cur * cur * x else cur * cur)"
  define e2 where "e2 = (if b then 2 * e + 1 else 2 * e)"
  define f where "f = (if b then x else 1)"
  from "2.prems"(1) have y: "y = q * n + r0" and rest: "pow_chain n x r0 e2 steps = Some (r, e')"
    unfolding y_def e2_def by (simp_all split: if_splits)
  have "nat e2 = nat e + nat e + (if b then 1 else 0)"
    using "2.prems"(2) unfolding e2_def by auto
  then have pw: "x ^ nat e2 = x ^ nat e * x ^ nat e * f"
    unfolding f_def by (simp add: power_add)
  have "n dvd (cur - x ^ nat e) * ((cur + x ^ nat e) * f)" using "2.prems"(3) by simp
  also have "(cur - x ^ nat e) * ((cur + x ^ nat e) * f) = y - x ^ nat e2"
    unfolding pw y_def f_def by (simp add: algebra_simps)
  finally have "n dvd (y - x ^ nat e2) - q * n" by simp
  then have "n dvd r0 - x ^ nat e2" unfolding y by (simp add: algebra_simps)
  moreover have "0 \<le> e2" using "2.prems"(2) unfolding e2_def by simp
  ultimately show ?case
    using "2.IH" [folded y_def e2_def, OF y rest] by simp
qed simp

text \<open>
  A certificate for \<open>n\<close>: a base \<open>a\<close>, a chain from \<open>a\<close> to \<open>c = a ^ E\<close>, the prime powers
  \<open>q ^ k\<close> (with cofactor \<open>w\<close>), each with a chain from \<open>c\<close> to \<open>b = c ^ m\<close> where
  \<open>E * m * q = n - 1\<close> and an inverse \<open>u\<close> of \<open>b - 1\<close>, and one last chain from the first \<open>b\<close> to 1.
\<close>

datatype prime_factor = PF (pf_q: int) (pf_k: nat) (pf_w: int)
  (pf_chain: "(bool \<times> int \<times> int) list") (pf_u: int) (pf_v: int)

datatype prime_cert = PC (pc_n: int) (pc_a: int) (pc_chain: "(bool \<times> int \<times> int) list")
  (pc_factors: "prime_factor list") (pc_last: "(bool \<times> int \<times> int) list")

fun factor_ok :: "int \<Rightarrow> int \<Rightarrow> int \<Rightarrow> prime_factor \<Rightarrow> bool" where
  "factor_ok n c ec (PF q k w chain u v) =
     (0 < k \<and> 1 < q \<and> 0 < w \<and> q ^ k * w = n - 1 \<and>
      (case pow_chain n c c 1 chain of
        None \<Rightarrow> False
      | Some (b, m) \<Rightarrow> ec * m * q = n - 1 \<and> (b - 1) * u = v * n + 1))"

definition last_ok :: "int \<Rightarrow> int \<Rightarrow> int \<Rightarrow> prime_factor \<Rightarrow> (bool \<times> int \<times> int) list \<Rightarrow> bool" where
  "last_ok n c ec pf steps =
     (case pow_chain n c c 1 (pf_chain pf) of
        None \<Rightarrow> False
      | Some (b, m) \<Rightarrow>
          (case pow_chain n b b 1 steps of None \<Rightarrow> False
           | Some (r, q) \<Rightarrow> ec * m * q = n - 1 \<and> r = 1))"

fun cert_ok :: "prime_cert \<Rightarrow> bool" where
  "cert_ok (PC n a chain fs steps) =
     (1 < n \<and> 0 \<le> a \<and> fs \<noteq> [] \<and> distinct (map pf_q fs) \<and>
      (case pow_chain n a a 1 chain of
        None \<Rightarrow> False
      | Some (c, ec) \<Rightarrow> list_all (factor_ok n c ec) fs \<and> last_ok n c ec (hd fs) steps) \<and>
      n < (prod_list (map (\<lambda>f. pf_q f ^ pf_k f) fs)) ^ 2)"

lemma pow_chain_mod:
  assumes "pow_chain n x x 1 steps = Some (r, e)"
  shows "0 \<le> e \<and> r mod n = x ^ nat e mod n"
  using pow_chain_sound [OF assms] by (simp add: mod_eq_dvd_iff)

lemma pow_chain_mod2:
  assumes c: "c mod n = a ^ nat ec mod n" "0 \<le> ec"
    and "pow_chain n c c 1 steps = Some (b, m)"
  shows "0 \<le> m \<and> b mod n = a ^ nat (ec * m) mod n"
proof -
  from pow_chain_mod [OF assms(3)] have m: "0 \<le> m" and b: "b mod n = c ^ nat m mod n" by auto
  have "c ^ nat m mod n = (a ^ nat ec) ^ nat m mod n" by (metis c(1) power_mod)
  with b m c(2) show ?thesis by (simp add: nat_mult_distrib power_mult)
qed

lemma int_power_mod_eq_1_iff:
  "1 < p \<Longrightarrow> int a ^ k mod int p = 1 \<longleftrightarrow> a ^ k mod p = 1"
  by (metis of_nat_1 of_nat_eq_iff of_nat_mod of_nat_power)

lemma factor_ok_sound:
  assumes fok: "factor_ok n c ec (PF q k w chain u v)"
    and c: "c mod n = int A ^ nat ec mod n" "0 \<le> ec" and n: "n = int N" "1 < N"
    and p: "prime_nat p" "p dvd N"
  shows "nat q ^ k dvd N - 1" "0 < k" "A ^ ((N - 1) div nat q) mod p \<noteq> 1"
proof -
  from fok obtain b m where bm: "pow_chain n c c 1 chain = Some (b, m)"
    and em: "ec * m * q = n - 1" and inv: "(b - 1) * u = v * n + 1"
    and q: "1 < q" and k: "0 < k" and w: "0 < w" "q ^ k * w = n - 1"
    by (auto split: option.splits)
  from pow_chain_mod2 [OF c bm] have m: "0 \<le> m"
    and b: "b mod n = int A ^ nat (ec * m) mod n" by auto
  have "nat (q ^ k * w) = N - 1" using w(2) n by simp
  moreover have "nat (q ^ k * w) = nat q ^ k * nat w"
    using q by (simp add: nat_mult_distrib nat_power_eq)
  ultimately show "nat q ^ k dvd N - 1" by (metis dvd_triv_left)
  show "0 < k" by (rule k)
  have "nat (ec * m) * nat q = N - 1"
    using em n m c(2) q by (metis nat_mult_distrib mult_nonneg_nonneg nat_diff_distrib'
        nat_int nat_one_as_int of_nat_0_le_iff zero_le_one)
  then have div: "(N - 1) div nat q = nat (ec * m)" using q by (metis
        nonzero_mult_div_cancel_right nat_0_iff not_le zero_less_one less_trans)
  have p1: "1 < p" using p(1) by (rule prime_natD)
  have pn: "int p dvd n" using p(2) n by simp
  show "A ^ ((N - 1) div nat q) mod p \<noteq> 1"
  proof
    assume "A ^ ((N - 1) div nat q) mod p = 1"
    then have "int A ^ nat (ec * m) mod int p = 1"
      unfolding div using p1 by (simp add: int_power_mod_eq_1_iff)
    with b pn p1 have "b mod int p = 1 mod int p" by (metis mod_mod_cancel mod_pos_pos_trivial
          of_nat_1 of_nat_less_iff zero_le_one)
    then have "int p dvd (b - 1) * u" by (simp add: mod_eq_dvd_iff)
    moreover have "int p dvd v * n" using pn by simp
    ultimately have "int p dvd 1" using inv by (metis dvd_add_right_iff)
    with p1 show False by simp
  qed
qed

lemma last_ok_sound:
  assumes "last_ok n c ec pf steps"
    and c: "c mod n = int A ^ nat ec mod n" "0 \<le> ec" and n: "n = int N" "1 < N"
  shows "A ^ (N - 1) mod N = 1"
proof -
  from assms(1) obtain b m q where b: "pow_chain n c c 1 (pf_chain pf) = Some (b, m)"
    and r: "pow_chain n b b 1 steps = Some (1, q)" and em: "ec * m * q = n - 1"
    by (auto simp: last_ok_def split: option.splits)
  from pow_chain_mod2 [OF c b] have m: "0 \<le> m" "b mod n = int A ^ nat (ec * m) mod n" by auto
  with c(2) pow_chain_mod2 [OF m(2) _ r] have "1 mod n = int A ^ nat (ec * m * q) mod n"
    by simp
  then have "int A ^ (N - 1) mod int N = 1"
    using em n by (simp add: nat_diff_distrib)
  with n show ?thesis by (simp add: int_power_mod_eq_1_iff)
qed

theorem cert_ok_sound:
  assumes ok: "cert_ok cert" and primes: "\<And>f. f \<in> set (pc_factors cert) \<Longrightarrow> prime_nat (nat (pf_q f))"
  shows "prime_nat (nat (pc_n cert))"
proof -
  obtain n a chain fs steps where cert: "cert = PC n a chain fs steps" by (cases cert)
  define N where "N = nat n"
  define A where "A = nat a"
  define fs2 where "fs2 = map (\<lambda>f. (nat (pf_q f), pf_k f)) fs"
  from ok cert obtain c ec where c: "pow_chain n a a 1 chain = Some (c, ec)"
    and n: "1 < n" and a: "0 \<le> a" and fs: "fs \<noteq> []" "distinct (map pf_q fs)"
    and all: "\<And>f. f \<in> set fs \<Longrightarrow> factor_ok n c ec f" and last: "last_ok n c ec (hd fs) steps"
    and big: "n < (prod_list (map (\<lambda>f. pf_q f ^ pf_k f) fs)) ^ 2"
    by (auto split: option.splits simp: list_all_iff)
  have N: "n = int N" "1 < N" and A: "a = int A" using n a by (auto simp: N_def A_def)
  from pow_chain_mod [OF c] A have cm: "c mod n = int A ^ nat ec mod n" "0 \<le> ec" by auto
  have q: "1 < pf_q f" if "f \<in> set fs" for f
    using all [OF that] by (cases f) simp
  have "prod_list (map (\<lambda>f. pf_q f ^ pf_k f) fs) = int (prime_powers fs2)"
    unfolding fs2_def using q
    by (induction fs) (simp_all add: less_imp_le less_trans [of 0 1])
  with big N have F: "N < prime_powers fs2 * prime_powers fs2"
    by (simp add: power2_eq_square flip: of_nat_mult)
  have "inj_on nat (pf_q ` set fs)"
    using q by (auto intro!: inj_onI simp: eq_nat_nat_iff less_imp_le less_trans [of 0 1])
  with fs(2) have dist: "distinct (map fst fs2)"
    by (simp add: fs2_def comp_def distinct_map inj_on_def)
  have each: "prime_nat q \<and> 0 < k \<and> q ^ k dvd N - 1 \<and>
      (\<forall>p. prime_nat p \<longrightarrow> p dvd N \<longrightarrow> A ^ ((N - 1) div q) mod p \<noteq> 1)"
    if "(q, k) \<in> set fs2" for q k
  proof -
    from that obtain w ch u v z where f: "PF z k w ch u v \<in> set fs" "q = nat z"
      unfolding fs2_def by (auto simp: image_iff) (metis prime_factor.collapse)
    from primes [of "PF z k w ch u v"] f cert have "prime_nat q" by simp
    moreover obtain p where "prime_nat p" "p dvd N"
      using prime_nat_exists_dvd [of N] N(2) by auto
    ultimately show ?thesis
      using factor_ok_sound [OF all [OF f(1)] cm N] f(2) by blast
  qed
  have "prime_nat N"
    by (rule pocklington [OF N(2) F dist last_ok_sound [OF last cm N] each])
  with cert N show ?thesis by simp
qed

text \<open>A list of certificates, each of which may use the primes below 100 and those certified
  before it.\<close>

definition small_primes :: "int list" where
  "small_primes = [2, 3, 5, 7, 11, 13, 17, 19, 23, 29, 31, 37, 41, 43, 47, 53, 59, 61, 67, 71,
     73, 79, 83, 89, 97]"

fun certs_ok :: "int list \<Rightarrow> prime_cert list \<Rightarrow> bool" where
  "certs_ok known [] = True"
| "certs_ok known (c # cs) =
     (list_all (\<lambda>f. List.member (if pf_q f < 100 then small_primes else known) (pf_q f))
        (pc_factors c) \<and> cert_ok c \<and> certs_ok (pc_n c # known) cs)"

lemma prime_nat_trial:
  assumes "1 < n" "n < k * k" "\<And>d. 1 < d \<Longrightarrow> d < k \<Longrightarrow> d dvd n \<Longrightarrow> d = n"
  shows "prime_nat n"
  unfolding prime_nat_def
proof (intro conjI allI impI)
  fix d assume d: "d dvd n"
  then obtain c where c: "n = d * c" by (rule dvdE)
  have "d < k \<or> c < k"
    using assms(2) c by (meson linorder_not_less mult_le_mono)
  then show "d = 1 \<or> d = n"
  proof
    assume "d < k"
    moreover have "d \<noteq> 0" using c assms(1) by (intro notI) simp
    ultimately show ?thesis using assms(3) [of d] d by (cases "d = 1") auto
  next
    assume "c < k"
    moreover have "c \<noteq> 0" using c assms(1) by (intro notI) simp
    ultimately have "c = 1 \<or> c = n"
      using assms(3) [of c] c by (metis dvd_triv_right less_one linorder_neqE_nat)
    with c assms(1) show ?thesis by auto
  qed
qed (rule assms(1))

definition trial_ok :: "int \<Rightarrow> bool" where
  "trial_ok q \<longleftrightarrow> 1 < q \<and> q < 121 \<and>
     list_all (\<lambda>d. q mod d \<noteq> 0 \<or> d = q) [2, 3, 4, 5, 6, 7, 8, 9, 10]"

lemma small_primes_trial: "list_all trial_ok small_primes"
  by code_simp

lemma trial_okD:
  "trial_ok q \<Longrightarrow> d \<in> {2, 3, 4, 5, 6, 7, 8, 9, 10} \<Longrightarrow> q mod d = 0 \<Longrightarrow> d = q"
  unfolding trial_ok_def by (elim insertE emptyE) simp_all

lemma small_primes_prime: "q \<in> set small_primes \<Longrightarrow> prime_nat (nat q)"
proof (rule prime_nat_trial [where k = 11])
  assume "q \<in> set small_primes"
  with small_primes_trial have trial: "trial_ok q" unfolding list_all_iff by (rule bspec)
  then have q: "1 < q" "q < 121" by (simp_all add: trial_ok_def)
  then show "1 < nat q" "nat q < 11 * 11" by auto
  fix d :: nat assume d: "1 < d" "d < 11" "d dvd nat q"
  have "int d dvd int (nat q)" using d(3) by (simp only: int_dvd_int_iff)
  then have "int d dvd q" using q by simp
  moreover have "int d \<in> {2, 3, 4, 5, 6, 7, 8, 9, 10}" using d by auto
  ultimately have "int d = q" by (intro trial_okD [OF trial]) (simp_all add: dvd_eq_mod_eq_0)
  then show "d = nat q" by simp
qed

lemma certs_ok_sound:
  "certs_ok known certs \<Longrightarrow> (\<And>q. q \<in> set known \<Longrightarrow> prime_nat (nat q)) \<Longrightarrow>
   q \<in> set (map pc_n certs) \<Longrightarrow> prime_nat (nat q)"
proof (induction known certs rule: certs_ok.induct)
  case (2 known c cs)
  have c: "prime_nat (nat (pc_n c))"
  proof (rule cert_ok_sound)
    show "cert_ok c" using "2.prems"(1) by simp
    fix f assume "f \<in> set (pc_factors c)"
    with "2.prems"(1) have "pf_q f \<in> set small_primes \<or> pf_q f \<in> set known"
      by (auto simp: list_all_iff split: if_splits)
    then show "prime_nat (nat (pf_q f))"
      using small_primes_prime "2.prems"(2) by blast
  qed
  have "prime_nat (nat q)" if "q \<in> set (pc_n c # known)" for q
    using that c "2.prems"(2) by auto
  with "2.IH" "2.prems"(1,3) c show ?case by auto
qed simp

end
