(* ===== verification/LwsPrimeCerts.thy ===== *)
theory LwsPrimeCerts
  imports LwsPrimes
begin

text \<open>
  Primality certificates, in the format of \<open>cert_ok\<close>, for the table sizes of lws_table.c and for
  the prime factors that their certificates use. The numbers were computed outside the kernel;
  the kernel checks every one of them here (multiplications and comparisons only), chunk by chunk.
\<close>

definition certs_1 :: "prime_cert list" where
  "certs_1 = [
     PC 127 3 [(False,0,9), (True,1,116), (False,105,121), (True,345,108)] [PF 3 2 14
       [(False,91,107)] 6 5, PF 2 1 63 [(True,9918,126)] 63 62] [(True,9646,1)],
     PC 157 2 [(True,0,8), (False,0,64), (False,26,14)] [PF 13 1 12 [] 145 12] [(True,17,75),
       (False,35,130), (True,1507,1)],
     PC 211 2 [(True,0,8), (True,0,128), (False,77,137)] [PF 5 1 42 [(True,12186,107)] 2 1, PF 3 1
       70 [(False,88,201), (True,26231,196)] 145 134] [(False,54,55), (True,1534,1)],
     PC 277 2 [(True,0,8), (False,0,64), (False,14,218)] [PF 23 1 12 [] 60 47] [(False,171,157),
       (True,19398,236), (True,43832,264), (True,54851,1)],
     PC 373 2 [(True,0,8), (False,0,64), (False,10,366)] [PF 31 1 12 [] 233 228]
       [(True,131442,30), (True,883,41), (True,1649,169), (True,28025,1)],
     PC 499 2 [(True,0,8), (False,0,64)] [PF 83 1 6 [] 301 38] [(False,8,104), (True,1387,111),
       (False,24,345), (False,238,263), (True,8871,187), (True,4485,1)],
     PC 659 2 [(True,0,8), (True,0,128), (False,24,568)] [PF 47 1 14 [] 308 265] [(False,489,373),
       (True,119916,628), (True,339924,196), (True,33111,139), (True,16653,1)],
     PC 877 2 [(True,0,8), (False,0,64), (False,4,588)] [PF 73 1 12 [] 251 168] [(False,394,206),
       (False,48,340), (True,77506,38), (False,1,567), (False,366,507), (True,172343,1)],
     PC 1171 2 [(False,0,4), (False,0,16), (True,0,512), (True,447,851), (True,1236,1046),
       (False,934,402)] [PF 3 2 130 [(False,138,6), (True,12,420)] 640 229, PF 5 1 234
       [(True,55478,70)] 594 35] [(True,63269,1)],
     PC 1553 2 [(False,0,4), (False,0,16), (False,0,256), (False,42,310)] [PF 97 1 16 [] 970 193]
       [(True,19182,1354), (False,1180,776), (False,387,1165), (False,873,1456), (False,1365,91),
       (True,1653,1)],
     PC 2081 3 [(True,0,27), (False,0,729), (True,766,277), (False,36,1813), (False,1579,1070),
       (False,550,350), (False,58,1802)] [PF 2 5 65 [(False,1560,844), (True,616832,2080)] 1040
       1039, PF 5 1 416 [(False,1560,844)] 432 175] [(False,2079,1)],
     PC 461 2 [(False,0,4), (True,0,32), (False,2,102), (False,22,262)] [PF 23 1 20 [] 325 184]
       [(False,148,416), (True,98352,400), (True,90932,348), (True,68827,1)],
     PC 2767 2 [(True,0,8), (False,0,64)] [PF 461 1 6 [] 1669 38] [(True,94,2046),
       (True,96823,2183), (False,1722,715), (False,184,2097), (True,101710,2606),
       (True,157079,1511), (False,825,346), (True,2769,1)],
     PC 3691 2 [(True,0,8), (True,0,128), (True,8,3240), (False,2844,396)] [PF 41 1 90
       [(True,16824,1752)] 3027 1436, PF 3 2 410 [(False,42,1794), (True,345299,2047),
       (False,1135,924), (False,231,1155), (True,143124,3216)] 1388 1209] [(False,831,2283),
       (True,2474012,1636), (False,725,521), (False,73,1998), (True,1894877,1)],
     PC 409 7 [(False,0,49), (False,5,356), (False,309,355), (True,2156,371), (False,336,217),
       (False,115,54)] [PF 2 3 51 [(True,384,408)] 204 203, PF 3 1 136 [(False,7,53)] 118 15]
       [(False,407,1)],
     PC 4909 2 [(True,0,8), (False,0,64), (False,0,4096)] [PF 409 1 12 [] 3142 2621]
       [(True,13998671,797), (False,129,1948), (False,773,47), (True,1843,777),
       (True,503742,4506), (False,4136,412), (False,34,2838), (True,6720347,1)],
     PC 109 3 [(False,0,9), (False,0,81), (True,180,63), (False,36,45), (False,18,63)] [PF 3 3 4
       [] 51 29] [(True,2294,1)],
     PC 1091 2 [(False,0,4), (True,0,32), (False,0,1024)] [PF 109 1 10 [] 369 346]
       [(True,984181,353), (False,114,235), (True,51833,597), (True,334521,405), (False,150,375),
       (True,131989,1)],
     PC 6547 2 [(True,0,8), (False,0,64)] [PF 1091 1 6 [] 3949 38] [(False,0,4096),
       (False,2562,3802), (False,2207,5975), (True,348990,2470), (False,931,5643),
       (False,4863,5388), (False,4434,1146), (False,200,3916), (True,149907,2455), (True,58917,1)],
     PC 8731 2 [(False,0,4), (True,0,32), (True,0,2048), (False,480,3424), (True,2685,4817),
       (False,2657,5222)] [PF 97 1 90 [] 7838 4687] [(True,16309724,804), (False,74,322),
       (False,11,7643), (False,6690,5059), (False,2931,2920), (True,5099629,1)],
     PC 727 2 [(False,0,4), (False,0,16), (False,0,256), (False,90,106), (True,30,662),
       (False,602,590)] [PF 11 2 6 [] 511 414] [(False,478,594), (True,286345,425),
       (True,146587,1)],
     PC 11633 2 [(False,0,4), (False,0,16), (False,0,256), (False,5,7371)] [PF 727 1 16 [] 8765
       5553] [(False,4670,5531), (True,19383937,5410), (True,18545101,5167), (False,2295,154),
       (True,15027,1545), (False,205,2260), (True,3236320,9040), (True,51781132,5044),
       (True,16120735,1)],
     PC 15511 2 [(True,0,8), (True,0,128), (True,2,1746), (False,196,8360)] [PF 47 1 330
       [(False,4505,12545), (True,84821863,12007), (True,77702591,639)] 2650 109, PF 11 1 1410
       [(False,4505,12545), (True,84821863,12007), (True,77702591,639), (True,220073,11257),
       (True,68298601,9529)] 10733 6593] [(False,26,5035), (True,1044383,8062),
       (True,2677605,13161), (True,7135737,912), (True,34265,1)],
     PC 20681 2 [(False,0,4), (True,0,32), (False,0,1024), (False,50,14526), (False,10202,17114)]
       [PF 47 1 440 [(False,14162,4674), (True,18078292,10612), (True,93191108,1468)] 8388 595, PF
       11 1 1880 [(False,14162,4674), (True,18078292,10612), (True,93191108,1468),
       (True,1783331,12325), (True,125705375,5875)] 8052 2287] [(False,104,4200),
       (True,1252140,12660), (True,11376847,7993), (True,4534967,3405), (True,822979,1)],
     PC 197 2 [(True,0,8), (True,0,128), (False,83,33), (False,5,104)] [PF 7 2 4 [] 44 23]
       [(True,5709,191), (True,19259,1)],
     PC 27581 2 [(False,0,4), (False,0,16), (False,0,256), (True,4,20748), (True,31215,18093),
       (False,11868,25341), (False,23282,25439)] [PF 197 1 140 [] 14981 13817]
       [(True,596884220,7699), (False,2149,3032), (False,333,8551), (False,2651,2370),
       (True,5180679,11601), (False,4879,15502), (True,221648855,1)],
     PC 1531 2 [(True,0,8), (False,0,64), (False,2,1034), (True,1396,1036), (True,1402,130),
       (False,11,59)] [PF 3 2 170 [(False,2,419), (True,6765,884)] 215 124, PF 5 1 306
       [(True,134,225)] 745 109] [(True,451213,1)],
     PC 9187 2 [(True,0,8), (False,0,64)] [PF 1531 1 6 [] 3354 23] [(False,0,4096),
       (True,116876,2012), (True,28200,7816), (True,425574,2446), (True,41679,1651),
       (True,18988,8508), (True,504267,7167), (False,5591,1372), (True,13113,3445),
       (True,82677,1)],
     PC 36749 2 [(False,0,4), (False,0,16)] [PF 9187 1 4 [] 2450 1] [(False,0,256),
       (False,1,28787), (False,22550,1419), (True,876,24852), (True,268903,34117),
       (True,506776,3800), (True,6286,35786), (True,557571,28057), (False,21420,31669),
       (False,27291,8602), (False,2013,18667), (True,151713,9187), (True,36747,1)],
     PC 1361 3 [(False,0,9), (False,0,81), (False,4,1117), (True,2750,317), (False,73,1136),
       (False,948,268), (False,52,1052)] [PF 2 4 85 [(False,813,211), (True,34412,1360)] 680 679,
       PF 5 1 272 [(False,813,211)] 512 79] [(False,1359,1)],
     PC 8167 2 [(True,0,8), (False,0,64)] [PF 1361 1 6 [] 1426 11] [(False,0,4096),
       (True,131473,1833), (False,411,3252), (True,82874,298), (False,10,7134),
       (True,398826,1242), (False,188,7168), (False,6291,1627), (False,324,1021), (True,8169,1)],
     PC 49003 2 [(True,0,8), (False,0,64)] [PF 8167 1 6 [] 17890 23] [(True,5,17129),
       (True,383196,15436), (True,311190,42574), (True,2367261,19681), (True,505884,39052),
       (True,1991791,22683), (True,671983,347), (False,2,22403), (False,10242,5683),
       (True,42180,28756), (True,1079976,18376), (True,441021,1)],
     PC 389 2 [(False,0,4), (False,0,16)] [PF 97 1 4 [] 26 1] [(True,10,206), (False,109,35),
       (False,3,58), (False,8,252), (False,163,97), (True,387,1)],
     PC 65353 2 [(False,0,4), (True,0,32), (False,0,1024), (True,32,5856), (False,524,47764),
       (False,34908,57172), (False,50015,7289)] [PF 389 1 168 [] 43751 4879]
       [(True,5925681,48176), (False,35513,45887), (False,32219,8462), (False,1095,43909),
       (False,29501,21428), (True,51211287,52865), (False,42763,17886), (True,35680331,1)],
     PC 449 3 [(True,0,27), (True,4,391), (False,340,221), (False,108,349), (False,271,122),
       (False,33,67), (False,9,448)] [PF 2 6 7 [] 224 223] [(False,447,1)],
     PC 87107 2 [(True,0,8), (False,0,64), (False,0,4096), (False,192,52672), (False,31849,68741),
       (True,108494,63304), (False,46005,38881)] [PF 449 1 194 [] 42561 18997]
       [(True,674775369,84358), (True,3176412664,85436), (False,83797,4817), (False,266,33027),
       (False,12522,28875), (False,9571,64528), (False,47801,61077), (True,1665097864,1)]]"

definition certs_2 :: "prime_cert list" where
  "certs_2 = [
     PC 1451 2 [(False,0,4), (False,0,16), (True,0,512), (False,180,964), (False,640,656),
       (False,296,840), (True,972,828)] [PF 5 2 58 [(False,472,712)] 100 49, PF 2 1 725
       [(False,472,712), (True,289282,1450)] 725 724] [(False,349,545), (True,145749,1)],
     PC 2903 2 [(False,0,4)] [PF 1451 1 2 [] 968 1] [(False,0,16), (True,0,1024),
       (True,1444,2372), (False,1938,370), (True,188,1836), (False,1161,513), (True,362,1790),
       (False,1103,2091), (True,6024,1452), (True,2905,1)],
     PC 5807 2 [(False,0,4)] [PF 2903 1 2 [] 1936 1] [(False,0,16), (True,0,1024),
       (True,722,1650), (False,468,4824), (True,16029,3501), (False,2110,4231), (True,12330,5134),
       (False,4538,5790), (True,23092,1156), (True,920,2904), (True,5809,1)],
     PC 116141 2 [(False,0,4), (True,0,32), (False,0,1024), (False,9,3307)] [PF 5807 1 20 [] 46618
       1327] [(False,94,18995), (True,10273708,31847), (True,28879235,37428), (False,12061,78583),
       (True,175835209,40454), (False,14090,99426), (True,281480665,63367), (False,34573,33896),
       (True,32714895,44317), (True,55922855,86568), (True,213384761,62267), (True,110398842,1)],
     PC 911 3 [(True,0,27), (False,0,729), (True,1750,73), (False,5,774)] [PF 7 1 130
       [(False,657,549), (True,256075,49)] 19 1, PF 5 1 182 [(True,508984,400), (True,135938,482)]
       786 415] [(True,129,130), (True,909,1)],
     PC 154871 2 [(False,0,4), (True,0,32), (False,0,1024), (True,13,83829), (False,45375,29616),
       (True,11326,145966), (False,137573,5073)] [PF 911 1 170 [] 128764 4217] [(True,842994,243),
       (True,1934,35063), (False,7938,47971), (False,14858,143523), (False,133006,79303),
       (True,206003212,103405), (True,350249752,146833), (True,706223400,145497),
       (True,693430336,1)],
     PC 1259 2 [(False,0,4), (False,0,16), (False,0,256), (True,104,136), (False,14,870)] [PF 37 1
       34 [] 481 332] [(False,601,241), (False,46,167), (True,19271,1241), (False,1223,324),
       (True,72541,1)],
     PC 206477 2 [(False,0,4), (True,0,32), (False,0,1024), (False,5,16191), (True,2539,51859),
       (False,13024,199433), (False,192629,63456)] [PF 1259 1 164 [] 117066 35977]
       [(False,19501,155959), (False,117801,12604), (True,48822251,20369),
       (True,127508878,189610), (True,11049013073,183779), (False,163576,39089),
       (True,469580583,150885), (False,110260,129205), (True,5130499525,154975),
       (True,7381154587,1)],
     PC 2699 2 [(False,0,4), (False,0,16), (True,0,512), (True,194,682), (False,172,896)] [PF 71 1
       38 [] 2506 831] [(False,297,1213), (False,545,414), (False,63,1359), (True,613117,2593),
       (True,2232082,186), (True,11485,1)],
     PC 275299 2 [(True,0,8), (False,0,64), (False,0,4096), (True,121,243253),
       (True,429874,161692), (False,94966,258030)] [PF 2699 1 102 [] 107585 100836]
       [(False,241844,69544), (True,4532991469,101849), (False,37679,227780),
       (True,48629157530,200530), (False,146067,181867), (False,120144,82633),
       (False,24802,246891), (True,57131560420,208850), (False,158439,224239),
       (True,47128960901,7231), (True,49007471,1)],
     PC 367069 2 [(True,0,8), (False,0,64), (True,0,8192), (True,365,237543),
       (True,307444,192062), (False,100492,313896), (False,268425,202491), (True,223405,160217),
       (False,69930,351919), (False,337394,104375), (True,59357,166617), (True,151258,326576),
       (False,290549,352895)] [PF 13 2 2172 [(False,339268,115533)] 113296 35659, PF 2 2 91767
       [(True,119726091931,297136), (False,240526,164202), (True,25921174848,367068)] 183534
       183533] [(True,4201171815,164202), (False,73452,344616), (True,37379132363,1)],
     PC 271 2 [(False,0,4), (True,0,32), (True,7,151), (False,84,37), (True,10,28), (False,2,242)]
       [PF 3 3 10 [] 9 8] [(True,52297,1)],
     PC 489427 2 [(False,0,4), (True,0,32), (False,0,1024), (True,4,139444), (False,39729,183853)]
       [PF 271 1 1806 [(False,69064,139281), (True,7287298328,92677), (False,17549,71906),
       (True,1942285452,401104), (True,60436148910,3478)] 21818 155, PF 43 1 11382
       [(False,69064,139281), (False,39636,268389), (False,147177,257742), (False,135732,33000),
       (True,409082288,31024), (True,361558336,449856), (True,76020344123,488287),
       (True,89563925585,33962)] 318392 22093] [(False,24,350236), (False,250630,166686),
       (False,56768,430660), (False,378949,163377), (True,189680850,107712),
       (True,82446046,99590), (True,70481172,83356), (True,49375941,1)],
     PC 11251 7 [(False,0,49), (False,0,2401), (False,512,4289), (True,11445,952),
       (True,563,9815), (False,8562,3163), (False,889,2430), (True,3673,9377), (False,7815,1564),
       (True,1521,9901), (False,8712,11089)] [PF 5 4 18 [] 2830 2789] [(False,10929,3742),
       (True,13800945,1)],
     PC 652559 2 [(True,0,8), (True,0,128), (False,0,16384), (True,822,467414),
       (False,334798,399314)] [PF 11251 1 58 [] 391673 239672] [(False,244348,184064),
       (True,20731582987,504411), (False,389896,313057), (True,59971041523,311829),
       (True,59501478473,422267), (True,109111126279,469785), (True,135049519965,49215),
       (True,1482141719,260729), (True,41598093908,440902), (False,297895,510299),
       (False,399052,95333), (True,5561363380,420726), (True,108316210057,1)],
     PC 151 3 [(True,0,27), (True,14,73), (True,105,132), (False,115,59)] [PF 5 2 6 [] 138 53]
       [(False,23,8), (True,25,1)],
     PC 2719 2 [(False,0,4), (False,0,16), (True,0,512), (False,96,1120)] [PF 151 1 18 [] 814 335]
       [(False,461,941), (False,325,1806), (True,1343520,1440), (False,762,1722),
       (True,1221448,968), (True,385975,855), (True,301121,1)],
     PC 435041 2 [(False,0,4), (True,0,32), (False,0,1024), (False,2,178494),
       (False,73234,315442), (False,228722,207762), (False,99220,280624)] [PF 2719 1 160 [] 399822
       257905] [(False,181017,12679), (True,103696626,1918), (False,8,198396),
       (True,25389868163,17501), (False,704,16137), (False,598,248251), (True,39753615730,301694),
       (True,58712147871,385153), (True,95688818485,34331), (True,760269433,36311),
       (True,850493583,1)],
     PC 870083 2 [(False,0,4)] [PF 435041 1 2 [] 290028 1] [(True,0,64), (False,0,4096),
       (True,77,112473), (False,14539,38992), (True,6989,494169), (False,280666,285283),
       (False,93538,566435), (False,368756,282477), (True,366830,475226), (True,1038244,550052),
       (False,347733,630865), (True,1829667,440539), (True,892211,818571), (False,770108,603077),
       (False,418008,213265), (False,52273,111566), (False,14305,435041), (True,870081,1)],
     PC 1381 2 [(True,0,8), (False,0,64), (False,2,1334)] [PF 23 1 60 [(False,1288,828),
       (True,662251,425)] 114 35, PF 5 1 276 [(False,1288,828), (True,662251,425),
       (True,174477,1013), (True,991245,101)] 1091 79] [(False,130,1095), (True,368997,768),
       (True,181517,223), (True,15304,1)],
     PC 16573 2 [(True,0,8), (False,0,64), (False,0,4096)] [PF 1381 1 12 [] 1975 488]
       [(False,1012,5340), (True,7047601,6227), (False,2339,11282), (True,31457992,12888),
       (True,41051579,9457), (False,5396,6941), (False,2906,16343), (True,66011922,2998),
       (False,542,5438), (True,7308651,1)],
     PC 1160111 2 [(False,0,4), (False,0,16), (False,0,256), (True,0,131072), (True,29617,730881),
       (False,460462,4879)] [PF 16573 1 70 [] 401211 1687] [(False,20,602421),
       (False,312824,497777), (False,213584,793905), (False,543297,323058), (False,89962,565582),
       (False,275734,952250), (True,3813583290,792310), (False,541116,512224),
       (True,1103446089,556825), (True,1303973377,1004528), (True,4243804478,306078),
       (True,393999348,20208), (False,352,4192), (True,73905,1)],
     PC 70309 6 [(False,0,36), (True,0,7776), (True,5160,2616), (False,97,23483),
       (True,47059,36503), (True,113709,47973), (True,196396,46010), (False,30108,56728),
       (False,45770,23054), (False,7559,21185), (True,38299,60959), (True,317114,29860),
       (False,12681,31171)] [PF 3 4 868 [(False,13819,31170)] 36482 16173, PF 2 2 17577
       [(True,430765867,70308)] 35154 35153] [(True,430724411,1)],
     PC 1546799 2 [(False,0,4), (True,0,32), (True,0,2048), (False,2,1100706)] [PF 70309 1 22 []
       501033 356536] [(False,783265,179701), (False,20876,1473477), (False,1403630,989159),
       (True,696257144911,170497), (False,18793,233402), (False,35218,1326422),
       (True,1251990069420,1004724), (False,652618,1446394), (True,1488711949526,617342),
       (False,246386,1526550), (True,1658286321177,902577), (False,526665,345594),
       (False,77214,674850), (True,324079795145,394145), (False,100433,617058),
       (True,270950168617,1)],
     PC 18749 2 [(True,0,8), (False,0,64), (True,0,8192), (True,7158,12386), (False,8182,8678),
       (True,8033,4651), (False,1153,14204)] [PF 43 1 436 [(False,10760,14376)] 3262 2501, PF 2 2
       4687 [(False,10760,14376), (True,156570047,5501), (False,1614,115), (True,10019,1669),
       (True,2110304,18748)] 9374 9373] [(False,11022,17898), (True,245622961,115),
       (False,0,13225), (True,134106959,10709), (True,87934195,1)],
     PC 2062391 2 [(True,0,8), (False,0,64), (True,0,8192), (True,65,162313),
       (True,25548,1054670), (False,539339,909351)] [PF 18749 1 110 [] 871221 384139]
       [(False,400951,1507360), (False,1101699,67291), (True,1996523877,1436124),
       (False,1000029,1334037), (False,862908,1024341), (True,462646899426,1324065),
       (False,850056,280329), (False,38103,1063968), (True,499134600306,1787778),
       (True,1409248954181,1075913), (True,510404922212,1524827), (True,1025183695786,31753),
       (False,488,1806201), (True,1438443144250,1)],
     PC 2749847 5 [(True,0,125), (True,0,78125), (True,11097,2525966), (False,2320312,1240892),
       (True,2799815,1900015), (False,1312821,111838), (False,4548,1434088),
       (False,747899,570291), (False,118272,1920297), (True,6704992,704821),
       (False,180654,1782103), (False,1154933,2057358), (False,1539257,696485),
       (False,176406,1845343), (False,1238356,1256117), (True,2868941,786418)] [PF 11 3 2066
       [(False,224904,1681036)] 515413 315082, PF 2 1 1374923 [(False,224904,1681036),
       (True,808162962106,2275946), (True,1481387998686,2749846)] 1374923 1374922]
       [(False,1027650,1763746), (True,1901693697495,2153311), (True,2834536158765,1)],
     PC 26189 2 [(False,0,4), (False,0,16)] [PF 6547 1 4 [] 1746 1] [(True,0,4096),
       (False,640,16256), (False,10090,10526), (True,67690,13406), (True,109799,7365),
       (False,2071,5806), (False,1287,4393), (True,11790,6874), (False,1804,6920),
       (False,1828,12908), (True,101793,6547), (True,26187,1)],
     PC 3666461 2 [(False,0,4), (False,0,16), (False,0,256), (True,0,131072), (True,9371,1332337),
       (False,484151,1121958), (False,343325,2030939)] [PF 26189 1 140 [] 3171387 1756705]
       [(True,2284775685820,1542999), (False,649358,131963), (False,4749,2210080),
       (True,2705613757497,2201483), (True,2684605539179,826852), (False,186469,2913695),
       (False,2315480,1436745), (True,1143428988795,1573980), (False,675696,8544),
       (False,19,3337177), (True,6168907995229,1795362), (True,1785475384934,2491742),
       (False,1693398,470086), (True,122406489863,1)],
     PC 7591 2 [(True,0,8), (True,0,128), (True,4,2404), (False,761,2465)] [PF 23 1 330
       [(False,800,3425), (True,3809246,4239), (True,5835052,3533)] 6914 3217, PF 11 1 690
       [(False,800,3425), (True,3809246,4239), (True,5835052,3533), (True,4053266,7179)] 5367
       5075] [(False,1644,2485), (True,2874070,4555), (True,9656536,7549), (True,26523052,1)],
     PC 349187 2 [(False,0,4), (True,0,32), (True,0,2048), (True,24,8120), (False,188,287244)] [PF
       7591 1 46 [] 95713 78734] [(True,67872653858,309338), (True,78715352678,26750),
       (False,2049,78337), (True,5048086296,140484), (True,16234788223,285763),
       (False,233858,318723), (True,83564093854,204178), (False,119387,267315),
       (False,204639,30732), (True,776916863,68675), (True,3879629341,51733), (True,2201548345,1)],
     PC 4888619 2 [(True,0,8), (True,0,128), (False,0,16384)] [PF 349187 1 14 [] 3254305 10906]
       [(False,54,4450030), (True,66368136797,2332257), (False,1112670,3011319),
       (True,30391159975,4339699), (False,3852414,3134335), (True,32924908187,1990647),
       (False,810592,26161), (True,2293730,3478794), (False,2475547,1594843),
       (False,520295,172044), (False,6054,3438510), (False,2418546,1092126),
       (False,243982,4159018), (False,3538306,784910), (False,126024,387244),
       (False,30674,4416330), (True,65366733517,114577), (True,43997565,1)],
     PC 3001 2 [(False,0,4), (False,0,16), (True,0,512), (False,87,1057), (True,744,1754),
       (True,2050,982), (False,321,1003), (False,335,674), (False,151,1125)] [PF 5 3 24 [] 1909
       715] [(False,421,2204), (True,1820999,1)],
     PC 6518173 2 [(False,0,4), (False,0,16), (False,0,256), (False,0,65536), (True,1317,5500751),
       (True,9284276,5980254), (True,10973454,4229490), (True,5488834,1739918),
       (True,928884,2684516), (False,1105620,3721996), (False,2125327,5156445)] [PF 3001 1 2172 []
       2386734 1888115] [(False,4079199,254598), (True,51278401949,6118603),
       (True,29616181125371,2002822), (True,3173285982967,4584089), (False,3223889,5725124),
       (True,25929509519465,1760875), (True,2452909708058,1665091), (True,2193312196585,2831840),
       (False,1230301,3025527), (False,1404352,4338833), (True,14892594895148,1)],
     PC 103 2 [(True,0,8), (False,0,64)] [PF 17 1 6 [] 18 11] [(False,39,79), (False,60,61),
       (False,36,13), (True,105,1)],
     PC 619 2 [(True,0,8), (False,0,64)] [PF 103 1 6 [] 226 23] [(True,423,307), (False,152,161),
       (False,41,542), (True,30373,9), (True,8,232), (True,5565,1)]]"

definition certs_3 :: "prime_cert list" where
  "certs_3 = [
     PC 55711 2 [(False,0,4), (True,0,32), (True,0,2048), (False,75,15979), (True,9166,9856),
       (False,1743,36463)] [PF 619 1 90 [] 11082 7253] [(False,23865,7354), (False,970,41646),
       (True,1135162492,37496), (True,920198083,31395), (False,17692,7013), (True,32189862,26365),
       (False,12477,7078), (True,32789331,17551), (True,201611442,1)],
     PC 8690917 2 [(False,0,4), (False,0,16), (True,0,512), (True,0,524288), (True,63256,3168136),
       (False,1154893,6507615), (False,4872794,4776127)] [PF 55711 1 156 [] 1380158 758471]
       [(True,12536086984164,4721995), (False,2565579,2634082), (True,3813017910625,8336823),
       (True,38195431981093,6604502), (False,5018969,3663431), (False,1544224,4078353),
       (True,9140709155803,2103992), (True,2432755328165,8566823), (False,8444500,7706829),
       (False,6834171,310434), (True,52960103584,5390684), (True,15969746152126,274170),
       (True,41309518048,8220284), (True,37135041045489,3095899), (True,5267248788078,1)],
     PC 137 2 [(False,0,4), (False,0,16), (False,1,119)] [PF 17 1 8 [] 36 31] [(False,103,50),
       (False,18,34), (False,8,60), (True,3127,1)],
     PC 823 2 [(True,0,8), (False,0,64)] [PF 137 1 6 [] 614 47] [(False,4,804), (False,785,361),
       (False,158,287), (True,6405,301), (False,110,71), (False,6,103), (True,825,1)],
     PC 11587841 3 [(True,0,27), (False,0,729), (True,0,1594323), (True,658068,10133799),
       (True,26586630,5351373), (False,2471313,10879896), (False,10215202,411934),
       (False,14643,8864593), (False,6781333,483596), (False,20181,10871995),
       (False,10200370,9578855), (False,7918167,2903578)] [PF 823 1 14080 [(False,727552,8306852)]
       3294690 2361829, PF 2 8 45265 [(True,2112506062512,11539960), (False,11492276,9785484),
       (False,8263463,1760873), (True,776939207635,11511527), (True,33204492174717,2330365),
       (False,468646,5699939), (True,8140880607756,3118942), (True,2437505290561,11255591),
       (True,31744433172858,11587840)] 5793920 5793919] [(True,49466011158964,9785484),
       (False,8263463,1760873), (False,267579,10815190), (True,83849842722146,6730414),
       (True,32472632978733,5699939), (False,2803740,11278381), (True,91185853733371,3673161),
       (True,9671946251638,4289134), (True,13187824969871,1)],
     PC 80471 2 [(False,0,4), (False,0,16), (False,0,256), (False,0,65536), (False,53372,69084),
       (True,118616,49976), (False,31037,22149)] [PF 619 1 130 [] 40290 11089]
       [(False,6096,26985), (False,9049,8146), (True,18264321,16893), (True,78546762,36999),
       (False,17011,33820), (True,314819722,18538), (False,4270,46274), (True,589371063,39651),
       (True,432735988,1)],
     PC 3862609 2 [(True,0,8), (False,0,64), (False,0,4096), (False,4,1326780),
       (False,455739,3605349)] [PF 80471 1 48 [] 2893297 2700595] [(False,3365223,764994),
       (False,151507,3518273), (True,11553820974654,715335), (True,477623308383,3790278),
       (True,13409379822074,1121050), (False,325363,3050433), (True,8685394394508,827289),
       (False,177187,2988638), (False,2312415,2104309), (True,4133192077526,630535),
       (False,102928,3767073), (True,13245691487833,486524), (False,61281,1060447),
       (True,1049649972261,2449392), (True,5599937153754,2348550), (True,5148327718211,1)],
     PC 15450437 2 [(False,0,4), (False,0,16)] [PF 3862609 1 4 [] 7210204 7] [(True,0,4096),
       (True,17,5778027), (False,2160818,13635263), (True,192533476,11937692),
       (False,9223589,9528471), (True,94021169,5264603), (True,28701888,3636688),
       (True,13695922,13731590), (True,195263410,8239430), (False,4393934,6275742),
       (False,2549114,12387746), (False,9932162,7705722), (False,3843137,5440415),
       (False,1915681,6769628), (True,47457933,8167423), (False,4317470,226539),
       (True,53145,5221971), (False,1764932,10449557), (False,7067323,12726098),
       (False,10482135,3862609), (True,15450435,1)],
     PC 2633 3 [(False,0,9), (True,0,243), (True,67,736), (True,617,527), (True,316,1159),
       (False,510,451), (False,77,660)] [PF 2 3 329 [(True,109189,1363), (True,465676,2632)] 1316
       1315, PF 7 1 376 [(False,165,1155)] 559 245] [(False,2631,1)],
     PC 5150149 2 [(True,0,8), (True,0,128), (True,0,32768), (False,208,2510832),
       (True,2448192,1083840), (False,228092,1359892), (False,359078,1049042),
       (True,427362,258590), (False,12983,4403633), (False,3765324,3965413)] [PF 2633 1 1956 []
       3356882 2584667] [(False,3053212,3531981), (True,9605176495762,137555),
       (False,3673,4880748), (False,4625439,999093), (True,768564754720,4585757),
       (False,4083215,1614014), (False,505818,3125314), (True,7520659857047,610145),
       (False,72284,3550709), (False,2447994,551575), (True,234249018276,1)],
     PC 20600597 2 [(False,0,4), (False,0,16)] [PF 5150149 1 4 [] 9613612 7] [(False,0,256),
       (False,0,65536), (True,3335,16485741), (True,211084877,17233727), (True,230673972,5407180),
       (False,1419259,12854777), (True,128342138,4459278), (False,965271,1414497),
       (False,97123,9980578), (True,77366252,16572900), (False,13332672,11604816),
       (True,104596389,12857463), (False,8024736,2428977), (True,4582336,11009872),
       (True,94146616,8172392), (True,51872664,9646216), (False,4516834,6168758),
       (False,1847207,8279985), (False,3327969,3402732), (True,8992815,3310629),
       (False,532036,5150149), (True,20600595,1)],
     PC 883 2 [(True,0,8), (True,0,128), (True,37,97), (True,21,275), (True,171,257),
       (False,74,707)] [PF 7 2 18 [] 439 351] [(True,400218,749), (True,449182,1)],
     PC 10597 2 [(True,0,8), (False,0,64), (False,0,4096)] [PF 883 1 12 [] 5129 1982]
       [(True,6484804,8748), (False,7221,6567), (True,16669057,5915), (True,13523419,2457),
       (True,2333389,10271), (False,9955,306), (False,8,8860), (True,30342017,7451),
       (True,21458835,1)],
     PC 1525969 2 [(False,0,4), (False,0,16), (True,0,512), (False,0,262144),
       (False,45033,514759), (False,173644,1467045), (False,1410396,458301)] [PF 10597 1 144 []
       632200 189871] [(False,137643,855534), (True,219826295414,813790), (False,433989,403759),
       (False,106831,535842), (True,86234012844,1304328), (False,1114879,738833),
       (True,163944806611,549530), (True,90695952618,1154058), (False,872789,909823),
       (False,542460,747589), (True,167853692310,408831), (False,109532,350053),
       (True,36802108532,1)],
     PC 27467443 2 [(False,0,4), (False,0,16), (True,0,512), (False,0,262144)] [PF 1525969 1 18 []
       25887774 247067] [(False,2501,23401793), (True,5226608338276,18227988),
       (True,3171021291099,25590879), (True,6250173838851,11854311), (False,5116045,14861786),
       (True,2107966462008,17957080), (False,11739597,10685929), (False,4157251,23713848),
       (True,5366927809549,2497769), (False,227136,4844113), (False,854299,21669312),
       (False,17095114,13179842), (True,1657838030057,18508565), (True,3269393440627,4671639),
       (False,794548,9045557), (True,780894419620,22202196), (False,17946246,18153438),
       (False,11997742,16706138), (False,10160940,6598624), (True,415554944901,1)],
     PC 1721 2 [(False,0,4), (True,0,32), (False,0,1024), (False,609,487), (False,137,1392)] [PF
       43 1 40 [] 1309 1058] [(False,1125,1539), (True,1915735,1297), (False,977,792),
       (True,507351,417), (True,140647,1)],
     PC 96377 2 [(True,0,8), (True,0,128), (False,0,16384), (False,2785,25511),
       (False,6752,73617)] [PF 1721 1 56 [] 66432 50743] [(True,4139624441,25856),
       (False,6936,61864), (True,2923349269,33619), (False,11727,24082), (True,442985811,5961),
       (True,27142069,31444), (True,755231832,64248), (False,42829,74971), (False,58319,40578),
       (True,1257725851,1)],
     PC 36623261 2 [(False,0,4), (True,0,32), (True,0,2048), (True,0,8388608),
       (True,3842844,9561044), (True,4992103,33631989), (False,30885034,22920247),
       (False,14344373,6280656)] [PF 96377 1 380 [] 4708887 807544] [(False,1077092,18353324),
       (True,57766686631340,6608516), (True,7489552798837,1532479), (True,402751400298,17197518),
       (True,50720034523880,3119864), (False,265775,4186221), (False,478505,32756036),
       (False,29297169,27585187), (False,20777574,26276155), (True,118405431612838,19095682),
       (True,62534307180619,542785), (True,50524691422,5516458), (True,5218775646865,33134419),
       (False,29977934,21344787), (False,12440179,9671650), (True,16041653771659,1)],
     PC 193 5 [(True,0,125), (False,80,185), (False,177,64), (False,21,43), (False,9,112),
       (False,64,192)] [PF 2 6 3 [] 96 95] [(False,191,1)],
     PC 3089 2 [(False,0,4), (False,0,16), (False,0,256), (False,21,667)] [PF 193 1 16 [] 1897
       409] [(True,96063,2356), (False,1796,2892), (False,2707,1741), (False,981,772),
       (False,192,2896), (False,2715,181), (True,7074,1)],
     PC 469529 2 [(False,0,4), (False,0,16), (True,0,512), (True,1,54759), (False,6386,135887),
       (False,39327,109786), (False,25670,156366)] [PF 3089 1 152 [] 135233 45036]
       [(True,8142627331,338797), (False,244465,224), (False,0,50176), (False,5362,16478),
       (False,578,136722), (False,39812,16736), (True,93278862,72738), (False,11268,163872),
       (False,57193,260287), (False,144292,43901), (True,641842885,1)],
     PC 48831017 2 [(True,0,8), (False,0,64), (True,0,8192), (False,1,18277847),
       (False,6841546,41923127), (False,35992463,4833258)] [PF 469529 1 104 [] 17875718 1769325]
       [(True,2312193446804,39889844), (True,157495766654972,25860164), (False,13695149,28470363),
       (False,16599317,38736380), (True,148519088118392,27570536), (False,15566631,32333569),
       (True,103478827457412,10427334), (False,2226644,3330608), (True,1097971963963,35084941),
       (False,25208426,6424239), (False,845176,43105129), (False,38050654,13771523),
       (False,3883901,9982212), (True,9862744604301,32487435), (True,104466021728176,45630058),
       (False,42638927,23884605), (False,11682622,42519451), (True,178944974374321,1)],
     PC 401 2 [(False,0,4), (True,0,32), (False,2,222), (False,122,362), (False,326,318),
       (False,252,72)] [PF 5 2 16 [] 305 54] [(False,12,372), (True,24847,1)],
     PC 3209 2 [(False,0,4), (False,0,16), (False,0,256)] [PF 401 1 8 [] 2089 166]
       [(True,5228,564), (False,99,405), (False,51,366), (True,10686,1362), (False,578,242),
       (False,18,802), (False,200,1404), (True,157255,1)],
     PC 25673 2 [(False,0,4), (False,0,16), (False,0,256)] [PF 3209 1 8 [] 2819 28]
       [(True,653,12747), (False,6329,1592), (False,98,18510), (True,3416458,19366),
       (False,14608,10772), (False,4519,19697), (False,15112,1433), (True,20476,12836),
       (False,6417,19255), (False,14441,11232), (True,1257991,1)],
     PC 51347 2 [(False,0,4)] [PF 25673 1 2 [] 17116 1] [(True,0,64), (False,0,4096),
       (False,326,38094), (True,113046,38382), (False,28690,32494), (False,20563,11675),
       (False,2654,30687), (True,73359,3303), (False,212,24245), (False,11447,50916),
       (True,201954,24186), (False,11392,17572), (False,6013,25673), (True,51345,1)],
     PC 65107997 2 [(False,0,4), (False,0,16), (True,0,512), (True,0,524288),
       (True,8443,48995217), (True,73739982,50918124), (False,39820843,25097905),
       (True,19349538,8722664), (False,1168594,52610678), (False,42512188,30852248)] [PF 51347 1
       1268 [] 36894040 17482707] [(True,451051473895797,26088383), (False,10453458,15451063),
       (False,3666759,13858246), (True,91005787374636,57803876), (False,51319165,39760871),
       (False,24281608,1859465), (False,53105,49905540), (True,1180184746744490,56030270),
       (False,48218211,19139533), (False,5626370,42377199), (True,850975338981411,52837281),
       (False,42879191,24482534), (False,9206157,28723627), (True,390958838466084,30946244),
       (True,453804052495691,1)],
     PC 197297 2 [(False,0,4), (True,0,32), (True,0,2048), (False,21,51067), (False,13217,164040),
       (False,136388,178364), (False,161247,167137)] [PF 59 1 3344 [(False,141587,86430),
       (False,37862,85886), (True,6248803589,117519), (True,11699526770,150767)] 18453 14101, PF
       19 1 10384 [(True,23664499636,156461), (True,20737878432,108073), (False,59198,185523),
       (True,29157322324,128245), (True,13932626816,122073)] 189253 117095]
       [(True,17369943188,104827), (True,8397154149,60290), (False,18423,81469),
       (True,5071898837,142498), (True,15516842411,1)],
     PC 86810681 2 [(True,0,8), (False,0,64), (True,0,8192), (True,1,47407047),
       (True,51777686,28256252), (False,9197206,60930218), (False,42765376,51746468),
       (False,30845247,52791817)] [PF 197297 1 440 [] 43174459 26255503]
       [(True,1694832044019927,71295226), (False,58552809,26638147), (False,8174004,21856885),
       (False,5503048,77447537), (False,69094274,8225775), (False,779436,4394709),
       (False,222478,507163), (True,156418663594,51132359), (False,30117470,56207811),
       (True,1921262875705379,82333958), (False,78088094,21813750),
       (True,289370403468259,75888121), (True,3502200827533494,64575283),
       (False,48035185,52719104), (False,32015690,74977926), (False,64758038,8257598),
       (True,41466837979707,1)],
     PC 25999 2 [(False,0,4), (True,0,32), (False,0,1024), (True,80,17232), (False,11421,7245)]
       [PF 619 1 42 [] 262 73] [(False,2018,24043), (False,22234,4083), (True,4645586,391),
       (True,42602,13447), (False,6954,24763), (True,170878829,19234), (False,14229,6985),
       (True,13596106,20231), (True,114055556,1)],
     PC 115747549 2 [(False,0,4), (False,0,16), (False,0,256), (True,0,131072),
       (False,148,49231932), (True,41880508,105030356), (True,190610959,46183981),
       (False,18427691,34029002), (False,10004298,4150402), (True,297644,110048652),
       (False,104630343,53737797), (False,24948699,66424458)] [PF 25999 1 4452 [] 840673 482440]
       [(True,2532049868337759,103477221), (False,92507663,9914854), (False,849299,52223165),
       (True,1565101809779932,73702382), (False,46930074,72585298),
       (True,3023524863544635,76498617), (True,3358330111237698,88245360),
       (False,67277826,99981126), (False,86362308,79244784), (False,54253725,98336631),
       (True,5549410692899159,20866447), (True,249869489284876,14191598),
       (True,115578969267437,31304719), (True,562387728370013,1)],
     PC 457 13 [(False,0,169), (False,62,227), (True,1465,372), (True,3936,240), (False,126,18),
       (False,0,324)] [PF 2 3 57 [(True,74424,456)] 228 227, PF 3 1 152 [(False,229,323)] 44 31]
       [(False,455,1)],
     PC 16453 2 [(False,0,4), (False,0,16), (True,0,512), (False,15,15349), (False,14319,1294)]
       [PF 457 1 36 [] 10676 839] [(True,131691,8161), (True,5238125,15149), (False,13948,5757),
       (False,2014,6707), (True,3537901,15453), (False,14513,12820), (False,9989,3383),
       (True,900105,1)],
     PC 164531 2 [(False,0,4), (True,0,32), (False,0,1024)] [PF 16453 1 10 [] 146357 910]
       [(False,6,61390), (False,22905,149545), (False,135923,159912), (False,155422,110662),
       (False,74430,35914), (False,7839,56887), (False,19668,135061), (True,113530392,164152),
       (False,163773,143641), (False,125403,55888), (False,18984,12040), (True,902204,152076),
       (False,140563,138823), (True,119943045,1)],
     PC 154330079 2 [(True,0,8), (True,0,128), (False,0,16384), (True,3,73880675),
       (False,35368051,33549596), (True,14586597,116175269), (False,87453419,64132260),
       (True,53300650,20163850), (False,2634488,105657948)] [PF 164531 1 938 [] 24103847 16502052]
       [(False,72335879,54966263), (True,2068445185706313,84484485), (False,46249106,23055851),
       (False,3444385,56177786), (False,20449310,12066306), (False,943404,126636720),
       (False,103912723,102663283), (True,7215756840476616,93048708), (False,56100937,21285241),
       (True,310176389934362,99763190), (False,64489658,65153118),
       (True,2906176603733322,140459514), (True,13506845004425917,114668365),
       (False,85199424,95098729), (False,58600166,9222327), (True,58228101138749,89814521),
       (True,5522614254584773,1)],
     PC 281 3 [(True,0,27), (True,7,220), (False,172,68), (False,16,128)] [PF 2 3 35
       [(False,58,86), (True,3368,280)] 140 139, PF 5 1 56 [(False,58,86)] 162 49] [(False,279,1)]]"

definition certs_4 :: "prime_cert list" where
  "certs_4 = [
     PC 563 2 [(False,0,4)] [PF 281 1 2 [] 188 1] [(False,0,16), (False,0,256), (False,116,228),
       (True,369,189), (True,253,445), (False,351,412), (False,301,281), (True,561,1)],
     PC 20269 2 [(False,0,4), (False,0,16), (True,0,512), (False,12,18916), (False,17653,6399)]
       [PF 563 1 36 [] 1169 369] [(False,2020,3821), (False,720,6361), (False,1996,5397),
       (True,9195696,7767), (True,19045237,14558), (False,10456,2700), (False,359,13429),
       (True,56933401,19490), (True,119923271,1)],
     PC 81077 2 [(False,0,4), (False,0,16)] [PF 20269 1 4 [] 37836 7] [(False,0,256),
       (False,0,65536), (True,847582,70922), (True,992622,67450), (True,897813,55399),
       (True,605656,15704), (False,3041,60459), (False,45084,15213), (True,45672,17160),
       (False,3631,75013), (True,1110440,58824), (True,682859,48473), (False,28980,20269),
       (True,81075,1)],
     PC 205773427 2 [(False,0,4), (False,0,16), (True,0,512), (True,0,524288),
       (True,2671,134990371), (True,177111306,129369620), (False,81334596,26363908),
       (True,6755543,55709067), (False,15082123,9864968), (True,945871,70112131),
       (False,23888949,10202938)] [PF 81077 1 2538 [] 171237503 8490530]
       [(False,505895,195979679), (False,186652062,126586567), (True,794531648716740,201778702),
       (True,2018768897453350,3183702), (True,502574879986,19942130),
       (True,19718734664963,23273999), (False,2632405,31350066), (False,4776256,72855044),
       (True,263181408427510,12231198), (False,727023,190297383),
       (True,1795566891306718,150665696), (True,1125549816246728,66157352),
       (False,21269972,193017860), (True,1847272434564563,180797399), (False,158852870,36479711),
       (True,65984014591011,1)],
     PC 293 2 [(False,0,4), (False,0,16)] [PF 73 1 4 [] 254 13] [(False,0,256), (False,223,197),
       (True,2119,77), (False,20,69), (False,16,73), (True,291,1)],
     PC 12893 2 [(False,0,4), (True,0,32), (True,0,2048), (False,325,4079), (False,1290,6271)] [PF
       293 1 44 [] 767 373] [(False,3050,1791), (False,248,10217), (True,50772623,6780),
       (False,3565,4855), (False,1828,2621), (True,3341310,8881), (False,6117,5680),
       (True,15692043,1)],
     PC 180503 2 [(True,0,8), (True,0,128), (False,0,16384)] [PF 12893 1 14 [] 135066 12259]
       [(True,24365503,123095), (False,83945,54690), (False,16570,61390), (True,342082440,59080),
       (False,19337,59889), (False,19870,97711), (True,866607475,52139), (False,15060,100141),
       (True,910247223,37135), (True,125170610,141570), (True,1819189660,122620),
       (False,83298,125506), (True,1429764441,1)],
     PC 274364561 2 [(False,0,4), (True,0,32), (True,0,2048), (True,0,8388608),
       (True,512957,266238451), (True,516706039,25474923), (False,2365362,195119847),
       (False,138763383,33633546), (False,4123037,180042359), (False,118146640,17059841)] [PF
       180503 1 1520 [] 104704658 6510479] [(False,1060771,205208750),
       (True,2618416416309011,33203329), (True,68550436204809,91609832),
       (False,30588357,179051947), (False,116850367,79846922), (False,23237443,105416561),
       (False,40503231,140670130), (False,72123328,249637892), (True,3874966734393703,152698041),
       (False,84984342,40533819), (False,5988348,12589533), (False,577685,49736804),
       (True,153816425585720,31918936), (False,3713374,248033282),
       (True,3825312196324836,185950688), (True,2150020220376883,29734941),
       (True,54977011397320,1)],
     PC 4861 2 [(True,0,8), (False,0,64), (False,0,4096), (True,6902,3810), (False,2986,1154),
       (True,547,4465), (False,4101,1264), (True,657,1715), (False,605,320), (False,21,319)] [PF 3
       5 20 [] 4754 311] [(True,6678,1)],
     PC 365819417 2 [(False,0,4), (True,0,32), (True,0,2048), (True,0,8388608),
       (False,192359,86942961), (False,20663415,38918466), (False,4140422,233619182)] [PF 4861 1
       75256 [(True,34854490895539216,201539496), (False,111033385,279697471),
       (False,213850527,171513082), (True,18786083474804836,347103156),
       (True,76941184973601380,53169692), (False,7727900,274740564), (False,206337810,147781326),
       (True,13947002018394826,3633790)] 327965278 3257773, PF 409 1 894424
       [(False,149193617,207287835), (False,117457533,294668964),
       (True,55451147533114428,292635396), (False,234092207,303093497),
       (True,58667148863276070,67519448), (True,2911384140219116,53296756),
       (True,1814025121765761,79686215), (True,4055161391229778,64048524),
       (True,2619750895034376,360566040), (True,83025478268602677,38871891),
       (False,4130518,223247875), (True,31828517680691318,135997144)] 71178912 26461495]
       [(False,36095,177907485), (False,86521031,100366298), (True,100061931821514,350989822),
       (False,336761389,155501471), (True,240193956258057,20494621),
       (True,4172274322513,189694469), (True,357439388528176,223568798),
       (True,496495659229489,337939247), (True,1134410757504426,41794468),
       (True,17351246320115,89908005), (False,22096829,260751332), (True,675376808339127,1)],
     PC 3923 2 [(True,0,8), (False,0,64), (True,2,346), (False,30,2026), (True,2092,2436)] [PF 37
       1 106 [(False,1512,2520)] 2009 1290, PF 2 1 1961 [(False,1512,2520), (False,1618,2986),
       (True,5536541,3113), (False,2470,959), (True,571078,3922)] 1961 1960] [(False,1618,2986),
       (False,2272,3140), (True,6333467,959), (False,234,1699), (True,1854253,1)],
     PC 101999 2 [(True,0,8), (False,0,64), (True,0,8192), (False,657,95521)] [PF 3923 1 26 []
       99181 92881] [(True,8544775704,73465), (True,5054333706,39931), (True,1493218353,67834),
       (False,45112,72668), (True,4945262637,83341), (False,68095,100376),
       (True,9435452147,35043), (False,12039,45888), (False,20644,41188), (True,1588708995,49219),
       (True,2268655320,1)],
     PC 487759219 2 [(False,0,4), (False,0,16), (True,0,512), (False,0,262144),
       (True,281,378612933), (False,293890402,83746451), (True,28757910,388518512),
       (False,309469566,350265190), (True,503058470,212937270), (True,185920754,143174674),
       (True,84053715,167563967), (False,57564638,163879367)] [PF 101999 1 4782 [] 261527198
       87868993] [(True,9023340515235425,387190788), (False,307358016,474511440),
       (False,461623477,77289137), (False,12247048,130669257), (True,5736746171458879,396477482),
       (True,52814824891956973,337850821), (True,38350298480283769,286495636),
       (False,168279237,234008593), (False,112268552,356058761),
       (True,42595345346796046,366940333), (True,45238655865771006,268402949),
       (False,147696117,354643978), (True,42257516591519122,324015910),
       (True,35273736190533889,466240009), (True,73036149362544804,284120651),
       (True,27122167475197114,1)],
     PC 203233 5 [(True,0,125), (False,0,15625), (True,6006,85727), (True,180805,50080),
       (False,12340,111180), (True,304108,180836), (True,804536,29592), (False,4308,158700),
       (False,123925,40475), (False,8060,167645), (False,138288,160921)] [PF 2 5 6351
       [(True,20504252443,161742), (True,20714006717,197383), (False,191701,79356),
       (True,4986295728,203232)] 101616 101615, PF 29 1 7008 [(False,127418,25847)] 51685 6573]
       [(False,203231,1)],
     PC 13006913 2 [(False,0,4), (False,0,16), (False,0,256), (False,0,65536),
       (False,330,2686006), (False,554676,5756848)] [PF 203233 1 64 [] 9244747 4091716]
       [(True,14668309095454,2798690), (False,602192,6762804), (False,3516246,12133818),
       (False,11319329,11735747), (True,60958181711557,12322091), (True,67201559413064,2138856),
       (False,351713,4596767), (False,1624541,3400356), (True,5117517107036,9348260),
       (True,38678719953705,4042135), (True,7231562692184,3806808), (True,6414051963318,7003338),
       (False,3770821,2456671), (False,464001,11763328), (False,10638641,7710351),
       (False,4570608,11930097), (True,62993897147887,1)],
     PC 650345651 2 [(True,0,8), (False,0,64), (False,0,4096), (True,0,33554432),
       (False,1731233,54424941)] [PF 13006913 1 50 [] 134249522 11234829]
       [(True,247884664839440,317794181), (False,155291484,220724677), (False,74913060,262652269),
       (False,106076229,206218282), (True,3558836658186679,429057055),
       (True,15405784605187671,240847704), (False,89195055,412115811),
       (False,261152575,277486396), (True,6443726803172813,435753593),
       (True,15890431118220793,629334466), (True,33144903604956270,240814026),
       (True,4853078133096835,405793531), (False,253201339,155421272), (False,37142974,183991910),
       (False,52053893,15278757), (False,358948,144729901), (True,1752952937933821,141544270),
       (False,30806357,71729493), (False,7911362,295850387), (False,134586048,485972521),
       (False,363144261,340136530), (False,177894414,558347386), (True,26089316478837985,1)],
     PC 2267 2 [(False,0,4), (True,0,32), (True,0,2048), (False,1850,354)] [PF 103 1 22 [] 1278
       199] [(True,19568,1208), (False,643,1583), (False,1105,854), (True,113885,569),
       (True,50556,942), (True,138565,1)],
     PC 867127501 2 [(False,0,4), (False,0,16), (True,0,512), (False,0,262144),
       (True,158,432808314), (False,216027096,764755500), (True,1348938821,704883679),
       (False,572996474,339143567), (True,265285921,347753557), (True,278926769,647330229),
       (False,483246610,81170831), (True,15196620,486214502), (False,272629505,585590999),
       (True,790925942,657105060), (False,497951061,732375039), (False,618563241,371460780)] [PF
       2267 1 382500 [(False,159126669,245784231), (True,25878436755465754,243820826)] 255507984
       71844299, PF 5 4 1387404 [(False,159126669,245784231), (False,69666673,146787188),
       (False,24848108,766329236), (True,251571126944433225,768622155),
       (True,253078821428700903,170006097), (False,33330822,630037587),
       (True,170044631473611881,835704439), (True,299181974630918707,85281173),
       (False,8387323,35186106), (True,530362024353956,684540124),
       (True,200737182679242253,781053527)] 280487993 252645817] [(False,68558078,341819198),
       (False,134744156,854729048), (False,842507871,741925933),
       (True,154777896858561935,320029479), (True,28798363361475333,730637433),
       (False,615631562,607042927), (True,103615957505006993,849939261),
       (True,203125113025511638,417639308), (False,201149878,550123986),
       (True,85095971392756233,233546163), (True,15336749040364493,1)],
     PC 14221 2 [(True,0,8), (True,0,128), (True,2,4326), (False,1315,13661), (False,13123,738)]
       [PF 79 1 180 [(True,28264,4928)] 8558 2965, PF 3 2 1580 [(False,38,4246),
       (False,1267,10509), (True,5731245,6633), (True,2283211,12851), (True,8570379,12579),
       (True,8211423,9375)] 6355 4189] [(False,1707,9937), (False,6943,7566),
       (True,19836874,1214), (True,510714,2894), (True,2902268,9780), (True,33145019,1)],
     PC 426631 2 [(True,0,8), (True,0,128), (True,0,32768), (False,2516,338228)] [PF 14221 1 30 []
       253916 201301] [(True,90693521145,15857), (False,589,158790), (True,19989569717,81373),
       (True,5249498349,319193), (True,80772563346,339446), (True,91347893977,123361),
       (False,35670,8551), (False,171,165700), (False,64356,225364), (True,40264863688,181960),
       (True,26248772858,303402), (False,215766,309258), (True,75822663161,1)],
     PC 1156170011 2 [(False,0,4), (True,0,32), (False,0,1024), (True,0,2097152),
       (False,3803,1131959271), (False,1108255515,234490776), (True,95117367,807483315),
       (False,563956250,237370475), (True,97467918,977244152), (True,1652016785,750763573),
       (False,487511297,928612062)] [PF 426631 1 2710 [] 1022319065 821105724]
       [(True,692598044886751083,551450415), (False,263021491,60965824),
       (True,2985283057414093,717883489), (False,445744742,517480959),
       (False,231615195,376642536), (False,122697871,1060764715), (False,973232111,108608004),
       (False,10202391,18167715), (True,265102142125699,249403261), (False,53800034,695853747),
       (True,388909507675582122,477645216), (False,197328204,578396412),
       (False,289353993,144769821), (False,18127352,311131169), (False,83726963,590599968),
       (True,280155697034758244,250130804), (True,50251262614127868,1034183244),
       (True,859028582064091021,1)],
     PC 829 2 [(False,0,4), (False,0,16), (False,0,256), (True,158,90), (False,9,639),
       (True,985,77), (False,7,126)] [PF 3 2 92 [(False,19,125)] 234 35, PF 2 2 207
       [(True,2412,828)] 414 413] [(True,2356,1)],
     PC 8291 2 [(False,0,4), (True,0,32), (False,0,1024)] [PF 829 1 10 [] 5114 631]
       [(True,129506,7578), (False,6926,2618), (False,826,5558), (True,3815312,4944),
       (True,3018908,5036), (True,3132308,1476), (True,269070,2454), (False,726,2850),
       (True,1003189,1)],
     PC 49747 2 [(True,0,8), (False,0,64)] [PF 8291 1 6 [] 8686 11] [(False,0,4096),
       (False,337,12477), (False,3129,17166), (False,5923,20075), (False,8101,5178),
       (False,538,47798), (True,2939222,46622), (True,2796371,28439), (False,16257,39742),
       (False,31749,9061), (False,1650,19171), (True,472827,18655), (True,447717,1)],
     PC 1541560037 2 [(True,0,8), (True,0,128), (True,0,32768), (False,0,1073741824),
       (False,747892704,156576928), (True,31807174,435528930), (False,123047720,1070979260),
       (False,744049240,1405925720), (False,1282225202,320065926), (False,66453588,1410174720),
       (True,2579974432,1001182816), (True,1300457986,1092274230), (False,773932227,1032480501),
       (False,691517657,34137692)] [PF 49747 1 30988 [] 1211126059 26820264]
       [(True,25807267533216,1360788896), (False,1201215894,1477270738),
       (False,1415662563,353269813), (False,80956665,1284258364), (False,1069902894,642909418),
       (True,9153207085190675,1180450033), (False,903929945,950093124),
       (False,585560680,745534216), (True,12308606069317793,310415611),
       (False,62506713,747474940), (True,12372771329582748,870249524),
       (False,491277806,1227587754), (False,977562766,45982174), (True,46822296793899,870260729),
       (True,16771522333920383,1)],
     PC 701 2 [(False,0,4), (False,0,16), (False,0,256), (True,186,686), (True,1342,450),
       (False,288,612)] [PF 5 2 28 [(False,534,210)] 161 48, PF 2 2 175 [(False,534,210),
       (True,38500,700)] 350 349] [(False,62,638), (True,121939,1)],
     PC 229 2 [(True,0,8), (False,0,64), (False,17,203)] [PF 19 1 12 [] 212 187] [(False,179,218),
       (False,207,121), (True,12978,161), (True,22978,1)],
     PC 2055413317 2 [(True,0,8), (False,0,64), (False,0,4096), (True,0,33554432),
       (False,547772,2043362900), (False,2031383131,1709854473), (False,1422391445,798234664),
       (False,310000219,405676473), (False,80068275,2041501554), (False,2027683950,1487252766),
       (True,2152288079,352353469), (False,60402920,962648321), (False,450854230,1556338131)] [PF
       701 1 2932116 [(True,1834056489745686951,444975624), (True,149926096406898129,54912363),
       (False,1467037,223912040), (False,24392467,150678561), (True,17191260449156361,2044063014),
       (False,2032775389,182308883), (True,25166362754351969,2007818086)] 1469610076 1435579727,
       PF 229 1 8975604 [(False,1178443458,1099842975), (True,915938179695734749,1864429442),
       (False,1691191311,1972342777), (True,2945571573447760314,1262096961),
       (True,1206119208428001438,993801405), (True,747831931076299960,1226479955),
       (True,1139005185838417486,1255454213), (False,766836172,1053346845),
       (True,840132121116500216,1121150803)] 1165986393 636001805] [(False,1961324972,55251272),
       (True,2982014546455761,2043289387), (False,2031236970,906106279),
       (True,802016818791724634,21809348), (True,464633544399300,1933512844),
       (True,3651903716253272284,1605518868), (True,2518001725898803731,1410268737),
       (False,967619453,1075119568), (True,1129116434805741939,1)],
     PC 4051 3 [(False,0,9), (True,0,243), (False,14,2335), (True,4037,2788), (False,1918,3126),
       (False,2412,864), (False,184,1112), (True,915,2967), (True,6519,798), (False,157,797)] [PF
       3 4 50 [] 1084 213] [(True,124972,1)],
     PC 2819497 2 [(False,0,4), (True,0,32), (False,0,1024), (True,0,2097152),
       (True,3119738,1090422), (True,843427,379949), (False,51201,176704), (False,11074,1193838),
       (False,505497,1895235)] [PF 4051 1 696 [] 1834653 1233233] [(True,2414446392953,298234),
       (True,59786859063,1976349), (True,2625540415643,606664), (True,247393269275,955885),
       (True,614189976351,967428), (False,331944,1823016), (True,2233944564661,1144643),
       (False,464695,1439034), (False,734463,2628045), (True,4642554663140,810295),
       (True,441344531042,1)],
     PC 152252839 2 [(True,0,8), (False,0,64), (True,0,8192), (True,0,134217728),
       (False,118318966,28437510)] [PF 2819497 1 54 [] 119464465 22313356]
       [(False,5311506,107134566), (True,2143805577499871,61949791), (False,25206601,41153442),
       (True,316328627179357,132779117), (True,3292954421726901,59012451),
       (False,22872935,83014936), (False,45263389,121072725), (False,96278038,120075743),
       (False,94698950,69182999), (False,31436440,112580841), (True,2367310064097119,66639469),
       (False,29167395,133617556), (True,3334672705625697,129527577),
       (True,3133651169540459,120233689), (False,94948245,111231166),
       (True,2310889327407699,87738099), (False,50560462,135482183),
       (True,3428392518398377,66650087), (False,29176691,59731820), (False,23433982,31937502),
       (True,190514509334801,1)],
     PC 2740551103 2 [(False,0,4), (False,0,16), (True,0,512), (False,0,262144)] [PF 152252839 1
       18 [] 1731334375 165608] [(False,25,205699161), (False,15439283,780924772),
       (True,58333819852518,1865866342), (False,1270349311,752120931),
       (False,206413189,2060609294), (False,1549363796,2443111448),
       (True,570937507409861,1026386693), (False,384400656,1772752681),
       (False,1146722666,851287163), (True,69319302824505,1968652921),
       (True,370715144552939,2732642987), (False,2724757690,1663050099),
       (False,1009189585,1476047546), (True,208402397729471,127320191),
       (True,1550588576480,2197977824), (False,1762822999,492557079), (False,88526893,1816699262),
       (False,1204281943,1339711515), (True,171681934243732,1743226004),
       (True,290676156233478,2382120070), (False,2070567493,1119710121),
       (True,119925965831196,2222521116), (False,1802411239,1964838839),
       (False,1408691725,2507145246), (True,601258191709975,1310513879),
       (True,164280216526150,2403334854), (True,552497842916801,1)],
     PC 487 2 [(False,0,4), (True,0,32), (False,2,50), (False,5,65), (False,8,329),
       (True,444,254), (False,132,232)] [PF 3 5 2 [] 409 194] [(True,25641,1)],
     PC 139 2 [(True,0,8), (False,0,64)] [PF 23 1 6 [] 64 29] [(False,29,65), (True,1945,45),
       (True,932,52), (True,1245,1)],
     PC 3654068141 2 [(True,0,8), (False,0,64), (True,0,8192), (False,0,67108864),
       (False,1232489,838337547), (True,384672543,1326201855), (False,481329655,2551419670),
       (True,3563010913,1697195067), (True,1576583131,273139507), (False,20417022,659906947),
       (True,238351974,2859861284), (True,4476548464,3499371888), (True,6702449509,3551376319),
       (False,3451570488,2537366953), (False,1761935137,3556333892)] [PF 487 1 7503220
       [(False,3461213711,830386413), (False,188705182,1307199907), (False,467635394,2041426095),
       (True,4055955772926508889,2755649951), (False,2078123986,2155772375),
       (True,4523053154848980170,2111798530), (True,4340410978440082235,309647665)] 71797275
       6084139, PF 139 1 26288260 [(True,12309231628692569532,785588276),
       (True,600642244443497227,1905803985), (True,3534942454207369229,2859452411),
       (False,2237634268,865057133), (False,204791978,1012006791),
       (True,996764909372526687,2049765585), (True,4089161669170372542,3637405278),
       (True,12876839189422860585,1499946843)] 2720216893 1116613205]
       [(True,8125063923354109,3624463256), (True,1113213771355503034,2280373646),
       (True,440659557649577564,515318616), (False,72673323,1721252913),
       (False,810798123,474086226), (True,19046090465331478,2093775142),
       (True,371493523173346614,839392486), (True,59706459923091279,1)],
     PC 72469 3 [(False,0,9), (False,0,81), (False,0,6561), (True,1782,405), (False,2,19087),
       (False,5027,11906), (True,5868,10416), (False,1497,6963), (True,2007,4824),
       (False,321,8427), (False,979,67178)] [PF 3 3 2684 [(False,62273,21647),
       (True,434380414,65236), (True,3945022183,6061)] 70448 5891, PF 11 1 6588
       [(True,4183395660,39212)] 21888 11843] [(True,3072420,1)]]"

definition certs_5 :: "prime_cert list" where
  "certs_5 = [
     PC 4872090871 2 [(False,0,4), (False,0,16), (False,0,256), (False,0,65536),
       (False,0,4294967296), (True,7572413800,1004683432), (True,414355489,1764956329),
       (False,639370431,3214720840), (True,4242297753,3805498337), (False,2972403014,3467480375),
       (False,2467815250,170557875), (True,11941480,1754802170), (True,1264069467,1192882043),
       (True,584130142,4709574016), (True,9104956372,3490256500), (False,2500341384,4422344536)]
       [PF 72469 1 67230 [] 4405256970 3998604419] [(False,4014114619,4711512147),
       (False,4556225920,282973289), (False,16435219,1834691772),
       (True,3055367264836983065,2126387809), (True,4104139765223065800,3822930016),
       (False,2999696494,3045653982), (True,8419732958258701213,366119141),
       (True,121669595489898256,4722387240), (False,4577283518,2488253422),
       (False,1270790150,3322989434), (False,2266431203,4589792543),
       (True,19121559391768402405,3805182309), (False,2971909348,896209373),
       (True,729048058983987033,3689177401), (False,2793467990,3539395511),
       (True,11370914295128585505,1)],
     PC 5839 2 [(False,0,4), (True,0,32), (False,0,1024), (True,359,951), (False,154,5195)] [PF
       139 1 42 [] 172 153] [(False,4622,167), (False,4,4533), (False,3519,648),
       (True,373591,3431), (False,2016,337), (True,101043,878), (True,685861,1)],
     PC 3248060531 2 [(False,0,4), (True,0,32), (True,0,2048), (False,0,4194304),
       (False,5416,690208520), (True,293336775,992853275), (False,303491149,3103485506),
       (True,5930691373,1720653009), (True,1823024385,2792459727), (False,2400765395,3226789784)]
       [PF 5839 1 556270 [(True,10343985562738495155,3242414999), (False,3236779279,2061632852),
       (False,1308574755,2867158999), (False,2530925962,1491276179), (False,684686944,3155432777),
       (True,9891551671757938875,2180613911), (False,1463974265,300481206),
       (True,89697675069525123,2620901511)] 1530355126 1234863089, PF 389 1 8349770
       [(False,3205658333,2838211833), (True,8002693278027485807,2803430459),
       (True,7807754230517345140,2831973564), (False,2469188671,1327417795),
       (True,1750498850364811892,1750117948), (True,3042854571510225905,502072381),
       (False,77608367,2034946284), (False,1274916627,2291059719),
       (True,5214580527225660829,1436014225), (True,2048632428948843509,2657571721),
       (True,7016435654762128625,3189792469), (True,10108143897792202663,102748371)] 2521554406
       79766249] [(False,2114838890,2329232531), (True,4377763349668888248,1360627383),
       (True,1493843153682416497,1597869172), (False,786064750,1542583334),
       (True,1920100041215902735,1145392831), (True,1058608820096549916,3153916275),
       (False,3062500767,2259948348), (False,1572435761,2790880013),
       (True,6285052618793392430,366855029), (True,108596428105849091,1672333430),
       (True,2256692210602680976,878405644), (True,622611047111396245,1)],
     PC 6496121063 2 [(False,0,4)] [PF 3248060531 1 2 [] 2165373688 1] [(True,0,64),
       (False,0,4096), (False,0,16777216), (False,43329,4547171929),
       (False,3182941381,4477173038), (False,3085699637,6186995313),
       (True,23570318737,3286614445), (True,6651251973,3205024801), (False,1581279639,5624153344),
       (False,4869228964,3216313604), (True,6369753949,2875547477), (True,5091514282,58740350),
       (False,531152,1023267924), (False,161184995,3228220091), (True,6417001687,3516959843),
       (False,1904060348,5408674725), (True,18013064717,6129468329),
       (True,23134040533,6139162385), (True,23207273647,4514026139),
       (True,12546830199,4692607747), (False,3389802507,2071511068), (False,660572372,5461429188),
       (False,4591541396,1346315396), (False,279022685,4423322661), (True,12047671632,4521698868),
       (True,12589519471,2878208023), (True,5100940295,3191340531), (False,1567805508,1597146957),
       (False,392677164,6234854517), (True,23936383248,3248060532), (True,6496121065,1)],
     PC 131 2 [(False,0,4), (True,0,32), (False,7,107)] [PF 13 1 10 [] 110 89] [(True,9351,62),
       (False,29,45), (True,1654,1)],
     PC 263 2 [(False,0,4)] [PF 131 1 2 [] 88 1] [(False,0,16), (False,0,256), (False,249,49),
       (False,9,34), (False,4,104), (True,164,132), (True,265,1)],
     PC 270671711 2 [(False,0,4), (True,0,32), (False,0,1024), (False,0,1048576),
       (True,8124,86275388), (False,27499891,25267043), (True,4717326,224162912),
       (True,371291192,14769976), (True,1611931,260297211), (False,250320352,80416249),
       (False,23891573,160838598), (True,191147087,122255351), (False,55219552,227639729)] [PF 263
       1 1029170 [(True,43581413464220017,225978402), (False,188664851,144743543),
       (False,77402596,145031093), (False,77710440,179411809), (False,118921172,109287189),
       (True,10044855710489898,78178131)] 209808897 60599119, PF 97 1 2790430
       [(False,191449065,226293226), (False,189190898,66200598), (False,16191271,150722923),
       (False,83929714,225543275), (False,187938993,98798602), (True,8209312543944610,59788806),
       (True,3006387469882955,72026639), (True,4363063069860667,196505772)] 221088271 160508540]
       [(False,22580195,151289516), (False,84561912,245042824), (False,221840639,266431647),
       (False,262258003,127679476), (False,60228121,30249545), (True,264289621185685,17413240),
       (True,87579323633910,91465590), (True,2416339178478709,1)],
     PC 8661494753 2 [(False,0,4), (False,0,16), (False,0,256), (False,0,65536),
       (False,0,4294967296)] [PF 270671711 1 32 [] 2510644490 1244950933]
       [(False,2129741412,8424740380), (False,8194457480,3700941960),
       (False,1581363469,1959263443), (False,443192930,1314517959), (False,199498760,1563519401),
       (False,282236840,8540098281), (True,36165356618107014295,1932661321),
       (False,431239628,6481793157), (False,4850622638,2312008235), (False,617143141,1086376052),
       (True,585231079112889424,4809160112), (False,2670211279,391933457),
       (False,17735026,72652271), (False,609404,2933000229), (False,993187733,5190587492),
       (True,13359802758266334203,6626570085), (True,21774320234145525762,6851786814),
       (True,23279556291907934004,7438147404), (True,27434470084576122695,1953160601),
       (True,1891659321901154947,144509405), (False,2411012,346033989),
       (True,59375124471307903,8295701857), (False,7945357154,151235487),
       (True,11341602783139829,5235247787), (True,13590689747804352679,4387450937),
       (True,9545343477280792349,2760657027), (True,3779130808462271150,3514370834),
       (True,6124380805326071775,1)],
     PC 3207961 3 [(True,0,27), (False,0,729), (True,0,1594323), (False,792361,2642408),
       (False,2176560,444304), (True,184608,2868960), (False,2565782,2891098),
       (False,2605532,2605352), (False,2115941,2837603)] [PF 67 1 47880
       [(True,7122391204012,2915695), (True,7519807773231,1847084), (False,1063516,1452180),
       (False,657372,3013908), (True,8034938136618,927894)] 1655924 478971, PF 19 1 168840
       [(True,7122391204012,2915695), (False,2650056,1037209), (False,335353,3164448),
       (True,8857649309765,2465347), (False,1894641,1393408), (False,605239,2746785),
       (True,6673780043633,2606362)] 2423253 1968812, PF 3 2 356440 [(False,2510002,2259687),
       (False,1591723,31166), (True,859181045,1765023), (True,2755645156585,88802),
       (True,6975382845,1426967), (True,1801152205825,830842), (True,610603711492,1945480),
       (False,1179843,2100277), (False,1375067,2168342), (True,4158896560933,2145679)] 2492734
       1667291] [(False,268390,2622446), (False,2143798,2647038), (False,2184194,1005010),
       (False,314855,2539445), (True,1865292349835,1912915), (True,1058426322509,1)],
     PC 115486597 2 [(False,0,4), (False,0,16), (True,0,512), (False,0,262144),
       (False,595,4951521)] [PF 3207961 1 36 [] 51583735 2211667] [(True,1051197432595,84164546),
       (False,61337600,111238916), (False,107147467,91855257), (False,73059458,55451623),
       (False,26625448,110213673), (True,520808415228040,45533129),
       (True,88891867929609,57104388), (True,139812500784458,95651998),
       (True,392279066490907,76164605), (False,50231344,73509657), (False,46790448,60632193),
       (True,157620824123063,99111118), (True,421164532836168,73254108),
       (False,46465689,39005331), (False,13173960,37005441), (False,11857676,14035909),
       (True,8446720596177,53013732), (True,120499098410986,91905662), (False,73139662,37548030),
       (False,12207949,70521347), (True,213229966620104,1)],
     PC 11548659701 2 [(True,0,8), (False,0,64), (False,0,4096), (True,0,33554432),
       (False,97491,9523932433), (False,7854183198,5335395691)] [PF 115486597 1 100 [] 5787845789
       2673942109] [(True,13151288855333820820,8086149551), (False,5661766495,3858983606),
       (True,6879880842894148536,470268340), (True,102170738505444767,6719484933),
       (True,20859650049937080947,2828350052), (False,692683326,4117557178),
       (False,1468073140,4060792544), (False,1427874447,1249431589),
       (True,721207132485224752,6254536259), (False,3387338862,5935114819),
       (False,3050188405,1432435856), (False,177671914,8343115022),
       (True,32158183670292619412,7480258632), (False,4845087711,5774477013),
       (True,15404952481558846566,11458217013), (True,60655353194069291579,4081535900),
       (True,7696305366458929509,3029693191), (True,4240649232754437900,7585801471),
       (True,26585081399628899486,707195445), (False,43305925,6566719600),
       (False,3733923019,8862602681), (False,6801285024,9584769937),
       (False,7954846460,4974475509), (True,11432195519535516531,8742052740),
       (False,6617519962,3229056238), (True,4817106709935207903,1)],
     PC 3666241 7 [(True,0,343), (False,0,117649), (True,26427,1259500), (False,432688,1764192),
       (True,5942493,2411235), (False,1585835,928990), (True,1647779,2011961),
       (True,7728872,2048495), (True,8012108,3509147), (False,3358784,1056665),
       (False,304546,1890639), (False,974981,511900), (False,71474,700766),
       (False,133944,2002252)] [PF 67 1 54720 [(False,1093494,535450)] 2913628 425531, PF 2 6
       57285 [(False,1093494,535450), (False,78201,2990059), (False,2438588,1515773),
       (False,626682,545167), (True,162314323055,879773), (True,422706557548,3666240)] 1833120
       1833119] [(False,78201,2990059), (False,2438588,1515773), (False,626682,545167),
       (False,81065,3231224), (True,1524867277346,2062814), (True,621466972839,1)],
     PC 21997447 2 [(True,0,8), (False,0,64)] [PF 3666241 1 6 [] 8030814 23] [(True,0,262144),
       (False,3123,21449755), (True,1338604763,3801539), (True,42046184,17093096),
       (True,850059171,14437387), (True,606435882,3623962), (True,38209817,12619217),
       (True,463310892,21064972), (True,1291009584,2558128), (False,297489,20353801),
       (False,18832967,21712352), (False,21430951,20589807), (True,1233423576,5413464),
       (False,1332226,21652274), (True,1364001106,2572482), (False,300837,17677185),
       (False,14205415,5948720), (False,1608698,20644394), (False,19374566,14894234),
       (False,10084725,2749681), (True,21997449,1)],
     PC 15398212901 2 [(False,0,4), (True,0,32), (False,0,1024), (True,0,2097152),
       (True,571,3713455737), (True,1791084926,6996596012), (True,6358186637,9449404351),
       (False,5798805560,4315201641), (False,1209293917,8638869664)] [PF 21997447 1 700 []
       2999853702 1683009925] [(False,4846670815,1146288581),
       (True,737181680195031398,2718567906), (False,479965532,12655496504),
       (False,10401310385,5143945131), (True,14844967688004355099,7169131705),
       (True,28834984322209802401,557214299), (True,174193163701684081,395710283),
       (True,87849900487535416,12141958280), (True,82711152879711813430,9529317170),
       (False,5897300310,11943509590), (True,80029578021006827607,15075360493),
       (False,14759277291,2192671858), (False,312231679,9186481385),
       (True,47346186057534199736,9109632264), (True,46557354356455301781,79769463),
       (True,3569931957713309,224218607), (True,28205246653155680,10508331456),
       (False,7171288687,12200328949), (False,9666578025,10729344076),
       (False,7476115900,445067876), (False,12864182,1013939394),
       (True,576780534684359157,15319124247), (True,131660190417996827843,12546712433),
       (True,88317443700150606195,1)],
     PC 22611179 2 [(False,0,4), (False,0,16), (False,0,256), (False,0,65536),
       (False,189,21454465), (False,20356924,15982829), (True,22595090,21175372),
       (False,19830738,12718282), (True,14307497,18354085), (True,29796981,1323851),
       (True,155019,583001), (False,15031,21534452)] [PF 103 1 219526
       [(True,441650031143536,8164464), (False,2948031,15768747), (True,236812698631952,13418660),
       (False,7963336,20462456), (True,398773356260064,21643616)] 9569937 9160426, PF 53 1 426626
       [(True,441650031143536,8164464), (False,2948031,15768747), (False,10996922,10158971),
       (True,98290163519834,9505846), (True,86058181516176,16836128),
       (True,269957286546379,16322727)] 18479539 13340147] [(True,448400669354158,3436614),
       (False,522321,22158537), (False,21714956,4887245), (True,22863085158188,11946748),
       (True,136617400635964,6940908), (True,46114678795837,1)],
     PC 20530950533 2 [(True,0,8), (True,0,128), (False,0,16384), (False,0,268435456),
       (False,3509705,14297505171), (True,19913218707,3316257651), (True,1071315698,14767708568),
       (False,10622265929,12710320467), (False,7868717335,10794508534)] [PF 22611179 1 908 []
       16633868021 8745548824] [(False,5675402816,20453928228),
       (True,219961803964681110466,19660765078), (False,18827461633,3225945695),
       (True,5471519129718272774,16975646808), (True,151511807414347254949,13854927559),
       (False,9349738452,10637703565), (False,5511714470,1223396715),
       (True,786916111849723482,15592298244), (False,11841622439,4273673549),
       (False,889597662,10627801555), (False,5501458186,16326504887),
       (False,12983069702,6981831603), (False,2374267691,16628420306),
       (True,145377034011591742076,3553723116), (False,615117549,14693545839),
       (False,10515844796,3412737653), (True,6123498637997689273,1178489897),
       (True,730206248367344691,8725906903), (True,40032707901668546212,3774693410),
       (False,693991752,8875424284), (True,41416373085656309092,16314460268),
       (False,12963920662,10892018978), (True,62375005388129826690,3496580686),
       (True,6428074863681728811,1)],
     PC 4621 2 [(True,0,8), (True,0,128), (True,7,421), (False,38,1643), (False,584,785)] [PF 11 1
       420 [(True,104682,1103), (True,206673,2132)] 1004 463, PF 7 1 660 [(False,133,1632),
       (True,452453,2527), (True,1084786,1159)] 2941 737] [(False,983,2981), (True,4099918,574),
       (True,152011,1)],
     PC 27374600677 2 [(True,0,8), (True,0,128), (False,0,16384), (False,0,268435456),
       (False,2632279,7542475053), (True,4156329481,25837046981), (False,24385853316,5004919429),
       (False,915053292,24107407357), (True,42460315409,11830519005),
       (False,5112811747,16866437306), (True,20783989564,5021740444),
       (False,921214427,9888950057), (False,3572338255,16044304614)] [PF 4621 1 5923956
       [(True,150874173413277282115,19796835689), (False,14316727682,1162264007),
       (False,49347116,26906098517), (True,424301495217819281196,16118849754),
       (True,152279415265860280175,18214542349), (False,12119612515,25417765146),
       (False,23600811300,26483151216), (True,411066823236090735828,25657563228)] 4248030255
       3981577892, PF 409 1 66930564 [(False,9403596917,16478376187),
       (False,9919300192,8999228985), (True,47466117639921920591,8935518043),
       (False,2916699448,12952223553), (False,6128312041,20462092052),
       (False,15295098404,19601551196), (False,14035668093,8623931455),
       (False,2716832096,6081488033), (True,21676682629273874044,2820308858),
       (True,4661937522722045285,9080394751), (False,3012046451,17288304674),
       (True,175177337501806082333,16203578023)] 4559124581 2698637753]
       [(False,24048224796,17587993092), (False,11300164873,21602301443),
       (True,437388801091361404282,13284440858), (False,6446719387,13900551165),
       (False,7058562240,17032220745), (False,10597288593,14106177564),
       (False,7268936917,17918481287), (False,11728827588,1688099293),
       (True,2670936672539931199,23507930849), (True,517960240881224540328,10421623572),
       (False,3967555149,8615803311), (True,69575953535005271231,1)],
     PC 36499467569 2 [(False,0,4), (False,0,16), (True,0,512), (False,0,262144),
       (True,3,27940550765), (True,42777302193,20368091633), (False,11366170095,4094457634),
       (True,918620705,2882339767), (True,455233080,25063246058), (True,34420573493,13570530211),
       (False,5045533605,23666548276), (False,15345580212,24856427548),
       (False,16927424743,15156632537), (False,6293886600,21983380969)] [PF 4621 1 7898608
       [(True,291069653851765873164,10728974893), (False,3153769353,34694748592),
       (False,32979264083,15140958237), (True,138074881776617178223,22975245874),
       (True,317927644554211934127,34629188581), (False,32854745059,9727301990),
       (False,2592377651,5383059681), (True,17452849613966129045,4265024804)] 29428967524
       3438824859, PF 409 1 89240752 [(False,13240440779,15815782710),
       (False,6853222783,18694519573), (True,210492474933550240610,16869399711),
       (False,7796734187,6966802118), (False,1329781911,16981941565),
       (False,7901110852,15426690437), (False,6520171215,32807424634),
       (False,29488844161,13875519347), (True,115959531371802922072,12280047353),
       (True,90825550727368242718,28712111579), (False,22586229505,1207449896),
       (True,878104481879951904,11458359328)] 12039309885 3779527426]
       [(False,498375395,11745173661), (False,3779482647,25273367778),
       (True,74638218765674326253,3856483379), (False,407470712,14541918513),
       (False,5793711747,24971298126), (False,17084241815,30024914141),
       (False,24698866290,31499418871), (False,27184325013,13561911244),
       (True,21491999784942098619,28547215733), (True,95227535747816041685,33383062591),
       (False,30532743137,33084809328), (True,127906408388538964015,1)],
     PC 223 2 [(True,0,8), (False,0,64)] [PF 37 1 6 [] 177 50] [(False,18,82), (False,30,34),
       (True,331,171), (False,131,28), (True,225,1)],
     PC 48665956771 2 [(True,0,8), (False,0,64), (True,0,8192), (True,0,134217728),
       (True,740328,26574603080), (False,14511366378,19654640962), (False,7937887940,4046043704),
       (False,336384420,12520131796), (False,3221013426,40683578170),
       (False,34010500204,26549867616), (True,28968729567,35839498755),
       (False,26393597418,34081332747), (True,47735103504,38594506434),
       (False,30607349073,22542473073)] [PF 223 1 218232990
       [(True,235385340877444967956,29991009941), (True,416637613706906539460,5382943453),
       (True,13421959649399069826,7225479411), (False,1072773581,768039970),
       (False,12121109,28907021861), (True,387064191585353101971,41040879792),
       (False,34610514738,39827572266), (False,32594355846,23425241490),
       (False,11275683768,47863026972), (False,47073344549,34376997505),
       (True,547409309337862900723,48468606392), (True,1088171529524690907110,42224339662)]
       20449787483 17742973322, PF 127 1 383196510 [(True,235385340877444967956,29991009941),
       (False,18482338311,11037669700), (True,56432732701045139993,17349327397),
       (False,6185004489,38179850590), (True,675219137156031819413,15119115877),
       (False,4697075328,39574833241), (False,32181991888,26877890433),
       (True,334631370428796269267,47606146840), (False,46569416637,44711786473),
       (False,41078897493,12467504626), (False,3193991897,13005115289),
       (True,78343813315050956115,43642735368), (True,882267373338961128525,33219525177)]
       899901329 614275293, PF 61 1 797802570 [(True,235385340877444967956,29991009941),
       (False,18482338311,11037669700), (True,56432732701045139993,17349327397),
       (True,139425297167351846789,41431978138), (True,795147378137758779383,14821893919),
       (False,4514213917,6320596554), (True,18505142495284342116,19153869432),
       (False,7538549297,14249562637), (True,94054453214442239606,5437409911),
       (False,607517626,15704482275), (False,5067829338,39875628027),
       (False,32673059692,493338197), (False,5001084,38867071045),
       (True,699745190172018901140,6464823885)] 21965376133 2917897801]
       [(True,1546903896289400665689,14561335309), (False,4356895457,15001836134),
       (True,195265912419865845332,32918603900), (True,940200368059051542001,47662181229),
       (True,1970994569849893012965,32798154927), (True,933332580739374631947,35471435661),
       (True,1091679444951055844831,1)],
     PC 1901 2 [(False,0,4), (True,0,32), (True,1,147), (True,22,1396), (True,2050,582),
       (True,356,692), (False,251,1713)] [PF 5 2 76 [(False,1543,1126)] 463 274, PF 2 2 475
       [(False,1543,1126), (True,1142488,1900)] 950 949] [(False,666,1810), (True,1940499,1)],
     PC 251 3 [(True,0,27), (False,2,227), (False,205,74), (True,65,113), (False,50,219)] [PF 5 3
       2 [] 38 33] [(False,191,20), (True,349,1)],
     PC 503 2 [(False,0,4)] [PF 251 1 2 [] 168 1] [(True,0,64), (True,32,288), (True,659,299),
       (True,710,474), (False,446,338), (True,908,252), (True,505,1)],
     PC 9562031 2 [(False,0,4), (True,0,32), (False,0,1024)] [PF 1901 1 5030 [(True,112,2794352),
       (True,836203603,104003), (True,1158354,6128242), (True,4021810681,2964425),
       (False,919032,3106633), (True,1033545764,7722852), (True,6387122322,2481714),
       (True,659558422,5388022)] 1305741 735760, PF 503 1 19010 [(True,112,2794352),
       (True,836203603,104003), (False,1131,1966948), (True,414319683,8380723),
       (True,7521644139,6708187), (False,4706089,3920210), (True,1645767469,1388861),
       (True,206570059,6546875), (False,4482475,7358900), (True,5799300486,5592934)] 9458263
       5532238] [(True,16358291151296,9344472), (True,49202678668933,5202325),
       (False,2830380,4103845), (True,9489888541701,193819), (True,21167614129,2436743),
       (False,620968,1182041), (True,787307329000,4393982), (True,10879169920079,2750679),
       (False,791279,633392), (True,226060331697,1)],
     PC 64887942367 2 [(True,0,8), (False,0,64), (True,0,8192), (False,0,67108864),
       (True,138811,39086835355), (False,23544908997,35282200126),
       (False,19184359995,27774007711), (False,11888117825,49982067746),
       (False,38500328489,60933327053), (False,57219726967,57689953920),
       (True,102580869785,17635051705), (False,4792801825,40970987250)] [PF 9562031 1 6786 []
       43089479182 27207188851] [(False,25869548871,37924644843), (False,22165577054,56436847831),
       (True,2011119720097529711460,2203421430), (False,74822313,64473610029),
       (False,64061923348,47373696125), (False,34586812321,546511818),
       (True,188586908775613446,2055402318), (True,2667510332148071055,29235781815),
       (True,539686867840706582240,15957869170), (True,160791181609854746799,21776791767),
       (False,7308424991,53728488592), (False,44488242053,36464383013),
       (True,839556958401788575933,54875091839), (True,1901353841533426171384,64709881322),
       (True,2643952405151604500824,48685018592), (True,1496590922512543937616,63096206928),
       (False,61353946256,53651769232), (True,1817525539409168456092,48197694236),
       (False,35800452979,53102162403), (True,1780478933521460167316,3490208278),
       (True,7691572088664790052,32935695916), (True,684929883588559718120,51792445960),
       (True,1693734248962160051297,1)],
     PC 3253 2 [(True,0,8), (False,0,64), (False,1,843)] [PF 271 1 12 [] 2461 637]
       [(False,218,1495), (False,687,214), (False,14,254), (False,19,2709), (True,1901785,1478),
       (True,566098,3218), (True,2683586,1474), (True,563039,1)],
     PC 86517256433 2 [(True,0,8), (False,0,64), (False,0,4096), (False,0,16777216),
       (True,6506,68683068214), (True,109050241623,253188833), (False,740945,56588152704),
       (False,37012489282,16764460510), (True,6496903572,23501241524),
       (False,6383794123,14312499317), (False,2367708421,80894944196),
       (False,75637997161,17191099703), (True,6831791048,483564634), (False,2702752,67396750340),
       (False,52501918619,7769889573), (False,697793555,41384433014),
       (False,19795718987,16367130825)] [PF 3253 1 26596144 [(False,3096295265,8376490880),
       (False,811001207,69231659769), (False,55399615197,82200321060),
       (False,78098787004,35763726868), (False,14783688390,25710176554),
       (True,125048916419577624993,59955055731), (True,680019610068092482168,76572241081)]
       8985969586 7953047263, PF 131 1 660437072 [(True,50677469676667688443,13248761806),
       (False,2028840217,76352015675), (False,67381127626,72103187567),
       (True,983509918502870992681,72741481552), (False,61159164732,33422607748),
       (True,211324805980703704871,13051325657), (True,32223971702188921432,27611158369),
       (False,8811838214,71252009499), (True,960426310977460018766,29023484147),
       (False,9736353957,10937062228), (True,22629303181349597584,6027948928)] 10802569956
       752651467] [(True,5189330547393457806584,84459379569), (False,82450450826,50915962103),
       (False,29964371314,47165019647), (True,1968831995149430803314,4510923367),
       (False,235195040,35496924369), (True,1115193089327061389388,65827769037),
       (True,3835190071919597346704,74257079057), (False,63734265479,62005432842),
       (True,3402734826773789938018,73942508290), (False,63195422019,7241125873),
       (True,46406713486330386456,1)],
     PC 107 2 [(False,0,4)] [PF 53 1 2 [] 36 1] [(True,0,64), (False,38,30), (True,33,69),
       (False,44,53), (True,105,1)],
     PC 643 2 [(True,0,8), (False,0,64)] [PF 107 1 6 [] 296 29] [(True,407,443), (False,305,134),
       (True,1787,143), (False,31,516), (True,26501,241), (True,5781,1)],
     PC 7717 2 [(True,0,8), (False,0,64), (False,0,4096)] [PF 643 1 12 [] 1191 632]
       [(False,2174,458), (True,111337,5715), (False,4232,2881), (False,1075,4386),
       (False,2492,6232), (False,5032,5880), (False,4480,2240), (True,2663222,5426),
       (True,15626835,1)],
     PC 54157907 2 [(True,0,8), (False,0,64), (True,0,8192), (True,2,25901914),
       (False,12388018,22105070), (True,18044793,18281549), (True,12342243,19113401),
       (False,6745498,44434115), (True,72912366,14688488), (False,3983752,9399080),
       (True,3262412,4001116), (False,295597,14409977)] [PF 7717 1 7018 [] 14744464 3923109]
       [(True,55249454032704,10467305), (True,29152189168320,7194185),
       (True,13770972742874,27518107), (False,13982191,13029212), (False,3134544,22901536),
       (False,9684280,15557336), (True,64397925671892,53321348), (False,52497711,2486227),
       (False,114135,11980084), (True,38187492460308,24222356), (False,10833552,28495072),
       (True,216043364882981,1)],
     PC 115356341911 2 [(False,0,4), (False,0,16), (False,0,256), (False,0,65536),
       (True,0,8589934592), (False,639643864,17981022360), (True,5605537758,14771563662),
       (False,1891522298,80150418766), (False,55689089320,55026472236),
       (True,52496682827,93823616995), (False,76310248402,49999453803)] [PF 54157907 1 2130 []
       47396626356 20543347601] [(True,1083563343779457301707,25691270550),
       (False,5721760689,100094365821), (False,86851593099,64880931852),
       (True,1824559128496091641814,82998618358), (True,2985832977494410406317,63168819905),
       (True,1729534827601073515119,24011319666), (False,4997934769,41199547997),
       (True,735713435738463107949,10674869688), (False,987833360,28529266384),
       (False,7055693921,38992212425), (True,658991086199432440740,113589912735),
       (True,5592465534805804714939,14133137246), (False,1731552553,73539515733),
       (False,46881344230,987503759), (False,8453489,106614252602),
       (True,4926679583255433778180,67185344432), (False,39129799295,63646649879),
       (False,35116370489,17576450162), (True,133901708579381407637,62476431625),
       (False,33836930366,74305771199), (True,2393144246402884116691,46526090102),
       (False,18765132669,8982379945), (False,699425347,6586384908),
       (True,18802603980017561482,28919596490), (True,362500193369624752109,1)],
     PC 39276929 3 [(True,0,27), (True,0,2187), (False,0,4782969), (False,582448,23712769),
       (True,42948526,34585429), (True,91362939,29007792), (True,64270706,33803918),
       (False,29093539,6488993), (False,1072055,2034954), (False,105431,31880717),
       (True,77631842,2929049), (False,218431,29166002), (False,21657896,29182620),
       (False,21682583,37036793), (False,34924421,31741740), (False,25652159,30487889),
       (False,23665581,30995572)] [PF 2 7 306851 [(False,24460300,17188484),
       (True,233150998715115,10480597), (False,2796626,32634855), (False,27116014,4230019),
       (True,14120392469539,14715761), (True,170894302266996,39276928)] 19638464 19638463, PF 83 1
       473216 [(False,24460300,17188484)] 12611340 5519011] [(False,39276927,1)],
     PC 78553859 2 [(False,0,4)] [PF 39276929 1 2 [] 26184620 1] [(False,0,16), (False,0,256),
       (True,0,262144), (False,874,63403970), (True,204703548,651868), (False,5409,34066093),
       (True,59093147,31834323), (True,51604040,1482956), (True,111982,15753206),
       (False,3159150,75618586), (True,291171974,4209918), (False,225621,9345285),
       (True,4447106,69242846), (False,61035470,17800986), (False,4033857,68568033),
       (False,59851612,59518381), (True,180382617,45575641), (True,105768912,10412116),
       (False,1380099,57345415), (False,41862954,35682739), (False,16208724,42876205),
       (False,23402656,15552521), (False,3079172,66330693), (False,56009480,39276929),
       (True,78553857,1)],
     PC 153808455923 2 [(True,0,8), (True,0,128), (True,0,32768), (False,0,1073741824),
       (True,14991653,9550283233), (False,592996719,113725815652),
       (False,84088752260,110411549124), (True,158518075053,134773945833),
       (True,236190089373,16334921499), (False,1734817886,25229368223)] [PF 78553859 1 1958 []
       68090050210 11168884953] [(False,4138400695,43102111244), (False,12078607658,113447969202),
       (True,2111152545537837915152,104429273996), (False,70902950048,63163073712),
       (True,654414140537453959673,123264743333), (False,98786486463,17996278540),
       (True,53124098812244315963,87648547951), (True,1260130764170185727096,108242321815),
       (True,1921853866387434026563,29554529526), (False,5678947950,46619576826),
       (True,356502694856414964343,51005657959), (False,16914396079,49464519764),
       (True,401341211235470763604,149668801716), (False,145640563600,31846341856),
       (False,6593847415,116202535691), (False,87791202505,100669160366),
       (True,1662336940097678967126,125674452890), (True,2590718160942038169693,108033376661),
       (False,75881461800,139391267521), (False,126325469848,42615975737),
       (False,11807682335,40939472964), (False,10896933049,7088446069),
       (False,326679488,42125345337), (False,11537367754,102957136627),
       (True,1738757733227342819653,11536797048), (True,21832158139614355717,1)]]"

definition certs_6 :: "prime_cert list" where
  "certs_6 = [
     PC 179 2 [(False,0,4)] [PF 89 1 2 [] 60 1] [(False,0,16), (True,5,129), (True,371,155),
       (False,134,39), (False,8,89), (True,177,1)],
     PC 55849 2 [(True,0,8), (False,0,64), (False,0,4096), (False,300,22516)] [PF 179 1 312
       [(True,204389376,23872), (False,10203,45037), (True,817739066,7370)] 44708 5899, PF 13 1
       4296 [(False,9077,28883), (True,336325997,39071), (True,615438828,6184), (False,684,41140),
       (False,30304,51504), (True,1069443283,39989), (True,644698896,1732)] 25908 803]
       [(False,972,31672), (True,132374113,17143), (True,38781601,14881), (False,3965,2876),
       (False,148,5724), (True,4323658,1478), (True,288271,1)],
     PC 558491 2 [(False,0,4), (True,0,32), (False,0,1024)] [PF 55849 1 10 [] 216736 397]
       [(True,1922,322122), (False,185790,539994), (True,534640244,5060), (True,46944,284896),
       (False,145330,233786), (True,100212242,282), (False,0,79524), (False,11323,272983),
       (False,133430,264159), (True,127942431,504123), (False,455047,345052),
       (True,218299567,415499), (False,309117,356554), (False,227632,331604), (True,201615213,1)],
     PC 4467929 2 [(False,0,4), (False,0,16), (False,0,256)] [PF 558491 1 8 [] 543160 31]
       [(False,0,65536), (False,961,1287527), (False,371027,3482646), (True,694948091,23357),
       (False,122,462111), (False,47795,1909766), (False,816307,4456553), (False,4445205,4311364),
       (True,1065033048,1249384), (False,349370,24726), (True,35030,466586),
       (True,12473752,521768), (False,60932,1995996), (False,891688,1357864),
       (True,105644344,235400), (True,3175021,558491), (False,69811,1605662),
       (True,147720905,1954719), (True,218928535,1)],
     PC 2278643791 2 [(True,0,8), (True,0,128), (True,0,32768), (True,0,2147483648),
       (True,4047746327,1293170151), (True,1467793295,751544257), (True,495749947,1839235021),
       (False,1484560893,1277005078)] [PF 4467929 1 510 [] 148916349 83456192]
       [(False,715663402,1824549102), (False,1460947708,1799125376),
       (False,1420516945,1832602881), (True,1882144291266895901,1501816867),
       (False,989822942,1028042567), (False,463816031,359535968), (False,56729407,1258035087),
       (False,694558880,727183489), (True,296349503399927420,1737579218),
       (False,1324990571,1082796863), (True,657067766370189321,191669071),
       (True,20588289224255644,259135794), (False,29469880,648495356),
       (False,184559880,2123861656), (True,2527950893786855067,1058103211),
       (True,627440068621309655,2239323533), (False,2200681785,90555154),
       (True,4595603291240200,176151648), (True,17389600548240282,1695171450),
       (False,1261103756,1478923504), (False,959875667,1942104419), (True,2113787560148816427,1)],
     PC 205077941191 2 [(False,0,4), (True,0,32), (True,0,2048), (False,0,4194304),
       (True,171,116044145171), (False,65664027785,11702627306)] [PF 2278643791 1 90 []
       177322166968 10118763729] [(False,667802129,124850221997), (False,76008067187,83019868292),
       (False,33608190579,124944757675), (False,76123216274,155325263291),
       (True,1376729512460194673172,181135667534), (True,1872286807842971565723,131113609643),
       (True,980979593811117732819,175067634965), (True,1748945011212213688879,135944034961),
       (True,1054592643729169531433,95808795723), (False,44760178908,98080493301),
       (True,548946105585009181824,129030954522), (False,81183705708,5757230256),
       (False,161624892,124024099164), (False,75005517824,130931210512),
       (True,978252106305922987201,13555047673), (False,895948712,147614518937),
       (True,1243433536488212371648,20581460746), (False,2065539199,58911630507),
       (True,198046198852763371334,61442081200), (True,215425079201559850420,9755989780),
       (False,464112990,118265277310), (False,68201756541,173103255769),
       (False,146113896910,131015161551), (False,83699750721,172030876890),
       (True,1688796155157512961422,65077028998), (False,20650781252,60671532872),
       (False,17949443414,170702302310), (True,1662812124879609247300,37948012300),
       (True,82175525643721834107,91920738563), (True,482160285623847848752,131898139882),
       (True,992754277882061899873,1)],
     PC 101 2 [(False,0,4), (True,0,32), (False,10,14), (False,1,95)] [PF 5 2 4 [] 72 67]
       [(False,89,36), (True,1219,1)],
     PC 809 2 [(False,0,4), (False,0,16), (False,0,256)] [PF 101 1 8 [] 717 226]
       [(True,20738,174), (False,37,343), (False,145,344), (True,37446,202), (False,50,354),
       (True,39655,1)],
     PC 14563 2 [(False,0,4), (False,0,16), (True,0,512), (False,18,10)] [PF 809 1 18 [] 12945 8]
       [(True,0,1000), (False,68,9716), (False,6482,3290), (True,7432,8784), (False,5298,3882),
       (True,10348,1316), (False,118,13422), (False,12370,5774), (True,22893,1)],
     PC 7427131 2 [(True,0,8), (True,0,128), (True,0,32768), (True,289,1042789),
       (True,292820,5297622), (True,7557372,5850036), (True,9215650,2602442),
       (False,911887,157167)] [PF 14563 1 510 [] 4687146 99185] [(True,522712644,7032099),
       (True,1046430120300,6646467), (False,5947858,3046691), (False,1249786,1705515),
       (False,391642,4976123), (True,523989389451,3216462), (True,218925892655,258343),
       (True,1412321844,1986819), (False,531490,3883571), (False,2030679,4760092),
       (False,3050770,7407594), (True,1161166831629,4821213), (True,491872924562,1)],
     PC 273437254897 2 [(False,0,4), (False,0,16), (False,0,256), (True,0,131072),
       (True,0,34359738368), (True,8635192166,55703069946), (True,22695020125,5767083707),
       (True,243267907,272471033119), (True,543016451192,19126249098),
       (False,1337833078,200021730638), (True,292635271974,233697417410),
       (False,199733145085,117143376855), (False,50185446552,33555925881),
       (False,4117947139,232050736478), (False,196928338533,91571798383)] [PF 7427131 1 36816 []
       105896486852 35463827879] [(True,2808196830184029737773,26412523506),
       (True,233627440508301353238,26048191302), (False,2481403897,219190321595),
       (False,175705381108,116799058149), (False,49890860664,80604634593),
       (True,2175825614159827099771,252391146980), (False,232964930465,259877383295),
       (True,22617314049071771307156,265885647643), (False,258542595628,72117665133),
       (True,1741756232684617031237,94431249298), (False,32611726033,64473859203),
       (True,1392103069231822420562,59353354933), (False,12883470261,87699316372),
       (False,28127732978,136008349118), (False,67650880406,221886529742),
       (False,180054587292,210709617640), (True,14868692367879907962199,155819118297),
       (True,8131029619735539608072,145112073463), (True,7051981321253163936140,247634321747),
       (False,224266284893,6255760988), (True,13105824644326388953,91028902311),
       (True,2774997968180225589086,1)],
     PC 364583006561 2 [(False,0,4), (True,0,32), (False,0,1024), (False,0,1048576),
       (False,3,5762608093), (False,91083927,78466451602), (False,16887742753,91529163971)] [PF
       2278643791 1 160 [] 213913224725 53703267209] [(False,22978547289,202468725712),
       (False,112439647909,117612975995), (False,37941461542,99531062963),
       (False,27171953481,306060550528), (True,23516776064897208835887,9572036657),
       (True,23002327351355142990,212103944789), (True,11294332395380232450322,283870500249),
       (True,20230359466115393939342,243912343109), (True,14935873610226621965793,97243125578),
       (False,25937098827,361231430137), (True,32759263891755688652227,32727530352),
       (False,2937852899,189711373565), (False,98716628620,73720433405),
       (False,14906625387,150049729918), (True,5652408093534983541056,299773552588),
       (False,246484836687,186866994337), (True,8766541114238311144063,284953101156),
       (False,222715454086,149336278090), (True,5598784090870202478050,306572519050),
       (True,23595518124303192748441,110010306099), (False,33194820466,248781520375),
       (False,169761738112,202480387793), (False,112452601199,67129944210),
       (False,12360503173,218592206047), (True,11995888475581417048953,257764475306),
       (False,182242516886,235792504590), (False,152497796716,177698814424),
       (True,7927424855612542659462,152337432314), (True,5826078551641468124281,60400893075),
       (True,915903658094594808827,324760072928), (True,26478192424730601593183,1)],
     PC 3329 3 [(True,0,27), (False,0,729), (True,478,3061), (False,2814,1915), (False,1101,1996),
       (False,1196,2532), (False,1925,2699), (False,2188,749), (False,168,1729), (False,897,3328)]
       [PF 2 8 13 [] 1664 1663] [(False,3327,1)],
     PC 1278337 2 [(True,0,8), (False,0,64), (False,0,4096), (False,13,158835),
       (False,19735,576530), (False,260015,45845), (False,1644,177997), (False,24784,627801)] [PF
       3329 1 384 [] 437638 214927] [(True,193562244816,1052409), (False,866410,743111),
       (True,271196464819,556118), (False,241929,437851), (False,149971,19974),
       (False,312,119532), (False,11176,1204712), (False,1135327,491745), (False,189162,361431),
       (False,102189,388068), (True,73959217679,1)],
     PC 23010067 2 [(False,0,4), (False,0,16), (True,0,512), (False,0,262144)] [PF 1278337 1 18 []
       20492278 233459] [(False,2986,11416674), (False,5664496,12741044),
       (True,1849405180094,11456486), (True,1495288165782,7844830), (True,701114763398,7633934),
       (False,2532671,18917399), (False,15552670,6196311), (False,1668585,17363526),
       (False,13102614,9137538), (False,3628611,18474507), (False,14832960,5484729),
       (True,342714426760,4644584), (True,245762537361,10818877), (False,5086821,7514122),
       (False,2453796,19066552), (False,15798885,2793409), (False,339118,5940375),
       (False,1533592,469961), (False,9598,12718455), (True,1842853255397,1)],
     PC 486110675443 2 [(False,0,4), (True,0,32), (False,0,1024), (False,0,1048576),
       (True,4,254580553780), (False,133326136694,405385282958), (True,676130913970,25825820818),
       (False,1372060015,283459477479), (False,165290086047,328948351620),
       (False,222597493739,130903073023), (False,35250438619,120768225312),
       (True,60006763816,275662824200), (True,312644821373,455098636761),
       (False,426065049883,440002447952)] [PF 23010067 1 21126 [] 383305422972 346948406897]
       [(False,398267645587,362560774263), (True,118982082313650867893077,344030831777),
       (False,243477913965,195680716234), (True,34658997170984538922128,53112933008),
       (True,2553409697688338847202,381505464442), (True,131741152913158769334804,214785228356),
       (True,41756948482763080545839,256174384995), (True,59400669309385463586817,370825563869),
       (False,282881256811,201844056888), (False,83810180189,331852845817),
       (False,226545757664,48340552337), (True,2115159638425126051885,430971796633),
       (True,168119323808260450086277,230832915217), (False,109612558290,191601084619),
       (True,33228892017118892978773,183580748833), (True,30505223275781619705832,75936617752),
       (False,11862257314,426154593402), (False,373593394780,74791546064),
       (False,11507205344,410294724704), (True,152374326932480335465078,79666682878),
       (False,13056245586,223671018286), (False,102916325331,332205831163),
       (True,99892857500622685132165,145281224593), (True,19104642612570573791029,1)],
     PC 509 2 [(False,0,4), (False,0,16)] [PF 127 1 4 [] 34 1] [(True,8,24), (True,18,54),
       (True,91,337), (True,3569,483), (True,7333,127), (True,507,1)],
     PC 1019 2 [(False,0,4)] [PF 509 1 2 [] 340 1] [(True,0,64), (True,16,80), (True,25,125),
       (True,61,341), (True,456,460), (True,830,630), (False,389,509), (True,1017,1)],
     PC 752023 2 [(False,0,4), (True,0,32), (True,0,2048), (True,11,116355), (False,18002,567979),
       (False,428976,325993), (False,141314,57827), (True,8893,183319), (False,44687,203960)] [PF
       1019 1 738 [] 244888 66417] [(True,11282462184,137768), (True,5147668689,715193),
       (True,138726806916,314972), (True,26906535179,587523), (True,93618919736,268912),
       (True,19612558202,483594), (False,310978,548342), (True,81548673951,44567),
       (True,538692193,1)],
     PC 2746387997 2 [(True,0,8), (True,0,128), (False,0,16384), (False,0,268435456),
       (True,52474445,2178619207), (False,1728226912,1900133585), (False,1314638588,2368723989),
       (False,2042993685,1633273176), (True,1942610636,1327317860), (False,641487183,1854437149),
       (False,1252167262,998093987)] [PF 752023 1 3652 [] 2492471461 905815485]
       [(False,362727920,1220779929), (True,541607048447530017,1325662518),
       (True,638668506526166157,1578734259), (False,907519936,1271670889),
       (True,587704486319590696,2550243915), (True,2363594587663175443,2619938404),
       (True,2494547102515677734,1105671394), (True,444285044340013313,1160037871),
       (False,489984613,2296322480), (False,1920011643,1717901329),
       (True,1072521429043356882,1692947513), (True,1041589358741615337,892468814),
       (False,290017501,296231099), (False,31952100,95804101), (True,3335629044254106,2383091705),
       (False,2067852787,660009386), (True,158310518107956505,2690292567),
       (True,2630319897636300568,2113640347), (True,1623572654310109106,1)],
     PC 648147567293 2 [(True,0,8), (True,0,128), (False,0,16384), (True,0,536870912),
       (True,889397,250395731167), (False,96734178064,387050721137),
       (False,231132952266,214746736831)] [PF 2746387997 1 236 [] 494837090765 163951321993]
       [(False,71150712132,42430423885), (True,596495839455969171184,58714985063),
       (False,5318926807,381738990518), (False,224832529249,630075655367),
       (False,612507631779,199088100442), (True,13132375242877478064457,205707646583),
       (True,14020178701587687695264,462170467407), (True,70771281440126886766785,353426233314),
       (False,192718616404,196519748224), (True,12795730250425306599700,151815044156),
       (True,7636287984186989883787,618467308625), (False,590146181424,631972825393),
       (False,616201729651,176749699706), (True,10350707764697449877159,609396963729),
       (False,572963130839,245425536614), (True,19956858424359406408898,22804214562),
       (False,802336116,53018597856), (False,4336931681,60156687203),
       (False,5583338112,572492392393), (True,108590571238734308716566,407737007281),
       (True,55082410800544055488396,303322434563), (True,30483283433345897091353,151579071810),
       (False,35449049213,525350485691), (False,425818357952,480914083545),
       (False,356829782942,380711251019), (False,223623544955,431955381546),
       (True,61820207161437546058538,268387124762), (True,23865802011183831093075,12610759189),
       (True,52690842549021490320,400416798391), (False,247372080872,304682069385),
       (True,30757176950690288710918,1)],
     PC 421 2 [(True,0,8), (False,0,64), (False,9,307)] [PF 7 1 60 [(False,223,366),
       (True,97682,370)] 170 149, PF 5 1 84 [(True,68727,376), (True,103093,279)] 368 243]
       [(True,120315,385), (True,130269,1)],
     PC 1380881 2 [(False,0,4), (True,0,32), (False,0,1024), (False,0,1048576),
       (False,796239,321217), (False,74720,932769)] [PF 421 1 3280 [(False,630074,792167),
       (True,423888215963,823238), (False,490788,980416), (False,696088,839528),
       (True,476089080594,45582)] 208400 6879, PF 41 1 33680 [(True,587714030005,778204),
       (False,438561,913375), (True,563528767000,663625), (False,318925,667700),
       (False,322854,335626), (True,76090255806,1119558), (False,907688,1002236),
       (True,678512490597,1362267)] 1232593 1215977] [(True,68584168,385360),
       (False,107541,1005979), (True,33405267391,1286191), (False,1197994,135767),
       (False,13348,678701), (True,15205268760,54822), (False,2176,654628), (True,14145759727,1)],
     PC 864196756231 2 [(False,0,4), (False,0,16), (True,0,512), (True,0,524288),
       (False,0,274877906944), (False,87431320681,401777505825),
       (False,186792143135,254253806440), (True,149607129679,835602667351),
       (True,1615909369364,562275207318), (False,365834986633,450036292901),
       (False,234359436630,304060854271), (True,213962856105,159382742627),
       (False,29394762783,56200710256), (True,7309723880,517447674792),
       (False,309827703259,718764986435), (False,597807272475,709162967500),
       (True,1163883365326,862972653694), (True,1723500570105,308692617017),
       (False,110265551350,111475016439)] [PF 1380881 1 625830 [] 202690009588 26145518353]
       [(False,14379456067,607747237244), (True,47644294421946188019535,532281723719),
       (False,327846443952,83098926049), (True,890749803908425578215,267861734374),
       (False,83024968821,559220698225), (False,361871052012,586632063853),
       (False,398216234739,464012296900), (True,27773070290752438344374,544930495606),
       (False,343613005835,10109699351), (False,118267073,112074939338),
       (True,1620249656886143666769,504730065477), (False,294785229358,421756607831),
       (False,205831177873,59348447898), (False,4075736506,164150949518),
       (False,31179860411,739409961383), (True,70523767899603771675735,277473979686),
       (False,89090602166,263038062250), (False,80061654586,526909837134),
       (False,321262460738,9810975478), (True,12416216984169951725,1)],
     PC 1152262341641 2 [(True,0,8), (False,0,64), (False,0,4096), (True,0,33554432),
       (False,977,139599059367), (True,33825452194,178239871024), (True,55142740458,667320805574),
       (True,772943871302,362359452370), (False,113953539898,735698324282),
       (True,939459712933,1125429487995), (True,2198442987635,834589631015),
       (True,1208995255725,959588715725), (False,799132688859,214849798006),
       (False,40060699751,354715944645), (False,109196835510,855003704115),
       (True,1268862667175,830609532275), (False,598745763159,877337271706),
       (False,668008196144,261801318132), (False,59482921292,85454849252)] [PF 1380881 1 834440 []
       296652263347 22000523256] [(False,6337559596,305695022468),
       (True,6930460275506296490351,1024485748057), (False,910878547394,1147841041695),
       (True,97712211386831911924556,992034190904), (False,854086608888,1046113232008),
       (False,949742827335,452592155329), (False,177771720608,25966860513),
       (True,50006243810736104612,591789771296), (False,303936977504,525006075552),
       (False,239208875796,502244283468), (True,18707482540330529623038,552862020690),
       (False,265266339856,418101332404), (False,151709135880,578649240136),
       (False,290589157529,119227933407), (False,12336860791,967327129618),
       (True,69395623196321487941687,571977720481), (False,283927106617,782681132864),
       (False,531640871703,713185357873), (False,441421485631,613988623658),
       (True,27957993052952050549847,1)],
     PC 937 5 [(False,0,25), (False,0,625), (True,2084,417), (True,927,846), (True,3819,177),
       (False,33,408), (False,177,615)] [PF 3 2 104 [(False,403,614)] 107 70, PF 2 3 117
       [(True,248247,936)] 468 467] [(True,247039,1)],
     PC 1628507 2 [(False,0,4), (True,0,32), (True,0,2048), (False,2,937290)] [PF 937 1 1738
       [(False,539458,1414894), (False,1229300,1376136), (True,1089951231268,438964),
       (True,110902711159,998227), (True,573512619877,262771), (True,39741039389,502667)] 1068910
       329937, PF 79 1 20614 [(True,505629403164,1092852), (True,687396088675,1421935),
       (False,1241566,222263), (True,28432738956,273318), (False,45871,1484527),
       (True,1268412623086,141808), (False,12348,704428), (False,304707,1324735),
       (True,1010048842386,1192548)] 878888 643605] [(True,77992258125,1205588),
       (True,448630275351,428291), (False,112638,1409215), (True,612978524819,656842),
       (False,264930,1053454), (True,342548364356,1122880), (False,774242,977706),
       (False,586984,1469548), (True,666589237181,1)],
     PC 1536349788871 2 [(True,0,8), (True,0,128), (False,0,16384), (False,0,268435456),
       (True,93803,968830389459), (True,1221899245000,1170934230362),
       (False,892431516419,1292262678095), (False,1086954833654,625767364391),
       (True,509759948123,54186862629), (False,1911163787,918765977164),
       (True,1098878558657,688799659545), (False,308813119529,333872645266),
       (False,72555705780,426877836376), (True,237217707203,318311688939),
       (True,131900081673,16183430259), (False,170471214,1310433747687),
       (False,1117738043456,285754671793), (True,106298361275,870767299173),
       (False,493530636578,1060356560491)] [PF 1628507 1 943410 [] 1154517519960 796823897369]
       [(True,776007070183559264300126,1284763753025), (False,1074376364707,1291250874828),
       (False,1085253393349,802858410605), (False,419553953239,455719862856),
       (True,143336811249059761603202,341012672434), (True,80260684455815584639227,794311536079),
       (False,410668729815,983525805376), (True,667626153255134856516454,1279565152182),
       (True,1130021302326000309682603,612608040671), (False,244272895543,365703228288),
       (False,87049740982,1294107199622), (True,1155852267674784707319719,804632948795),
       (False,421410662452,418644780333), (True,120963176872092620357065,257381742884),
       (False,43118671314,343540490962), (True,81454988484051595733242,24585843222),
       (True,417188221500639178307,448650389047), (False,131016499660,766014284349),
       (True,404981849298721852068033,94546015548), (True,6169476081610677992153,1)],
     PC 19699 5 [(True,0,125), (True,3,19028), (False,18379,16863), (True,72176,8821),
       (False,3949,18690), (True,88663,8063), (False,3300,5269), (True,7046,12651),
       (False,8124,13125)] [PF 7 2 402 [(True,114776705,16330)] 16712 13853, PF 3 1 6566
       [(True,114776705,16330), (True,177675481,12281)] 2472 1541] [(True,221062142,1742),
       (True,2515581,1)],
     PC 2797259 2 [(False,0,4), (False,0,16), (False,0,256), (True,0,131072),
       (True,12283,1006071), (True,723693,956595), (False,327132,1062837)] [PF 19699 1 142 []
       293847 111649] [(False,403831,2589340), (False,2396875,1469975),
       (True,821020275721,1724386), (True,1129803618897,994329), (False,353449,1763950),
       (False,1112345,2540145), (True,2451607840847,509552), (True,98653161191,141779),
       (True,7637615707,1606804), (True,980979187430,563822), (False,113645,748629),
       (False,200355,552696), (True,116066430405,396297), (True,59672681548,1)],
     PC 39161627 2 [(True,0,8), (True,0,128), (False,0,16384)] [PF 2797259 1 14 [] 8937638 3739]
       [(False,6,33465694), (True,468553173891,2923567), (False,218255,23102604),
       (True,223296070537,4405645), (False,495630,30676015), (True,393692458504,8580392),
       (False,1879981,12184577), (True,62112659688,24340360), (False,15128409,14568157),
       (True,88790896103,21577635), (True,194790107639,5429747), (True,12334410577,16674677),
       (False,7099931,3506592), (True,5144340281,8340989), (True,29106789802,15886610),
       (False,6444685,27189605), (False,18877525,27322850), (True,312328207321,11368733),
       (False,3300375,35315164), (True,521773078630,5813054), (True,14137347309,1)],
     PC 341411064187 2 [(False,0,4), (False,0,16), (False,0,256), (True,0,131072),
       (False,0,17179869184), (False,864494259,230610823423), (False,155769268949,324980407466),
       (False,309340488095,127434187391), (False,47565746454,295341743983),
       (True,510977849804,271144039230), (True,430677841006,301511333678),
       (True,532549140156,40738822196), (False,4861153629,263915277793)] [PF 39161627 1 8718 []
       159733923103 123476439725] [(False,204010007755,123686180664),
       (False,44808949949,57538104433), (True,2559163546170526207578,340555074691),
       (False,339701231341,27501660714), (True,584661882188770009453,217728640517),
       (False,138852444674,264133737251), (True,53930530592448094172665,45082770438),
       (False,5953105811,214083021187), (True,35428387856069439744088,191132588961),
       (True,28239462456077139522615,141093428148), (False,58309051916,178247377612),
       (False,93061212591,328965244027), (False,316973124568,304264530513),
       (True,71563174245633252770905,204309966782), (True,32267554102841972039891,83719034915),
       (True,5417954669885235612102,28892713351), (True,645302872508421804422,114485058479),
       (False,38390169475,161016701616), (False,75938892786,45219756474),
       (False,5989338337,156698075657), (True,18980789235723468631672,301012089993),
       (True,70041400095300337730083,168911594336), (False,83568254500,34375689396),
       (True,913460503069375054024,227805332600), (True,40115731207912462724877,1)],
     PC 2048466385123 2 [(True,0,8), (False,0,64)] [PF 341411064187 1 6 [] 162576697232 5]
       [(False,0,4096), (False,0,16777216), (True,8794,185118710322),
       (True,1070660460064,524972767904), (True,8610426892385,603877417469),
       (True,11393278420654,868045891062), (False,367837946700,2005824543744),
       (True,125700502721616,298537483536), (True,2784510550082,1147356820858),
       (True,41128998636011,1858224330143), (True,107881609343272,1611876686280),
       (True,81173591190507,1514251630239), (False,1119353491145,861038961286),
       (True,23163103035107,1097582009783), (True,37637874716760,813790492216),
       (False,323293059642,957376084690), (True,28636258982987,1243106447999),
       (False,754375884456,1142245755913), (True,40763384787818,1262738836802),
       (True,49817073113371,1063806801423), (True,35357101690441,1398075086213),
       (True,61067779045159,247188838059), (False,29828325280,363930078041),
       (True,4137967100923,1776498683055), (True,98600907490715,1269287880655),
       (False,786486776487,295760226124), (True,2732943614550,631205716414),
       (False,194497043899,817017504819), (False,325862122038,972954582087),
       (True,29575784129757,170395231305), (False,14173791213,1902200678826),
       (True,113048237805359,1075495975507), (True,36138382602156,1811223925948),
       (True,102493287934860,1661915629276), (True,86291710251630,129551686774),
       (False,8193270667,424805440035), (True,5638080490073,768174894421),
       (True,18436197466101,1)],
     PC 106751 5 [(False,0,25), (True,0,3125), (True,457,42918), (True,86273,44597),
       (True,93155,72640), (True,247143,85607), (False,68650,102299), (True,490163,36592),
       (False,12542,103422), (True,500984,7436), (False,517,103829)] [PF 5 3 854
       [(True,10485377281,67758), (True,4465477200,16356)] 99891 15304, PF 7 1 15250
       [(False,100986,104755), (True,10673239176,8549)] 87881 7037] [(False,2506,730),
       (True,81649,1)],
     PC 21350201 2 [(True,0,8), (False,0,64), (False,0,4096), (True,1,12204231),
       (False,6976199,3435362), (False,552768,4164676), (False,812382,7196194)] [PF 106751 1 200
       [] 7651762 2579065] [(True,17454468167049,7542535), (False,2664604,3240821),
       (True,3540062939581,114173), (False,610,11851319), (False,6578568,12947593),
       (False,7851924,8856925), (False,3674209,19789616), (False,18343101,8114155),
       (True,22191542676377,1619073), (True,883555339490,8336336), (True,23423474507627,12682797),
       (True,54216437509887,15209259), (True,77968109869999,14197915),
       (True,67943832192116,11246334), (True,42630737845351,11484313), (True,44454009278985,1)],
     PC 2731288513529 2 [(True,0,8), (True,0,128), (True,0,32768), (True,0,2147483648),
       (False,1688465,958431644919), (False,336321561575,206304468386),
       (True,31165900976,2529096585688), (True,4683745058828,2271473982676),
       (True,3778139166489,2502436312271), (False,2292759430559,1394217644730),
       (True,1423388873967,1892438146257), (True,2622441473809,677450558137),
       (True,336060622264,1194311211882), (False,522236762524,2678163794728),
       (False,2626072374215,2621742339249), (False,2516589829072,2555536368913)] [PF 21350201 1
       127928 [] 27111362169 25366808263] [(False,2391093471263,2224884584442),
       (True,4631583110393377910627192,1760414766764), (False,1134651332398,1715820019154),
       (False,1077893574240,1202520982756), (False,529441216775,2081240106561),
       (True,4052834416196325551601289,1475739245392), (False,797354914943,440893469817),
       (True,181878691274899816476796,1162889694373),
       (True,1265294240686644364813457,379468749024),
       (True,134730685310840401287337,1542912787615), (False,871595900028,443087909413),
       (False,71880687263,1980700523442), (False,1436382331683,1632680688057),
       (True,2494118014818512985701822,937872064499),
       (True,823003510997179680265497,534786433000), (True,267593308952853348953969,800402253399),
       (False,234557339538,2136047443599), (False,1670529736681,382810015552),
       (True,137113769740828048794087,390262843729),
       (True,142504604537559033548337,1729971364360),
       (True,2800221053887097759067586,2268551793806), (False,1884212237443,1577674099289),
       (False,911311841000,1091033416521), (True,1113757374609011311856608,1)]]"

definition certs_7 :: "prime_cert list" where
  "certs_7 = [
     PC 114913 5 [(False,0,25), (False,0,625), (True,16,114517), (False,114122,41903),
       (True,76399,68758), (False,41141,26831), (True,31323,92906), (True,375567,93509),
       (False,76091,87998), (True,336935,28365), (False,7001,67312), (False,39429,667),
       (False,3,100150), (False,87283,71121)] [PF 2 5 3591 [(True,3130577073,114912)] 57456 57455,
       PF 3 3 4256 [(False,44017,71120)] 14597 9034] [(False,114911,1)],
     PC 161337853 2 [(False,0,4), (True,0,32), (False,0,1024), (True,0,2097152),
       (True,54519,114614501), (True,162844411,35168419), (True,15332021,39628209),
       (True,19467160,98687882), (False,60365858,129423050), (False,103821425,66401975)] [PF
       114913 1 1404 [] 119764771 49291701] [(True,1814707847048220,1462715),
       (True,880570543797,52721534), (False,17228195,154947821), (False,148810875,157096666),
       (False,152966969,109937999), (False,74913378,56626567), (False,19874865,42440644),
       (False,11164201,43334283), (True,772872676650182,83736529),
       (True,2885855843791880,55852335), (True,1283888745912557,48524254),
       (False,14594239,39827649), (False,9831800,121741801), (False,91863538,120819687),
       (False,90477197,57339928), (True,1353190717842283,1)],
     PC 55177545727 2 [(False,0,4), (True,0,32), (False,0,1024), (True,0,2097152),
       (False,79,39020398671), (True,55188808867,10001571173), (True,3625801931,12371793021),
       (False,2773977358,37756657175)] [PF 161337853 1 342 [] 37386773748 25582863113]
       [(False,25835965377,39872686546), (False,28813009195,5985450351),
       (True,24514600639793603104,31203980567), (True,666271374550773232263,21755343374),
       (False,8577673382,54069965162), (False,52984617095,32945283179),
       (True,742707222001068903343,52779828814), (True,1906194059904030121362,24588206126),
       (True,413699358715217604474,33523127702), (False,20366982186,35590381582),
       (True,866755180159835274945,54362734685), (True,2022244897756615502833,8343894784),
       (True,47639675578818908576,31557702048), (False,18048801290,53831806474),
       (True,1982937679606833120346,49929788758), (False,45181128891,37869883807),
       (False,25991154203,22140072668), (False,8883737239,12745410471),
       (True,111157510216057938491,956981218), (True,626668674190624353,20275595069),
       (True,281305598589655531015,42079837270), (True,1211655786149173773506,41883448638),
       (True,1200372465538795287578,35427461494), (True,858837949984874632550,22300644450),
       (True,340303161991394150081,27829683613), (False,14036349021,53321550502),
       (True,1945524464139063098437,1)],
     PC 3641718017983 2 [(False,0,4), (False,0,16), (False,0,256), (False,0,65536),
       (True,0,8589934592), (False,20261584,769162141392)] [PF 55177545727 1 66 [] 3029474178191
       639850980960] [(True,124953200575940508336754,1314028261106),
       (False,474136180357,1533854983305), (False,646044284096,2250539824657),
       (True,1069756637609723855390567,142807661047), (True,4307393986009889606620,786833015468),
       (False,170003880359,69384763127), (True,1016809991199180167885,3228201819613),
       (True,2201065369775019966482690,745193364178), (False,152486586625,1937296338309),
       (False,1030589706257,1535167359850), (False,647150276630,2665627385210),
       (True,1500757311599447620794133,2586766893461),
       (True,1413273361248842459541918,636714089838), (False,111322411619,364721767),
       (True,28095382655537666,3385870998610), (False,3147998379505,3634173293685),
       (True,2789477419061322503438851,2332326523667),
       (True,1148921316941405078087637,605855113317), (False,100793201593,933992495570),
       (True,184246123236224164903095,3052341503415), (False,2558349824852,2561820348709),
       (False,1802150377006,1895820267783), (False,986933768619,1128424659612),
       (False,349654258273,3192523467185), (True,2152681515111352668316610,1044903223570),
       (True,230602346933282307923286,2427088048662),
       (True,1244178374481371252223828,3081863480724),
       (True,2006034409293937025705218,3079349037698),
       (True,2002762361989859783888248,2009003968184),
       (True,852458359796314110268027,2847522846011),
       (True,1712560880326962047513918,511040225038),
       (True,55159682331821189508005,3398102916133),
       (True,2438847476982949068378603,973217817339),
       (True,200046836291207112896141,3561786598429), (True,2679460603828928012941937,1)],
     PC 149 2 [(False,0,4), (False,0,16)] [PF 37 1 4 [] 10 1] [(False,1,107), (False,76,125),
       (True,1677,127), (False,108,37), (True,147,1)],
     PC 10133 2 [(False,0,4), (False,0,16), (False,0,256), (True,12,9476), (False,8861,6063),
       (False,3627,7578)] [PF 149 1 68 [] 6347 4746] [(False,5667,2373), (False,555,7314),
       (True,40006123,4129), (False,1682,4935), (True,18213393,5781), (False,3298,1327),
       (True,1316917,1)],
     PC 14003807 2 [(False,0,4), (True,0,32), (False,0,1024), (True,0,2097152),
       (True,628121,7765561), (False,4306253,1739550), (False,216086,7563098),
       (True,8169271,8300511), (True,9839964,8979294), (False,5757557,3718937)] [PF 10133 1 1382
       [] 10985624 2917409] [(False,987623,10529208), (False,7916720,2154224),
       (True,1232407761185,10055617), (True,26852835517300,3236493), (True,2781775313559,1351800),
       (True,485285805900,12818700), (False,11733885,8789805), (False,5517119,2265992),
       (True,1363607713304,9591640), (False,6569610,7384330), (True,14480878114615,5179995),
       (False,1916075,3702500), (True,3640515119057,1)],
     PC 4855624023953 2 [(False,0,4), (True,0,32), (False,0,1024), (True,0,2097152),
       (False,0,4398046511104), (False,3983589548617,1274329275815),
       (True,668880084285,411188949845), (False,34820725748,1166329682181),
       (True,560309002849,2110616591425), (False,917431492640,4641480324705),
       (False,4436780833596,677022212037), (True,188795126364,4664377581846),
       (True,8961327367482,1983656239086), (True,1620756489981,144639715899),
       (False,4308539399,1411013153954), (False,410031359678,4604275466982),
       (False,4365937822054,1873824528862), (False,723124020237,4643726278183)] [PF 14003807 1
       346736 [] 1274996177513 1219355787205] [(True,20623139822056947170394739,4038292771220),
       (False,3358540205263,644611623761), (True,397390816113953278599801,3410605281790),
       (False,2395619663052,4363068519544), (True,18205626466864272200154173,970901434419),
       (False,194135623085,261138112556), (True,65217190029158892956762,4794274611702),
       (True,21982008622989295796759726,1222712430254), (False,307895685440,3702901160196),
       (True,13113112908584115206194940,4406729040308), (False,3999333708478,3046097561330),
       (True,8873790656355112255025245,2288835015215),
       (True,5010147810275743306831366,2677898649377),
       (True,6858195066346444920790429,73160043770), (False,1102307752,2027490229244),
       (False,846588741097,1168029315095), (True,1304755230950521244174226,3336688916197),
       (False,2292906713647,4415248956218), (True,18643693482117248650848539,605370642225),
       (True,350480833229728468601404,582908284363), (True,324954096558113626980445,224202968642),
       (True,48073337987579462453665,2960333276267), (True,8381133820291865232451662,1)],
     PC 113 3 [(True,0,27), (True,19,40), (False,14,18), (False,2,98), (False,84,112)] [PF 2 4 7
       [] 56 55] [(False,111,1)],
     PC 63281 3 [(False,0,9), (False,0,81), (False,0,6561), (True,2040,46923),
       (True,104380,33007), (False,17216,16353), (False,4225,58384), (False,53865,60391)] [PF 113
       1 560 [(False,57632,62289)] 31290 30799, PF 2 4 3955 [(True,3480513556,19235),
       (True,353088252,48163), (False,36656,46233), (False,33777,47952), (False,36336,15888),
       (True,240900304,63280)] 31640 31639] [(True,3819097470,44499), (True,1949119776,46233),
       (False,33777,47952), (False,36336,15888), (False,3989,635), (True,396904,1)],
     PC 2404679 2 [(False,0,4), (False,0,16), (True,0,512), (True,0,524288),
       (False,114309,1455133)] [PF 63281 1 38 [] 2065379 1249813] [(True,1281300391939,2355056),
       (True,3356201724541,849749), (True,436945130274,1582087), (False,1040887,165296),
       (True,16533708162,82930), (True,4161682171,413591), (True,103511294182,1109795),
       (False,512186,2023731), (False,1703132,1405733), (True,1195779928733,302730),
       (True,55457016431,455051), (False,86111,2099232), (False,1832583,1133967),
       (False,534741,703950), (True,299867366581,1)],
     PC 539513780441 2 [(True,0,8), (False,0,64), (True,0,8192), (True,0,134217728),
       (False,33390,33380556994), (True,4130613992,92954101600), (True,32030562767,449337679753),
       (False,374233907947,114423076382), (False,24267480986,184060015098),
       (False,62793742043,220095168641), (True,179576073921,349279594601),
       (True,452245112645,207973921957), (False,80170616177,238665915792),
       (True,211158348223,200225468185), (False,74308089178,132707026727),
       (False,32642641543,276324872066), (False,141526384849,259412169947)] [PF 2404679 1 224360
       [] 206292646292 99190836191] [(False,124732076095,343275324914),
       (False,218415085891,413138249465), (True,82068900382904551463863,163272876492),
       (False,49411216477,276986699707), (False,142205138396,414230973213),
       (True,82503608297805566948623,102303648700), (False,19399016145,108067470055),
       (True,5615362188177018650380,52302772095), (True,1315337553000909135809,382490819906),
       (False,271168657068,498351041848), (False,460328855192,273476355432),
       (False,138623552709,174779141955), (True,14688147000029434909684,522618792031),
       (False,506252873764,405643855037), (True,79118420263422260291089,8141557194),
       (False,122860538,219778016378), (False,89529458253,137718809311),
       (False,35154746969,347604061392), (True,58097505889013558105547,34544857581),
       (True,573792170023144415973,275623893174), (True,36527632946780444681731,1)],
     PC 6474165365293 2 [(True,0,8), (False,0,64), (False,0,4096)] [PF 539513780441 1 12 []
       1530400994775 968] [(True,0,68719476736), (True,2987692161452,4146482013380),
       (True,10877666298585119,2252315067533), (True,3209478304157315,1480979072249),
       (False,338777106960,4914629178721), (True,15281207376055685,5629331824031),
       (True,20048868076091079,1415494863109), (False,309480156041,1851243460868),
       (False,529350450295,4387532701989), (True,12179147572450257,5972865141315),
       (True,22570520687708522,4842790978654), (True,14837734963512835,3340368393081),
       (False,1723474822146,2395832493783), (True,3631525193900483,2755850724025),
       (True,4804935241175616,1037769464512), (False,166348154658,6296197913350),
       (False,6123122584509,1365860176363), (False,288156683697,5558001179548),
       (False,4771484101635,5457619930249), (True,18844418299126329,531788296699),
       (True,178917866434857,2735005659595), (False,1155400817859,2737322396338),
       (True,4740542684474487,3687704979733), (True,8603764200785737,2911088053803),
       (True,5361506588189952,1850684329728), (True,2166909907381563,3437144825505),
       (True,7474322336951429,6332493228703), (False,6193921259185,1811406596004),
       (False,506813414689,1396091779139), (False,301053826370,5911909404911),
       (True,22112187094399569,3572773045699), (True,8075827213071202,3968116077510),
       (False,2432119712141,3705055677787), (True,8684916299895936,3282204194176),
       (True,6815651127071064,6275728343944), (False,6083373535393,710052159987),
       (False,77874759363,3742876851810), (True,8863132385086043,1)],
     PC 1427 2 [(True,0,8), (True,0,128), (True,22,1374), (True,2645,1337)] [PF 23 1 62
       [(False,1252,965)] 1014 685, PF 2 1 713 [(False,1252,965), (True,872493,314),
       (True,92377,873), (True,714061,1426)] 713 712] [(False,652,821), (True,455816,133),
       (True,11962,111), (True,8332,1)],
     PC 3193627 2 [(True,0,8), (False,0,64)] [PF 1427 1 2238 [(False,0,4096), (True,336,683152),
       (True,9352559,985163), (True,19449657,3004477), (False,2826529,2712846),
       (True,147484392,2492040), (False,1944580,169940), (True,578744,2165912)] 1511870 1025347,
       PF 373 1 8562 [(False,0,4096), (True,336,683152), (True,9352559,985163),
       (False,303900,2891269), (False,2617536,2787289), (True,155689665,284389),
       (False,25324,1693173), (False,897673,2077958), (True,86530519,2982483),
       (True,178259111,212899)] 2664746 177641] [(False,1468917,1799785),
       (True,2196837189888,838424), (True,476742664361,856365), (False,229632,2057961),
       (False,1326142,580487), (True,228529154310,2640758), (False,2183599,2090991),
       (False,1369052,1930477), (True,2527469244874,1213450), (True,998620295437,1)],
     PC 69614681347 2 [(False,0,4), (True,0,32), (False,0,1024), (True,0,2097152),
       (False,63,12321586243), (True,4361766357,34753667219), (False,17350038264,62378132353),
       (False,55893833320,14254234569), (True,5837366463,68739765861),
       (False,67875846289,58413600038), (False,49014785435,50331820499),
       (True,72780399356,11769205470), (True,3979453607,3681073171),
       (False,194647155,19830877456)] [PF 3193627 1 21798 [] 22680104373 6460797662]
       [(True,112027579600676741839,45118657683), (False,29242298200,68783253089),
       (False,67961754818,67416062075), (False,65286881125,43909430250),
       (False,27695854201,44028773753), (True,552222720858024607025,58427714429),
       (False,49038475036,22820442549), (True,148350568819311777480,69505546296),
       (True,1376195120174392830953,56339643205), (True,904209937841580106390,1325861070),
       (False,25251966,10466266698), (True,31205035823082226368,31332131328),
       (True,279653956292130218785,62578538909), (False,56253558246,55032672919),
       (False,43505120328,13023858745), (False,2436567880,63177640665),
       (True,1137019460998185877598,34574415094), (True,340526390338856140314,14791798258),
       (False,3142976330,11258318054), (True,36106726676799883228,28685777580),
       (True,234409033772861746517,1)],
     PC 8632220487029 2 [(True,0,8), (True,0,128), (True,0,32768), (True,0,2147483648),
       (False,534240,8545437014944), (False,8459526014900,447768591036)] [PF 69614681347 1 124 []
       4863421970831 252274325796] [(False,23226551200,6696615168496),
       (False,5195031195312,3709809293968), (False,1594338909471,8310280433365),
       (False,8000347185865,512320578140), (False,30406124957,724674176847),
       (False,60836335607,6359796519806), (True,2098058257499018501959261,2887003945327),
       (True,432340436353117528261522,2839661170306), (False,934136885666,8129727107322),
       (True,3428333301752743215546478,6942088030762), (False,5582872483304,1765507236828),
       (True,161685139596960050248623,4532813589957), (False,2380198591100,7884506419949),
       (True,3224631737250106703160327,329080146153), (False,12545293850,4310922227759),
       (True,963987666897278059390229,1286779866275),
       (True,85889409295650367911969,1711781547399), (False,339448705048,4904952842809),
       (True,1247960313338837081697924,3585932420520),
       (True,667014543325947906425744,6605717259824),
       (True,2263450825299129067365271,130576641277), (False,1975188107,4200911626626),
       (True,915415354732863648147789,8598806366655),
       (True,3835371532802156850199191,929583986361),
       (True,44823768771700464661997,4271536777643),
       (True,946453761758661994717295,6202199768609), (False,4456244141068,3394401587909),
       (True,597664617249971584910981,407395627667), (False,19226941398,3467293736347),
       (False,1392703751274,1575989679463), (False,287729382434,6912606519783),
       (False,5535554724204,2504516017173), (False,726649706144,6267417305753),
       (False,4550453703479,3783355223118), (True,742480993717343207748018,5945958734742),
       (True,1833896761114456228125907,1)],
     PC 1571 2 [(False,0,4), (True,0,32), (False,0,1024)] [PF 157 1 10 [] 43 28] [(False,667,719),
       (False,329,102), (True,6781,745), (True,361773,217), (True,30693,433), (False,119,540),
       (True,190069,1)],
     PC 1794083 2 [(False,0,4), (False,0,16), (False,0,256), (True,0,131072),
       (True,19151,1254835), (True,1755337,1483479), (False,1226648,1619657),
       (True,2924378,739924), (True,610325,1344577), (False,1007694,634327)] [PF 1571 1 1142 []
       134999 47731] [(True,142264670168,907839), (False,459383,419132), (False,97917,408313),
       (False,92927,755028), (True,201556487641,1444165), (False,1162495,30140),
       (False,506,613602), (False,209860,1156024), (True,472502779288,595448),
       (True,125359816629,1)],
     PC 239 2 [(True,0,8), (True,0,128), (False,68,132)] [PF 17 1 14 [] 104 57] [(False,72,216),
       (False,195,51), (False,10,211), (True,24589,1)],
     PC 479 2 [(False,0,4)] [PF 239 1 2 [] 160 1] [(True,0,64), (True,34,98), (False,20,24),
       (True,4,388), (True,1257,73), (True,44,240), (True,481,1)],
     PC 11497 2 [(True,0,8), (False,0,64), (False,0,4096), (False,1459,3093)] [PF 479 1 24 [] 264
       71] [(True,2573684,409), (True,45003,642), (False,35,9769), (True,25674122,4939),
       (True,6562562,3739), (True,3761025,9828), (True,25985177,3343), (True,3006548,1)],
     PC 11509627316059 2 [(False,0,4), (False,0,16), (False,0,256), (True,0,131072),
       (False,0,17179869184), (True,51287135,400300050747), (True,27844538528,11175491894866),
       (True,21702113485109,8388061250481), (False,6113105977258,8652590545139)] [PF 1794083 1
       6415326 [(False,6504756503919,10253111394100),
       (True,79030775378478256674114180,1223294973380),
       (True,1124986403742850836266777,5886776519757), (False,3010882702101,11134740999090),
       (False,10772065307781,8074581873021), (True,49014545093352773178712318,7093283465537),
       (True,37825051042832279175621012,906866746583),
       (True,618260991317801576168180,5342133150951), (False,2479523082617,2219924357998),
       (True,3704769941239636743494324,8353554583440), (False,6062913443004,11272531832364),
       (False,11040320457150,1052981456646), (True,833539792879498473135021,1580850752685)]
       4088600021455 561570435241, PF 11497 1 1001098314
       [(True,56282994624248663979686633,3818518981272), (False,1266860065050,10791037100034),
       (True,87540951488244101730943140,8604401495424),
       (True,55657824303396906556606081,5137388194085), (False,2293102698460,117436418085),
       (True,10367892467014474615389,1645213737324),
       (True,2034836623928707875117385,6692075989949), (False,3890993150817,10068835952398),
       (False,8808404881611,5132147859355), (False,2288426977434,1409682203419),
       (False,172655800232,9993865763873), (False,8677722585070,9070387320999),
       (False,7148096449495,7412170417796), (False,4773418703644,2206350478620),
       (True,3659602316396976359386834,9923254144394), (False,8555530957708,8283123394464),
       (False,5961108147453,9907738999569), (False,8528798490861,3987912148962),
       (True,11955728836550800847768897,3343755327793),
       (True,8405312681958295614123316,5658366441367)] 8521196344582 4189193108729]
       [(True,343250635303353310320709,2329167053294), (False,471346205500,6696172125936),
       (True,6158611753219599726201472,10665024278912),
       (True,15622599736767204897109142,6994577241262), (False,4250711985758,658782664922),
       (True,59609287998783234432584,7830346369084),
       (True,8421540767117464991964570,2728604435730), (False,646874304635,1764706999435),
       (False,270572687397,10877165310802), (False,10279457531473,4310747058297),
       (False,1614521451505,11065040321414), (False,10637626567081,7232474905617),
       (False,4544777326316,7411948042045), (False,4773132289116,1971190068181),
       (True,533686987234761436530800,8859254556085), (False,6819194847430,3717516648855),
       (False,1200727847654,2901513135439), (False,731455349851,2494762165512),
       (True,854846045978189489941361,11112050840341), (True,16959695421065834629216076,1)],
     PC 31237 2 [(True,0,8), (False,0,64), (False,0,4096)] [PF 137 1 228 [(False,537,2947),
       (False,278,923), (True,111710,15914), (True,33208506,94)] 5710 17, PF 19 1 1644
       [(False,537,2947), (False,278,923), (False,27,8530), (True,9540885,21655),
       (False,15012,9181), (False,2698,13335), (True,23317214,19882)] 16595 10562]
       [(False,0,8836), (False,2499,13633), (False,5949,29776), (True,2668033,9723),
       (False,3026,13567), (False,5892,15085), (True,684777,1)],
     PC 187423 2 [(True,0,8), (False,0,64)] [PF 31237 1 6 [] 95199 32] [(True,1,74721),
       (True,1906524,134172), (True,6147250,626), (False,2,17030), (True,99034,88218),
       (False,41523,50295), (False,13496,126217), (False,84998,150935), (False,121550,108575),
       (False,62897,186194), (False,184973,11057), (True,41747,115955), (False,71739,23428),
       (True,187425,1)],
     PC 3614265133 2 [(False,0,4), (False,0,16), (True,0,512), (False,0,262144),
       (True,38,96878418), (True,5193546,3523933830), (False,3435860176,2238425492),
       (True,2772651423,2359149869), (False,1539894805,2203383096), (True,2686519604,1618923100),
       (False,725157648,618922816), (True,211974184,2003413240), (False,1110506413,1728499671),
       (False,826644145,1975011956)] [PF 187423 1 19284 [] 1157208960 632355803]
       [(False,1079243520,1990757776), (True,2165641486535201055,1966284941),
       (True,2112723325734534157,2865690955), (False,2272158889,420094788),
       (True,96437136790257125,777347839), (True,330202617892470758,2641894662),
       (True,3814000236840599695,1846829), (False,943,2525334822), (False,1764484820,571990624),
       (False,90522765,661656631), (False,121128218,2406447167), (False,1602258759,864775942),
       (True,408655096062576678,386555810), (True,81653373314770288,1981163296),
       (True,2144817121277704674,720381254), (True,283579300436288840,3078225576),
       (True,5177863597760057435,1)],
     PC 15346169754719 2 [(False,0,4), (False,0,16), (False,0,256), (False,0,65536),
       (True,0,8589934592), (False,4808168,13957630461672), (False,12694727819278,196841362702),
       (True,5049666814,8345579286342), (False,4538506659174,13834316598858),
       (True,24942812286901,2383147172509), (True,740170418627,3914671959349),
       (False,998598138444,5329224186565)] [PF 3614265133 1 4246 [] 14784682264496 5134237896097]
       [(True,9862612562217720494163728,14035941279693), (False,12837577764080,12308405480729),
       (True,52609912832588298676557478,9984866651483), (False,6496576255924,10846535393933),
       (True,40855080245953418108874520,11107428890405),
       (True,42844105049324482282608535,13932163897460),
       (True,67406401364819284550309003,6970095318843), (False,3165755985386,5824062322115),
       (True,11779206070678454850708260,4461603943185),
       (True,6912673153541167899382018,13066275094183), (False,11125091639519,3275723297328),
       (True,3726305103307501552263318,703163391318),
       (True,171702451715921236947535,2387843471395), (False,371545247773,134692255238),
       (True,6300126092413245197006,10135835316546), (False,6694514605675,6874265939791),
       (True,16410304931643672081771482,12870574422207), (False,10794334260940,4553952374989),
       (False,1351378393770,14036575049491), (True,68420508329381778155943729,805174739614),
       (True,225135652493871454208224,7034295629684),
       (True,17183246694558267762578056,13564941388376),
       (True,63899849534812293445527149,4066243887309), (False,1077424504964,6179613336365),
       (False,2488413825556,8077657614461), (True,22658693985105444701652666,9441889569511),
       (False,5809220155109,2863236069750), (True,2846939940239464240539144,12485587091964),
       (True,54135472174916693232791741,8336160252461), (False,4528267891298,8091242021259),
       (True,22734969497902261503027556,1)],
     PC 37549 2 [(False,0,4), (True,0,32), (False,0,1024), (True,55,31957), (False,27197,29696),
       (False,23485,14151)] [PF 149 1 252 [(True,75468030,26481)] 12721 8971, PF 3 2 4172
       [(False,5333,1984), (False,104,31160), (True,365917898,33598), (False,30062,27566),
       (True,286375762,34418), (False,31548,2872), (True,3108548,13132)] 33171 11600]
       [(False,18675,15786), (False,6636,22632), (True,361228389,16383), (False,7148,2437),
       (True,4188389,19528), (False,10155,32689), (True,753597200,1)],
     PC 20461559672951 2 [(False,0,4), (True,0,32), (True,0,2048), (True,0,8388608),
       (True,6,17968130317622), (False,15778548276446,8894107122738),
       (False,3866036742805,13199894249089), (True,17030686904817,7497368154875),
       (True,5494256561882,16382359477468), (True,26232770750488,17403895731960),
       (True,29606304845797,17338523946253), (True,29384310623417,2462623386451),
       (False,296385712547,4848873159204), (False,1149060545229,12184546512837),
       (True,14511422989885,11650830476503), (True,13267986699142,8044517909976),
       (True,6325448249135,10036311993767), (True,9845540618234,4797906512044),
       (True,2250063755281,2046575011641), (True,409398828361,1892827662451),
       (False,175098898471,7361681369480), (True,5297186866687,9472394057463),
       (False,4385112895302,11552321620167), (True,13044571083425,4084905278603),
       (False,815502405577,9779171183882)] [PF 37549 1 544929550
       [(False,4673748754846,6214220219378), (True,18455958007828564943244502,13190570378286),
       (True,83155401506782195241156057,5419282609865)] 3737268193753 989822518641, PF 11 2
       169103798950 [(False,4673748754846,6214220219378), (False,1887272209555,14641509460079),
       (True,102455439072307176979258986,9508818479876), (False,4418902093898,9273444222378),
       (False,4202845194603,11266485691431), (True,60665286494901990841177182,7813349544120),
       (False,2983566848000,9885898126400), (True,46708462889936453396311868,4952478837532),
       (False,1198689006519,3441304883455), (True,5659911174572283754842312,866927928338),
       (False,36730534961,8502031902333), (True,34546875466053583679496446,16679584282952),
       (True,132963904085704105965657866,4103230905562), (False,822835802033,20425301626461),
       (True,199388575751483082880700533,16228496107639)] 15635188652623 12400599086623]
       [(False,1435307204093,19826506729782), (False,19211163537339,8570848950135),
       (True,19455874118694628744706817,3081937082658), (False,464203918629,17530068040785),
       (False,15018566053925,9034793533550), (True,21619195547273502032404038,20117246886362),
       (False,19778727954049,3925945366445), (True,4082174527126664183483127,18606286818848),
       (False,16919233661492,17029805344212), (True,76810825542101667982766843,13369360448867),
       (False,8735394645795,18175034192644), (True,87489017251292911155581883,197519263907),
       (True,10332894184568291132766,7465331749919), (False,2723701371114,1110637969147),
       (True,326699220394987228229984,1)],
     PC 3617 2 [(False,0,4), (False,0,16), (False,0,256), (False,18,430), (False,51,433)] [PF 113
       1 32 [] 2269 271] [(True,22444,2789), (True,931185,3448), (False,3286,3242),
       (False,2905,3179), (False,2794,143), (True,2448,1)],
     PC 5490607 2 [(False,0,4), (True,0,32), (True,0,2048), (True,1,2898001),
       (True,3059191,4073065), (False,3021498,424939), (True,65775,1632017),
       (True,970194,5008820), (True,9138617,1114281), (False,226135,3733016)] [PF 3617 1 1518 []
       290623 197592] [(True,9474563146431,2874479), (True,5617690030557,5117957),
       (False,4770598,5080863), (False,4701696,3855297), (False,2707044,222501),
       (True,33659171844,4983708), (False,4523606,2660422), (False,1289082,2565310),
       (False,1198558,4451394), (False,3608873,5187325), (True,18294747047257,1)],
     PC 263549137 2 [(True,0,8), (False,0,64), (False,0,4096), (False,0,16777216),
       (False,1068017,18059327)] [PF 5490607 1 48 [] 165048991 11309745]
       [(False,1237489,133695936), (True,1224831580619601,62393055), (False,14771034,48935367),
       (False,9086237,223497220), (True,3422821208752544,65032272),
       (True,289799623823417,242923639), (True,4043705510552367,94540688),
       (True,612459647863446,209013386), (False,165762620,79326056), (False,23876470,97408746),
       (False,36002636,149767384), (True,1537002066415526,87733050),
       (True,527431931089636,182973368), (True,2294117870008586,56265366),
       (True,216931320503995,78365297), (False,23301612,40589365),
       (True,112892340633030,260834465), (False,258147755,83098790),
       (True,473183250773203,73284889), (True,368017806244841,46425750),
       (True,147692288592778,122604914), (True,1030043859520843,1)],
     PC 27282079563967 2 [(True,0,8), (False,0,64), (False,0,4096), (True,0,33554432),
       (False,41,7334644719977), (True,3943761914640,21657211984178),
       (False,17192048349096,18601843711852), (False,12683365601542,16779182432790),
       (False,10319629867390,24341634847970), (True,43436218685798,3812410801134),
       (False,532748102377,1436859436397), (True,151349535882,24006595919324),
       (True,42248733003101,7524894372285), (True,4151005804471,26262613145993),
       (True,50562483526149,950901239015), (False,33143117416,19049794420953)] [PF 263549137 1
       103518 [] 22843267884955 15950380765177]
       [(True,253392297158149192357721169,20152361345754),
       (True,283572887629589464203388252,7552448980064),
       (True,39827993021645629656593414,11752600630150),
       (True,96445235761849757744236346,26533215097918), (False,25804906175928,12586696348348),
       (True,110620682146752335687001791,495471251215),
       (True,171415363111982313199305,25964441399490), (False,24710440991380,9476166655640),
       (True,62701539206517222949547890,18545097669170), (False,12606100893177,4189363135741),
       (True,12254873588357677374658409,13858251055690), (False,7039460532040,12250448373420),
       (True,104789264221852448488967878,6699637817174),
       (True,31341189319472337802942010,1717220367358),
       (True,2059040475569294038314508,637755603056), (False,14908401988,21102440572740),
       (False,16322545980482,3628178615506), (False,482502810504,7214636126668),
       (False,1907881483820,26383175268284), (True,486034331637698244421416003,5919481893267),
       (True,24466971441612113675292555,11070162438732), (False,4491904516757,5609248872805),
       (True,21969604604108319491721388,15246477801629), (False,8520431326011,16914169608004),
       (False,10486338948522,22932001757242), (False,19275535919509,1830770714361),
       (True,2340349592475375972041336,1)],
     PC 6133 2 [(True,0,8), (False,0,64), (False,0,4096)] [PF 73 1 84 [(True,11204871,2893),
       (True,5589640,984)] 2140 343, PF 7 1 876 [(False,2735,3461), (False,1953,772),
       (True,398035,1809), (False,533,3592), (False,2103,4765), (True,15163965,4255)] 1694 1175]
       [(False,157,5375), (False,4710,4195), (True,2823488,4696), (False,3595,4281),
       (False,2988,1557), (True,388955,1)],
     PC 283 2 [(True,0,8), (False,0,64)] [PF 47 1 6 [] 9 2] [(False,14,134), (True,4060,204),
       (True,9411,111), (True,2786,106), (True,2541,1)],
     PC 48597893 2 [(True,0,8), (True,0,128), (False,0,16384), (False,5,25445991)] [PF 6133 1 7924
       [(False,13323591,8178318), (False,1376291,42554261), (False,37262214,40341019),
       (True,852109990188342,34017345), (True,605902518859129,9293578), (False,1777249,35305727),
       (True,652667889133122,12235293), (True,78384587386404,9244587)] 38580596 7339035, PF 283 1
       171724 [(False,13323591,8178318), (True,35021110680909,28797147),
       (True,434211034030027,1624408), (True,1381631315077,33457063),
       (True,586107875480918,9394505), (True,46211464549627,22258864),
       (True,259422667542389,8495159), (True,37787220885535,27230716), (False,15258107,42504105),
       (True,945940195698416,24453287), (False,12304303,44470790),
       (True,1035503611247919,15548433)] 39384688 12600755] [(False,1758561,29488596),
       (True,165416285600716,11876404), (True,26831193950084,38234780),
       (True,278091211880308,40219756), (True,307715190922455,46024317),
       (True,402944078577809,41138606), (True,321935757153743,33560033),
       (True,214247040656756,11060135), (False,2517117,3583744), (True,2443115680480,34328992),
       (False,24249604,31251692), (True,185787779600419,1)]]"

definition certs_8 :: "prime_cert list" where
  "certs_8 = [
     PC 6062684347537 2 [(True,0,8), (True,0,128), (True,0,32768), (False,0,1073741824),
       (False,190166,5072973125834), (True,8489657339950,500842187962),
       (True,82749779755,2354048713453), (True,1828083082557,3935755754309),
       (False,2555002449347,1651985359142), (True,900279635349,2345099666915),
       (False,907105191778,2814758666439), (True,2613649629808,4079263298546),
       (False,2744722981598,5112438089990), (False,4311130470547,5480847707361),
       (False,4954850008559,110113015138), (False,1999918750,810654540294)] [PF 48597893 1 124752
       [] 5187716856613 693660758584] [(False,108394359004,4419388433288),
       (True,2611531156118168645830494,3059185704258),
       (True,1251360794556064487600634,5837606207358),
       (True,4556595240172136795331691,4503752673149), (False,3345677752320,3527337540361),
       (False,2052244420195,3616862700606), (True,1749181630295205197480780,5808527168524),
       (False,5565024654662,4630481071082), (True,2866969603497384679326351,3065136225369),
       (True,1256233653882575936097594,5854776145356), (False,5653997758625,4593101110111),
       (False,3479742074362,2471640885927), (False,1007640892844,2479154324101),
       (True,821822421516453905525328,4283915333958), (False,3027030525838,5745617784758),
       (True,4414121938601344650087036,5804791187484),
       (True,4505511115887474876837565,4097050987859),
       (True,2244468939109329506639152,5596479512390), (False,5166124630144,1610081156772),
       (False,427592990627,1413589924285), (False,329595994033,5304482514504),
       (False,4641101718929,765042938143), (True,78260475703601815377779,4034166083683),
       (False,2684371320989,1003500290396), (True,134649847867378277211119,1)],
     PC 36376106085223 2 [(True,0,8), (False,0,64)] [PF 6062684347537 1 6 [] 34066512048066 59]
       [(False,0,4096), (True,0,1073741824), (True,2028446,9410691953006),
       (False,2434596018245,30252079542401), (False,25159051232576,12045307020353),
       (False,3988591326258,3957210559075), (False,430489051581,17182035968062),
       (False,8115831840717,24024520610953), (True,1015484332241832,32823710716840),
       (True,1895566911222248,30584831837096), (True,1645795839828500,32587325390324),
       (False,29193167998986,3254059241098), (False,291094970961,23047116036301),
       (True,934537952087618,12351313737650), (False,4193823019111,29672103825747),
       (True,1549032201976898,1691101734322), (False,78618230030,23131674952994),
       (False,14709501475429,20428395078369), (False,11472347383753,1114748118242),
       (False,34161528015,17122521148219), (True,515821201593084,19024408407772),
       (False,9949611275538,4747466829010), (False,619594665788,7686847129376),
       (True,103958559877895,31382313714479), (False,27074080215365,22323450190046),
       (True,876771453824019,32685860484187), (True,1879678662627586,20943704500338),
       (False,12058430805370,18056496066734), (False,8962945331315,11763220768511),
       (True,243453634140245,5324441956109), (True,49878336426761,24556111019681),
       (True,1060920747478651,22685058798531), (False,14146975805688,18927231609537),
       (False,9848225523692,35548471751053), (True,2223338743734330,19540172158186),
       (False,10496404620027,20355212249575), (False,11390297376924,23440790086573),
       (True,966736815372971,23853975889523), (False,15642470483367,17108195181688),
       (False,8046225225124,24559825786692), (False,16581902451557,4547013260653),
       (True,36376106085225,1)],
     PC 128257 5 [(False,0,25), (True,0,3125), (False,76,18093), (False,2552,44785),
       (True,78190,66295), (True,171336,93773), (True,342802,121531), (False,115157,92612),
       (False,66873,52183), (False,21231,41122), (False,13184,78596), (False,48163,89325),
       (False,62210,87655), (False,59906,35183)] [PF 2 8 501 [(True,339560783,128256)] 64128
       64127, PF 3 1 42752 [(False,9651,35182)] 116529 31964] [(False,128255,1)],
     PC 769543 2 [(True,0,8), (False,0,64)] [PF 128257 1 6 [] 390879 32] [(True,0,262144),
       (True,5715140,530084), (True,23368803,244555), (True,4973935,611895),
       (False,486542,500719), (True,20851400,175304), (False,39934,562254),
       (True,26291307,610323), (False,484045,722894), (False,679072,631140),
       (False,517628,695596), (False,628754,555794), (False,401416,97548), (False,12365,213109),
       (False,59016,96193), (True,769545,1)],
     PC 9234517 2 [(True,0,8), (False,0,64), (False,0,4096)] [PF 769543 1 12 [] 5281377 2342]
       [(False,1,7542699), (True,25234768034,5016118), (True,11160438318,4506298),
       (True,9007112330,6742574), (False,4923084,1255048), (True,698660893,1873503),
       (True,1556877881,154387), (True,10572245,89159), (True,3525949,8561343),
       (True,32510942247,9166605), (False,9099192,4015761), (False,1746310,7026851),
       (False,5346964,5019813), (False,2728732,512525), (False,28445,6039560),
       (False,3949993,7485219), (True,24851624643,2325825), (True,2399384403,8801649),
       (True,34361637635,1)],
     PC 48501474780299 2 [(False,0,4), (True,0,32), (False,0,1024), (False,0,1048576),
       (False,0,1099511627776), (False,24925547626,47048563686002),
       (False,45639176023878,40492422764482), (False,33805906083572,16199007580296),
       (True,10820613095792,45762333493424), (False,43177886368395,29970248993671),
       (False,18519350778741,20330663232682), (True,17044259761297,43921687538445),
       (False,39774350057668,26225072735293), (False,14180072731536,9416438986585),
       (False,1828177876852,40092832223477), (True,66283971899048,27181732683706),
       (True,30466974253268,5110193021740), (False,538418116928,722019826128),
       (False,10748387171,18761536328255), (False,7257413243430,3994856159455),
       (True,658077957712,31864959078162), (False,20934943146623,10032156517967)] [PF 9234517 1
       5252194 [] 45400073722858 9390655595073] [(False,2075074311799,22259845365188),
       (False,10216198949136,44834806403680), (False,41445334896743,38461341876243),
       (True,305976603468834123277798255,4742491567138),
       (True,4652136933717991183924537,18276584630985), (False,6887080182337,42064686691462),
       (False,36482145635076,26441055529720), (True,144609535580189057505381404,22284002853004),
       (True,102713083145255185508069126,33106931146798),
       (True,226713408372640801997077044,22304453573312), (False,10257186022848,32770964377792),
       (True,222135412521053203847130366,45897477048854), (False,43433285461780,29808841241096),
       (False,18320412320694,46601218073710), (False,44775412207374,33523715439274),
       (False,23171243801227,47083330020203), (True,458536273646199447764391390,41819603716493),
       (False,36058269628429,44600780698778), (True,411456830507266792815089566,44212534973394),
       (False,40302862080548,19881946355384), (True,81763062552689080758444455,12845667429907),
       (False,3402188747192,23672504858241), (True,115911835637388266459688874,1)],
     PC 14669 2 [(False,0,4), (False,0,16), (True,0,512), (True,35,10873), (False,8059,4658),
       (False,1479,1513)] [PF 193 1 76 [] 5074 523] [(True,236111,438), (False,13,1147),
       (False,89,10068), (False,6910,1834), (False,229,4355), (False,1292,13677),
       (True,19293904,1)],
     PC 1163 2 [(True,0,8), (True,0,128), (False,14,102)] [PF 83 1 14 [] 380 33] [(False,8,1100),
       (True,106122,114), (False,11,203), (False,35,504), (True,22278,318), (True,8869,1)],
     PC 64668633040457 2 [(True,0,8), (True,0,128), (False,0,16384), (False,0,268435456),
       (True,2228,33473661717676), (True,34653153348345,8970062688287),
       (True,2488440557618,8566820437312), (False,1134868775705,7219598088159),
       (True,1611990051558,26514142136556), (False,10870799337875,13064864132261),
       (True,5278932513933,9608696756861), (True,2855389051058,13660148493136),
       (True,5770947925798,34128510219306), (False,18011130822273,36893729422875),
       (False,21048029109827,53410385994686), (True,88224203852173,52230484114131),
       (True,84369294433356,10836429486630), (True,3631689692443,1740391347349),
       (False,46838194956,40319567992909), (False,25138424715391,36607460708594),
       (False,20722661304637,5464962757727)] [PF 14669 1 4408523624
       [(False,461828502307,27864849372230), (False,12006591047800,52313674328300),
       (True,231272489093608076364052031,23653161011833), (False,8651366196370,30923949478799),
       (False,14787550105923,7415856155590), (False,850411087025,46226115477675),
       (True,180579449807334792008618886,45452591743473), (False,31946524908085,61773826706884),
       (True,322479815445997882176978284,37864431090724),
       (True,121159200169836963036898985,31204825711807)] 17104688693172 8253596905183, PF 1163 1
       55605015512 [(True,2523875565566947680963185,32919404024038),
       (True,91579328324670380926828335,40476127256693), (False,25334026724750,17515960085499),
       (False,4744322607296,24929298704729), (True,52518661431088128001548790,57814139861577),
       (False,51686182478032,36761951186305), (True,114206450449485754381719762,19252922562941),
       (False,5731913754581,55851564485964), (False,48236635117651,1243515202789),
       (True,130675967457092851510078,29377611356121),
       (True,72933404716698542649506779,26589975627004), (False,10933071732045,55035385671451),
       (True,255963213666950193891341741,10827520547890)] 48383106460643 8100821909218]
       [(True,469863384672393090513008363,12403697333052),
       (True,74238707286929531100106400,46662059125328), (False,33669302402811,44381737582957),
       (False,30458949544366,58059062448587), (True,1626552618776322226395382687,14578182522224),
       (False,3286344486643,32098338790325), (True,497156581980247391820552829,53058441311522),
       (False,43532668962509,37943036729871), (False,22262323611876,29477550009309),
       (True,419286471561509281439064733,37230295675186),
       (True,668838171492974119135195180,5178086977712), (False,414614991660,17914887166324),
       (True,154866054724248951073032183,1)],
     PC 7829 2 [(False,0,4), (False,0,16), (True,0,512), (True,66,7574), (False,7327,2393),
       (False,731,3450)] [PF 103 1 76 [] 2733 1204] [(True,5245066,3286), (False,1379,1605),
       (False,329,284), (True,35542,4882), (True,10502878,5938), (True,15537931,1)],
     PC 93949 2 [(True,0,8), (False,0,64), (False,0,4096)] [PF 7829 1 12 [] 57723 2516]
       [(True,731455,10941), (True,5218934,19810), (True,17109477,10927), (False,1270,84099),
       (True,308353902,77898), (False,64589,26443), (False,7442,63791), (True,177413476,68652),
       (False,50166,51570), (True,115947676,17876), (False,3401,30827), (True,41431467,1)],
     PC 646557019 2 [(True,0,8), (False,0,64), (True,0,8192), (False,0,67108864),
       (True,13931020,491911612), (True,748509495,260481683), (True,209883135,253050413),
       (False,99039233,266944142), (False,110213288,4647692), (False,33409,217479093),
       (True,146304670,483226568), (False,361155952,301831536)] [PF 93949 1 6882 [] 504133410
       235344071] [(False,140903699,532606015), (True,132424980226062410,375019810),
       (True,65654757558970542,500515302), (False,387460904,466866028),
       (True,101751853594686699,333389943), (True,51887503143313716,529327860),
       (True,130799862819163716,45942996), (False,3264613,431987369),
       (True,87116391941186992,18292448), (True,156207341556827,451134631),
       (True,95010174640017798,602269134), (True,169331983575584790,368231406),
       (True,63299376967212736,118666112), (True,6573720117635130,626934114),
       (False,607906761,74859537), (True,2616086239775357,1)],
     PC 21556211013461 2 [(False,0,4), (False,0,16), (False,0,256), (False,0,65536),
       (False,0,4294967296), (True,1711501,11441669588271), (False,6073043304568,11166889979593),
       (False,5784849282578,14703805663191), (False,10029680116133,10747226036168),
       (True,10716435035856,16248854590832), (True,24496445627585,7989248982763),
       (True,5922014705527,142394129391), (True,1881229319,4968163198703),
       (False,1145036368104,9996165834265), (False,4635477511503,15125532748342)] [PF 646557019 1
       33340 [] 6013871071863 4219804852762] [(False,10613263192603,17252835119981),
       (False,13808564013934,4482399874787), (True,14098063053997950990289563,7561340220655),
       (True,40117680281160919679862029,15636380054181), (False,11342270728659,13955168101962),
       (True,136649610641477660119783118,12269354870450), (False,6983466103715,2275196094885),
       (False,240140406259,2699265510826), (False,338001622520,1435162460556),
       (True,1445241374354952655838743,16749020972989), (False,13013868874193,8936629082148),
       (False,3704887621577,19947911245907), (True,279211375715286001268181294,14557521459424),
       (True,148700740742119001802034552,7929598170920), (False,2916956375728,4613151971792),
       (True,14932543127347501209727629,11162433270319), (False,5780232733689,9920119174132),
       (True,69051327627333526401646455,17914541292253),
       (True,225190278880939508292274634,9922052958804), (False,4566996252534,2685691750242),
       (True,5061166027541939406216887,1612625384981), (False,120640896986,1691300041815),
       (True,2007148814231545981177994,14148994347716), (False,9287070020175,19509847840981),
       (True,267082860278398182212683325,8745793277637),
       (True,53670627084997852228289497,9431047181881), (False,4126172771797,12159046538744),
       (True,103737862556893650778175476,14288692202876), (True,143259429089474826631823331,1)],
     PC 43112422026923 2 [(False,0,4)] [PF 21556211013461 1 2 [] 14370807342308 1] [(False,0,16),
       (False,0,256), (True,0,262144), (True,0,274877906944), (True,7010310270,3744770277334),
       (False,325272943868,27311510389392), (False,17301709453578,9085931449170),
       (True,7659430523060,7525882411220), (True,5254996439971,34555812214367),
       (False,27697450100319,2036292322252), (True,384713845960,21606062624936),
       (False,10828014762453,30181993481977), (True,84518817335498,2975215701462),
       (True,821286121637,34921768916825), (True,113148822259955,19532357554035),
       (True,35397036276961,26594552503897), (False,16405253744288,31200106720785),
       (False,22579261698182,12846446862239), (True,15311707320110,12491977050954),
       (False,3619594615772,20729087880560), (False,9966850948240,18907466448080),
       (True,33168378919841,2094781866357), (False,101782986464,21557055881177),
       (False,10778950391002,42975721958483), (True,171357821344342,5364324925490),
       (True,2669855280991,40092274839707), (False,37283697511098,7305096554395),
       (False,1237797209252,13958585124429), (True,18077583166564,16016048901592),
       (True,23799527872314,27265386228034), (False,17243319934556,33557017453968),
       (True,104477862060516,39161988507828), (False,35573537087048,41892766684280),
       (True,162830462122267,6188404679159), (True,3553161773107,29013344429363),
       (True,78100381783345,17306043345641), (False,6946933672484,32845081414149),
       (True,100091743621212,34385651686128), (False,27425344860962,19739771952458),
       (True,36152791090392,28441698343240), (False,18763274402507,17682161001639),
       (True,29008698930682,20161927993798), (False,9428914482541,21556211013461),
       (True,43112422026921,1)],
     PC 86224844053847 2 [(False,0,4)] [PF 43112422026923 1 2 [] 28741614684616 1] [(False,0,16),
       (False,0,256), (True,0,262144), (True,0,274877906944), (True,3505155135,3741265122199),
       (False,162332154591,48740070334024), (False,27551159787335,25543123404831),
       (True,30267432104230,66966620081434), (True,208038796907793,78984780055753),
       (False,72352644402113,37343295818298), (True,64692340490730,85419202128906),
       (False,84621087720173,75034160601305), (True,261183435884276,81451666202328),
       (True,307770875085251,53104770967739), (True,130826178022420,69655861838744),
       (True,225083113422306,79263923078962), (False,72864956391733,64660609350593),
       (False,48489439992248,39020614873593), (True,70634323637043,77300299064175),
       (False,69299472802517,54536423297726), (False,34493787709854,85837248262738),
       (True,341805579130655,83184048646791), (False,80250489579899,26675109776228),
       (False,8252395111662,29369928244270), (True,40015969621696,58207507867088),
       (True,157175765721594,12106147726858), (False,1699728360111,37049883655147),
       (False,15919934607277,27516233546990), (True,35124127711482,50142464069146),
       (True,116637692095120,45577550750624), (False,24091816636147,54459361781867),
       (True,137585500709569,61312215860813), (False,43597502031031,3376560094712),
       (True,528903621609,55114332671953), (True,140914823295139,56925961987103),
       (True,150330925325112,82126844024572), (False,78223609256101,6161282512637),
       (True,1761042428876,64969247089104), (False,48953443913323,27286302819235),
       (True,34539572890524,54276651895072), (False,34165964267782,11074962627830),
       (True,5689997983932,84188313249196), (False,82199882939985,65670785274121),
       (True,200065402766120,43112422026924), (True,86224844053849,1)],
     PC 1723 2 [(True,0,8), (False,0,64)] [PF 41 1 42 [(True,152,248), (True,2284,924)] 1695 908,
       PF 7 1 246 [(False,2,650), (True,15693,961), (False,535,1716), (False,1709,49),
       (True,89,317)] 747 137] [(False,495,891), (True,425737,1193), (False,826,51),
       (False,1,878), (True,413405,1)],
     PC 17231 2 [(False,0,4), (True,0,32), (False,0,1024)] [PF 1723 1 10 [] 3554 211]
       [(True,62314,9290), (False,5008,11252), (True,7524002,5634), (False,1842,2454),
       (True,357880,16504), (True,16187057,5217), (True,1617451,955), (False,52,16013),
       (True,15238242,9154), (True,4979793,1)],
     PC 137849 2 [(False,0,4), (False,0,16), (False,0,256)] [PF 17231 1 8 [] 89737 166]
       [(False,0,65536), (False,31157,6003), (False,261,57420), (False,23917,121867),
       (True,27580909,91643), (True,15596779,110573), (False,88694,9123), (True,154565,26339),
       (False,5032,86753), (False,54596,79005), (True,11591656,58456), (True,6345919,19385),
       (True,697859,60309), (True,6754615,1)],
     PC 275699 2 [(False,0,4)] [PF 137849 1 2 [] 91900 1] [(False,0,16), (False,0,256),
       (False,0,65536), (False,15578,128274), (True,238727,81131), (True,95498,253542),
       (False,233165,188429), (True,515134,23498), (False,2002,206606), (False,154828,114464),
       (True,190091,130575), (True,247368,212268), (True,653723,37919), (True,20861,45405),
       (False,7477,212602), (False,163945,137849), (True,275697,1)],
     PC 191 2 [(False,0,4), (True,0,32), (False,5,69)] [PF 19 1 10 [] 59 21] [(False,24,177),
       (False,164,5), (True,9,6), (True,13,1)],
     PC 73727 5 [(True,0,125), (False,0,15625), (False,3311,30528), (False,12640,49504),
       (False,33239,34263), (False,15922,71875), (True,350347,44856)] [PF 191 1 386
       [(False,27290,50906)] 59587 41142, PF 2 1 36863 [(False,27290,50906),
       (True,1576637772,3372), (True,6917817,50745), (True,1566680703,11319),
       (True,77948919,48303), (True,1419522203,51923), (True,1640263174,73726)] 36863 36862]
       [(False,35148,64240), (True,2849400362,16426), (True,186297079,65823),
       (True,2991560256,55962), (True,2162364311,15167), (True,158833382,22720),
       (True,356417537,1)],
     PC 114966458738489 2 [(False,0,4), (True,0,32), (True,0,2048), (False,0,4194304),
       (False,0,17592186044416), (False,2691959143712,81240548049888),
       (False,57408279944144,104150113854128), (True,188702797926510,110785394837378),
       (True,213512773098312,29318636499200), (False,7476810676820,101888126515020),
       (False,90297556684376,36571789452536), (False,11633791267790,50751217861986)] [PF 275699 1
       416999912 [(False,22403804924822,61701340990238), (False,33114488536638,64405274036662),
       (False,36080430494714,70973497255098), (True,2223656630642010889758307792,35602589787256),
       (True,559549477975303343804080215,76494908003361),
       (True,2583094932883908358526735007,20374648969083),
       (True,183254895113506086846962660,2761453444814),
       (True,3366284100991096409247697,93596716317823),
       (True,3867199164200646422967842689,108684928610473),
       (True,5214515503924046535556827850,70597311307144),
       (True,2200146686594261855124102654,58436525467890),
       (True,1507454058860461468137252973,113193270692803),
       (True,5656092874042848499943640688,17971086362242),
       (True,142568630113768392355295623,38409117102457),
       (True,651244341366322378881214846,64136762314420),
       (True,1815889340374281963676652761,101916658872271)] 68284478731635 60533533010641, PF
       73727 1 1559353544 [(False,22403804924822,61701340990238),
       (False,33114488536638,64405274036662), (False,36080430494714,70973497255098),
       (False,43814842762770,22754791735074), (True,228570955643058746326402808,83138800038224),
       (True,3051285309020326149278282285,32778140306171), (False,9345390766318,77454349267739),
       (True,2648298492441496868605193201,80991959079017), (False,57057488831401,104237579193200),
       (False,94509938248807,28259897007377), (True,352546545604478579630648185,56591172823729),
       (True,1413750277863651537278271367,91531201081363),
       (True,3698397924176376211790749623,2241354409587),
       (True,2217667244817493142969226,32155869590520), (False,8993927102465,8521531595015),
       (False,631632056180,113953996538205), (True,5732372929820009909051944521,5504190472881),
       (True,13374027833983521203715265,68835953285161)] 11208658091937 6711163179871]
       [(False,90348136923255,104672385035746), (False,95300040631793,108044371595739),
       (False,101539060710495,79443500214066), (False,54896617635395,57745969034201),
       (True,2956088084376515860590906485,17371303447506),
       (True,267509270532066246366608065,36253821107971), (False,11432373923236,74421755106437),
       (True,4909913480850166206768718191,74225173091200), (False,47921597141220,39013535023420),
       (False,13239130192622,57890253268242), (True,2970878718607761267517618553,59585126044427),
       (True,3147384113227559123654792110,14833166873369),
       (True,195048129017745086356652379,62211419830300),
       (True,3430948901765341361292308120,24616471159320), (False,5270847332229,53194410400419),
       (False,24612789929319,54671700516570), (True,2649715147828514672883730216,101949698404276),
       (True,9213951338577995071056321255,1)],
     PC 3793 2 [(True,0,8), (False,0,64), (False,1,303), (False,24,777), (False,159,642)] [PF 79 1
       48 [] 1503 254] [(False,108,2520), (False,1674,918), (True,142638,2874),
       (True,1398059,2605), (True,1148596,3422), (True,1982039,1)],
     PC 15173 2 [(False,0,4), (False,0,16)] [PF 3793 1 4 [] 13150 13] [(True,0,4096),
       (True,17691,9913), (False,6476,7221), (True,54984,13224), (True,184405,9751),
       (False,6266,7983), (True,67201,11851), (False,9256,4913), (False,1590,12499),
       (False,10296,3793), (True,15171,1)],
     PC 212423 2 [(True,0,8), (True,0,128), (False,0,16384)] [PF 15173 1 14 [] 61511 4744]
       [(True,20704191,146311), (True,1651096126,111566), (False,58595,46671),
       (True,168001289,23297), (True,41861848,86552), (False,35265,151609),
       (True,1772835206,62166), (False,18192,212340), (False,212257,6889), (False,223,87992),
       (True,597179346,161218), (False,122356,14936), (True,17206281,1)],
     PC 53530597 2 [(True,0,8), (True,0,128), (True,0,32768), (True,40,6259768),
       (True,1464011,7983081), (False,1190526,14728539), (False,4052446,7384259)] [PF 212423 1 252
       [] 52939309 7302693] [(True,7521746213951,20927232), (False,8181284,22435276),
       (False,9402876,43399204), (True,259817477611702,7204450), (True,7159892427568,14549404),
       (True,29200833010252,17864500), (True,44023702508666,16096398), (False,4840110,50728734),
       (True,354987354138753,31252263), (True,134731074989428,1250255),
       (True,215626450659,6628052), (False,820672,11213520), (False,2348993,33151579),
       (False,20530822,31632507), (True,138029546070744,19469523), (True,52289616557060,42281191),
       (True,246603512751274,1)],
     PC 153288611651291 2 [(False,0,4), (True,0,32), (False,0,1024), (True,0,2097152),
       (True,0,8796093022208), (True,1009484678892,68549350140956),
       (False,30654680436645,81350710635241), (True,86346115990841,72449860430431),
       (True,68484960752721,107995050278711), (False,76084783853563,82207015921688),
       (False,44086728909268,137827354704356), (False,123925577380884,24474068053492),
       (True,7815062066705,37002305421973), (True,17863957299784,110373424804314),
       (True,158945831289104,32897730187928), (False,7060280864045,73966477201089),
       (True,71382207596543,123415152484829), (False,99363545006869,76633047441362),
       (False,38310895355418,121083504870406), (True,191289033069902,97922457666190),
       (False,62553947172539,69240190018251)] [PF 53530597 1 2863570 [] 59480033224398
       26867023964689] [(True,2165533279995833547075035280,104987077320771),
       (False,71905448719384,74718107709697), (False,36420159068423,144820542547716),
       (True,9473461633066459266222722403,145450351216383),
       (True,9556038896096884421526025816,103928890948483), (False,70463253971879,23534691955500),
       (False,3613325996456,18549806425304), (False,2244754614902,93603915353934),
       (False,57158146813397,152310678130829),
       (True,10478739976172615309220562632,18697568217579),
       (True,157913265007108521344668046,83998909922105), (False,46029622110172,76352319598973),
       (False,38030722865475,46364539576504), (True,971002309827221162946831256,67865349102520),
       (True,2080388934876423501607523055,30687462136395),
       (True,425373379373192800665820771,21940804286914),
       (True,217447013512476480231482727,56857949869839),
       (True,1460261895587721190425526298,71312923793453),
       (True,2297126149117419354630147080,25309867347179),
       (True,289353072432414410002599140,104497832016551), (False,71236843875918,69380449425463),
       (False,31402507404983,127880981316), (True,7386867018675838113698,29786320979738),
       (False,5787937590081,144599734104073), (True,9444595208744947747123415758,1)],
     PC 45667 2 [(False,0,4), (True,0,32), (True,0,2048), (False,91,38607), (False,32638,20903),
       (False,9567,39220), (True,67366,13678), (False,4096,35652)] [PF 43 1 1062
       [(True,992314211,14071)] 1321 407, PF 3 2 5074 [(False,27833,15493),
       (True,187392608,33412), (False,24445,31929), (True,795888169,20009), (True,312559126,770)]
       14965 252] [(False,4335,26596), (True,217949124,30628), (False,20541,28537),
       (True,250922214,5461), (True,9188970,1)],
     PC 601 2 [(True,0,8), (True,0,128), (True,54,314), (False,164,32), (False,1,423),
       (False,297,432)] [PF 5 2 24 [] 251 180] [(False,310,314), (True,70871,1)],
     PC 204384815535079 2 [(True,0,8), (True,0,128), (False,0,16384), (False,0,268435456),
       (False,352,114138969580128), (True,127482115955697,87240711597705),
       (True,74476587119728,31497765595538), (False,4854123996022,100280208053706),
       (True,98403788960228,80278290830860), (False,31531716100592,164319259672832),
       (False,132107754818964,191823242462068), (False,180033708728943,170748899745127),
       (False,142648497090369,109764207691978), (True,117897029274954,82732527993602),
       (False,33489137489459,162207945702143), (False,128734698710499,61221274698028),
       (True,36676349618625,71108214931193), (True,49479000849090,201347768578388),
       (False,198355850484098,9717450004802), (False,462014921943,52411859720707),
       (True,26880695928329,65875319806707), (False,21232290413918,67002283354327)] [PF 45667 1
       4475547234 [(False,21964968204416,85417738914065), (False,35698298340265,95351869168290),
       (True,2980570491624111651745230332,104528828964472),
       (False,53459333835925,102159370325709), (True,3421349104723066710123468837,85541892567564),
       (True,2398825654925698207994154008,168368925906760),
       (False,138699614923842,101175149244082), (False,50084008431660,96105507821584),
       (True,3027872136723971296393223755,160768635203667)] 59564087232346 46852976755765, PF 601
       1 340074568278 [(False,21964968204416,85417738914065),
       (True,2391867500661768039653837021,67725603811916),
       (True,1503649960350275045529422183,26841718841855), (False,3525104683041,15811387945786),
       (False,1223182789375,54060494172171), (True,958078288224403734944584323,23493979357290),
       (False,2700626583221,13880837834641), (False,942720027841,93721467464442),
       (True,2879513611891881605576565092,65321361429760),
       (True,1398786496964280780843488331,48681198772051), (False,11595084046139,82834649736620),
       (False,33571863834526,133383964686846), (False,87047963856826,174797108828462),
       (True,10016349406320834469315907078,95697086127026),
       (True,3002191590615713482682363651,27526025019623)] 192543104464180 25931213612721]
       [(False,126460246068591,85358769643200),
       (True,5731245218592058078107204159,27085702886439),
       (True,577075873990437295001615493,6066847164960), (False,180084975621,45905666492541),
       (False,10310600670638,192058994326279),
       (True,29014961488610576495232656356,14439850966823), (False,1020179974711,169833693326160),
       (False,141123416205318,65858244995478), (True,3411717037527527078584096109,65930364483217),
       (True,3419193277046203559292680077,192844226428280),
       (False,181955276713493,204088609637453), (False,203792833017968,126897759027737),
       (False,78787855174582,145752245179191),
       (True,16710259887684132098682146344,164973540500651),
       (True,21408255899598801554976296054,1)],
     PC 2437 2 [(True,0,8), (False,0,64), (False,1,1659)] [PF 29 1 84 [(True,1873629,306),
       (True,63743,433)] 739 131, PF 7 1 348 [(True,1873629,306), (True,63743,433),
       (False,76,2277), (True,3529530,801)] 1910 627] [(True,33312,1393), (True,344774,179),
       (False,13,360), (True,23027,1)],
     PC 24371 2 [(False,0,4), (True,0,32), (False,0,1024)] [PF 2437 1 10 [] 3097 130]
       [(False,43,623), (False,15,22564), (True,21392364,11260), (True,5327253,19537),
       (False,15661,20138), (False,16640,5604), (False,1288,14968), (False,9192,22792),
       (True,21826870,21566), (False,19083,20563), (True,17766405,1)],
     PC 5166653 2 [(True,0,8), (False,0,64), (True,0,8192), (False,12,5109028),
       (True,10104091,2132145), (False,879881,2492732), (False,1202657,1426803)] [PF 24371 1 212
       [] 2871497 792981] [(False,394020,2185749), (True,1319335644336,772395),
       (True,164753112001,3275422), (True,2962710676938,4336938), (True,5194229642644,4316200),
       (True,5144673759615,3201405), (False,1983681,2584332), (False,1292668,4886020),
       (True,6592728632392,3017224), (True,2514026355828,4111644), (False,3272063,2267597),
       (False,995227,3589178), (True,3557498398699,693805), (True,132932009458,1)],
     PC 1374329699 2 [(False,0,4), (False,0,16), (False,0,256), (False,0,65536),
       (True,6,343956398), (False,86082694,791005298), (True,910537525,266682633),
       (False,51748591,1251108580)] [PF 5166653 1 266 [] 872965342 794696083]
       [(False,1138935351,829327051), (False,500450043,559629544),
       (True,285105331210246118,1082032398), (True,1065821802368587508,1108466228),
       (True,1118533517633509070,277232790), (False,55924004,266989304),
       (True,64892095292569144,717281624), (True,468363972050320178,933119658),
       (False,633554158,881698522), (True,707692016600371384,598339304),
       (False,260497843,550865159), (True,276245162142604602,1133936182),
       (True,1170526626095204115,1289412535), (False,1209742237,971329562),
       (False,686502750,244939594), (False,43654302,981169738),
       (True,876379803703834092,466667212), (True,198252488683174402,1191494522),
       (True,1292373876536930980,758017700), (True,523073555290919070,121740070),
       (False,10783907,982250907), (True,878312265909317281,1)],
     PC 10994637593 2 [(False,0,4), (False,0,16), (False,0,256)] [PF 1374329699 1 8 [] 8321431590
       193] [(False,0,65536), (True,100,47868476), (False,208409,9568443039),
       (False,8327250572,5345602325), (False,2599036482,6469737799),
       (True,974613464922,3789273910), (True,334326687964,9537122948),
       (True,2117843232131,543839541), (True,6886532605,2549994571), (False,591422159,9454850754),
       (True,2081461596001,7705274503), (False,5400019297,860264888),
       (True,17231514167,1756771233), (False,280704583,4317151570),
       (True,433963936082,5080683774), (False,2347812503,4587657797), (False,1914260828,38786205),
       (True,35027861,5412339827), (True,682070333989,4654773347), (False,1970680227,4385608798),
       (True,447835817943,309498625), (True,2230367841,1607153287), (False,234927405,9275968204),
       (True,2003445576156,158285188), (True,583363965,9499471819), (False,8207634319,6700814594),
       (False,4083892337,9018559995), (False,7397644869,7043439708),
       (True,1155124112109,4810153947), (True,538737242071,1)],
     PC 272513087380099 2 [(True,0,8), (False,0,64), (False,0,4096), (False,0,16777216),
       (False,1,8961889330557), (False,294721479783,254633748891732),
       (True,475854915431798,66635378931646), (True,32587599869438,242766801024270),
       (False,216267483687322,186256047628022), (True,254602930167715,237844935961183),
       (False,207587144185393,29584168065582), (False,3211673276123,165893570922547),
       (True,201976918892328,114202754953946), (False,47859239952317,149925366231533)] [PF
       10994637593 1 24786 [] 258037344582719 141961414623793]
       [(False,82482700760377,119955645992766),
       (True,7916425738053099591081097181,138450464528029),
       (False,70339855279283,250261305435824), (False,229826470356214,112842037973790),
       (False,46725556032903,57144615566703), (True,1796546180026659804071336681,17061224848978),
       (True,160143076509885997841931418,208017138263590),
       (True,23805975876577819746121886889,248003517235289),
       (True,33837902492368847773259109929,260969086354722),
       (False,249914103897058,241598797848542),
       (True,32112734771397883113983502161,127664703822273),
       (False,59807316994269,178455363233898),
       (True,17520518868722044374534584397,192808511866029),
       (False,136415915306632,254810524712273),
       (True,35720907086601833897252247682,175934945058439),
       (False,113583920648709,82695788474530), (False,25094550493590,210624065655490),
       (True,24406400729584698425344991652,185704942839752),
       (True,18972942087001741474379059980,260520359747612),
       (False,249055406826606,188952231588550),
       (True,19642275823934483583023691725,264942159151725),
       (True,38618010558239340502405797189,109177134141414),
       (False,43739721765020,193155047582416),
       (True,20525789836427267507978115372,37123684785020),
       (True,758210697033796024195293333,62426662233233), (False,14300554131356,105990143348045),
       (False,41223379746419,243458318206544), (False,217501307088737,101584403578973),
       (True,5677299748815477200605624510,231324538383067),
       (True,29439549693286903371581554784,123781423134021),
       (False,56224238110490,95537538489931), (False,33493515296695,120281564911956),
       (True,7959501959706090154888281413,1)]]"

lemmas certs_defs = certs_1_def certs_2_def certs_3_def certs_4_def certs_5_def certs_6_def certs_7_def certs_8_def

definition known_1 :: "int list" where
  "known_1 = []"

definition known_2 :: "int list" where
  "known_2 = rev (map pc_n certs_1) @ known_1"

definition known_3 :: "int list" where
  "known_3 = rev (map pc_n certs_2) @ known_2"

definition known_4 :: "int list" where
  "known_4 = rev (map pc_n certs_3) @ known_3"

definition known_5 :: "int list" where
  "known_5 = rev (map pc_n certs_4) @ known_4"

definition known_6 :: "int list" where
  "known_6 = rev (map pc_n certs_5) @ known_5"

definition known_7 :: "int list" where
  "known_7 = rev (map pc_n certs_6) @ known_6"

definition known_8 :: "int list" where
  "known_8 = rev (map pc_n certs_7) @ known_7"

lemma certs_1_ok: "certs_ok known_1 certs_1"
  by code_simp

lemma certs_2_ok: "certs_ok known_2 certs_2"
  by code_simp

lemma certs_3_ok: "certs_ok known_3 certs_3"
  by code_simp

lemma certs_4_ok: "certs_ok known_4 certs_4"
  by code_simp

lemma certs_5_ok: "certs_ok known_5 certs_5"
  by code_simp

lemma certs_6_ok: "certs_ok known_6 certs_6"
  by code_simp

lemma certs_7_ok: "certs_ok known_7 certs_7"
  by code_simp

lemma certs_8_ok: "certs_ok known_8 certs_8"
  by code_simp

text \<open>All numbers certified so far are primes, chunk after chunk.\<close>

lemma known_1_prime: "q \<in> set known_1 \<Longrightarrow> prime_nat (nat q)"
  by (simp add: known_1_def)

lemma known_2_prime: "q \<in> set known_2 \<Longrightarrow> prime_nat (nat q)"
  using certs_ok_sound [OF certs_1_ok known_1_prime, of q] known_1_prime [of q]
  by (auto simp only: known_2_def set_append set_rev)

lemma known_3_prime: "q \<in> set known_3 \<Longrightarrow> prime_nat (nat q)"
  using certs_ok_sound [OF certs_2_ok known_2_prime, of q] known_2_prime [of q]
  by (auto simp only: known_3_def set_append set_rev)

lemma known_4_prime: "q \<in> set known_4 \<Longrightarrow> prime_nat (nat q)"
  using certs_ok_sound [OF certs_3_ok known_3_prime, of q] known_3_prime [of q]
  by (auto simp only: known_4_def set_append set_rev)

lemma known_5_prime: "q \<in> set known_5 \<Longrightarrow> prime_nat (nat q)"
  using certs_ok_sound [OF certs_4_ok known_4_prime, of q] known_4_prime [of q]
  by (auto simp only: known_5_def set_append set_rev)

lemma known_6_prime: "q \<in> set known_6 \<Longrightarrow> prime_nat (nat q)"
  using certs_ok_sound [OF certs_5_ok known_5_prime, of q] known_5_prime [of q]
  by (auto simp only: known_6_def set_append set_rev)

lemma known_7_prime: "q \<in> set known_7 \<Longrightarrow> prime_nat (nat q)"
  using certs_ok_sound [OF certs_6_ok known_6_prime, of q] known_6_prime [of q]
  by (auto simp only: known_7_def set_append set_rev)

lemma known_8_prime: "q \<in> set known_8 \<Longrightarrow> prime_nat (nat q)"
  using certs_ok_sound [OF certs_7_ok known_7_prime, of q] known_7_prime [of q]
  by (auto simp only: known_8_def set_append set_rev)

definition certified :: "int list" where
  "certified = rev (map pc_n certs_8) @ known_8"

lemma certified_prime: "q \<in> set certified \<Longrightarrow> prime_nat (nat q)"
  using certs_ok_sound [OF certs_8_ok known_8_prime, of q] known_8_prime [of q]
  by (auto simp only: certified_def set_append set_rev)

end
