(* ===== verification/LwsSizes.thy ===== *)
theory LwsSizes
  imports LwsPrimeCerts
begin

text \<open>
  Table sizes: the array \<open>lws_table_sizes\<close> of src/lws_table.c, the binary search
  \<open>lws_table_size\<close> that rounds a requested size up to one of them, and the load limit
  \<open>lws_table_load\<close>. The development models the 64-bit platform (\<open>SIZE_MAX > UINT32_MAX\<close>);
  the array of the 32-bit branch is given as well. All sizes stay below \<open>2 ^ 48\<close>, so the
  \<open>size_t\<close> arithmetic on them is the arithmetic of \<open>nat\<close>.
\<close>

section \<open>The arrays\<close>

definition lws_table_sizes :: "nat list" where
  "lws_table_sizes = [
     3, 5, 7, 11, 13, 17, 23, 29, 41, 53, 67, 89, 127, 157, 211, 277, 373, 499, 659, 877,
     1171, 1553, 2081, 2767, 3691, 4909, 6547, 8731, 11633, 15511, 20681, 27581, 36749, 49003,
     65353, 87107, 116141, 154871, 206477, 275299, 367069, 489427, 652559, 870083, 1160111,
     1546799, 2062391, 2749847, 3666461, 4888619, 6518173, 8690917, 11587841, 15450437,
     20600597, 27467443, 36623261, 48831017, 65107997, 86810681, 115747549, 154330079,
     205773427, 274364561, 365819417, 487759219, 650345651, 867127501, 1156170011, 1541560037,
     2055413317, 2740551103, 3654068141, 4872090871, 6496121063, 8661494753, 11548659701,
     15398212901, 20530950533, 27374600677, 36499467569, 48665956771, 64887942367,
     86517256433, 115356341911, 153808455923, 205077941191, 273437254897, 364583006561,
     486110675443, 648147567293, 864196756231, 1152262341641, 1536349788871, 2048466385123,
     2731288513529, 3641718017983, 4855624023953, 6474165365293, 8632220487029,
     11509627316059, 15346169754719, 20461559672951, 27282079563967, 36376106085223,
     48501474780299, 64668633040457, 86224844053847, 114966458738489, 153288611651291,
     204384815535079, 272513087380099]"

definition lws_table_sizes_n :: nat where
  "lws_table_sizes_n = 112"

definition lws_table_sizes_32 :: "nat list" where
  "lws_table_sizes_32 = [
     3, 5, 7, 11, 13, 17, 23, 29, 41, 53, 67, 89, 127, 157, 211, 277, 373, 499, 659, 877,
     1171, 1553, 2081, 2767, 3691, 4909, 6547, 8731, 11633, 15511, 20681, 27581, 36749, 49003,
     65353, 87107, 116141, 154871, 206477, 275299, 367069, 489427, 652559, 870083, 1160111,
     1546799, 2062391, 2749847, 3666461, 4888619, 6518173, 8690917, 11587841, 15450437,
     20600597, 27467443, 36623261, 48831017, 65107997, 86810681, 115747549, 154330079,
     205773427, 274364561, 365819417, 487759219, 650345651, 867127501, 1156170011, 1541560037,
     2055413317, 2740551103, 3654068141]"

definition lws_table_sizes_n_32 :: nat where
  "lws_table_sizes_n_32 = 73"

section \<open>Size and load\<close>

text \<open>\<open>None\<close> is the \<open>(size_t)-1\<close> of the source: no size is large enough.\<close>

definition lws_table_size :: "nat \<Rightarrow> nat option" where
  "lws_table_size sz =
     (let lower = bsearch_loop (\<lambda>mid. lws_table_sizes ! mid < sz) 0 (int lws_table_sizes_n - 1) in
      if int lws_table_sizes_n \<le> lower then None else Some (lws_table_sizes ! nat lower))"

definition lws_table_load :: "nat \<Rightarrow> nat" where
  "lws_table_load alloc = drop_bit 1 alloc + drop_bit 2 alloc + drop_bit 3 alloc"

section \<open>Facts on the array\<close>

lemma length_lws_table_sizes: "length lws_table_sizes = lws_table_sizes_n"
  by (simp add: lws_table_sizes_def lws_table_sizes_n_def)

lemma sizes_32_prefix: "lws_table_sizes_32 = take lws_table_sizes_n_32 lws_table_sizes"
  by (simp add: lws_table_sizes_def lws_table_sizes_32_def lws_table_sizes_n_32_def)

definition sizes_int :: "int list" where
  "sizes_int = [
     3, 5, 7, 11, 13, 17, 23, 29, 41, 53, 67, 89, 127, 157, 211, 277, 373, 499, 659, 877,
     1171, 1553, 2081, 2767, 3691, 4909, 6547, 8731, 11633, 15511, 20681, 27581, 36749, 49003,
     65353, 87107, 116141, 154871, 206477, 275299, 367069, 489427, 652559, 870083, 1160111,
     1546799, 2062391, 2749847, 3666461, 4888619, 6518173, 8690917, 11587841, 15450437,
     20600597, 27467443, 36623261, 48831017, 65107997, 86810681, 115747549, 154330079,
     205773427, 274364561, 365819417, 487759219, 650345651, 867127501, 1156170011, 1541560037,
     2055413317, 2740551103, 3654068141, 4872090871, 6496121063, 8661494753, 11548659701,
     15398212901, 20530950533, 27374600677, 36499467569, 48665956771, 64887942367,
     86517256433, 115356341911, 153808455923, 205077941191, 273437254897, 364583006561,
     486110675443, 648147567293, 864196756231, 1152262341641, 1536349788871, 2048466385123,
     2731288513529, 3641718017983, 4855624023953, 6474165365293, 8632220487029,
     11509627316059, 15346169754719, 20461559672951, 27282079563967, 36376106085223,
     48501474780299, 64668633040457, 86224844053847, 114966458738489, 153288611651291,
     204384815535079, 272513087380099]"

lemma lws_table_sizes_int: "lws_table_sizes = map nat sizes_int"
  by (simp add: lws_table_sizes_def sizes_int_def)

fun subsequence :: "int list \<Rightarrow> int list \<Rightarrow> bool" where
  "subsequence [] ys = True"
| "subsequence (x # xs) [] = False"
| "subsequence (x # xs) (y # ys) =
     (if x = y then subsequence xs ys else subsequence (x # xs) ys)"

lemma subsequence_set: "subsequence xs ys \<Longrightarrow> set xs \<subseteq> set ys"
  by (induction xs ys rule: subsequence.induct) (auto split: if_splits)

lemma sizes_int_certified: "subsequence (rev (filter (\<lambda>q. 100 \<le> q) sizes_int)) certified"
  by code_simp

lemma sizes_int_small: "list_all (\<lambda>q. 100 \<le> q \<or> List.member small_primes q) sizes_int"
  by code_simp

lemma lws_table_sizes_prime:
  assumes "p \<in> set lws_table_sizes" shows "prime_nat p"
proof -
  from assms obtain q where q: "q \<in> set sizes_int" "p = nat q"
    unfolding lws_table_sizes_int set_map by (rule imageE)
  have "prime_nat (nat q)"
  proof (cases "100 \<le> q")
    case True
    with q(1) have "q \<in> set (rev (filter (\<lambda>q. 100 \<le> q) sizes_int))" by simp
    then have "q \<in> set certified" by (rule subsetD [OF subsequence_set [OF sizes_int_certified]])
    then show ?thesis by (rule certified_prime)
  next
    case False
    with sizes_int_small q(1) have "q \<in> set small_primes"
      unfolding list_all_iff List.member_iff by blast
    then show ?thesis by (rule small_primes_prime)
  qed
  with q(2) show ?thesis by simp
qed

fun increasing :: "int list \<Rightarrow> bool" where
  "increasing (x # y # zs) = (x + 2 \<le> y \<and> increasing (y # zs))"
| "increasing _ = True"

lemma sizes_int_increasing: "increasing sizes_int"
  by code_simp

lemma increasing_nth: "increasing xs \<Longrightarrow> i < j \<Longrightarrow> j < length xs \<Longrightarrow> xs ! i + 2 \<le> xs ! j"
proof (induction xs arbitrary: i j rule: increasing.induct)
  case (1 x y zs)
  show ?case
  proof (cases i)
    case 0
    show ?thesis
    proof (cases "j = 1")
      case False
      with 0 1 obtain k where "j = Suc k" "0 < k" by (cases j) auto
      with 0 1 show ?thesis using "1.IH" [of 0 k] by auto
    qed (use 0 1 in auto)
  next
    case (Suc i')
    with 1 obtain k where "j = Suc k" by (cases j) auto
    with Suc 1 show ?thesis using "1.IH" [of i' k] by auto
  qed
qed auto

lemma sizes_gap:
  assumes "i < j" "j < lws_table_sizes_n"
  shows "lws_table_sizes ! i + 2 \<le> lws_table_sizes ! j"
proof -
  have len: "length sizes_int = lws_table_sizes_n"
    using length_lws_table_sizes by (simp add: lws_table_sizes_int)
  have "sizes_int ! i + 2 \<le> sizes_int ! j"
    using assms len by (intro increasing_nth [OF sizes_int_increasing]) auto
  moreover have "0 \<le> sizes_int ! i"
  proof -
    have "list_all (\<lambda>q. 0 \<le> q) sizes_int" by (simp add: sizes_int_def)
    with assms len show ?thesis by (simp add: list_all_length)
  qed
  ultimately show ?thesis using assms len by (simp add: lws_table_sizes_int nat_le_eq_zle)
qed

lemma sizes_mono: "i \<le> j \<Longrightarrow> j < lws_table_sizes_n \<Longrightarrow> lws_table_sizes ! i \<le> lws_table_sizes ! j"
  using sizes_gap [of i j] by (cases "i = j") auto

lemma sizes_bounds:
  assumes "a \<in> set lws_table_sizes" shows "3 \<le> a" "a \<le> 272513087380099"
proof -
  from assms obtain i where i: "i < lws_table_sizes_n" "a = lws_table_sizes ! i"
    by (metis in_set_conv_nth length_lws_table_sizes)
  have "lws_table_sizes ! 0 = 3" "lws_table_sizes ! 111 = 272513087380099"
    by (simp_all add: lws_table_sizes_def)
  with i show "3 \<le> a" "a \<le> 272513087380099"
    using sizes_mono [of 0 i] sizes_mono [of i 111] by (auto simp: lws_table_sizes_n_def)
qed

section \<open>Size and load, characterised\<close>

lemma size_below_prefix: "below_prefix (\<lambda>mid. lws_table_sizes ! mid < sz) lws_table_sizes_n"
  unfolding below_prefix_def using sizes_mono by fastforce

lemma lws_table_size_find: "lws_table_size sz = find (\<lambda>s. sz \<le> s) lws_table_sizes"
proof -
  have "0 < lws_table_sizes_n" by (simp add: lws_table_sizes_n_def)
  with size_below_prefix [of sz] obtain r
    where r: "bsearch_loop (\<lambda>mid. lws_table_sizes ! mid < sz) 0 (int lws_table_sizes_n - 1) = int r"
      "r \<le> lws_table_sizes_n" and below: "\<And>i. i < r \<Longrightarrow> lws_table_sizes ! i < sz"
      and above: "\<And>i. r \<le> i \<Longrightarrow> i < lws_table_sizes_n \<Longrightarrow> sz \<le> lws_table_sizes ! i"
    by (rule bsearch_prefix) (simp add: not_less)
  note eq = lws_table_size_def [of sz, unfolded r(1) Let_def, simplified]
  show ?thesis
  proof (cases "r < lws_table_sizes_n")
    case True
    then have "find (\<lambda>s. sz \<le> s) lws_table_sizes = Some (lws_table_sizes ! r)"
      using below above by (intro find_first_nth) (auto simp: length_lws_table_sizes not_le)
    with True eq show ?thesis by simp
  next
    case False
    with r(2) have "find (\<lambda>s. sz \<le> s) lws_table_sizes = None"
      using below by (intro find_none_nth) (auto simp: length_lws_table_sizes not_le)
    with False eq show ?thesis by simp
  qed
qed

lemma lws_table_size_SomeD:
  assumes "lws_table_size sz = Some a"
  shows "a \<in> set lws_table_sizes" "sz \<le> a" "prime_nat a" "3 \<le> a" "a \<le> 272513087380099"
proof -
  have "find (\<lambda>s. sz \<le> s) lws_table_sizes = Some a"
    using assms by (simp only: lws_table_size_find)
  then have a: "a \<in> set lws_table_sizes \<and> sz \<le> a" unfolding find_Some_iff by auto
  then show "a \<in> set lws_table_sizes" "sz \<le> a" by auto
  with lws_table_sizes_prime sizes_bounds
  show "prime_nat a" "3 \<le> a" "a \<le> 272513087380099" by auto
qed

lemma lws_table_size_next:
  assumes "lws_table_size (a + 1) = Some b" "a \<in> set lws_table_sizes"
  shows "a + 2 \<le> b"
proof -
  from lws_table_size_SomeD(1) [OF assms(1)] assms(2) obtain i j
    where "i < lws_table_sizes_n" "j < lws_table_sizes_n" "a = lws_table_sizes ! i"
      "b = lws_table_sizes ! j"
    by (metis in_set_conv_nth length_lws_table_sizes)
  with lws_table_size_SomeD(2) [OF assms(1)] sizes_gap [of i j] sizes_mono [of j i]
  show ?thesis by (cases "i < j") auto
qed

lemma lws_table_load_div: "lws_table_load a = a div 2 + a div 4 + a div 8"
  by (simp add: lws_table_load_def drop_bit_eq_div)

lemma lws_table_load_less: "0 < a \<Longrightarrow> lws_table_load a < a"
  unfolding lws_table_load_div by linarith

lemma lws_table_load_pos: "2 \<le> a \<Longrightarrow> 0 < lws_table_load a"
  unfolding lws_table_load_div by linarith

lemma lws_table_load_step: "a + 2 \<le> b \<Longrightarrow> lws_table_load a < lws_table_load b"
proof -
  assume "a + 2 \<le> b"
  then have "(a + 2) div 2 \<le> b div 2" "a div 4 \<le> b div 4" "a div 8 \<le> b div 8"
    by (intro div_le_mono, simp)+
  then show ?thesis unfolding lws_table_load_div by simp
qed

lemma lws_table_load_ge: "n + n div 7 + 3 \<le> a \<Longrightarrow> n \<le> lws_table_load a"
  unfolding lws_table_load_div by linarith

text \<open>\<open>lws_table_size\<close> returns the least table size that is at least the requested size, and
  its error value exactly when every table size is too small.\<close>

theorem lws_table_size_correct: "lws_table_size sz = find (\<lambda>s. sz \<le> s) lws_table_sizes"
  by (rule lws_table_size_find)

end
