(* ===== verification/LwsTable.thy ===== *)
theory LwsTable
  imports LwsSizes
begin

text \<open>
  The hash table of src/lws_table.c and src/lws_table.h, operation by operation: open addressing
  with double hashing and Brent's relocation on insertion, an order queue through all entries
  (insert order, or least recent use first if the table is capped), optional timeouts, and optional
  ownership of keys (\<open>dup\<close>) and values (\<open>free\<close>).

  Representation. A pointer to an entry is its index in \<open>t_entries\<close>. The intrusive queue
  \<open>ngx_queue_t order\<close> is the list of the slots it links, head first: \<open>ngx_queue_remove\<close> is
  \<open>remove1\<close>, \<open>ngx_queue_insert_tail\<close> and \<open>ngx_queue_insert_head\<close> append and prepend. A \<open>void *\<close> value
  is an option, with \<open>None\<close> for NULL. Calls of \<open>ngx_free\<close> are recorded, in order, in \<open>t_freed\<close>. The
  two probe loops whose exit depends on the data are \<open>partial_function\<close>s: \<open>None\<close> is a loop that never
  ends, and LwsTableProbe proves that they always end on a well-formed table.
\<close>

unbundle bit_operations_syntax

section \<open>Data\<close>

datatype lws_table_entry_state = LWS_TES_UNUSED | LWS_TES_SET | LWS_TES_DELETED

record 'v lws_table_entry =
  e_key :: ngx_str
  e_value :: "'v option"
  e_hash :: "64 word"
  e_time :: int
  e_state :: lws_table_entry_state

datatype 'v lws_freed = FreeKey ngx_str | FreeValue "'v option" | FreeEntries | FreeTable

record 'v lws_table =
  t_alloc :: nat
  t_load :: nat
  t_count :: nat
  t_entries :: "'v lws_table_entry list"
  t_order :: "nat list"
  t_timeout :: int
  t_cap :: nat
  t_dup :: bool
  t_free :: bool
  t_ci :: bool
  t_timed :: bool
  t_capped :: bool
  t_freed :: "'v lws_freed list"

text \<open>Zeroed memory, and the sizes of the two structures on an LP64 platform.\<close>

definition zero_entry :: "'v lws_table_entry" where
  "zero_entry = \<lparr>e_key = [], e_value = None, e_hash = 0, e_time = 0, e_state = LWS_TES_UNUSED\<rparr>"

definition sizeof_lws_table_t :: nat where "sizeof_lws_table_t = 80"

definition sizeof_lws_table_entry_t :: nat where "sizeof_lws_table_entry_t = 64"

section \<open>Hash\<close>

text \<open>FNV-1a on 64 bits, from the last byte of the key to the first.\<close>

definition LWS_TABLE_HASH_PRIME :: "64 word" where
  "LWS_TABLE_HASH_PRIME = 1099511628211"

definition lws_table_hash :: "lws_env \<Rightarrow> 'v lws_table \<Rightarrow> ngx_str \<Rightarrow> 64 word" where
  "lws_table_hash E t key =
     (if t_ci t then
        foldl (\<lambda>hash p. (hash XOR ucast (env_tolower E p)) * LWS_TABLE_HASH_PRIME)
          (lws_table_hash_seed E) (rev key)
      else
        foldl (\<lambda>hash p. (hash XOR ucast p) * LWS_TABLE_HASH_PRIME)
          (lws_table_hash_seed E) (rev key))"

text \<open>
  \<open>lws_table_init_hash\<close>: the results of opening, reading (number of bytes and the bytes as an
  integer) and closing the random device are arguments; the result is the return code and the
  new seed.
\<close>

definition lws_table_init_hash :: "bool \<Rightarrow> int \<Rightarrow> 64 word \<Rightarrow> bool \<Rightarrow> 64 word \<Rightarrow> int \<times> 64 word" where
  "lws_table_init_hash open_ok n seed close_ok hash_seed =
     (if \<not> open_ok then (-1, hash_seed)
      else if n \<noteq> 8 then (-1, hash_seed)
      else if \<not> close_ok then (-1, hash_seed)
      else (0, seed))"

section \<open>Create, free, clear\<close>

definition lws_table_create :: "lws_env \<Rightarrow> nat \<Rightarrow> 'v lws_table option" where
  "lws_table_create E load =
     (if \<not> env_calloc_ok E sizeof_lws_table_t then None
      else
        let alloc = load + (if load < lws_table_sizes ! (lws_table_sizes_n - 1)
                            then load div 7 + 3 else 0) in
        case lws_table_size alloc of
          None \<Rightarrow> None
        | Some a \<Rightarrow>
            if \<not> env_calloc_ok E (a * sizeof_lws_table_entry_t) then None
            else Some \<lparr>t_alloc = a, t_load = lws_table_load a, t_count = 0,
              t_entries = replicate a zero_entry, t_order = [], t_timeout = 0, t_cap = 0,
              t_dup = False, t_free = False, t_ci = False, t_timed = False, t_capped = False,
              t_freed = []\<rparr>)"

definition lws_table_remove :: "'v lws_table \<Rightarrow> nat \<Rightarrow> 'v lws_table" where
  "lws_table_remove t s =
     (let entry = t_entries t ! s in
      t\<lparr>t_order := remove1 s (t_order t),
        t_freed := t_freed t @ (if t_dup t then [FreeKey (e_key entry)] else []) @
          (if t_free t then [FreeValue (e_value entry)] else []),
        t_entries := (t_entries t)[s := entry\<lparr>e_state := LWS_TES_DELETED\<rparr>],
        t_count := t_count t - 1\<rparr>)"

text \<open>The loop of \<open>lws_table_free\<close> and \<open>lws_table_clear\<close>: remove the last entry of the queue until
  the queue is empty.\<close>

function lws_table_drain :: "'v lws_table \<Rightarrow> 'v lws_table" where
  "lws_table_drain t =
     (if t_order t = [] then t else lws_table_drain (lws_table_remove t (last (t_order t))))"
  by pat_completeness auto
termination
  by (relation "measure (\<lambda>t. length (t_order t))")
     (auto simp: lws_table_remove_def Let_def length_remove1)

declare lws_table_drain.simps [simp del]

definition lws_table_free :: "'v lws_table \<Rightarrow> 'v lws_freed list" where
  "lws_table_free t =
     (let t = (if t_dup t \<or> t_free t then lws_table_drain t else t) in
      t_freed t @ [FreeEntries, FreeTable])"

definition lws_table_clear :: "'v lws_table \<Rightarrow> 'v lws_table" where
  "lws_table_clear t =
     (let t = (if t_dup t \<or> t_free t then lws_table_drain t
               else t\<lparr>t_order := [], t_count := 0\<rparr>) in
      t\<lparr>t_entries := replicate (t_alloc t) zero_entry\<rparr>)"

section \<open>Options\<close>

definition lws_table_set_dup :: "'v lws_table \<Rightarrow> bool \<Rightarrow> int \<times> 'v lws_table" where
  "lws_table_set_dup t dup = (if t_count t \<noteq> 0 then (-1, t) else (0, t\<lparr>t_dup := dup\<rparr>))"

definition lws_table_set_free :: "'v lws_table \<Rightarrow> bool \<Rightarrow> int \<times> 'v lws_table" where
  "lws_table_set_free t free = (if t_count t \<noteq> 0 then (-1, t) else (0, t\<lparr>t_free := free\<rparr>))"

definition lws_table_set_ci :: "'v lws_table \<Rightarrow> bool \<Rightarrow> int \<times> 'v lws_table" where
  "lws_table_set_ci t ci = (if t_count t \<noteq> 0 then (-1, t) else (0, t\<lparr>t_ci := ci\<rparr>))"

definition lws_table_set_timeout :: "'v lws_table \<Rightarrow> int \<Rightarrow> int \<times> 'v lws_table" where
  "lws_table_set_timeout t timeout =
     (if t_count t \<noteq> 0 then (-1, t) else (0, t\<lparr>t_timeout := timeout, t_timed := True\<rparr>))"

definition lws_table_set_cap :: "'v lws_table \<Rightarrow> nat \<Rightarrow> int \<times> 'v lws_table" where
  "lws_table_set_cap t cap =
     (if t_count t \<noteq> 0 \<or> cap < 1 then (-1, t) else (0, t\<lparr>t_cap := cap, t_capped := True\<rparr>))"

section \<open>Find\<close>

text \<open>The comparison of a stored key with the key looked up: \<open>ngx_strncmp\<close> is C's \<open>strncmp\<close>, so
  both comparisons end at a NUL byte.\<close>

definition lws_table_key_cmp :: "lws_env \<Rightarrow> 'v lws_table \<Rightarrow> ngx_str \<Rightarrow> ngx_str \<Rightarrow> int" where
  "lws_table_key_cmp E t entry_key key =
     (if t_ci t then env_strncasecmp E entry_key key (length key)
      else strncmp entry_key key (length key))"

partial_function (option) lws_table_find_loop ::
  "lws_env \<Rightarrow> 'v lws_table \<Rightarrow> ngx_str \<Rightarrow> 64 word \<Rightarrow> nat \<Rightarrow> nat \<Rightarrow> nat \<Rightarrow> nat option option" where
  "lws_table_find_loop E t key hash r q h =
     (let entry = t_entries t ! h in
      if e_state entry \<noteq> LWS_TES_UNUSED then
        if e_state entry = LWS_TES_SET \<and> e_hash entry = hash \<and>
           length (e_key entry) = length key \<and> lws_table_key_cmp E t (e_key entry) key = 0
        then Some (Some h)
        else
          let h' = (h + q) mod t_alloc t in
          if h' = r then Some None else lws_table_find_loop E t key hash r q h'
      else Some None)"

declare lws_table_find_loop.simps [code]

definition lws_table_find ::
  "lws_env \<Rightarrow> 'v lws_table \<Rightarrow> ngx_str \<Rightarrow> 64 word \<Rightarrow> nat option option" where
  "lws_table_find E t key hash =
     (let h = unat hash mod t_alloc t; q = unat hash mod (t_alloc t - 2) + 1 in
      lws_table_find_loop E t key hash h q h)"

section \<open>Insert\<close>

text \<open>Worst case: follow the probe sequence to the first slot that is not set; also its length.\<close>

partial_function (option) lws_table_worst ::
  "'v lws_table \<Rightarrow> nat \<Rightarrow> nat \<Rightarrow> nat \<Rightarrow> (nat \<times> nat) option" where
  "lws_table_worst t q h len =
     (if e_state (t_entries t ! h) = LWS_TES_SET
      then lws_table_worst t q ((h + q) mod t_alloc t) (len + 1)
      else Some (h, len))"

declare lws_table_worst.simps [code]

text \<open>The inner loop: a slot to which a conflicting entry could move, and its distance.\<close>

function lws_table_move_probe ::
  "'v lws_table \<Rightarrow> nat \<Rightarrow> nat \<Rightarrow> nat \<Rightarrow> nat \<Rightarrow> nat \<Rightarrow> (nat \<times> nat) option" where
  "lws_table_move_probe t q_move len len_worst h_move len_move =
     (if e_state (t_entries t ! h_move) \<noteq> LWS_TES_SET then Some (h_move, len_move)
      else if len + len_move \<ge> len_worst - 1 then None
      else lws_table_move_probe t q_move len len_worst ((h_move + q_move) mod t_alloc t)
             (len_move + 1))"
  by pat_completeness auto
termination
  by (relation "measure (\<lambda>(t, q, len, len_worst, h, len_move). len_worst - (len + len_move))") auto

declare lws_table_move_probe.simps [simp del]

text \<open>The outer loop; \<open>best\<close> is \<open>entry_move_old\<close>, \<open>entry_move_new\<close> and \<open>len_entry_move\<close>, with
  \<open>None\<close> for the NULL pointers and \<open>(size_t)-1\<close>.\<close>

function lws_table_move_search ::
  "'v lws_table \<Rightarrow> nat \<Rightarrow> nat \<Rightarrow> nat \<Rightarrow> nat \<Rightarrow> (nat \<times> nat \<times> nat) option \<Rightarrow>
   nat \<times> (nat \<times> nat \<times> nat) option" where
  "lws_table_move_search t q len_worst h len best =
     (let q_move = unat (e_hash (t_entries t ! h)) mod (t_alloc t - 2) + 1;
          best' = (case lws_table_move_probe t q_move len len_worst
                          ((h + q_move) mod t_alloc t) 1 of
                     Some (h_move, len_move) \<Rightarrow> Some (h, h_move, len_move)
                   | None \<Rightarrow> best);
          h' = (h + q) mod t_alloc t;
          len' = len + 1
      in if len' < len_worst - 1 \<and>
            (case best' of Some (_, _, len_entry_move) \<Rightarrow> len' < len_entry_move | None \<Rightarrow> True)
         then lws_table_move_search t q len_worst h' len' best'
         else (h', best'))"
  by pat_completeness auto
termination
  by (relation "measure (\<lambda>(t, q, len_worst, h, len, best). len_worst - len)") auto

declare lws_table_move_search.simps [simp del]

text \<open>The result is the slot for the new entry. Moving an entry copies it to its new slot and
  makes its neighbours in the queue point there.\<close>

definition lws_table_insert ::
  "'v lws_table \<Rightarrow> ngx_str \<Rightarrow> 64 word \<Rightarrow> (nat \<times> 'v lws_table) option" where
  "lws_table_insert t key hash =
     (let h0 = unat hash mod t_alloc t; q = unat hash mod (t_alloc t - 2) + 1 in
      do {
        (h, len_worst) \<leftarrow> lws_table_worst t q h0 1;
        if len_worst \<le> 2 then Some (h, t)
        else
          case lws_table_move_search t q len_worst h0 1 None of
            (h, Some (old, new, _)) \<Rightarrow>
              Some (old, t\<lparr>t_entries := (t_entries t)[new := t_entries t ! old],
                           t_order := map (\<lambda>s. if s = old then new else s) (t_order t)\<rparr>)
          | (h, None) \<Rightarrow> Some ((h + q) mod t_alloc t, t)
      })"

section \<open>Rehash\<close>

text \<open>Reinsertion walks the old queue from its last entry to its head.\<close>

fun lws_table_reinsert ::
  "'v lws_table_entry list \<Rightarrow> nat list \<Rightarrow> 'v lws_table \<Rightarrow> 'v lws_table option" where
  "lws_table_reinsert entries [] t = Some t"
| "lws_table_reinsert entries (q # qs) t =
     (let entry = entries ! q in
      do {
        (s, t) \<leftarrow> lws_table_insert t (e_key entry) (e_hash entry);
        lws_table_reinsert entries qs
          (t\<lparr>t_entries := (t_entries t)[s := entry], t_order := s # t_order t\<rparr>)
      })"

definition lws_table_rehash :: "lws_env \<Rightarrow> 'v lws_table \<Rightarrow> nat \<Rightarrow> (int \<times> 'v lws_table) option" where
  "lws_table_rehash E t alloc =
     (case lws_table_size alloc of
        None \<Rightarrow> Some (-1, t)
      | Some alloc_new \<Rightarrow>
          if \<not> env_calloc_ok E (alloc_new * sizeof_lws_table_entry_t) then Some (-1, t)
          else do {
            t' \<leftarrow> lws_table_reinsert (t_entries t) (rev (t_order t))
                   (t\<lparr>t_alloc := alloc_new, t_load := lws_table_load alloc_new,
                      t_entries := replicate alloc_new zero_entry, t_order := []\<rparr>);
            Some (0, t')
          })"

section \<open>Get, set, next\<close>

definition lws_table_touch :: "'v lws_table \<Rightarrow> nat \<Rightarrow> 'v lws_table" where
  "lws_table_touch t s =
     (if t_capped t then t\<lparr>t_order := remove1 s (t_order t) @ [s]\<rparr> else t)"

definition lws_table_get ::
  "lws_env \<Rightarrow> 'v lws_table \<Rightarrow> ngx_str \<Rightarrow> ('v option \<times> 'v lws_table) option" where
  "lws_table_get E t key =
     do {
       found \<leftarrow> lws_table_find E t key (lws_table_hash E t key);
       case found of
         None \<Rightarrow> Some (None, t)
       | Some s \<Rightarrow>
           let entry = t_entries t ! s in
           if t_timed t \<and> e_time entry + t_timeout t \<le> env_time E then Some (None, t)
           else Some (e_value entry, lws_table_touch t s)
     }"

definition lws_table_stamp :: "lws_env \<Rightarrow> nat \<Rightarrow> 'v lws_table \<Rightarrow> 'v lws_table" where
  "lws_table_stamp E s t =
     (if t_timed t
      then t\<lparr>t_entries := (t_entries t)[s := (t_entries t ! s)\<lparr>e_time := env_time E\<rparr>]\<rparr> else t)"

definition lws_table_set_existing ::
  "lws_env \<Rightarrow> 'v lws_table \<Rightarrow> nat \<Rightarrow> 'v option \<Rightarrow> 'v lws_table" where
  "lws_table_set_existing E t s value =
     (let t = lws_table_touch t s;
          entry = t_entries t ! s;
          t = (if t_free t \<and> value \<noteq> e_value entry
               then t\<lparr>t_freed := t_freed t @ [FreeValue (e_value entry)]\<rparr> else t);
          t = t\<lparr>t_entries := (t_entries t)[s := entry\<lparr>e_value := value\<rparr>]\<rparr>
      in lws_table_stamp E s t)"

definition lws_table_evict :: "'v lws_table \<Rightarrow> 'v lws_table" where
  "lws_table_evict t =
     (if t_capped t \<and> t_count t = t_cap t then lws_table_remove t (hd (t_order t)) else t)"

definition lws_table_set_new ::
  "lws_env \<Rightarrow> 'v lws_table \<Rightarrow> ngx_str \<Rightarrow> 64 word \<Rightarrow> 'v option \<Rightarrow> (int \<times> 'v lws_table) option" where
  "lws_table_set_new E t key hash value =
     do {
       let t = lws_table_evict t;
       (rc, t) \<leftarrow> (if t_count t = t_load t then lws_table_rehash E t (t_alloc t + 1)
                  else Some (0, t));
       if rc \<noteq> 0 then Some (-1, t)
       else if t_dup t \<and> \<not> env_alloc_ok E (length key) then Some (-1, t)
       else do {
         (s, t) \<leftarrow> lws_table_insert t key hash;
         let t = t\<lparr>t_entries := (t_entries t)[s := (t_entries t ! s)
                     \<lparr>e_key := key, e_value := value, e_hash := hash, e_state := LWS_TES_SET\<rparr>],
                   t_order := t_order t @ [s], t_count := t_count t + 1\<rparr>;
         Some (0, lws_table_stamp E s t)
       }
     }"

definition lws_table_set ::
  "lws_env \<Rightarrow> 'v lws_table \<Rightarrow> ngx_str \<Rightarrow> 'v option \<Rightarrow> (int \<times> 'v lws_table) option" where
  "lws_table_set E t key value =
     (let hash = lws_table_hash E t key in
      do {
        found \<leftarrow> lws_table_find E t key hash;
        if value \<noteq> None then
          (case found of
             Some s \<Rightarrow> Some (0, lws_table_set_existing E t s value)
           | None \<Rightarrow> lws_table_set_new E t key hash value)
        else
          (case found of
             Some s \<Rightarrow> Some (0, lws_table_remove t s)
           | None \<Rightarrow> Some (0, t))
      })"

text \<open>The result is \<open>None\<close> for the return code -1, else the key and the value of the next entry in
  the queue after that of \<open>key\<close>, or of the first entry if \<open>key\<close> is NULL.\<close>

definition lws_table_next ::
  "lws_env \<Rightarrow> 'v lws_table \<Rightarrow> ngx_str option \<Rightarrow> (ngx_str \<times> 'v option) option option" where
  "lws_table_next E t key =
     do {
       q \<leftarrow> (case key of
              Some k \<Rightarrow> do {
                found \<leftarrow> lws_table_find E t k (lws_table_hash E t k);
                Some (case found of None \<Rightarrow> []
                      | Some s \<Rightarrow> tl (dropWhile (\<lambda>x. x \<noteq> s) (t_order t)))
              }
            | None \<Rightarrow> Some (t_order t));
       Some (case q of [] \<Rightarrow> None
             | s # _ \<Rightarrow> Some (e_key (t_entries t ! s), e_value (t_entries t ! s)))
     }"

end
