(* ===== verification/LwsTableProbe.thy ===== *)
theory LwsTableProbe
  imports LwsTable
begin

text \<open>
  The probe sequences of the hash table and the structure they induce: a table size is a prime,
  so a sequence visits every slot before it returns to its start; every set entry lies on its own
  sequence behind slots that are in use. On that structure the probe loops end, \<open>lws_table_find\<close>
  finds what is there, and \<open>lws_table_insert\<close> returns a slot that can take the new entry while
  every other entry, moved or not, stays reachable and keeps its place in the queue.
\<close>

section \<open>Probe sequences\<close>

definition probe_step :: "nat \<Rightarrow> 64 word \<Rightarrow> nat" where
  "probe_step a hash = unat hash mod (a - 2) + 1"

definition probe :: "nat \<Rightarrow> 64 word \<Rightarrow> nat \<Rightarrow> nat" where
  "probe a hash i = (unat hash mod a + i * probe_step a hash) mod a"

definition good_size :: "nat \<Rightarrow> bool" where
  "good_size a \<longleftrightarrow> prime_nat a \<and> 3 \<le> a"

lemma good_size_table: "a \<in> set lws_table_sizes \<Longrightarrow> good_size a"
  by (simp add: good_size_def lws_table_sizes_prime sizes_bounds)

lemma good_sizeD: "good_size a \<Longrightarrow> 0 < a" "good_size a \<Longrightarrow> 3 \<le> a" "good_size a \<Longrightarrow> prime_nat a"
  by (auto simp: good_size_def)

lemma probe_0 [simp]: "probe a hash 0 = unat hash mod a"
  by (simp add: probe_def)

lemma probe_less: "0 < a \<Longrightarrow> probe a hash i < a"
  by (simp add: probe_def)

lemma probe_add: "(probe a hash i + k * probe_step a hash) mod a = probe a hash (i + k)"
  unfolding probe_def by (simp only: mod_add_left_eq add_mult_distrib add.assoc)

lemma probe_Suc: "(probe a hash i + probe_step a hash) mod a = probe a hash (Suc i)"
  using probe_add [of a hash i 1] by simp

lemma probe_mod: "probe a hash (i mod a) = probe a hash i"
proof -
  have "i * probe_step a hash mod a = (i mod a) * probe_step a hash mod a"
    by (simp add: mod_mult_left_eq)
  then show ?thesis unfolding probe_def by (metis mod_add_right_eq)
qed

lemma probe_step_bounds: "good_size a \<Longrightarrow> 0 < probe_step a hash \<and> probe_step a hash < a"
proof -
  assume "good_size a"
  then have "0 < a - 2" by (auto dest: good_sizeD)
  then have "unat hash mod (a - 2) < a - 2" by simp
  then show ?thesis by (simp add: probe_step_def)
qed

lemma probe_inj: "good_size a \<Longrightarrow> inj_on (probe a hash) {..<a}"
proof (rule linorder_inj_onI)
  fix i j assume a: "good_size a" and ij: "i < j" "i \<in> {..<a}" "j \<in> {..<a}"
  show "probe a hash i \<noteq> probe a hash j"
  proof
    let ?h = "unat hash mod a" and ?q = "probe_step a hash"
    assume "probe a hash i = probe a hash j"
    then have "(?h + j * ?q) mod a = (?h + i * ?q) mod a" by (simp add: probe_def)
    moreover have "?h + i * ?q \<le> ?h + j * ?q" using ij by simp
    ultimately have "a dvd (?h + j * ?q) - (?h + i * ?q)" by (simp add: mod_eq_dvd_iff_nat)
    then have "a dvd (j - i) * ?q" by (simp add: diff_mult_distrib)
    then have "a dvd j - i \<or> a dvd ?q"
      using a by (simp add: prime_nat_dvd_mult good_sizeD)
    moreover have "\<not> a dvd j - i" using ij by (intro prime_nat_not_dvd_small) auto
    moreover have "\<not> a dvd ?q" using probe_step_bounds [OF a] by (intro prime_nat_not_dvd_small) auto
    ultimately show False by simp
  qed
qed auto

lemma probe_surj: "good_size a \<Longrightarrow> probe a hash ` {..<a} = {..<a}"
  using endo_inj_surj [of "{..<a}" "probe a hash"] probe_inj [of a hash] probe_less good_sizeD
  by (metis finite_lessThan image_subsetI lessThan_iff)

lemma probe_visits: "good_size a \<Longrightarrow> s < a \<Longrightarrow> \<exists>i<a. probe a hash i = s"
  using probe_surj [of a hash] by (metis imageE lessThan_iff)

lemma probe_cycle: "good_size a \<Longrightarrow> i < a \<Longrightarrow> probe a hash (Suc i) = probe a hash 0 \<longleftrightarrow> Suc i = a"
proof -
  assume a: "good_size a" and i: "i < a"
  show ?thesis
  proof (cases "Suc i = a")
    case True
    then show ?thesis using probe_mod [of a hash a] by simp
  next
    case False
    with i have "Suc i < a" by simp
    with inj_on_eq_iff [OF probe_inj [OF a], of "Suc i" 0 hash] a show ?thesis
      by (auto dest: good_sizeD)
  qed
qed

section \<open>Well-formed slots\<close>

definition in_use :: "'v lws_table_entry list \<Rightarrow> nat \<Rightarrow> bool" where
  "in_use es s \<longleftrightarrow> e_state (es ! s) \<noteq> LWS_TES_UNUSED"

definition is_set :: "'v lws_table_entry list \<Rightarrow> nat \<Rightarrow> bool" where
  "is_set es s \<longleftrightarrow> e_state (es ! s) = LWS_TES_SET"

lemma is_set_in_use: "is_set es s \<Longrightarrow> in_use es s"
  by (simp add: is_set_def in_use_def)

text \<open>The queue links exactly the set slots, each once.\<close>

definition slots_ok :: "nat \<Rightarrow> 'v lws_table_entry list \<Rightarrow> nat list \<Rightarrow> bool" where
  "slots_ok a es ord \<longleftrightarrow> length es = a \<and> distinct ord \<and> set ord = {s. s < a \<and> is_set es s}"

text \<open>Slot \<open>s\<close> is reached by the probe sequence of \<open>hash\<close> through slots in use only.\<close>

definition on_path :: "nat \<Rightarrow> 'v lws_table_entry list \<Rightarrow> 64 word \<Rightarrow> nat \<Rightarrow> bool" where
  "on_path a es hash s \<longleftrightarrow> (\<exists>i. probe a hash i = s \<and> (\<forall>j<i. in_use es (probe a hash j)))"

definition paths_ok :: "nat \<Rightarrow> 'v lws_table_entry list \<Rightarrow> bool" where
  "paths_ok a es \<longleftrightarrow> (\<forall>s<a. is_set es s \<longrightarrow> on_path a es (e_hash (es ! s)) s)"

definition contents :: "'v lws_table_entry list \<Rightarrow> nat list \<Rightarrow> 'v lws_table_entry list" where
  "contents es ord = map ((!) es) ord"

lemma slots_okD:
  "slots_ok a es ord \<Longrightarrow> length es = a" "slots_ok a es ord \<Longrightarrow> distinct ord"
  "slots_ok a es ord \<Longrightarrow> s \<in> set ord \<longleftrightarrow> s < a \<and> is_set es s"
  by (auto simp: slots_ok_def)

lemma slots_ok_length: "slots_ok a es ord \<Longrightarrow> length ord \<le> a"
proof -
  assume ok: "slots_ok a es ord"
  then have "set ord \<subseteq> {..<a}" by (auto simp: slots_okD(3))
  then have "card (set ord) \<le> a" using card_mono [of "{..<a}" "set ord"] by simp
  with ok show ?thesis by (simp add: distinct_card slots_okD)
qed

lemma exists_not_set:
  assumes "slots_ok a es ord" "length ord < a" shows "\<exists>s<a. \<not> is_set es s"
proof (rule ccontr)
  assume "\<not> ?thesis"
  with assms(1) have "set ord = {..<a}" by (auto simp: slots_ok_def)
  then have "length ord = a" using assms(1) by (metis card_lessThan distinct_card slots_okD(2))
  with assms(2) show False by simp
qed

lemma on_path_bound:
  assumes "on_path a es hash s" "0 < a"
  shows "\<exists>i<a. probe a hash i = s \<and> (\<forall>j<i. in_use es (probe a hash j))"
proof -
  from assms(1) obtain i where i: "probe a hash i = s" "\<forall>j<i. in_use es (probe a hash j)"
    by (auto simp: on_path_def)
  then show ?thesis
    using assms(2) probe_mod [of a hash i] less_le_trans [OF _ mod_less_eq_dividend [of i a]]
    by (intro exI [of _ "i mod a"]) auto
qed

lemma in_use_update:
  "in_use es x \<Longrightarrow> e_state e \<noteq> LWS_TES_UNUSED \<Longrightarrow> in_use (es[s := e]) x"
  unfolding in_use_def
  by (cases "s < length es") (auto simp: nth_list_update list_update_beyond)

lemma on_path_update:
  "on_path a es hash x \<Longrightarrow> e_state e \<noteq> LWS_TES_UNUSED \<Longrightarrow> on_path a (es[s := e]) hash x"
  unfolding on_path_def using in_use_update by blast

lemma is_set_update_other: "x \<noteq> s \<Longrightarrow> is_set (es[s := e]) x = is_set es x"
  by (simp add: is_set_def)

section \<open>Find\<close>

definition entry_matches ::
  "lws_env \<Rightarrow> 'v lws_table \<Rightarrow> ngx_str \<Rightarrow> 64 word \<Rightarrow> 'v lws_table_entry \<Rightarrow> bool" where
  "entry_matches E t key hash entry \<longleftrightarrow>
     e_state entry = LWS_TES_SET \<and> e_hash entry = hash \<and>
     length (e_key entry) = length key \<and> lws_table_key_cmp E t (e_key entry) key = 0"

lemma find_loop_spec:
  assumes a: "good_size (t_alloc t)"
  shows "i < t_alloc t \<Longrightarrow> \<exists>r j. lws_table_find_loop E t key hash (probe (t_alloc t) hash 0)
      (probe_step (t_alloc t) hash) (probe (t_alloc t) hash i) = Some r \<and> i \<le> j \<and> j \<le> t_alloc t \<and>
    (\<forall>k. i \<le> k \<longrightarrow> k < j \<longrightarrow> in_use (t_entries t) (probe (t_alloc t) hash k) \<and>
       \<not> entry_matches E t key hash (t_entries t ! probe (t_alloc t) hash k)) \<and>
    (case r of
       Some s \<Rightarrow> s = probe (t_alloc t) hash j \<and> j < t_alloc t \<and>
         entry_matches E t key hash (t_entries t ! s)
     | None \<Rightarrow> j < t_alloc t \<longrightarrow> \<not> in_use (t_entries t) (probe (t_alloc t) hash j))"
proof (induction "t_alloc t - i" arbitrary: i)
  case 0
  then show ?case by simp
next
  case (Suc d)
  let ?a = "t_alloc t" and ?es = "t_entries t"
  let ?p = "probe ?a hash"
  let ?loop = "lws_table_find_loop E t key hash (?p 0) (probe_step ?a hash)"
  have eq: "?loop (?p i) =
    (if in_use ?es (?p i) then
       if entry_matches E t key hash (?es ! ?p i) then Some (Some (?p i))
       else if ?p (Suc i) = ?p 0 then Some None else ?loop (?p (Suc i))
     else Some None)"
    by (subst lws_table_find_loop.simps)
       (simp only: Let_def in_use_def entry_matches_def probe_Suc)
  consider (unused) "\<not> in_use ?es (?p i)"
    | (match) "in_use ?es (?p i)" "entry_matches E t key hash (?es ! ?p i)"
    | (go) "in_use ?es (?p i)" "\<not> entry_matches E t key hash (?es ! ?p i)" by blast
  then show ?case
  proof cases
    case unused
    with eq Suc.prems show ?thesis by (intro exI [of _ None] exI [of _ i]) simp
  next
    case match
    with eq Suc.prems show ?thesis by (intro exI [of _ "Some (?p i)"] exI [of _ i]) simp
  next
    case go
    show ?thesis
    proof (cases "Suc i = ?a")
      case True
      with go have "in_use ?es (?p k) \<and> \<not> entry_matches E t key hash (?es ! ?p k)"
        if "i \<le> k" "k < ?a" for k
        using that by (metis le_antisym less_Suc_eq_le)
      with True go eq Suc.prems probe_cycle [OF a, of i hash] show ?thesis
        by (intro exI [of _ None] exI [of _ ?a]) simp
    next
      case False
      with Suc.prems have less: "Suc i < ?a" by simp
      have d: "d = ?a - Suc i" using Suc.hyps(2) by simp
      from Suc.hyps(1) [OF d less] obtain r j where
        r: "?loop (?p (Suc i)) = Some r" "Suc i \<le> j" "j \<le> ?a"
          "\<forall>k. Suc i \<le> k \<longrightarrow> k < j \<longrightarrow> in_use ?es (?p k) \<and>
             \<not> entry_matches E t key hash (?es ! ?p k)"
          "case r of Some s \<Rightarrow> s = ?p j \<and> j < ?a \<and> entry_matches E t key hash (?es ! s)
           | None \<Rightarrow> j < ?a \<longrightarrow> \<not> in_use ?es (?p j)"
        by blast
      have "?p (Suc i) \<noteq> ?p 0" using False probe_cycle [OF a] Suc.prems by simp
      with go eq r(1) have "?loop (?p i) = Some r" by simp
      moreover have "\<forall>k. i \<le> k \<longrightarrow> k < j \<longrightarrow> in_use ?es (?p k) \<and>
             \<not> entry_matches E t key hash (?es ! ?p k)"
        using r(4) go by (metis le_antisym not_less_eq_eq)
      ultimately show ?thesis using r(2,3,5) by (intro exI [of _ r] exI [of _ j]) simp
    qed
  qed
qed


text \<open>On well-formed slots \<open>lws_table_find\<close> returns the slot of a matching entry if there is one,
  and NULL if there is none.\<close>

lemma find_spec:
  assumes a: "good_size (t_alloc t)" and slots: "slots_ok (t_alloc t) (t_entries t) (t_order t)"
    and paths: "paths_ok (t_alloc t) (t_entries t)"
  obtains (found) s where "lws_table_find E t key hash = Some (Some s)" "s \<in> set (t_order t)"
      "entry_matches E t key hash (t_entries t ! s)"
    | (absent) "lws_table_find E t key hash = Some None"
      "\<And>s. s \<in> set (t_order t) \<Longrightarrow> \<not> entry_matches E t key hash (t_entries t ! s)"
proof -
  let ?a = "t_alloc t" and ?es = "t_entries t"
  let ?p = "probe ?a hash"
  have pos: "0 < ?a" using a by (rule good_sizeD)
  from find_loop_spec [OF a pos, of E key hash] obtain r j
    where r: "lws_table_find E t key hash = Some r" and j: "j \<le> ?a"
      and before: "\<And>k. k < j \<Longrightarrow> in_use ?es (?p k) \<and>
        \<not> entry_matches E t key hash (?es ! ?p k)"
      and result: "case r of Some s \<Rightarrow> s = ?p j \<and> j < ?a \<and> entry_matches E t key hash (?es ! s)
        | None \<Rightarrow> j < ?a \<longrightarrow> \<not> in_use ?es (?p j)"
    by (auto simp: lws_table_find_def probe_step_def)
  show ?thesis
  proof (cases r)
    case (Some s)
    with result have "s \<in> set (t_order t)"
      using probe_less [OF pos] by (auto simp: slots_okD(3) [OF slots] is_set_def entry_matches_def)
    with Some r result show ?thesis by (intro found) auto
  next
    case None
    have "\<not> entry_matches E t key hash (?es ! s)" if s: "s \<in> set (t_order t)" for s
    proof
      assume m: "entry_matches E t key hash (?es ! s)"
      from s have "s < ?a" "is_set ?es s" by (auto simp: slots_okD(3) [OF slots])
      with paths m have "on_path ?a ?es hash s" by (auto simp: paths_ok_def entry_matches_def)
      with pos obtain i where i: "i < ?a" "?p i = s" "\<forall>k<i. in_use ?es (?p k)"
        using on_path_bound by metis
      with m before have "j \<le> i" by (metis not_less)
      with i None result have "\<not> in_use ?es (?p j)" by auto
      with i(2,3) \<open>j \<le> i\<close> \<open>is_set ?es s\<close> show False
        by (metis is_set_in_use le_neq_implies_less)
    qed
    with None r show ?thesis by (intro absent) auto
  qed
qed

section \<open>Insert\<close>

lemma worst_from:
  assumes "\<And>j. j < k \<Longrightarrow> is_set (t_entries t) (probe (t_alloc t) hash j)"
    and "\<not> is_set (t_entries t) (probe (t_alloc t) hash k)" and "i \<le> k"
  shows "lws_table_worst t (probe_step (t_alloc t) hash) (probe (t_alloc t) hash i) (i + 1) =
    Some (probe (t_alloc t) hash k, k + 1)"
  using assms(3)
proof (induction "k - i" arbitrary: i)
  case 0
  with assms(2) show ?case by (simp add: lws_table_worst.simps is_set_def)
next
  case (Suc d)
  then have d: "d = k - Suc i" "Suc i \<le> k" by auto
  with assms(1) [of i] Suc.hyps(1) [OF d] show ?case
    by (subst lws_table_worst.simps) (simp add: is_set_def probe_Suc)
qed

lemma worst_spec:
  assumes a: "good_size (t_alloc t)" and free: "\<exists>s<t_alloc t. \<not> is_set (t_entries t) s"
  obtains k where
    "lws_table_worst t (probe_step (t_alloc t) hash) (unat hash mod t_alloc t) 1 =
       Some (probe (t_alloc t) hash k, k + 1)"
    "\<And>j. j < k \<Longrightarrow> is_set (t_entries t) (probe (t_alloc t) hash j)"
    "\<not> is_set (t_entries t) (probe (t_alloc t) hash k)"
proof -
  let ?P = "\<lambda>k. \<not> is_set (t_entries t) (probe (t_alloc t) hash k)"
  from free probe_visits [OF a] have "\<exists>k. ?P k" by metis
  then obtain k where k: "?P k" and before: "\<forall>j<k. \<not> ?P j"
    unfolding exists_least_iff [of ?P] by blast
  from before have set: "is_set (t_entries t) (probe (t_alloc t) hash j)" if "j < k" for j
    using that by blast
  from worst_from [where i = 0, OF set k] show ?thesis
    by (intro that [OF _ set k]) simp_all
qed

text \<open>Slot \<open>new\<close> is the first slot behind \<open>old\<close>, on the probe sequence of the entry in \<open>old\<close>, that
  is not set.\<close>

definition next_free :: "nat \<Rightarrow> 'v lws_table_entry list \<Rightarrow> nat \<Rightarrow> nat \<Rightarrow> bool" where
  "next_free a es old new \<longleftrightarrow>
     (\<exists>l>0. new = (old + l * probe_step a (e_hash (es ! old))) mod a \<and> \<not> is_set es new \<and>
        (\<forall>m. 0 < m \<longrightarrow> m < l \<longrightarrow> is_set es ((old + m * probe_step a (e_hash (es ! old))) mod a)))"

lemma move_probe_spec:
  "lws_table_move_probe t q len len_worst h m = Some (new, l) \<Longrightarrow>
   h = (old + m * q) mod t_alloc t \<Longrightarrow>
   m \<le> l \<and> new = (old + l * q) mod t_alloc t \<and> \<not> is_set (t_entries t) new \<and>
   (\<forall>j. m \<le> j \<longrightarrow> j < l \<longrightarrow> is_set (t_entries t) ((old + j * q) mod t_alloc t))"
proof (induction t q len len_worst h m rule: lws_table_move_probe.induct)
  case (1 t q len len_worst h m)
  show ?case
  proof (cases "is_set (t_entries t) h")
    case False
    with "1.prems"(1) have "new = h" "l = m"
      by (simp_all add: lws_table_move_probe.simps [of t q len len_worst h m] is_set_def)
    with False "1.prems"(2) show ?thesis by auto
  next
    case True
    then have set: "\<not> e_state (t_entries t ! h) \<noteq> LWS_TES_SET" by (simp add: is_set_def)
    show ?thesis
    proof (cases "len + m \<ge> len_worst - 1")
      case True
      with set "1.prems"(1) show ?thesis
        by (simp add: lws_table_move_probe.simps [of t q len len_worst h m])
    next
      case False
      have h: "(h + q) mod t_alloc t = (old + (m + 1) * q) mod t_alloc t"
        unfolding "1.prems"(2) by (simp only: mod_add_left_eq add_mult_distrib mult_1 add.assoc)
      from "1.prems"(1) set False
      have "lws_table_move_probe t q len len_worst ((h + q) mod t_alloc t) (m + 1) = Some (new, l)"
        by (simp add: lws_table_move_probe.simps [of t q len len_worst h m])
      from "1.IH" [OF set False this h] show ?thesis
        using \<open>is_set (t_entries t) h\<close> "1.prems"(2)
        by (metis Suc_eq_plus1 Suc_leD le_antisym not_less_eq_eq)
    qed
  qed
qed

text \<open>The moves that the search may propose for a new entry whose worst slot is the \<open>k\<close>-th of its
  probe sequence.\<close>

definition good_move :: "'v lws_table \<Rightarrow> 64 word \<Rightarrow> nat \<Rightarrow> nat \<times> nat \<times> nat \<Rightarrow> bool" where
  "good_move t hash k move =
     (case move of (old, new, _) \<Rightarrow>
        (\<exists>j<k. old = probe (t_alloc t) hash j) \<and> next_free (t_alloc t) (t_entries t) old new)"

lemma move_search_spec:
  assumes "lws_table_move_search t q len_worst h len best = (h', best')"
    and "q = probe_step (t_alloc t) hash" "len_worst = k + 1" "h = probe (t_alloc t) hash (len - 1)"
    and "0 < len" "len < k"
    and "\<And>m. best = Some m \<Longrightarrow> good_move t hash k m"
  shows "(\<forall>m. best' = Some m \<longrightarrow> good_move t hash k m) \<and>
    (best' = None \<longrightarrow> h' = probe (t_alloc t) hash (k - 1))"
  using assms
proof (induction t q len_worst h len best rule: lws_table_move_search.induct)
  case (1 t q len_worst h len best)
  let ?a = "t_alloc t"
  define qm where "qm = unat (e_hash (t_entries t ! h)) mod (t_alloc t - 2) + 1"
  define b where "b = (case lws_table_move_probe t qm len len_worst ((h + qm) mod ?a) 1 of
      Some (hm, lm) \<Rightarrow> Some (h, hm, lm) | None \<Rightarrow> best)"
  define h2 where "h2 = (h + q) mod ?a"
  define go where "go \<longleftrightarrow> len + 1 < len_worst - 1 \<and>
      (case b of Some (_, _, lm) \<Rightarrow> len + 1 < lm | None \<Rightarrow> True)"
  note defs = b_def h2_def qm_def
  have h2: "h2 = probe ?a hash (len + 1 - 1)"
    using "1.prems"(2,4,5) probe_Suc [of ?a hash "len - 1"] by (simp add: h2_def)
  have good: "good_move t hash k m" if "b = Some m" for m
  proof (cases "lws_table_move_probe t qm len len_worst ((h + qm) mod ?a) 1")
    case None
    with that "1.prems"(7) show ?thesis by (simp add: b_def)
  next
    case (Some r)
    then obtain new l where r: "lws_table_move_probe t qm len len_worst ((h + qm) mod ?a) 1 =
      Some (new, l)" by (cases r) auto
    from move_probe_spec [OF r, of h]
    have "next_free ?a (t_entries t) h new"
      unfolding next_free_def probe_step_def qm_def [symmetric] by (intro exI [of _ l]) auto
    moreover have "\<exists>j<k. h = probe ?a hash j"
      using "1.prems"(4-6) by (intro exI [of _ "len - 1"]) auto
    ultimately show ?thesis using that r by (auto simp: b_def good_move_def)
  qed
  have step: "(h', best') =
      (if go then lws_table_move_search t q len_worst h2 (len + 1) b else (h2, b))"
    unfolding "1.prems"(1) [symmetric]
    by (subst lws_table_move_search.simps) (simp only: Let_def go_def defs)
  show ?case
  proof (cases go)
    case True
    then have "len + 1 < k" using "1.prems"(3) by (simp add: go_def)
    with True "1.IH" [OF qm_def b_def h2_def refl True [unfolded go_def]] step "1.prems"(2,3) h2 good
    show ?thesis by simp
  next
    case False
    have "b = None \<Longrightarrow> len + 1 = k" using False "1.prems"(3,6) by (auto simp: go_def)
    with False step good h2 show ?thesis by auto
  qed
qed

text \<open>Slot \<open>s\<close> can take a new entry with hash \<open>hash\<close>: the queue links the other set slots, and
  with the entry in place every set slot is on its path.\<close>

definition vacant ::
  "nat \<Rightarrow> 'v lws_table_entry list \<Rightarrow> nat list \<Rightarrow> nat \<Rightarrow> 64 word \<Rightarrow> bool" where
  "vacant a es ord s hash \<longleftrightarrow>
     s < a \<and> length es = a \<and> distinct ord \<and> set ord = {x. x < a \<and> is_set es x \<and> x \<noteq> s} \<and>
     (\<forall>e. e_state e = LWS_TES_SET \<longrightarrow> e_hash e = hash \<longrightarrow> paths_ok a (es[s := e]))"

lemma on_path_set_prefix:
  "\<forall>j<k. is_set es (probe a hash j) \<Longrightarrow> on_path a es hash (probe a hash k)"
  unfolding on_path_def using is_set_in_use by blast

lemma vacant_unset:
  assumes "slots_ok a es ord" "paths_ok a es" "s < a" "\<not> is_set es s" "on_path a es hash s"
  shows "vacant a es ord s hash"
proof -
  have "paths_ok a (es[s := e])" if e: "e_state e = LWS_TES_SET" "e_hash e = hash" for e
    unfolding paths_ok_def
  proof (intro allI impI)
    fix x assume x: "x < a" "is_set (es[s := e]) x"
    show "on_path a (es[s := e]) (e_hash (es[s := e] ! x)) x"
    proof (cases "x = s")
      case True
      with x(1) e assms(1,5) show ?thesis by (simp add: on_path_update slots_okD(1))
    next
      case False
      with x assms(2) have "on_path a es (e_hash (es ! x)) x"
        by (simp add: paths_ok_def is_set_update_other)
      with False e show ?thesis by (simp add: on_path_update)
    qed
  qed
  with assms show ?thesis by (auto simp: vacant_def slots_ok_def)
qed

lemma next_free_path:
  assumes "next_free a es old new" "is_set es old" "on_path a es (e_hash (es ! old)) old"
  shows "on_path a es (e_hash (es ! old)) new"
proof -
  let ?h = "e_hash (es ! old)"
  from assms(3) obtain i where i: "probe a ?h i = old" "\<forall>j<i. in_use es (probe a ?h j)"
    by (auto simp: on_path_def)
  from assms(1) obtain l where l: "0 < l" "new = (old + l * probe_step a ?h) mod a"
    and between: "\<And>m. 0 < m \<Longrightarrow> m < l \<Longrightarrow> is_set es ((old + m * probe_step a ?h) mod a)"
    unfolding next_free_def by blast
  have at: "(old + m * probe_step a ?h) mod a = probe a ?h (i + m)" for m
    using probe_add [of a ?h i m] i(1) by simp
  have "in_use es (probe a ?h j)" if j: "j < i + l" for j
  proof (cases "j \<le> i")
    case True
    then show ?thesis using i assms(2) by (cases "j = i") (auto intro: is_set_in_use)
  next
    case False
    with j have "is_set es ((old + (j - i) * probe_step a ?h) mod a)" by (intro between) auto
    with False at [of "j - i"] show ?thesis by (simp add: is_set_in_use)
  qed
  with l(2) at [of l] show ?thesis unfolding on_path_def by (intro exI [of _ "i + l"]) simp
qed

lemma vacant_moved:
  assumes slots: "slots_ok a es ord" and paths: "paths_ok a es"
    and old: "old < a" "is_set es old" "on_path a es hash old"
    and move: "next_free a es old new" and a: "0 < a"
  defines "es' \<equiv> es[new := es ! old]"
    and "ord' \<equiv> map (\<lambda>s. if s = old then new else s) ord"
  shows "vacant a es' ord' old hash" "contents es' ord' = contents es ord"
proof -
  have new: "new < a" "\<not> is_set es new" using move a by (auto simp: next_free_def)
  with old have neq: "new \<noteq> old" by auto
  have len: "length es = a" using slots by (rule slots_okD)
  have notin: "new \<notin> set ord" using new(2) slots_okD(3) [OF slots] by simp
  have set_new: "is_set es' new" using old(2) new(1) len by (simp add: es'_def is_set_def)
  have set_other: "is_set es' x = is_set es x" if "x \<noteq> new" for x
    using that by (simp add: es'_def is_set_update_other)
  have state: "e_state (es ! old) \<noteq> LWS_TES_UNUSED" using old(2) by (simp add: is_set_def)
  have "distinct ord'"
    unfolding ord'_def using slots_okD(2) [OF slots] notin
    by (auto simp: distinct_map inj_on_def)
  moreover have "set ord' = {x. x < a \<and> is_set es' x \<and> x \<noteq> old}"
    unfolding ord'_def using slots_okD(3) [OF slots] old new neq set_new set_other notin
    by (auto simp: image_iff) metis+
  moreover have "paths_ok a (es'[old := e])" if e: "e_state e = LWS_TES_SET" "e_hash e = hash" for e
    unfolding paths_ok_def
  proof (intro allI impI)
    fix x assume x: "x < a" "is_set (es'[old := e]) x"
    have up: "on_path a (es'[old := e]) h y" if "on_path a es h y" for h y
      using that state e(1) by (simp add: es'_def on_path_update)
    consider "x = old" | "x = new" | "x \<noteq> old" "x \<noteq> new" by blast
    then show "on_path a (es'[old := e]) (e_hash (es'[old := e] ! x)) x"
    proof cases
      case 1
      then show ?thesis using old e len up by (simp add: es'_def)
    next
      case 2
      have "on_path a es (e_hash (es ! old)) old" using paths old by (simp add: paths_ok_def)
      from up [OF next_free_path [OF move old(2) this]] 2 neq new(1) len show ?thesis
        by (simp add: es'_def)
    next
      case 3
      with x paths have "on_path a es (e_hash (es ! x)) x"
        by (simp add: paths_ok_def is_set_update_other set_other)
      with 3 up show ?thesis by (simp add: es'_def)
    qed
  qed
  ultimately show "vacant a es' ord' old hash" using old(1) len by (simp add: vacant_def es'_def)
  show "contents es' ord' = contents es ord"
    unfolding contents_def ord'_def es'_def using notin new(1) len
    by (auto simp: nth_list_update)
qed

lemma insert_spec:
  assumes a: "good_size (t_alloc t)" and slots: "slots_ok (t_alloc t) (t_entries t) (t_order t)"
    and paths: "paths_ok (t_alloc t) (t_entries t)" and room: "length (t_order t) < t_alloc t"
  obtains s es ord where
    "lws_table_insert t key hash = Some (s, t\<lparr>t_entries := es, t_order := ord\<rparr>)"
    "vacant (t_alloc t) es ord s hash" "contents es ord = contents (t_entries t) (t_order t)"
proof -
  let ?a = "t_alloc t" and ?es = "t_entries t" and ?ord = "t_order t"
  let ?p = "probe ?a hash" and ?q = "probe_step ?a hash"
  have pos: "0 < ?a" using a by (rule good_sizeD)
  obtain k where w: "lws_table_worst t ?q (unat hash mod ?a) 1 = Some (?p k, k + 1)"
    and set: "\<And>j. j < k \<Longrightarrow> is_set ?es (?p j)" and unset: "\<not> is_set ?es (?p k)"
    using worst_spec [OF a exists_not_set [OF slots room]] by blast
  have path: "on_path ?a ?es hash (?p j)" if "j \<le> k" for j
    using that set by (intro on_path_set_prefix) auto
  have worst: "vacant ?a ?es ?ord (?p k) hash"
    using slots paths probe_less [OF pos] unset path by (intro vacant_unset) auto
  note eq = lws_table_insert_def [of t key hash, folded probe_step_def, unfolded Let_def w]
  show ?thesis
  proof (cases "k + 1 \<le> 2")
    case True
    with eq worst show ?thesis by (intro that [where s = "?p k" and es = ?es and ord = ?ord]) auto
  next
    case False
    obtain h best where search:
      "lws_table_move_search t ?q (k + 1) (unat hash mod ?a) 1 None = (h, best)" by fastforce
    from move_search_spec [OF search refl refl] False
    have good: "\<And>m. best = Some m \<Longrightarrow> good_move t hash k m"
      and last: "best = None \<Longrightarrow> h = ?p (k - 1)" by auto
    show ?thesis
    proof (cases best)
      case None
      have "(?p (k - 1) + ?q) mod ?a = ?p k" using probe_Suc [of ?a hash "k - 1"] False by simp
      with None last eq search False worst show ?thesis
        by (intro that [where s = "?p k" and es = ?es and ord = ?ord]) auto
    next
      case (Some m)
      obtain old new l where m: "m = (old, new, l)" by (cases m) auto
      from good [OF Some] obtain j where j: "j < k" "old = ?p j"
        and free: "next_free ?a ?es old new" by (auto simp: m good_move_def)
      note moved = vacant_moved [OF slots paths _ _ _ free pos, of hash]
      from j set path probe_less [OF pos] have old: "old < ?a" "is_set ?es old"
        "on_path ?a ?es hash old" by auto
      show ?thesis
        using eq search False Some m
        by (intro that [OF _ moved(1) [OF old] moved(2) [OF old]]) auto
    qed
  qed
qed

end
