(* ===== verification/LwsTableInv.thy ===== *)
theory LwsTableInv
  imports LwsTableProbe
begin

text \<open>
  The invariant of the hash table and what each step of src/lws_table.c does to it: placing an entry
  in the slot that \<open>lws_table_insert\<close> returns, marking a slot deleted, overwriting an entry in
  place, moving an entry to the tail of the queue, rehashing into a larger array, draining.
  Everything is stated on \<open>lws_table_items\<close>, the entries in queue order.
\<close>

section \<open>Steps on slots\<close>

lemma vacant_place:
  assumes v: "vacant a es ord s hash" and e: "e_state e = LWS_TES_SET" "e_hash e = hash"
  shows "slots_ok a (es[s := e]) (ord @ [s])" "slots_ok a (es[s := e]) (s # ord)"
    "paths_ok a (es[s := e])"
    "contents (es[s := e]) (ord @ [s]) = contents es ord @ [e]"
    "contents (es[s := e]) (s # ord) = e # contents es ord"
proof -
  have s: "s < a" "length es = a" "distinct ord" "set ord = {x. x < a \<and> is_set es x \<and> x \<noteq> s}"
    using v by (auto simp: vacant_def)
  have set: "is_set (es[s := e]) s" using s(1,2) e by (simp add: is_set_def)
  have notin: "s \<notin> set ord" using s(4) by simp
  have "x \<in> insert s (set ord) \<longleftrightarrow> x < a \<and> is_set (es[s := e]) x" for x
    by (cases "x = s") (use s(1) set in \<open>simp_all add: s(4) is_set_update_other\<close>)
  then have all: "insert s (set ord) = {x. x < a \<and> is_set (es[s := e]) x}" by blast
  show "slots_ok a (es[s := e]) (ord @ [s])" "slots_ok a (es[s := e]) (s # ord)"
    using s(2,3) notin unfolding slots_ok_def all [symmetric] by simp_all
  show "paths_ok a (es[s := e])" using v e by (simp add: vacant_def)
  have "map ((!) (es[s := e])) ord = map ((!) es) ord"
    using notin by (intro map_cong refl) (metis nth_list_update_neq)
  with s(1,2) show "contents (es[s := e]) (ord @ [s]) = contents es ord @ [e]"
    "contents (es[s := e]) (s # ord) = e # contents es ord" by (simp_all add: contents_def)
qed

lemma vacant_size: "vacant a es ord s hash \<Longrightarrow> s < a \<and> length es = a"
  by (simp add: vacant_def)

lemma slots_overwrite:
  assumes "slots_ok a es ord" "paths_ok a es" "s \<in> set ord"
    and e: "e_state e = LWS_TES_SET" "e_hash e = e_hash (es ! s)"
  shows "slots_ok a (es[s := e]) ord" "paths_ok a (es[s := e])"
proof -
  have s: "s < a" "is_set es s" and len: "length es = a"
    using assms(1,3) by (auto simp: slots_okD)
  have set: "is_set (es[s := e]) x = is_set es x" for x
    using s len e by (cases "x = s") (simp_all add: is_set_update_other, simp add: is_set_def)
  with assms(1) show "slots_ok a (es[s := e]) ord" by (simp add: slots_ok_def)
  show "paths_ok a (es[s := e])"
    unfolding paths_ok_def
  proof (intro allI impI)
    fix x assume "x < a" "is_set (es[s := e]) x"
    then have "on_path a es (e_hash (es ! x)) x" using assms(2) set by (simp add: paths_ok_def)
    then have "on_path a (es[s := e]) (e_hash (es ! x)) x" using e by (simp add: on_path_update)
    then show "on_path a (es[s := e]) (e_hash (es[s := e] ! x)) x"
      using e s len by (cases "x = s") simp_all
  qed
qed

lemma slots_delete:
  assumes "slots_ok a es ord" "paths_ok a es" "s \<in> set ord" and e: "e_state e = LWS_TES_DELETED"
  shows "slots_ok a (es[s := e]) (remove1 s ord)" "paths_ok a (es[s := e])"
    "contents (es[s := e]) (remove1 s ord) = contents es (remove1 s ord)"
proof -
  have s: "s < a" and len: "length es = a" and dist: "distinct ord"
    using assms(1,3) by (auto simp: slots_okD)
  have unset: "\<not> is_set (es[s := e]) s" using s len e by (simp add: is_set_def)
  then have "{x. x < a \<and> is_set (es[s := e]) x} = {x. x < a \<and> is_set es x} - {s}"
    by (auto simp: is_set_update_other) (metis is_set_update_other)
  with assms(1) len show "slots_ok a (es[s := e]) (remove1 s ord)"
    by (simp add: slots_ok_def)
  show "paths_ok a (es[s := e])"
    unfolding paths_ok_def
  proof (intro allI impI)
    fix x assume x: "x < a" "is_set (es[s := e]) x"
    with unset have "x \<noteq> s" by blast
    with x assms(2) have "on_path a es (e_hash (es ! x)) x"
      by (simp add: paths_ok_def is_set_update_other)
    with \<open>x \<noteq> s\<close> e show "on_path a (es[s := e]) (e_hash (es[s := e] ! x)) x"
      by (simp add: on_path_update)
  qed
  show "contents (es[s := e]) (remove1 s ord) = contents es (remove1 s ord)"
    using dist by (auto simp: contents_def nth_list_update)
qed

lemma slots_reorder:
  "slots_ok a es ord \<Longrightarrow> distinct ord' \<Longrightarrow> set ord' = set ord \<Longrightarrow> slots_ok a es ord'"
  by (simp add: slots_ok_def)

lemma slots_empty: "slots_ok a (replicate a zero_entry) []" "paths_ok a (replicate a zero_entry)"
  by (auto simp: slots_ok_def paths_ok_def is_set_def zero_entry_def)

section \<open>Queue order as a list of entries\<close>

lemma contents_simps [simp]:
  "contents es [] = []" "contents es (s # ord) = es ! s # contents es ord"
  "contents es (ord @ ord') = contents es ord @ contents es ord'"
  "length (contents es ord) = length ord" "contents es (rev ord) = rev (contents es ord)"
  by (simp_all add: contents_def rev_map)

lemma set_contents: "set (contents es ord) = (!) es ` set ord"
  by (simp add: contents_def)

definition distinct_on :: "('a \<Rightarrow> 'b) \<Rightarrow> 'a list \<Rightarrow> bool" where
  "distinct_on f xs \<longleftrightarrow> distinct (map f xs)"

lemma distinct_on_filter [simp]: "distinct_on f xs \<Longrightarrow> distinct_on f (filter P xs)"
  by (simp add: distinct_on_def distinct_map_filter)

lemma distinct_on_snoc: "distinct_on f (xs @ [x]) \<longleftrightarrow> distinct_on f xs \<and> f x \<notin> f ` set xs"
  by (auto simp: distinct_on_def)

lemma distinct_on_tl: "distinct_on f xs \<Longrightarrow> distinct_on f (tl xs)"
  by (simp add: distinct_on_def distinct_tl map_tl)

lemma contents_remove1:
  assumes "distinct_on f (contents es ord)" "s \<in> set ord"
  shows "contents es (remove1 s ord) = filter (\<lambda>e. f e \<noteq> f (es ! s)) (contents es ord)"
  using assms
proof (induction ord)
  case (Cons x ord)
  have tail: "filter (\<lambda>e. f e \<noteq> f (es ! x)) (contents es ord) = contents es ord"
    using Cons.prems(1) by (auto simp: distinct_on_def filter_id_conv image_iff)
  show ?case
  proof (cases "x = s")
    case True
    then show ?thesis using tail by simp
  next
    case False
    with Cons.prems have "s \<in> set ord" by simp
    moreover from this Cons.prems(1) have "f (es ! x) \<noteq> f (es ! s)"
      by (auto simp: distinct_on_def set_contents)
    ultimately show ?thesis using Cons False by (simp add: distinct_on_def)
  qed
qed simp

lemma contents_update:
  assumes "distinct_on f (contents es ord)" "s \<in> set ord" "s < length es"
  shows "contents (es[s := e]) ord =
    List.map (\<lambda>x. if f x = f (es ! s) then e else x) (contents es ord)"
proof -
  have inj: "f (es ! x) = f (es ! s) \<longleftrightarrow> x = s" if "x \<in> set ord" for x
    using assms that
    by (metis (no_types, lifting) contents_def distinct_map distinct_on_def image_eqI inj_on_def
        map_map o_apply list.map_comp)
  show ?thesis
    unfolding contents_def using assms(3) inj by auto
qed

lemma find_unique:
  "distinct_on f xs \<Longrightarrow> x \<in> set xs \<Longrightarrow> find (\<lambda>y. f y = f x) xs = Some x"
  by (induction xs) (auto simp: distinct_on_def)

lemma dropWhile_contents:
  assumes "distinct_on f (contents es ord)" "s \<in> set ord"
  shows "contents es (dropWhile (\<lambda>x. x \<noteq> s) ord) =
    dropWhile (\<lambda>e. f e \<noteq> f (es ! s)) (contents es ord)"
  using assms by (induction ord) (auto simp: distinct_on_def set_contents)

section \<open>The invariant\<close>

definition lws_table_items :: "'v lws_table \<Rightarrow> 'v lws_table_entry list" where
  "lws_table_items t = contents (t_entries t) (t_order t)"

text \<open>What a lookup can tell of a key: two keys with the same class are the same key to the table.\<close>

definition key_class :: "lws_env \<Rightarrow> 'v lws_table \<Rightarrow> ngx_str \<Rightarrow> 64 word \<times> nat \<times> ngx_str" where
  "key_class E t key = (lws_table_hash E t key, length key,
     if t_ci t then map (env_tolower E) (c_view key) else c_view key)"

abbreviation entry_class where
  "entry_class E t e \<equiv> key_class E t (e_key e)"

lemma lws_table_hash_cong: "t_ci t' = t_ci t \<Longrightarrow> lws_table_hash E t' = lws_table_hash E t"
  by (rule ext) (simp add: lws_table_hash_def)

lemma key_class_cong: "t_ci t' = t_ci t \<Longrightarrow> key_class E t' = key_class E t"
  by (rule ext) (simp add: key_class_def lws_table_hash_cong [of t' t])

definition entries_ok :: "lws_env \<Rightarrow> 'v lws_table \<Rightarrow> 'v lws_table_entry list \<Rightarrow> bool" where
  "entries_ok E t xs \<longleftrightarrow>
     (\<forall>e\<in>set xs. e_hash e = lws_table_hash E t (e_key e) \<and> e_value e \<noteq> None) \<and>
     distinct_on (\<lambda>e. entry_class E t e) xs"

lemma entries_ok_cong: "t_ci t' = t_ci t \<Longrightarrow> entries_ok E t' xs = entries_ok E t xs"
  by (simp add: entries_ok_def lws_table_hash_cong [of t' t] key_class_cong [of t' t])

definition slots_wf :: "'v lws_table \<Rightarrow> bool" where
  "slots_wf t \<longleftrightarrow> t_alloc t \<in> set lws_table_sizes \<and> t_load t = lws_table_load (t_alloc t) \<and>
     slots_ok (t_alloc t) (t_entries t) (t_order t) \<and> paths_ok (t_alloc t) (t_entries t) \<and>
     t_count t = length (t_order t) \<and> t_count t \<le> t_load t"

definition table_wf :: "lws_env \<Rightarrow> 'v lws_table \<Rightarrow> bool" where
  "table_wf E t \<longleftrightarrow> slots_wf t \<and> entries_ok E t (lws_table_items t) \<and>
     (t_capped t \<longrightarrow> 1 \<le> t_cap t \<and> t_count t \<le> t_cap t)"

lemma slots_wfD:
  assumes "slots_wf t"
  shows "good_size (t_alloc t)" "slots_ok (t_alloc t) (t_entries t) (t_order t)"
    "paths_ok (t_alloc t) (t_entries t)" "t_count t = length (t_order t)"
    "t_load t = lws_table_load (t_alloc t)" "t_count t \<le> t_load t"
    "length (t_order t) < t_alloc t" "length (t_entries t) = t_alloc t"
    "t_alloc t \<in> set lws_table_sizes"
proof -
  show a: "good_size (t_alloc t)" and slots: "slots_ok (t_alloc t) (t_entries t) (t_order t)"
    and "paths_ok (t_alloc t) (t_entries t)" and c: "t_count t = length (t_order t)"
    and l: "t_load t = lws_table_load (t_alloc t)" "t_count t \<le> t_load t"
    and "t_alloc t \<in> set lws_table_sizes"
    using assms by (auto simp: slots_wf_def good_size_table)
  have "lws_table_load (t_alloc t) < t_alloc t"
    using a by (intro lws_table_load_less) (simp add: good_size_def)
  with c l show "length (t_order t) < t_alloc t" by simp
  from slots show "length (t_entries t) = t_alloc t" by (rule slots_okD)
qed

lemma table_wfD:
  assumes "table_wf E t"
  shows "slots_wf t" "entries_ok E t (lws_table_items t)"
    "distinct_on (\<lambda>e. entry_class E t e) (lws_table_items t)"
    "e \<in> set (lws_table_items t) \<Longrightarrow> e_hash e = lws_table_hash E t (e_key e)"
    "e \<in> set (lws_table_items t) \<Longrightarrow> e_value e \<noteq> None"
    "t_capped t \<Longrightarrow> 1 \<le> t_cap t" "t_capped t \<Longrightarrow> t_count t \<le> t_cap t"
  using assms by (auto simp: table_wf_def entries_ok_def)

lemma length_items: "slots_wf t \<Longrightarrow> length (lws_table_items t) = t_count t"
  by (simp add: lws_table_items_def slots_wfD)

lemma order_items: "s \<in> set (t_order t) \<Longrightarrow> t_entries t ! s \<in> set (lws_table_items t)"
  by (simp add: lws_table_items_def set_contents)

lemma order_set:
  "slots_wf t \<Longrightarrow> s \<in> set (t_order t) \<Longrightarrow> s < t_alloc t \<and> e_state (t_entries t ! s) = LWS_TES_SET"
  by (drule slots_wfD(2)) (simp add: slots_okD(3) is_set_def)

section \<open>Find\<close>

lemma entry_matches_class:
  assumes "strncasecmp_ok E" "e_state e = LWS_TES_SET" "e_hash e = lws_table_hash E t (e_key e)"
  shows "entry_matches E t key (lws_table_hash E t key) e \<longleftrightarrow>
    entry_class E t e = key_class E t key"
proof (cases "length (e_key e) = length key")
  case True
  with assms show ?thesis
    by (auto simp: entry_matches_def key_class_def lws_table_key_cmp_def strncmp_eq_0
        strncasecmp_ok_def)
qed (simp add: entry_matches_def key_class_def)

lemma table_find:
  assumes wf: "table_wf E t" and E: "strncasecmp_ok E"
  obtains (found) s where "lws_table_find E t key (lws_table_hash E t key) = Some (Some s)"
      "s \<in> set (t_order t)" "entry_class E t (t_entries t ! s) = key_class E t key"
      "find (\<lambda>e. entry_class E t e = key_class E t key) (lws_table_items t) =
        Some (t_entries t ! s)"
    | (absent) "lws_table_find E t key (lws_table_hash E t key) = Some None"
      "find (\<lambda>e. entry_class E t e = key_class E t key) (lws_table_items t) = None"
      "\<And>e. e \<in> set (lws_table_items t) \<Longrightarrow> entry_class E t e \<noteq> key_class E t key"
proof -
  note slots = slots_wfD [OF table_wfD(1) [OF wf]]
  have match: "entry_matches E t key (lws_table_hash E t key) (t_entries t ! s) \<longleftrightarrow>
    entry_class E t (t_entries t ! s) = key_class E t key" if "s \<in> set (t_order t)" for s
    using that order_set [OF table_wfD(1) [OF wf]] table_wfD(4) [OF wf] order_items
    by (intro entry_matches_class [OF E]) blast+
  show ?thesis
  proof (cases rule: find_spec [OF slots(1-3), of E key "lws_table_hash E t key"])
    case (1 s)
    then have cls: "entry_class E t (t_entries t ! s) = key_class E t key" using match by simp
    from find_unique [OF table_wfD(3) [OF wf] order_items [OF 1(2)]] 1 cls show ?thesis
      by (intro found) auto
  next
    case 2
    then have "entry_class E t e \<noteq> key_class E t key" if "e \<in> set (lws_table_items t)" for e
      using that match by (auto simp: lws_table_items_def set_contents)
    with 2 show ?thesis by (intro absent) (auto simp: find_None_iff)
  qed
qed

section \<open>What each step does to the items\<close>

lemma remove_fields [simp]:
  "t_alloc (lws_table_remove t s) = t_alloc t" "t_load (lws_table_remove t s) = t_load t"
  "t_count (lws_table_remove t s) = t_count t - 1" "t_timeout (lws_table_remove t s) = t_timeout t"
  "t_cap (lws_table_remove t s) = t_cap t" "t_dup (lws_table_remove t s) = t_dup t"
  "t_free (lws_table_remove t s) = t_free t" "t_ci (lws_table_remove t s) = t_ci t"
  "t_timed (lws_table_remove t s) = t_timed t" "t_capped (lws_table_remove t s) = t_capped t"
  "t_order (lws_table_remove t s) = remove1 s (t_order t)"
  by (simp_all add: lws_table_remove_def Let_def)

lemma touch_fields [simp]:
  "t_alloc (lws_table_touch t s) = t_alloc t" "t_load (lws_table_touch t s) = t_load t"
  "t_count (lws_table_touch t s) = t_count t" "t_timeout (lws_table_touch t s) = t_timeout t"
  "t_cap (lws_table_touch t s) = t_cap t" "t_dup (lws_table_touch t s) = t_dup t"
  "t_free (lws_table_touch t s) = t_free t" "t_ci (lws_table_touch t s) = t_ci t"
  "t_timed (lws_table_touch t s) = t_timed t" "t_capped (lws_table_touch t s) = t_capped t"
  "t_entries (lws_table_touch t s) = t_entries t" "t_freed (lws_table_touch t s) = t_freed t"
  by (simp_all add: lws_table_touch_def)

lemma table_wf_intro:
  assumes "slots_wf t'" "t_ci t' = t_ci t" "entries_ok E t (lws_table_items t')"
    "t_capped t' \<Longrightarrow> 1 \<le> t_cap t' \<and> t_count t' \<le> t_cap t'"
  shows "table_wf E t'"
  using assms entries_ok_cong [of t' t] by (auto simp: table_wf_def)

lemma items_remove:
  assumes wf: "table_wf E t" and s: "s \<in> set (t_order t)"
  shows "lws_table_items (lws_table_remove t s) =
      filter (\<lambda>e. entry_class E t e \<noteq> entry_class E t (t_entries t ! s)) (lws_table_items t)"
    "lws_table_items (lws_table_remove t s) = contents (t_entries t) (remove1 s (t_order t))"
    "table_wf E (lws_table_remove t s)"
proof -
  note slots = slots_wfD [OF table_wfD(1) [OF wf]]
  let ?e = "(t_entries t ! s)\<lparr>e_state := LWS_TES_DELETED\<rparr>"
  note del = slots_delete [OF slots(2,3) s, of ?e, simplified]
  show items: "lws_table_items (lws_table_remove t s) =
      contents (t_entries t) (remove1 s (t_order t))"
    using del(3) by (simp add: lws_table_items_def lws_table_remove_def Let_def)
  with contents_remove1 [OF table_wfD(3) [OF wf, unfolded lws_table_items_def] s]
  show items': "lws_table_items (lws_table_remove t s) =
      filter (\<lambda>e. entry_class E t e \<noteq> entry_class E t (t_entries t ! s)) (lws_table_items t)"
    by (simp add: lws_table_items_def)
  have "entries_ok E t (lws_table_items (lws_table_remove t s))"
    unfolding items' using table_wfD(2) [OF wf] by (simp add: entries_ok_def)
  moreover have "slots_wf (lws_table_remove t s)"
    using slots del s by (simp add: slots_wf_def lws_table_remove_def Let_def length_remove1)
  ultimately show "table_wf E (lws_table_remove t s)"
    using table_wfD(6,7) [OF wf] by (intro table_wf_intro [of _ t]) auto
qed

lemma items_touch:
  assumes wf: "table_wf E t" and s: "s \<in> set (t_order t)"
  shows "lws_table_items (lws_table_touch t s) =
      (if t_capped t then
         filter (\<lambda>e. entry_class E t e \<noteq> entry_class E t (t_entries t ! s)) (lws_table_items t) @
         [t_entries t ! s]
       else lws_table_items t)"
    "table_wf E (lws_table_touch t s)"
    "set (lws_table_items (lws_table_touch t s)) = set (lws_table_items t)"
proof -
  note slots = slots_wfD [OF table_wfD(1) [OF wf]]
  let ?ord = "remove1 s (t_order t) @ [s]"
  have ord: "distinct ?ord" "set ?ord = set (t_order t)" "length ?ord = length (t_order t)"
    using slots_okD(2) [OF slots(2)] s length_pos_if_in_set [OF s] by (auto simp: length_remove1)
  show items: "lws_table_items (lws_table_touch t s) =
      (if t_capped t then
         filter (\<lambda>e. entry_class E t e \<noteq> entry_class E t (t_entries t ! s)) (lws_table_items t) @
         [t_entries t ! s]
       else lws_table_items t)"
    using contents_remove1 [OF table_wfD(3) [OF wf, unfolded lws_table_items_def] s]
    by (simp add: lws_table_touch_def lws_table_items_def)
  show sets: "set (lws_table_items (lws_table_touch t s)) = set (lws_table_items t)"
    using ord(2) unfolding lws_table_items_def lws_table_touch_def
    by (simp add: set_contents del: set_append)
  have "distinct_on (\<lambda>e. entry_class E t e) (lws_table_items (lws_table_touch t s))"
    unfolding items using table_wfD(3) [OF wf] by (auto simp: distinct_on_snoc)
  with sets table_wfD(2) [OF wf]
  have "entries_ok E t (lws_table_items (lws_table_touch t s))" by (simp add: entries_ok_def)
  moreover have "slots_wf (lws_table_touch t s)"
    using slots ord slots_reorder [OF slots(2) ord(1,2)]
    by (simp add: slots_wf_def lws_table_touch_def)
  ultimately show "table_wf E (lws_table_touch t s)"
    using table_wfD(6,7) [OF wf] by (intro table_wf_intro [of _ t]) auto
qed

text \<open>Overwriting the value and the time of an entry in place.\<close>

lemma items_overwrite:
  assumes wf: "table_wf E t" and s: "s \<in> set (t_order t)"
    and e: "e_key e = e_key (t_entries t ! s)" "e_hash e = e_hash (t_entries t ! s)"
      "e_state e = LWS_TES_SET" "e_value e \<noteq> None"
  defines "t' \<equiv> t\<lparr>t_entries := (t_entries t)[s := e]\<rparr>"
  shows "lws_table_items t' = List.map (\<lambda>x. if entry_class E t x = entry_class E t e then e else x)
      (lws_table_items t)"
    "table_wf E t'"
proof -
  note slots = slots_wfD [OF table_wfD(1) [OF wf]]
  have "s < length (t_entries t)" using order_set [OF table_wfD(1) [OF wf] s] slots(8) by simp
  from contents_update [OF table_wfD(3) [OF wf, unfolded lws_table_items_def] s this]
  show items: "lws_table_items t' =
    List.map (\<lambda>x. if entry_class E t x = entry_class E t e then e else x) (lws_table_items t)"
    by (simp add: t'_def lws_table_items_def e(1))
  have "e_hash e = lws_table_hash E t (e_key e)"
    using table_wfD(4) [OF wf order_items [OF s]] e by simp
  moreover have "map (\<lambda>e. entry_class E t e) (lws_table_items t') =
      map (\<lambda>e. entry_class E t e) (lws_table_items t)"
    unfolding items by simp
  moreover have "x = e \<or> x \<in> set (lws_table_items t)" if "x \<in> set (lws_table_items t')" for x
    using that by (auto simp: items split: if_splits)
  ultimately have "entries_ok E t (lws_table_items t')"
    using table_wfD(2) [OF wf] e(4) unfolding entries_ok_def distinct_on_def by metis
  moreover have "slots_wf t'"
    using slots slots_overwrite [OF slots(2,3) s e(3,2)] by (simp add: slots_wf_def t'_def)
  ultimately show "table_wf E t'"
    using table_wfD(6,7) [OF wf] by (intro table_wf_intro [of _ t]) (auto simp: t'_def)
qed

end
