(* ===== verification/LwsTableOps.thy ===== *)
theory LwsTableOps
  imports LwsTableInv
begin

text \<open>
  The operations of src/lws_table.c that change the slots as a whole: rehashing, creating, evicting,
  adding a new entry, draining and clearing. Each lemma gives the items after the operation and
  that the invariant holds again; that the operation returns at all is part of it.
\<close>

section \<open>Rehash\<close>

lemma reinsert_spec:
  assumes "good_size (t_alloc t)" "slots_ok (t_alloc t) (t_entries t) (t_order t)"
    "paths_ok (t_alloc t) (t_entries t)" "length (t_order t) + length qs < t_alloc t"
    "\<forall>q\<in>set qs. e_state (entries ! q) = LWS_TES_SET"
  shows "\<exists>es ord. lws_table_reinsert entries qs t = Some (t\<lparr>t_entries := es, t_order := ord\<rparr>) \<and>
    slots_ok (t_alloc t) es ord \<and> paths_ok (t_alloc t) es \<and>
    contents es ord = rev (contents entries qs) @ contents (t_entries t) (t_order t)"
  using assms
proof (induction qs arbitrary: t)
  case Nil
  then show ?case by (intro exI [of _ "t_entries t"] exI [of _ "t_order t"]) simp
next
  case (Cons q qs)
  let ?e = "entries ! q"
  from Cons.prems have room: "length (t_order t) < t_alloc t" by simp
  obtain s es ord where
    ins: "lws_table_insert t (e_key ?e) (e_hash ?e) = Some (s, t\<lparr>t_entries := es, t_order := ord\<rparr>)"
    and vac: "vacant (t_alloc t) es ord s (e_hash ?e)"
    and cont: "contents es ord = contents (t_entries t) (t_order t)"
    using insert_spec [OF Cons.prems(1-3) room] by blast
  have len: "length ord = length (t_order t)" using arg_cong [OF cont, of length] by simp
  have e: "e_state ?e = LWS_TES_SET" using Cons.prems(5) by simp
  note placed = vacant_place [OF vac e refl]
  let ?t = "t\<lparr>t_entries := es[s := ?e], t_order := s # ord\<rparr>"
  obtain es' ord' where
    "lws_table_reinsert entries qs ?t = Some (?t\<lparr>t_entries := es', t_order := ord'\<rparr>)"
    "slots_ok (t_alloc t) es' ord'" "paths_ok (t_alloc t) es'"
    "contents es' ord' = rev (contents entries qs) @ contents (es[s := ?e]) (s # ord)"
    using Cons.IH [of ?t] Cons.prems placed len by auto
  with ins placed(5) cont show ?case
    by (intro exI [of _ es'] exI [of _ ord']) (simp add: Let_def)
qed

text \<open>Rehashing into the next table size either fails and leaves the table as it is, or makes room
  for at least one more entry and keeps the items and their order.\<close>

lemma rehash_spec:
  assumes wf: "slots_wf t"
  obtains (failed) "lws_table_rehash E t (t_alloc t + 1) = Some (-1, t)"
      "lws_table_size (t_alloc t + 1) = None \<or>
       (\<exists>a. lws_table_size (t_alloc t + 1) = Some a \<and>
          \<not> env_calloc_ok E (a * sizeof_lws_table_entry_t))"
    | (rehashed) a es ord where "lws_table_size (t_alloc t + 1) = Some a"
      "env_calloc_ok E (a * sizeof_lws_table_entry_t)"
      "lws_table_rehash E t (t_alloc t + 1) = Some (0, t\<lparr>t_alloc := a,
        t_load := lws_table_load a, t_entries := es, t_order := ord\<rparr>)"
      "slots_wf (t\<lparr>t_alloc := a, t_load := lws_table_load a, t_entries := es, t_order := ord\<rparr>)"
      "t_load t < lws_table_load a" "contents es ord = lws_table_items t"
proof (cases "lws_table_size (t_alloc t + 1)")
  case None
  then show ?thesis by (intro failed) (simp_all add: lws_table_rehash_def)
next
  case (Some a)
  note wf = slots_wfD [OF assms]
  show ?thesis
  proof (cases "env_calloc_ok E (a * sizeof_lws_table_entry_t)")
    case False
    with Some show ?thesis by (intro failed) (simp_all add: lws_table_rehash_def)
  next
    case True
    have a: "a \<in> set lws_table_sizes" and next_size: "t_alloc t + 2 \<le> a"
      using lws_table_size_SomeD [OF Some] lws_table_size_next [OF Some wf(9)] by auto
    have load: "t_load t < lws_table_load a"
      using wf(5) next_size lws_table_load_step by simp
    let ?t = "t\<lparr>t_alloc := a, t_load := lws_table_load a,
      t_entries := replicate a zero_entry, t_order := []\<rparr>"
    have set: "\<forall>q\<in>set (rev (t_order t)). e_state (t_entries t ! q) = LWS_TES_SET"
      using order_set [OF assms] by simp
    have "length (t_order ?t) + length (rev (t_order t)) < t_alloc ?t"
      using wf(7) next_size by simp
    from reinsert_spec [OF _ _ _ this set] a obtain es ord where
      r: "lws_table_reinsert (t_entries t) (rev (t_order t)) ?t =
        Some (?t\<lparr>t_entries := es, t_order := ord\<rparr>)"
      and ok: "slots_ok a es ord" "paths_ok a es"
      and cont: "contents es ord = lws_table_items t"
      by (auto simp: good_size_table slots_empty lws_table_items_def)
    have "length ord = length (t_order t)"
      using arg_cong [OF cont, of length] by (simp add: lws_table_items_def)
    with ok a load wf(4,6) have "slots_wf (t\<lparr>t_alloc := a, t_load := lws_table_load a,
      t_entries := es, t_order := ord\<rparr>)" by (simp add: slots_wf_def)
    with Some True r load cont show ?thesis by (intro rehashed) (simp_all add: lws_table_rehash_def)
  qed
qed

section \<open>New entries\<close>

text \<open>Evicting drops the head of the queue if the table is capped and full.\<close>

lemma items_evict:
  assumes wf: "table_wf E t"
  shows "lws_table_items (lws_table_evict t) =
      (if t_capped t \<and> t_count t = t_cap t then tl (lws_table_items t) else lws_table_items t)"
    "table_wf E (lws_table_evict t)"
    "t_capped t \<Longrightarrow> t_count (lws_table_evict t) < t_cap t"
proof -
  note slots = slots_wfD [OF table_wfD(1) [OF wf]]
  have ne: "t_order t \<noteq> []" if "t_capped t" "t_count t = t_cap t"
    using that table_wfD(6) [OF wf] slots(4) by auto
  have hd: "remove1 (hd xs) xs = tl xs" "contents es (tl xs) = tl (contents es xs)" if "xs \<noteq> []"
    for xs :: "nat list" and es :: "'a lws_table_entry list"
    using that by (cases xs; simp)+
  show "lws_table_items (lws_table_evict t) =
      (if t_capped t \<and> t_count t = t_cap t then tl (lws_table_items t) else lws_table_items t)"
    using items_remove(2) [OF wf hd_in_set] ne hd
    by (auto simp: lws_table_evict_def lws_table_items_def)
  show "table_wf E (lws_table_evict t)"
    using items_remove(3) [OF wf hd_in_set] ne wf by (simp add: lws_table_evict_def)
  show "t_capped t \<Longrightarrow> t_count (lws_table_evict t) < t_cap t"
    using table_wfD(6,7) [OF wf] by (auto simp: lws_table_evict_def)
qed

lemma evict_fields [simp]:
  "t_alloc (lws_table_evict t) = t_alloc t" "t_load (lws_table_evict t) = t_load t"
  "t_timeout (lws_table_evict t) = t_timeout t"
  "t_cap (lws_table_evict t) = t_cap t" "t_dup (lws_table_evict t) = t_dup t"
  "t_free (lws_table_evict t) = t_free t" "t_ci (lws_table_evict t) = t_ci t"
  "t_timed (lws_table_evict t) = t_timed t" "t_capped (lws_table_evict t) = t_capped t"
  by (simp_all add: lws_table_evict_def)

text \<open>The new entry takes its slot; what is left in the time of that slot is kept if the table is
  not timed.\<close>

definition stamped :: "lws_env \<Rightarrow> 'v lws_table \<Rightarrow> 'v lws_table_entry \<Rightarrow> 'v lws_table_entry" where
  "stamped E t e = (if t_timed t then e\<lparr>e_time := env_time E\<rparr> else e)"

text \<open>Slot \<open>s\<close> of \<open>es\<close>, linked after \<open>ord\<close>, takes a new entry of \<open>key\<close>.\<close>

definition takes_entry ::
  "lws_env \<Rightarrow> 'v lws_table \<Rightarrow> ngx_str \<Rightarrow> nat \<Rightarrow> 'v lws_table_entry list \<Rightarrow> nat list \<Rightarrow> bool" where
  "takes_entry E t key s es ord \<longleftrightarrow>
     (\<forall>e. e_key e = key \<longrightarrow> e_hash e = lws_table_hash E t key \<longrightarrow> e_state e = LWS_TES_SET \<longrightarrow>
        e_value e \<noteq> None \<longrightarrow>
        lws_table_items (t\<lparr>t_entries := es[s := e], t_order := ord @ [s],
          t_count := t_count t + 1\<rparr>) = lws_table_items t @ [e] \<and>
        table_wf E (t\<lparr>t_entries := es[s := e], t_order := ord @ [s],
          t_count := t_count t + 1\<rparr>))"

lemma place_spec:
  assumes wf: "table_wf E t" and room: "t_count t < t_load t"
    and cap: "t_capped t \<Longrightarrow> t_count t < t_cap t"
    and fresh: "\<And>e. e \<in> set (lws_table_items t) \<Longrightarrow> entry_class E t e \<noteq> key_class E t key"
  defines "hash \<equiv> lws_table_hash E t key"
  obtains s es ord where
    "lws_table_insert t key hash = Some (s, t\<lparr>t_entries := es, t_order := ord\<rparr>)"
    "takes_entry E t key s es ord"
    "s < length es"
proof -
  note slots = slots_wfD [OF table_wfD(1) [OF wf]]
  obtain s es ord where
    ins: "lws_table_insert t key hash = Some (s, t\<lparr>t_entries := es, t_order := ord\<rparr>)"
    and vac: "vacant (t_alloc t) es ord s hash"
    and cont: "contents es ord = contents (t_entries t) (t_order t)"
    using insert_spec [OF slots(1-3,7)] by blast
  have len: "length ord = t_count t"
    using arg_cong [OF cont, of length] slots(4) by simp
  have new: "key_class E t key \<notin> (\<lambda>e. entry_class E t e) ` set (lws_table_items t)"
    using fresh by force
  have "lws_table_items (t\<lparr>t_entries := es[s := e], t_order := ord @ [s], t_count := t_count t + 1\<rparr>) =
        lws_table_items t @ [e] \<and>
      table_wf E (t\<lparr>t_entries := es[s := e], t_order := ord @ [s], t_count := t_count t + 1\<rparr>)"
    (is "lws_table_items ?t = _ \<and> _")
    if e: "e_key e = key" "e_hash e = hash" "e_state e = LWS_TES_SET" "e_value e \<noteq> None" for e
  proof
    note placed = vacant_place [OF vac e(3,2)]
    show items: "lws_table_items ?t = lws_table_items t @ [e]"
      using placed(4) cont by (simp add: lws_table_items_def)
    have "entries_ok E t (lws_table_items ?t)"
      unfolding items using table_wfD(2) [OF wf] e new
      by (auto simp: entries_ok_def distinct_on_snoc hash_def)
    moreover have "slots_wf ?t"
      using slots placed(1,3) len room by (simp add: slots_wf_def)
    ultimately show "table_wf E ?t"
      using table_wfD(6) [OF wf] cap by (intro table_wf_intro [of _ t]) auto
  qed
  then have "takes_entry E t key s es ord" by (simp add: takes_entry_def hash_def)
  with ins vacant_size [OF vac] show ?thesis by (intro that) auto
qed

text \<open>Adding a new entry fails exactly if the table must grow and cannot, or if the key must be
  copied and cannot.\<close>

definition lws_table_grow_ok :: "lws_env \<Rightarrow> 'v lws_table \<Rightarrow> bool" where
  "lws_table_grow_ok E t \<longleftrightarrow>
     t_count t = t_load t \<longrightarrow>
       (case lws_table_size (t_alloc t + 1) of
          None \<Rightarrow> False
        | Some a \<Rightarrow> env_calloc_ok E (a * sizeof_lws_table_entry_t))"

definition lws_table_copy_ok :: "lws_env \<Rightarrow> 'v lws_table \<Rightarrow> ngx_str \<Rightarrow> bool" where
  "lws_table_copy_ok E t key \<longleftrightarrow> t_dup t \<longrightarrow> env_alloc_ok E (length key)"

definition same_config :: "'v lws_table \<Rightarrow> 'v lws_table \<Rightarrow> bool" where
  "same_config t' t \<longleftrightarrow> t_timeout t' = t_timeout t \<and> t_cap t' = t_cap t \<and> t_dup t' = t_dup t \<and>
     t_free t' = t_free t \<and> t_ci t' = t_ci t \<and> t_timed t' = t_timed t \<and> t_capped t' = t_capped t"

lemma same_configD:
  "same_config t' t \<Longrightarrow> t_timeout t' = t_timeout t" "same_config t' t \<Longrightarrow> t_cap t' = t_cap t"
  "same_config t' t \<Longrightarrow> t_dup t' = t_dup t" "same_config t' t \<Longrightarrow> t_free t' = t_free t"
  "same_config t' t \<Longrightarrow> t_ci t' = t_ci t" "same_config t' t \<Longrightarrow> t_timed t' = t_timed t"
  "same_config t' t \<Longrightarrow> t_capped t' = t_capped t"
  by (simp_all add: same_config_def)

lemma same_config_refl [simp]: "same_config t t"
  by (simp add: same_config_def)

text \<open>The table just before a new entry is placed: evicted and, if needed, rehashed.\<close>

lemma grow_spec:
  assumes wf: "table_wf E t"
  obtains (failed) "\<not> lws_table_grow_ok E t"
      "(if t_count t = t_load t then lws_table_rehash E t (t_alloc t + 1) else Some (0, t)) =
         Some (-1, t)"
    | (grown) t' where "lws_table_grow_ok E t"
      "(if t_count t = t_load t then lws_table_rehash E t (t_alloc t + 1) else Some (0, t)) =
         Some (0, t')"
      "table_wf E t'" "t_count t' < t_load t'" "lws_table_items t' = lws_table_items t"
      "same_config t' t" "t_count t' = t_count t" "t_freed t' = t_freed t"
proof (cases "t_count t = t_load t")
  case False
  then have "t_count t < t_load t" using slots_wfD(6) [OF table_wfD(1) [OF wf]] by simp
  with False wf show ?thesis by (intro grown [of t]) (simp_all add: lws_table_grow_ok_def)
next
  case True
  show ?thesis
  proof (cases rule: rehash_spec [OF table_wfD(1) [OF wf], of E])
    case 1
    with True show ?thesis by (intro failed) (auto simp: lws_table_grow_ok_def)
  next
    case (2 a es ord)
    let ?t = "t\<lparr>t_alloc := a, t_load := lws_table_load a, t_entries := es, t_order := ord\<rparr>"
    have items: "lws_table_items ?t = lws_table_items t" using 2 by (simp add: lws_table_items_def)
    have "table_wf E ?t"
      using 2 items table_wfD(2,6,7) [OF wf] by (intro table_wf_intro [of _ t]) auto
    with 2 True items show ?thesis
      by (intro grown [of ?t]) (simp_all add: lws_table_grow_ok_def same_config_def)
  qed
qed

lemma stamp_spec:
  "s < length (t_entries t) \<Longrightarrow>
   lws_table_stamp E s t = t\<lparr>t_entries := (t_entries t)[s := stamped E t (t_entries t ! s)]\<rparr>"
  by (simp add: lws_table_stamp_def stamped_def)

lemma set_new_spec:
  assumes wf: "table_wf E t" and v: "v \<noteq> None"
    and fresh: "\<And>e. e \<in> set (lws_table_items t) \<Longrightarrow> entry_class E t e \<noteq> key_class E t key"
  defines "hash \<equiv> lws_table_hash E t key"
  obtains (failed) t' where "\<not> (lws_table_grow_ok E (lws_table_evict t) \<and> lws_table_copy_ok E t key)"
      "lws_table_set_new E t key hash v = Some (-1, t')"
      "lws_table_items t' = lws_table_items (lws_table_evict t)" "table_wf E t'" "same_config t' t"
      "t_freed t' = t_freed (lws_table_evict t)"
    | (added) t' e where "lws_table_grow_ok E (lws_table_evict t)" "lws_table_copy_ok E t key"
      "lws_table_set_new E t key hash v = Some (0, t')"
      "lws_table_items t' = lws_table_items (lws_table_evict t) @ [e]" "table_wf E t'"
      "same_config t' t" "t_freed t' = t_freed (lws_table_evict t)"
      "e_key e = key" "e_value e = v" "t_timed t \<Longrightarrow> e_time e = env_time E"
proof -
  let ?t = "lws_table_evict t"
  note ev = items_evict [OF wf]
  have same: "same_config ?t t" by (simp add: same_config_def)
  have sub: "set (lws_table_items ?t) \<subseteq> set (lws_table_items t)"
    unfolding ev(1) by (cases "lws_table_items t") auto
  show ?thesis
  proof (cases rule: grow_spec [OF ev(2)])
    case 1
    with ev(2) same show ?thesis
      by (intro failed [of ?t]) (auto simp: lws_table_set_new_def Let_def)
  next
    case (2 t1)
    show ?thesis
    proof (cases "lws_table_copy_ok E t key")
      case False
      with 2 same show ?thesis
        by (intro failed [of t1])
           (auto simp: lws_table_set_new_def Let_def lws_table_copy_ok_def same_config_def)
    next
      case True
      have ci: "t_ci t1 = t_ci t" using 2(6) by (simp add: same_config_def)
      have cls: "key_class E t1 = key_class E t" and hash: "hash = lws_table_hash E t1 key"
        using key_class_cong [OF ci] lws_table_hash_cong [OF ci] by (simp_all add: hash_def)
      have cap: "t_capped t1 \<Longrightarrow> t_count t1 < t_cap t1"
        using ev(3) 2(6,7) by (simp add: same_config_def)
      have fresh': "entry_class E t1 e \<noteq> key_class E t1 key" if "e \<in> set (lws_table_items t1)" for e
        using that 2(5) sub fresh cls by auto
      obtain s es ord where
        ins: "lws_table_insert t1 key hash = Some (s, t1\<lparr>t_entries := es, t_order := ord\<rparr>)"
        and place: "takes_entry E t1 key s es ord"
        and s: "s < length es"
        by (rule place_spec [OF 2(3,4) cap fresh', folded hash])
      define e0 where "e0 = (es ! s)\<lparr>e_key := key, e_value := v, e_hash := hash,
        e_state := LWS_TES_SET\<rparr>"
      define e where "e = stamped E t1 e0"
      have e: "e_key e = key" "e_hash e = hash" "e_state e = LWS_TES_SET" "e_value e = v"
        "t_timed t \<Longrightarrow> e_time e = env_time E"
        using 2(6) by (simp_all add: e_def e0_def stamped_def same_config_def)
      let ?t2 = "t1\<lparr>t_entries := es[s := e], t_order := ord @ [s], t_count := t_count t1 + 1\<rparr>"
      have "lws_table_set_new E t key hash v = Some (0, ?t2)"
      proof -
        let ?t3 = "t1\<lparr>t_entries := es[s := e0], t_order := ord @ [s], t_count := t_count t1 + 1\<rparr>"
        have copy: "\<not> (t_dup t1 \<and> \<not> env_alloc_ok E (length key))"
          using True 2(6) by (simp add: lws_table_copy_ok_def same_config_def)
        have "lws_table_stamp E s ?t3 = ?t2"
          using s by (simp add: stamp_spec e_def stamped_def)
        then show ?thesis
          unfolding lws_table_set_new_def Let_def 2(2) using copy ins by (simp add: e0_def)
      qed
      moreover have "lws_table_items ?t2 = lws_table_items t1 @ [e] \<and> table_wf E ?t2"
        using place e(1-4) v hash unfolding takes_entry_def by blast
      ultimately show ?thesis
        using True 2(1,5,6,8) e same by (intro added [of ?t2 e]) (simp_all add: same_config_def)
    qed
  qed
qed

section \<open>Creating, draining and clearing\<close>

lemma create_spec:
  assumes "lws_table_create E load = Some t"
  shows "table_wf E t" "lws_table_items t = []" "t_count t = 0"
    "load < lws_table_sizes ! (lws_table_sizes_n - 1) \<Longrightarrow> load \<le> t_load t"
    "t = \<lparr>t_alloc = t_alloc t, t_load = lws_table_load (t_alloc t), t_count = 0,
       t_entries = replicate (t_alloc t) zero_entry, t_order = [], t_timeout = 0, t_cap = 0,
       t_dup = False, t_free = False, t_ci = False, t_timed = False, t_capped = False,
       t_freed = []\<rparr>"
proof -
  define alloc where "alloc = load + (if load < lws_table_sizes ! (lws_table_sizes_n - 1)
    then load div 7 + 3 else 0)"
  from assms obtain a where a: "lws_table_size alloc = Some a"
    and t: "t = \<lparr>t_alloc = a, t_load = lws_table_load a, t_count = 0,
      t_entries = replicate a zero_entry, t_order = [], t_timeout = 0, t_cap = 0,
      t_dup = False, t_free = False, t_ci = False, t_timed = False, t_capped = False,
      t_freed = []\<rparr>"
    by (auto simp: lws_table_create_def Let_def alloc_def split: if_splits option.splits)
  then show "t = \<lparr>t_alloc = t_alloc t, t_load = lws_table_load (t_alloc t), t_count = 0,
       t_entries = replicate (t_alloc t) zero_entry, t_order = [], t_timeout = 0, t_cap = 0,
       t_dup = False, t_free = False, t_ci = False, t_timed = False, t_capped = False,
       t_freed = []\<rparr>" and "t_count t = 0" by simp_all
  show items: "lws_table_items t = []" by (simp add: t lws_table_items_def)
  have "slots_wf t"
    using lws_table_size_SomeD [OF a] by (simp add: slots_wf_def t slots_empty)
  with items show "table_wf E t" by (simp add: table_wf_def entries_ok_def distinct_on_def t)
  show "load \<le> t_load t" if "load < lws_table_sizes ! (lws_table_sizes_n - 1)"
    using that lws_table_size_SomeD [OF a] lws_table_load_ge [of load a]
    by (simp add: t alloc_def)
qed

text \<open>What \<open>lws_table_remove\<close> frees of an entry.\<close>

definition free_entry :: "'v lws_table \<Rightarrow> 'v lws_table_entry \<Rightarrow> 'v lws_freed list" where
  "free_entry t e = (if t_dup t then [FreeKey (e_key e)] else []) @
     (if t_free t then [FreeValue (e_value e)] else [])"

lemma remove_freed: "t_freed (lws_table_remove t s) = t_freed t @ free_entry t (t_entries t ! s)"
  by (simp add: lws_table_remove_def Let_def free_entry_def)

lemma evict_freed:
  "t_freed (lws_table_evict t) = t_freed t @
     (if t_capped t \<and> t_count t = t_cap t then free_entry t (t_entries t ! hd (t_order t)) else [])"
  by (simp add: lws_table_evict_def remove_freed)

lemma same_config_remove [simp]: "same_config (lws_table_remove t s) t"
  by (simp add: same_config_def)

lemma same_config_touch [simp]: "same_config (lws_table_touch t s) t"
  by (simp add: same_config_def)

lemma same_config_trans: "same_config t1 t2 \<Longrightarrow> same_config t2 t3 \<Longrightarrow> same_config t1 t3"
  by (simp add: same_config_def)

lemma free_entry_cong: "same_config t' t \<Longrightarrow> free_entry t' = free_entry t"
  by (rule ext) (simp add: free_entry_def same_config_def)

text \<open>Draining removes the entries from the tail of the queue to its head.\<close>

lemma drain_spec:
  assumes "table_wf E t"
  shows "table_wf E (lws_table_drain t) \<and> t_order (lws_table_drain t) = [] \<and>
    same_config (lws_table_drain t) t \<and> t_alloc (lws_table_drain t) = t_alloc t \<and>
    t_freed (lws_table_drain t) =
      t_freed t @ concat (map (free_entry t) (rev (lws_table_items t)))"
  using assms
proof (induction t rule: lws_table_drain.induct)
  case (1 t)
  show ?case
  proof (cases "t_order t = []")
    case True
    with 1 show ?thesis by (simp add: lws_table_drain.simps [of t] lws_table_items_def)
  next
    case False
    let ?s = "last (t_order t)"
    let ?t = "lws_table_remove t ?s"
    have s: "?s \<in> set (t_order t)" using False by simp
    have "remove1 ?s (t_order t) = butlast (t_order t)"
      using False slots_okD(2) [OF slots_wfD(2) [OF table_wfD(1) [OF 1(2)]]]
      by (metis append_butlast_last_id distinct_butlast not_distinct_conv_prefix remove1_append
          remove1.simps(2) append_Nil2 butlast_snoc remove1_idem)
    then have items: "lws_table_items t = lws_table_items ?t @ [t_entries t ! ?s]"
      using items_remove(2) [OF 1(2) s] False
      by (metis append_butlast_last_id contents_simps(1-3) lws_table_items_def)
    show ?thesis
      using 1(1) [OF False items_remove(3) [OF 1(2) s]] False items remove_freed [of t ?s]
        same_config_trans [OF _ same_config_remove [of t ?s]]
      by (simp add: lws_table_drain.simps [of t] free_entry_cong [OF same_config_remove [of t ?s]])
  qed
qed

end
