(* ===== verification/LwsTableSpec.thy ===== *)
theory LwsTableSpec
  imports LwsTableOps
begin

text \<open>
  What the hash table promises, without slots, probes, tombstones or sizes: a list of items in queue
  order, with the configuration of the table and the log of what it freed. \<open>lws_table_abs\<close> reads
  this from a table, and each operation of src/lws_table.c implements its operation here.
\<close>

section \<open>The specification\<close>

type_synonym 'v item = "ngx_str \<times> 'v \<times> int"

record 'v lru =
  lru_items :: "'v item list"
  lru_timeout :: "int option"
  lru_cap :: "nat option"
  lru_dup :: bool
  lru_free :: bool
  lru_freed :: "'v lws_freed list"

text \<open>\<open>c\<close> is the class function of the keys: keys of one class are one key.\<close>

definition lru_lookup :: "(ngx_str \<Rightarrow> 'c) \<Rightarrow> ngx_str \<Rightarrow> 'v item list \<Rightarrow> 'v item option" where
  "lru_lookup c key xs = find (\<lambda>(k, _). c k = c key) xs"

definition lru_delete :: "(ngx_str \<Rightarrow> 'c) \<Rightarrow> ngx_str \<Rightarrow> 'v item list \<Rightarrow> 'v item list" where
  "lru_delete c key xs = filter (\<lambda>(k, _). c k \<noteq> c key) xs"

definition lru_replace :: "(ngx_str \<Rightarrow> 'c) \<Rightarrow> 'v item \<Rightarrow> 'v item list \<Rightarrow> 'v item list" where
  "lru_replace c x xs = List.map (\<lambda>y. if c (fst y) = c (fst x) then x else y) xs"

definition lru_expired :: "'v lru \<Rightarrow> int \<Rightarrow> int \<Rightarrow> bool" where
  "lru_expired l now tm = (case lru_timeout l of None \<Rightarrow> False | Some d \<Rightarrow> tm + d \<le> now)"

definition lru_stamp :: "'v lru \<Rightarrow> int \<Rightarrow> int" where
  "lru_stamp l now = (case lru_timeout l of None \<Rightarrow> 0 | Some _ \<Rightarrow> now)"

definition lru_release :: "'v lru \<Rightarrow> 'v item \<Rightarrow> 'v lws_freed list" where
  "lru_release l x = (if lru_dup l then [FreeKey (fst x)] else []) @
     (if lru_free l then [FreeValue (Some (fst (snd x)))] else [])"

text \<open>A live lookup counts as a use if the table is capped.\<close>

definition lru_get :: "(ngx_str \<Rightarrow> 'c) \<Rightarrow> int \<Rightarrow> ngx_str \<Rightarrow> 'v lru \<Rightarrow> 'v option \<times> 'v lru" where
  "lru_get c now key l =
     (case lru_lookup c key (lru_items l) of
        None \<Rightarrow> (None, l)
      | Some (k, v, tm) \<Rightarrow>
          if lru_expired l now tm then (None, l)
          else (Some v, case lru_cap l of
                  None \<Rightarrow> l
                | Some _ \<Rightarrow> l\<lparr>lru_items := lru_delete c key (lru_items l) @ [(k, v, tm)]\<rparr>))"

definition lru_full :: "'v lru \<Rightarrow> bool" where
  "lru_full l \<longleftrightarrow> lru_cap l = Some (length (lru_items l))"

definition lru_evict :: "'v lru \<Rightarrow> 'v lru" where
  "lru_evict l =
     (if lru_full l then l\<lparr>lru_items := tl (lru_items l),
        lru_freed := lru_freed l @ lru_release l (hd (lru_items l))\<rparr> else l)"

definition lru_update :: "(ngx_str \<Rightarrow> 'c) \<Rightarrow> int \<Rightarrow> 'v item \<Rightarrow> 'v \<Rightarrow> 'v lru \<Rightarrow> 'v lru" where
  "lru_update c now x v l =
     (let x' = (fst x, v, lru_stamp l now) in
      l\<lparr>lru_items := (case lru_cap l of
           None \<Rightarrow> lru_replace c x' (lru_items l)
         | Some _ \<Rightarrow> lru_delete c (fst x) (lru_items l) @ [x']),
        lru_freed := lru_freed l @
          (if lru_free l \<and> v \<noteq> fst (snd x) then [FreeValue (Some (fst (snd x)))] else [])\<rparr>)"

text \<open>Setting a value: an existing key keeps its stored spelling; a new key first evicts the item
  used least recently if the table is full, and may then fail (\<open>ok\<close> is false) for lack of memory.\<close>

definition lru_put ::
  "(ngx_str \<Rightarrow> 'c) \<Rightarrow> int \<Rightarrow> bool \<Rightarrow> ngx_str \<Rightarrow> 'v \<Rightarrow> 'v lru \<Rightarrow> int \<times> 'v lru" where
  "lru_put c now ok key v l =
     (case lru_lookup c key (lru_items l) of
        Some x \<Rightarrow> (0, lru_update c now x v l)
      | None \<Rightarrow>
          let l' = lru_evict l in
          if ok then (0, l'\<lparr>lru_items := lru_items l' @ [(key, v, lru_stamp l now)]\<rparr>)
          else (-1, l'))"

definition lru_remove :: "(ngx_str \<Rightarrow> 'c) \<Rightarrow> ngx_str \<Rightarrow> 'v lru \<Rightarrow> 'v lru" where
  "lru_remove c key l =
     (case lru_lookup c key (lru_items l) of
        None \<Rightarrow> l
      | Some x \<Rightarrow> l\<lparr>lru_items := lru_delete c key (lru_items l),
                    lru_freed := lru_freed l @ lru_release l x\<rparr>)"

definition lru_set ::
  "(ngx_str \<Rightarrow> 'c) \<Rightarrow> int \<Rightarrow> bool \<Rightarrow> ngx_str \<Rightarrow> 'v option \<Rightarrow> 'v lru \<Rightarrow> int \<times> 'v lru" where
  "lru_set c now ok key value l =
     (case value of Some v \<Rightarrow> lru_put c now ok key v l | None \<Rightarrow> (0, lru_remove c key l))"

definition lru_next ::
  "(ngx_str \<Rightarrow> 'c) \<Rightarrow> ngx_str option \<Rightarrow> 'v lru \<Rightarrow> (ngx_str \<times> 'v) option" where
  "lru_next c key l =
     (case (case key of
              None \<Rightarrow> lru_items l
            | Some k \<Rightarrow> tl (dropWhile (\<lambda>x. c (fst x) \<noteq> c k) (lru_items l))) of
        [] \<Rightarrow> None
      | x # _ \<Rightarrow> Some (fst x, fst (snd x)))"

definition lru_clear :: "'v lru \<Rightarrow> 'v lru" where
  "lru_clear l = l\<lparr>lru_items := [],
     lru_freed := lru_freed l @ concat (map (lru_release l) (rev (lru_items l)))\<rparr>"

section \<open>Abstraction\<close>

definition entry_abs :: "'v lws_table \<Rightarrow> 'v lws_table_entry \<Rightarrow> 'v item" where
  "entry_abs t e = (e_key e, the (e_value e), if t_timed t then e_time e else 0)"

definition lws_table_abs :: "'v lws_table \<Rightarrow> 'v lru" where
  "lws_table_abs t = \<lparr>
     lru_items = map (entry_abs t) (lws_table_items t),
     lru_timeout = if t_timed t then Some (t_timeout t) else None,
     lru_cap = if t_capped t then Some (t_cap t) else None,
     lru_dup = t_dup t, lru_free = t_free t, lru_freed = t_freed t\<rparr>"

lemma entry_abs_sel [simp]:
  "fst (entry_abs t e) = e_key e" "fst (snd (entry_abs t e)) = the (e_value e)"
  "snd (snd (entry_abs t e)) = (if t_timed t then e_time e else 0)"
  by (simp_all add: entry_abs_def)

lemma entry_abs_cong: "same_config t' t \<Longrightarrow> entry_abs t' = entry_abs t"
  by (rule ext) (simp add: entry_abs_def same_config_def)

lemma lru_lookup_map:
  "lru_lookup c key (map (entry_abs t) xs) = map_option (entry_abs t) (find (\<lambda>e. c (e_key e) = c key) xs)"
  by (induction xs) (simp_all add: lru_lookup_def split_beta)

lemma lru_delete_map:
  "lru_delete c key (map (entry_abs t) xs) = map (entry_abs t) (filter (\<lambda>e. c (e_key e) \<noteq> c key) xs)"
  by (simp add: lru_delete_def filter_map split_beta comp_def)

lemma lru_replace_map:
  "lru_replace c (entry_abs t e) (map (entry_abs t) xs) =
    map (entry_abs t) (List.map (\<lambda>x. if c (e_key x) = c (e_key e) then e else x) xs)"
  by (simp add: lru_replace_def)

lemma lru_release_abs:
  "e_value e \<noteq> None \<Longrightarrow> lru_release (lws_table_abs t) (entry_abs t e) = free_entry t e"
  by (auto simp: lru_release_def lws_table_abs_def free_entry_def)

lemma lws_table_abs_sel [simp]:
  "lru_items (lws_table_abs t) = map (entry_abs t) (lws_table_items t)"
  "lru_timeout (lws_table_abs t) = (if t_timed t then Some (t_timeout t) else None)"
  "lru_cap (lws_table_abs t) = (if t_capped t then Some (t_cap t) else None)"
  "lru_dup (lws_table_abs t) = t_dup t" "lru_free (lws_table_abs t) = t_free t"
  "lru_freed (lws_table_abs t) = t_freed t"
  by (simp_all add: lws_table_abs_def)

lemma lru_expired_abs:
  "lru_expired (lws_table_abs t) now (snd (snd (entry_abs t e))) \<longleftrightarrow>
    t_timed t \<and> e_time e + t_timeout t \<le> now"
  by (simp add: lru_expired_def)

text \<open>Equality of abstractions under a common configuration.\<close>

lemma lws_table_abs_eqI:
  assumes "same_config t' t" "map (entry_abs t) (lws_table_items t') = xs" "t_freed t' = fs"
  shows "lws_table_abs t' = (lws_table_abs t)\<lparr>lru_items := xs, lru_freed := fs\<rparr>"
  using assms entry_abs_cong [OF assms(1)] by (simp add: lws_table_abs_def same_config_def)

section \<open>Refinement\<close>

lemma get_refines:
  assumes wf: "table_wf E t" and E: "strncasecmp_ok E"
  shows "\<exists>v t'. lws_table_get E t key = Some (v, t') \<and> table_wf E t' \<and> same_config t' t \<and>
    lru_get (key_class E t) (env_time E) key (lws_table_abs t) = (v, lws_table_abs t')"
proof (cases rule: table_find [OF wf E, of key])
  case (1 s)
  let ?e = "t_entries t ! s"
  have look: "lru_lookup (key_class E t) key (lru_items (lws_table_abs t)) = Some (entry_abs t ?e)"
    using 1 by (simp add: lru_lookup_map)
  have v: "e_value ?e = Some (the (e_value ?e))"
    using table_wfD(5) [OF wf order_items [OF 1(2)]] by simp
  show ?thesis
  proof (cases "t_timed t \<and> e_time ?e + t_timeout t \<le> env_time E")
    case True
    with look 1 wf show ?thesis
      by (intro exI [of _ None] exI [of _ t])
         (simp add: lws_table_get_def lru_get_def entry_abs_def lru_expired_def Let_def)
  next
    case False
    note touch = items_touch [OF wf 1(2)]
    have "lws_table_abs (lws_table_touch t s) =
      (if t_capped t then (lws_table_abs t)\<lparr>lru_items :=
         lru_delete (key_class E t) key (lru_items (lws_table_abs t)) @ [entry_abs t ?e]\<rparr>
       else lws_table_abs t)"
      using lws_table_abs_eqI [OF same_config_touch refl, of t s] touch(1) 1(3)
      by (auto simp: lru_delete_map lws_table_touch_def)
    with False look 1 v touch(2) show ?thesis
      by (intro exI [of _ "e_value ?e"] exI [of _ "lws_table_touch t s"])
         (auto simp: lws_table_get_def lru_get_def entry_abs_def lru_expired_def Let_def)
  qed
next
  case 2
  with wf show ?thesis
    by (intro exI [of _ None] exI [of _ t])
       (simp add: lws_table_get_def lru_get_def lru_lookup_map)
qed

lemma table_wf_freed: "table_wf E (t\<lparr>t_freed := fs\<rparr>) = table_wf E t"
  using entries_ok_cong [of "t\<lparr>t_freed := fs\<rparr>" t]
  by (simp add: table_wf_def slots_wf_def lws_table_items_def)

lemma replace_filtered:
  "map (\<lambda>x. if f x = a then e else x) (filter (\<lambda>x. f x \<noteq> a) xs) = filter (\<lambda>x. f x \<noteq> a) xs"
  by (induction xs) auto

lemma set_existing_refines:
  fixes v :: 'v
  assumes wf: "table_wf E t" and s: "s \<in> set (t_order t)"
  defines "t' \<equiv> lws_table_set_existing E t s (Some v)"
  shows "table_wf E t' \<and> same_config t' t \<and>
    lws_table_abs t' =
      lru_update (key_class E t) (env_time E) (entry_abs t (t_entries t ! s)) v (lws_table_abs t)"
proof -
  let ?e = "t_entries t ! s"
  note touch = items_touch [OF wf s]
  let ?t1 = "lws_table_touch t s"
  define fs where "fs = t_freed t @
    (if t_free t \<and> Some v \<noteq> e_value ?e then [FreeValue (e_value ?e)] else [])"
  define e where "e = stamped E t (?e\<lparr>e_value := Some v\<rparr>)"
  have e: "e_key e = e_key ?e" "e_hash e = e_hash ?e" "e_state e = LWS_TES_SET" "e_value e \<noteq> None"
    and abs_e: "entry_abs t e = (e_key ?e, v, lru_stamp (lws_table_abs t) (env_time E))"
    using order_set [OF table_wfD(1) [OF wf] s]
    by (simp_all add: e_def stamped_def entry_abs_def lru_stamp_def)
  have len: "s < length (t_entries t)"
    using order_set [OF table_wfD(1) [OF wf] s] slots_wfD(8) [OF table_wfD(1) [OF wf]] by simp
  have s1: "s \<in> set (t_order ?t1)"
    using s by (auto simp: lws_table_touch_def)
  let ?t2 = "?t1\<lparr>t_entries := (t_entries ?t1)[s := e]\<rparr>"
  note over = items_overwrite [OF touch(2) s1, of e, simplified, OF e(1,2,3)]
  have t': "t' = ?t2\<lparr>t_freed := fs\<rparr>"
    using len by (auto simp: t'_def lws_table_set_existing_def Let_def lws_table_stamp_def e_def
        stamped_def fs_def)
  have same: "same_config t' t" by (simp add: t' same_config_def)
  have items2: "lws_table_items t' = lws_table_items ?t2" by (simp add: t' lws_table_items_def)
  have ci: "key_class E ?t1 = key_class E t" by (rule key_class_cong) simp
  have items: "lws_table_items t' = (if t_capped t
      then filter (\<lambda>x. entry_class E t x \<noteq> entry_class E t ?e) (lws_table_items t) @ [e]
      else List.map (\<lambda>x. if entry_class E t x = entry_class E t e then e else x) (lws_table_items t))"
    unfolding items2 using over(1) e(1,4) touch(1) ci by (auto simp: replace_filtered)
  have "table_wf E t'"
    using over(2) e(4) unfolding t' by (simp add: table_wf_freed)
  moreover have "lws_table_abs t' =
      lru_update (key_class E t) (env_time E) (entry_abs t ?e) v (lws_table_abs t)"
  proof -
    have v: "Some v \<noteq> e_value ?e \<longleftrightarrow> v \<noteq> the (e_value ?e)" "e_value ?e = Some (the (e_value ?e))"
      using table_wfD(5) [OF wf order_items [OF s]] by auto
    have repl: "map (entry_abs t)
        (List.map (\<lambda>x. if entry_class E t x = entry_class E t e then e else x) (lws_table_items t)) =
      lru_replace (key_class E t) (e_key ?e, v, lru_stamp (lws_table_abs t) (env_time E))
        (map (entry_abs t) (lws_table_items t))"
      unfolding abs_e [symmetric] lru_replace_map ..
    have "map (entry_abs t) (lws_table_items t') = (case lru_cap (lws_table_abs t) of
        None \<Rightarrow> lru_replace (key_class E t) (e_key ?e, v, lru_stamp (lws_table_abs t) (env_time E))
          (lru_items (lws_table_abs t))
      | Some _ \<Rightarrow> lru_delete (key_class E t) (e_key ?e) (lru_items (lws_table_abs t)) @
          [(e_key ?e, v, lru_stamp (lws_table_abs t) (env_time E))])"
      unfolding items using repl abs_e by (simp add: lru_delete_map)
    from lws_table_abs_eqI [OF same this, of fs] v show ?thesis
      by (simp add: t' fs_def lru_update_def Let_def)
  qed
  ultimately show ?thesis using same by simp
qed

lemma hd_items: "t_order t \<noteq> [] \<Longrightarrow> t_entries t ! hd (t_order t) = hd (lws_table_items t)"
  by (cases "t_order t") (simp_all add: lws_table_items_def)

lemma evict_refines:
  assumes wf: "table_wf E t"
  shows "lws_table_abs (lws_table_evict t) = lru_evict (lws_table_abs t)"
proof -
  note ev = items_evict [OF wf]
  have same: "same_config (lws_table_evict t) t" by (simp add: same_config_def)
  have full: "lru_full (lws_table_abs t) \<longleftrightarrow> t_capped t \<and> t_count t = t_cap t"
    using length_items [OF table_wfD(1) [OF wf]] by (auto simp: lru_full_def)
  show ?thesis
  proof (cases "t_capped t \<and> t_count t = t_cap t")
    case True
    then have ne: "t_order t \<noteq> []"
      using table_wfD(6) [OF wf] slots_wfD(4) [OF table_wfD(1) [OF wf]] by auto
    then have ne': "lws_table_items t \<noteq> []" by (simp add: lws_table_items_def contents_def)
    have "lru_release (lws_table_abs t) (hd (lru_items (lws_table_abs t))) =
      free_entry t (t_entries t ! hd (t_order t))"
      using lru_release_abs table_wfD(5) [OF wf hd_in_set [OF ne']] ne' hd_items [OF ne]
      by (simp add: hd_map)
    with True full ev(1) lws_table_abs_eqI [OF same refl refl] show ?thesis
      by (simp add: lru_evict_def evict_freed map_tl)
  next
    case False
    then show ?thesis
      unfolding lws_table_evict_def lru_evict_def full by (simp only: if_False refl)
  qed
qed

text \<open>Whether \<open>lws_table_set\<close> finds the memory for a new key.\<close>

definition lws_table_set_ok :: "lws_env \<Rightarrow> 'v lws_table \<Rightarrow> ngx_str \<Rightarrow> bool" where
  "lws_table_set_ok E t key \<longleftrightarrow> lws_table_grow_ok E (lws_table_evict t) \<and> lws_table_copy_ok E t key"

lemma set_new_refines:
  fixes v :: 'v
  assumes wf: "table_wf E t"
    and fresh: "\<And>e. e \<in> set (lws_table_items t) \<Longrightarrow> entry_class E t e \<noteq> key_class E t key"
  shows "\<exists>rc t'. lws_table_set_new E t key (lws_table_hash E t key) (Some v) = Some (rc, t') \<and>
    table_wf E t' \<and> same_config t' t \<and>
    (rc, lws_table_abs t') =
      (let l' = lru_evict (lws_table_abs t) in
       if lws_table_set_ok E t key
       then (0, l'\<lparr>lru_items := lru_items l' @ [(key, v, lru_stamp (lws_table_abs t) (env_time E))]\<rparr>)
       else (-1, l'))"
proof -
  note ev = evict_refines [OF wf, symmetric]
  have same: "same_config (lws_table_evict t) t" by (simp add: same_config_def)
  have abs: "lws_table_abs t' = (lws_table_abs (lws_table_evict t))
      \<lparr>lru_items := map (entry_abs t) xs\<rparr>"
    if "same_config t' t" "lws_table_items t' = xs" "t_freed t' = t_freed (lws_table_evict t)" for t' xs
    using that lws_table_abs_eqI [OF that(1) refl that(3)] lws_table_abs_eqI [OF same refl refl]
    by simp
  show ?thesis
  proof (cases rule: set_new_spec [OF wf _ fresh, of "Some v"])
    case 1
    then show ?case by simp
  next
    case 2
    then show ?case by simp
  next
    case (3 t')
    from abs [OF 3(5,3,6)] have "lws_table_abs t' = lws_table_abs (lws_table_evict t)"
      using lws_table_abs_eqI [OF same refl refl] by simp
    with 3 ev show ?thesis
      by (intro exI [of _ "-1"] exI [of _ t']) (simp add: lws_table_set_ok_def Let_def)
  next
    case (4 t' e)
    have "entry_abs t e = (key, v, lru_stamp (lws_table_abs t) (env_time E))"
      using 4(8-10) by (simp add: entry_abs_def lru_stamp_def)
    with abs [OF 4(6,4,7)] 4 ev lws_table_abs_eqI [OF same refl refl] show ?thesis
      by (intro exI [of _ 0] exI [of _ t']) (simp add: lws_table_set_ok_def Let_def)
  qed
qed

lemma remove_refines:
  assumes wf: "table_wf E t" and s: "s \<in> set (t_order t)"
    and key: "entry_class E t (t_entries t ! s) = key_class E t key"
  shows "lws_table_abs (lws_table_remove t s) = lru_remove (key_class E t) key (lws_table_abs t)"
proof -
  let ?e = "t_entries t ! s"
  have "lru_lookup (key_class E t) key (lru_items (lws_table_abs t)) = Some (entry_abs t ?e)"
    using find_unique [OF table_wfD(3) [OF wf] order_items [OF s]] key by (simp add: lru_lookup_map)
  moreover have "lru_release (lws_table_abs t) (entry_abs t ?e) = free_entry t ?e"
    by (rule lru_release_abs [OF table_wfD(5) [OF wf order_items [OF s]]])
  ultimately show ?thesis
    using lws_table_abs_eqI [OF same_config_remove refl remove_freed, of t s]
      items_remove(1) [OF wf s] key
    by (simp add: lru_remove_def lru_delete_map)
qed

lemma set_refines:
  assumes wf: "table_wf E t" and E: "strncasecmp_ok E"
  shows "\<exists>rc t'. lws_table_set E t key val = Some (rc, t') \<and> table_wf E t' \<and> same_config t' t \<and>
    lru_set (key_class E t) (env_time E) (lws_table_set_ok E t key) key val (lws_table_abs t) =
      (rc, lws_table_abs t')"
proof (cases rule: table_find [OF wf E, of key])
  case (1 s)
  have look: "lru_lookup (key_class E t) key (lru_items (lws_table_abs t)) =
    Some (entry_abs t (t_entries t ! s))" using 1 by (simp add: lru_lookup_map)
  show ?thesis
  proof (cases val)
    case None
    with 1 remove_refines [OF wf 1(2,3)] items_remove(3) [OF wf 1(2)] show ?thesis
      by (simp add: lws_table_set_def lru_set_def Let_def)
  next
    case (Some v)
    with 1 look set_existing_refines [OF wf 1(2), of v] show ?thesis
      by (simp add: lws_table_set_def lru_set_def lru_put_def Let_def)
  qed
next
  case 2
  have look: "lru_lookup (key_class E t) key (lru_items (lws_table_abs t)) = None"
    using 2 by (simp add: lru_lookup_map)
  show ?thesis
  proof (cases val)
    case None
    with 2 wf look show ?thesis
      by (simp add: lws_table_set_def lru_set_def lru_remove_def Let_def)
  next
    case (Some v)
    from set_new_refines [OF wf 2(3), of v] obtain rc t' where
      "lws_table_set_new E t key (lws_table_hash E t key) (Some v) = Some (rc, t')"
      "table_wf E t'" "same_config t' t"
      "(rc, lws_table_abs t') =
        (let l' = lru_evict (lws_table_abs t) in
         if lws_table_set_ok E t key
         then (0, l'\<lparr>lru_items := lru_items l' @ [(key, v, lru_stamp (lws_table_abs t) (env_time E))]\<rparr>)
         else (-1, l'))" by blast
    with Some 2(1) look show ?thesis
      by (intro exI [of _ rc] exI [of _ t'])
         (simp add: lws_table_set_def lru_set_def lru_put_def Let_def)
  qed
qed

lemma dropWhile_map_fst:
  "dropWhile (\<lambda>x. c (fst x) \<noteq> a) (map (entry_abs t) xs) =
    map (entry_abs t) (dropWhile (\<lambda>e. c (e_key e) \<noteq> a) xs)"
  by (induction xs) simp_all

lemma set_tl_subset: "set (tl xs) \<subseteq> set xs"
  by (cases xs) auto

lemma dropWhile_no_match: "(\<And>x. x \<in> set xs \<Longrightarrow> P x) \<Longrightarrow> dropWhile P xs = []"
  by (simp add: dropWhile_eq_Nil_conv)

lemma next_refines:
  assumes wf: "table_wf E t" and E: "strncasecmp_ok E"
  shows "lws_table_next E t key =
    Some (map_option (\<lambda>(k, v). (k, Some v)) (lru_next (key_class E t) key (lws_table_abs t)))"
proof -
  have first: "(case q of [] \<Rightarrow> None | s # _ \<Rightarrow>
        Some (e_key (t_entries t ! s), e_value (t_entries t ! s))) =
      map_option (\<lambda>(k, v). (k, Some v)) (case map (entry_abs t) (contents (t_entries t) q) of
        [] \<Rightarrow> None | x # _ \<Rightarrow> Some (fst x, fst (snd x)))"
    if "set q \<subseteq> set (t_order t)" for q
    using that table_wfD(5) [OF wf order_items] by (cases q) auto
  show ?thesis
  proof (cases key)
    case None
    with first [of "t_order t"] show ?thesis
      by (simp add: lws_table_next_def lru_next_def lws_table_items_def)
  next
    case (Some k)
    show ?thesis
    proof (cases rule: table_find [OF wf E, of k])
      case (1 s)
      let ?q = "dropWhile (\<lambda>x. x \<noteq> s) (t_order t)"
      have "contents (t_entries t) (tl ?q) = tl (contents (t_entries t) ?q)"
        by (cases ?q) (simp_all del: dropWhile_eq_Nil_conv)
      then have "map (entry_abs t) (contents (t_entries t) (tl ?q)) =
        tl (dropWhile (\<lambda>x. key_class E t (fst x) \<noteq> key_class E t k)
          (map (entry_abs t) (lws_table_items t)))"
        using dropWhile_contents [OF table_wfD(3) [OF wf, unfolded lws_table_items_def] 1(2)] 1(3)
        by (simp add: dropWhile_map_fst map_tl lws_table_items_def)
      moreover have "set (tl ?q) \<subseteq> set (t_order t)"
        using set_tl_subset [of ?q] by (auto dest: set_dropWhileD)
      ultimately show ?thesis
        using first [of "tl ?q"] 1 Some by (simp add: lws_table_next_def lru_next_def)
    next
      case 2
      then have "dropWhile (\<lambda>x. key_class E t (fst x) \<noteq> key_class E t k)
          (map (entry_abs t) (lws_table_items t)) = []"
        by (intro dropWhile_no_match) auto
      with 2 Some show ?thesis
        by (simp add: lws_table_next_def lru_next_def del: dropWhile_eq_Nil_conv)
    qed
  qed
qed

lemma release_items:
  assumes wf: "table_wf E t"
  shows "concat (map (lru_release (lws_table_abs t)) (rev (lru_items (lws_table_abs t)))) =
    concat (map (free_entry t) (rev (lws_table_items t)))"
  using table_wfD(5) [OF wf]
  by (intro arg_cong [where f = concat]) (simp add: rev_map [symmetric] lru_release_abs)

lemma no_release: "\<not> (t_dup t \<or> t_free t) \<Longrightarrow> concat (map (free_entry t) xs) = []"
  by (simp add: free_entry_def)

lemma clear_refines:
  assumes wf: "table_wf E t"
  shows "table_wf E (lws_table_clear t)" "same_config (lws_table_clear t) t"
    "lws_table_abs (lws_table_clear t) = lru_clear (lws_table_abs t)"
proof -
  let ?t1 = "if t_dup t \<or> t_free t then lws_table_drain t else t\<lparr>t_order := [], t_count := 0\<rparr>"
  note drain = drain_spec [OF wf]
  have count: "t_count (lws_table_drain t) = 0"
    using drain slots_wfD(4) [OF table_wfD(1)] by fastforce
  have load: "t_load ?t1 = lws_table_load (t_alloc t)"
    using drain slots_wfD(5) [OF table_wfD(1)] wf by fastforce
  have t1: "t_order ?t1 = []" "t_count ?t1 = 0" "same_config ?t1 t" "t_alloc ?t1 = t_alloc t"
    using drain count by (auto simp: same_config_def)
  have clear: "lws_table_clear t = ?t1\<lparr>t_entries := replicate (t_alloc t) zero_entry\<rparr>"
    using t1(4) by (simp add: lws_table_clear_def Let_def)
  show same: "same_config (lws_table_clear t) t"
    using t1(3) unfolding clear by (simp add: same_config_def)
  have items: "lws_table_items (lws_table_clear t) = []"
    using t1(1) by (simp add: clear lws_table_items_def)
  have "slots_wf (lws_table_clear t)"
    using t1 load slots_wfD(9) [OF table_wfD(1) [OF wf]]
    unfolding slots_wf_def clear by (simp add: slots_empty)
  moreover have "t_count (lws_table_clear t) = 0" using t1(2) by (simp add: clear)
  ultimately show "table_wf E (lws_table_clear t)"
    using same items table_wfD(6) [OF wf]
    by (intro table_wf_intro [of _ t]) (simp_all add: same_config_def entries_ok_def distinct_on_def)
  have "t_freed (lws_table_clear t) =
    t_freed t @ concat (map (free_entry t) (rev (lws_table_items t)))"
    using drain no_release [of t] unfolding clear by simp
  with lws_table_abs_eqI [OF same _ this, of "[]"] items release_items [OF wf]
  show "lws_table_abs (lws_table_clear t) = lru_clear (lws_table_abs t)"
    by (simp add: lru_clear_def)
qed

lemma free_refines:
  assumes wf: "table_wf E t"
  shows "lws_table_free t = lru_freed (lru_clear (lws_table_abs t)) @ [FreeEntries, FreeTable]"
  using drain_spec [OF wf] no_release [of t] release_items [OF wf]
  by (simp add: lws_table_free_def lru_clear_def Let_def)

section \<open>Walking\<close>

text \<open>A walk with \<open>lws_table_next\<close>, as the loops over a table in the sources make it.\<close>

fun lws_table_walk ::
  "lws_env \<Rightarrow> 'v lws_table \<Rightarrow> nat \<Rightarrow> ngx_str option \<Rightarrow> (ngx_str \<times> 'v option) list option" where
  "lws_table_walk E t 0 key = Some []"
| "lws_table_walk E t (Suc n) key =
     do {
       r \<leftarrow> lws_table_next E t key;
       (case r of
          None \<Rightarrow> Some []
        | Some (k, v) \<Rightarrow> do { rest \<leftarrow> lws_table_walk E t n (Some k); Some ((k, v) # rest) })
     }"

lemma lru_next_nth:
  assumes "distinct_on (\<lambda>x. c (fst x)) (lru_items l)" "lru_items l = xs @ x # ys"
  shows "lru_next c (Some (fst x)) l = (case ys of [] \<Rightarrow> None | y # _ \<Rightarrow> Some (fst y, fst (snd y)))"
proof -
  have "c (fst y) \<noteq> c (fst x)" if "y \<in> set xs" for y
    using assms that by (auto simp: distinct_on_def image_iff)
  then have "dropWhile (\<lambda>y. c (fst y) \<noteq> c (fst x)) (xs @ x # ys) = x # ys" by (subst dropWhile_append3) auto
  then show ?thesis using assms(2) by (simp add: lru_next_def)
qed

lemma distinct_on_abs:
  "table_wf E t \<Longrightarrow> distinct_on (\<lambda>x. key_class E t (fst x)) (lru_items (lws_table_abs t))"
  using table_wfD(3) [of E t] by (simp add: distinct_on_def comp_def)

lemma walk_from:
  assumes wf: "table_wf E t" and E: "strncasecmp_ok E"
  shows "lru_items (lws_table_abs t) = xs @ x # ys \<Longrightarrow> length ys \<le> n \<Longrightarrow>
    lws_table_walk E t n (Some (fst x)) = Some (map (\<lambda>y. (fst y, Some (fst (snd y)))) ys)"
proof (induction ys arbitrary: xs x n)
  case Nil
  with lru_next_nth [OF distinct_on_abs [OF wf] Nil(1)] next_refines [OF wf E] show ?case
    by (cases n) simp_all
next
  case (Cons y ys)
  then obtain m where n: "n = Suc m" "length ys \<le> m" by (cases n) auto
  have "lru_items (lws_table_abs t) = (xs @ [x]) @ y # ys" using Cons.prems(1) by simp
  from Cons.IH [OF this n(2)] lru_next_nth [OF distinct_on_abs [OF wf] Cons.prems(1)]
    next_refines [OF wf E] show ?case by (simp add: n(1))
qed

lemma walk_all:
  assumes wf: "table_wf E t" and E: "strncasecmp_ok E" and n: "t_count t \<le> n"
  shows "lws_table_walk E t n None =
    Some (map (\<lambda>y. (fst y, Some (fst (snd y)))) (lru_items (lws_table_abs t)))"
proof (cases "lru_items (lws_table_abs t)")
  case Nil
  with next_refines [OF wf E] show ?thesis by (cases n) (simp_all add: lru_next_def)
next
  case (Cons y ys)
  have "length (lru_items (lws_table_abs t)) \<le> n"
    using n length_items [OF table_wfD(1) [OF wf]] by simp
  with Cons obtain m where m: "n = Suc m" "length ys \<le> m" by (cases n) auto
  from walk_from [OF wf E, of "[]" y ys m] Cons m(2) next_refines [OF wf E, of None]
  show ?thesis by (simp add: m(1) lru_next_def)
qed

end
