(* ===== verification/LwsTableStore.thy ===== *)
theory LwsTableStore
  imports LwsTableSpec
begin

text \<open>
  The hash table as its clients see it. The locale \<open>lru_store\<close> is the contract between the table and
  its clients in src/lws_module.c, src/lws_lib.c and src/lws_monitor.c: lookup and store behave as
  the specification of LwsTableSpec. The laws that a client relies on are proved once in the locale,
  and the locale is interpreted on the operations of src/lws_table.c. Reachability of tables and the
  theorems about the table follow.
\<close>

section \<open>The contract\<close>

definition lru_value :: "(ngx_str \<Rightarrow> 'c) \<Rightarrow> int \<Rightarrow> ngx_str \<Rightarrow> 'v lru \<Rightarrow> 'v option" where
  "lru_value c now key l = fst (lru_get c now key l)"

definition lru_lasting :: "'v lru \<Rightarrow> bool" where
  "lru_lasting l \<longleftrightarrow> (case lru_timeout l of None \<Rightarrow> True | Some d \<Rightarrow> 0 < d)"

lemma lru_value_eq:
  "lru_value c now key l =
    (case lru_lookup c key (lru_items l) of None \<Rightarrow> None
     | Some x \<Rightarrow> if lru_expired l now (snd (snd x)) then None else Some (fst (snd x)))"
  by (auto simp: lru_value_def lru_get_def split: option.splits)

lemma lru_lookup_Nil [simp]: "lru_lookup c key [] = None"
  by (simp add: lru_lookup_def)

lemma lru_lookup_append:
  "lru_lookup c key (xs @ ys) =
    (case lru_lookup c key xs of None \<Rightarrow> lru_lookup c key ys | Some x \<Rightarrow> Some x)"
  by (induction xs) (auto simp: lru_lookup_def)

lemma lru_lookup_single [simp]:
  "lru_lookup c key [x] = (if c (fst x) = c key then Some x else None)"
  by (simp add: lru_lookup_def split_beta)

lemma lru_lookup_delete:
  "lru_lookup c key (lru_delete c key' xs) =
    (if c key = c key' then None else lru_lookup c key xs)"
  by (induction xs) (auto simp: lru_lookup_def lru_delete_def)

lemma lru_lookup_replace:
  "lru_lookup c key (lru_replace c x xs) =
    (if c key = c (fst x) then map_option (\<lambda>_. x) (lru_lookup c key xs) else lru_lookup c key xs)"
  by (induction xs) (auto simp: lru_lookup_def lru_replace_def split_beta)

lemma lru_lookup_class: "lru_lookup c key xs = Some x \<Longrightarrow> c (fst x) = c key"
  by (induction xs) (auto simp: lru_lookup_def split: if_splits)

lemma lru_lookup_mem: "lru_lookup c key xs = Some x \<Longrightarrow> x \<in> set xs"
  by (induction xs) (auto simp: lru_lookup_def split: if_splits)

lemma lru_lookup_None: "lru_lookup c key xs = None \<longleftrightarrow> (\<forall>x\<in>set xs. c (fst x) \<noteq> c key)"
  by (induction xs) (auto simp: lru_lookup_def)

lemma lru_evict_sel [simp]:
  "lru_timeout (lru_evict l) = lru_timeout l" "lru_cap (lru_evict l) = lru_cap l"
  "lru_dup (lru_evict l) = lru_dup l" "lru_free (lru_evict l) = lru_free l"
  by (simp_all add: lru_evict_def)

lemma lru_expired_stamp: "lru_lasting l \<Longrightarrow> \<not> lru_expired l now (lru_stamp l now)"
  by (auto simp: lru_lasting_def lru_expired_def lru_stamp_def split: option.splits)

lemma lru_update_sel [simp]:
  "lru_timeout (lru_update c now x v l) = lru_timeout l" "lru_cap (lru_update c now x v l) = lru_cap l"
  by (simp_all add: lru_update_def Let_def)

lemma lru_expired_cong: "lru_timeout l' = lru_timeout l \<Longrightarrow> lru_expired l' = lru_expired l"
  by (intro ext) (simp add: lru_expired_def)

lemma lru_lookup_update:
  assumes "lru_lookup c key (lru_items l) = Some x"
  shows "lru_lookup c key' (lru_items (lru_update c now x v l)) =
    (if c key' = c key then Some (fst x, v, lru_stamp l now) else lru_lookup c key' (lru_items l))"
proof -
  have x: "c (fst x) = c key" using assms by (rule lru_lookup_class)
  have "lru_lookup c key' xs = lru_lookup c key xs" if "c key' = c key" for xs :: "'a item list"
    using that by (simp add: lru_lookup_def)
  with assms x show ?thesis
    by (auto simp: lru_update_def Let_def lru_lookup_replace lru_lookup_append lru_lookup_delete
        split: option.splits)
qed

text \<open>What a successful store makes of the lookups.\<close>

lemma lru_value_put:
  assumes "lru_lasting l" "lru_put c now ok key v l = (0, l')"
  shows "lru_value c now key l' = Some v"
proof (cases "lru_lookup c key (lru_items l)")
  case (Some x)
  with assms(2) have l': "l' = lru_update c now x v l" by (simp add: lru_put_def)
  have "lru_lookup c key (lru_items l') = Some (fst x, v, lru_stamp l now)"
    unfolding l' using lru_lookup_update [OF Some] by simp
  with lru_expired_stamp [OF assms(1)] lru_expired_cong [of l' l] show ?thesis
    by (simp add: lru_value_eq l')
next
  case None
  with assms(2) have l': "l' = (lru_evict l)\<lparr>lru_items :=
    lru_items (lru_evict l) @ [(key, v, lru_stamp l now)]\<rparr>"
    by (auto simp: lru_put_def Let_def split: if_splits)
  have "set (lru_items (lru_evict l)) \<subseteq> set (lru_items l)"
    by (simp add: lru_evict_def set_tl_subset)
  with None have "lru_lookup c key (lru_items (lru_evict l)) = None"
    by (auto simp: lru_lookup_None)
  with lru_expired_stamp [OF assms(1)] lru_expired_cong [of l' l] show ?thesis
    by (simp add: lru_value_eq l' lru_lookup_append)
qed

lemma lru_value_put_other:
  assumes "lru_put c now ok key v l = (rc, l')" "c key' \<noteq> c key" "\<not> lru_full l"
  shows "lru_value c now key' l' = lru_value c now key' l"
proof (cases "lru_lookup c key (lru_items l)")
  case (Some x)
  with assms lru_lookup_update [OF Some] lru_expired_cong [of l' l] show ?thesis
    by (auto simp: lru_value_eq lru_put_def split: option.splits)
next
  case None
  with assms lru_expired_cong [of l' l] show ?thesis
    by (auto simp: lru_value_eq lru_put_def lru_evict_def Let_def lru_lookup_append
        split: if_splits option.splits)
qed

lemma lru_value_remove:
  "lru_value c now key' (lru_remove c key l) =
    (if c key' = c key then None else lru_value c now key' l)"
proof (cases "lru_lookup c key (lru_items l)")
  case None
  then have "lru_lookup c key' (lru_items l) = None" if "c key' = c key"
    using that by (simp add: lru_lookup_None)
  with None show ?thesis by (simp add: lru_remove_def lru_value_eq)
next
  case (Some x)
  then show ?thesis
    using lru_expired_cong [of "lru_remove c key l" l]
    by (auto simp: lru_remove_def lru_value_eq lru_lookup_delete split: option.splits)
qed

lemma lru_get_keeps:
  assumes "lru_get c now key l = (v, l')"
  shows "lru_value c now key' l' = lru_value c now key' l"
proof (cases "lru_lookup c key (lru_items l)")
  case None
  with assms show ?thesis by (simp add: lru_get_def)
next
  case (Some x)
  obtain k w tm where kw: "x = (k, w, tm)" by (cases x)
  have x: "c k = c key" using lru_lookup_class [OF Some] kw by simp
  have same: "lru_lookup c key' (lru_items l) = Some x" if "c key' = c key"
    using that Some by (simp add: lru_lookup_def)
  show ?thesis
  proof (cases "lru_expired l now tm \<or> lru_cap l = None")
    case True
    with assms Some kw have "l' = l" by (auto simp: lru_get_def split: if_splits)
    then show ?thesis by simp
  next
    case False
    with assms Some kw
    have l': "l' = l\<lparr>lru_items := lru_delete c key (lru_items l) @ [x]\<rparr>" by (auto simp: lru_get_def)
    have "lru_lookup c key' (lru_items l') = lru_lookup c key' (lru_items l)"
      using same x kw by (auto simp: l' lru_lookup_append lru_lookup_delete split: option.splits)
    with lru_expired_cong [of l' l] l' show ?thesis
      by (simp add: lru_value_eq split: option.split)
  qed
qed

locale lru_store =
  fixes get :: "ngx_str \<Rightarrow> 's \<Rightarrow> ('v option \<times> 's) option"
    and put :: "ngx_str \<Rightarrow> 'v option \<Rightarrow> 's \<Rightarrow> (int \<times> 's) option"
    and next_key :: "ngx_str option \<Rightarrow> 's \<Rightarrow> (ngx_str \<times> 'v option) option option"
    and view :: "'s \<Rightarrow> 'v lru"
    and cls :: "'s \<Rightarrow> ngx_str \<Rightarrow> 'c"
    and inv :: "'s \<Rightarrow> bool"
    and now :: int
  assumes get_law: "inv s \<Longrightarrow> \<exists>v s'. get key s = Some (v, s') \<and> inv s' \<and> cls s' = cls s \<and>
      lru_get (cls s) now key (view s) = (v, view s')"
    and put_law: "inv s \<Longrightarrow> \<exists>ok rc s'. put key val s = Some (rc, s') \<and> inv s' \<and> cls s' = cls s \<and>
      lru_set (cls s) now ok key val (view s) = (rc, view s')"
    and next_law: "inv s \<Longrightarrow> next_key ko s =
      Some (map_option (\<lambda>(k, v). (k, Some v)) (lru_next (cls s) ko (view s)))"
begin

lemma get_value: "inv s \<Longrightarrow> \<exists>s'. get key s = Some (lru_value (cls s) now key (view s), s') \<and> inv s'"
  using get_law [of s key] by (auto simp: lru_value_def)

text \<open>Read your write.\<close>

lemma get_after_put:
  assumes "inv s" "lru_lasting (view s)" "put key (Some v) s = Some (0, s')"
  shows "\<exists>s''. get key s' = Some (Some v, s'') \<and> inv s''"
proof -
  from put_law [OF assms(1), of key "Some v"] assms(3) obtain ok where
    s': "inv s'" "cls s' = cls s" "lru_put (cls s) now ok key v (view s) = (0, view s')"
    by (auto simp: lru_set_def)
  from get_value [OF s'(1), of key] lru_value_put [OF assms(2) s'(3)] s'(2) show ?thesis by simp
qed

lemma get_after_put_other:
  assumes "inv s" "\<not> lru_full (view s)" "cls s key' \<noteq> cls s key" "put key (Some v) s = Some (rc, s')"
  shows "map_option fst (get key' s') = map_option fst (get key' s)"
proof -
  from put_law [OF assms(1), of key "Some v"] assms(4) obtain ok where
    s': "inv s'" "cls s' = cls s" "lru_put (cls s) now ok key v (view s) = (rc, view s')"
    by (auto simp: lru_set_def)
  from get_value [OF s'(1), of key'] get_value [OF assms(1), of key']
    lru_value_put_other [OF s'(3) assms(3,2)] s'(2) show ?thesis by auto
qed

lemma get_after_remove:
  assumes "inv s" "put key None s = Some (rc, s')"
  shows "rc = 0" "map_option fst (get key' s') =
    (if cls s key' = cls s key then Some None else map_option fst (get key' s))"
proof -
  from put_law [OF assms(1), of key None] assms(2) have
    s': "inv s'" "cls s' = cls s" "rc = 0" "view s' = lru_remove (cls s) key (view s)"
    by (auto simp: lru_set_def)
  then show "rc = 0" by simp
  from get_value [OF s'(1), of key'] get_value [OF assms(1), of key'] s'(2,4)
  show "map_option fst (get key' s') =
    (if cls s key' = cls s key then Some None else map_option fst (get key' s))"
    by (auto simp: lru_value_remove)
qed

text \<open>A lookup changes no later lookup.\<close>

lemma get_after_get:
  assumes "inv s" "get key s = Some (v, s')"
  shows "map_option fst (get key' s') = map_option fst (get key' s)"
proof -
  from get_law [OF assms(1), of key] assms(2) have
    s': "inv s'" "cls s' = cls s" "lru_get (cls s) now key (view s) = (v, view s')" by auto
  from get_value [OF s'(1), of key'] get_value [OF assms(1), of key'] lru_get_keeps [OF s'(3)] s'(2)
  show ?thesis by auto
qed

end

text \<open>The table operations satisfy the contract, in every environment whose string comparison is
  as documented.\<close>

interpretation lws: lru_store
  "\<lambda>key t. lws_table_get E t key" "\<lambda>key val t. lws_table_set E t key val"
  "\<lambda>key t. lws_table_next E t key"
  lws_table_abs "key_class E" "\<lambda>t. table_wf E t \<and> strncasecmp_ok E" "env_time E" for E
proof unfold_locales
  fix t :: "'a lws_table" and key assume "table_wf E t \<and> strncasecmp_ok E"
  with get_refines [of E t key] show "\<exists>v t'. lws_table_get E t key = Some (v, t') \<and>
      (table_wf E t' \<and> strncasecmp_ok E) \<and> key_class E t' = key_class E t \<and>
      lru_get (key_class E t) (env_time E) key (lws_table_abs t) = (v, lws_table_abs t')"
    using key_class_cong same_configD(5) by blast
next
  fix t :: "'a lws_table" and key val assume "table_wf E t \<and> strncasecmp_ok E"
  with set_refines [of E t key val] show "\<exists>ok rc t'. lws_table_set E t key val = Some (rc, t') \<and>
      (table_wf E t' \<and> strncasecmp_ok E) \<and> key_class E t' = key_class E t \<and>
      lru_set (key_class E t) (env_time E) ok key val (lws_table_abs t) = (rc, lws_table_abs t')"
    using key_class_cong same_configD(5) by blast
next
  fix t :: "'a lws_table" and key assume "table_wf E t \<and> strncasecmp_ok E"
  then show "lws_table_next E t key = Some (map_option (\<lambda>(k, v). (k, Some v))
      (lru_next (key_class E t) key (lws_table_abs t)))" by (simp add: next_refines)
qed

end
