(* ===== verification/LwsTableCorrect.thy ===== *)
theory LwsTableCorrect
  imports LwsTableStore
begin

text \<open>
  The theorems about the hash table of src/lws_table.c: every table that the operations can make
  satisfies the invariant, and on such a table each operation returns and implements its
  specification. A small concrete table witnesses the hypotheses.
\<close>

section \<open>Reachable tables\<close>

text \<open>A table lives in one process: the hash seed and the letter case function do not change, while
  the clock and the allocator may answer differently in each call.\<close>

definition same_process :: "lws_env \<Rightarrow> lws_env \<Rightarrow> bool" where
  "same_process E' E \<longleftrightarrow> lws_table_hash_seed E' = lws_table_hash_seed E \<and>
     env_tolower E' = env_tolower E \<and> strncasecmp_ok E'"

lemma table_wf_process: "same_process E' E \<Longrightarrow> table_wf E' t = table_wf E t"
proof -
  assume same: "same_process E' E"
  then have "lws_table_hash E' t = lws_table_hash E t"
    by (intro ext) (simp add: lws_table_hash_def same_process_def)
  moreover from this same have "key_class E' t = key_class E t"
    by (intro ext) (simp add: key_class_def same_process_def)
  ultimately show ?thesis by (simp add: table_wf_def entries_ok_def)
qed

lemma same_process_refl: "strncasecmp_ok E \<Longrightarrow> same_process E E"
  by (simp add: same_process_def)

inductive lws_table_reach :: "lws_env \<Rightarrow> 'v lws_table \<Rightarrow> bool" for E where
  create: "lws_table_create E' load = Some t \<Longrightarrow> lws_table_reach E t"
| set_dup: "lws_table_reach E t \<Longrightarrow> lws_table_set_dup t b = (rc, t') \<Longrightarrow> lws_table_reach E t'"
| set_free: "lws_table_reach E t \<Longrightarrow> lws_table_set_free t b = (rc, t') \<Longrightarrow> lws_table_reach E t'"
| set_ci: "lws_table_reach E t \<Longrightarrow> lws_table_set_ci t b = (rc, t') \<Longrightarrow> lws_table_reach E t'"
| set_timeout: "lws_table_reach E t \<Longrightarrow> lws_table_set_timeout t d = (rc, t') \<Longrightarrow>
    lws_table_reach E t'"
| set_cap: "lws_table_reach E t \<Longrightarrow> lws_table_set_cap t n = (rc, t') \<Longrightarrow> lws_table_reach E t'"
| get: "lws_table_reach E t \<Longrightarrow> same_process E' E \<Longrightarrow> lws_table_get E' t key = Some (v, t') \<Longrightarrow>
    lws_table_reach E t'"
| set: "lws_table_reach E t \<Longrightarrow> same_process E' E \<Longrightarrow> lws_table_set E' t key val = Some (rc, t') \<Longrightarrow>
    lws_table_reach E t'"
| clear: "lws_table_reach E t \<Longrightarrow> lws_table_reach E (lws_table_clear t)"

text \<open>An option changes an empty table only, so no entry depends on the old option.\<close>

lemma empty_wf:
  assumes wf: "table_wf E t" and "t_count t = 0"
    and "t_alloc t' = t_alloc t" "t_load t' = t_load t" "t_count t' = t_count t"
      "t_entries t' = t_entries t" "t_order t' = t_order t"
    and "t_capped t' \<Longrightarrow> 1 \<le> t_cap t'"
  shows "table_wf E t'"
proof -
  have "t_order t = []" using assms(2) slots_wfD(4) [OF table_wfD(1) [OF wf]] by simp
  with assms table_wfD(1) [OF wf] show ?thesis
    by (simp add: table_wf_def slots_wf_def lws_table_items_def entries_ok_def distinct_on_def)
qed

lemmas set_option_defs = lws_table_set_dup_def lws_table_set_free_def lws_table_set_ci_def
  lws_table_set_timeout_def lws_table_set_cap_def

lemma reach_wf: "lws_table_reach E t \<Longrightarrow> table_wf E t"
proof (induction rule: lws_table_reach.induct)
  case (create E' load t)
  from create_spec [OF this] show ?case
    by (simp add: table_wf_def entries_ok_def distinct_on_def)
next
  case (set_dup t b rc t')
  from set_dup.hyps(2) table_wfD(6) [OF set_dup.IH] set_dup.IH show ?case
    by (auto simp: set_option_defs split: if_splits intro!: empty_wf [OF set_dup.IH])
next
  case (set_free t b rc t')
  from set_free.hyps(2) table_wfD(6) [OF set_free.IH] set_free.IH show ?case
    by (auto simp: set_option_defs split: if_splits intro!: empty_wf [OF set_free.IH])
next
  case (set_ci t b rc t')
  from set_ci.hyps(2) table_wfD(6) [OF set_ci.IH] set_ci.IH show ?case
    by (auto simp: set_option_defs split: if_splits intro!: empty_wf [OF set_ci.IH])
next
  case (set_timeout t d rc t')
  from set_timeout.hyps(2) table_wfD(6) [OF set_timeout.IH] set_timeout.IH show ?case
    by (auto simp: set_option_defs split: if_splits intro!: empty_wf [OF set_timeout.IH])
next
  case (set_cap t n rc t')
  from set_cap.hyps(2) set_cap.IH show ?case
    by (auto simp: set_option_defs split: if_splits intro!: empty_wf [OF set_cap.IH])
next
  case (get t E' key v t')
  then have "table_wf E' t" "strncasecmp_ok E'" by (auto simp: table_wf_process same_process_def)
  from get_refines [OF this, of key] get show ?case by (auto simp: table_wf_process)
next
  case (set t E' key val rc t')
  then have "table_wf E' t" "strncasecmp_ok E'" by (auto simp: table_wf_process same_process_def)
  from set_refines [OF this, of key val] set show ?case by (auto simp: table_wf_process)
next
  case (clear t)
  then show ?case by (simp add: clear_refines)
qed

section \<open>A concrete table\<close>

definition ascii_tolower :: "byte \<Rightarrow> byte" where
  "ascii_tolower b = (if 65 \<le> b \<and> b \<le> 90 then b + 32 else b)"

definition demo_env :: lws_env where
  "demo_env = \<lparr>env_time = 100, env_alloc_ok = (\<lambda>_. True), env_calloc_ok = (\<lambda>_. True),
     env_tolower = ascii_tolower,
     env_strncasecmp = (\<lambda>xs ys. strncmp (map ascii_tolower xs) (map ascii_tolower ys)),
     lws_table_hash_seed = 12345\<rparr>"

lemma ascii_tolower_0: "ascii_tolower b = 0 \<longleftrightarrow> b = 0"
proof -
  have False if "b + 32 = 0" "b \<le> 90"
  proof -
    from that(1) have "b = - 32" by (simp add: eq_neg_iff_add_eq_0)
    with that(2) show False by simp
  qed
  then show ?thesis by (auto simp: ascii_tolower_def)
qed

lemma c_view_tolower: "c_view (map ascii_tolower xs) = map ascii_tolower (c_view xs)"
  by (induction xs) (simp_all add: c_view_def ascii_tolower_0)

lemma demo_env_ok: "strncasecmp_ok demo_env"
proof -
  have "strncmp (map ascii_tolower xs) (map ascii_tolower ys) (length ys) = 0 \<longleftrightarrow>
      map ascii_tolower (c_view xs) = map ascii_tolower (c_view ys)"
    if "length xs = length ys" for xs ys
    using strncmp_eq_0 [of "map ascii_tolower xs" "map ascii_tolower ys"] that
    by (simp add: c_view_tolower)
  then show ?thesis by (simp add: strncasecmp_ok_def demo_env_def ascii_tolower_0)
qed

text \<open>A case insensitive table with a cap of two and a timeout that owns its keys and values, filled
  with three items, so that the first was evicted.\<close>

definition demo_start :: "nat lws_table" where
  "demo_start = \<lparr>t_alloc = 7, t_load = 4, t_count = 0, t_entries = replicate 7 zero_entry,
     t_order = [], t_timeout = 50, t_cap = 2, t_dup = True, t_free = True, t_ci = True,
     t_timed = True, t_capped = True, t_freed = []\<rparr>"

definition demo_entry :: "string \<Rightarrow> nat \<Rightarrow> 64 word \<Rightarrow> nat lws_table_entry" where
  "demo_entry k v h = \<lparr>e_key = lit k, e_value = Some v, e_hash = h, e_time = 100,
     e_state = LWS_TES_SET\<rparr>"

definition demo_alpha where "demo_alpha = demo_entry ''alpha'' 1 14090402006506524495"
definition demo_beta where "demo_beta = demo_entry ''Beta'' 2 16977192949786301939"
definition demo_gamma where "demo_gamma = demo_entry ''gamma'' 3 1452816749410599158"

definition demo_table :: "nat lws_table" where
  "demo_table = demo_start\<lparr>t_count := 2,
     t_entries := [demo_beta, zero_entry, zero_entry, zero_entry, zero_entry, demo_gamma,
       demo_alpha\<lparr>e_state := LWS_TES_DELETED\<rparr>],
     t_order := [0, 5], t_freed := [FreeKey (lit ''alpha''), FreeValue (Some 1)]\<rparr>"

lemma replicate_7: "replicate 7 x = [x, x, x, x, x, x, x]"
  by (simp add: eval_nat_numeral)

lemma demo_lit:
  "lit ''alpha'' = [97, 108, 112, 104, 97]" "lit ''Beta'' = [66, 101, 116, 97]"
  "lit ''gamma'' = [103, 97, 109, 109, 97]" "lit ''BETA'' = [66, 69, 84, 65]"
  "lit ''delta'' = [100, 101, 108, 116, 97]"
  by (simp_all add: lit_def of_char_def)

lemmas demo_hash_simps = lws_table_hash_def demo_env_def LWS_TABLE_HASH_PRIME_def ascii_tolower_def

lemma demo_hash:
  assumes "t_ci t"
  shows "lws_table_hash demo_env t (lit ''alpha'') = 14090402006506524495"
    "lws_table_hash demo_env t (lit ''Beta'') = 16977192949786301939"
    "lws_table_hash demo_env t (lit ''BETA'') = 16977192949786301939"
    "lws_table_hash demo_env t (lit ''gamma'') = 1452816749410599158"
    "lws_table_hash demo_env t (lit ''delta'') = 15958689867506659977"
  unfolding demo_lit using assms by (simp_all add: demo_hash_simps)

lemma demo_env_sel:
  "env_time demo_env = 100" "env_alloc_ok demo_env n" "env_calloc_ok demo_env n"
  "env_tolower demo_env = ascii_tolower"
  by (simp_all add: demo_env_def)

lemma demo_create:
  "lws_table_create demo_env 4 = Some (demo_start\<lparr>t_timeout := 0, t_cap := 0, t_dup := False,
     t_free := False, t_ci := False, t_timed := False, t_capped := False\<rparr>)"
  by (simp add: lws_table_create_def lws_table_size_find lws_table_sizes_def lws_table_sizes_n_def
      demo_env_def lws_table_load_def demo_start_def)

lemma demo_options: "lws_table_reach demo_env demo_start"
proof -
  note r = lws_table_reach.create [OF demo_create, where E = demo_env]
  note r = lws_table_reach.set_dup [OF r surjective_pairing, where b = True]
  note r = lws_table_reach.set_free [OF r surjective_pairing, where b = True]
  note r = lws_table_reach.set_ci [OF r surjective_pairing, where b = True]
  note r = lws_table_reach.set_timeout [OF r surjective_pairing, where d = 50]
  note r = lws_table_reach.set_cap [OF r surjective_pairing, where n = 2]
  from r show ?thesis by (simp add: set_option_defs demo_start_def)
qed

lemmas demo_eval = demo_start_def replicate_7 lws_table_set_def lws_table_set_new_def
  lws_table_find_def lws_table_find_loop.simps lws_table_insert_def lws_table_worst.simps
  lws_table_evict_def lws_table_remove_def lws_table_stamp_def Let_def zero_entry_def

definition demo_1 where
  "demo_1 = demo_start\<lparr>t_count := 1,
     t_entries := (replicate 7 zero_entry)[6 := demo_alpha], t_order := [6]\<rparr>"

definition demo_2 where
  "demo_2 = demo_start\<lparr>t_count := 2,
     t_entries := (replicate 7 zero_entry)[6 := demo_alpha, 0 := demo_beta], t_order := [6, 0]\<rparr>"

lemma demo_set_1: "lws_table_set demo_env demo_start (lit ''alpha'') (Some 1) = Some (0, demo_1)"
  by (simp add: demo_eval demo_hash demo_env_sel demo_1_def demo_alpha_def demo_entry_def)

lemma demo_set_2: "lws_table_set demo_env demo_1 (lit ''Beta'') (Some 2) = Some (0, demo_2)"
  by (simp add: demo_eval demo_hash demo_env_sel demo_1_def demo_2_def
      demo_alpha_def demo_beta_def demo_entry_def)

lemma demo_set_3: "lws_table_set demo_env demo_2 (lit ''gamma'') (Some 3) = Some (0, demo_table)"
  by (simp add: demo_eval demo_hash demo_env_sel demo_2_def demo_table_def
      demo_alpha_def demo_beta_def demo_gamma_def demo_entry_def)

lemma demo_reach: "lws_table_reach demo_env demo_table"
proof -
  note p = same_process_refl [OF demo_env_ok]
  note r = lws_table_reach.set [OF demo_options p demo_set_1]
  note r = lws_table_reach.set [OF r p demo_set_2]
  show ?thesis by (rule lws_table_reach.set [OF r p demo_set_3])
qed

lemmas demo_wf = reach_wf [OF demo_reach]

lemma demo_count: "t_count demo_table = 2"
  "t_freed demo_table = [FreeKey (lit ''alpha''), FreeValue (Some 1)]"
  by (simp_all add: demo_table_def demo_start_def)

lemma demo_abs: "lws_table_abs demo_table = \<lparr>
    lru_items = [(lit ''Beta'', 2, 100), (lit ''gamma'', 3, 100)],
    lru_timeout = Some 50, lru_cap = Some 2, lru_dup = True, lru_free = True,
    lru_freed = [FreeKey (lit ''alpha''), FreeValue (Some 1)]\<rparr>"
  by (simp add: lws_table_abs_def lws_table_items_def demo_table_def demo_start_def entry_abs_def
      demo_beta_def demo_gamma_def demo_entry_def)

section \<open>The theorems\<close>

text \<open>C38: Whatever sequence of operations made a table, with any answers of the clock and of the
  allocator on the way, its slots, probe paths, queue and counters agree: in particular its count is
  the number of linked items, it never exceeds the load limit, which leaves at least one slot free,
  and never the cap of a capped table.\<close>

theorem lws_table_reach_invariant:
  "lws_table_reach E t \<Longrightarrow> table_wf E t \<and> t_count t = length (lru_items (lws_table_abs t)) \<and>
     t_count t \<le> t_load t \<and> t_load t < t_alloc t \<and> (t_capped t \<longrightarrow> t_count t \<le> t_cap t)"
proof -
  assume "lws_table_reach E t"
  then have wf: "table_wf E t" by (rule reach_wf)
  from slots_wfD(1,5,6) [OF table_wfD(1) [OF wf]] lws_table_load_less [of "t_alloc t"]
  show ?thesis
    using wf table_wfD(7) [OF wf] length_items [OF table_wfD(1) [OF wf]]
    by (simp add: good_size_def)
qed

theorem lws_table_reach_invariant_witness:
  "table_wf demo_env demo_table \<and> t_count demo_table \<le> t_cap demo_table"
  using lws_table_reach_invariant [OF demo_reach] by (simp add: demo_table_def demo_start_def)

text \<open>C2: \<open>lws_table_get\<close> always returns, keeps the invariant and the configuration, and does what
  the specification says: the value of the item with the key's class, NULL if there is none or if
  it timed out, and on a capped table a live hit moves the item to the end of the queue.\<close>

theorem lws_table_get_correct:
  "table_wf E t \<Longrightarrow> strncasecmp_ok E \<Longrightarrow>
   \<exists>v t'. lws_table_get E t key = Some (v, t') \<and> table_wf E t' \<and> same_config t' t \<and>
     lru_get (key_class E t) (env_time E) key (lws_table_abs t) = (v, lws_table_abs t')"
  by (rule get_refines)

lemma demo_ci: "t_ci demo_table"
  by (simp add: demo_table_def demo_start_def)

lemma demo_class: "key_class demo_env demo_table (lit ''BETA'') = key_class demo_env demo_table (lit ''Beta'')"
  "key_class demo_env demo_table (lit ''delta'') \<noteq> key_class demo_env demo_table (lit ''Beta'')"
  "key_class demo_env demo_table (lit ''delta'') \<noteq> key_class demo_env demo_table (lit ''gamma'')"
  "key_class demo_env demo_table (lit ''gamma'') \<noteq> key_class demo_env demo_table (lit ''Beta'')"
  unfolding key_class_def demo_hash [OF demo_ci]
  by (simp_all add: demo_lit demo_env_sel ascii_tolower_def c_view_def demo_ci)

theorem lws_table_get_correct_witness:
  "\<exists>t'. lws_table_get demo_env demo_table (lit ''BETA'') = Some (Some 2, t') \<and>
     map fst (lru_items (lws_table_abs t')) = [lit ''gamma'', lit ''Beta'']"
proof -
  have "lru_get (key_class demo_env demo_table) (env_time demo_env) (lit ''BETA'')
      (lws_table_abs demo_table) = (Some 2, (lws_table_abs demo_table)
        \<lparr>lru_items := [(lit ''gamma'', 3, 100), (lit ''Beta'', 2, 100)]\<rparr>)"
    by (simp add: lru_get_def lru_lookup_def lru_delete_def lru_expired_def demo_abs demo_class
        demo_env_sel)
  with lws_table_get_correct [OF demo_wf demo_env_ok, of "lit ''BETA''"]
  obtain t' where "lws_table_get demo_env demo_table (lit ''BETA'') = Some (Some 2, t')"
    "lws_table_abs t' = (lws_table_abs demo_table)
        \<lparr>lru_items := [(lit ''gamma'', 3, 100), (lit ''Beta'', 2, 100)]\<rparr>"
    by force
  then show ?thesis by (intro exI [of _ t']) simp
qed

text \<open>C1: \<open>lws_table_set\<close> always returns, keeps the invariant and the configuration, and does what the
  specification says: a NULL value removes the item; an existing item gets the new value, the old
  one being freed if the table owns values and it differs; a new item goes to the end of the queue,
  after the least recently used item was evicted and freed if the table was full. It fails exactly
  when it needs memory that it does not get, and then only the eviction has happened.\<close>

theorem lws_table_set_correct:
  "table_wf E t \<Longrightarrow> strncasecmp_ok E \<Longrightarrow>
   \<exists>rc t'. lws_table_set E t key val = Some (rc, t') \<and> table_wf E t' \<and> same_config t' t \<and>
     lru_set (key_class E t) (env_time E) (lws_table_set_ok E t key) key val (lws_table_abs t) =
       (rc, lws_table_abs t')"
  by (rule set_refines)

theorem lws_table_set_correct_witness:
  "\<exists>t'. lws_table_set demo_env demo_table (lit ''delta'') (Some 4) = Some (0, t') \<and>
     map fst (lru_items (lws_table_abs t')) = [lit ''gamma'', lit ''delta''] \<and>
     t_freed t' = [FreeKey (lit ''alpha''), FreeValue (Some 1),
       FreeKey (lit ''Beta''), FreeValue (Some 2)]"
proof -
  have ok: "lws_table_set_ok demo_env demo_table (lit ''delta'')"
    by (simp add: lws_table_set_ok_def lws_table_grow_ok_def lws_table_copy_ok_def
        lws_table_evict_def demo_table_def demo_start_def demo_env_def)
  have "lru_set (key_class demo_env demo_table) (env_time demo_env) True (lit ''delta'') (Some 4)
      (lws_table_abs demo_table) = (0, (lws_table_abs demo_table)
        \<lparr>lru_items := [(lit ''gamma'', 3, 100), (lit ''delta'', 4, 100)],
         lru_freed := [FreeKey (lit ''alpha''), FreeValue (Some 1),
           FreeKey (lit ''Beta''), FreeValue (Some 2)]\<rparr>)"
    by (simp add: lru_set_def lru_put_def lru_lookup_def lru_evict_def lru_full_def lru_release_def
        lru_stamp_def demo_abs demo_class(2,3) demo_class(2,3) [THEN not_sym] Let_def
        demo_env_sel)
  with lws_table_set_correct [OF demo_wf demo_env_ok, of "lit ''delta''" "Some 4"] ok
  obtain t' where "lws_table_set demo_env demo_table (lit ''delta'') (Some 4) = Some (0, t')"
    "lws_table_abs t' = (lws_table_abs demo_table)
        \<lparr>lru_items := [(lit ''gamma'', 3, 100), (lit ''delta'', 4, 100)],
         lru_freed := [FreeKey (lit ''alpha''), FreeValue (Some 1),
           FreeKey (lit ''Beta''), FreeValue (Some 2)]\<rparr>"
    by force
  then show ?thesis by (intro exI [of _ t']) (simp add: lws_table_abs_def)
qed

text \<open>Walking a table with \<open>lws_table_next\<close>, starting at NULL and passing each returned key to the
  next call, visits every item exactly once in queue order and then ends.\<close>

theorem lws_table_next_visits_all:
  "table_wf E t \<Longrightarrow> strncasecmp_ok E \<Longrightarrow> t_count t \<le> n \<Longrightarrow>
   lws_table_walk E t n None =
     Some (map (\<lambda>y. (fst y, Some (fst (snd y)))) (lru_items (lws_table_abs t)))"
  by (rule walk_all)

theorem lws_table_next_visits_all_witness:
  "lws_table_walk demo_env demo_table 9 None =
     Some [(lit ''Beta'', Some 2), (lit ''gamma'', Some 3)]"
  using lws_table_next_visits_all [OF demo_wf demo_env_ok, of 9]
  by (simp add: demo_abs demo_count del: lws_table_abs_sel)

text \<open>\<open>lws_table_clear\<close> and \<open>lws_table_free\<close> free the keys and the values that the table owns, each
  once and from the last item of the queue to the first, and nothing else; clearing leaves an empty
  table with the same configuration, freeing also frees the slots and the table.\<close>

theorem lws_table_clear_free_correct:
  assumes "table_wf E t"
  shows "table_wf E (lws_table_clear t) \<and> same_config (lws_table_clear t) t \<and>
     lws_table_abs (lws_table_clear t) = lru_clear (lws_table_abs t) \<and>
     lws_table_free t = t_freed t @
       concat (map (lru_release (lws_table_abs t)) (rev (lru_items (lws_table_abs t)))) @
       [FreeEntries, FreeTable]"
  using clear_refines [OF assms] free_refines [OF assms] by (simp add: lru_clear_def)

theorem lws_table_clear_free_correct_witness:
  "lws_table_free demo_table = [FreeKey (lit ''alpha''), FreeValue (Some 1),
     FreeKey (lit ''gamma''), FreeValue (Some 3), FreeKey (lit ''Beta''), FreeValue (Some 2),
     FreeEntries, FreeTable] \<and> t_count (lws_table_clear demo_table) = 0"
proof -
  note c = lws_table_clear_free_correct [OF demo_wf]
  have "length (lru_items (lws_table_abs (lws_table_clear demo_table))) = 0"
    using c by (simp add: lru_clear_def)
  then have "t_count (lws_table_clear demo_table) = 0"
    using length_items [OF table_wfD(1) [OF c [THEN conjunct1]]] by simp
  with c show ?thesis
    by (simp add: demo_abs lru_release_def demo_count del: lws_table_abs_sel)
qed

text \<open>A created table is empty and well-formed, and for a requested load below the largest table
  size it takes that many items before it has to grow.\<close>

theorem lws_table_create_correct:
  assumes "lws_table_create E load = Some t"
  shows "table_wf E t \<and> lru_items (lws_table_abs t) = [] \<and> t_freed t = [] \<and>
    (load < 272513087380099 \<longrightarrow> load \<le> t_load t)"
proof -
  have "lws_table_sizes ! (lws_table_sizes_n - 1) = 272513087380099"
    by (simp add: lws_table_sizes_def lws_table_sizes_n_def)
  with create_spec [OF assms] show ?thesis by (metis list.simps(8) lws_table_abs_sel(1) lws_table.select_convs(13))
qed

theorem lws_table_create_correct_witness:
  "\<exists>t. lws_table_create demo_env 4 = Some (t :: nat lws_table) \<and> 4 \<le> t_load t \<and> t_count t = 0"
  using lws_table_create_correct [OF demo_create] demo_create by (simp add: demo_start_def)

text \<open>The largest table size is an exception to the reserve that \<open>lws_table_create\<close> adds: a table
  created for that load has less room than asked for, so the reserve promised by the comment in the
  code is not there.\<close>

theorem lws_table_create_largest:
  "\<exists>t. lws_table_create demo_env 272513087380099 = Some (t :: nat lws_table) \<and>
     t_load t < 272513087380099"
proof -
  have "lws_table_sizes ! (lws_table_sizes_n - 1) = 272513087380099"
    by (simp add: lws_table_sizes_def lws_table_sizes_n_def)
  moreover have "lws_table_size 272513087380099 = Some 272513087380099"
    unfolding lws_table_size_find by (simp add: lws_table_sizes_def)
  moreover have "lws_table_load 272513087380099 < 272513087380099"
    by (rule lws_table_load_less) simp
  ultimately show ?thesis by (simp add: lws_table_create_def demo_env_sel)
qed

text \<open>A value that was set is what the next lookup returns, for every spelling of the key that
  belongs to the same class, unless the timeout is not positive; and setting it changed the lookup
  of no other key of a table that was not full.\<close>

theorem lws_table_read_your_write:
  assumes "table_wf E t" "strncasecmp_ok E" "lru_lasting (lws_table_abs t)"
    and "lws_table_set E t key (Some v) = Some (0, t')"
  shows "map_option fst (lws_table_get E t' key) = Some (Some v) \<and>
    (\<not> lru_full (lws_table_abs t) \<longrightarrow> key_class E t key' \<noteq> key_class E t key \<longrightarrow>
       map_option fst (lws_table_get E t' key') = map_option fst (lws_table_get E t key'))"
  using lws.get_after_put [of E t key v t'] lws.get_after_put_other [of E t key' key v 0 t'] assms
  by force

theorem lws_table_read_your_write_witness:
  "map_option fst (lws_table_get demo_env demo_1 (lit ''alpha'')) = Some (Some 1)"
proof -
  have "lru_lasting (lws_table_abs demo_start)"
    by (simp add: lru_lasting_def demo_start_def)
  from lws_table_read_your_write [OF reach_wf [OF demo_options] demo_env_ok this demo_set_1]
  show ?thesis by blast
qed

text \<open>On a case sensitive table whose keys hold no NUL byte, a key without NUL bytes finds the
  item with exactly that key, whatever the hash values are.\<close>

theorem lws_table_exact_keys:
  assumes "table_wf E t" "strncasecmp_ok E" "\<not> t_ci t" "0 \<notin> set key"
    and "\<forall>x\<in>set (lru_items (lws_table_abs t)). 0 \<notin> set (fst x)"
  shows "map_option fst (lws_table_get E t key) =
    Some (lru_value (\<lambda>k. k) (env_time E) key (lws_table_abs t))"
proof -
  have "find (\<lambda>(k, _). key_class E t k = key_class E t key) xs = find (\<lambda>(k, _). k = key) xs"
    if "\<forall>x\<in>set xs. 0 \<notin> set (fst x)" for xs :: "'a item list"
    using that assms(3,4)
    by (induction xs) (auto simp: key_class_def c_view_no_nul)
  from this [OF assms(5)] lws.get_value [of E t key] assms(1,2) show ?thesis
    by (auto simp: lru_value_eq lru_lookup_def)
qed

definition demo_cs :: "nat lws_table" where
  "demo_cs = demo_start\<lparr>t_ci := False\<rparr>"

theorem lws_table_exact_keys_witness:
  "map_option fst (lws_table_get demo_env demo_cs (lit ''alpha'')) = Some None"
proof -
  have "lws_table_set_ci demo_start False = (0, demo_cs)"
    by (simp add: lws_table_set_ci_def demo_start_def demo_cs_def)
  from reach_wf [OF lws_table_reach.set_ci [OF demo_options this]]
  have wf: "table_wf demo_env demo_cs" .
  have items: "lru_items (lws_table_abs demo_cs) = []"
    by (simp add: demo_cs_def demo_start_def lws_table_items_def)
  from lws_table_exact_keys [OF wf demo_env_ok, of "lit ''alpha''"] items show ?thesis
    by (simp add: demo_cs_def demo_lit lru_value_eq)
qed

text \<open>C36: \<open>lws_table_insert\<close>, with Brent's relocation of a conflicting entry, always returns: it gives
  a slot that is not linked by the queue, the items and their order are as before, and once the new
  entry is in that slot, every linked entry is reachable on its probe sequence.\<close>

theorem lws_table_insert_correct:
  assumes "table_wf E t"
  shows "\<exists>s es ord. lws_table_insert t key hash = Some (s, t\<lparr>t_entries := es, t_order := ord\<rparr>) \<and>
    s < t_alloc t \<and> s \<notin> set ord \<and> contents es ord = lws_table_items t \<and>
    (\<forall>e. e_state e = LWS_TES_SET \<longrightarrow> e_hash e = hash \<longrightarrow>
       slots_ok (t_alloc t) (es[s := e]) (ord @ [s]) \<and> paths_ok (t_alloc t) (es[s := e]))"
proof -
  obtain s es ord where
    "lws_table_insert t key hash = Some (s, t\<lparr>t_entries := es, t_order := ord\<rparr>)"
    "contents es ord = lws_table_items t" and v: "vacant (t_alloc t) es ord s hash"
    using insert_spec [OF slots_wfD(1-3,7) [OF table_wfD(1) [OF assms]]]
    by (metis lws_table_items_def)
  moreover have "s < t_alloc t" "s \<notin> set ord" using v by (auto simp: vacant_def)
  ultimately show ?thesis using vacant_place(1,3) [OF v] by blast
qed

theorem lws_table_insert_correct_witness:
  "\<exists>s es ord. lws_table_insert demo_table (lit ''delta'') 14 =
     Some (s, demo_table\<lparr>t_entries := es, t_order := ord\<rparr>) \<and> s \<notin> set ord \<and>
     contents es ord = [demo_beta, demo_gamma]"
proof -
  have "lws_table_items demo_table = [demo_beta, demo_gamma]"
    by (simp add: lws_table_items_def demo_table_def demo_start_def)
  with lws_table_insert_correct [OF demo_wf, of "lit ''delta''" 14] show ?thesis by metis
qed

text \<open>C37: Rehashing into the next table size either fails for lack of a larger size or of memory and
  leaves the table alone, or keeps all items in their order and raises the load limit.\<close>

theorem lws_table_rehash_correct:
  assumes "table_wf E t"
  shows "\<exists>rc t'. lws_table_rehash E t (t_alloc t + 1) = Some (rc, t') \<and> table_wf E t' \<and>
    lws_table_abs t' = lws_table_abs t \<and>
    (if rc = 0 then t_load t < t_load t' \<and> t_alloc t < t_alloc t' else rc = -1 \<and> t' = t)"
proof (cases rule: rehash_spec [OF table_wfD(1) [OF assms], of E])
  case 1
  with assms show ?thesis by (intro exI [of _ "-1"] exI [of _ t]) simp
next
  case (2 a es ord)
  let ?t = "t\<lparr>t_alloc := a, t_load := lws_table_load a, t_entries := es, t_order := ord\<rparr>"
  have items: "lws_table_items ?t = lws_table_items t" using 2(6) by (simp add: lws_table_items_def)
  have "table_wf E ?t"
    using 2(4) items table_wfD(2,6,7) [OF assms] by (intro table_wf_intro [of _ t]) auto
  moreover have "lws_table_abs ?t = lws_table_abs t"
    using lws_table_abs_eqI [of ?t t "map (entry_abs t) (lws_table_items t)" "t_freed t"] items
    by (simp add: same_config_def lws_table_abs_def)
  moreover have "t_alloc t < a" using lws_table_size_SomeD(2) [OF 2(1)] by simp
  ultimately show ?thesis using 2(3,5) by (intro exI [of _ 0] exI [of _ ?t]) simp
qed

theorem lws_table_rehash_correct_witness:
  "\<exists>t'. lws_table_rehash demo_env demo_table 8 = Some (0, t') \<and> t_load demo_table < t_load t' \<and>
     lws_table_abs t' = lws_table_abs demo_table"
proof -
  have alloc: "t_alloc demo_table = 7" by (simp add: demo_table_def demo_start_def)
  have "lws_table_size 8 = Some 11" unfolding lws_table_size_find by (simp add: lws_table_sizes_def)
  then have "fst (the (lws_table_rehash demo_env demo_table 8)) \<noteq> -1"
    if "lws_table_rehash demo_env demo_table 8 \<noteq> None"
    using that by (auto simp: lws_table_rehash_def demo_env_sel bind_eq_Some_conv)
  with lws_table_rehash_correct [OF demo_wf] alloc show ?thesis
    by (force split: if_splits)
qed

end
