(* ===== verification/LwsHttp.thy ===== *)
theory LwsHttp
  imports LwsPrelude
begin

text \<open>
  HTTP status codes: the constant array \<open>lws_http_status\<close> and the lookup \<open>lws_find_http_status\<close>
  of src/lws_http.c. The library publishes the array to Lua as \<open>lws.status\<close>, and the JSON error
  response takes its message from the lookup. The \<open>NGX_HTTP_\<close> constants have the values that
  doc/Library.md lists for the corresponding keys. The array holds two codes twice (413 and 414,
  each with a legacy name), so what the binary search returns on equal codes matters.
\<close>

section \<open>Constants\<close>

abbreviation (input) NGX_HTTP_CONTINUE :: int where "NGX_HTTP_CONTINUE \<equiv> 100"
abbreviation (input) NGX_HTTP_SWITCHING_PROTOCOLS :: int where "NGX_HTTP_SWITCHING_PROTOCOLS \<equiv> 101"
abbreviation (input) NGX_HTTP_PROCESSING :: int where "NGX_HTTP_PROCESSING \<equiv> 102"
abbreviation (input) NGX_HTTP_OK :: int where "NGX_HTTP_OK \<equiv> 200"
abbreviation (input) NGX_HTTP_CREATED :: int where "NGX_HTTP_CREATED \<equiv> 201"
abbreviation (input) NGX_HTTP_ACCEPTED :: int where "NGX_HTTP_ACCEPTED \<equiv> 202"
abbreviation (input) NGX_HTTP_NO_CONTENT :: int where "NGX_HTTP_NO_CONTENT \<equiv> 204"
abbreviation (input) NGX_HTTP_PARTIAL_CONTENT :: int where "NGX_HTTP_PARTIAL_CONTENT \<equiv> 206"
abbreviation (input) NGX_HTTP_SPECIAL_RESPONSE :: int where "NGX_HTTP_SPECIAL_RESPONSE \<equiv> 300"
abbreviation (input) NGX_HTTP_MOVED_PERMANENTLY :: int where "NGX_HTTP_MOVED_PERMANENTLY \<equiv> 301"
abbreviation (input) NGX_HTTP_MOVED_TEMPORARILY :: int where "NGX_HTTP_MOVED_TEMPORARILY \<equiv> 302"
abbreviation (input) NGX_HTTP_SEE_OTHER :: int where "NGX_HTTP_SEE_OTHER \<equiv> 303"
abbreviation (input) NGX_HTTP_NOT_MODIFIED :: int where "NGX_HTTP_NOT_MODIFIED \<equiv> 304"
abbreviation (input) NGX_HTTP_TEMPORARY_REDIRECT :: int where "NGX_HTTP_TEMPORARY_REDIRECT \<equiv> 307"
abbreviation (input) NGX_HTTP_PERMANENT_REDIRECT :: int where "NGX_HTTP_PERMANENT_REDIRECT \<equiv> 308"
abbreviation (input) NGX_HTTP_BAD_REQUEST :: int where "NGX_HTTP_BAD_REQUEST \<equiv> 400"
abbreviation (input) NGX_HTTP_UNAUTHORIZED :: int where "NGX_HTTP_UNAUTHORIZED \<equiv> 401"
abbreviation (input) NGX_HTTP_FORBIDDEN :: int where "NGX_HTTP_FORBIDDEN \<equiv> 403"
abbreviation (input) NGX_HTTP_NOT_FOUND :: int where "NGX_HTTP_NOT_FOUND \<equiv> 404"
abbreviation (input) NGX_HTTP_NOT_ALLOWED :: int where "NGX_HTTP_NOT_ALLOWED \<equiv> 405"
abbreviation (input) NGX_HTTP_REQUEST_TIME_OUT :: int where "NGX_HTTP_REQUEST_TIME_OUT \<equiv> 408"
abbreviation (input) NGX_HTTP_CONFLICT :: int where "NGX_HTTP_CONFLICT \<equiv> 409"
abbreviation (input) NGX_HTTP_LENGTH_REQUIRED :: int where "NGX_HTTP_LENGTH_REQUIRED \<equiv> 411"
abbreviation (input) NGX_HTTP_PRECONDITION_FAILED :: int where "NGX_HTTP_PRECONDITION_FAILED \<equiv> 412"
abbreviation (input) NGX_HTTP_REQUEST_ENTITY_TOO_LARGE :: int where "NGX_HTTP_REQUEST_ENTITY_TOO_LARGE \<equiv> 413"
abbreviation (input) NGX_HTTP_REQUEST_URI_TOO_LARGE :: int where "NGX_HTTP_REQUEST_URI_TOO_LARGE \<equiv> 414"
abbreviation (input) NGX_HTTP_UNSUPPORTED_MEDIA_TYPE :: int where "NGX_HTTP_UNSUPPORTED_MEDIA_TYPE \<equiv> 415"
abbreviation (input) NGX_HTTP_RANGE_NOT_SATISFIABLE :: int where "NGX_HTTP_RANGE_NOT_SATISFIABLE \<equiv> 416"
abbreviation (input) NGX_HTTP_MISDIRECTED_REQUEST :: int where "NGX_HTTP_MISDIRECTED_REQUEST \<equiv> 421"
abbreviation (input) NGX_HTTP_TOO_MANY_REQUESTS :: int where "NGX_HTTP_TOO_MANY_REQUESTS \<equiv> 429"
abbreviation (input) NGX_HTTP_INTERNAL_SERVER_ERROR :: int where "NGX_HTTP_INTERNAL_SERVER_ERROR \<equiv> 500"
abbreviation (input) NGX_HTTP_NOT_IMPLEMENTED :: int where "NGX_HTTP_NOT_IMPLEMENTED \<equiv> 501"
abbreviation (input) NGX_HTTP_BAD_GATEWAY :: int where "NGX_HTTP_BAD_GATEWAY \<equiv> 502"
abbreviation (input) NGX_HTTP_SERVICE_UNAVAILABLE :: int where "NGX_HTTP_SERVICE_UNAVAILABLE \<equiv> 503"
abbreviation (input) NGX_HTTP_GATEWAY_TIME_OUT :: int where "NGX_HTTP_GATEWAY_TIME_OUT \<equiv> 504"
abbreviation (input) NGX_HTTP_VERSION_NOT_SUPPORTED :: int where "NGX_HTTP_VERSION_NOT_SUPPORTED \<equiv> 505"
abbreviation (input) NGX_HTTP_INSUFFICIENT_STORAGE :: int where "NGX_HTTP_INSUFFICIENT_STORAGE \<equiv> 507"

section \<open>The status array\<close>

record lws_http_status_t =
  hs_code :: int
  hs_key :: ngx_str
  hs_message :: ngx_str

abbreviation status_entry :: "int \<Rightarrow> string \<Rightarrow> string \<Rightarrow> lws_http_status_t" where
  "status_entry c k m \<equiv> \<lparr>hs_code = c, hs_key = lit k, hs_message = lit m\<rparr>"

definition lws_http_status_1xx :: "lws_http_status_t list" where
  "lws_http_status_1xx = [
     status_entry NGX_HTTP_CONTINUE ''CONTINUE'' ''Continue'',
     status_entry NGX_HTTP_SWITCHING_PROTOCOLS ''SWITCHING_PROTOCOLS'' ''Switching Protocols'',
     status_entry NGX_HTTP_PROCESSING ''PROCESSING'' ''Processing'']"

definition lws_http_status_2xx :: "lws_http_status_t list" where
  "lws_http_status_2xx = [
     status_entry NGX_HTTP_OK ''OK'' ''OK'',
     status_entry NGX_HTTP_CREATED ''CREATED'' ''Created'',
     status_entry NGX_HTTP_ACCEPTED ''ACCEPTED'' ''Accepted'',
     status_entry 203 ''NON_AUTHORITATIVE_INFORMATION'' ''Non-Authoritative Information'',
     status_entry NGX_HTTP_NO_CONTENT ''NO_CONTENT'' ''No Content'',
     status_entry 205 ''RESET_CONTENT'' ''Reset Content'',
     status_entry NGX_HTTP_PARTIAL_CONTENT ''PARTIAL_CONTENT'' ''Partial Content'']"

definition lws_http_status_3xx :: "lws_http_status_t list" where
  "lws_http_status_3xx = [
     status_entry NGX_HTTP_SPECIAL_RESPONSE ''MULTIPLE_CHOICES'' ''Multiple Choices'',
     status_entry NGX_HTTP_MOVED_PERMANENTLY ''MOVED_PERMANENTLY'' ''Moved Permanently'',
     status_entry NGX_HTTP_MOVED_TEMPORARILY ''FOUND'' ''Found'',
     status_entry NGX_HTTP_SEE_OTHER ''SEE_OTHER'' ''See Other'',
     status_entry NGX_HTTP_NOT_MODIFIED ''NOT_MODIFIED'' ''Not Modified'',
     status_entry 305 ''USE_PROXY'' ''Use Proxy'',
     status_entry NGX_HTTP_TEMPORARY_REDIRECT ''TEMPORARY_REDIRECT'' ''Temporary Redirect'',
     status_entry NGX_HTTP_PERMANENT_REDIRECT ''PERMANENT_REDIRECT'' ''Permanent Redirect'']"

definition lws_http_status_4xx :: "lws_http_status_t list" where
  "lws_http_status_4xx = [
     status_entry NGX_HTTP_BAD_REQUEST ''BAD_REQUEST'' ''Bad Request'',
     status_entry NGX_HTTP_UNAUTHORIZED ''UNAUTHORIZED'' ''Unauthorized'',
     status_entry 402 ''PAYMENT_REQUIRED'' ''Payment Required'',
     status_entry NGX_HTTP_FORBIDDEN ''FORBIDDEN'' ''Forbidden'',
     status_entry NGX_HTTP_NOT_FOUND ''NOT_FOUND'' ''Not Found'',
     status_entry NGX_HTTP_NOT_ALLOWED ''METHOD_NOT_ALLOWED'' ''Method Not Allowed'',
     status_entry 406 ''NOT_ACCEPTABLE'' ''Not Acceptable'',
     status_entry 407 ''PROXY_AUTHENTICATION_REQUIRED'' ''Proxy Authentication Required'',
     status_entry NGX_HTTP_REQUEST_TIME_OUT ''REQUEST_TIMEOUT'' ''Request Timeout'',
     status_entry NGX_HTTP_CONFLICT ''CONFLICT'' ''Conflict'',
     status_entry 410 ''GONE'' ''Gone'',
     status_entry NGX_HTTP_LENGTH_REQUIRED ''LENGTH_REQUIRED'' ''Length Required'',
     status_entry NGX_HTTP_PRECONDITION_FAILED ''PRECONDITION_FAILED'' ''Precondition Failed'',
     status_entry NGX_HTTP_REQUEST_ENTITY_TOO_LARGE ''CONTENT_TOO_LARGE'' ''Content Too Large'',
     status_entry NGX_HTTP_REQUEST_ENTITY_TOO_LARGE ''REQUEST_ENTITY_TOO_LARGE'' ''Request Entity Too Large'',
     status_entry NGX_HTTP_REQUEST_URI_TOO_LARGE ''URI_TOO_LONG'' ''URI Too Long'',
     status_entry NGX_HTTP_REQUEST_URI_TOO_LARGE ''REQUEST_URI_TOO_LARGE'' ''Request URI Too Large'',
     status_entry NGX_HTTP_UNSUPPORTED_MEDIA_TYPE ''UNSUPPORTED_MEDIA_TYPE'' ''Unsupported Media Type'',
     status_entry NGX_HTTP_RANGE_NOT_SATISFIABLE ''RANGE_NOT_SATISFIABLE'' ''Range Not Satisfiable'',
     status_entry 417 ''EXPECTATION_FAILED'' ''Expectation Failed'',
     status_entry NGX_HTTP_MISDIRECTED_REQUEST ''MISDIRECTED_REQUEST'' ''Misdirected Request'',
     status_entry 422 ''UNPROCESSABLE_CONTENT'' ''Unprocessable Content'',
     status_entry 426 ''UPGRADE_REQUIRED'' ''Upgrade Required'',
     status_entry NGX_HTTP_TOO_MANY_REQUESTS ''TOO_MANY_REQUESTS'' ''Too Many Requests'']"

definition lws_http_status_5xx :: "lws_http_status_t list" where
  "lws_http_status_5xx = [
     status_entry NGX_HTTP_INTERNAL_SERVER_ERROR ''INTERNAL_SERVER_ERROR'' ''Internal Server Error'',
     status_entry NGX_HTTP_NOT_IMPLEMENTED ''NOT_IMPLEMENTED'' ''Not Implemented'',
     status_entry NGX_HTTP_BAD_GATEWAY ''BAD_GATEWAY'' ''Bad Gateway'',
     status_entry NGX_HTTP_SERVICE_UNAVAILABLE ''SERVICE_UNAVAILABLE'' ''Service Unavailable'',
     status_entry NGX_HTTP_GATEWAY_TIME_OUT ''GATEWAY_TIMEOUT'' ''Gateway Timeout'',
     status_entry NGX_HTTP_VERSION_NOT_SUPPORTED ''HTTP_VERSION_NOT_SUPPORTED'' ''HTTP Version Not Supported'',
     status_entry NGX_HTTP_INSUFFICIENT_STORAGE ''INSUFFICIENT_STORAGE'' ''Insufficient Storage'']"

definition lws_http_status :: "lws_http_status_t list" where
  "lws_http_status = lws_http_status_1xx @ lws_http_status_2xx @ lws_http_status_3xx @
     lws_http_status_4xx @ lws_http_status_5xx"

definition lws_http_status_n :: nat where
  "lws_http_status_n = 3 + 7 + 8 + 24 + 7"

lemmas status_array_defs = lws_http_status_def lws_http_status_1xx_def lws_http_status_2xx_def
  lws_http_status_3xx_def lws_http_status_4xx_def lws_http_status_5xx_def

section \<open>Lookup\<close>

definition lws_find_http_status :: "int \<Rightarrow> lws_http_status_t option" where
  "lws_find_http_status code =
     (let lower = bsearch_loop (\<lambda>mid. hs_code (lws_http_status ! mid) < code)
                    0 (int lws_http_status_n - 1) in
      if lower < int lws_http_status_n \<and> hs_code (lws_http_status ! nat lower) = code
      then Some (lws_http_status ! nat lower) else None)"

section \<open>Properties\<close>

lemma length_lws_http_status: "length lws_http_status = lws_http_status_n"
  by (simp add: status_array_defs lws_http_status_n_def)

lemma codes_eq: "map hs_code lws_http_status =
    [100, 101, 102, 200, 201, 202, 203, 204, 205, 206, 300, 301, 302, 303, 304, 305, 307,
   308, 400, 401, 402, 403, 404, 405, 406, 407, 408, 409, 410, 411, 412, 413, 413, 414, 414,
   415, 416, 417, 421, 422, 426, 429, 500, 501, 502, 503, 504, 505, 507]"
  by (simp add: status_array_defs)

lemma sorted_codes: "sorted (map hs_code lws_http_status)"
  by (simp add: codes_eq)

lemma code_mono: "i \<le> j \<Longrightarrow> j < lws_http_status_n \<Longrightarrow>
    hs_code (lws_http_status ! i) \<le> hs_code (lws_http_status ! j)"
  using sorted_nth_mono [OF sorted_codes, of i j] by (simp add: length_lws_http_status)

text \<open>The reference: a linear scan for the first entry with the code.\<close>

definition first_status :: "int \<Rightarrow> lws_http_status_t option" where
  "first_status code = find (\<lambda>s. hs_code s = code) lws_http_status"

lemma status_below_prefix:
  "below_prefix (\<lambda>mid. hs_code (lws_http_status ! mid) < code) lws_http_status_n"
  unfolding below_prefix_def using code_mono by fastforce

lemma find_http_status_first: "lws_find_http_status code = first_status code"
proof -
  have "0 < lws_http_status_n" by (simp add: lws_http_status_n_def)
  with status_below_prefix [of code] obtain r
    where r: "bsearch_loop (\<lambda>mid. hs_code (lws_http_status ! mid) < code) 0
        (int lws_http_status_n - 1) = int r"
      and below: "\<And>i. i < r \<Longrightarrow> hs_code (lws_http_status ! i) < code"
      and above: "\<And>i. r \<le> i \<Longrightarrow> i < lws_http_status_n \<Longrightarrow> code \<le> hs_code (lws_http_status ! i)"
    by (rule bsearch_prefix) (simp add: not_less)
  note find = lws_find_http_status_def [of code, unfolded r Let_def, simplified]
  show ?thesis
  proof (cases "r < lws_http_status_n \<and> hs_code (lws_http_status ! r) = code")
    case True
    then have "first_status code = Some (lws_http_status ! r)"
      unfolding first_status_def using below
      by (intro find_first_nth) (fastforce simp: length_lws_http_status)+
    with True find show ?thesis by simp
  next
    case False
    have "hs_code (lws_http_status ! i) \<noteq> code" if i: "i < lws_http_status_n" for i
    proof (cases "i < r")
      case True
      with below show ?thesis by force
    next
      case ge: False
      with i have "r < lws_http_status_n" by simp
      with False above [of r] have "code < hs_code (lws_http_status ! r)" by force
      also have "\<dots> \<le> hs_code (lws_http_status ! i)"
        using ge i by (intro code_mono) auto
      finally show ?thesis by simp
    qed
    then have "first_status code = None"
      unfolding first_status_def by (intro find_none_nth) (simp add: length_lws_http_status)
    moreover from False find have "lws_find_http_status code = None" by simp
    ultimately show ?thesis by simp
  qed
qed

lemma lws_http_status_wf:
  "list_all (\<lambda>s. 100 \<le> hs_code s \<and> hs_code s < 600 \<and> hs_key s \<noteq> [] \<and> hs_message s \<noteq> [])
     lws_http_status"
  by (simp add: status_array_defs lit_def)

text \<open>for every integer, the binary search of \<open>lws_find_http_status\<close> returns exactly what a
  linear scan of the array returns: the first entry that has the code (so the current name rather
  than the legacy one for 413 and 414), and NULL when no entry has it.\<close>

theorem lws_find_http_status_correct: "lws_find_http_status code = first_status code"
  by (rule find_http_status_first)

end
