(* ===== verification/LwsResponse.thy ===== *)
theory LwsResponse
  imports LwsTableCorrect LwsHttp
begin

text \<open>
  The response side of a request, from src/lws_module.c: the part of \<open>ngx_http_request_t\<close> that the
  module reads and writes, and \<open>lws_set_response_header\<close>, which copies the response headers of the
  Lua code to the NGINX request, handles the headers that NGINX keeps fields for, and unfolds
  \<open>Set-Cookie\<close> into one header per cookie.
\<close>

section \<open>The request\<close>

text \<open>The headers for which NGINX keeps a pointer to the list element.\<close>

datatype ngx_known = H_DATE | H_ETAG | H_SERVER | H_REFRESH | H_EXPIRES | H_LOCATION
  | H_LAST_MODIFIED | H_CONTENT_RANGE | H_ACCEPT_RANGES | H_CONTENT_ENCODING | H_WWW_AUTHENTICATE

text \<open>\<open>r_main\<close> is \<open>r == r->main\<close>, \<open>r_head\<close> is \<open>r->method == NGX_HTTP_HEAD\<close>. \<open>r_headers\<close> is the list
  \<open>headers_out.headers\<close>, to which \<open>r_known\<close> points by position. \<open>r_out\<close> are the bytes given to the
  output filter, \<open>r_last\<close> tells whether the end of the response was, and \<open>r_final\<close> logs the calls
  of \<open>ngx_http_finalize_request\<close>.\<close>

record ngx_request =
  r_main :: bool
  r_head :: bool
  r_header_only :: bool
  r_header_sent :: bool
  r_disable_not_modified :: bool
  r_status :: int
  r_content_type :: ngx_str
  r_content_type_len :: nat
  r_charset :: ngx_str
  r_content_length :: "int option"
  r_last_modified_time :: "int option"
  r_headers :: "(ngx_str \<times> ngx_str) list"
  r_known :: "ngx_known \<rightharpoonup> nat"
  r_out :: ngx_str
  r_last :: bool
  r_final :: "int list"

abbreviation (input) NGX_OK :: int where "NGX_OK \<equiv> 0"
abbreviation (input) NGX_ERROR :: int where "NGX_ERROR \<equiv> -1"
abbreviation (input) NGX_AGAIN :: int where "NGX_AGAIN \<equiv> -2"

definition ngx_http_finalize_request :: "int \<Rightarrow> 'a ngx_request_scheme \<Rightarrow> 'a ngx_request_scheme" where
  "ngx_http_finalize_request rc r = r\<lparr>r_final := r_final r @ [rc]\<rparr>"

section \<open>Loops over a table\<close>

text \<open>The loop \<open>while (lws_table_next(t, key, &key, &value) == 0)\<close>, with a body that either leaves the
  function with a result (\<open>Inl\<close>) or goes on (\<open>Inr\<close>). \<open>None\<close> is a loop that never ends.\<close>

partial_function (option) lws_table_each ::
  "lws_env \<Rightarrow> 'v lws_table \<Rightarrow> (ngx_str \<Rightarrow> 'v option \<Rightarrow> 's \<Rightarrow> 'r + 's) \<Rightarrow> ngx_str option \<Rightarrow> 's \<Rightarrow>
   ('r + 's) option" where
  "lws_table_each E t body key s =
     (case lws_table_next E t key of
        None \<Rightarrow> None
      | Some None \<Rightarrow> Some (Inr s)
      | Some (Some (k, v)) \<Rightarrow>
          (case body k v s of
             Inl r \<Rightarrow> Some (Inl r)
           | Inr s' \<Rightarrow> lws_table_each E t body (Some k) s'))"

declare lws_table_each.simps [code]

text \<open>What such a loop computes: the body, run over the items of the table in their order.\<close>

fun each_item :: "(ngx_str \<Rightarrow> 'v option \<Rightarrow> 's \<Rightarrow> 'r + 's) \<Rightarrow> 'v item list \<Rightarrow> 's \<Rightarrow> 'r + 's" where
  "each_item body [] s = Inr s"
| "each_item body (x # xs) s =
     (case body (fst x) (Some (fst (snd x))) s of Inl r \<Rightarrow> Inl r | Inr s' \<Rightarrow> each_item body xs s')"

lemma each_from:
  assumes wf: "table_wf E t" and E: "strncasecmp_ok E"
  shows "lru_items (lws_table_abs t) = xs @ x # ys \<Longrightarrow>
    lws_table_each E t body (Some (fst x)) s = Some (each_item body ys s)"
proof (induction ys arbitrary: xs x s)
  case Nil
  with lru_next_nth [OF distinct_on_abs [OF wf] Nil] next_refines [OF wf E] show ?case
    by (simp add: lws_table_each.simps)
next
  case (Cons y ys)
  have "lru_items (lws_table_abs t) = (xs @ [x]) @ y # ys" using Cons.prems by simp
  note IH = Cons.IH [OF this]
  have "lws_table_next E t (Some (fst x)) = Some (Some (fst y, Some (fst (snd y))))"
    using lru_next_nth [OF distinct_on_abs [OF wf] Cons.prems] next_refines [OF wf E] by simp
  then show ?case
    by (subst lws_table_each.simps) (simp add: IH split: sum.split)
qed

lemma each_all:
  assumes wf: "table_wf E t" and E: "strncasecmp_ok E"
  shows "lws_table_each E t body None s = Some (each_item body (lru_items (lws_table_abs t)) s)"
proof (cases "lru_items (lws_table_abs t)")
  case Nil
  with next_refines [OF wf E] show ?thesis
    by (simp add: lws_table_each.simps lru_next_def)
next
  case (Cons y ys)
  then have "lws_table_next E t None = Some (Some (fst y, Some (fst (snd y))))"
    using next_refines [OF wf E, of None] by (simp add: lru_next_def)
  moreover have "lru_items (lws_table_abs t) = [] @ y # ys" using Cons by simp
  note from_y = each_from [OF wf E this]
  ultimately show ?thesis using Cons
    by (subst lws_table_each.simps) (simp add: from_y split: sum.split)
qed

section \<open>Set-Cookie\<close>

abbreviation (input) CHR_SEMICOLON :: byte where "CHR_SEMICOLON \<equiv> 59"
abbreviation (input) CHR_COMMA :: byte where "CHR_COMMA \<equiv> 44"
abbreviation (input) CHR_SP :: byte where "CHR_SP \<equiv> 32"
abbreviation (input) CHR_TAB :: byte where "CHR_TAB \<equiv> 9"

text \<open>After a \<open>;\<close>: does an Expires attribute follow? The string is what follows the \<open>;\<close>.\<close>

definition expires_follows :: "lws_env \<Rightarrow> ngx_str \<Rightarrow> bool" where
  "expires_follows E s =
     (let vattr = dropWhile (\<lambda>b. b = CHR_SP \<or> b = CHR_TAB) s in
      length vattr \<ge> 8 \<and> env_strncasecmp E vattr (lit ''Expires='') 8 = 0)"

text \<open>The inner loop: the bytes before the comma that ends the cookie, and the rest from that comma.\<close>

fun cookie_scan :: "lws_env \<Rightarrow> bool \<Rightarrow> ngx_str \<Rightarrow> ngx_str \<times> ngx_str" where
  "cookie_scan E expires [] = ([], [])"
| "cookie_scan E expires (b # s) =
     (if b = CHR_SEMICOLON then
        apfst ((#) b) (cookie_scan E (expires_follows E s) s)
      else if b = CHR_COMMA then
        if expires then apfst ((#) b) (cookie_scan E False s) else ([], b # s)
      else apfst ((#) b) (cookie_scan E expires s))"

lemma cookie_scan_length: "length (snd (cookie_scan E expires s)) \<le> length s"
  by (induction E expires s rule: cookie_scan.induct) auto

lemma cookie_rest_length:
  "cookie_scan E expires s = (cookie, r) \<Longrightarrow> r \<noteq> [] \<Longrightarrow> length (dropWhile P (tl r)) < length s"
  using cookie_scan_length [of E expires s] length_dropWhile_le [of P "tl r"] by (cases r) auto

text \<open>The outer loop; the list element for the next cookie is pushed already. \<open>push n\<close> tells whether
  \<open>ngx_list_push\<close> succeeds on a list of \<open>n\<close> headers.\<close>

function cookie_unfold ::
  "lws_env \<Rightarrow> (nat \<Rightarrow> bool) \<Rightarrow> ngx_str \<Rightarrow> ngx_str \<Rightarrow> (ngx_str \<times> ngx_str) list \<Rightarrow>
   (ngx_str \<times> ngx_str) list + (ngx_str \<times> ngx_str) list" where
  "cookie_unfold E push key vstart headers =
     (let (cookie, vpos) = cookie_scan E False vstart;
          headers = headers @ [(key, cookie)] in
      if vpos = [] then Inr headers
      else
        let vstart = dropWhile (\<lambda>b. b = CHR_SP) (tl vpos) in
        if vstart = [] then Inr headers
        else if \<not> push (length headers) then Inl headers
        else cookie_unfold E push key vstart headers)"
  by pat_completeness auto
termination
  by (relation "measure (\<lambda>(E, push, key, vstart, headers). length vstart)")
     (use cookie_rest_length in \<open>fastforce dest: sym\<close>)+

declare cookie_unfold.simps [simp del]

section \<open>lws_set_response_header\<close>

definition lws_is_header :: "lws_env \<Rightarrow> ngx_str \<Rightarrow> string \<Rightarrow> bool" where
  "lws_is_header E key literal \<longleftrightarrow> env_strncasecmp E key (lit literal) (length literal) = 0"

text \<open>The \<open>switch\<close> over the length of the name.\<close>

definition lws_known_header :: "lws_env \<Rightarrow> ngx_str \<Rightarrow> ngx_known option" where
  "lws_known_header E key =
     (if length key = 4 then
        if lws_is_header E key ''Date'' then Some H_DATE
        else if lws_is_header E key ''ETag'' then Some H_ETAG else None
      else if length key = 6 then
        if lws_is_header E key ''Server'' then Some H_SERVER else None
      else if length key = 7 then
        if lws_is_header E key ''Refresh'' then Some H_REFRESH
        else if lws_is_header E key ''Expires'' then Some H_EXPIRES else None
      else if length key = 8 then
        if lws_is_header E key ''Location'' then Some H_LOCATION else None
      else if length key = 13 then
        if lws_is_header E key ''Last-Modified'' then Some H_LAST_MODIFIED
        else if lws_is_header E key ''Content-Range'' then Some H_CONTENT_RANGE
        else if lws_is_header E key ''Accept-Ranges'' then Some H_ACCEPT_RANGES else None
      else if length key = 16 then
        if lws_is_header E key ''Content-Encoding'' then Some H_CONTENT_ENCODING
        else if lws_is_header E key ''WWW-Authenticate'' then Some H_WWW_AUTHENTICATE else None
      else None)"

text \<open>The body of the loop. \<open>parse_time\<close> is \<open>ngx_parse_http_time\<close>. The value of an item of the table is
  never NULL; a NULL would be dereferenced by the code.\<close>

definition lws_set_one_header ::
  "lws_env \<Rightarrow> (nat \<Rightarrow> bool) \<Rightarrow> (ngx_str \<Rightarrow> int) \<Rightarrow> ngx_str \<Rightarrow> ngx_str option \<Rightarrow>
   'a ngx_request_scheme \<Rightarrow> 'a ngx_request_scheme + 'a ngx_request_scheme" where
  "lws_set_one_header E push parse_time key val r =
     (let value = the val in
      if length key = 12 \<and> lws_is_header E key ''Content-Type'' then
        Inr (r\<lparr>r_content_type := value, r_content_type_len := length value\<rparr>)
      else if length key = 14 \<and> lws_is_header E key ''Content-Length'' then Inr r
      else if length key = 17 \<and> lws_is_header E key ''Transfer-Encoding'' then Inr r
      else if \<not> push (length (r_headers r)) then Inl r
      else
        let h = length (r_headers r);
            r = (case lws_known_header E key of
                   Some k \<Rightarrow> r\<lparr>r_known := (r_known r)(k \<mapsto> h)\<rparr> | None \<Rightarrow> r);
            r = (if lws_known_header E key = Some H_LAST_MODIFIED
                 then r\<lparr>r_last_modified_time := Some (parse_time value)\<rparr> else r)
        in
        if length key = 10 \<and> lws_is_header E key ''Set-Cookie'' then
          case cookie_unfold E push key value (r_headers r) of
            Inl headers \<Rightarrow> Inl (r\<lparr>r_headers := headers\<rparr>)
          | Inr headers \<Rightarrow> Inr (r\<lparr>r_headers := headers\<rparr>)
        else Inr (r\<lparr>r_headers := r_headers r @ [(key, value)]\<rparr>))"

definition lws_set_response_header ::
  "lws_env \<Rightarrow> (nat \<Rightarrow> bool) \<Rightarrow> (ngx_str \<Rightarrow> int) \<Rightarrow> ngx_str lws_table \<Rightarrow> 'a ngx_request_scheme \<Rightarrow>
   (int \<times> 'a ngx_request_scheme) option" where
  "lws_set_response_header E push parse_time response_headers r =
     map_option (\<lambda>res. case res of Inl r \<Rightarrow> (NGX_ERROR, r) | Inr r \<Rightarrow> (NGX_OK, r))
       (lws_table_each E response_headers (lws_set_one_header E push parse_time) None r)"

section \<open>What is set\<close>

text \<open>The cookies of a \<open>Set-Cookie\<close> value, and the header lines that an item of the table stands for.\<close>

function cookie_list :: "lws_env \<Rightarrow> ngx_str \<Rightarrow> ngx_str list" where
  "cookie_list E s =
     (let (cookie, r) = cookie_scan E False s; r' = dropWhile (\<lambda>b. b = CHR_SP) (tl r) in
      if r = [] \<or> r' = [] then [cookie] else cookie # cookie_list E r')"
  by pat_completeness auto
termination
proof (relation "measure (\<lambda>(E, s). length s)", goal_cases)
  case (2 E s z cookie r r')
  then show ?case using cookie_rest_length [of E False s cookie r] by simp
qed simp

declare cookie_list.simps [simp del]

lemma cookie_list_not_Nil: "cookie_list E s \<noteq> []"
  by (subst cookie_list.simps) (simp add: Let_def split: prod.split)

definition header_lines :: "lws_env \<Rightarrow> ngx_str \<Rightarrow> ngx_str \<Rightarrow> (ngx_str \<times> ngx_str) list" where
  "header_lines E key value =
     (if length key = 12 \<and> lws_is_header E key ''Content-Type'' \<or>
         length key = 14 \<and> lws_is_header E key ''Content-Length'' \<or>
         length key = 17 \<and> lws_is_header E key ''Transfer-Encoding'' then []
      else if length key = 10 \<and> lws_is_header E key ''Set-Cookie''
      then map (Pair key) (cookie_list E value)
      else [(key, value)])"

text \<open>Pushing lines on the list until there is no memory for one.\<close>

fun push_all :: "(nat \<Rightarrow> bool) \<Rightarrow> 'a list \<Rightarrow> 'a list \<Rightarrow> bool \<times> 'a list" where
  "push_all push hs [] = (True, hs)"
| "push_all push hs (l # ls) =
     (if push (length hs) then push_all push (hs @ [l]) ls else (False, hs))"

lemma push_all_append: "push_all push hs (as @ bs) =
  (case push_all push hs as of (ok, hs') \<Rightarrow> if ok then push_all push hs' bs else (False, hs'))"
  by (induction push hs as rule: push_all.induct) auto

lemma push_all_prefix: "push_all push hs ls = (ok, hs') \<Longrightarrow>
  \<exists>n\<le>length ls. hs' = hs @ take n ls \<and> (ok \<longrightarrow> n = length ls)"
proof (induction push hs ls arbitrary: ok hs' rule: push_all.induct)
  case (2 push hs l ls)
  show ?case
  proof (cases "push (length hs)")
    case True
    with 2 obtain n where "n \<le> length ls" "hs' = (hs @ [l]) @ take n ls" "ok \<longrightarrow> n = length ls"
      by fastforce
    then show ?thesis by (intro exI [of _ "Suc n"]) simp
  next
    case False
    with 2(2) show ?thesis by (intro exI [of _ 0]) auto
  qed
qed auto

lemma push_all_ok: "(\<And>n. push n) \<Longrightarrow> push_all push hs ls = (True, hs @ ls)"
  by (induction ls arbitrary: hs) auto

lemma cookie_unfold_push:
  "push (length hs) \<Longrightarrow> cookie_unfold E push key v hs =
     (case push_all push hs (map (Pair key) (cookie_list E v)) of
        (ok, hs') \<Rightarrow> if ok then Inr hs' else Inl hs')"
proof (induction "length v" arbitrary: v hs rule: less_induct)
  case less
  obtain cookie r where scan: "cookie_scan E False v = (cookie, r)" by force
  let ?r = "dropWhile (\<lambda>b. b = CHR_SP) (tl r)" and ?hs = "hs @ [(key, cookie)]"
  show ?case
  proof (cases "r = [] \<or> ?r = []")
    case True
    with scan less(2) show ?thesis
      by (auto simp: cookie_unfold.simps [of E push key v hs] cookie_list.simps [of E v] Let_def)
  next
    case False
    then have cookies: "cookie_list E v = cookie # cookie_list E ?r"
      by (simp add: cookie_list.simps [of E v] scan Let_def del: dropWhile_eq_Nil_conv)
    have unfold: "cookie_unfold E push key v hs =
        (if \<not> push (length ?hs) then Inl ?hs else cookie_unfold E push key ?r ?hs)"
      using False
      by (simp add: cookie_unfold.simps [of E push key v hs] scan Let_def del: dropWhile_eq_Nil_conv)
    obtain c cs where "cookie_list E ?r = c # cs"
      using cookie_list_not_Nil by (meson list.exhaust)
    with less(1) [of ?r ?hs] cookie_rest_length [OF scan] False less(2) show ?thesis
      unfolding unfold cookies by auto
  qed
qed

text \<open>The fields of the request that the headers do not concern.\<close>

definition request_frame :: "'a ngx_request_scheme \<Rightarrow> 'a ngx_request_scheme \<Rightarrow> bool" where
  "request_frame r' r \<longleftrightarrow> r' = r\<lparr>r_content_type := r_content_type r',
     r_content_type_len := r_content_type_len r', r_last_modified_time := r_last_modified_time r',
     r_headers := r_headers r', r_known := r_known r'\<rparr>"

text \<open>A known header is where the request says it is.\<close>

definition known_ok :: "lws_env \<Rightarrow> 'a ngx_request_scheme \<Rightarrow> bool" where
  "known_ok E r \<longleftrightarrow> (\<forall>k h. r_known r k = Some h \<longrightarrow>
     h < length (r_headers r) \<and> lws_known_header E (fst (r_headers r ! h)) = Some k)"

definition all_lines :: "lws_env \<Rightarrow> ngx_str item list \<Rightarrow> (ngx_str \<times> ngx_str) list" where
  "all_lines E xs = concat (map (\<lambda>x. header_lines E (fst x) (fst (snd x))) xs)"

definition push_result :: "(nat \<Rightarrow> bool) \<Rightarrow> (ngx_str \<times> ngx_str) list \<Rightarrow> 'a ngx_request_scheme \<Rightarrow>
    'a ngx_request_scheme + 'a ngx_request_scheme \<Rightarrow> bool" where
  "push_result push ls r res \<longleftrightarrow>
     (case res of Inl r' \<Rightarrow> push_all push (r_headers r) ls = (False, r_headers r') \<and> request_frame r' r
      | Inr r' \<Rightarrow> push_all push (r_headers r) ls = (True, r_headers r') \<and> request_frame r' r)"

lemma request_frame_refl [simp]: "request_frame r r"
  by (simp add: request_frame_def)

lemma request_frame_keeps: "request_frame r' r \<Longrightarrow> r_main r' = r_main r \<and> r_head r' = r_head r \<and>
  r_header_only r' = r_header_only r \<and> r_header_sent r' = r_header_sent r \<and>
  r_status r' = r_status r \<and> r_content_length r' = r_content_length r \<and> r_out r' = r_out r \<and>
  r_last r' = r_last r \<and> r_final r' = r_final r \<and> ngx_request.more r' = ngx_request.more r"
  by (cases r', cases r) (simp add: request_frame_def)

lemma request_frame_trans: "request_frame r1 r2 \<Longrightarrow> request_frame r2 r3 \<Longrightarrow> request_frame r1 r3"
  by (cases r1, cases r2, cases r3) (simp add: request_frame_def)

lemma set_one_header_push:
  "push_result push (header_lines E key v) r (lws_set_one_header E push parse_time key (Some v) r)"
proof (cases "length key = 12 \<and> lws_is_header E key ''Content-Type'' \<or>
    length key = 14 \<and> lws_is_header E key ''Content-Length'' \<or>
    length key = 17 \<and> lws_is_header E key ''Transfer-Encoding''")
  case True
  then show ?thesis
    by (auto simp: push_result_def lws_set_one_header_def header_lines_def request_frame_def)
next
  case False
  let ?cookie = "length key = 10 \<and> lws_is_header E key ''Set-Cookie''"
  show ?thesis
  proof (cases "push (length (r_headers r))")
    case True
    note unfold = cookie_unfold_push [of push "r_headers r" E key v, OF True]
    from False True show ?thesis
      by (auto simp: push_result_def lws_set_one_header_def header_lines_def request_frame_def
          unfold Let_def split: option.split prod.split sum.split if_splits)
  next
    case no: False
    obtain c cs where "cookie_list E v = c # cs"
      using cookie_list_not_Nil by (meson list.exhaust)
    with False no show ?thesis
      by (auto simp: push_result_def lws_set_one_header_def header_lines_def)
  qed
qed

lemma known_ok_append:
  "known_ok E r \<Longrightarrow> r_known r' = r_known r \<Longrightarrow> r_headers r' = r_headers r @ ls \<Longrightarrow> known_ok E r'"
  unfolding known_ok_def by (metis length_append nth_append trans_less_add1)

lemma known_header_length: "lws_known_header E key = Some k \<Longrightarrow> length key \<noteq> 10"
  by (auto simp: lws_known_header_def split: if_splits)

lemma set_one_header_known:
  assumes "known_ok E r"
    and "lws_set_one_header E push parse_time key (Some v) r = res" "res = Inl r' \<or> res = Inr r'"
  shows "known_ok E r'"
proof -
  from set_one_header_push [of push E key v r parse_time] assms(2,3) have
    "\<exists>ok. push_all push (r_headers r) (header_lines E key v) = (ok, r_headers r')"
    by (auto simp: push_result_def)
  then obtain n where headers: "r_headers r' = r_headers r @ take n (header_lines E key v)"
    using push_all_prefix by blast
  show ?thesis
  proof (cases "r_known r' = r_known r")
    case True
    with known_ok_append assms(1) headers show ?thesis by blast
  next
    case False
    with assms(2,3) obtain k where k: "lws_known_header E key = Some k"
      "r_known r' = (r_known r)(k \<mapsto> length (r_headers r))" "r_headers r' = r_headers r @ [(key, v)]"
      by (auto simp: lws_set_one_header_def Let_def known_header_length
          split: if_splits option.splits sum.splits)
    with assms(1) show ?thesis by (auto simp: known_ok_def nth_append less_Suc_eq)
  qed
qed

lemma each_item_push:
  fixes push parse_time E
  defines "body \<equiv> lws_set_one_header E push parse_time"
  shows "push_result push (all_lines E xs) r (each_item body xs r) \<and>
    (known_ok E r \<longrightarrow> (case each_item body xs r of Inl r' \<Rightarrow> known_ok E r' | Inr r' \<Rightarrow> known_ok E r'))"
proof (induction xs arbitrary: r)
  case Nil
  then show ?case by (simp add: push_result_def all_lines_def)
next
  case (Cons x xs)
  let ?key = "fst x" and ?v = "fst (snd x)"
  note one = set_one_header_push [of push E ?key ?v r parse_time]
  have lines: "all_lines E (x # xs) = header_lines E ?key ?v @ all_lines E xs"
    by (simp add: all_lines_def)
  show ?case
  proof (cases "body ?key (Some ?v) r")
    case (Inl r')
    with one set_one_header_known [of E r push parse_time ?key ?v "Inl r'" r'] show ?thesis
      by (simp add: push_result_def lines push_all_append body_def)
  next
    case (Inr r')
    with one set_one_header_known [of E r push parse_time ?key ?v "Inr r'" r'] Cons [of r'] show ?thesis
      by (auto simp: push_result_def lines push_all_append body_def split: sum.splits
          intro: request_frame_trans)
  qed
qed

lemma all_lines_safe: "push_all push hs ls = (ok, hs') \<Longrightarrow> set hs' \<subseteq> set hs \<union> set ls"
  using push_all_prefix [of push hs ls ok hs'] by (auto dest: in_set_takeD)

text \<open>C30: \<open>lws_set_response_header\<close> always returns. It puts the header lines of the items of the table
  on the list of response headers, in the order of the table, where the content type, length and
  encoding make no line and a \<open>Set-Cookie\<close> makes one line per cookie; if there is no memory for a
  line, it returns an error, and the lines before it are on the list. Every pointer that NGINX keeps
  to a header points to a line with that name, and the rest of the request is unchanged.\<close>

theorem lws_set_response_header_correct:
  assumes "table_wf E t" "strncasecmp_ok E"
  shows "\<exists>rc r'. lws_set_response_header E push parse_time t r = Some (rc, r') \<and>
    request_frame r' r \<and> (known_ok E r \<longrightarrow> known_ok E r') \<and> (rc = NGX_OK \<or> rc = NGX_ERROR) \<and>
    push_all push (r_headers r) (all_lines E (lru_items (lws_table_abs t))) =
      (rc = NGX_OK, r_headers r')"
  using each_item_push [of push E "lru_items (lws_table_abs t)" r parse_time]
  unfolding lws_set_response_header_def each_all [OF assms] push_result_def
  by (auto split: sum.splits)

section \<open>Cookies\<close>

text \<open>The documented behaviour of \<open>ngx_strncasecmp\<close> and \<open>ngx_tolower\<close> that the unfolding of cookies
  relies on: letters are ASCII letters, and only the first \<open>n\<close> bytes count.\<close>

definition ascii_env :: "lws_env \<Rightarrow> bool" where
  "ascii_env E \<longleftrightarrow> strncasecmp_ok E \<and> env_tolower E = ascii_tolower \<and>
     (\<forall>xs ys n. env_strncasecmp E xs ys n = env_strncasecmp E (take n xs) (take n ys) n)"

text \<open>The syntax of a cookie: a name and value and attributes, each after a \<open>;\<close>. A comma is only in
  the date of an Expires attribute, which has one.\<close>

definition is_expires :: "lws_env \<Rightarrow> ngx_str \<Rightarrow> bool" where
  "is_expires E a =
     (let vattr = dropWhile (\<lambda>b. b = CHR_SP \<or> b = CHR_TAB) a in
      length vattr \<ge> 8 \<and> map (env_tolower E) (take 8 vattr) = lit ''expires='')"

definition attribute_ok :: "lws_env \<Rightarrow> ngx_str \<Rightarrow> bool" where
  "attribute_ok E a \<longleftrightarrow> CHR_SEMICOLON \<notin> set a \<and>
     count_list a CHR_COMMA = (if is_expires E a then 1 else 0)"

definition cookie_ok :: "lws_env \<Rightarrow> ngx_str \<times> ngx_str list \<Rightarrow> bool" where
  "cookie_ok E c \<longleftrightarrow> fst c \<noteq> [] \<and> hd (fst c) \<noteq> CHR_SP \<and>
     CHR_SEMICOLON \<notin> set (fst c) \<and> CHR_COMMA \<notin> set (fst c) \<and> (\<forall>a\<in>set (snd c). attribute_ok E a)"

definition cookie_str :: "ngx_str \<times> ngx_str list \<Rightarrow> ngx_str" where
  "cookie_str c = fst c @ concat (map ((#) CHR_SEMICOLON) (snd c))"

lemma scan_plain: "CHR_SEMICOLON \<notin> set s \<Longrightarrow> CHR_COMMA \<notin> set s \<Longrightarrow>
  cookie_scan E e (s @ r) = apfst ((@) s) (cookie_scan E e r)"
  by (induction s) (auto simp: apfst_def map_prod_def split: prod.split)

lemma scan_date: "CHR_SEMICOLON \<notin> set s \<Longrightarrow> count_list s CHR_COMMA = 1 \<Longrightarrow>
  cookie_scan E True (s @ r) = apfst ((@) s) (cookie_scan E False r)"
  by (induction s) (auto simp: scan_plain count_list_0_iff apfst_def map_prod_def split: prod.split)

lemma expires_literal:
  "CHR_SEMICOLON \<notin> set (lit ''expires='')" "CHR_COMMA \<notin> set (lit ''expires='')"
  "0 \<notin> set (lit ''Expires='')" "map ascii_tolower (lit ''Expires='') = lit ''expires=''"
  by (simp_all add: lit_def ascii_tolower_def)

lemma c_view_full: "length (c_view s) = length s \<Longrightarrow> c_view s = s"
proof -
  assume "length (c_view s) = length s"
  moreover have "c_view s @ dropWhile (\<lambda>b. b \<noteq> 0) s = s" by (simp add: c_view_def)
  ultimately show "c_view s = s" by (metis append_eq_conv_conj take_all_iff order.refl)
qed

lemma expires_compare:
  assumes "ascii_env E" "8 \<le> length v"
  shows "env_strncasecmp E v (lit ''Expires='') 8 = 0 \<longleftrightarrow>
    map (env_tolower E) (take 8 v) = lit ''expires=''"
proof -
  let ?v = "take 8 v"
  have len: "length ?v = length (lit ''Expires='')" using assms(2) by simp
  have take: "take 8 (lit ''Expires='') = lit ''Expires=''" by simp
  have "env_strncasecmp E v (lit ''Expires='') 8 =
      env_strncasecmp E (take 8 v) (take 8 (lit ''Expires='')) 8"
    using assms(1) unfolding ascii_env_def by blast
  moreover have "(8::nat) = length (lit ''Expires='')" by simp
  ultimately have cmp: "env_strncasecmp E v (lit ''Expires='') 8 =
      env_strncasecmp E ?v (lit ''Expires='') (length (lit ''Expires=''))"
    unfolding take by metis
  have "strncasecmp_ok E" using assms(1) by (simp add: ascii_env_def)
  then have "env_strncasecmp E v (lit ''Expires='') 8 = 0 \<longleftrightarrow>
      map (env_tolower E) (c_view ?v) = map (env_tolower E) (c_view (lit ''Expires=''))"
    unfolding cmp strncasecmp_ok_def using len by blast
  also have "\<dots> \<longleftrightarrow> map ascii_tolower (c_view ?v) = lit ''expires=''"
    using assms(1) by (simp add: ascii_env_def c_view_no_nul expires_literal)
  also have "\<dots> \<longleftrightarrow> map ascii_tolower ?v = lit ''expires=''"
  proof
    assume "map ascii_tolower (c_view ?v) = lit ''expires=''"
    moreover from this have "length (c_view ?v) = length ?v"
      using len by (metis length_lit length_map list.size(4))
    ultimately show "map ascii_tolower ?v = lit ''expires=''" by (metis c_view_full)
  next
    assume eq: "map ascii_tolower ?v = lit ''expires=''"
    have "0 \<notin> set ?v"
    proof
      assume "0 \<in> set ?v"
      then have "ascii_tolower 0 \<in> set (map ascii_tolower ?v)" by (metis image_eqI list.set_map)
      then show False by (simp add: eq lit_def ascii_tolower_def)
    qed
    with eq show "map ascii_tolower (c_view ?v) = lit ''expires=''" by (simp add: c_view_no_nul)
  qed
  finally show ?thesis using assms(1) by (simp add: ascii_env_def)
qed

text \<open>The code tests the next eight bytes, which may reach past the end of an attribute.\<close>

lemma expires_follows_attribute:
  assumes "ascii_env E" "r = [] \<or> hd r = CHR_SEMICOLON \<or> hd r = CHR_COMMA"
  shows "expires_follows E (a @ r) \<longleftrightarrow> is_expires E a"
proof -
  let ?blank = "\<lambda>b. b = CHR_SP \<or> b = CHR_TAB"
  define w where "w = dropWhile ?blank a"
  have "dropWhile ?blank r = r" using assms(2) by (cases r) auto
  then have v: "dropWhile ?blank (a @ r) = w @ r"
    unfolding w_def by (induction a) auto
  have "expires_follows E (a @ r) \<longleftrightarrow>
      8 \<le> length (w @ r) \<and> map (env_tolower E) (take 8 (w @ r)) = lit ''expires=''"
    using expires_compare [OF assms(1), of "w @ r"] by (auto simp: expires_follows_def Let_def v)
  also have "\<dots> \<longleftrightarrow> 8 \<le> length w \<and> map (env_tolower E) (take 8 w) = lit ''expires=''"
  proof (cases "8 \<le> length w")
    case False
    have False if len: "8 \<le> length (w @ r)"
      and eq: "map (env_tolower E) (take 8 (w @ r)) = lit ''expires=''"
    proof -
      from len False obtain b r' where r: "r = b # r'" by (cases r) auto
      then have "b \<in> set (take 8 (w @ r))" using False by (cases "8 - length w") auto
      moreover have "map ascii_tolower (take 8 (w @ r)) = lit ''expires=''"
        using eq assms(1) by (simp add: ascii_env_def)
      ultimately have "ascii_tolower b \<in> set (lit ''expires='')" by (metis image_eqI list.set_map)
      with assms(2) r expires_literal show False by (auto simp: ascii_tolower_def)
    qed
    with False show ?thesis by blast
  qed simp
  finally show ?thesis by (simp add: is_expires_def Let_def w_def)
qed

lemma scan_attribute:
  assumes "ascii_env E" "attribute_ok E a" "r = [] \<or> hd r = CHR_SEMICOLON \<or> hd r = CHR_COMMA"
  shows "cookie_scan E e (CHR_SEMICOLON # a @ r) =
    apfst ((@) (CHR_SEMICOLON # a)) (cookie_scan E False r)"
proof (cases "is_expires E a")
  case True
  with assms(2) expires_follows_attribute [OF assms(1,3), of a] show ?thesis
    by (simp add: attribute_ok_def scan_date apfst_def map_prod_def split: prod.split)
next
  case False
  with assms(2) expires_follows_attribute [OF assms(1,3), of a] show ?thesis
    by (simp add: attribute_ok_def scan_plain count_list_0_iff apfst_def map_prod_def split: prod.split)
qed

lemma scan_cookie:
  assumes "ascii_env E" "cookie_ok E c" "r = [] \<or> hd r = CHR_COMMA"
  shows "cookie_scan E False (cookie_str c @ r) = (cookie_str c, r)"
proof -
  have "\<forall>a\<in>set as. attribute_ok E a \<Longrightarrow>
      cookie_scan E False (concat (map ((#) CHR_SEMICOLON) as) @ r) =
        (concat (map ((#) CHR_SEMICOLON) as), r)" for as
  proof (induction as)
    case Nil
    then show ?case using assms(3) by (cases r) auto
  next
    case (Cons a as)
    let ?r = "concat (map ((#) CHR_SEMICOLON) as) @ r"
    have "?r = [] \<or> hd ?r = CHR_SEMICOLON \<or> hd ?r = CHR_COMMA" using assms(3) by (cases as) auto
    from scan_attribute [OF assms(1) _ this, of a False] Cons show ?case by simp
  qed
  with assms(2) show ?thesis
    by (simp add: cookie_ok_def cookie_str_def scan_plain)
qed

lemma cookie_list_step:
  "cookie_scan E False s = (c, r) \<Longrightarrow> r \<noteq> [] \<Longrightarrow> dropWhile (\<lambda>b. b = CHR_SP) (tl r) = r' \<Longrightarrow> r' \<noteq> [] \<Longrightarrow>
    cookie_list E s = c # cookie_list E r'"
  by (subst cookie_list.simps) (auto simp: Let_def)

lemma cookie_join:
  assumes "ascii_env E"
  shows "cs \<noteq> [] \<Longrightarrow> \<forall>c\<in>set cs. cookie_ok E c \<Longrightarrow>
    cookie_list E (join_with (lit '', '') (map cookie_str cs)) = map cookie_str cs"
proof (induction cs)
  case (Cons c cs)
  have sep: "lit '', '' = [CHR_COMMA, CHR_SP]" by (simp add: lit_def)
  show ?case
  proof (cases cs)
    case Nil
    with scan_cookie [OF assms, of c "[]"] Cons show ?thesis by (simp add: cookie_list.simps)
  next
    case (Cons c' cs')
    let ?r = "join_with (lit '', '') (map cookie_str cs)"
    have "?r \<noteq> [] \<and> hd ?r \<noteq> CHR_SP"
      using Cons.prems Cons by (cases cs') (auto simp: cookie_ok_def cookie_str_def)
    then have r: "dropWhile (\<lambda>b. b = CHR_SP) (CHR_SP # ?r) = ?r" "?r \<noteq> []" by (cases ?r; simp)+
    have "join_with (lit '', '') (map cookie_str (c # cs)) = cookie_str c @ CHR_COMMA # CHR_SP # ?r"
      using Cons by (simp add: sep)
    moreover have "cookie_scan E False (cookie_str c @ CHR_COMMA # CHR_SP # ?r) =
        (cookie_str c, CHR_COMMA # CHR_SP # ?r)"
      using scan_cookie [OF assms] Cons.prems(2) by simp
    note cookie_list_step [OF this _ _ r(2)]
    ultimately show ?thesis using r(1) Cons.IH Cons Cons.prems(2) by simp
  qed
qed simp

text \<open>C31: Unfolding inverts folding: a \<open>Set-Cookie\<close> value that joins cookies with a comma and a space is
  unfolded into exactly these cookies, in order, commas in the dates of Expires attributes included,
  if there is memory for the lines.\<close>

theorem lws_set_cookie_unfold:
  assumes "ascii_env E" "cs \<noteq> []" "\<forall>c\<in>set cs. cookie_ok E c" "\<forall>n. push n"
  shows "cookie_unfold E push key (join_with (lit '', '') (map cookie_str cs)) headers =
    Inr (headers @ map (\<lambda>c. (key, cookie_str c)) cs)"
  using cookie_join [OF assms(1-3)] assms(4) push_all_ok [of push headers]
  by (simp add: cookie_unfold_push comp_def)

section \<open>A concrete response\<close>

lemma strncmp_take: "strncmp xs ys n = strncmp (take n xs) (take n ys) n"
  by (induction xs ys n rule: strncmp.induct) auto

lemma demo_ascii: "ascii_env demo_env"
  by (simp add: ascii_env_def demo_env_ok) (simp add: demo_env_def take_map [symmetric] strncmp_take [symmetric])

definition demo_resp_start :: "ngx_str lws_table" where
  "demo_resp_start = \<lparr>t_alloc = 7, t_load = 4, t_count = 0, t_entries = replicate 7 zero_entry,
     t_order = [], t_timeout = 0, t_cap = 0, t_dup = True, t_free = True, t_ci = True,
     t_timed = False, t_capped = False, t_freed = []\<rparr>"

definition demo_resp_entry :: "string \<Rightarrow> ngx_str \<Rightarrow> 64 word \<Rightarrow> ngx_str lws_table_entry" where
  "demo_resp_entry k v h = \<lparr>e_key = lit k, e_value = Some v, e_hash = h, e_time = 0,
     e_state = LWS_TES_SET\<rparr>"

definition demo_cookies :: "(ngx_str \<times> ngx_str list) list" where
  "demo_cookies = [(lit ''a=1'', [lit '' Expires=Thu, 01 Jan'']), (lit ''b=2'', [])]"

definition demo_cookie_value :: ngx_str where
  "demo_cookie_value = join_with (lit '', '') (map cookie_str demo_cookies)"

definition demo_resp_1 :: "ngx_str lws_table" where
  "demo_resp_1 = demo_resp_start\<lparr>t_count := 1, t_order := [6], t_entries := (replicate 7 zero_entry)
     [6 := demo_resp_entry ''Content-Length'' (lit ''9'') 10250265592742770489]\<rparr>"

definition demo_resp_2 :: "ngx_str lws_table" where
  "demo_resp_2 = demo_resp_start\<lparr>t_count := 2, t_order := [6, 3], t_entries := (replicate 7 zero_entry)
     [6 := demo_resp_entry ''Content-Length'' (lit ''9'') 10250265592742770489,
      3 := demo_resp_entry ''Set-Cookie'' demo_cookie_value 7886910202215451298]\<rparr>"

definition demo_resp :: "ngx_str lws_table" where
  "demo_resp = demo_resp_start\<lparr>t_count := 3, t_order := [6, 3, 2], t_entries := (replicate 7 zero_entry)
     [6 := demo_resp_entry ''Content-Length'' (lit ''9'') 10250265592742770489,
      3 := demo_resp_entry ''Set-Cookie'' demo_cookie_value 7886910202215451298,
      2 := demo_resp_entry ''Date'' (lit ''now'') 13449913597764905557]\<rparr>"

lemma demo_resp_hash:
  assumes "t_ci t"
  shows "lws_table_hash demo_env t (lit ''Content-Length'') = 10250265592742770489"
    "lws_table_hash demo_env t (lit ''Set-Cookie'') = 7886910202215451298"
    "lws_table_hash demo_env t (lit ''Date'') = 13449913597764905557"
  unfolding lit_def using assms by (simp_all add: demo_hash_simps)

lemma demo_start_reach: "lws_table_reach demo_env demo_resp_start"
proof -
  have "lws_table_create demo_env 4 = Some (demo_resp_start\<lparr>t_dup := False, t_free := False, t_ci := False\<rparr>)"
    by (simp add: lws_table_create_def lws_table_size_find lws_table_sizes_def lws_table_sizes_n_def
        demo_env_def lws_table_load_def demo_resp_start_def)
  note r = lws_table_reach.create [OF this, where E = demo_env]
  note r = lws_table_reach.set_dup [OF r surjective_pairing, where b = True]
  note r = lws_table_reach.set_free [OF r surjective_pairing, where b = True]
  note r = lws_table_reach.set_ci [OF r surjective_pairing, where b = True]
  from r show ?thesis by (simp add: set_option_defs demo_resp_start_def)
qed

lemmas demo_resp_defs = demo_resp_start_def demo_resp_entry_def demo_resp_1_def demo_resp_2_def demo_resp_def

lemma demo_resp_set_1:
  "lws_table_set demo_env demo_resp_start (lit ''Content-Length'') (Some (lit ''9'')) = Some (0, demo_resp_1)"
  by (simp add: demo_eval demo_resp_defs demo_resp_hash demo_env_sel)

lemma demo_resp_reach: "lws_table_reach demo_env demo_resp"
proof -
  note p = same_process_refl [OF demo_env_ok]
  note r = lws_table_reach.set [OF demo_start_reach p demo_resp_set_1]
  have "lws_table_set demo_env demo_resp_1 (lit ''Set-Cookie'') (Some demo_cookie_value) =
      Some (0, demo_resp_2)"
    by (simp add: demo_eval demo_resp_defs demo_resp_hash demo_env_sel)
  note r = lws_table_reach.set [OF r p this]
  have "lws_table_set demo_env demo_resp_2 (lit ''Date'') (Some (lit ''now'')) = Some (0, demo_resp)"
    by (simp add: demo_eval demo_resp_defs demo_resp_hash demo_env_sel)
  from lws_table_reach.set [OF r p this] show ?thesis .
qed

lemmas demo_resp_wf = reach_wf [OF demo_resp_reach]

lemma demo_resp_items: "map (\<lambda>x. (fst x, fst (snd x))) (lru_items (lws_table_abs demo_resp)) =
  [(lit ''Content-Length'', lit ''9''), (lit ''Set-Cookie'', demo_cookie_value),
   (lit ''Date'', lit ''now'')]"
  by (simp add: lws_table_items_def demo_resp_def demo_resp_start_def demo_resp_entry_def)

definition demo_request :: ngx_request where
  "demo_request = \<lparr>r_main = True, r_head = False, r_header_only = False, r_header_sent = False,
     r_disable_not_modified = False, r_status = 0, r_content_type = [], r_content_type_len = 0,
     r_charset = [], r_content_length = None, r_last_modified_time = None, r_headers = [],
     r_known = Map.empty, r_out = [], r_last = False, r_final = []\<rparr>"

lemma all_lines_map: "all_lines E xs =
    concat (map (\<lambda>(k, v). header_lines E k v) (map (\<lambda>x. (fst x, fst (snd x))) xs))"
  by (simp add: all_lines_def comp_def)

lemma demo_cookies_ok: "\<forall>c\<in>set demo_cookies. cookie_ok demo_env c"
  by (simp add: demo_cookies_def cookie_ok_def attribute_ok_def is_expires_def lit_def
      demo_env_sel ascii_tolower_def)

lemma demo_lines: "all_lines demo_env (lru_items (lws_table_abs demo_resp)) =
  [(lit ''Set-Cookie'', lit ''a=1; Expires=Thu, 01 Jan''), (lit ''Set-Cookie'', lit ''b=2''),
   (lit ''Date'', lit ''now'')]"
proof -
  have "cookie_list demo_env demo_cookie_value = map cookie_str demo_cookies"
    unfolding demo_cookie_value_def
    by (rule cookie_join [OF demo_ascii _ demo_cookies_ok]) (simp add: demo_cookies_def)
  then have "header_lines demo_env (lit ''Set-Cookie'') demo_cookie_value =
      map (Pair (lit ''Set-Cookie'')) (map cookie_str demo_cookies)"
    by (simp add: header_lines_def lws_is_header_def demo_env_def lit_def ascii_tolower_def)
  moreover have "header_lines demo_env (lit ''Content-Length'') v = []" for v
    by (simp add: header_lines_def lws_is_header_def demo_env_def lit_def ascii_tolower_def)
  moreover have "header_lines demo_env (lit ''Date'') v = [(lit ''Date'', v)]" for v
    by (simp add: header_lines_def)
  ultimately show ?thesis
    unfolding all_lines_map demo_resp_items by (simp add: demo_cookies_def cookie_str_def lit_def)
qed

theorem lws_set_response_header_correct_witness:
  "\<exists>r'. lws_set_response_header demo_env (\<lambda>_. True) (\<lambda>_. 0) demo_resp demo_request = Some (NGX_OK, r') \<and>
     known_ok demo_env r' \<and> r_final r' = [] \<and>
     r_headers r' = [(lit ''Set-Cookie'', lit ''a=1; Expires=Thu, 01 Jan''),
       (lit ''Set-Cookie'', lit ''b=2''), (lit ''Date'', lit ''now'')]"
proof -
  have r: "known_ok demo_env demo_request" "r_headers demo_request = []" "r_final demo_request = []"
    by (simp_all add: known_ok_def demo_request_def)
  from lws_set_response_header_correct
    [OF demo_resp_wf demo_env_ok, of "\<lambda>_. True" "\<lambda>_. 0" demo_request, unfolded demo_lines]
  obtain rc r' where
    "lws_set_response_header demo_env (\<lambda>_. True) (\<lambda>_. 0) demo_resp demo_request = Some (rc, r')"
    "request_frame r' demo_request" "known_ok demo_env r'" "rc = NGX_OK"
    "r_headers r' = [(lit ''Set-Cookie'', lit ''a=1; Expires=Thu, 01 Jan''),
       (lit ''Set-Cookie'', lit ''b=2''), (lit ''Date'', lit ''now'')]"
    using r by (auto simp: push_all_ok)
  with request_frame_keeps [of r' demo_request] r(3) show ?thesis by auto
qed

theorem lws_set_cookie_unfold_witness:
  "cookie_unfold demo_env (\<lambda>_. True) [] (lit ''a=1; Expires=Thu, 01 Jan, b=2'') [] =
     Inr [([], lit ''a=1; Expires=Thu, 01 Jan''), ([], lit ''b=2'')]"
  using lws_set_cookie_unfold [OF demo_ascii _ demo_cookies_ok, of "\<lambda>_. True" "[]" "[]"]
  by (simp add: demo_cookies_def cookie_str_def lit_def)

end
