(* ===== verification/LwsRun.thy ===== *)
theory LwsRun
  imports LwsResponse
begin

text \<open>
  The Lua side of a request, from src/lws_lib.c: the functions of the LWS library that change the
  state of a request, the response table with its metamethods, the flushing of the response body,
  and \<open>lws_run\<close>, which runs the init, pre, main and post chunk.

  The Lua code of a chunk is a parameter: a tree of calls of the library. Each call continues with
  what the library answers, an error included, so that the code may decide by the answers and catch
  errors with \<open>pcall\<close>. The Lua version is 5.2 or later.
\<close>

section \<open>Lua values and code\<close>

text \<open>\<open>LuaInt\<close> is a number with an integral value, \<open>LuaOther\<close> a value that is neither nil nor
  convertible to an integer.\<close>

datatype lua_value = LuaNil | LuaInt "64 word" | LuaString ngx_str | LuaOther

datatype lws_lua_chunk = LWS_LC_INIT | LWS_LC_PRE | LWS_LC_MAIN | LWS_LC_POST

text \<open>What the operating system answers in one call of the library: whether memory is there for a
  block of some size, whether \<open>ftell\<close> and \<open>fflush\<close> succeed, and the results of \<open>write\<close>. When the list
  of results is used up, \<open>write\<close> takes all that is left.\<close>

datatype lws_write = WRITTEN nat | WRITE_EINTR | WRITE_FAILED

record lws_lua_answers =
  an_alloc :: "nat \<Rightarrow> bool"
  an_ftell :: bool
  an_fflush :: bool
  an_write :: "lws_write list"

text \<open>The calls of the library. The body of the response is written with the functions of the Lua
  file handle; \<open>BodyWrite\<close> is its \<open>write\<close> method.\<close>

datatype lws_api =
    GetVariable ngx_str
  | Redirect ngx_str "ngx_str option"
  | SetComplete
  | SetClose
  | RequestHeaderIndex ngx_str
  | RequestHeaderNewindex ngx_str ngx_str
  | HeaderIndex ngx_str
  | HeaderNewindex ngx_str ngx_str
  | HeaderNext "ngx_str option"
  | ResponseIndex ngx_str
  | ResponseNewindex ngx_str lua_value
  | BodyWrite ngx_str
  | BodyFlush

text \<open>An answer of the library: the error value, or the value returned.\<close>

type_synonym lws_reply = "lua_value + lua_value"

datatype lua_code =
    Return lua_value
  | Throw lua_value
  | Call lws_lua_answers lws_api "lws_reply \<Rightarrow> lua_code"

text \<open>The parts of Lua that the library uses: loading a file, the conversion of strings to integers,
  and the texts that Lua makes.\<close>

record lws_lua =
  ll_load :: "ngx_str \<Rightarrow> lua_code option"
  ll_load_error :: "ngx_str \<Rightarrow> ngx_str"
  ll_integer :: "ngx_str \<Rightarrow> 64 word option"
  ll_number :: "64 word \<Rightarrow> ngx_str"
  ll_d :: "int \<Rightarrow> ngx_str"
  ll_argerror :: "nat \<Rightarrow> ngx_str \<Rightarrow> ngx_str"
  ll_index_nil :: ngx_str
  ll_traceback :: "ngx_str \<Rightarrow> ngx_str"

definition lua_tointegerx :: "lws_lua \<Rightarrow> lua_value \<Rightarrow> 64 word option" where
  "lua_tointegerx LL v = (case v of LuaInt i \<Rightarrow> Some i | LuaString s \<Rightarrow> ll_integer LL s | _ \<Rightarrow> None)"

section \<open>The request context\<close>

text \<open>The environment of a cached chunk: the globals of the state, or that of the request.\<close>

datatype lua_env = ENV_GLOBALS | ENV_REQUEST

text \<open>The fields of \<open>lws_lua_request_ctx_t\<close>, and of \<open>lws_request_ctx_t\<close> and \<open>lws_state_t\<close> as far as the
  library uses them. \<open>k_env\<close> tells whether the environment of the request has been made,
  \<open>k_readonly\<close> is the flag of the table of response headers, \<open>k_raw\<close> are the fields of the response
  table itself, \<open>k_body\<close> is the content of the response body up to the write position, \<open>k_pipe1\<close>
  tells whether the write end of the streaming pipe is open, \<open>k_pipe\<close> are the bytes written to it,
  \<open>k_chunks\<close> are the cached functions with their environment. Four fields are not in the code:
  \<open>k_written\<close> logs what Lua wrote to the body, \<open>k_broken\<close> is set when \<open>write\<close> has failed,
  \<open>k_trace\<close> logs the chunks called with their outcome, and \<open>k_dups\<close> counts the strings that
  \<open>lws_strdup\<close> has allocated.\<close>

record lws_lua_request_ctx =
  k_chunk :: lws_lua_chunk
  k_complete :: bool
  k_sealed :: bool
  k_env :: bool
  k_readonly :: bool
  k_headers :: "ngx_str lws_table"
  k_request_headers :: "ngx_str lws_table"
  k_variables :: "ngx_str lws_table"
  k_raw :: "ngx_str \<rightharpoonup> lua_value"
  k_status :: int
  k_redirect :: dup_str
  k_redirect_args :: dup_str
  k_body :: ngx_str
  k_pipe1 :: bool
  k_pipe :: ngx_str
  k_close :: bool
  k_init :: bool
  k_chunks :: "ngx_str \<rightharpoonup> lua_code \<times> lua_env"
  k_written :: ngx_str
  k_broken :: bool
  k_trace :: "(lws_lua_chunk \<times> (lua_value + int)) list"
  k_dups :: nat

definition lws_chunk_names :: "lws_lua_chunk \<Rightarrow> ngx_str" where
  "lws_chunk_names chunk = lit (case chunk of LWS_LC_INIT \<Rightarrow> ''init'' | LWS_LC_PRE \<Rightarrow> ''pre''
     | LWS_LC_MAIN \<Rightarrow> ''main'' | LWS_LC_POST \<Rightarrow> ''post'')"

text \<open>\<open>luaL_error\<close> with a plain message.\<close>

abbreviation (input) err :: "string \<Rightarrow> lws_reply" where
  "err msg \<equiv> Inl (LuaString (lit msg))"

definition answer_env :: "lws_env \<Rightarrow> lws_lua_answers \<Rightarrow> lws_env" where
  "answer_env E ans = E\<lparr>env_alloc_ok := an_alloc ans, env_calloc_ok := an_alloc ans\<rparr>"

text \<open>The result tells whether there was memory. The pointer is assigned in any case, the length only
  on success.\<close>

definition lws_strdup :: "lws_lua_answers \<Rightarrow> dup_str \<Rightarrow> ngx_str \<Rightarrow> bool \<times> dup_str" where
  "lws_strdup ans dst src =
     (if \<not> an_alloc ans (length src) then (False, (None, snd dst))
      else (True, (Some src, length src)))"

section \<open>Tables of headers\<close>

definition lws_lua_table_index ::
  "lws_env \<Rightarrow> ngx_str lws_table \<Rightarrow> ngx_str \<Rightarrow> (lws_reply \<times> ngx_str lws_table) option" where
  "lws_lua_table_index E t key =
     do {
       (value, t) \<leftarrow> lws_table_get E t key;
       Some (Inr (case value of Some v \<Rightarrow> LuaString v | None \<Rightarrow> LuaNil), t)
     }"

definition header_name_char :: "byte \<Rightarrow> bool" where
  "header_name_char ch \<longleftrightarrow> (48 \<le> ch \<and> ch \<le> 57) \<or> (65 \<le> ch \<and> ch \<le> 90) \<or> (97 \<le> ch \<and> ch \<le> 122) \<or>
     ch \<in> set (lit ''!#$%&'' @ [39] @ lit ''*+-.^_`|~'')"

definition header_value_char :: "byte \<Rightarrow> bool" where
  "header_value_char ch \<longleftrightarrow> \<not> ((ch < 32 \<and> ch \<noteq> 9) \<or> ch = 127)"

definition sizeof_ngx_str_t :: nat where "sizeof_ngx_str_t = 16"

definition lws_lua_table_newindex ::
  "lws_env \<Rightarrow> bool \<Rightarrow> ngx_str lws_table \<Rightarrow> ngx_str \<Rightarrow> ngx_str \<Rightarrow>
   (lws_reply \<times> ngx_str lws_table) option" where
  "lws_lua_table_newindex E readonly t key value =
     (if readonly then Some (err ''table is read-only'', t)
      else if key = [] then Some (err ''bad response header name'', t)
      else if \<not> list_all header_name_char key then Some (err ''bad response header name'', t)
      else if \<not> list_all header_value_char value then Some (err ''bad response header value'', t)
      else if \<not> env_alloc_ok E (sizeof_ngx_str_t + length value)
      then Some (err ''failed to allocate string'', t)
      else do {
        (rc, t) \<leftarrow> lws_table_set E t key (Some value);
        if rc \<noteq> 0 then Some (err ''failed to set table value'', t) else Some (Inr LuaNil, t)
      })"

text \<open>One step of \<open>pairs\<close>: the values pushed, nil at the end of the table, or a key and its value.\<close>

definition lws_lua_table_next ::
  "lws_env \<Rightarrow> ngx_str lws_table \<Rightarrow> ngx_str option \<Rightarrow> lua_value list option" where
  "lws_lua_table_next E t key =
     map_option (\<lambda>res. case res of None \<Rightarrow> [LuaNil]
         | Some (k, v) \<Rightarrow> [LuaString k, LuaString (the v)])
       (lws_table_next E t key)"

section \<open>The response table\<close>

definition lws_lua_response_index :: "ngx_str \<Rightarrow> lws_lua_request_ctx \<Rightarrow> lws_reply" where
  "lws_lua_response_index key k =
     (if length key = 5 \<and> strncmp key (lit ''flush'') 5 = 0 then Inr LuaOther
      else if length key = 6 \<and> strncmp key (lit ''status'') 6 = 0
      then Inr (LuaInt (of_int (k_status k)))
      else Inr (case k_raw k key of Some v \<Rightarrow> v | None \<Rightarrow> LuaNil))"

definition lws_lua_response_newindex ::
  "lws_lua \<Rightarrow> ngx_str \<Rightarrow> lua_value \<Rightarrow> lws_lua_request_ctx \<Rightarrow> lws_reply \<times> lws_lua_request_ctx" where
  "lws_lua_response_newindex LL key value k =
     (if length key = 6 \<and> strncmp key (lit ''status'') 6 = 0 then
        case lua_tointegerx LL value of
          None \<Rightarrow> (Inl (LuaString (ll_argerror LL 3 (lit ''number expected''))), k)
        | Some i \<Rightarrow>
            if k_sealed k then (err ''response header sealed'', k)
            else (Inr LuaNil, k\<lparr>k_status := sint (ucast i :: 32 word)\<rparr>)
      else (Inr LuaNil, k\<lparr>k_raw := (k_raw k)(key := if value = LuaNil then None else Some value)\<rparr>))"

section \<open>The response body\<close>

text \<open>The loop of \<open>write\<close> calls: whether all was written, and the bytes that were.\<close>

fun flush_write :: "lws_write list \<Rightarrow> ngx_str \<Rightarrow> bool \<times> ngx_str" where
  "flush_write ws [] = (True, [])"
| "flush_write [] (b # s) = (True, b # s)"
| "flush_write (WRITTEN n # ws) (b # s) =
     (if n > 0 then apsnd ((@) (take n (b # s))) (flush_write ws (drop n (b # s)))
      else (False, []))"
| "flush_write (WRITE_EINTR # ws) (b # s) = flush_write ws (b # s)"
| "flush_write (WRITE_FAILED # ws) (b # s) = (False, [])"

abbreviation (input) SSIZE_MAX :: nat where "SSIZE_MAX \<equiv> 9223372036854775807"

definition lws_file_flush_hook ::
  "lws_lua_answers \<Rightarrow> lws_lua_request_ctx \<Rightarrow> lws_reply \<times> lws_lua_request_ctx" where
  "lws_file_flush_hook ans k =
     (if snd (k_redirect k) \<noteq> 0 then (err ''response redirected'', k)
      else if \<not> k_pipe1 k then (err ''response streaming unavailable'', k)
      else if \<not> an_ftell ans then (err ''failed to get response body size'', k)
      else if length (k_body k) > SSIZE_MAX then (err ''response body too large'', k)
      else
        let k = k\<lparr>k_sealed := True, k_readonly := True\<rparr> in
        if length (k_body k) > 0 then
          if \<not> an_fflush ans then (err ''failed to flush response body'', k)
          else
            let (ok, out) = flush_write (an_write ans) (k_body k);
                k = k\<lparr>k_pipe := k_pipe k @ out\<rparr> in
            if \<not> ok then (err ''failed to write response'', k\<lparr>k_broken := True\<rparr>)
            else (Inr LuaNil, k\<lparr>k_body := []\<rparr>)
        else (Inr LuaNil, k))"

definition body_write :: "ngx_str \<Rightarrow> lws_lua_request_ctx \<Rightarrow> lws_lua_request_ctx" where
  "body_write bytes k = k\<lparr>k_body := k_body k @ bytes, k_written := k_written k @ bytes\<rparr>"

section \<open>Library functions\<close>

definition lws_getvariable ::
  "lws_env \<Rightarrow> ngx_str \<Rightarrow> lws_lua_request_ctx \<Rightarrow> (lws_reply \<times> lws_lua_request_ctx) option" where
  "lws_getvariable E key k =
     do {
       (value, t) \<leftarrow> lws_table_get E (k_variables k) key;
       Some (Inr (case value of Some v \<Rightarrow> LuaString v | None \<Rightarrow> LuaNil), k\<lparr>k_variables := t\<rparr>)
     }"

definition not_allowed :: "lws_lua_request_ctx \<Rightarrow> lws_reply" where
  "not_allowed k = Inl (LuaString (lit ''not allowed in '' @ lws_chunk_names (k_chunk k) @ lit '' chunk''))"

text \<open>The first byte of a Lua string; an empty string has its terminating NUL there.\<close>

definition first_byte :: "ngx_str \<Rightarrow> byte" where
  "first_byte s = (case s of [] \<Rightarrow> 0 | b # _ \<Rightarrow> b)"

abbreviation (input) CHR_AT :: byte where "CHR_AT \<equiv> 64"

text \<open>The copies that \<open>lws_redirect\<close> makes: first of the arguments of a path, then of the path or name.\<close>

definition redirect_dup_args ::
  "lws_lua_answers \<Rightarrow> ngx_str \<Rightarrow> ngx_str option \<Rightarrow> lws_lua_request_ctx \<Rightarrow> bool \<times> lws_lua_request_ctx" where
  "redirect_dup_args ans path args k =
     (case args of
        None \<Rightarrow> (True, k)
      | Some a \<Rightarrow>
          if first_byte path = CHR_AT then (True, k)
          else let (ok, d) = lws_strdup ans (k_redirect_args k) a in
            (ok, k\<lparr>k_redirect_args := d, k_dups := k_dups k + of_bool ok\<rparr>))"

definition redirect_dup ::
  "lws_lua_answers \<Rightarrow> ngx_str \<Rightarrow> lws_lua_request_ctx \<Rightarrow> bool \<times> lws_lua_request_ctx" where
  "redirect_dup ans path k =
     (let (ok, d) = lws_strdup ans (k_redirect k) path in
      (ok, k\<lparr>k_redirect := d, k_dups := k_dups k + of_bool ok\<rparr>))"

definition lws_redirect ::
  "lws_lua \<Rightarrow> lws_lua_answers \<Rightarrow> ngx_str \<Rightarrow> ngx_str option \<Rightarrow> lws_lua_request_ctx \<Rightarrow>
   lws_reply \<times> lws_lua_request_ctx" where
  "lws_redirect LL ans path args k =
     (if k_chunk k \<noteq> LWS_LC_PRE \<and> k_chunk k \<noteq> LWS_LC_MAIN then (not_allowed k, k)
      else if k_sealed k then (err ''response header sealed'', k)
      else if \<not> length path > (if first_byte path \<noteq> CHR_AT then 0 else 1)
      then (Inl (LuaString (ll_argerror LL 1 (lit ''empty path or name''))), k)
      else
        let (ok, k) = redirect_dup_args ans path args k in
        if \<not> ok then (err ''failed to allocate string'', k)
        else
          let (ok, k) = redirect_dup ans path k in
          if \<not> ok then (err ''failed to allocate string'', k)
          else (Inr LuaNil, if k_chunk k = LWS_LC_PRE then k\<lparr>k_complete := True\<rparr> else k))"

definition lws_setcomplete :: "lws_lua_request_ctx \<Rightarrow> lws_reply \<times> lws_lua_request_ctx" where
  "lws_setcomplete k =
     (if k_chunk k \<noteq> LWS_LC_PRE then (not_allowed k, k) else (Inr LuaNil, k\<lparr>k_complete := True\<rparr>))"

definition lws_setclose :: "lws_lua_request_ctx \<Rightarrow> lws_reply \<times> lws_lua_request_ctx" where
  "lws_setclose k = (Inr LuaNil, k\<lparr>k_close := True\<rparr>)"

section \<open>Running code\<close>

text \<open>One call of the library. \<open>BodyFlush\<close> is the \<open>flush\<close> method of the response body or of the response
  table; \<open>HeaderNext\<close> hands its first value, the key, to the Lua code. The tables of the request and of the response are in the environment of
  the request; without it, Lua indexes nil. The result is \<open>None\<close> if a search in a table never ends.\<close>

definition needs_env :: "lws_api \<Rightarrow> bool" where
  "needs_env api = (case api of GetVariable _ \<Rightarrow> False | Redirect _ _ \<Rightarrow> False | SetComplete \<Rightarrow> False
     | SetClose \<Rightarrow> False | _ \<Rightarrow> True)"

fun api_step :: "lws_lua \<Rightarrow> lws_env \<Rightarrow> lws_lua_answers \<Rightarrow> lws_api \<Rightarrow> lws_lua_request_ctx \<Rightarrow>
    (lws_reply \<times> lws_lua_request_ctx) option" where
  "api_step LL E ans (GetVariable key) k = lws_getvariable E key k"
| "api_step LL E ans (Redirect path args) k = Some (lws_redirect LL ans path args k)"
| "api_step LL E ans SetComplete k = Some (lws_setcomplete k)"
| "api_step LL E ans SetClose k = Some (lws_setclose k)"
| "api_step LL E ans (RequestHeaderIndex key) k =
     map_option (map_prod id (\<lambda>t. k\<lparr>k_request_headers := t\<rparr>))
       (lws_lua_table_index E (k_request_headers k) key)"
| "api_step LL E ans (RequestHeaderNewindex key value) k =
     map_option (map_prod id (\<lambda>t. k\<lparr>k_request_headers := t\<rparr>))
       (lws_lua_table_newindex E True (k_request_headers k) key value)"
| "api_step LL E ans (HeaderIndex key) k =
     map_option (map_prod id (\<lambda>t. k\<lparr>k_headers := t\<rparr>)) (lws_lua_table_index E (k_headers k) key)"
| "api_step LL E ans (HeaderNewindex key value) k =
     map_option (map_prod id (\<lambda>t. k\<lparr>k_headers := t\<rparr>))
       (lws_lua_table_newindex E (k_readonly k) (k_headers k) key value)"
| "api_step LL E ans (HeaderNext key) k =
     map_option (\<lambda>vs. (Inr (hd vs), k)) (lws_lua_table_next E (k_headers k) key)"
| "api_step LL E ans (ResponseIndex key) k = Some (lws_lua_response_index key k, k)"
| "api_step LL E ans (ResponseNewindex key value) k = Some (lws_lua_response_newindex LL key value k)"
| "api_step LL E ans (BodyWrite bytes) k = Some (Inr LuaNil, body_write bytes k)"
| "api_step LL E ans BodyFlush k = Some (lws_file_flush_hook ans k)"

definition api_call :: "lws_lua \<Rightarrow> lws_env \<Rightarrow> lws_lua_answers \<Rightarrow> lws_api \<Rightarrow> lws_lua_request_ctx \<Rightarrow>
    (lws_reply \<times> lws_lua_request_ctx) option" where
  "api_call LL E ans api k =
     (if needs_env api \<and> \<not> k_env k then Some (Inl (LuaString (ll_index_nil LL)), k)
      else api_step LL (answer_env E ans) ans api k)"

primrec run_code :: "lws_lua \<Rightarrow> lws_env \<Rightarrow> lua_code \<Rightarrow> lws_lua_request_ctx \<Rightarrow>
    (lws_reply \<times> lws_lua_request_ctx) option" where
  "run_code LL E (Return v) k = Some (Inr v, k)"
| "run_code LL E (Throw e) k = Some (Inl e, k)"
| "run_code LL E (Call ans api c) k =
     (case api_call LL E ans api k of None \<Rightarrow> None | Some (r, k) \<Rightarrow> run_code LL E (c r) k)"

section \<open>Running chunks\<close>

text \<open>The function of a file: cached, or loaded and put in the cache.\<close>

definition get_chunk ::
  "lws_lua \<Rightarrow> ngx_str \<Rightarrow> lws_lua_request_ctx \<Rightarrow> lua_code option \<times> lws_lua_request_ctx" where
  "get_chunk LL filename k =
     (case k_chunks k filename of
        Some (code, _) \<Rightarrow> (Some code, k)
      | None \<Rightarrow>
          (case ll_load LL filename of
             None \<Rightarrow> (None, k)
           | Some code \<Rightarrow>
               (Some code, k\<lparr>k_chunks := (k_chunks k)(filename \<mapsto> (code, ENV_GLOBALS))\<rparr>)))"

definition set_chunk_env :: "ngx_str \<Rightarrow> lua_env \<Rightarrow> lws_lua_request_ctx \<Rightarrow> lws_lua_request_ctx" where
  "set_chunk_env filename env k =
     (case k_chunks k filename of
        Some (code, _) \<Rightarrow> k\<lparr>k_chunks := (k_chunks k)(filename \<mapsto> (code, env))\<rparr>
      | None \<Rightarrow> k)"

text \<open>The integer that stands for the value returned, narrowed from \<open>lua_Integer\<close> to \<open>int\<close>.\<close>

definition chunk_result :: "lws_lua \<Rightarrow> lua_value \<Rightarrow> int" where
  "chunk_result LL v =
     (if v = LuaNil then 0
      else case lua_tointegerx LL v of None \<Rightarrow> -1 | Some i \<Rightarrow> sint (ucast i :: 32 word))"

definition chunk_failed :: "lws_lua \<Rightarrow> ngx_str \<Rightarrow> lws_lua_chunk \<Rightarrow> int \<Rightarrow> lua_value" where
  "chunk_failed LL filename chunk result =
     LuaString (filename @ lit '': '' @ lws_chunk_names chunk @ lit '' chunk failed ('' @
       ll_d LL result @ lit '')'')"

definition check_result :: "lws_lua \<Rightarrow> ngx_str \<Rightarrow> lws_lua_chunk \<Rightarrow> lws_reply \<Rightarrow> lua_value + int" where
  "check_result LL filename chunk r =
     (case r of
        Inl e \<Rightarrow> Inl e
      | Inr v \<Rightarrow>
          let result = chunk_result LL v in
          if result < 0 then Inl (chunk_failed LL filename chunk result) else Inr result)"

definition finish_call :: "lws_lua_chunk \<Rightarrow> lua_value + int \<Rightarrow> lws_lua_request_ctx \<Rightarrow> lws_lua_request_ctx" where
  "finish_call chunk res k =
     (let k = k\<lparr>k_trace := k_trace k @ [(chunk, res)]\<rparr> in
      case res of
        Inl _ \<Rightarrow> k
      | Inr result \<Rightarrow> if result > 0 \<and> chunk = LWS_LC_PRE then k\<lparr>k_complete := True\<rparr> else k)"

definition lws_call :: "lws_lua \<Rightarrow> lws_env \<Rightarrow> ngx_str \<Rightarrow> lws_lua_chunk \<Rightarrow> lws_lua_request_ctx \<Rightarrow>
    ((lua_value + int) \<times> lws_lua_request_ctx) option" where
  "lws_call LL E filename chunk k =
     (let k = k\<lparr>k_chunk := chunk\<rparr>; (f, k) = get_chunk LL filename k in
      case f of
        None \<Rightarrow>
          let e = Inl (LuaString (ll_load_error LL filename)) in
          Some (e, k\<lparr>k_trace := k_trace k @ [(chunk, e)]\<rparr>)
      | Some code \<Rightarrow>
          let k = set_chunk_env filename (if chunk \<noteq> LWS_LC_INIT then ENV_REQUEST else ENV_GLOBALS) k in
          (case run_code LL E code k of
             None \<Rightarrow> None
           | Some (r, k) \<Rightarrow>
               let res = check_result LL filename chunk r in Some (res, finish_call chunk res k)))"

definition lws_clear_env :: "ngx_str \<Rightarrow> lws_lua_request_ctx \<Rightarrow> lws_lua_request_ctx" where
  "lws_clear_env filename k = set_chunk_env filename ENV_GLOBALS k"

text \<open>\<open>lua_error\<close> leaves \<open>lws_run\<close>: what follows a call that may raise an error.\<close>

definition then_ok ::
  "(('e + 'a) \<times> 'k) option \<Rightarrow> ('a \<Rightarrow> 'k \<Rightarrow> (('e + 'b) \<times> 'k) option) \<Rightarrow> (('e + 'b) \<times> 'k) option" where
  "then_ok m f = (case m of None \<Rightarrow> None | Some (Inl e, k) \<Rightarrow> Some (Inl e, k) | Some (Inr a, k) \<Rightarrow> f a k)"

text \<open>The directives \<open>lws_init\<close>, \<open>lws_pre\<close> and \<open>lws_post\<close> of the location, empty if not set, the main
  file of the request, and the profiler, if it is enabled in the state: the errors that the calls of
  \<open>lws_start_profiler\<close> and \<open>lws_stop_profiler\<close> raise, if any. An error that the hook of the profiler raises
  while a chunk runs is an error of the chunk's code: any code may end with \<open>Throw\<close>. What the profiler
  measures is in \<open>LwsProfile\<close> and \<open>LwsProfileStop\<close>.\<close>

record lws_chunk_conf =
  cc_init :: ngx_str
  cc_pre :: ngx_str
  cc_main :: ngx_str
  cc_post :: ngx_str
  cc_profiler :: "(ngx_str option \<times> ngx_str option) option"

text \<open>The new Lua request context is zeroed.\<close>

definition lws_create_lua_request_ctx :: "lws_lua_request_ctx \<Rightarrow> lws_lua_request_ctx" where
  "lws_create_lua_request_ctx k =
     k\<lparr>k_chunk := LWS_LC_INIT, k_complete := False, k_sealed := False, k_env := False,
       k_readonly := False\<rparr>"

definition lws_push_env :: "lws_lua_request_ctx \<Rightarrow> lws_lua_request_ctx" where
  "lws_push_env k =
     k\<lparr>k_env := True, k_readonly := False,
       k_raw := [lit ''headers'' \<mapsto> LuaOther, lit ''body'' \<mapsto> LuaOther]\<rparr>"

text \<open>The call of a chunk that may not be configured.\<close>

definition call_if :: "lws_lua \<Rightarrow> lws_env \<Rightarrow> ngx_str \<Rightarrow> lws_lua_chunk \<Rightarrow> lws_lua_request_ctx \<Rightarrow>
    ((lua_value + int) \<times> lws_lua_request_ctx) option" where
  "call_if LL E filename chunk k =
     (if filename \<noteq> [] then lws_call LL E filename chunk k else Some (Inr 0, k))"

definition run_init :: "lws_lua \<Rightarrow> lws_env \<Rightarrow> lws_chunk_conf \<Rightarrow> lws_lua_request_ctx \<Rightarrow>
    ((lua_value + int) \<times> lws_lua_request_ctx) option" where
  "run_init LL E conf k =
     (if \<not> k_init k then
        then_ok (call_if LL E (cc_init conf) LWS_LC_INIT k)
          (\<lambda>r k. Some (Inr 0, k\<lparr>k_init := True\<rparr>))
      else Some (Inr 0, k))"

definition run_main :: "lws_lua \<Rightarrow> lws_env \<Rightarrow> lws_chunk_conf \<Rightarrow> int \<Rightarrow> lws_lua_request_ctx \<Rightarrow>
    ((lua_value + int) \<times> lws_lua_request_ctx) option" where
  "run_main LL E conf result k =
     (if cc_pre conf \<noteq> [] \<and> k_complete k then Some (Inr result, k)
      else lws_call LL E (cc_main conf) LWS_LC_MAIN k)"

definition run_post :: "lws_lua \<Rightarrow> lws_env \<Rightarrow> lws_chunk_conf \<Rightarrow> int \<Rightarrow> lws_lua_request_ctx \<Rightarrow>
    ((lua_value + int) \<times> lws_lua_request_ctx) option" where
  "run_post LL E conf result k =
     then_ok (call_if LL E (cc_post conf) LWS_LC_POST k)
       (\<lambda>r k. Some (Inr result, k))"

definition run_clear :: "lws_chunk_conf \<Rightarrow> lws_lua_request_ctx \<Rightarrow> lws_lua_request_ctx" where
  "run_clear conf k =
     (let k = (if cc_pre conf \<noteq> [] then lws_clear_env (cc_pre conf) k else k);
          k = (if \<not> k_complete k then lws_clear_env (cc_main conf) k else k)
      in if cc_post conf \<noteq> [] then lws_clear_env (cc_post conf) k else k)"

text \<open>From the init chunk to the release of the environment.\<close>

definition run_chunks :: "lws_lua \<Rightarrow> lws_env \<Rightarrow> lws_chunk_conf \<Rightarrow> lws_lua_request_ctx \<Rightarrow>
    ((lua_value + int) \<times> lws_lua_request_ctx) option" where
  "run_chunks LL E conf k =
     then_ok (run_init LL E conf k) (\<lambda>r k.
       then_ok (call_if LL E (cc_pre conf) LWS_LC_PRE (lws_push_env k)) (\<lambda>result k.
         then_ok (run_main LL E conf result k) (\<lambda>result k.
           then_ok (run_post LL E conf result k) (\<lambda>result k.
             Some (Inr result, run_clear conf k)))))"

text \<open>The call of the profiler, \<open>None\<close> if it is not enabled.\<close>

definition profiler_call :: "ngx_str option option \<Rightarrow> lws_lua_request_ctx \<Rightarrow>
    ((lua_value + unit) \<times> lws_lua_request_ctx) option" where
  "profiler_call answer k =
     (case answer of Some (Some e) \<Rightarrow> Some (Inl (LuaString e), k) | _ \<Rightarrow> Some (Inr (), k))"

definition lws_run :: "lws_lua \<Rightarrow> lws_env \<Rightarrow> lws_chunk_conf \<Rightarrow> lws_lua_request_ctx \<Rightarrow>
    ((lua_value + int) \<times> lws_lua_request_ctx) option" where
  "lws_run LL E conf k =
     then_ok (profiler_call (map_option fst (cc_profiler conf)) (lws_create_lua_request_ctx k)) (\<lambda>_ k.
       then_ok (run_chunks LL E conf k) (\<lambda>result k.
         then_ok (profiler_call (map_option snd (cc_profiler conf)) k) (\<lambda>_ k.
           Some (Inr result, k))))"

section \<open>The protected call\<close>

text \<open>The text of an error value; the argument is \<open>None\<close> if there is none.\<close>

definition lws_get_msg :: "lws_lua \<Rightarrow> lua_value option \<Rightarrow> ngx_str" where
  "lws_get_msg LL v =
     (case v of
        None \<Rightarrow> lit ''(no error value)''
      | Some (LuaString s) \<Rightarrow> s
      | Some (LuaInt i) \<Rightarrow> ll_number LL i
      | Some _ \<Rightarrow> lit ''(error value is not a string)'')"

definition lws_traceback :: "lws_lua \<Rightarrow> lua_value \<Rightarrow> lua_value" where
  "lws_traceback LL e = LuaString (ll_traceback LL (lws_get_msg LL (Some e)))"

text \<open>What the protected call of \<open>lws_run\<close> in \<open>lws_run_state\<close> leaves on the stack: the integer pushed, or
  the message.\<close>

definition pcall_result :: "lws_lua \<Rightarrow> lua_value + int \<Rightarrow> ngx_str + 64 word" where
  "pcall_result LL res =
     (case res of
        Inr n \<Rightarrow> Inr (of_int n)
      | Inl e \<Rightarrow> Inl (lws_get_msg LL (Some (lws_traceback LL e))))"

end
