(* ===== verification/LwsTableMap.thy ===== *)
theory LwsTableMap
  imports LwsTableCorrect
begin

text \<open>
  The hash table as a plain map, for the clients that neither cap nor time their table and look up
  case-sensitive C strings: the profiler of src/lws_profiler.c. The locale \<open>key_map\<close> is their
  contract, interpreted on the operations of src/lws_table.c.
\<close>

section \<open>Clean items\<close>

text \<open>Clean items: what a client keeps that stores clean keys and values only.\<close>

definition clean_items :: "(ngx_str \<Rightarrow> bool) \<Rightarrow> ('v \<Rightarrow> bool) \<Rightarrow> 'v lru \<Rightarrow> bool" where
  "clean_items P Q l \<longleftrightarrow> (\<forall>x\<in>set (lru_items l). P (fst x) \<and> Q (fst (snd x)))"

lemma clean_items_mono: "clean_items P Q l \<Longrightarrow> set (lru_items l') \<subseteq> set (lru_items l) \<Longrightarrow> clean_items P Q l'"
  by (auto simp: clean_items_def)

lemma lru_get_items: "lru_get c now key l = (v, l') \<Longrightarrow> set (lru_items l') \<subseteq> set (lru_items l)"
  using lru_lookup_mem [of c key "lru_items l"]
  by (fastforce simp: lru_get_def lru_delete_def split: option.splits if_splits)

lemma lru_evict_items: "set (lru_items (lru_evict l)) \<subseteq> set (lru_items l)"
  by (cases "lru_items l") (auto simp: lru_evict_def)

lemma lru_put_items:
  assumes "lru_put c now ok key v l = (rc, l')"
  shows "set (lru_items l') \<subseteq> set (lru_items l) \<union>
    {(k, v, lru_stamp l now) | k. k = key \<or> k \<in> fst ` set (lru_items l) \<and> c k = c key}"
proof (cases "lru_lookup c key (lru_items l)")
  case (Some x)
  then have x: "x \<in> set (lru_items l)" "c (fst x) = c key" using lru_lookup_mem lru_lookup_class by blast+
  have "lru_items l' = (case lru_cap l of
      None \<Rightarrow> lru_replace c (fst x, v, lru_stamp l now) (lru_items l)
    | Some _ \<Rightarrow> lru_delete c (fst x) (lru_items l) @ [(fst x, v, lru_stamp l now)])"
    using Some assms by (auto simp: lru_put_def lru_update_def Let_def)
  with x show ?thesis by (auto simp: lru_replace_def lru_delete_def split: option.splits if_splits)
next
  case None
  with assms lru_evict_items [of l] show ?thesis by (auto simp: lru_put_def Let_def split: if_splits)
qed

lemma clean_items_put:
  assumes "clean_items P Q l" "P key" "Q v" "lru_put c now ok key v l = (rc, l')"
  shows "clean_items P Q l'"
  using lru_put_items [OF assms(4)] assms(1-3) by (fastforce simp: clean_items_def)

context lru_store
begin

lemma get_clean:
  assumes "inv s" "clean_items P Q (view s)" "get key s = Some (v, s')"
  shows "clean_items P Q (view s')"
  using get_law [OF assms(1), of key] assms(2,3) lru_get_items clean_items_mono by fastforce

lemma put_clean:
  assumes "inv s" "clean_items P Q (view s)" "P key" "Q v" "put key (Some v) s = Some (rc, s')"
  shows "clean_items P Q (view s')"
  using put_law [OF assms(1), of key "Some v"] assms clean_items_put
  by (fastforce simp: lru_set_def)

end

section \<open>The contract\<close>

text \<open>\<open>class_map\<close> is a map from the classes of the keys: \<open>norm\<close> takes a key to its class, as lower case
  does for a table that ignores case. \<open>key_map\<close> is the case in which every key is a class.\<close>

locale class_map =
  fixes get :: "ngx_str \<Rightarrow> 's \<Rightarrow> ('v option \<times> 's) option"
    and put :: "ngx_str \<Rightarrow> 'v option \<Rightarrow> 's \<Rightarrow> (int \<times> 's) option"
    and view :: "'s \<Rightarrow> ngx_str \<rightharpoonup> 'v"
    and norm :: "'s \<Rightarrow> ngx_str \<Rightarrow> ngx_str"
    and inv :: "'s \<Rightarrow> bool"
  assumes get_class: "inv s \<Longrightarrow> 0 \<notin> set key \<Longrightarrow> get key s = Some (view s (norm s key), s)"
    and put_class: "inv s \<Longrightarrow> 0 \<notin> set key \<Longrightarrow> \<exists>rc s'. put key (Some v) s = Some (rc, s') \<and> inv s' \<and>
      norm s' = norm s \<and> view s' = (if rc = 0 then (view s)(norm s key \<mapsto> v) else view s)"
    and del_class: "inv s \<Longrightarrow> 0 \<notin> set key \<Longrightarrow> \<exists>s'. put key None s = Some (0, s') \<and> inv s' \<and>
      norm s' = norm s \<and> view s' = (view s)(norm s key := None)"
begin

text \<open>What is put under one spelling of a key is found under all of them.\<close>

lemma put_found:
  assumes "inv s" "0 \<notin> set key" "put key (Some v) s = Some (0, s')"
    and "0 \<notin> set key'" "norm s key' = norm s key"
  shows "get key' s' = Some (Some v, s')"
proof -
  from put_class [OF assms(1,2), of v] assms(3)
  have s': "inv s'" "norm s' = norm s" "view s' = (view s)(norm s key \<mapsto> v)" by auto
  from get_class [OF s'(1) assms(4)] s'(2,3) assms(5) show ?thesis by simp
qed

text \<open>Take a value out: what a client does that moves its values elsewhere.\<close>

lemma take_out:
  assumes "inv s" "0 \<notin> set key"
  obtains s' where "get key s = Some (view s (norm s key), s)" "put key None s = Some (0, s')" "inv s'"
    "view s' = (view s)(norm s key := None)" "get key s' = Some (None, s')"
proof -
  from del_class [OF assms] obtain s' where s': "put key None s = Some (0, s')" "inv s'"
    "norm s' = norm s" "view s' = (view s)(norm s key := None)" by blast
  with get_class [OF assms] get_class [OF s'(2) assms(2)] that show thesis by simp
qed

end

locale key_map = class_map +
  assumes norm_id: "inv s \<Longrightarrow> norm s key = key"
begin

lemma get_map: "inv s \<Longrightarrow> 0 \<notin> set key \<Longrightarrow> get key s = Some (view s key, s)"
  using get_class norm_id by simp

lemma put_map: "inv s \<Longrightarrow> 0 \<notin> set key \<Longrightarrow> \<exists>rc s'. put key (Some v) s = Some (rc, s') \<and> inv s' \<and>
    view s' = (if rc = 0 then (view s)(key \<mapsto> v) else view s)"
  using put_class [of s key v] norm_id [of s key] by metis

lemma del_map: "inv s \<Longrightarrow> 0 \<notin> set key \<Longrightarrow>
    \<exists>s'. put key None s = Some (0, s') \<and> inv s' \<and> view s' = (view s)(key := None)"
  using del_class [of s key] norm_id [of s key] by metis

end

section \<open>The table as a map\<close>

definition class_table :: "lws_env \<Rightarrow> 'v lws_table \<Rightarrow> bool" where
  "class_table E t \<longleftrightarrow> table_wf E t \<and> strncasecmp_ok E \<and> \<not> t_timed t \<and> \<not> t_capped t \<and>
     clean_items (\<lambda>k. 0 \<notin> set k) (\<lambda>_. True) (lws_table_abs t)"

definition exact_table :: "lws_env \<Rightarrow> 'v lws_table \<Rightarrow> bool" where
  "exact_table E t \<longleftrightarrow> table_wf E t \<and> strncasecmp_ok E \<and> \<not> t_ci t \<and> \<not> t_timed t \<and> \<not> t_capped t \<and>
     clean_items (\<lambda>k. 0 \<notin> set k) (\<lambda>_. True) (lws_table_abs t)"

definition norm_key :: "lws_env \<Rightarrow> 'v lws_table \<Rightarrow> ngx_str \<Rightarrow> ngx_str" where
  "norm_key E t key = (if t_ci t then map (env_tolower E) key else key)"

definition nmap :: "(ngx_str \<Rightarrow> ngx_str) \<Rightarrow> 'v item list \<Rightarrow> ngx_str \<rightharpoonup> 'v" where
  "nmap n xs = map_of (map (\<lambda>x. (n (fst x), fst (snd x))) xs)"

definition class_view :: "lws_env \<Rightarrow> 'v lws_table \<Rightarrow> ngx_str \<rightharpoonup> 'v" where
  "class_view E t = nmap (norm_key E t) (lru_items (lws_table_abs t))"

definition map_items :: "'v lru \<Rightarrow> (ngx_str \<times> 'v) list" where
  "map_items l = map (\<lambda>x. (fst x, fst (snd x))) (lru_items l)"

definition table_map :: "'v lws_table \<Rightarrow> ngx_str \<rightharpoonup> 'v" where
  "table_map t = map_of (map_items (lws_table_abs t))"

lemma class_tableD:
  assumes "class_table E t"
  shows "table_wf E t" "strncasecmp_ok E" "\<not> t_timed t" "\<not> t_capped t"
    "clean_items (\<lambda>k. 0 \<notin> set k) (\<lambda>_. True) (lws_table_abs t)"
  using assms by (simp_all only: class_table_def simp_thms)

lemma exact_tableD:
  assumes "exact_table E t"
  shows "table_wf E t" "strncasecmp_ok E" "\<not> t_ci t" "\<not> t_timed t" "\<not> t_capped t"
    "clean_items (\<lambda>k. 0 \<notin> set k) (\<lambda>_. True) (lws_table_abs t)"
  using assms by (simp_all only: exact_table_def simp_thms)

lemma exact_class_table: "exact_table E t \<longleftrightarrow> class_table E t \<and> \<not> t_ci t"
  by (simp only: exact_table_def class_table_def) blast

lemma exact_view: "exact_table E t \<Longrightarrow> class_view E t = table_map t \<and> norm_key E t = (\<lambda>k. k)"
  using exact_tableD(3) [of E t]
  by (simp add: class_view_def nmap_def table_map_def map_items_def norm_key_def fun_eq_iff
      del: lws_table_abs_sel)

text \<open>The classes of the table are those of \<open>norm_key\<close>.\<close>

lemma class_norm:
  assumes "0 \<notin> set k" "0 \<notin> set k'"
  shows "key_class E t k = key_class E t k' \<longleftrightarrow> norm_key E t k = norm_key E t k'"
proof (cases "t_ci t")
  case False
  with assms show ?thesis by (auto simp: key_class_def norm_key_def c_view_no_nul)
next
  case True
  have "lws_table_hash E t k = foldl (\<lambda>hash p. (hash XOR ucast p) * LWS_TABLE_HASH_PRIME)
      (lws_table_hash_seed E) (rev (map (env_tolower E) k))" for k
    using True by (simp add: lws_table_hash_def rev_map foldl_map)
  moreover have "length k = length k'" if "map (env_tolower E) k = map (env_tolower E) k'"
    using arg_cong [OF that, of length] by simp
  ultimately show ?thesis
    using True assms by (auto simp: key_class_def norm_key_def c_view_no_nul)
qed

lemma nmap_lookup:
  assumes "\<forall>x\<in>set xs. c (fst x) = c key \<longleftrightarrow> n (fst x) = n key"
  shows "nmap n xs (n key) = map_option (fst \<circ> snd) (lru_lookup c key xs)"
  using assms by (induction xs) (auto simp: nmap_def lru_lookup_def)

lemma nmap_delete:
  assumes "\<forall>x\<in>set xs. c (fst x) = c key \<longleftrightarrow> n (fst x) = n key"
  shows "nmap n (lru_delete c key xs) = (nmap n xs)(n key := None)"
  using assms by (induction xs) (auto simp: nmap_def lru_delete_def)

lemma nmap_None: "nmap n xs j = None \<longleftrightarrow> j \<notin> n ` fst ` set xs"
  by (simp add: nmap_def map_of_eq_None_iff image_image)

lemma nmap_replace:
  assumes "\<forall>x\<in>set xs. c (fst x) = c k \<longleftrightarrow> n (fst x) = n k" "n k \<in> n ` fst ` set xs"
  shows "nmap n (lru_replace c (k, v, tm) xs) = (nmap n xs)(n k \<mapsto> v)"
proof
  fix j
  have "nmap n (lru_replace c (k, v, tm) xs) j =
      (if j = n k \<and> nmap n xs (n k) \<noteq> None then Some v else nmap n xs j)"
    using assms(1) by (induction xs) (auto simp: nmap_def lru_replace_def)
  with assms(2) nmap_None [of n xs "n k"]
  show "nmap n (lru_replace c (k, v, tm) xs) j = ((nmap n xs)(n k \<mapsto> v)) j" by simp
qed

lemma nmap_append: "n key \<notin> n ` fst ` set xs \<Longrightarrow> nmap n (xs @ [(key, v, tm)]) = (nmap n xs)(n key \<mapsto> v)"
  by (induction xs) (auto simp: nmap_def fun_upd_twist)

lemma class_tableI:
  assumes "class_table E t" "same_config t' t" "table_wf E t'"
    "clean_items (\<lambda>k. 0 \<notin> set k) (\<lambda>_. True) (lws_table_abs t')"
  shows "class_table E t'"
  using class_tableD(2-4) [OF assms(1)] assms(2-4)
  by (simp only: class_table_def same_config_def simp_thms)

lemma class_lru:
  assumes "class_table E t"
  shows "lru_cap (lws_table_abs t) = None" "\<not> lru_expired (lws_table_abs t) now tm"
    "lru_evict (lws_table_abs t) = lws_table_abs t"
  using class_tableD(3,4) [OF assms] by (simp_all add: lru_expired_def lru_evict_def lru_full_def)

lemma norm_same: "same_config t' t \<Longrightarrow> norm_key E t' = norm_key E t"
  by (simp add: norm_key_def same_config_def fun_eq_iff)

lemma class_items:
  assumes "class_table E t" "0 \<notin> set key"
  shows "\<forall>x\<in>set (lru_items (lws_table_abs t)).
    key_class E t (fst x) = key_class E t key \<longleftrightarrow> norm_key E t (fst x) = norm_key E t key"
  using class_tableD(5) [OF assms(1)] class_norm [OF _ assms(2)] by (simp only: clean_items_def) blast

lemma get_class:
  assumes t: "class_table E t" and key: "0 \<notin> set key"
  shows "lws_table_get E t key = Some (class_view E t (norm_key E t key), t)"
proof -
  note ok = class_tableD [OF t]
  from get_refines [OF ok(1,2), of key] obtain v t' where
    get: "lws_table_get E t key = Some (v, t')"
    "lru_get (key_class E t) (env_time E) key (lws_table_abs t) = (v, lws_table_abs t')" by blast
  from get(1) ok(4) have "t' = t"
    by (auto simp: lws_table_get_def lws_table_touch_def Let_def bind_eq_Some_conv
        split: option.splits if_splits)
  with get nmap_lookup [OF class_items [OF assms]] class_lru [OF t] show ?thesis
    by (auto simp: lru_get_def class_view_def simp del: lws_table_abs_sel split: option.splits)
qed

lemma put_class:
  assumes t: "class_table E t" and key: "0 \<notin> set key"
  shows "\<exists>rc t'. lws_table_set E t key (Some v) = Some (rc, t') \<and> class_table E t' \<and> same_config t' t \<and>
    class_view E t' = (if rc = 0 then (class_view E t)(norm_key E t key \<mapsto> v) else class_view E t) \<and>
    (lws_table_set_ok E t key \<longrightarrow> rc = 0)"
proof -
  note ok = class_tableD [OF t]
  let ?c = "key_class E t" and ?n = "norm_key E t" and ?xs = "lru_items (lws_table_abs t)"
  from set_refines [OF ok(1,2), of key "Some v"] obtain rc t' where
    set: "lws_table_set E t key (Some v) = Some (rc, t')" "table_wf E t'" "same_config t' t"
      "lru_put ?c (env_time E) (lws_table_set_ok E t key) key v (lws_table_abs t) = (rc, lws_table_abs t')"
    by (auto simp: lru_set_def simp del: lws_table_abs_sel)
  from lws.put_clean [of E t, OF conjI [OF ok(1,2)] ok(5) key _ set(1)]
  have t': "class_table E t'" by (intro class_tableI [OF t set(3,2)]) simp
  have view: "class_view E t' = nmap ?n (lru_items (lws_table_abs t'))"
    by (simp only: class_view_def norm_same [OF set(3)])
  have "class_view E t' = (if rc = 0 then (class_view E t)(?n key \<mapsto> v) else class_view E t) \<and>
    (lws_table_set_ok E t key \<longrightarrow> rc = 0)"
  proof (cases "lru_lookup ?c key ?xs")
    case None
    with class_items [OF assms] have "?n key \<notin> ?n ` fst ` set ?xs"
      by (auto simp: lru_lookup_None simp del: lws_table_abs_sel)
    note app = nmap_append [OF this]
    have "lws_table_abs t' = (if rc = 0 then (lws_table_abs t)\<lparr>lru_items :=
        ?xs @ [(key, v, lru_stamp (lws_table_abs t) (env_time E))]\<rparr> else lws_table_abs t)"
      "lws_table_set_ok E t key \<Longrightarrow> rc = 0"
      using set(4) None class_lru(3) [OF t]
      by (auto simp: lru_put_def Let_def simp del: lws_table_abs_sel split: if_splits)
    with app show ?thesis unfolding view by (auto simp: class_view_def simp del: lws_table_abs_sel)
  next
    case (Some x)
    have x: "x \<in> set ?xs" "?c (fst x) = ?c key" using lru_lookup_mem [OF Some] lru_lookup_class [OF Some] .
    with class_items [OF assms] have n: "?n (fst x) = ?n key" by blast
    have "0 \<notin> set (fst x)" using ok(5) x(1) unfolding clean_items_def by blast
    from nmap_replace [OF class_items [OF t this] imageI [OF imageI [OF x(1)]], unfolded n]
    have "nmap ?n (lru_replace ?c (fst x, v, lru_stamp (lws_table_abs t) (env_time E)) ?xs) =
      (nmap ?n ?xs)(?n key \<mapsto> v)" .
    moreover from set(4) Some have "rc = 0" "lws_table_abs t' = lru_update ?c (env_time E) x v (lws_table_abs t)"
      by (simp_all add: lru_put_def del: lws_table_abs_sel)
    moreover have "lru_items (lru_update ?c (env_time E) x v (lws_table_abs t)) =
        lru_replace ?c (fst x, v, lru_stamp (lws_table_abs t) (env_time E)) ?xs"
      using class_lru(1) [OF t] by (simp add: lru_update_def Let_def del: lws_table_abs_sel)
    ultimately show ?thesis unfolding view by (simp add: class_view_def del: lws_table_abs_sel)
  qed
  with set t' show ?thesis by blast
qed

lemma del_class:
  assumes t: "class_table E t" and key: "0 \<notin> set key"
  shows "\<exists>t'. lws_table_set E t key None = Some (0, t') \<and> class_table E t' \<and> same_config t' t \<and>
    class_view E t' = (class_view E t)(norm_key E t key := None)"
proof -
  note ok = class_tableD [OF t]
  let ?c = "key_class E t" and ?n = "norm_key E t" and ?xs = "lru_items (lws_table_abs t)"
  from set_refines [OF ok(1,2), of key None] obtain t' where
    set: "lws_table_set E t key None = Some (0, t')" "table_wf E t'" "same_config t' t"
      "lws_table_abs t' = lru_remove ?c key (lws_table_abs t)"
    by (auto simp: lru_set_def simp del: lws_table_abs_sel)
  have "set (lru_items (lws_table_abs t')) \<subseteq> set ?xs"
    unfolding set(4) by (auto simp: lru_remove_def lru_delete_def split: option.split simp del: lws_table_abs_sel)
  from clean_items_mono [OF ok(5) this] have t': "class_table E t'" by (rule class_tableI [OF t set(3,2)])
  have view: "class_view E t' = nmap ?n (lru_items (lws_table_abs t'))"
    by (simp only: class_view_def norm_same [OF set(3)])
  have "class_view E t' = (class_view E t)(?n key := None)"
  proof (cases "lru_lookup ?c key ?xs")
    case None
    with nmap_lookup [OF class_items [OF assms]] have "class_view E t (?n key) = None"
      by (simp add: class_view_def del: lws_table_abs_sel)
    with set(4) None show ?thesis
      unfolding view by (simp add: class_view_def lru_remove_def fun_upd_idem del: lws_table_abs_sel)
  next
    case (Some x)
    with set(4) nmap_delete [OF class_items [OF assms]] show ?thesis
      unfolding view by (simp add: class_view_def lru_remove_def del: lws_table_abs_sel)
  qed
  with set t' show ?thesis by blast
qed

interpretation cls: class_map
  "\<lambda>key t. lws_table_get E t key" "\<lambda>key val t. lws_table_set E t key val" "class_view E" "norm_key E"
  "class_table E" for E
proof unfold_locales
  fix t :: "'a lws_table" and key :: ngx_str and v assume t: "class_table E t" "0 \<notin> set key"
  show "lws_table_get E t key = Some (class_view E t (norm_key E t key), t)" by (rule get_class [OF t])
  show "\<exists>rc t'. lws_table_set E t key (Some v) = Some (rc, t') \<and> class_table E t' \<and>
      norm_key E t' = norm_key E t \<and>
      class_view E t' = (if rc = 0 then (class_view E t)(norm_key E t key \<mapsto> v) else class_view E t)"
    using put_class [OF t, of v] norm_same by blast
  show "\<exists>t'. lws_table_set E t key None = Some (0, t') \<and> class_table E t' \<and>
      norm_key E t' = norm_key E t \<and> class_view E t' = (class_view E t)(norm_key E t key := None)"
    using del_class [OF t] norm_same by blast
qed

lemma exact_same: "exact_table E t \<Longrightarrow> same_config t' t \<Longrightarrow> class_table E t' \<Longrightarrow> exact_table E t'"
  by (simp add: exact_class_table same_config_def)

interpretation exact: key_map
  "\<lambda>key t. lws_table_get E t key" "\<lambda>key val t. lws_table_set E t key val" table_map "norm_key E"
  "exact_table E" for E
proof unfold_locales
  fix t :: "'a lws_table" and key :: ngx_str and v assume t: "exact_table E t"
  then have c: "class_table E t" by (simp add: exact_class_table)
  note view = exact_view [OF t]
  show "norm_key E t key = key" using view by simp
  assume key: "0 \<notin> set key"
  show "lws_table_get E t key = Some (table_map t (norm_key E t key), t)"
    using get_class [OF c key] view by simp
  from put_class [OF c key, of v] obtain rc t' where
    t': "lws_table_set E t key (Some v) = Some (rc, t')" "class_table E t'" "same_config t' t"
      "class_view E t' = (if rc = 0 then (class_view E t)(norm_key E t key \<mapsto> v) else class_view E t)" by blast
  have e: "exact_table E t'" by (rule exact_same [OF t t'(3,2)])
  from t' e view exact_view [OF e] show "\<exists>rc t'. lws_table_set E t key (Some v) = Some (rc, t') \<and> exact_table E t' \<and>
      norm_key E t' = norm_key E t \<and>
      table_map t' = (if rc = 0 then (table_map t)(norm_key E t key \<mapsto> v) else table_map t)" by force
next
  fix t :: "'a lws_table" and key :: ngx_str assume t: "exact_table E t" and key: "0 \<notin> set key"
  then have c: "class_table E t" by (simp add: exact_class_table)
  note view = exact_view [OF t]
  from del_class [OF c key] obtain t' where
    t': "lws_table_set E t key None = Some (0, t')" "class_table E t'" "same_config t' t"
      "class_view E t' = (class_view E t)(norm_key E t key := None)" by blast
  have e: "exact_table E t'" by (rule exact_same [OF t t'(3,2)])
  from t' e view exact_view [OF e] show "\<exists>t'. lws_table_set E t key None = Some (0, t') \<and> exact_table E t' \<and>
      norm_key E t' = norm_key E t \<and> table_map t' = (table_map t)(norm_key E t key := None)" by force
qed

lemma put_exact_rc:
  assumes "exact_table E t" "0 \<notin> set key" "lws_table_set_ok E t key"
  shows "\<exists>t'. lws_table_set E t key (Some v) = Some (0, t')"
  using put_class [of E t key v] assms by (auto simp: exact_class_table)

text \<open>The keys are distinct, so walking the table visits each key once.\<close>

lemma class_distinct:
  assumes "class_table E t"
  shows "distinct (map (key_class E t \<circ> fst) (lru_items (lws_table_abs t)))"
  using table_wfD(3) [OF class_tableD(1) [OF assms]] by (simp add: distinct_on_def comp_def)

lemma exact_distinct:
  assumes "exact_table E t"
  shows "distinct (map fst (map_items (lws_table_abs t)))"
proof -
  from assms have "class_table E t" by (simp add: exact_class_table)
  from class_distinct [OF this] show ?thesis
    by (auto simp: map_items_def comp_def distinct_map intro: inj_on_imageI2 simp del: lws_table_abs_sel
        dest: inj_on_imageI2 [of "key_class E t" fst, unfolded comp_def])
qed

lemma class_norms:
  assumes "class_table E t"
  shows "distinct (map (norm_key E t \<circ> fst) (lru_items (lws_table_abs t)))"
proof -
  have "inj_on (norm_key E t \<circ> fst) (set (lru_items (lws_table_abs t)))"
  proof (rule inj_onI)
    fix x y assume xy: "x \<in> set (lru_items (lws_table_abs t))" "y \<in> set (lru_items (lws_table_abs t))"
      "(norm_key E t \<circ> fst) x = (norm_key E t \<circ> fst) y"
    with class_tableD(5) [OF assms] have "0 \<notin> set (fst y)" unfolding clean_items_def by blast
    with class_items [OF assms, of "fst y"] xy have "key_class E t (fst x) = key_class E t (fst y)"
      by (simp del: lws_table_abs_sel)
    then show "x = y"
      using class_distinct [OF assms] by (intro inj_onD [OF _ _ xy(1,2), of "key_class E t \<circ> fst"])
        (simp_all only: distinct_map comp_def simp_thms)
  qed
  with class_distinct [OF assms] show ?thesis by (simp add: distinct_map del: lws_table_abs_sel)
qed

lemma class_item:
  assumes "class_table E t" "x \<in> set (lru_items (lws_table_abs t))"
  shows "class_view E t (norm_key E t (fst x)) = Some (fst (snd x))"
  unfolding class_view_def nmap_def
  using assms(2) class_norms [OF assms(1)]
  by (intro map_of_is_SomeI) (auto simp: comp_def image_iff simp del: lws_table_abs_sel)

lemma class_ran:
  assumes "class_table E t"
  shows "ran (class_view E t) = (\<lambda>x. fst (snd x)) ` set (lru_items (lws_table_abs t))"
  unfolding class_view_def nmap_def using class_norms [OF assms]
  by (subst ran_distinct) (simp_all add: comp_def image_image del: lws_table_abs_sel)

lemma class_created:
  assumes "lws_table_create E load = Some t" "strncasecmp_ok E"
  shows "class_table E (snd (lws_table_set_ci t True))" "class_view E (snd (lws_table_set_ci t True)) = Map.empty"
    "norm_key E (snd (lws_table_set_ci t True)) = map (env_tolower E)"
proof -
  note spec = create_spec [OF assms(1)]
  let ?t = "t\<lparr>t_ci := True\<rparr>"
  have ci: "snd (lws_table_set_ci t True) = ?t" using spec(3) by (simp add: lws_table_set_ci_def)
  have items: "lru_items (lws_table_abs ?t) = []" using spec(2) by (simp add: lws_table_items_def)
  have flags: "\<not> t_timed t" "\<not> t_capped t" using spec(5) by (metis lws_table.select_convs)+
  have "table_wf E ?t" by (rule empty_wf [OF spec(1,3)]) (use flags in simp_all)
  with flags items assms(2) show "class_table E (snd (lws_table_set_ci t True))"
    by (simp add: ci class_table_def clean_items_def del: lws_table_abs_sel)
  show "class_view E (snd (lws_table_set_ci t True)) = Map.empty"
    using items by (simp add: ci class_view_def nmap_def del: lws_table_abs_sel)
  show "norm_key E (snd (lws_table_set_ci t True)) = map (env_tolower E)"
    by (simp add: ci norm_key_def fun_eq_iff)
qed

text \<open>Environments of one process.\<close>

lemma class_process:
  assumes "class_table E t" "same_process E' E"
  shows "class_table E' t" "norm_key E' t = norm_key E t" "class_view E' t = class_view E t"
proof -
  show n: "norm_key E' t = norm_key E t"
    using assms(2) by (simp add: norm_key_def same_process_def fun_eq_iff)
  then show "class_view E' t = class_view E t" by (simp only: class_view_def)
  show "class_table E' t"
    using class_tableD [OF assms(1)] assms(2) table_wf_process [OF assms(2), of t]
    by (simp only: class_table_def same_process_def simp_thms)
qed

lemma same_process_sym: "same_process E' E \<Longrightarrow> strncasecmp_ok E \<Longrightarrow> same_process E E'"
  by (simp add: same_process_def)

lemma exact_process:
  assumes "exact_table E t" "same_process E' E"
  shows "exact_table E' t"
  using class_process(1) [of E t E'] assms by (simp add: exact_class_table)

lemma exact_created:
  assumes "lws_table_create E load = Some t" "strncasecmp_ok E"
  shows "exact_table E t" "table_map t = Map.empty"
proof -
  note spec = create_spec [OF assms(1)]
  have flags: "\<not> t_timed t" "\<not> t_capped t" "\<not> t_ci t" using spec(5) by (metis lws_table.select_convs)+
  have items: "lru_items (lws_table_abs t) = []" using spec(2) by simp
  with flags spec(1) assms(2) show "exact_table E t" by (simp add: exact_table_def clean_items_def)
  from items show "table_map t = Map.empty" by (simp add: table_map_def map_items_def del: lws_table_abs_sel)
qed

text \<open>A table to test with.\<close>

lemma demo_created_small:
  assumes "load \<le> 32"
  shows "\<exists>t. lws_table_create demo_env load = Some (t :: 'v lws_table) \<and> load \<le> t_load t \<and>
    t_count t = 0 \<and> \<not> t_capped t"
proof -
  have size: "lws_table_sizes ! (lws_table_sizes_n - 1) = 272513087380099"
    by (simp add: lws_table_sizes_def lws_table_sizes_n_def)
  have "53 \<in> set lws_table_sizes" by (simp add: lws_table_sizes_def)
  moreover have "load + (load div 7 + 3) \<le> 53" using assms by linarith
  ultimately obtain al where "lws_table_size (load + (load div 7 + 3)) = Some al"
    unfolding lws_table_size_find by (meson find_None_iff not_None_eq)
  then obtain t where t: "lws_table_create demo_env load = Some (t :: 'v lws_table)"
    using size assms by (auto simp: lws_table_create_def demo_env_sel)
  note spec = create_spec [OF t]
  have "\<not> t_capped t" by (subst spec(5)) simp
  with t spec(3,4) size assms show ?thesis by simp
qed

lemmas demo_created = demo_created_small [of 32, OF order_refl]

end
