(* ===== verification/LwsRunInv.thy ===== *)
theory LwsRunInv
  imports LwsRun LwsTableMap
begin

text \<open>
  What every run of Lua code keeps: a locale for the relations between the request context before and
  after, which are proved for one call of the library and hold for whole chunks then, and its
  interpretations: the tables stay well-formed, a sealed response header does not change, every byte
  written is in the body or in the pipe, and the response headers are free of control characters.
\<close>

section \<open>Tables behind the library\<close>

lemma get_untouched: "\<not> t_capped t \<Longrightarrow> lws_table_get E t key = Some (v, t') \<Longrightarrow> t' = t"
  by (auto simp: lws_table_get_def lws_table_touch_def Let_def bind_eq_Some_conv
      split: option.splits if_splits)

section \<open>Well-formed contexts\<close>

text \<open>The tables are those that \<open>lws_handler\<close> makes: without a cap.\<close>

definition plain_table :: "lws_env \<Rightarrow> 'v lws_table \<Rightarrow> bool" where
  "plain_table E t \<longleftrightarrow> table_wf E t \<and> \<not> t_capped t"

definition ctx_ok :: "lws_env \<Rightarrow> lws_lua_request_ctx \<Rightarrow> bool" where
  "ctx_ok E k \<longleftrightarrow> strncasecmp_ok E \<and> plain_table E (k_headers k) \<and>
     plain_table E (k_request_headers k) \<and> plain_table E (k_variables k)"

lemma answer_process: "strncasecmp_ok E \<Longrightarrow> same_process (answer_env E ans) E"
  by (simp add: same_process_def answer_env_def strncasecmp_ok_def)

lemma answer_wf [simp]: "strncasecmp_ok E \<Longrightarrow> plain_table (answer_env E ans) t = plain_table E t"
  by (simp add: plain_table_def table_wf_process [OF answer_process])

lemma answer_ok [simp]: "strncasecmp_ok E \<Longrightarrow> strncasecmp_ok (answer_env E ans)"
  using answer_process same_process_def by blast

lemma table_index:
  assumes "plain_table E t" "strncasecmp_ok E"
  shows "\<exists>r. lws_lua_table_index E t key = Some (r, t)"
proof -
  obtain v t' where "lws_table_get E t key = Some (v, t')"
    using get_refines [of E t key] assms by (auto simp: plain_table_def)
  with get_untouched [OF _ this] assms show ?thesis
    by (simp add: lws_lua_table_index_def plain_table_def)
qed

lemma table_newindex:
  assumes "plain_table E t" "strncasecmp_ok E"
  shows "\<exists>r t'. lws_lua_table_newindex E ro t key value = Some (r, t') \<and> plain_table E t' \<and>
    (ro \<longrightarrow> t' = t) \<and>
    (t' \<noteq> t \<longrightarrow> key \<noteq> [] \<and> list_all header_name_char key \<and> list_all header_value_char value \<and>
      (\<exists>rc. lws_table_set E t key (Some value) = Some (rc, t')))"
proof -
  obtain rc t' where "lws_table_set E t key (Some value) = Some (rc, t')" "table_wf E t'" "same_config t' t"
    using set_refines [of E t key "Some value"] assms by (auto simp: plain_table_def)
  with assms show ?thesis
    by (auto simp: lws_lua_table_newindex_def plain_table_def same_config_def)
qed

lemma table_next:
  assumes "plain_table E t" "strncasecmp_ok E"
  shows "\<exists>r. lws_lua_table_next E t key = Some r"
  using next_refines [of E t key] assms by (auto simp: lws_lua_table_next_def plain_table_def)

text \<open>The operations as updates of the context.\<close>

lemma redirect_update:
  assumes "lws_redirect LL ans path args k = (r, k')"
  obtains "k' = k" | c rd ra d where "\<not> k_sealed k" "k_chunk k = LWS_LC_PRE \<or> k_chunk k = LWS_LC_MAIN"
    "k' = k\<lparr>k_complete := c, k_redirect := rd, k_redirect_args := ra, k_dups := d\<rparr>"
    "c = k_complete k \<or> k_chunk k = LWS_LC_PRE \<and> c"
proof -
  obtain ok1 ra d1 where 1: "redirect_dup_args ans path args k = (ok1, k\<lparr>k_redirect_args := ra, k_dups := d1\<rparr>)"
  proof (cases "args = None \<or> first_byte path = CHR_AT")
    case True
    then have "redirect_dup_args ans path args k = (True, k)"
      by (cases args) (simp_all add: redirect_dup_args_def)
    then show ?thesis using that [of True "k_dups k" "k_redirect_args k"] by simp
  next
    case False
    then obtain a where "args = Some a" "first_byte path \<noteq> CHR_AT" by auto
    then show ?thesis
      using that [of "fst (lws_strdup ans (k_redirect_args k) a)"]
      by (simp add: redirect_dup_args_def Let_def split_beta)
  qed
  define k1 where "k1 = k\<lparr>k_redirect_args := ra, k_dups := d1\<rparr>"
  define dup where "dup = lws_strdup ans (k_redirect k1) path"
  define ok2 rd d2 where "ok2 = fst dup" "rd = snd dup" "d2 = k_dups k1 + of_bool (fst dup)"
  then have "redirect_dup ans path k1 = (ok2, k1\<lparr>k_redirect := rd, k_dups := d2\<rparr>)"
    by (simp add: redirect_dup_def Let_def split_beta dup_def)
  then have 2: "redirect_dup ans path (k\<lparr>k_redirect_args := ra, k_dups := d1\<rparr>) =
      (ok2, k\<lparr>k_redirect := rd, k_redirect_args := ra, k_dups := d2\<rparr>)"
    by (simp add: k1_def)
  show thesis
  proof (cases "(k_chunk k = LWS_LC_PRE \<or> k_chunk k = LWS_LC_MAIN) \<and> \<not> k_sealed k \<and> k' \<noteq> k")
    case True
    then have "k' = k\<lparr>k_complete := k_complete k, k_redirect := k_redirect k, k_redirect_args := ra, k_dups := d1\<rparr> \<or>
      k' = k\<lparr>k_complete := k_complete k, k_redirect := rd, k_redirect_args := ra, k_dups := d2\<rparr> \<or>
      k_chunk k = LWS_LC_PRE \<and>
        k' = k\<lparr>k_complete := True, k_redirect := rd, k_redirect_args := ra, k_dups := d2\<rparr>"
      using assms by (auto simp: lws_redirect_def 1 2 split: if_splits)
    with True that(2) show thesis by blast
  next
    case False
    with assms that(1) show thesis by (auto simp: lws_redirect_def split: if_splits)
  qed
qed

lemma response_update:
  assumes "lws_lua_response_newindex LL key v k = (r, k')"
  obtains raw where "k' = k\<lparr>k_raw := raw\<rparr>" | n where "\<not> k_sealed k" "k' = k\<lparr>k_status := n\<rparr>"
proof -
  have "k' = k \<or> (\<exists>raw. k' = k\<lparr>k_raw := raw\<rparr>) \<or> (\<exists>n. \<not> k_sealed k \<and> k' = k\<lparr>k_status := n\<rparr>)"
    using assms by (auto simp: lws_lua_response_newindex_def split: if_splits option.splits)
  moreover have "k = k\<lparr>k_raw := k_raw k\<rparr>" by simp
  ultimately show thesis using that by metis
qed

lemma flush_prefix: "flush_write ws s = (ok, out) \<Longrightarrow> \<exists>rest. s = out @ rest \<and> (ok \<longrightarrow> rest = [])"
proof (induction ws s arbitrary: ok out rule: flush_write.induct)
  case (3 n ws b s)
  show ?case
  proof (cases "n > 0")
    case True
    with 3(2) obtain out' where w: "flush_write ws (drop n (b # s)) = (ok, out')" "out = take n (b # s) @ out'"
      by (cases "flush_write ws (drop n (b # s))") auto
    from 3(1) [OF True w(1)] w(2) show ?thesis
      by (metis append.assoc append_take_drop_id)
  next
    case False
    with 3(2) show ?thesis by auto
  qed
qed auto

lemma flush_update:
  assumes "lws_file_flush_hook ans k = (r, k')"
  obtains "k' = k" | out rest where "k_pipe1 k" "snd (k_redirect k) = 0" "k_body k = out @ rest"
    "k' = k\<lparr>k_sealed := True, k_readonly := True, k_pipe := k_pipe k @ out, k_body := rest\<rparr>" "rest = [] \<or> out = []"
  | out where
    "k' = k\<lparr>k_sealed := True, k_readonly := True, k_pipe := k_pipe k @ out, k_broken := True\<rparr>"
    "k_pipe1 k" "snd (k_redirect k) = 0" "\<exists>rest. k_body k = out @ rest"
proof -
  obtain ok out where w: "flush_write (an_write ans) (k_body k) = (ok, out)" by force
  from flush_prefix [OF this] obtain rest where rest: "k_body k = out @ rest" "ok \<longrightarrow> rest = []" by blast
  let ?k = "k\<lparr>k_sealed := True, k_readonly := True\<rparr>"
  show thesis
  proof (cases "snd (k_redirect k) \<noteq> 0 \<or> \<not> k_pipe1 k \<or> \<not> an_ftell ans \<or> length (k_body k) > SSIZE_MAX")
    case True
    then have "snd (lws_file_flush_hook ans k) = k" by (auto simp: lws_file_flush_hook_def)
    with assms that(1) show ?thesis by simp
  next
    case False
    then have red: "k_pipe1 k" "snd (k_redirect k) = 0" by blast+
    have "snd (lws_file_flush_hook ans k) =
      (if k_body k = [] \<or> \<not> an_fflush ans then ?k
       else if ok then ?k\<lparr>k_pipe := k_pipe k @ out, k_body := []\<rparr>
       else ?k\<lparr>k_pipe := k_pipe k @ out, k_broken := True\<rparr>)"
      using False w by (simp add: lws_file_flush_hook_def Let_def)
    with assms have k': "k' = (if k_body k = [] \<or> \<not> an_fflush ans then ?k
       else if ok then ?k\<lparr>k_pipe := k_pipe k @ out, k_body := []\<rparr>
       else ?k\<lparr>k_pipe := k_pipe k @ out, k_broken := True\<rparr>)" by simp
    consider "k_body k = [] \<or> \<not> an_fflush ans" | "k_body k \<noteq> []" "an_fflush ans" ok
      | "k_body k \<noteq> []" "an_fflush ans" "\<not> ok" by blast
    then show ?thesis
    proof cases
      case 1
      with k' that(2) [of "[]" "k_body k"] red show ?thesis by simp
    next
      case 2
      with k' have "k' = ?k\<lparr>k_pipe := k_pipe k @ out, k_body := []\<rparr>" by simp
      from that(2) [OF red(1,2) _ this] 2 rest show ?thesis by simp
    next
      case 3
      with k' have "k' = ?k\<lparr>k_pipe := k_pipe k @ out, k_broken := True\<rparr>" by simp
      from that(3) [OF this red(1,2)] rest(1) show ?thesis by simp
    qed
  qed
qed

lemma api_tables:
  assumes "ctx_ok E k"
  shows "\<exists>r k'. api_step LL E ans api k = Some (r, k') \<and> ctx_ok E k'"
proof (cases api)
  case (GetVariable key)
  from assms get_refines [of E "k_variables k" key] get_untouched [of "k_variables k" E key] GetVariable
  show ?thesis by (auto simp: ctx_ok_def plain_table_def lws_getvariable_def)
next
  case (RequestHeaderIndex key)
  with table_index [of E "k_request_headers k" key] assms show ?thesis by (auto simp: ctx_ok_def)
next
  case (RequestHeaderNewindex key val)
  with table_newindex [of E "k_request_headers k" True key val] assms show ?thesis
    by (fastforce simp: ctx_ok_def)
next
  case (HeaderIndex key)
  with table_index [of E "k_headers k" key] assms show ?thesis by (auto simp: ctx_ok_def)
next
  case (HeaderNewindex key val)
  with table_newindex [of E "k_headers k" "k_readonly k" key val] assms show ?thesis
    by (fastforce simp: ctx_ok_def)
next
  case (HeaderNext key)
  with table_next [of E "k_headers k" key] assms show ?thesis by (auto simp: ctx_ok_def)
next
  case (Redirect path args)
  obtain r k' where "lws_redirect LL ans path args k = (r, k')" by force
  with assms Redirect show ?thesis by (auto simp: ctx_ok_def elim: redirect_update)
next
  case (ResponseNewindex key val)
  obtain r k' where "lws_lua_response_newindex LL key val k = (r, k')" by force
  with assms ResponseNewindex show ?thesis by (auto simp: ctx_ok_def elim: response_update)
next
  case BodyFlush
  obtain r k' where "lws_file_flush_hook ans k = (r, k')" by force
  with assms BodyFlush show ?thesis by (auto simp: ctx_ok_def elim: flush_update)
qed (use assms in \<open>simp_all add: ctx_ok_def lws_setcomplete_def lws_setclose_def body_write_def\<close>)

lemma ctx_ok_answer: "strncasecmp_ok E \<Longrightarrow> ctx_ok (answer_env E ans) k = ctx_ok E k"
  by (simp add: ctx_ok_def)

lemma ctx_okD: "ctx_ok E k \<Longrightarrow> strncasecmp_ok E"
  by (simp add: ctx_ok_def)

lemma api_call_ok:
  assumes "ctx_ok E k"
  shows "\<exists>r k'. api_call LL E ans api k = Some (r, k') \<and> ctx_ok E k'"
  using api_tables [of "answer_env E ans" k LL ans api] assms ctx_ok_answer [OF ctx_okD [OF assms]]
  by (auto simp: api_call_def)

text \<open>The response headers change by a valid assignment only, and only if they are not read-only.\<close>

definition header_set :: "lws_env \<Rightarrow> ngx_str lws_table \<Rightarrow> ngx_str lws_table \<Rightarrow> bool" where
  "header_set E t t' \<longleftrightarrow> (\<exists>E' key val rc. same_process E' E \<and> key \<noteq> [] \<and> list_all header_name_char key \<and>
     list_all header_value_char val \<and> lws_table_set E' t key (Some val) = Some (rc, t'))"

lemma api_tables_frame:
  assumes "ctx_ok E k" "api_call LL E ans api k = Some (r, k')"
    and "\<forall>p a. api \<noteq> Redirect p a" "api \<noteq> SetComplete" "api \<noteq> SetClose" "\<forall>key v. api \<noteq> ResponseNewindex key v"
      "\<forall>b. api \<noteq> BodyWrite b" "api \<noteq> BodyFlush"
  shows "k' = k \<or> (\<exists>t. k' = k\<lparr>k_headers := t\<rparr> \<and> \<not> k_readonly k \<and> header_set E (k_headers k) t)"
proof -
  let ?E = "answer_env E ans"
  have E: "strncasecmp_ok ?E" "same_process ?E E" and ok: "ctx_ok ?E k"
    using assms(1) ctx_okD [OF assms(1)] answer_process by (simp_all add: ctx_ok_answer)
  note tables = ok [unfolded ctx_ok_def]
  show ?thesis
  proof (cases "needs_env api \<and> \<not> k_env k")
    case True
    with assms(2) show ?thesis by (auto simp: api_call_def)
  next
    case False
    then have step: "api_step LL ?E ans api k = Some (r, k')" using assms(2) by (auto simp: api_call_def)
    show ?thesis
    proof (cases api)
      case (GetVariable key)
      with step get_untouched [of "k_variables k" ?E key] tables have "k' = k"
        by (auto simp: lws_getvariable_def bind_eq_Some_conv plain_table_def)
      then show ?thesis by simp
    next
      case (RequestHeaderIndex key)
      with table_index [of ?E "k_request_headers k" key] tables step show ?thesis by auto
    next
      case (RequestHeaderNewindex key val)
      with table_newindex [of ?E "k_request_headers k" True key val] tables step show ?thesis by auto
    next
      case (HeaderIndex key)
      with table_index [of ?E "k_headers k" key] tables step show ?thesis by auto
    next
      case (HeaderNewindex key val)
      with step obtain t where t: "lws_lua_table_newindex ?E (k_readonly k) (k_headers k) key val = Some (r, t)"
        "k' = k\<lparr>k_headers := t\<rparr>" by auto
      with table_newindex [of ?E "k_headers k" "k_readonly k" key val] tables have
        "t \<noteq> k_headers k \<Longrightarrow> \<not> k_readonly k \<and> key \<noteq> [] \<and> list_all header_name_char key \<and>
         list_all header_value_char val \<and> (\<exists>rc. lws_table_set ?E (k_headers k) key (Some val) = Some (rc, t))"
        by auto
      with E(2) have "t \<noteq> k_headers k \<Longrightarrow> \<not> k_readonly k \<and> header_set E (k_headers k) t"
        unfolding header_set_def by blast
      with t(2) show ?thesis by (cases "t = k_headers k") auto
    next
      case (HeaderNext key)
      with step show ?thesis by auto
    next
      case (ResponseIndex key)
      with step show ?thesis by simp
    qed (use assms(3-) in simp_all)
  qed
qed

lemma api_call_cases:
  assumes "ctx_ok E k" "api_call LL E ans api k = Some (r, k')"
  obtains (same) "k' = k"
  | (header) t where "k' = k\<lparr>k_headers := t\<rparr>" "\<not> k_readonly k" "header_set E (k_headers k) t"
  | (redirect) path args where "lws_redirect LL ans path args k = (r, k')"
  | (complete) "k_chunk k = LWS_LC_PRE" "k' = k\<lparr>k_complete := True\<rparr>"
  | (close) "k' = k\<lparr>k_close := True\<rparr>"
  | (response) key v where "k_env k" "lws_lua_response_newindex LL key v k = (r, k')"
  | (body) bytes where "k_env k" "k' = body_write bytes k"
  | (flush) "k_env k" "lws_file_flush_hook ans k = (r, k')"
proof (cases "(\<forall>p a. api \<noteq> Redirect p a) \<and> api \<noteq> SetComplete \<and> api \<noteq> SetClose \<and>
    (\<forall>key v. api \<noteq> ResponseNewindex key v) \<and> (\<forall>b. api \<noteq> BodyWrite b) \<and> api \<noteq> BodyFlush")
  case True
  with api_tables_frame [OF assms] same header show thesis by blast
next
  case False
  with assms(2) show thesis
    by (cases api; cases "k_env k")
       (auto simp: api_call_def needs_env_def lws_setcomplete_def lws_setclose_def split: if_splits
         intro: same redirect complete close response body flush)
qed

section \<open>Relations that runs keep\<close>

text \<open>What \<open>lws_call\<close> itself changes.\<close>

definition run_frame :: "lws_lua_request_ctx \<Rightarrow> lws_lua_request_ctx \<Rightarrow> bool" where
  "run_frame k' k \<longleftrightarrow> k' = k\<lparr>k_chunk := k_chunk k', k_complete := k_complete k', k_init := k_init k',
     k_chunks := k_chunks k', k_trace := k_trace k'\<rparr>"

locale lua_relation =
  fixes R :: "lws_env \<Rightarrow> lws_lua_request_ctx \<Rightarrow> lws_lua_request_ctx \<Rightarrow> bool"
  assumes rel_refl: "R E k k"
    and rel_trans: "R E k1 k2 \<Longrightarrow> R E k2 k3 \<Longrightarrow> R E k1 k3"
    and rel_api: "ctx_ok E k \<Longrightarrow> api_call LL E ans api k = Some (r, k') \<Longrightarrow> R E k k'"
begin

lemma code_rel:
  "ctx_ok E k \<Longrightarrow> \<exists>r k'. run_code LL E code k = Some (r, k') \<and> ctx_ok E k' \<and> R E k k'"
proof (induction code arbitrary: k)
  case (Call ans api c)
  obtain r k1 where call: "api_call LL E ans api k = Some (r, k1)" and k1: "ctx_ok E k1"
    using api_call_ok [OF Call.prems] by blast
  obtain r2 k2 where "run_code LL E (c r) k1 = Some (r2, k2)" "ctx_ok E k2" "R E k1 k2"
    using Call.IH [OF rangeI k1, of r] by blast
  with rel_trans [OF rel_api [OF Call.prems call]] call show ?case by auto
qed (auto intro: rel_refl)

end

text \<open>What no Lua code can change, and how it may change the request.\<close>

definition code_keeps :: "lws_env \<Rightarrow> lws_lua_request_ctx \<Rightarrow> lws_lua_request_ctx \<Rightarrow> bool" where
  "code_keeps E k k' \<longleftrightarrow> k_chunk k' = k_chunk k \<and> k_env k' = k_env k \<and> k_init k' = k_init k \<and>
     k_chunks k' = k_chunks k \<and> k_trace k' = k_trace k \<and>
     (k_complete k \<longrightarrow> k_complete k') \<and> (k_chunk k \<noteq> LWS_LC_PRE \<longrightarrow> k_complete k' = k_complete k) \<and>
     (\<not> k_env k \<longrightarrow> k_sealed k' = k_sealed k)"

interpretation keeps: lua_relation code_keeps
proof unfold_locales
  fix E k LL ans api r k'
  assume "ctx_ok E k" "api_call LL E ans api k = Some (r, k')"
  then show "code_keeps E k k'"
  proof (cases rule: api_call_cases)
    case (redirect path args)
    then show ?thesis by (rule redirect_update) (auto simp: code_keeps_def)
  next
    case (response key v)
    from response(2) show ?thesis by (rule response_update) (simp_all add: code_keeps_def)
  next
    case flush
    from flush(2) show ?thesis
      by (rule flush_update) (use flush(1) in \<open>simp_all add: code_keeps_def\<close>)
  qed (simp_all add: code_keeps_def body_write_def)
qed (auto simp: code_keeps_def)

text \<open>The cached chunks that still have the environment of a request.\<close>

definition stale :: "lws_lua_request_ctx \<Rightarrow> ngx_str set" where
  "stale k = {f. \<exists>code. k_chunks k f = Some (code, ENV_REQUEST)}"

definition cache_kept :: "lws_lua_request_ctx \<Rightarrow> lws_lua_request_ctx \<Rightarrow> bool" where
  "cache_kept k k' \<longleftrightarrow>
     (\<forall>f code env. k_chunks k f = Some (code, env) \<longrightarrow> (\<exists>env'. k_chunks k' f = Some (code, env')))"

definition result_ok :: "int \<Rightarrow> bool" where
  "result_ok n \<longleftrightarrow> 0 \<le> n \<and> n < 2 ^ 31"

definition call_shape ::
  "ngx_str \<Rightarrow> lws_lua_chunk \<Rightarrow> lua_value + int \<Rightarrow> lws_lua_request_ctx \<Rightarrow> lws_lua_request_ctx \<Rightarrow> bool" where
  "call_shape f chunk res k k' \<longleftrightarrow> k_trace k' = k_trace k @ [(chunk, res)] \<and> k_init k' = k_init k \<and>
     k_env k' = k_env k \<and> (chunk \<noteq> LWS_LC_PRE \<longrightarrow> k_complete k' = k_complete k) \<and>
     (\<forall>n. res = Inr n \<longrightarrow> result_ok n \<and> (chunk = LWS_LC_PRE \<longrightarrow> n > 0 \<longrightarrow> k_complete k')) \<and>
     (\<not> k_env k \<longrightarrow> k_sealed k' = k_sealed k) \<and> cache_kept k k' \<and>
     stale k' \<subseteq> stale k \<union> (if chunk = LWS_LC_INIT then {} else {f})"

lemma chunk_result_bound: "chunk_result LL v < 2 ^ 31"
  using sint_lt [where ?'a = 32] by (simp add: chunk_result_def split: option.split)

lemma check_result_ok: "check_result LL f chunk r = Inr n \<Longrightarrow> result_ok n"
  using chunk_result_bound by (auto simp: check_result_def result_ok_def Let_def split: sum.splits if_splits)

lemma get_chunk_env:
  assumes "fst (get_chunk LL f k) = Some code"
  shows "set_chunk_env f env (snd (get_chunk LL f k)) = k\<lparr>k_chunks := (k_chunks k)(f \<mapsto> (code, env))\<rparr>"
    "k_chunks k f = None \<or> (\<exists>e. k_chunks k f = Some (code, e))"
  using assms by (cases "k_chunks k f"; cases "ll_load LL f"; force simp: get_chunk_def set_chunk_env_def)+

lemma get_chunk_none: "fst (get_chunk LL f k) = None \<Longrightarrow> get_chunk LL f k = (None, k)"
  by (cases "k_chunks k f"; cases "ll_load LL f") (auto simp: get_chunk_def)

lemma finish_call_frame: "run_frame (finish_call chunk res k) k"
  by (cases res) (simp_all add: finish_call_def run_frame_def Let_def)

lemma finish_call_sel:
  "k_trace (finish_call chunk res k) = k_trace k @ [(chunk, res)]"
  "k_init (finish_call chunk res k) = k_init k" "k_env (finish_call chunk res k) = k_env k"
  "k_sealed (finish_call chunk res k) = k_sealed k" "k_chunks (finish_call chunk res k) = k_chunks k"
  by (simp_all add: finish_call_def Let_def split: sum.split)

lemma finish_call_complete:
  "k_complete (finish_call chunk res k) =
     (k_complete k \<or> chunk = LWS_LC_PRE \<and> (\<exists>n. res = Inr n \<and> n > 0))"
  by (auto simp: finish_call_def Let_def split: sum.split)

text \<open>The outcomes of the chunks called, given the chunks to call: all of them succeeded, or one failed,
  and none was called after it.\<close>

definition all_fine :: "(lws_lua_chunk \<times> (lua_value + int)) list \<Rightarrow> bool" where
  "all_fine tr \<longleftrightarrow> (\<forall>x\<in>set tr. \<exists>n. snd x = Inr n)"

definition traced ::
  "lws_lua_chunk list \<Rightarrow> lua_value + int \<Rightarrow> (lws_lua_chunk \<times> (lua_value + int)) list \<Rightarrow> bool" where
  "traced chunks res tr \<longleftrightarrow>
     (case res of
        Inr r \<Rightarrow> map fst tr = chunks \<and> all_fine tr
      | Inl e \<Rightarrow> \<exists>t0 c rest. tr = t0 @ [(c, Inl e)] \<and> all_fine t0 \<and> chunks = map fst tr @ rest)"

lemma traced_append: "traced s1 (Inr r) t1 \<Longrightarrow> traced s2 res t2 \<Longrightarrow> traced (s1 @ s2) res (t1 @ t2)"
proof (cases res)
  case (Inl e)
  assume t1: "traced s1 (Inr r) t1" and t2: "traced s2 res t2"
  from t2 Inl obtain t0 c rest where t: "t2 = t0 @ [(c, Inl e)]" "all_fine t0" "s2 = map fst t2 @ rest"
    by (auto simp: traced_def)
  have "t1 @ t2 = (t1 @ t0) @ [(c, Inl e)]" "all_fine (t1 @ t0)" "s1 @ s2 = map fst (t1 @ t2) @ rest"
    using t t1 by (auto simp: traced_def all_fine_def)
  then show ?thesis unfolding Inl traced_def by (simp only: sum.case) blast
qed (auto simp: traced_def all_fine_def)

lemma traced_fail: "traced s1 (Inl e) t \<Longrightarrow> traced (s1 @ s2) (Inl e) t"
  by (auto simp: traced_def)

definition phase ::
  "(lws_env \<Rightarrow> lws_lua_request_ctx \<Rightarrow> lws_lua_request_ctx \<Rightarrow> bool) \<Rightarrow> lws_env \<Rightarrow> lws_lua_chunk list \<Rightarrow>
   lws_lua_request_ctx \<Rightarrow> lua_value + int \<Rightarrow> lws_lua_request_ctx \<Rightarrow> bool" where
  "phase R E chunks k res k' \<longleftrightarrow> ctx_ok E k' \<and> R E k k' \<and> cache_kept k k' \<and>
     (\<exists>tr. k_trace k' = k_trace k @ tr \<and> traced chunks res tr)"

lemma cache_kept_refl [simp]: "k_chunks k' = k_chunks k \<Longrightarrow> cache_kept k k'"
  by (simp add: cache_kept_def)

lemma cache_kept_trans: "cache_kept k1 k2 \<Longrightarrow> cache_kept k2 k3 \<Longrightarrow> cache_kept k1 k3"
  unfolding cache_kept_def by meson

text \<open>The chunks that the documentation names, in their order; main is skipped if the request is complete.\<close>

definition chunk_sequence :: "lws_chunk_conf \<Rightarrow> bool \<Rightarrow> bool \<Rightarrow> lws_lua_chunk list" where
  "chunk_sequence conf init complete =
     (if init \<or> cc_init conf = [] then [] else [LWS_LC_INIT]) @
     (if cc_pre conf = [] then [] else [LWS_LC_PRE]) @
     (if complete then [] else [LWS_LC_MAIN]) @
     (if cc_post conf = [] then [] else [LWS_LC_POST])"

definition run_shape ::
  "lws_chunk_conf \<Rightarrow> lws_lua_request_ctx \<Rightarrow> lua_value + int \<Rightarrow> lws_lua_request_ctx \<Rightarrow> bool" where
  "run_shape conf k res k' \<longleftrightarrow> cache_kept k k' \<and> (k_complete k' \<longrightarrow> cc_pre conf \<noteq> []) \<and>
     (\<exists>tr. k_trace k' = k_trace k @ tr \<and> traced (chunk_sequence conf (k_init k) (k_complete k')) res tr \<and>
       (\<forall>r. res = Inr r \<longrightarrow> result_ok r \<and> k_init k' \<and> stale k' \<subseteq> stale k \<and>
         (if k_complete k' then LWS_LC_PRE else LWS_LC_MAIN, Inr r) \<in> set tr))"

text \<open>The outcome of a whole run: that of its chunks, unless a call of the profiler fails.\<close>

definition either_error :: "'e + 'a \<Rightarrow> 'e \<Rightarrow> 'e" where
  "either_error r e = (case r of Inl e' \<Rightarrow> e' | Inr _ \<Rightarrow> e)"

definition run_outcome ::
  "lws_chunk_conf \<Rightarrow> lws_lua_request_ctx \<Rightarrow> lua_value + int \<Rightarrow> lws_lua_request_ctx \<Rightarrow> bool" where
  "run_outcome conf k res k' \<longleftrightarrow>
     (case cc_profiler conf of
        Some (Some e, _) \<Rightarrow> res = Inl (LuaString e) \<and> k' = lws_create_lua_request_ctx k
      | Some (None, Some e) \<Rightarrow> \<exists>r. run_shape conf k r k' \<and> res = Inl (either_error r (LuaString e))
      | _ \<Rightarrow> run_shape conf k res k')"

lemma profiler_cases:
  obtains "cc_profiler conf = None" | e q where "cc_profiler conf = Some (Some e, q)"
    | "cc_profiler conf = Some (None, None)" | e where "cc_profiler conf = Some (None, Some e)"
  by (cases "cc_profiler conf") (auto, metis not_None_eq)

lemma run_outcome_ok: "run_outcome conf k (Inr n) k' \<Longrightarrow> run_shape conf k (Inr n) k'"
  by (cases "cc_profiler conf") (auto simp: run_outcome_def split: option.splits sum.splits)

lemma run_outcome_cache: "run_outcome conf k res k' \<Longrightarrow> cache_kept k k'"
  by (auto simp: run_outcome_def run_shape_def lws_create_lua_request_ctx_def split: option.splits prod.splits)

lemma set_chunk_env_frame:
  "run_frame (set_chunk_env f env k) k"
  "k_complete (set_chunk_env f env k) = k_complete k" "k_init (set_chunk_env f env k) = k_init k"
  "k_trace (set_chunk_env f env k) = k_trace k"
  by (cases "k_chunks k f"; force simp: set_chunk_env_def run_frame_def)+

lemma run_frame_ok: "run_frame k' k \<Longrightarrow> ctx_ok E k' = ctx_ok E k"
  by (cases k', cases k) (simp add: run_frame_def ctx_ok_def)

lemma set_chunk_env_stale:
  "cache_kept k (set_chunk_env f env k)" "stale (set_chunk_env f ENV_GLOBALS k) = stale k - {f}"
  by (cases "k_chunks k f"; force simp: set_chunk_env_def cache_kept_def stale_def)+

lemma run_frame_trans: "run_frame k3 k2 \<Longrightarrow> run_frame k2 k1 \<Longrightarrow> run_frame k3 k1"
  by (cases k1, cases k2, cases k3) (simp add: run_frame_def)

lemma run_frame_refl [simp]: "run_frame k k"
  by (simp add: run_frame_def)

lemma clear_if:
  fixes b f k defines "k' \<equiv> if b then lws_clear_env f k else k"
  shows "run_frame k' k" "k_complete k' = k_complete k" "k_init k' = k_init k" "k_trace k' = k_trace k"
    "cache_kept k k'"
  by (simp_all add: k'_def lws_clear_env_def set_chunk_env_frame set_chunk_env_stale)

lemma run_clear_frame:
  "run_frame (run_clear conf k) k" "k_complete (run_clear conf k) = k_complete k"
  "k_init (run_clear conf k) = k_init k" "k_trace (run_clear conf k) = k_trace k"
  "cache_kept k (run_clear conf k)"
  unfolding run_clear_def Let_def
  by (simp_all only: clear_if(2-4) run_frame_trans [OF clear_if(1) run_frame_trans [OF clear_if(1) clear_if(1)]]
    cache_kept_trans [OF clear_if(5) cache_kept_trans [OF clear_if(5) clear_if(5)]])

lemma run_clear_stale:
  "stale (run_clear conf k) = stale k - (if cc_pre conf = [] then {} else {cc_pre conf}) -
     (if k_complete k then {} else {cc_main conf}) - (if cc_post conf = [] then {} else {cc_post conf})"
  by (simp add: run_clear_def lws_clear_env_def Let_def set_chunk_env_frame set_chunk_env_stale(2))

lemma lws_run_eq:
  "lws_run LL E conf k =
     (case cc_profiler conf of
        Some (Some e, _) \<Rightarrow> Some (Inl (LuaString e), lws_create_lua_request_ctx k)
      | Some (None, Some e) \<Rightarrow>
          (case run_chunks LL E conf (lws_create_lua_request_ctx k) of
             Some (Inr _, k') \<Rightarrow> Some (Inl (LuaString e), k') | r \<Rightarrow> r)
      | _ \<Rightarrow> run_chunks LL E conf (lws_create_lua_request_ctx k))"
  by (simp add: lws_run_def profiler_call_def then_ok_def split: option.split prod.split sum.split)

locale run_relation = lua_relation R for R +
  assumes rel_frame: "run_frame k' k \<Longrightarrow> R E k k'"
    and rel_push: "\<not> k_sealed k \<Longrightarrow> R E k (lws_push_env k)"
begin

lemma call_rel:
  assumes "ctx_ok E k"
  shows "\<exists>res k'. lws_call LL E f chunk k = Some (res, k') \<and> ctx_ok E k' \<and> R E k k' \<and>
    call_shape f chunk res k k'"
proof -
  let ?k = "k\<lparr>k_chunk := chunk\<rparr>" and ?env = "if chunk \<noteq> LWS_LC_INIT then ENV_REQUEST else ENV_GLOBALS"
  show ?thesis
  proof (cases "fst (get_chunk LL f ?k)")
    case None
    define e :: "lua_value + int" where "e = Inl (LuaString (ll_load_error LL f))"
    from get_chunk_none [OF None] have call: "lws_call LL E f chunk k = Some (e, ?k\<lparr>k_trace := k_trace k @ [(chunk, e)]\<rparr>)"
      by (simp add: lws_call_def Let_def e_def)
    have "R E k (?k\<lparr>k_trace := k_trace k @ [(chunk, e)]\<rparr>)"
      by (rule rel_frame) (simp add: run_frame_def)
    with call assms show ?thesis
      by (simp add: ctx_ok_def call_shape_def cache_kept_def stale_def e_def)
  next
    case (Some code)
    define k1 where "k1 = set_chunk_env f ?env (snd (get_chunk LL f ?k))"
    have k1_eq: "k1 = ?k\<lparr>k_chunks := (k_chunks k)(f \<mapsto> (code, ?env))\<rparr>"
      and cached: "k_chunks k f = None \<or> (\<exists>e. k_chunks k f = Some (code, e))"
      unfolding k1_def using get_chunk_env [OF Some] by auto
    have k1: "run_frame k1 k" "k_chunk k1 = chunk" "k_trace k1 = k_trace k" "k_init k1 = k_init k"
      "k_complete k1 = k_complete k" "k_env k1 = k_env k" "k_sealed k1 = k_sealed k"
      by (simp_all add: k1_eq run_frame_def)
    have stale1: "stale k1 \<subseteq> stale k \<union> (if chunk = LWS_LC_INIT then {} else {f})" and cache1: "cache_kept k k1"
      using cached by (auto simp: k1_eq stale_def cache_kept_def split: if_splits)
    have ok1: "ctx_ok E k1" using assms by (simp add: k1_eq ctx_ok_def)
    obtain r k2 where run: "run_code LL E code k1 = Some (r, k2)" "ctx_ok E k2" "R E k1 k2"
      using code_rel [OF ok1] by blast
    have keep: "code_keeps E k1 k2"
      using keeps.code_rel [OF ok1, of LL code] run(1) by auto
    define res where "res = check_result LL f chunk r"
    define k3 where "k3 = finish_call chunk res k2"
    have call: "lws_call LL E f chunk k = Some (res, k3)"
      using Some run(1) by (simp add: lws_call_def Let_def split_beta k1_def res_def k3_def)
    have res: "result_ok n" if "res = Inr n" for n
      using that check_result_ok unfolding res_def by blast
    note k3 = finish_call_frame [of chunk res k2, folded k3_def] finish_call_sel [of chunk res k2, folded k3_def]
      finish_call_complete [of chunk res k2, folded k3_def]
    from rel_trans [OF rel_trans [OF rel_frame [OF k1(1)] run(3)] rel_frame [OF k3(1)]] have "R E k k3" .
    moreover have "k_chunks k3 = k_chunks k1" "k_trace k3 = k_trace k @ [(chunk, res)]"
      "k_init k3 = k_init k" "k_env k3 = k_env k" "\<not> k_env k \<Longrightarrow> k_sealed k3 = k_sealed k"
      "chunk \<noteq> LWS_LC_PRE \<Longrightarrow> k_complete k3 = k_complete k"
      using keep [unfolded code_keeps_def] k1 k3 by simp_all
    moreover from this(1) have "stale k3 = stale k1" "cache_kept k k3 = cache_kept k k1"
      by (simp_all add: stale_def cache_kept_def)
    ultimately have "call_shape f chunk res k k3"
      unfolding call_shape_def using stale1 cache1 res k3(7) by simp
    note shape = this \<open>R E k k3\<close>
    have "ctx_ok E k3" using run(2) unfolding k3_def finish_call_def Let_def ctx_ok_def
      by (simp split: sum.split)
    with call shape show ?thesis by blast
  qed
qed

lemma phase_then: "phase R E s1 k (Inr a) k1 \<Longrightarrow> phase R E s2 k1 res k2 \<Longrightarrow> phase R E (s1 @ s2) k res k2"
proof -
  assume p: "phase R E s1 k (Inr a) k1" "phase R E s2 k1 res k2"
  then obtain t1 t2 where t: "k_trace k1 = k_trace k @ t1" "traced s1 (Inr a) t1"
    "k_trace k2 = k_trace k1 @ t2" "traced s2 res t2" by (auto simp: phase_def)
  have "k_trace k2 = k_trace k @ (t1 @ t2)" using t by simp
  with traced_append [OF t(2,4)] have "\<exists>tr. k_trace k2 = k_trace k @ tr \<and> traced (s1 @ s2) res tr" by blast
  with p show ?thesis unfolding phase_def using cache_kept_trans rel_trans by blast
qed

lemma phase_fail: "phase R E s1 k (Inl e) k1 \<Longrightarrow> phase R E (s1 @ s2) k (Inl e) k1"
  unfolding phase_def using traced_fail by blast

lemma phase_none: "ctx_ok E k' \<Longrightarrow> R E k k' \<Longrightarrow> k_chunks k' = k_chunks k \<Longrightarrow> k_trace k' = k_trace k \<Longrightarrow>
    phase R E [] k (Inr r) k'"
  by (simp add: phase_def traced_def all_fine_def)

lemma call_phase:
  assumes "ctx_ok E k"
  obtains res k' where "lws_call LL E f chunk k = Some (res, k')" "phase R E [chunk] k res k'"
    "call_shape f chunk res k k'"
proof -
  from call_rel [OF assms] obtain res k' where c: "lws_call LL E f chunk k = Some (res, k')"
    "ctx_ok E k'" "R E k k'" "call_shape f chunk res k k'" by metis
  moreover from this have "phase R E [chunk] k res k'"
    by (cases res) (auto simp: phase_def call_shape_def traced_def all_fine_def)
  ultimately show thesis using that by blast
qed

text \<open>A chunk that is called if it is configured.\<close>

lemma opt_phase:
  assumes "ctx_ok E k"
  obtains res k' where "call_if LL E f chunk k = Some (res, k')" "phase R E (if f = [] then [] else [chunk]) k res k'"
    "k_init k' = k_init k" "k_env k' = k_env k"
    "chunk \<noteq> LWS_LC_PRE \<or> f = [] \<Longrightarrow> k_complete k' = k_complete k"
    "\<not> k_env k \<Longrightarrow> k_sealed k' = k_sealed k"
    "stale k' \<subseteq> stale k \<union> (if chunk = LWS_LC_INIT \<or> f = [] then {} else {f})"
    "\<And>n. res = Inr n \<Longrightarrow> result_ok n" "f \<noteq> [] \<Longrightarrow> k_trace k' = k_trace k @ [(chunk, res)]"
proof (cases "f = []")
  case True
  show thesis
    by (rule that [of "Inr 0" k]) (use True assms in \<open>simp_all add: call_if_def result_ok_def phase_none rel_refl\<close>)
next
  case False
  from call_phase [OF assms] obtain res k' where "lws_call LL E f chunk k = Some (res, k')"
    "phase R E [chunk] k res k'" "call_shape f chunk res k k'" .
  with False that [of res k'] show thesis
    by (simp add: call_if_def call_shape_def)
qed

text \<open>The phases of \<open>lws_run\<close>, from a context whose environment is not there yet.\<close>

lemma init_phase:
  assumes "ctx_ok E k" "\<not> k_env k" "\<not> k_sealed k" "\<not> k_complete k"
  obtains res k' where "run_init LL E conf k = Some (res, k')"
    "phase R E (if k_init k \<or> cc_init conf = [] then [] else [LWS_LC_INIT]) k res k'"
    "\<not> k_env k'" "\<not> k_sealed k'" "\<not> k_complete k'" "stale k' \<subseteq> stale k"
    "\<And>n. res = Inr n \<Longrightarrow> k_init k'"
proof (cases "k_init k")
  case True
  show thesis
    by (rule that [of "Inr 0" k]) (use True assms in \<open>simp_all add: run_init_def phase_none rel_refl\<close>)
next
  case False
  obtain res k' where c: "call_if LL E (cc_init conf) LWS_LC_INIT k = Some (res, k')"
    "phase R E (if cc_init conf = [] then [] else [LWS_LC_INIT]) k res k'"
    "k_env k' = k_env k" "k_complete k' = k_complete k" "\<not> k_env k \<Longrightarrow> k_sealed k' = k_sealed k"
    "stale k' \<subseteq> stale k"
    by (rule opt_phase [OF assms(1), where f = "cc_init conf" and chunk = LWS_LC_INIT and LL = LL])
       (rule that; simp)
  show thesis
  proof (cases res)
    case (Inl e)
    with False c assms that [of "Inl e" k'] show ?thesis by (simp add: run_init_def then_ok_def)
  next
    case (Inr n)
    let ?k = "k'\<lparr>k_init := True\<rparr>"
    have "R E k' ?k" by (rule rel_frame) (simp add: run_frame_def)
    with c(2) Inr rel_trans have "phase R E (if cc_init conf = [] then [] else [LWS_LC_INIT]) k (Inr 0) ?k"
      by (auto simp: phase_def ctx_ok_def cache_kept_def traced_def)
    with False c Inr assms that [of "Inr 0" ?k] show ?thesis
      by (simp add: run_init_def then_ok_def stale_def)
  qed
qed

lemma main_phase:
  assumes "ctx_ok E k" "result_ok result" "k_complete k \<Longrightarrow> cc_pre conf \<noteq> []"
  obtains res k' where "run_main LL E conf result k = Some (res, k')"
    "phase R E (if k_complete k then [] else [LWS_LC_MAIN]) k res k'" "k_init k' = k_init k"
    "k_complete k' = k_complete k" "stale k' \<subseteq> stale k \<union> (if k_complete k then {} else {cc_main conf})"
    "\<And>n. res = Inr n \<Longrightarrow> result_ok n" "k_complete k \<Longrightarrow> res = Inr result"
    "\<not> k_complete k \<Longrightarrow> k_trace k' = k_trace k @ [(LWS_LC_MAIN, res)]"
proof (cases "k_complete k")
  case True
  show thesis
    by (rule that [of "Inr result" k])
       (use True assms in \<open>simp_all add: run_main_def phase_none rel_refl\<close>)
next
  case False
  from call_phase [OF assms(1), where f = "cc_main conf" and chunk = LWS_LC_MAIN and LL = LL] obtain res k' where
    "lws_call LL E (cc_main conf) LWS_LC_MAIN k = Some (res, k')" "phase R E [LWS_LC_MAIN] k res k'"
    "call_shape (cc_main conf) LWS_LC_MAIN res k k'" .
  with False that [of res k'] show ?thesis by (simp add: run_main_def call_shape_def)
qed

lemma clear_phase: "phase R E s k res k' \<Longrightarrow> phase R E s k res (run_clear conf k')"
  using rel_trans [OF _ rel_frame [OF run_clear_frame(1)]] cache_kept_trans [OF _ run_clear_frame(5)]
    run_clear_frame(4) [of conf k'] run_frame_ok [OF run_clear_frame(1) [of conf k']]
  by (auto simp: phase_def)

lemma chunks_rel:
  assumes "ctx_ok E k"
  obtains res k' where "run_chunks LL E conf (lws_create_lua_request_ctx k) = Some (res, k')" "ctx_ok E k'"
    "R E (lws_create_lua_request_ctx k) k'" "run_shape conf k res k'"
proof -
  let ?k0 = "lws_create_lua_request_ctx k"
  let ?seq = "chunk_sequence conf (k_init k)"
  have ok0: "ctx_ok E ?k0" using assms by (simp add: ctx_ok_def lws_create_lua_request_ctx_def)
  have k0: "\<not> k_env ?k0" "\<not> k_sealed ?k0" "\<not> k_complete ?k0" "k_init ?k0 = k_init k"
    "k_trace ?k0 = k_trace k" "k_chunks ?k0 = k_chunks k"
    by (simp_all add: lws_create_lua_request_ctx_def)
  then have stale0: "stale ?k0 = stale k" and cache0: "\<And>k'. cache_kept ?k0 k' = cache_kept k k'"
    by (simp_all add: stale_def cache_kept_def)
  obtain res1 k1 where r1: "run_init LL E conf ?k0 = Some (res1, k1)"
    "phase R E (if k_init k \<or> cc_init conf = [] then [] else [LWS_LC_INIT]) ?k0 res1 k1"
    "\<not> k_env k1" "\<not> k_sealed k1" "\<not> k_complete k1" "stale k1 \<subseteq> stale k" "\<And>n. res1 = Inr n \<Longrightarrow> k_init k1"
    by (rule init_phase [OF ok0 k0(1-3), where LL = LL and conf = conf, unfolded k0(4) stale0], rule that)
  note finish = that
  have fail: thesis if f: "phase R E s ?k0 (Inl e) k'" "?seq (k_complete k') = s @ rest"
    "k_complete k' \<longrightarrow> cc_pre conf \<noteq> []" "run_chunks LL E conf (lws_create_lua_request_ctx k) = Some (Inl e, k')" for s e k' rest
  proof (rule finish [OF f(4)])
    from f(1) obtain tr where "k_trace k' = k_trace k @ tr" "traced s (Inl e) tr" "cache_kept k k'"
      using k0(5) cache0 by (auto simp: phase_def)
    with f(2,3) traced_fail [of s e tr rest] show "run_shape conf k (Inl e) k'"
      by (auto simp: run_shape_def)
  qed (use f(1) in \<open>simp_all add: phase_def\<close>)
  show thesis
  proof (cases res1)
    case (Inl e)
    with r1(1) have "run_chunks LL E conf (lws_create_lua_request_ctx k) = Some (Inl e, k1)" by (simp add: run_chunks_def then_ok_def)
    from fail [OF r1(2) [unfolded Inl] _ _ this] r1(5) show thesis by (simp add: chunk_sequence_def)
  next
    case res1: (Inr n1)
    let ?p = "lws_push_env k1"
    have p: "k_complete ?p = k_complete k1" "k_trace ?p = k_trace k1" "k_init ?p" "stale ?p = stale k1"
      "cache_kept k1 ?p" using r1(7) [OF res1] by (simp_all add: lws_push_env_def stale_def)
    have okp: "ctx_ok E ?p" using r1(2) by (simp add: phase_def ctx_ok_def lws_push_env_def)
    have "phase R E [] k1 (Inr n1) ?p"
      using okp p rel_push [OF r1(4)] by (simp add: phase_def traced_def all_fine_def)
    from phase_then [OF r1(2) [unfolded res1] this] have
      ph1: "phase R E (if k_init k \<or> cc_init conf = [] then [] else [LWS_LC_INIT]) ?k0 (Inr n1) ?p" by simp
    obtain res2 k2 where r2: "call_if LL E (cc_pre conf) LWS_LC_PRE ?p = Some (res2, k2)"
      "phase R E (if cc_pre conf = [] then [] else [LWS_LC_PRE]) ?p res2 k2"
      "k_init k2" "cc_pre conf = [] \<Longrightarrow> \<not> k_complete k2" "stale k2 \<subseteq> stale k \<union> (if cc_pre conf = [] then {} else {cc_pre conf})"
      "\<And>n. res2 = Inr n \<Longrightarrow> result_ok n" "cc_pre conf \<noteq> [] \<Longrightarrow> k_trace k2 = k_trace ?p @ [(LWS_LC_PRE, res2)]"
      by (rule opt_phase [OF okp, where f = "cc_pre conf" and chunk = LWS_LC_PRE and LL = LL],
          rule that, use p r1(5,6) in \<open>auto\<close>)
    let ?s1 = "if k_init k \<or> cc_init conf = [] then [] else [LWS_LC_INIT]"
      and ?s2 = "if cc_pre conf = [] then [] else [LWS_LC_PRE]"
      and ?s4 = "if cc_post conf = [] then [] else [LWS_LC_POST]"
    note ph2 = phase_then [OF ph1 r2(2)]
    have pre2: "k_complete k2 \<longrightarrow> cc_pre conf \<noteq> []" using r2(4) by blast
    have run: "run_chunks LL E conf (lws_create_lua_request_ctx k) =
        then_ok (Some (res2, k2)) (\<lambda>result k. then_ok (run_main LL E conf result k) (\<lambda>result k.
          then_ok (run_post LL E conf result k) (\<lambda>result k. Some (Inr result, run_clear conf k))))"
      using r1(1) res1 r2(1) by (simp add: run_chunks_def then_ok_def)
    show thesis
    proof (cases res2)
      case (Inl e)
      from fail [OF ph2 [unfolded Inl]] pre2 run Inl show thesis
        by (simp add: chunk_sequence_def then_ok_def)
    next
      case res2: (Inr n2)
      have ok2: "ctx_ok E k2" using ph2 by (simp add: phase_def)
      obtain res3 k3 where r3: "run_main LL E conf n2 k2 = Some (res3, k3)"
        "phase R E (if k_complete k2 then [] else [LWS_LC_MAIN]) k2 res3 k3" "k_init k3 = k_init k2"
        "k_complete k3 = k_complete k2" "stale k3 \<subseteq> stale k2 \<union> (if k_complete k2 then {} else {cc_main conf})"
        "\<And>n. res3 = Inr n \<Longrightarrow> result_ok n" "k_complete k2 \<Longrightarrow> res3 = Inr n2"
        "\<not> k_complete k2 \<Longrightarrow> k_trace k3 = k_trace k2 @ [(LWS_LC_MAIN, res3)]"
        by (rule main_phase [OF ok2 r2(6) [OF res2], where LL = LL and conf = conf])
           (use r2(4) in blast, rule that)
      note ph3 = phase_then [OF ph2 [unfolded res2] r3(2)]
      show thesis
      proof (cases res3)
        case (Inl e)
        from fail [OF ph3 [unfolded Inl]] pre2 run res2 r3 Inl show thesis
          by (simp add: chunk_sequence_def then_ok_def)
      next
        case res3: (Inr n3)
        have ok3: "ctx_ok E k3" using ph3 by (simp add: phase_def)
        obtain res4 k4 where r4: "call_if LL E (cc_post conf) LWS_LC_POST k3 = Some (res4, k4)"
          "phase R E ?s4 k3 res4 k4" "k_init k4 = k_init k3" "k_complete k4 = k_complete k3"
          "stale k4 \<subseteq> stale k3 \<union> (if cc_post conf = [] then {} else {cc_post conf})"
          by (rule opt_phase [OF ok3, where f = "cc_post conf" and chunk = LWS_LC_POST and LL = LL])
             (rule that; simp)
        note ph4 = phase_then [OF ph3 [unfolded res3] r4(2)]
        have seq: "?seq (k_complete k4) = (((?s1 @ ?s2) @ (if k_complete k2 then [] else [LWS_LC_MAIN])) @ ?s4)"
          using r3(4) r4(4) by (simp add: chunk_sequence_def)
        have pre: "k_complete k4 \<longrightarrow> cc_pre conf \<noteq> []" using pre2 r3(4) r4(4) by blast
        show thesis
        proof (cases res4)
          case (Inl e)
          have "run_chunks LL E conf (lws_create_lua_request_ctx k) = Some (Inl e, k4)"
            using run res2 r3(1) res3 r4(1) Inl by (simp add: then_ok_def run_post_def)
          from fail [OF ph4 [unfolded Inl] _ pre this, of "[]"] seq show thesis by simp
        next
          case res4: (Inr n4)
          have fin: "run_chunks LL E conf (lws_create_lua_request_ctx k) = Some (Inr n3, run_clear conf k4)"
            using run res2 r3(1) res3 r4(1) res4 by (simp add: then_ok_def run_post_def)
          note ph5 = clear_phase [OF ph4, of conf]
          then obtain tr where tr: "k_trace (run_clear conf k4) = k_trace k @ tr"
            "traced (?seq (k_complete k4)) (Inr n4) tr" "cache_kept k (run_clear conf k4)"
            using seq res4 k0(5) cache0 unfolding phase_def by metis
          have ran: "(if k_complete k4 then LWS_LC_PRE else LWS_LC_MAIN, Inr n3) \<in> set tr"
          proof -
            obtain t1 t2 t3 t4 where t: "k_trace ?p = k_trace k @ t1" "k_trace k2 = k_trace ?p @ t2"
              "k_trace k3 = k_trace k2 @ t3" "k_trace k4 = k_trace k3 @ t4"
              using ph1 r2(2) r3(2) r4(2) k0(5) unfolding phase_def by metis
            have "tr = t1 @ t2 @ t3 @ t4" using tr(1) t by (simp add: run_clear_frame)
            moreover have "(LWS_LC_PRE, Inr n3) \<in> set t2" if "k_complete k4"
              using that r2(7) pre2 r3(4,7) r4(4) t(2) res2 res3 by auto
            moreover have "(LWS_LC_MAIN, Inr n3) \<in> set t3" if "\<not> k_complete k4"
              using that r3(4,8) r4(4) t(3) res3 by auto
            ultimately show ?thesis by auto
          qed
          have clean: "stale (run_clear conf k4) \<subseteq> stale k"
            using r1(6) r2(5) r3(4,5) r4(4,5) unfolding run_clear_stale by (auto split: if_splits)
          show thesis
          proof (rule finish [OF fin])
            show "run_shape conf k (Inr n3) (run_clear conf k4)"
              unfolding run_shape_def run_clear_frame
              using tr [unfolded run_clear_frame] ran clean pre r3(3,6) res3 r2(3) r4(3) by (auto simp: traced_def)
          qed (use ph5 in \<open>simp_all add: phase_def\<close>)
        qed
      qed
    qed
  qed
qed

lemma run_rel:
  assumes "ctx_ok E k"
  obtains res k' where "lws_run LL E conf k = Some (res, k')" "ctx_ok E k'"
    "R E (lws_create_lua_request_ctx k) k'" "run_outcome conf k res k'"
proof -
  let ?k0 = "lws_create_lua_request_ctx k"
  obtain res k' where r: "run_chunks LL E conf ?k0 = Some (res, k')" "ctx_ok E k'" "R E ?k0 k'" "run_shape conf k res k'"
    by (rule chunks_rel [OF assms])
  have start: "ctx_ok E ?k0" "R E ?k0 ?k0"
    using assms rel_frame [OF run_frame_refl] by (simp_all add: ctx_ok_def lws_create_lua_request_ctx_def)
  show thesis
  proof (cases rule: profiler_cases [of conf])
    case 1
    with r that show thesis by (simp add: lws_run_eq run_outcome_def)
  next
    case 2
    with start show thesis by (intro that) (simp_all add: lws_run_eq run_outcome_def)
  next
    case 3
    with r that show thesis by (simp add: lws_run_eq run_outcome_def)
  next
    case (4 e)
    show thesis
    proof (rule that [OF _ r(2,3)])
      show "lws_run LL E conf k = Some (Inl (either_error res (LuaString e)), k')"
        using 4 r(1) by (cases res) (simp_all add: lws_run_eq either_error_def)
      show "run_outcome conf k (Inl (either_error res (LuaString e))) k'"
        using 4 r(4) by (auto simp: run_outcome_def)
    qed
  qed
qed

end

lemma run_frame_sel:
  assumes "run_frame k' k"
  shows "k_sealed k' = k_sealed k" "k_env k' = k_env k" "k_readonly k' = k_readonly k"
    "k_headers k' = k_headers k" "k_status k' = k_status k" "k_redirect k' = k_redirect k"
    "k_redirect_args k' = k_redirect_args k" "k_body k' = k_body k" "k_pipe k' = k_pipe k"
    "k_written k' = k_written k" "k_broken k' = k_broken k" "k_pipe1 k' = k_pipe1 k"
  using assms by (cases k', cases k, simp add: run_frame_def)+

section \<open>Sealed headers\<close>

text \<open>Flushing the body seals the response header: the headers and the status are what the stream
  handler, which runs in another thread, may send from then on.\<close>

definition seal_ok :: "lws_lua_request_ctx \<Rightarrow> bool" where
  "seal_ok k \<longleftrightarrow> (k_sealed k \<longrightarrow> k_readonly k \<and> snd (k_redirect k) = 0)"

definition same_header :: "lws_lua_request_ctx \<Rightarrow> lws_lua_request_ctx \<Rightarrow> bool" where
  "same_header k k' \<longleftrightarrow> k_status k' = k_status k \<and> k_headers k' = k_headers k \<and>
     k_redirect k' = k_redirect k \<and> k_redirect_args k' = k_redirect_args k"

definition seal_rel :: "lws_env \<Rightarrow> lws_lua_request_ctx \<Rightarrow> lws_lua_request_ctx \<Rightarrow> bool" where
  "seal_rel E k k' \<longleftrightarrow> (seal_ok k \<longrightarrow> seal_ok k' \<and>
     (k_sealed k \<longrightarrow> k_sealed k' \<and> same_header k k') \<and> (k_pipe k' \<noteq> k_pipe k \<longrightarrow> k_sealed k'))"

lemmas seal_defs = seal_rel_def seal_ok_def same_header_def

interpretation seal: run_relation seal_rel
proof unfold_locales
  fix E k LL ans api r k'
  assume "ctx_ok E k" "api_call LL E ans api k = Some (r, k')"
  then show "seal_rel E k k'"
  proof (cases rule: api_call_cases)
    case (redirect path args)
    then show ?thesis by (rule redirect_update) (auto simp: seal_defs)
  next
    case (response key v)
    from response(2) show ?thesis by (rule response_update) (simp_all add: seal_defs)
  next
    case flush
    from flush(2) show ?thesis by (rule flush_update) (simp_all add: seal_defs)
  qed (simp_all add: seal_defs body_write_def)
next
  fix E k1 k2 k3 assume "seal_rel E k1 k2" "seal_rel E k2 k3"
  then show "seal_rel E k1 k3" unfolding seal_defs by metis
qed (simp_all add: seal_defs run_frame_sel lws_push_env_def)

section \<open>The response body\<close>

definition body_rel :: "lws_env \<Rightarrow> lws_lua_request_ctx \<Rightarrow> lws_lua_request_ctx \<Rightarrow> bool" where
  "body_rel E k k' \<longleftrightarrow> (\<exists>w out. k_written k' = k_written k @ w \<and> k_pipe k' = k_pipe k @ out \<and>
     (k_broken k \<longrightarrow> k_broken k') \<and> (\<not> k_broken k' \<longrightarrow> out @ k_body k' = k_body k @ w) \<and>
     k_pipe1 k' = k_pipe1 k \<and> (\<not> k_pipe1 k \<longrightarrow> out = [] \<and> k_broken k' = k_broken k))"

interpretation body: run_relation body_rel
proof unfold_locales
  fix E k LL ans api r k'
  assume "ctx_ok E k" "api_call LL E ans api k = Some (r, k')"
  then show "body_rel E k k'"
  proof (cases rule: api_call_cases)
    case (redirect path args)
    then show ?thesis by (rule redirect_update) (simp_all add: body_rel_def)
  next
    case (response key v)
    from response(2) show ?thesis by (rule response_update) (simp_all add: body_rel_def)
  next
    case flush
    from flush(2) show ?thesis by (rule flush_update) (auto simp: body_rel_def)
  qed (simp_all add: body_rel_def body_write_def)
next
  fix E k1 k2 k3 assume "body_rel E k1 k2" "body_rel E k2 k3"
  then show "body_rel E k1 k3" unfolding body_rel_def
    by clarsimp
qed (simp_all add: body_rel_def run_frame_sel lws_push_env_def)

section \<open>Clean headers\<close>

definition header_name_ok :: "ngx_str \<Rightarrow> bool" where
  "header_name_ok s \<longleftrightarrow> s \<noteq> [] \<and> list_all header_name_char s"

definition headers_clean :: "ngx_str lws_table \<Rightarrow> bool" where
  "headers_clean t \<longleftrightarrow> clean_items header_name_ok (list_all header_value_char) (lws_table_abs t)"

definition clean_rel :: "lws_env \<Rightarrow> lws_lua_request_ctx \<Rightarrow> lws_lua_request_ctx \<Rightarrow> bool" where
  "clean_rel E k k' \<longleftrightarrow> (headers_clean (k_headers k) \<longrightarrow> headers_clean (k_headers k'))"

lemma header_set_clean:
  assumes "ctx_ok E k" "header_set E (k_headers k) t" "headers_clean (k_headers k)"
  shows "headers_clean t"
proof -
  from assms(2) obtain E' key val rc where set: "same_process E' E" "header_name_ok key"
    "list_all header_value_char val" "lws_table_set E' (k_headers k) key (Some val) = Some (rc, t)"
    by (auto simp: header_set_def header_name_ok_def)
  then have "table_wf E' (k_headers k) \<and> strncasecmp_ok E'"
    using assms(1) by (simp add: table_wf_process ctx_ok_def plain_table_def same_process_def)
  from lws.put_clean [OF this, of header_name_ok "list_all header_value_char"] set(2-) assms(3)
  show ?thesis by (simp add: headers_clean_def)
qed

interpretation clean: run_relation clean_rel
proof unfold_locales
  fix E k LL ans api r k'
  assume ok: "ctx_ok E k" and "api_call LL E ans api k = Some (r, k')"
  then show "clean_rel E k k'"
  proof (cases rule: api_call_cases)
    case (header t)
    with header_set_clean [OF ok] show ?thesis by (simp add: clean_rel_def)
  next
    case (redirect path args)
    then show ?thesis by (rule redirect_update) (simp_all add: clean_rel_def)
  next
    case (response key v)
    from response(2) show ?thesis by (rule response_update) (simp_all add: clean_rel_def)
  next
    case flush
    from flush(2) show ?thesis by (rule flush_update) (simp_all add: clean_rel_def)
  qed (simp_all add: clean_rel_def body_write_def)
qed (simp_all add: clean_rel_def run_frame_sel lws_push_env_def)

end
