(* ===== verification/LwsRunCorrect.thy ===== *)
theory LwsRunCorrect
  imports LwsRunInv
begin

text \<open>
  The theorems about the Lua side of a request: the order of the chunks and the result, the environment
  that cached chunks are left with, what flushing seals, where the bytes of the body go, which header
  lines can be sent, and what integer results mean.
\<close>

section \<open>A concrete run\<close>

definition demo_ans :: lws_lua_answers where
  "demo_ans = \<lparr>an_alloc = \<lambda>_. True, an_ftell = True, an_fflush = True, an_write = [WRITE_EINTR, WRITTEN 2]\<rparr>"

text \<open>The pre chunk of the demo does nothing; its main chunk sets a header, writes and flushes the body,
  and tries to change the status after that. The error is caught.\<close>

definition demo_main :: lua_code where
  "demo_main =
     Call demo_ans (HeaderNewindex (lit ''Content-Length'') (lit ''9'')) (\<lambda>_.
     Call demo_ans (BodyWrite (lit ''Hello'')) (\<lambda>_.
     Call demo_ans BodyFlush (\<lambda>_.
     Call demo_ans (ResponseNewindex (lit ''status'') (LuaInt 404)) (\<lambda>r.
     Return (case r of Inl _ \<Rightarrow> LuaNil | Inr _ \<Rightarrow> LuaInt 500)))))"

definition demo_lua :: lws_lua where
  "demo_lua = \<lparr>ll_load = [lit ''pre'' \<mapsto> Return LuaNil, lit ''main'' \<mapsto> demo_main], ll_load_error = id,
     ll_integer = (\<lambda>_. None), ll_number = (\<lambda>_. []), ll_d = (\<lambda>_. []), ll_argerror = (\<lambda>_ s. s),
     ll_index_nil = [], ll_traceback = id\<rparr>"

definition demo_conf :: lws_chunk_conf where
  "demo_conf = \<lparr>cc_init = [], cc_pre = lit ''pre'', cc_main = lit ''main'', cc_post = [], cc_profiler = None\<rparr>"

definition demo_lctx :: lws_lua_request_ctx where
  "demo_lctx = \<lparr>k_chunk = LWS_LC_INIT, k_complete = False, k_sealed = False, k_env = False,
     k_readonly = False, k_headers = demo_resp_start, k_request_headers = demo_resp_start,
     k_variables = demo_resp_start, k_raw = (\<lambda>_. None), k_status = 200, k_redirect = (None, 0),
     k_redirect_args = (None, 0), k_body = [], k_pipe1 = True, k_pipe = [], k_close = False,
     k_init = False, k_chunks = (\<lambda>_. None), k_written = [], k_broken = False, k_trace = [],
     k_dups = 0\<rparr>"

definition demo_after :: lws_lua_request_ctx where
  "demo_after = demo_lctx\<lparr>k_chunk := LWS_LC_MAIN, k_sealed := True, k_env := True, k_readonly := True,
     k_headers := demo_resp_1, k_raw := [lit ''headers'' \<mapsto> LuaOther, lit ''body'' \<mapsto> LuaOther],
     k_pipe := lit ''Hello'', k_written := lit ''Hello'', k_init := True,
     k_chunks := [lit ''pre'' \<mapsto> (Return LuaNil, ENV_GLOBALS), lit ''main'' \<mapsto> (demo_main, ENV_GLOBALS)],
     k_trace := [(LWS_LC_PRE, Inr 0), (LWS_LC_MAIN, Inr 0)]\<rparr>"

lemma demo_lctx_ok: "ctx_ok demo_env demo_lctx"
  using reach_wf [OF demo_start_reach] demo_env_ok
  by (simp add: ctx_ok_def plain_table_def demo_lctx_def demo_resp_start_def)

lemma demo_answer: "answer_env demo_env demo_ans = demo_env"
  by (simp add: answer_env_def demo_ans_def demo_env_def)

lemma demo_names: "lit ''pre'' \<noteq> lit ''main''" "lit ''main'' \<noteq> []" "lit ''pre'' \<noteq> []"
  by (simp_all add: lit_def)

lemma demo_newindex:
  "lws_lua_table_newindex demo_env False demo_resp_start (lit ''Content-Length'') (lit ''9'') =
   Some (Inr LuaNil, demo_resp_1)"
  using demo_resp_set_1
  by (simp add: lws_lua_table_newindex_def demo_env_sel)
     (simp add: lit_def header_name_char_def header_value_char_def)

lemma demo_main_run:
  assumes "k_env k" "\<not> k_readonly k" "k_headers k = demo_resp_start" "k_body k = []" "snd (k_redirect k) = 0"
    "k_pipe1 k" "k_pipe k = []" "k_written k = []"
  shows "run_code demo_lua demo_env demo_main k = Some (Inr LuaNil, k\<lparr>k_headers := demo_resp_1,
    k_written := lit ''Hello'', k_sealed := True, k_readonly := True, k_pipe := lit ''Hello''\<rparr>)"
proof -
  let ?k1 = "k\<lparr>k_headers := demo_resp_1\<rparr>"
  let ?k2 = "?k1\<lparr>k_body := lit ''Hello'', k_written := lit ''Hello''\<rparr>"
  let ?k3 = "?k2\<lparr>k_sealed := True, k_readonly := True, k_pipe := lit ''Hello'', k_body := []\<rparr>"
  have 1: "api_call demo_lua demo_env demo_ans (HeaderNewindex (lit ''Content-Length'') (lit ''9'')) k = Some (Inr LuaNil, ?k1)"
    using assms demo_newindex by (simp add: api_call_def demo_answer)
  have 2: "api_call demo_lua demo_env demo_ans (BodyWrite (lit ''Hello'')) ?k1 = Some (Inr LuaNil, ?k2)"
    using assms by (simp add: api_call_def body_write_def)
  have w: "flush_write (an_write demo_ans) (lit ''Hello'') = (True, lit ''Hello'')"
    by (simp add: demo_ans_def lit_def eval_nat_numeral)
  have ne: "lit ''Hello'' \<noteq> []" "an_ftell demo_ans" "an_fflush demo_ans"
    by (simp_all add: lit_def demo_ans_def)
  have 3: "api_call demo_lua demo_env demo_ans BodyFlush ?k2 = Some (Inr LuaNil, ?k3)"
    using assms w ne by (simp add: api_call_def lws_file_flush_hook_def Let_def)
  have 4: "\<exists>e. api_call demo_lua demo_env demo_ans (ResponseNewindex (lit ''status'') (LuaInt 404)) ?k3 = Some (Inl e, ?k3)"
    using assms by (simp add: api_call_def lws_lua_response_newindex_def lua_tointegerx_def)
       (simp add: lit_def eval_nat_numeral)
  have same: "?k3 = k\<lparr>k_headers := demo_resp_1,
    k_written := lit ''Hello'', k_sealed := True, k_readonly := True, k_pipe := lit ''Hello''\<rparr>"
    using assms(4) by simp
  from 4 show ?thesis unfolding demo_main_def same [symmetric]
    by (auto simp only: run_code.simps 1 2 3 option.case prod.case sum.case)
qed

lemma demo_load: "ll_load demo_lua (lit ''pre'') = Some (Return LuaNil)"
  "ll_load demo_lua (lit ''main'') = Some demo_main"
  using demo_names by (simp_all add: demo_lua_def)

lemma demo_pre_call:
  assumes "k_chunks k = (\<lambda>_. None)"
  shows "lws_call demo_lua demo_env (lit ''pre'') LWS_LC_PRE k = Some (Inr 0, k\<lparr>k_chunk := LWS_LC_PRE,
    k_chunks := [lit ''pre'' \<mapsto> (Return LuaNil, ENV_REQUEST)], k_trace := k_trace k @ [(LWS_LC_PRE, Inr 0)]\<rparr>)"
  using assms
  by (simp add: lws_call_def get_chunk_def demo_load set_chunk_env_def check_result_def chunk_result_def
      finish_call_def Let_def)

lemma demo_main_call:
  assumes "k_chunks k = [lit ''pre'' \<mapsto> (Return LuaNil, ENV_REQUEST)]" "k_env k" "\<not> k_readonly k"
    "k_headers k = demo_resp_start" "k_body k = []" "snd (k_redirect k) = 0" "k_pipe1 k" "k_pipe k = []"
    "k_written k = []"
  shows "lws_call demo_lua demo_env (lit ''main'') LWS_LC_MAIN k = Some (Inr 0, k\<lparr>k_chunk := LWS_LC_MAIN,
    k_chunks := [lit ''pre'' \<mapsto> (Return LuaNil, ENV_REQUEST), lit ''main'' \<mapsto> (demo_main, ENV_REQUEST)],
    k_headers := demo_resp_1, k_written := lit ''Hello'', k_sealed := True, k_readonly := True,
    k_pipe := lit ''Hello'', k_trace := k_trace k @ [(LWS_LC_MAIN, Inr 0)]\<rparr>)"
  using assms demo_names
  by (simp add: lws_call_def get_chunk_def demo_load set_chunk_env_def check_result_def chunk_result_def
      finish_call_def demo_main_run Let_def)

lemma demo_conf_sel: "cc_init demo_conf = []" "cc_pre demo_conf = lit ''pre''" "cc_main demo_conf = lit ''main''"
  "cc_profiler demo_conf = None"
  "cc_post demo_conf = []"
  by (simp_all add: demo_conf_def)

lemma demo_lctx_sel: "\<not> k_init demo_lctx" "k_chunks demo_lctx = (\<lambda>_. None)" "k_headers demo_lctx = demo_resp_start"
  "k_body demo_lctx = []" "k_redirect demo_lctx = (None, 0)" "k_pipe1 demo_lctx" "k_pipe demo_lctx = []"
  "k_written demo_lctx = []" "k_trace demo_lctx = []" "\<not> k_complete demo_lctx" "\<not> k_broken demo_lctx"
  by (simp_all add: demo_lctx_def)

lemma demo_run: "lws_run demo_lua demo_env demo_conf demo_lctx = Some (Inr 0, demo_after)"
proof -
  let ?k1 = "(lws_create_lua_request_ctx demo_lctx)\<lparr>k_init := True\<rparr>"
  let ?k2 = "(lws_push_env ?k1)\<lparr>k_chunk := LWS_LC_PRE,
    k_chunks := [lit ''pre'' \<mapsto> (Return LuaNil, ENV_REQUEST)], k_trace := [(LWS_LC_PRE, Inr 0)]\<rparr>"
  let ?k3 = "?k2\<lparr>k_chunk := LWS_LC_MAIN,
    k_chunks := [lit ''pre'' \<mapsto> (Return LuaNil, ENV_REQUEST), lit ''main'' \<mapsto> (demo_main, ENV_REQUEST)],
    k_headers := demo_resp_1, k_written := lit ''Hello'', k_sealed := True, k_readonly := True,
    k_pipe := lit ''Hello'', k_trace := [(LWS_LC_PRE, Inr 0), (LWS_LC_MAIN, Inr 0)]\<rparr>"
  have 1: "run_init demo_lua demo_env demo_conf (lws_create_lua_request_ctx demo_lctx) = Some (Inr 0, ?k1)"
    by (simp add: run_init_def call_if_def then_ok_def demo_conf_sel demo_lctx_sel lws_create_lua_request_ctx_def)
  have 2: "call_if demo_lua demo_env (cc_pre demo_conf) LWS_LC_PRE (lws_push_env ?k1) = Some (Inr 0, ?k2)"
    by (simp add: call_if_def demo_conf_sel demo_names demo_pre_call lws_push_env_def
        lws_create_lua_request_ctx_def demo_lctx_sel)
  have 3: "run_main demo_lua demo_env demo_conf 0 ?k2 = Some (Inr 0, ?k3)"
    by (simp add: run_main_def demo_conf_sel demo_main_call lws_push_env_def
        lws_create_lua_request_ctx_def demo_lctx_sel)
  have 4: "run_clear demo_conf ?k3 = demo_after"
    using demo_names
    by (simp add: run_clear_def demo_conf_sel lws_clear_env_def set_chunk_env_def lws_push_env_def
        lws_create_lua_request_ctx_def demo_lctx_sel demo_after_def fun_upd_twist)
  show ?thesis
    unfolding lws_run_def run_chunks_def profiler_call_def demo_conf_sel option.map 1 then_ok_def option.case prod.case sum.case 2 [unfolded demo_conf_sel] 3
    by (simp only: run_post_def call_if_def demo_conf_sel then_ok_def simp_thms if_True if_False
        option.case prod.case sum.case 4)
qed

lemma demo_after_sel: "k_sealed demo_after" "k_pipe demo_after = lit ''Hello''" "k_body demo_after = []"
  "k_written demo_after = lit ''Hello''" "\<not> k_broken demo_after" "k_headers demo_after = demo_resp_1"
  "k_redirect demo_after = (None, 0)" "k_status demo_after = 200" "k_env demo_after"
  "k_trace demo_after = [(LWS_LC_PRE, Inr 0), (LWS_LC_MAIN, Inr 0)]" "\<not> k_complete demo_after"
  "k_chunks demo_after = [lit ''pre'' \<mapsto> (Return LuaNil, ENV_GLOBALS), lit ''main'' \<mapsto> (demo_main, ENV_GLOBALS)]"
  by (simp_all add: demo_after_def demo_lctx_def)

section \<open>The theorems\<close>

text \<open>C7: Running a request always comes to an end. It calls the chunks that are configured in the order
  init, pre, main, post: init only if the state has not been initialized, main unless the pre chunk has
  marked the request as complete, which only a pre chunk can do. If a chunk fails, its error is the
  result and no chunk is called after it. If none fails, the result is that of the pre chunk if the
  request is complete and that of the main chunk if not, and it is not negative. If the profiler is
  enabled, an error of its start is the result and no chunk is called, and an error of its stop is the
  result of a run whose chunks did not fail.\<close>

theorem lws_run_sequence:
  assumes "ctx_ok E k"
  shows "\<exists>res k' tr. lws_run LL E conf k = Some (res, k') \<and> k_trace k' = k_trace k @ tr \<and>
    (k_complete k' \<longrightarrow> cc_pre conf \<noteq> []) \<and>
    (case res of
       Inl e \<Rightarrow>
         (\<exists>t0 c rest. tr = t0 @ [(c, Inl e)] \<and> all_fine t0 \<and>
            chunk_sequence conf (k_init k) (k_complete k') = map fst tr @ rest) \<or>
         (\<exists>s q. cc_profiler conf = Some (Some s, q) \<and> e = LuaString s \<and> tr = []) \<or>
         (\<exists>s. cc_profiler conf = Some (None, Some s) \<and> e = LuaString s \<and> all_fine tr \<and>
            map fst tr = chunk_sequence conf (k_init k) (k_complete k'))
     | Inr r \<Rightarrow> map fst tr = chunk_sequence conf (k_init k) (k_complete k') \<and> all_fine tr \<and> r \<ge> 0 \<and>
         (if k_complete k' then LWS_LC_PRE else LWS_LC_MAIN, Inr r) \<in> set tr \<and>
         cc_profiler conf \<in> {None, Some (None, None)})"
proof -
  obtain res k' where run: "lws_run LL E conf k = Some (res, k')" "run_outcome conf k res k'"
    by (rule seal.run_rel [OF assms])
  show ?thesis
  proof (cases "\<exists>s q. cc_profiler conf = Some (Some s, q)")
    case True
    with run show ?thesis
      by (intro exI [of _ res] exI [of _ k'] exI [of _ "[]"]) (auto simp: run_outcome_def lws_create_lua_request_ctx_def)
  next
    case False
    with run(2) obtain r where r: "run_shape conf k r k'"
      "r = res \<and> cc_profiler conf \<in> {None, Some (None, None)} \<or>
       (\<exists>s. cc_profiler conf = Some (None, Some s) \<and> res = Inl (either_error r (LuaString s)))"
      by (cases rule: profiler_cases [of conf]) (auto simp: run_outcome_def)
    from r(1) obtain tr where "k_trace k' = k_trace k @ tr" "k_complete k' \<longrightarrow> cc_pre conf \<noteq> []"
      "traced (chunk_sequence conf (k_init k) (k_complete k')) r tr"
      "\<forall>n. r = Inr n \<longrightarrow> result_ok n \<and> (if k_complete k' then LWS_LC_PRE else LWS_LC_MAIN, Inr n) \<in> set tr"
      unfolding run_shape_def by blast
    with run(1) r(2) show ?thesis
      by (intro exI [of _ res] exI [of _ k'] exI [of _ tr]) (cases r; auto simp: traced_def result_ok_def either_error_def)
  qed
qed

theorem lws_run_sequence_witness:
  "\<exists>k' tr. lws_run demo_lua demo_env demo_conf demo_lctx = Some (Inr 0, k') \<and>
     map fst tr = [LWS_LC_PRE, LWS_LC_MAIN] \<and> k_trace k' = tr"
  using lws_run_sequence [OF demo_lctx_ok, of demo_lua demo_conf] demo_names
  by (auto simp: demo_run demo_after_sel demo_lctx_sel chunk_sequence_def demo_conf_sel)

text \<open>Lua states read a chunk only once: a cached function stays cached, whatever the result. After a
  run without an error, no chunk is left with the environment of the request, if none had one before,
  and the state is initialized.\<close>

theorem lws_run_releases_environment:
  assumes "ctx_ok E k" "lws_run LL E conf k = Some (res, k')"
  shows "cache_kept k k' \<and>
    (\<forall>r. res = Inr r \<longrightarrow> k_init k' \<and> ((\<forall>f code. k_chunks k f \<noteq> Some (code, ENV_REQUEST)) \<longrightarrow>
      (\<forall>f code. k_chunks k' f \<noteq> Some (code, ENV_REQUEST))))"
proof -
  have out: "run_outcome conf k res k'" by (rule seal.run_rel [OF assms(1), of LL conf]) (use assms(2) in auto)
  have "k_init k' \<and> stale k' \<subseteq> stale k" if "res = Inr r" for r
    using run_outcome_ok [OF out [unfolded that]] by (auto simp: run_shape_def)
  with run_outcome_cache [OF out] show ?thesis by (auto simp: stale_def)
qed

theorem lws_run_releases_environment_witness:
  "k_chunks demo_after (lit ''main'') = Some (demo_main, ENV_GLOBALS) \<and>
   (\<forall>f code. k_chunks demo_after f \<noteq> Some (code, ENV_REQUEST))"
  using lws_run_releases_environment [OF demo_lctx_ok demo_run] by (simp add: demo_lctx_sel demo_after_sel)

text \<open>C8: Whatever Lua code runs, once the response header is sealed it stays sealed, and neither the
  status nor the headers nor a redirect change any more; no byte is written to the streaming pipe
  before it is sealed; and a sealed response is not redirected.\<close>

theorem lws_seal_correct:
  assumes "ctx_ok E k" "k_sealed k \<Longrightarrow> k_readonly k \<and> snd (k_redirect k) = 0"
  shows "\<exists>r k'. run_code LL E code k = Some (r, k') \<and>
    (k_sealed k \<longrightarrow> k_sealed k' \<and> k_status k' = k_status k \<and> k_headers k' = k_headers k \<and>
      k_redirect k' = k_redirect k \<and> k_redirect_args k' = k_redirect_args k) \<and>
    (k_pipe k' \<noteq> k_pipe k \<longrightarrow> k_sealed k') \<and>
    (k_sealed k' \<longrightarrow> k_readonly k' \<and> snd (k_redirect k') = 0)"
proof -
  have "seal_ok k" using assms(2) by (simp add: seal_ok_def)
  with seal.code_rel [OF assms(1), of LL code] show ?thesis
    by (auto simp: seal_rel_def same_header_def seal_ok_def)
qed

definition demo_status_change :: lua_code where
  "demo_status_change = Call demo_ans (ResponseNewindex (lit ''status'') (LuaInt 404)) (\<lambda>_. Return LuaNil)"

lemma demo_after_ok: "ctx_ok demo_env demo_after"
  by (rule seal.run_rel [OF demo_lctx_ok, of demo_lua demo_conf]) (simp add: demo_run)

theorem lws_seal_correct_witness:
  "\<exists>r k'. run_code demo_lua demo_env demo_status_change demo_after = Some (r, k') \<and> k_status k' = 200"
proof -
  have "k_readonly demo_after \<and> snd (k_redirect demo_after) = 0" by (simp add: demo_after_def demo_lctx_def)
  from lws_seal_correct [OF demo_lctx_ok, of demo_lua demo_status_change]
    lws_seal_correct [OF demo_after_ok this, of demo_lua demo_status_change]
  show ?thesis by (auto simp: demo_after_sel)
qed

text \<open>C18: In a run in which no \<open>write\<close> fails, the bytes written to the streaming pipe followed by the bytes
  left in the response body are the bytes that Lua wrote, in their order, whatever parts \<open>write\<close> takes
  and however often it is interrupted.\<close>

theorem lws_run_body:
  assumes "ctx_ok E k" "lws_run LL E conf k = Some (res, k')"
    and "k_pipe k = []" "k_body k = []" "k_written k = []" "\<not> k_broken k'"
  shows "k_pipe k' @ k_body k' = k_written k'"
proof -
  have "body_rel E (lws_create_lua_request_ctx k) k'"
    by (rule body.run_rel [OF assms(1), of LL conf]) (use assms(2) in auto)
  with assms(3-) show ?thesis by (auto simp: body_rel_def lws_create_lua_request_ctx_def)
qed

theorem lws_run_body_witness: "k_pipe demo_after @ k_body demo_after = lit ''Hello''"
  using lws_run_body [OF demo_lctx_ok demo_run] by (simp add: demo_lctx_sel demo_after_sel)

section \<open>What can be sent as a header\<close>

lemma cookie_scan_bytes: "cookie_scan E e s = (c, r) \<Longrightarrow> set c \<subseteq> set s \<and> set r \<subseteq> set s"
  by (induction E e s arbitrary: c r rule: cookie_scan.induct)
     (fastforce simp: apfst_def map_prod_def split: if_splits prod.splits)+

lemma cookie_list_bytes: "c \<in> set (cookie_list E s) \<Longrightarrow> set c \<subseteq> set s"
proof (induction E s rule: cookie_list.induct)
  case (1 E s)
  obtain cookie r where scan: "cookie_scan E False s = (cookie, r)" by force
  let ?r = "dropWhile (\<lambda>b. b = CHR_SP) (tl r)"
  note bytes = cookie_scan_bytes [OF scan]
  have r: "set ?r \<subseteq> set s"
    using bytes set_dropWhileD [of _ "\<lambda>b. b = CHR_SP" "tl r"] by (cases r) auto
  show ?case
  proof (cases "r = [] \<or> ?r = []")
    case True
    then have "cookie_list E s = [cookie]"
      by (subst cookie_list.simps) (auto simp: scan Let_def simp del: dropWhile_eq_Nil_conv)
    with 1(2) bytes show ?thesis by simp
  next
    case False
    then have "cookie_list E s = cookie # cookie_list E ?r"
      by (subst cookie_list.simps) (auto simp: scan Let_def simp del: dropWhile_eq_Nil_conv)
    with 1(1) [OF scan [symmetric] refl refl] 1(2) False bytes r show ?thesis by auto
  qed
qed

definition line_ok :: "ngx_str \<times> ngx_str \<Rightarrow> bool" where
  "line_ok l \<longleftrightarrow> header_name_ok (fst l) \<and> list_all header_value_char (snd l)"

lemma header_lines_ok:
  "header_name_ok key \<Longrightarrow> list_all header_value_char v \<Longrightarrow> \<forall>l\<in>set (header_lines E key v). line_ok l"
proof -
  assume key: "header_name_ok key" and v: "list_all header_value_char v"
  have "list_all header_value_char c" if "c \<in> set (cookie_list E v)" for c
    using cookie_list_bytes [OF that] v by (auto simp: list_all_iff)
  with key v show ?thesis by (auto simp: header_lines_def line_ok_def)
qed

lemma all_lines_ok: "headers_clean t \<Longrightarrow> \<forall>l\<in>set (all_lines E (lru_items (lws_table_abs t))). line_ok l"
  unfolding headers_clean_def clean_items_def all_lines_def using header_lines_ok by fastforce

text \<open>A line that is clean holds no byte that would end it, so that one header cannot pretend to be two.\<close>

lemma clean_bytes:
  assumes "header_name_char b \<or> header_value_char b" shows "b \<noteq> 13 \<and> b \<noteq> 10 \<and> b \<noteq> 0"
proof -
  have "\<not> header_name_char 13 \<and> \<not> header_name_char 10 \<and> \<not> header_name_char 0"
    "\<not> header_value_char 13 \<and> \<not> header_value_char 10 \<and> \<not> header_value_char 0"
    by (simp_all add: header_name_char_def header_value_char_def lit_def)
  with assms show ?thesis by metis
qed

lemma clean_string:
  assumes "list_all header_name_char s \<or> list_all header_value_char s" shows "{0, 10, 13} \<inter> set s = {}"
  using assms clean_bytes unfolding list_all_iff by blast

lemma line_ok_bytes: "line_ok l \<Longrightarrow> {0, 10, 13} \<inter> (set (fst l) \<union> set (snd l)) = {}"
  using clean_string [of "fst l"] clean_string [of "snd l"] by (simp add: line_ok_def header_name_ok_def)

lemma set_one_header_type:
  assumes "lws_set_one_header E push parse_time key (Some v) r = res" "res = Inl r' \<or> res = Inr r'"
  shows "r_content_type r' = r_content_type r \<or> r_content_type r' = v"
  using assms
  by (auto simp: lws_set_one_header_def Let_def split: if_splits option.splits sum.splits)

lemma each_item_type:
  "each_item (lws_set_one_header E push parse_time) xs r = res \<Longrightarrow> res = Inl r' \<or> res = Inr r' \<Longrightarrow>
   r_content_type r' = r_content_type r \<or> (\<exists>x\<in>set xs. r_content_type r' = fst (snd x))"
proof (induction xs arbitrary: r)
  case (Cons x xs)
  show ?case
  proof (cases "lws_set_one_header E push parse_time (fst x) (Some (fst (snd x))) r")
    case (Inl r1)
    with Cons.prems set_one_header_type [OF Inl, of r1] show ?thesis by auto
  next
    case (Inr r1)
    with Cons set_one_header_type [OF Inr, of r1] show ?thesis by fastforce
  qed
qed auto

lemma set_response_header_type:
  assumes "table_wf E t" "strncasecmp_ok E" "lws_set_response_header E push parse_time t r = Some (rc, r')"
  shows "r_content_type r' = r_content_type r \<or>
    (\<exists>x\<in>set (lru_items (lws_table_abs t)). r_content_type r' = fst (snd x))"
  using assms(3) each_item_type [OF refl, of E push parse_time "lru_items (lws_table_abs t)" r r']
  unfolding lws_set_response_header_def each_all [OF assms(1,2)]
  by (auto split: sum.splits)

lemma set_response_header_lines:
  assumes "table_wf E t" "strncasecmp_ok E"
  obtains rc r' where "lws_set_response_header E push parse_time t r = Some (rc, r')"
    "push_all push (r_headers r) (all_lines E (lru_items (lws_table_abs t))) = (rc = NGX_OK, r_headers r')"
  using each_item_push [of push E "lru_items (lws_table_abs t)" r parse_time] that
  unfolding lws_set_response_header_def each_all [OF assms] push_result_def
  by (auto split: sum.splits)

text \<open>C17: No response header can be injected. Whatever Lua code runs, a line that is put on the list of
  response headers has a name that is a token and a value without control characters other than the tab,
  so that neither holds a CR, a LF or a NUL byte, and so does the content type.\<close>

theorem lws_headers_not_injected:
  assumes "ctx_ok E k" "headers_clean (k_headers k)" "lws_run LL E conf k = Some (res, k')"
    and "lws_set_response_header E push parse_time (k_headers k') r = Some (rc, r')"
  shows "(\<forall>l \<in> set (r_headers r') - set (r_headers r). header_name_ok (fst l) \<and>
      list_all header_value_char (snd l) \<and> {0, 10, 13} \<inter> (set (fst l) \<union> set (snd l)) = {}) \<and>
    (r_content_type r' \<noteq> r_content_type r \<longrightarrow> {0, 10, 13} \<inter> set (r_content_type r') = {})"
proof -
  have ok: "ctx_ok E k'" "clean_rel E (lws_create_lua_request_ctx k) k'"
    by (rule clean.run_rel [OF assms(1), of LL conf]; use assms(3) in auto)+
  then have clean: "headers_clean (k_headers k')"
    using assms(2) by (simp add: clean_rel_def lws_create_lua_request_ctx_def)
  have wf: "table_wf E (k_headers k')" "strncasecmp_ok E"
    using ok(1) by (simp_all add: ctx_ok_def plain_table_def)
  let ?lines = "all_lines E (lru_items (lws_table_abs (k_headers k')))"
  have "push_all push (r_headers r) ?lines = (rc = NGX_OK, r_headers r')"
    by (rule set_response_header_lines [OF wf, of push parse_time r]) (use assms(4) in simp)
  from all_lines_safe [OF this] all_lines_ok [OF clean, of E] have
    "\<forall>l \<in> set (r_headers r') - set (r_headers r). line_ok l" by blast
  moreover have "{0, 10, 13} \<inter> set (r_content_type r') = {}" if "r_content_type r' \<noteq> r_content_type r"
  proof -
    from set_response_header_type [OF wf assms(4)] that obtain x where
      "x \<in> set (lru_items (lws_table_abs (k_headers k')))" "r_content_type r' = fst (snd x)" by blast
    moreover from this(1) have "list_all header_value_char (fst (snd x))"
      using clean unfolding headers_clean_def clean_items_def by blast
    ultimately show ?thesis using clean_string by metis
  qed
  ultimately show ?thesis using line_ok_bytes by (auto simp: line_ok_def)
qed

theorem lws_headers_not_injected_witness:
  "\<exists>rc r'. lws_set_response_header demo_env (\<lambda>_. True) (\<lambda>_. 0) (k_headers demo_after) demo_request = Some (rc, r') \<and>
     {0, 10, 13} \<inter> (\<Union>l \<in> set (r_headers r') - set (r_headers demo_request). set (snd l)) = {}"
proof -
  have "headers_clean (k_headers demo_lctx)"
    by (simp add: demo_lctx_sel headers_clean_def clean_items_def lws_table_items_def contents_def demo_resp_start_def)
  moreover obtain rc r' where
    "lws_set_response_header demo_env (\<lambda>_. True) (\<lambda>_. 0) (k_headers demo_after) demo_request = Some (rc, r')"
    by (rule set_response_header_lines [of demo_env "k_headers demo_after"])
       (use demo_after_ok in \<open>simp_all add: ctx_ok_def plain_table_def\<close>)
  ultimately show ?thesis using lws_headers_not_injected [OF demo_lctx_ok _ demo_run] by fastforce
qed

section \<open>Results\<close>

text \<open>The documentation (doc/RequestProcessing.md): nil is 0; a negative integer, or a value that is not
  convertible to an integer, is an error (\<open>None\<close>).\<close>

definition doc_result :: "lws_lua \<Rightarrow> lua_value \<Rightarrow> int option" where
  "doc_result LL v =
     (if v = LuaNil then Some 0
      else case lua_tointegerx LL v of None \<Rightarrow> None | Some i \<Rightarrow> if sint i < 0 then None else Some (sint i))"

lemma sint_narrow:
  assumes "- (2 ^ 31) \<le> sint i \<and> sint i < 2 ^ 31"
  shows "sint (ucast i :: 32 word) = sint (i :: 64 word)"
proof -
  have "sint (ucast i :: 32 word) = signed_take_bit 31 (sint i)"
    by transfer (simp add: signed_take_bit_take_bit)
  with assms show ?thesis by (simp add: signed_take_bit_int_eq_self)
qed

text \<open>C25: The result of a chunk is the one documented if the integer that Lua returns fits in the 32 bits
  of an \<open>int\<close>; otherwise only its lower 32 bits count, so that an out of range status such as
  4294967700 is taken for the status 404 and the negative number -4294967296 for success.\<close>

theorem lws_result_documented:
  "((\<forall>i. lua_tointegerx LL v = Some i \<longrightarrow> - (2 ^ 31) \<le> sint i \<and> sint i < 2 ^ 31) \<longrightarrow>
     check_result LL filename chunk (Inr v) =
       (case doc_result LL v of
          None \<Rightarrow> Inl (chunk_failed LL filename chunk (chunk_result LL v))
        | Some n \<Rightarrow> Inr n)) \<and>
   check_result LL filename chunk (Inr (LuaInt 4294967700)) = Inr 404 \<and>
   check_result LL filename chunk (Inr (LuaInt (- 4294967296))) = Inr 0 \<and>
   doc_result LL (LuaInt 4294967700) = Some 4294967700 \<and> doc_result LL (LuaInt (- 4294967296)) = None"
proof (intro conjI impI)
  assume "\<forall>i. lua_tointegerx LL v = Some i \<longrightarrow> - (2 ^ 31) \<le> sint i \<and> sint i < 2 ^ 31"
  with sint_narrow show "check_result LL filename chunk (Inr v) =
      (case doc_result LL v of
         None \<Rightarrow> Inl (chunk_failed LL filename chunk (chunk_result LL v)) | Some n \<Rightarrow> Inr n)"
    by (auto simp: check_result_def doc_result_def chunk_result_def split: option.split)
qed (simp_all add: check_result_def chunk_result_def doc_result_def lua_tointegerx_def)

theorem lws_result_documented_witness:
  "check_result demo_lua (lit ''main'') LWS_LC_MAIN (Inr (LuaInt 404)) = Inr 404 \<and>
   check_result demo_lua (lit ''main'') LWS_LC_MAIN (Inr (LuaInt 4294967700)) = Inr 404"
  using lws_result_documented [of demo_lua "LuaInt 404" "lit ''main''" LWS_LC_MAIN]
  by (simp add: lua_tointegerx_def doc_result_def)

section \<open>Redirects\<close>

text \<open>A redirect for which there is no memory leaves a length without a string if a redirect was
  scheduled before: the finalization of a request whose Lua code catches the error reads through the
  NULL pointer. A redirect that succeeds drops the string of an earlier one without freeing it.\<close>

lemma lws_redirect_dangling:
  fixes LL :: lws_lua and k :: lws_lua_request_ctx
  defines "no_memory \<equiv> demo_ans\<lparr>an_alloc := \<lambda>_. False\<rparr>"
  assumes "k_chunk k = LWS_LC_MAIN" "\<not> k_sealed k"
  shows "\<exists>k'. run_code LL E (Call demo_ans (Redirect (lit ''/a'') None) (\<lambda>_.
      Call no_memory (Redirect (lit ''/b'') None) (\<lambda>_. Return LuaNil))) k = Some (Inr LuaNil, k') \<and>
    k_redirect k' = (None, 2)"
  using assms(2,3)
  by (simp add: api_call_def needs_env_def lws_redirect_def redirect_dup_args_def redirect_dup_def
      lws_strdup_def first_byte_def lit_def no_memory_def demo_ans_def Let_def)

lemma lws_redirect_leaks:
  assumes "k_chunk k = LWS_LC_MAIN" "\<not> k_sealed k" "k_dups k = 0"
  shows "\<exists>k'. run_code LL E (Call demo_ans (Redirect (lit ''/a'') None) (\<lambda>_.
      Call demo_ans (Redirect (lit ''/b'') None) (\<lambda>_. Return LuaNil))) k = Some (Inr LuaNil, k') \<and>
    k_redirect k' = (Some (lit ''/b''), 2) \<and> k_redirect_args k' = k_redirect_args k \<and> k_dups k' = 2"
  using assms
  by (simp add: api_call_def needs_env_def lws_redirect_def redirect_dup_args_def redirect_dup_def
      lws_strdup_def first_byte_def lit_def demo_ans_def Let_def)

end
