(* ===== verification/LwsError.thy ===== *)
theory LwsError
  imports LwsResponse
begin

text \<open>
  Error responses, from src/lws_module.c: \<open>lws_send_error_response\<close> with its JSON and HTML forms. The
  functions of NGINX that format and escape are the fields of \<open>lws_fmt\<close>; the answers of its
  allocators, header and output filters to one response are those of \<open>lws_error_answers\<close>.
\<close>

section \<open>What the code calls\<close>

record lws_fmt =
  f_ui :: "int \<Rightarrow> ngx_str"
  f_escape_json :: "ngx_str \<Rightarrow> ngx_str"
  f_escape_json_extra :: "ngx_str \<Rightarrow> nat"
  f_escape_html :: "ngx_str \<Rightarrow> ngx_str"
  f_escape_html_extra :: "ngx_str \<Rightarrow> nat"
  f_lua_version :: ngx_str

text \<open>The documented behaviour of \<open>ngx_sprintf\<close> with \<open>%ui\<close> on numbers of three digits, and of the two
  escape functions, which return the number of additional bytes if the destination is NULL.\<close>

definition fmt_ok :: "lws_fmt \<Rightarrow> bool" where
  "fmt_ok F \<longleftrightarrow> (\<forall>n. 100 \<le> n \<longrightarrow> n < 1000 \<longrightarrow> length (f_ui F n) = 3) \<and>
     (\<forall>s. length (f_escape_json F s) = length s + f_escape_json_extra F s) \<and>
     (\<forall>s. length (f_escape_html F s) = length s + f_escape_html_extra F s)"

text \<open>\<open>ngx_http_send_header\<close> returns a code and may mark the header as sent, and the request as
  header-only. \<open>ngx_http_output_filter\<close> takes the bytes and returns a code.\<close>

record ngx_header_answer =
  ha_rc :: int
  ha_sent :: bool
  ha_only :: bool

definition ngx_http_send_header ::
  "ngx_header_answer \<Rightarrow> 'a ngx_request_scheme \<Rightarrow> int \<times> 'a ngx_request_scheme" where
  "ngx_http_send_header a r = (ha_rc a, r\<lparr>r_header_sent := r_header_sent r \<or> ha_sent a,
     r_header_only := r_header_only r \<or> ha_only a\<rparr>)"

definition ngx_http_output_filter :: "ngx_str \<Rightarrow> bool \<Rightarrow> 'a ngx_request_scheme \<Rightarrow> 'a ngx_request_scheme" where
  "ngx_http_output_filter bytes last_buf r =
     r\<lparr>r_out := r_out r @ bytes, r_last := r_last r \<or> last_buf\<rparr>"

record lws_error_answers =
  ea_header :: ngx_header_answer
  ea_dia :: bool
  ea_chain :: bool
  ea_start :: bool
  ea_push :: bool
  ea_output :: int

section \<open>JSON\<close>

text \<open>A newline and \<open>n\<close> tabs.\<close>

definition ln :: "nat \<Rightarrow> ngx_str" where
  "ln n = 10 # replicate n 9"

text \<open>The length that the code calculates before it writes, and what it then writes.\<close>

definition lws_json_length :: "lws_fmt \<Rightarrow> ngx_str \<Rightarrow> int \<Rightarrow> nat" where
  \<open>lws_json_length F diagnostic rc =
     (let len = length (lit ''{'' @ ln 1 @ lit ''"error": {'' @ ln 2 @ lit ''"code": 100'' @ ln 1 @
                  lit ''}'' @ ln 0 @ lit ''}'');
          len = (case lws_find_http_status rc of
                   Some status \<Rightarrow> len + length (lit '','' @ ln 2 @ lit ''"message": ""'') +
                     length (hs_message status)
                 | None \<Rightarrow> len) in
      if length diagnostic \<noteq> 0 then
        len + length (lit '','' @ ln 2 @ lit ''"diagnostic": ""'') +
          (length diagnostic + f_escape_json_extra F diagnostic)
      else len)\<close>

definition lws_json_text :: "lws_fmt \<Rightarrow> ngx_str \<Rightarrow> int \<Rightarrow> ngx_str" where
  \<open>lws_json_text F diagnostic rc =
     lit ''{'' @ ln 1 @ lit ''"error": {'' @ ln 2 @ lit ''"code": '' @ f_ui F rc @
     (case lws_find_http_status rc of
        Some status \<Rightarrow> lit '','' @ ln 2 @ lit ''"message": "'' @ hs_message status @ lit ''"''
      | None \<Rightarrow> []) @
     (if length diagnostic \<noteq> 0
      then lit '','' @ ln 2 @ lit ''"diagnostic": "'' @ f_escape_json F diagnostic @ lit ''"''
      else []) @
     ln 1 @ lit ''}'' @ ln 0 @ lit ''}''\<close>

definition no_store :: "ngx_str \<times> ngx_str" where
  "no_store = (lit ''Cache-Control'', lit ''private, no-store'')"

definition lws_send_json_error_response ::
  "lws_fmt \<Rightarrow> lws_error_answers \<Rightarrow> ngx_str \<Rightarrow> int \<Rightarrow> 'a ngx_request_scheme \<Rightarrow> 'a ngx_request_scheme" where
  "lws_send_json_error_response F ans diagnostic rc r =
     (let len = lws_json_length F diagnostic rc in
      if length diagnostic \<noteq> 0 \<and> \<not> ea_dia ans then ngx_http_finalize_request rc r
      else if \<not> ea_chain ans then ngx_http_finalize_request rc r
      else if \<not> ea_start ans then ngx_http_finalize_request rc r
      else
        let body = lws_json_text F diagnostic rc;
            r = r\<lparr>r_status := rc, r_content_type := lit ''application/json'',
                  r_content_type_len := length (lit ''application/json'')\<rparr> in
        if \<not> ea_push ans then ngx_http_finalize_request rc r
        else
          let r = r\<lparr>r_headers := r_headers r @ [no_store], r_content_length := Some (int len)\<rparr>;
              (rc, r) = ngx_http_send_header (ea_header ans) r in
          if rc = NGX_ERROR \<or> rc > NGX_OK \<or> r_header_only r then ngx_http_finalize_request rc r
          else ngx_http_finalize_request (ea_output ans) (ngx_http_output_filter body (r_main r) r))"

section \<open>HTML\<close>

definition lws_html_pre :: "lws_fmt \<Rightarrow> ngx_str" where
  \<open>lws_html_pre F =
     lit ''<!DOCTYPE HTML>'' @ ln 0 @
     lit ''<html>'' @ ln 1 @
     lit ''<head>'' @ ln 2 @
     lit ''<title>LWS '' @ f_lua_version F @ lit '' Error</title>'' @ ln 2 @
     lit ''<style>'' @ ln 3 @
     lit ''html {'' @ ln 4 @
     lit ''font-family: system-ui, "Segoe UI", -apple-system, '' @
     lit ''"Liberation Sans", Roboto, "Helvetica Neue", Arial, sans-serif;'' @ ln 3 @
     lit ''}'' @ ln 3 @
     lit ''body {'' @ ln 4 @
     lit ''max-width: 600px;'' @ ln 4 @
     lit ''margin: 0 auto;'' @ ln 3 @
     lit ''}'' @ ln 2 @
     lit ''</style>'' @ ln 1 @
     lit ''</head>'' @ ln 1 @
     lit ''<body>'' @ ln 2 @
     lit ''<h2>LWS '' @ f_lua_version F @ lit '' Error</h2>'' @ ln 2 @
     lit ''<pre>''\<close>

definition lws_html_epi :: ngx_str where
  "lws_html_epi = lit ''</pre>'' @ ln 1 @ lit ''</body>'' @ ln 0 @ lit ''</html>''"

definition lws_send_html_error_response ::
  "lws_fmt \<Rightarrow> lws_error_answers \<Rightarrow> ngx_str \<Rightarrow> int \<Rightarrow> 'a ngx_request_scheme \<Rightarrow> 'a ngx_request_scheme" where
  "lws_send_html_error_response F ans diagnostic rc r =
     (if length diagnostic = 0 then ngx_http_finalize_request rc r
      else
        let dia_len = length diagnostic + f_escape_html_extra F diagnostic in
        if \<not> ea_dia ans then ngx_http_finalize_request rc r
        else
          let r = r\<lparr>r_status := rc, r_content_type := lit ''text/html'',
                    r_content_type_len := length (lit ''text/html''), r_charset := lit ''UTF-8''\<rparr> in
          if \<not> ea_push ans then ngx_http_finalize_request rc r
          else
            let r = r\<lparr>r_headers := r_headers r @ [no_store], r_content_length :=
                      Some (int (length (lws_html_pre F) + dia_len + length lws_html_epi))\<rparr>;
                (rc, r) = ngx_http_send_header (ea_header ans) r in
            if rc = NGX_ERROR \<or> rc > NGX_OK \<or> r_header_only r then ngx_http_finalize_request rc r
            else if \<not> ea_chain ans then ngx_http_finalize_request rc r
            else ngx_http_finalize_request (ea_output ans)
              (ngx_http_output_filter
                 (lws_html_pre F @ f_escape_html F diagnostic @ lws_html_epi) (r_main r) r))"

section \<open>lws_send_error_response\<close>

definition LWS_ER_JSON :: nat where "LWS_ER_JSON = 0"

definition LWS_ER_HTML :: nat where "LWS_ER_HTML = 1"

definition lws_send_error_response ::
  "lws_fmt \<Rightarrow> nat \<Rightarrow> lws_error_answers \<Rightarrow> ngx_str \<Rightarrow> int \<Rightarrow> 'a ngx_request_scheme \<Rightarrow> 'a ngx_request_scheme" where
  "lws_send_error_response F error_response ans diagnostic rc r =
     (if r_main r \<and> (r_head r \<or> rc = NGX_HTTP_NO_CONTENT \<or> rc = NGX_HTTP_NOT_MODIFIED) then
        let (code, r) = ngx_http_send_header (ea_header ans) (r\<lparr>r_header_only := True, r_status := rc\<rparr>)
        in ngx_http_finalize_request code r
      else if error_response = LWS_ER_JSON then lws_send_json_error_response F ans diagnostic rc r
      else if error_response = LWS_ER_HTML then lws_send_html_error_response F ans diagnostic rc r
      else lws_send_json_error_response F ans diagnostic rc r)"

section \<open>Properties\<close>

lemma length_ln [simp]: "length (ln n) = Suc n"
  by (simp add: ln_def)

lemma json_length:
  "fmt_ok F \<Longrightarrow> 100 \<le> rc \<Longrightarrow> rc < 1000 \<Longrightarrow>
    length (lws_json_text F diagnostic rc) = lws_json_length F diagnostic rc"
  by (simp add: lws_json_text_def lws_json_length_def fmt_ok_def Let_def split: option.split)

lemma html_length:
  "fmt_ok F \<Longrightarrow> length (f_escape_html F diagnostic) = length diagnostic + f_escape_html_extra F diagnostic"
  by (simp add: fmt_ok_def)

text \<open>A response as it must be: finalized once more, and what was given to the output filter is as
  long as announced.\<close>

definition response_ok :: "'a ngx_request_scheme \<Rightarrow> 'a ngx_request_scheme \<Rightarrow> bool" where
  "response_ok r r' \<longleftrightarrow> (\<exists>code. r_final r' = r_final r @ [code]) \<and>
     (\<exists>body. r_out r' = r_out r @ body \<and>
       (body \<noteq> [] \<longrightarrow> r_content_length r' = Some (int (length body)) \<and> \<not> r_header_only r' \<and>
          (r_main r \<longrightarrow> r_last r')))"

lemma finalize_response_ok:
  "r_final r' = r_final r \<Longrightarrow> r_out r' = r_out r \<Longrightarrow> response_ok r (ngx_http_finalize_request code r')"
  by (simp add: response_ok_def ngx_http_finalize_request_def)

lemmas response_defs = ngx_http_finalize_request_def ngx_http_send_header_def
  ngx_http_output_filter_def response_ok_def

lemma json_response_ok:
  assumes "fmt_ok F" "100 \<le> rc" "rc < 1000"
  shows "response_ok r (lws_send_json_error_response F ans diagnostic rc r)"
  using json_length [OF assms, of diagnostic]
  by (auto simp: lws_send_json_error_response_def response_defs Let_def)

lemma html_response_ok:
  assumes "fmt_ok F"
  shows "response_ok r (lws_send_html_error_response F ans diagnostic rc r)"
  using html_length [OF assms, of diagnostic]
  by (auto simp: lws_send_html_error_response_def response_defs Let_def)

lemma error_response_ok:
  assumes "fmt_ok F" "100 \<le> rc" "rc < 1000"
  shows "response_ok r (lws_send_error_response F error_response ans diagnostic rc r)"
  using json_response_ok [OF assms] html_response_ok [OF assms(1)]
  by (auto simp: lws_send_error_response_def Let_def ngx_http_send_header_def split_beta
      intro: finalize_response_ok)

lemma header_only_response:
  "r_main r \<and> (r_head r \<or> rc = NGX_HTTP_NO_CONTENT \<or> rc = NGX_HTTP_NOT_MODIFIED) \<Longrightarrow>
    r_out (lws_send_error_response F error_response ans diagnostic rc r) = r_out r"
  by (simp add: lws_send_error_response_def ngx_http_send_header_def ngx_http_finalize_request_def Let_def)

text \<open>C32: For every error status and whatever the allocators and filters answer,
  \<open>lws_send_error_response\<close> finalizes the request exactly once; if it sends a body, the body is exactly
  as long as the content length that it announced, and is the last of a main response; it sends none
  for HEAD requests and for the two statuses that have none. The JSON text fills the buffer that is
  allocated for it exactly, so it is never written past its end.\<close>

theorem lws_send_error_response_correct:
  assumes "fmt_ok F" "100 \<le> rc" "rc < 600"
  shows "response_ok r (lws_send_error_response F error_response ans diagnostic rc r) \<and>
    length (lws_json_text F diagnostic rc) = lws_json_length F diagnostic rc \<and>
    (r_main r \<and> (r_head r \<or> rc = NGX_HTTP_NO_CONTENT \<or> rc = NGX_HTTP_NOT_MODIFIED) \<longrightarrow>
      r_out (lws_send_error_response F error_response ans diagnostic rc r) = r_out r)"
proof (intro conjI impI)
  have rc: "rc < 1000" using assms(3) by simp
  show "response_ok r (lws_send_error_response F error_response ans diagnostic rc r)"
    by (rule error_response_ok [OF assms(1,2) rc])
  show "length (lws_json_text F diagnostic rc) = lws_json_length F diagnostic rc"
    by (rule json_length [OF assms(1,2) rc])
qed (rule header_only_response)

definition demo_escape :: "ngx_str \<Rightarrow> ngx_str" where
  "demo_escape s = concat (map (\<lambda>b. if b = 34 \<or> b = 92 then [92, b] else [b]) s)"

definition demo_fmt :: lws_fmt where
  "demo_fmt = \<lparr>f_ui = (\<lambda>n. [48 + of_int (n div 100), 48 + of_int (n div 10 mod 10), 48 + of_int (n mod 10)]),
     f_escape_json = demo_escape, f_escape_json_extra = (\<lambda>s. length (filter (\<lambda>b. b = 34 \<or> b = 92) s)),
     f_escape_html = demo_escape, f_escape_html_extra = (\<lambda>s. length (filter (\<lambda>b. b = 34 \<or> b = 92) s)),
     f_lua_version = lit ''Lua 5.4''\<rparr>"

lemma demo_fmt_ok: "fmt_ok demo_fmt"
proof -
  have "length (demo_escape s) = length s + length (filter (\<lambda>b. b = 34 \<or> b = 92) s)" for s
    by (induction s) (auto simp: demo_escape_def)
  then show ?thesis by (simp add: fmt_ok_def demo_fmt_def)
qed

definition demo_answers_ok :: lws_error_answers where
  "demo_answers_ok = \<lparr>ea_header = \<lparr>ha_rc = NGX_OK, ha_sent = True, ha_only = False\<rparr>, ea_dia = True,
     ea_chain = True, ea_start = True, ea_push = True, ea_output = NGX_OK\<rparr>"

definition demo_error_text :: ngx_str where
  \<open>demo_error_text = lit ''{'' @ ln 1 @ lit ''"error": {'' @ ln 2 @ lit ''"code": 404,'' @ ln 2 @
     lit ''"message": "Not Found",'' @ ln 2 @ lit ''"diagnostic": "a'' @ [92] @ lit ''"b"'' @
     ln 1 @ lit ''}'' @ ln 0 @ lit ''}''\<close>

lemma demo_status: "lws_find_http_status 404 = Some (status_entry 404 ''NOT_FOUND'' ''Not Found'')"
  by (simp add: find_http_status_first first_status_def status_array_defs)

lemma demo_error_text: \<open>lws_json_text demo_fmt (lit ''a"b'') 404 = demo_error_text\<close>
  unfolding lws_json_text_def demo_status
  by (simp add: demo_error_text_def demo_fmt_def demo_escape_def lit_def)

lemma demo_error_out:
  "r_out (lws_send_error_response demo_fmt LWS_ER_JSON demo_answers_ok diagnostic 404 demo_request) =
    lws_json_text demo_fmt diagnostic 404"
  by (simp add: lws_send_error_response_def lws_send_json_error_response_def demo_request_def
      demo_answers_ok_def ngx_http_finalize_request_def ngx_http_send_header_def
      ngx_http_output_filter_def Let_def)

theorem lws_send_error_response_correct_witness:
  \<open>r_out (lws_send_error_response demo_fmt LWS_ER_JSON demo_answers_ok (lit ''a"b'') 404 demo_request) =
     demo_error_text \<and>
   response_ok demo_request
     (lws_send_error_response demo_fmt LWS_ER_JSON demo_answers_ok (lit ''a"b'') 404 demo_request)\<close>
  unfolding demo_error_out demo_error_text
  using lws_send_error_response_correct [OF demo_fmt_ok, of 404 demo_request LWS_ER_JSON
      demo_answers_ok] by simp

end
