(* ===== verification/LwsStream.thy ===== *)
theory LwsStream
  imports LwsError
begin

text \<open>
  Response streaming and finalization, from src/lws_module.c: \<open>lws_stream_handler\<close>,
  \<open>lws_stream_write_handler\<close> and the part of \<open>lws_finalization_handler\<close> that makes the response. The
  Lua thread writes to a pipe; the worker process reads it and sends what it reads; when the thread is
  done, the finalization handler either leaves the rest to the stream handler or makes the response.

  The request of LwsResponse is extended with the fields of \<open>lws_request_ctx_t\<close> that are used. What
  NGINX and the operating system answer is in the records of answers; \<open>E\<close>, \<open>parse_time\<close> and \<open>F\<close> are
  the functions of NGINX that LwsResponse and LwsError use. The loop that repeats an interrupted
  \<open>read\<close> is its first answer that is not an interruption.
\<close>

section \<open>Data\<close>

text \<open>\<open>x_pipe0\<close> and \<open>x_pipe1\<close> tell whether the ends of \<open>streaming_pipe\<close> are open, \<open>x_conn\<close> whether
  \<open>streaming_conn\<close> is there, \<open>x_pipe\<close> holds the bytes in the pipe. \<open>x_busy\<close> and \<open>x_free\<close> are
  \<open>streaming_busy\<close> (is it non-empty) and \<open>streaming_free\<close> (how many). \<open>x_active\<close> and \<open>x_eof\<close> belong to
  the read event of the pipe, \<open>x_wtimer\<close> to the write event of the client, and \<open>x_write_handler\<close> is
  the test \<open>r->write_event_handler == lws_stream_write_handler\<close>. \<open>x_redirect\<close> is the string that the
  pointer of \<open>redirect\<close> leads to (LwsRequest has the case of a NULL pointer); \<open>redirect_args\<close> is passed on
  without a look at it. Two fields are not in the code:
  \<open>x_lua\<close> is set until the finalization handler runs, and \<open>x_flushed\<close> logs what Lua wrote to the
  pipe.\<close>

record lws_stream = ngx_request +
  x_lua :: bool
  x_pipe0 :: bool
  x_pipe1 :: bool
  x_conn :: bool
  x_pipe :: ngx_str
  x_flushed :: ngx_str
  x_streaming_rc :: int
  x_busy :: bool
  x_free :: nat
  x_active :: bool
  x_eof :: bool
  x_write_handler :: bool
  x_wtimer :: bool
  x_timedout :: bool
  x_rc :: int
  x_status :: int
  x_redirect :: ngx_str
  x_redirect_args :: dup_str
  x_diagnostic :: ngx_str
  x_body :: ngx_str
  x_headers :: "ngx_str lws_table"
  x_internal :: "(ngx_str \<times> dup_str) option"
  x_named :: "ngx_str option"

text \<open>The answers in one round of the read loop, and in one call of the handler.\<close>

record lws_read_answers =
  ra_buf :: bool
  ra_page :: bool
  ra_error :: bool
  ra_n :: nat
  ra_rearm :: bool
  ra_push :: "nat \<Rightarrow> bool"
  ra_header :: ngx_header_answer
  ra_output :: int
  ra_busy :: bool
  ra_free :: nat
  ra_buffered :: bool
  ra_del :: bool

record lws_stream_answers =
  sa_timedout :: bool
  sa_delayed :: bool
  sa_ready :: bool
  sa_output :: int
  sa_busy :: bool
  sa_free :: nat
  sa_buffered :: bool
  sa_rearm :: bool
  sa_del :: bool
  sa_write :: bool
  sa_special :: int
  sa_reads :: "nat \<Rightarrow> lws_read_answers"

section \<open>lws_stream_handler\<close>

definition LWS_STREAMING_READS_MAX :: nat where
  "LWS_STREAMING_READS_MAX = 16"

text \<open>The label \<open>error\<close>, after \<open>streaming_rc\<close> is set.\<close>

definition lws_stream_error :: "int \<Rightarrow> lws_stream \<Rightarrow> lws_stream" where
  "lws_stream_error rc x =
     (let x = x\<lparr>x_streaming_rc := rc, x_conn := False, x_pipe0 := False\<rparr>;
          x = (if x_write_handler x then x\<lparr>x_wtimer := False, x_write_handler := False\<rparr> else x)
      in if \<not> x_pipe1 x then ngx_http_finalize_request (x_streaming_rc x) x else x)"

text \<open>The label \<open>blocked\<close>. \<open>del\<close> is the answer of \<open>ngx_del_event\<close>.\<close>

definition lws_stream_blocked :: "lws_stream_answers \<Rightarrow> bool \<Rightarrow> lws_stream \<Rightarrow> lws_stream" where
  "lws_stream_blocked ans del x =
     (if x_active x \<and> \<not> del then lws_stream_error NGX_ERROR x
      else
        let x = x\<lparr>x_active := False, x_write_handler := True\<rparr> in
        if sa_ready ans \<and> sa_delayed ans then x
        else
          let x = (if \<not> sa_delayed ans then x\<lparr>x_wtimer := True\<rparr> else x) in
          if \<not> sa_write ans then lws_stream_error NGX_ERROR x else x)"

text \<open>Flushing pending output, when the client was not ready before.\<close>

definition lws_stream_flush :: "lws_stream_answers \<Rightarrow> lws_stream \<Rightarrow> lws_stream" where
  "lws_stream_flush ans x =
     (if sa_timedout ans then lws_stream_error NGX_HTTP_REQUEST_TIME_OUT (x\<lparr>x_timedout := True\<rparr>)
      else if \<not> sa_delayed ans then
        if sa_output ans = NGX_ERROR then lws_stream_error NGX_ERROR x
        else
          let x = x\<lparr>x_busy := sa_busy ans, x_free := sa_free ans\<rparr> in
          if \<not> (sa_output ans = NGX_AGAIN \<or> x_busy x \<or> sa_buffered ans) then
            let x = x\<lparr>x_wtimer := False, x_write_handler := False\<rparr> in
            if \<not> sa_rearm ans then lws_stream_error NGX_ERROR x
            else x\<lparr>x_active := True\<rparr>
          else lws_stream_blocked ans (sa_del ans) x
      else lws_stream_blocked ans (sa_del ans) x)"

datatype pipe_result = PipeEof | PipeAgain | PipeError | PipeData ngx_str

text \<open>\<open>read\<close> on a nonblocking pipe: data if there is any, at least one byte and at most a page;
  otherwise \<open>EAGAIN\<close> while the pipe has a writer and end of file if not.\<close>

definition pipe_read :: "nat \<Rightarrow> lws_read_answers \<Rightarrow> lws_stream \<Rightarrow> pipe_result" where
  "pipe_read pagesize a x =
     (if ra_error a then PipeError
      else if x_pipe x \<noteq> [] then PipeData (take (max 1 (min (ra_n a) pagesize)) (x_pipe x))
      else if x_pipe1 x then PipeAgain
      else PipeEof)"

text \<open>End of file: the response is complete.\<close>

definition lws_stream_eof :: "lws_stream_answers \<Rightarrow> lws_stream \<Rightarrow> lws_stream" where
  "lws_stream_eof ans x =
     (let x = x\<lparr>x_free := x_free x + 1, x_eof := True, x_conn := False, x_pipe0 := False\<rparr> in
      if \<not> r_header_sent x then ngx_http_finalize_request NGX_HTTP_INTERNAL_SERVER_ERROR x
      else if r_main x then ngx_http_finalize_request (sa_special ans) (x\<lparr>r_last := True\<rparr>)
      else ngx_http_finalize_request NGX_OK x)"

text \<open>The header, before the first data; the result tells whether to go on. The codes of a failure
  are in the other component.\<close>

definition lws_stream_header ::
  "lws_env \<Rightarrow> (ngx_str \<Rightarrow> int) \<Rightarrow> lws_read_answers \<Rightarrow> lws_stream \<Rightarrow> int option \<times> lws_stream" where
  "lws_stream_header E parse_time a x =
     (if r_header_sent x then (None, x)
      else
        let x = (if r_main x \<and> (r_head x \<or> r_status x = NGX_HTTP_NO_CONTENT \<or>
                     r_status x = NGX_HTTP_NOT_MODIFIED)
                 then x\<lparr>r_header_only := True\<rparr> else x);
            (rc, x) = the (lws_set_response_header E (ra_push a) parse_time (x_headers x) x) in
        if rc \<noteq> NGX_OK then (Some NGX_HTTP_INTERNAL_SERVER_ERROR, x)
        else
          let x = x\<lparr>r_status := x_status x, r_disable_not_modified := True\<rparr>;
              (rc, x) = ngx_http_send_header (ra_header a) x in
          if rc = NGX_ERROR \<or> rc > NGX_OK \<or> r_header_only x then (Some rc, x) else (None, x))"

text \<open>The read loop; the argument counts the reads that are left, down from
  \<open>LWS_STREAMING_READS_MAX\<close>, and is never 0 when a round begins.\<close>

fun lws_stream_reads ::
  "lws_env \<Rightarrow> (ngx_str \<Rightarrow> int) \<Rightarrow> nat \<Rightarrow> lws_stream_answers \<Rightarrow> nat \<Rightarrow> lws_stream \<Rightarrow> lws_stream" where
  "lws_stream_reads E parse_time pagesize ans 0 x = x"
| "lws_stream_reads E parse_time pagesize ans (Suc left) x =
     (let a = sa_reads ans (Suc left) in
      if x_busy x then lws_stream_blocked ans (sa_del ans) x
      else if x_free x = 0 \<and> \<not> ra_buf a then lws_stream_error NGX_ERROR x
      else if x_free x = 0 \<and> \<not> ra_page a then lws_stream_error NGX_ERROR x
      else
        let x = x\<lparr>x_free := x_free x - 1\<rparr> in
        case pipe_read pagesize a x of
          PipeEof \<Rightarrow> lws_stream_eof ans x
        | PipeAgain \<Rightarrow>
            let x = x\<lparr>x_free := x_free x + 1\<rparr> in
            if \<not> ra_rearm a then lws_stream_error NGX_ERROR x else x\<lparr>x_active := True\<rparr>
        | PipeError \<Rightarrow> lws_stream_error NGX_ERROR (x\<lparr>x_free := x_free x + 1\<rparr>)
        | PipeData bytes \<Rightarrow>
            let x = x\<lparr>x_pipe := drop (length bytes) (x_pipe x)\<rparr> in
            (case lws_stream_header E parse_time a x of
               (Some rc, x) \<Rightarrow> lws_stream_error rc x
             | (None, x) \<Rightarrow>
                 let x = ngx_http_output_filter bytes False x in
                 if ra_output a = NGX_ERROR then lws_stream_error NGX_ERROR x
                 else
                   let x = x\<lparr>x_busy := ra_busy a, x_free := ra_free a\<rparr> in
                   if ra_output a = NGX_AGAIN \<or> x_busy x \<or> ra_buffered a
                   then lws_stream_blocked ans (sa_del ans) x
                   else if left = 0 then
                     if x_active x \<and> \<not> ra_del a then lws_stream_error NGX_ERROR x
                     else
                       let x = x\<lparr>x_active := False\<rparr> in
                       if \<not> ra_rearm a then lws_stream_error NGX_ERROR x
                       else x\<lparr>x_active := True\<rparr>
                   else lws_stream_reads E parse_time pagesize ans left x))"

declare lws_stream_reads.simps(2) [simp del]

definition lws_stream_handler ::
  "lws_env \<Rightarrow> (ngx_str \<Rightarrow> int) \<Rightarrow> nat \<Rightarrow> lws_stream_answers \<Rightarrow> lws_stream \<Rightarrow> lws_stream" where
  "lws_stream_handler E parse_time pagesize ans x =
     (if x_write_handler x then lws_stream_flush ans x
      else lws_stream_reads E parse_time pagesize ans LWS_STREAMING_READS_MAX x)"

definition lws_stream_write_handler ::
  "lws_env \<Rightarrow> (ngx_str \<Rightarrow> int) \<Rightarrow> nat \<Rightarrow> lws_stream_answers \<Rightarrow> lws_stream \<Rightarrow> lws_stream" where
  "lws_stream_write_handler E parse_time pagesize ans x =
     (if x_conn x then lws_stream_handler E parse_time pagesize ans x else x)"

section \<open>lws_finalization_handler\<close>

record lws_final_answers =
  fa_nread :: bool
  fa_special :: int
  fa_error :: lws_error_answers
  fa_redirect :: int
  fa_push :: "nat \<Rightarrow> bool"
  fa_fflush :: bool
  fa_header :: ngx_header_answer
  fa_buf :: bool
  fa_output :: int

text \<open>The handler from the comment "finalize streaming response" on: first the streaming response.
  The number of bytes that \<open>ngx_socket_nread\<close> reports is that of the bytes in the pipe.\<close>

definition lws_check_streaming :: "lws_final_answers \<Rightarrow> lws_stream \<Rightarrow> lws_stream" where
  "lws_check_streaming ans x =
     (if x_conn x \<and> \<not> r_header_sent x \<and> x_streaming_rc x = NGX_OK then
        let x = (if \<not> fa_nread ans then x\<lparr>x_streaming_rc := NGX_ERROR\<rparr> else x) in
        if x_streaming_rc x \<noteq> NGX_OK \<or> length (x_pipe x) = 0
        then x\<lparr>x_conn := False, x_pipe0 := False\<rparr> else x
      else x)"

definition lws_finalize_streaming :: "lws_final_answers \<Rightarrow> lws_stream \<Rightarrow> lws_stream" where
  "lws_finalize_streaming ans x =
     (let x = x\<lparr>x_lua := False\<rparr>;
          x = (if x_pipe1 x then x\<lparr>x_pipe1 := False\<rparr> else x) in
      lws_check_streaming ans x)"

text \<open>The response of a request that did not stream.\<close>

definition lws_send_response :: "lws_final_answers \<Rightarrow> lws_stream \<Rightarrow> lws_stream" where
  "lws_send_response ans x =
     (let x = x\<lparr>r_status := x_status x, r_disable_not_modified := True\<rparr> in
      if \<not> fa_fflush ans then ngx_http_finalize_request NGX_HTTP_INTERNAL_SERVER_ERROR x
      else
        let x = (if length (x_body x) > 0 then
                   if r_main x \<and> (r_head x \<or> r_status x = NGX_HTTP_NO_CONTENT \<or>
                        r_status x = NGX_HTTP_NOT_MODIFIED)
                   then x\<lparr>r_header_only := True\<rparr>
                   else x\<lparr>r_content_length := Some (int (length (x_body x)))\<rparr>
                 else if r_main x \<and> \<not> r_head x \<and> r_status x \<noteq> NGX_HTTP_NO_CONTENT \<and>
                     r_status x \<noteq> NGX_HTTP_NOT_MODIFIED \<and> r_status x \<ge> NGX_HTTP_OK
                 then x\<lparr>r_content_length := Some 0, r_header_only := True\<rparr>
                 else x);
            (rc, x) = ngx_http_send_header (fa_header ans) x in
        if rc = NGX_ERROR \<or> rc > NGX_OK \<or> r_header_only x then ngx_http_finalize_request rc x
        else if \<not> fa_buf ans then ngx_http_finalize_request rc x
        else ngx_http_finalize_request (fa_output ans) (ngx_http_output_filter (x_body x) (r_main x) x))"

definition lws_finalization_response ::
  "lws_env \<Rightarrow> (ngx_str \<Rightarrow> int) \<Rightarrow> lws_fmt \<Rightarrow> nat \<Rightarrow> lws_final_answers \<Rightarrow> lws_stream \<Rightarrow> lws_stream" where
  "lws_finalization_response E parse_time F error_response ans x =
     (let x = lws_finalize_streaming ans x in
      if r_header_sent x \<or> x_conn x \<or> x_streaming_rc x \<noteq> NGX_OK then
        if x_conn x \<and> x_streaming_rc x = NGX_OK \<and> \<not> r_header_only x then x
        else if \<not> (x_streaming_rc x = NGX_ERROR \<or> x_streaming_rc x > NGX_OK \<or> r_header_only x) \<and>
            r_main x
        then ngx_http_finalize_request (fa_special ans) (x\<lparr>r_last := True\<rparr>)
        else ngx_http_finalize_request (x_streaming_rc x) x
      else if x_rc x < 0 then
        lws_send_error_response F error_response (fa_error ans) (x_diagnostic x)
          NGX_HTTP_INTERNAL_SERVER_ERROR x
      else if length (x_redirect x) \<noteq> 0 then
        if x_redirect x ! 0 \<noteq> 64 then
          ngx_http_finalize_request (fa_redirect ans)
            (x\<lparr>x_internal := Some (x_redirect x, x_redirect_args x)\<rparr>)
        else ngx_http_finalize_request (fa_redirect ans) (x\<lparr>x_named := Some (tl (x_redirect x))\<rparr>)
      else
        let (rc, x) = the (lws_set_response_header E (fa_push ans) parse_time (x_headers x) x) in
        if rc \<noteq> NGX_OK then ngx_http_finalize_request NGX_HTTP_INTERNAL_SERVER_ERROR x
        else if x_rc x > 0 then
          let rc = (if x_rc x \<ge> 100 \<and> x_rc x < 600 then x_rc x else NGX_HTTP_INTERNAL_SERVER_ERROR) in
          lws_send_error_response F error_response (fa_error ans) (x_diagnostic x) rc x
        else lws_send_response ans x)"

end
