(* ===== verification/LwsStreamCorrect.thy ===== *)
theory LwsStreamCorrect
  imports LwsStream
begin

text \<open>
  The life of a streamed response: the steps of the Lua thread, the stream handler and the
  finalization handler in any order, the invariant that they keep, and what follows from it: a
  request is finalized exactly once, no byte is lost or reordered, the handlers are always waiting
  for an event, and every round of the read loop makes progress.
\<close>

section \<open>Frames\<close>

lemma more_eq:
  assumes "ngx_request.more y = ngx_request.more (x :: lws_stream)"
  shows "x_lua y = x_lua x" "x_pipe0 y = x_pipe0 x" "x_pipe1 y = x_pipe1 x" "x_conn y = x_conn x"
    "x_pipe y = x_pipe x" "x_flushed y = x_flushed x" "x_streaming_rc y = x_streaming_rc x"
    "x_busy y = x_busy x" "x_free y = x_free x" "x_active y = x_active x" "x_eof y = x_eof x"
    "x_write_handler y = x_write_handler x" "x_rc y = x_rc x" "x_status y = x_status x"
    "x_redirect y = x_redirect x" "x_diagnostic y = x_diagnostic x" "x_body y = x_body x"
    "x_headers y = x_headers x"
  using assms by (cases x; cases y; simp)+

lemma set_header_frame:
  assumes "table_wf E t" "strncasecmp_ok E"
  obtains rc r' where "the (lws_set_response_header E push parse_time t r) = (rc, r')"
    "request_frame r' r" "rc = NGX_OK \<or> rc = NGX_ERROR"
    "rc = NGX_OK \<Longrightarrow> r_headers r' = r_headers r @ all_lines E (lru_items (lws_table_abs t))"
    "(\<And>n. push n) \<Longrightarrow> rc = NGX_OK"
proof -
  from each_item_push [of push E "lru_items (lws_table_abs t)" r parse_time]
  have "\<exists>rc r'. lws_set_response_header E push parse_time t r = Some (rc, r') \<and>
      request_frame r' r \<and> (rc = NGX_OK \<or> rc = NGX_ERROR) \<and>
      push_all push (r_headers r) (all_lines E (lru_items (lws_table_abs t))) =
        (rc = NGX_OK, r_headers r')"
    unfolding lws_set_response_header_def each_all [OF assms] push_result_def
    by (auto split: sum.splits)
  then obtain rc r' where res: "lws_set_response_header E push parse_time t r = Some (rc, r')"
      "request_frame r' r" "rc = NGX_OK \<or> rc = NGX_ERROR"
      "push_all push (r_headers r) (all_lines E (lru_items (lws_table_abs t))) =
        (rc = NGX_OK, r_headers r')" by blast
  show thesis
  proof (rule that)
    show "the (lws_set_response_header E push parse_time t r) = (rc, r')" using res(1) by simp
    show "rc = NGX_OK \<Longrightarrow> r_headers r' = r_headers r @ all_lines E (lru_items (lws_table_abs t))"
      using push_all_prefix [OF res(4)] by auto
    show "(\<And>n. push n) \<Longrightarrow> rc = NGX_OK" using push_all_ok [of push "r_headers r" "all_lines E (lru_items (lws_table_abs t))"] res(4)
      by (simp del: lws_table_abs_sel)
  qed (use res in auto)
qed

lemma stream_header_frame:
  assumes "table_wf E (x_headers x)" "strncasecmp_ok E"
    and "lws_stream_header E parse_time a x = (res, y)"
  shows "ngx_request.more y = ngx_request.more x" "r_out y = r_out x" "r_final y = r_final x"
    "res = None \<Longrightarrow> \<not> r_header_only x \<Longrightarrow> \<not> r_header_only y"
proof -
  define x1 where "x1 = (if r_main x \<and> (r_head x \<or> r_status x = NGX_HTTP_NO_CONTENT \<or>
      r_status x = NGX_HTTP_NOT_MODIFIED) then x\<lparr>r_header_only := True\<rparr> else x)"
  have x1: "ngx_request.more x1 = ngx_request.more x" "r_out x1 = r_out x" "r_final x1 = r_final x"
    by (simp_all add: x1_def)
  obtain rc x2 where x2: "the (lws_set_response_header E (ra_push a) parse_time (x_headers x1) x1) = (rc, x2)"
      "request_frame x2 x1"
    using set_header_frame [of E "x_headers x1" "ra_push a" parse_time x1] assms(1,2) more_eq(18) [OF x1(1)]
    by metis
  note f2 = request_frame_keeps [OF x2(2)]
  have y: "(res, y) = (if r_header_sent x then (None, x) else
      if rc \<noteq> NGX_OK then (Some NGX_HTTP_INTERNAL_SERVER_ERROR, x2)
      else let x = x2\<lparr>r_status := x_status x2, r_disable_not_modified := True\<rparr>;
              (rc, x) = ngx_http_send_header (ra_header a) x in
          if rc = NGX_ERROR \<or> rc > NGX_OK \<or> r_header_only x then (Some rc, x) else (None, x))"
    unfolding assms(3) [symmetric] lws_stream_header_def Let_def x1_def [symmetric] x2(1) by simp
  show "ngx_request.more y = ngx_request.more x" "r_out y = r_out x" "r_final y = r_final x"
    "res = None \<Longrightarrow> \<not> r_header_only x \<Longrightarrow> \<not> r_header_only y"
    using y f2 x1 by (auto simp: ngx_http_send_header_def Let_def split: if_splits)
qed

section \<open>Steps\<close>

text \<open>What Lua does to the request while its thread runs: it writes to the pipe, or changes the
  request context. The environment and the configuration are fixed.\<close>

inductive lws_stream_step ::
  "lws_env \<Rightarrow> (ngx_str \<Rightarrow> int) \<Rightarrow> nat \<Rightarrow> lws_fmt \<Rightarrow> nat \<Rightarrow> lws_stream \<Rightarrow> lws_stream \<Rightarrow> bool"
  for E parse_time pagesize F error_response where
  flush: "x_lua x \<Longrightarrow> x_pipe1 x \<Longrightarrow> x_pipe0 x \<Longrightarrow>
    lws_stream_step E parse_time pagesize F error_response x
      (x\<lparr>x_pipe := x_pipe x @ bytes, x_flushed := x_flushed x @ bytes\<rparr>)"
| lua: "x_lua x \<Longrightarrow> table_wf E t \<Longrightarrow> lws_stream_step E parse_time pagesize F error_response x
    (x\<lparr>x_rc := rc, x_status := status, x_redirect := redirect, x_redirect_args := args,
       x_diagnostic := diagnostic, x_body := body, x_headers := t\<rparr>)"
| stream: "x_conn x \<Longrightarrow> lws_stream_step E parse_time pagesize F error_response x
    (lws_stream_handler E parse_time pagesize ans x)"
| writable: "lws_stream_step E parse_time pagesize F error_response x
    (lws_stream_write_handler E parse_time pagesize ans x)"
| final: "x_lua x \<Longrightarrow> lws_stream_step E parse_time pagesize F error_response x
    (lws_finalization_response E parse_time F error_response fans x)"

text \<open>The thread task is posted, with or without streaming enabled.\<close>

definition lws_stream_start :: "lws_env \<Rightarrow> lws_stream \<Rightarrow> bool" where
  "lws_stream_start E x \<longleftrightarrow> x_lua x \<and> x_pipe1 x = x_conn x \<and> x_pipe0 x = x_conn x \<and>
     x_active x = x_conn x \<and> x_pipe x = [] \<and> x_flushed x = [] \<and> x_streaming_rc x = NGX_OK \<and>
     \<not> x_eof x \<and> \<not> x_write_handler x \<and> \<not> r_header_only x \<and> \<not> r_header_sent x \<and> r_out x = [] \<and>
     r_final x = [] \<and> table_wf E (x_headers x)"

inductive lws_stream_reach ::
  "lws_env \<Rightarrow> (ngx_str \<Rightarrow> int) \<Rightarrow> nat \<Rightarrow> lws_fmt \<Rightarrow> nat \<Rightarrow> lws_stream \<Rightarrow> bool"
  for E parse_time pagesize F error_response where
  start: "lws_stream_start E x \<Longrightarrow> lws_stream_reach E parse_time pagesize F error_response x"
| step: "lws_stream_reach E parse_time pagesize F error_response x \<Longrightarrow>
    lws_stream_step E parse_time pagesize F error_response x y \<Longrightarrow>
    lws_stream_reach E parse_time pagesize F error_response y"

section \<open>The invariant\<close>

text \<open>Not finalized; there is a writer of the pipe as long as the thread runs.\<close>

definition stream_live :: "lws_env \<Rightarrow> lws_stream \<Rightarrow> bool" where
  "stream_live E x \<longleftrightarrow> table_wf E (x_headers x) \<and> r_final x = [] \<and> \<not> x_eof x \<and>
     (x_pipe1 x \<longleftrightarrow> x_lua x)"

definition stream_open :: "lws_env \<Rightarrow> lws_stream \<Rightarrow> bool" where
  "stream_open E x \<longleftrightarrow> stream_live E x \<and> x_conn x \<and> x_pipe0 x \<and> x_streaming_rc x = NGX_OK \<and>
     \<not> r_header_only x \<and> r_out x @ x_pipe x = x_flushed x"

definition stream_inv :: "lws_env \<Rightarrow> lws_stream \<Rightarrow> bool" where
  "stream_inv E x \<longleftrightarrow> table_wf E (x_headers x) \<and>
     (x_conn x \<longrightarrow> stream_open E x \<and> (x_active x \<or> x_write_handler x)) \<and>
     (x_lua x \<longrightarrow> r_final x = []) \<and>
     (\<not> x_lua x \<longrightarrow> \<not> x_pipe1 x \<and> (\<not> x_conn x \<longrightarrow> (\<exists>rc. r_final x = [rc]))) \<and>
     (x_eof x \<longrightarrow> \<not> x_conn x \<and> \<not> x_lua x \<and> r_out x = x_flushed x)"

lemma stream_error_inv: "stream_live E x \<Longrightarrow> stream_inv E (lws_stream_error rc x)"
  by (auto simp: stream_live_def stream_inv_def lws_stream_error_def Let_def
      ngx_http_finalize_request_def)

lemma stream_error_fields: "x_conn (lws_stream_error rc x) = False"
  by (simp add: lws_stream_error_def Let_def ngx_http_finalize_request_def)

lemma stream_blocked_inv: "stream_open E x \<Longrightarrow> stream_inv E (lws_stream_blocked ans del x)"
  by (auto simp: lws_stream_blocked_def Let_def intro!: stream_error_inv)
     (auto simp: stream_open_def stream_live_def stream_inv_def)

lemma stream_flush_inv: "stream_open E x \<Longrightarrow> stream_inv E (lws_stream_flush ans x)"
  by (auto simp: lws_stream_flush_def Let_def intro!: stream_error_inv stream_blocked_inv)
     (auto simp: stream_open_def stream_live_def stream_inv_def)

lemma pipe_read_data: "pipe_read pagesize a x = PipeData bytes \<Longrightarrow>
  bytes \<noteq> [] \<and> bytes @ drop (length bytes) (x_pipe x) = x_pipe x"
proof -
  assume "pipe_read pagesize a x = PipeData bytes"
  then obtain k where k: "0 < k" "x_pipe x \<noteq> []" "bytes = take k (x_pipe x)"
    by (cases "x_pipe x = []")
       (auto simp: pipe_read_def split: if_splits intro: that [of "max 1 (min (ra_n a) pagesize)"])
  then show ?thesis by (cases "k \<le> length (x_pipe x)") simp_all
qed

lemma stream_reads_inv:
  assumes E: "strncasecmp_ok E"
  shows "stream_open E x \<Longrightarrow> x_active x \<or> x_write_handler x \<Longrightarrow>
    stream_inv E (lws_stream_reads E parse_time pagesize ans left x)"
proof (induction left arbitrary: x)
  case 0
  then show ?case by (auto simp: stream_open_def stream_live_def stream_inv_def)
next
  case (Suc left)
  then have live: "stream_live E x" by (simp add: stream_open_def)
  let ?a = "sa_reads ans (Suc left)" and ?x = "x\<lparr>x_free := x_free x - 1\<rparr>"
  show ?case
  proof (cases "pipe_read pagesize ?a ?x")
    case PipeEof
    then have "x_pipe x = []" "\<not> x_pipe1 x" by (auto simp: pipe_read_def split: if_splits)
    then have "stream_inv E (lws_stream_eof ans ?x)" using Suc.prems
      by (auto simp: lws_stream_eof_def Let_def stream_open_def stream_live_def stream_inv_def
          ngx_http_finalize_request_def)
    with PipeEof Suc.prems live show ?thesis
      by (auto simp: lws_stream_reads.simps Let_def intro!: stream_error_inv stream_blocked_inv)
  next
    case PipeAgain
    with Suc.prems live show ?thesis
      by (auto simp: lws_stream_reads.simps Let_def intro!: stream_error_inv stream_blocked_inv)
         (auto simp: stream_open_def stream_live_def stream_inv_def)
  next
    case PipeError
    with Suc.prems live show ?thesis
      by (auto simp: lws_stream_reads.simps Let_def intro!: stream_error_inv stream_blocked_inv)
         (auto simp: stream_live_def)
  next
    case (PipeData bytes)
    let ?x1 = "x\<lparr>x_free := x_free x - 1, x_pipe := drop (length bytes) (x_pipe x)\<rparr>"
    have x1: "?x\<lparr>x_pipe := drop (length bytes) (x_pipe ?x)\<rparr> = ?x1" by simp
    obtain res y where y: "lws_stream_header E parse_time ?a ?x1 = (res, y)" by force
    have "table_wf E (x_headers ?x1)" using live by (simp add: stream_live_def)
    note h = stream_header_frame [OF this E y]
    note h' = more_eq [OF h(1)]
    have live': "stream_live E y" using live h h' by (simp add: stream_live_def)
    have bytes: "r_out y @ bytes @ x_pipe y = x_flushed y"
      using h h' pipe_read_data [OF PipeData] Suc.prems(1) by (simp add: stream_open_def)
    define z where "z = ngx_http_output_filter bytes False y"
    define w where "w = z\<lparr>x_busy := ra_busy ?a, x_free := ra_free ?a\<rparr>"
    have live_w: "stream_live E z" "stream_live E w"
      using live' by (simp_all add: stream_live_def ngx_http_output_filter_def z_def w_def)
    show ?thesis
    proof (cases res)
      case None
      have w: "stream_open E w" "x_active w \<or> x_write_handler w"
        using live_w bytes h h' Suc.prems None
        by (auto simp: stream_open_def ngx_http_output_filter_def z_def w_def)
      then have w': "stream_live E (w\<lparr>x_active := False\<rparr>)"
        "stream_inv E (w\<lparr>x_active := False, x_active := True\<rparr>)"
        by (simp_all add: stream_inv_def stream_open_def stream_live_def)
      have reads: "lws_stream_reads E parse_time pagesize ans (Suc left) x =
        (if x_busy x then lws_stream_blocked ans (sa_del ans) x
         else if x_free x = 0 \<and> \<not> ra_buf ?a then lws_stream_error NGX_ERROR x
         else if x_free x = 0 \<and> \<not> ra_page ?a then lws_stream_error NGX_ERROR x
         else if ra_output ?a = NGX_ERROR then lws_stream_error NGX_ERROR z
         else if ra_output ?a = NGX_AGAIN \<or> x_busy w \<or> ra_buffered ?a
         then lws_stream_blocked ans (sa_del ans) w
         else if left = 0 then
           if x_active w \<and> \<not> ra_del ?a then lws_stream_error NGX_ERROR w
           else if \<not> ra_rearm ?a then lws_stream_error NGX_ERROR (w\<lparr>x_active := False\<rparr>)
           else w\<lparr>x_active := False, x_active := True\<rparr>
         else lws_stream_reads E parse_time pagesize ans left w)"
        using y unfolding None
        by (simp only: lws_stream_reads.simps(2) Let_def PipeData pipe_result.case x1 prod.case
            option.case z_def [symmetric] w_def [symmetric])
      note facts = stream_error_inv [OF live] stream_error_inv [OF live_w(1)]
        stream_error_inv [OF live_w(2)] stream_error_inv [OF w'(1)] w'(2)
        stream_blocked_inv [OF Suc.prems(1)] stream_blocked_inv [OF w(1)] Suc.IH [OF w]
      show ?thesis unfolding reads by (simp only: facts simp_thms split: if_split)
    next
      case (Some rc)
      with PipeData y Suc.prems live stream_error_inv [OF live', of rc] show ?thesis
        by (simp add: lws_stream_reads.simps Let_def stream_blocked_inv stream_error_inv)
    qed
  qed
qed

lemma stream_handler_inv:
  assumes "strncasecmp_ok E" "stream_inv E x" "x_conn x"
  shows "stream_inv E (lws_stream_handler E parse_time pagesize ans x)"
  using assms stream_flush_inv stream_reads_inv
  by (auto simp: lws_stream_handler_def stream_inv_def [of E x])

section \<open>Finalization\<close>

lemma send_error_frame:
  "ngx_request.more (lws_send_error_response F er ans d rc r) = ngx_request.more r"
  "\<exists>code. r_final (lws_send_error_response F er ans d rc r) = r_final r @ [code]"
  by (auto simp: lws_send_error_response_def lws_send_json_error_response_def Let_def
      lws_send_html_error_response_def ngx_http_finalize_request_def ngx_http_send_header_def
      ngx_http_output_filter_def)

lemma send_response_frame:
  "ngx_request.more (lws_send_response ans x) = ngx_request.more x"
  "\<exists>code. r_final (lws_send_response ans x) = r_final x @ [code]"
  by (auto simp: lws_send_response_def Let_def ngx_http_finalize_request_def
      ngx_http_send_header_def ngx_http_output_filter_def)

text \<open>The finalization handler, in two cases: the rest is left to the stream handler, or the request is
  finalized here.\<close>

lemma check_streaming_cases:
  assumes "x_conn y \<Longrightarrow> x_streaming_rc y = NGX_OK"
  obtains (still) "x_conn y" "lws_check_streaming ans y = y"
  | (closed) rc pipe0 where
      "lws_check_streaming ans y = y\<lparr>x_streaming_rc := rc, x_conn := False, x_pipe0 := pipe0\<rparr>"
proof (cases "x_conn y")
  case True
  show thesis
  proof (cases "\<not> r_header_sent y \<and> (\<not> fa_nread ans \<or> x_pipe y = [])")
    case True
    with \<open>x_conn y\<close> assms have "lws_check_streaming ans y = y\<lparr>x_streaming_rc :=
        (if fa_nread ans then x_streaming_rc y else NGX_ERROR), x_conn := False, x_pipe0 := False\<rparr>"
      by (simp add: lws_check_streaming_def)
    then show thesis by (rule closed)
  next
    case False
    with \<open>x_conn y\<close> assms have "lws_check_streaming ans y = y"
      by (auto simp: lws_check_streaming_def)
    with \<open>x_conn y\<close> show thesis by (rule still)
  qed
next
  case False
  then have "lws_check_streaming ans y =
      y\<lparr>x_streaming_rc := x_streaming_rc y, x_conn := False, x_pipe0 := x_pipe0 y\<rparr>"
    by (simp add: lws_check_streaming_def)
  then show thesis by (rule closed)
qed

lemma finalize_streaming_check:
  "lws_finalize_streaming ans x = lws_check_streaming ans (x\<lparr>x_lua := False, x_pipe1 := False\<rparr>)"
proof -
  have "(if x_pipe1 (x\<lparr>x_lua := False\<rparr>) then x\<lparr>x_lua := False\<rparr>\<lparr>x_pipe1 := False\<rparr>
      else x\<lparr>x_lua := False\<rparr>) = x\<lparr>x_lua := False, x_pipe1 := False\<rparr>" by simp
  then show ?thesis by (simp only: lws_finalize_streaming_def Let_def)
qed

lemma finalize_streaming_live:
  fixes ans
  assumes "stream_inv E x" "x_lua x"
  defines "y \<equiv> lws_finalize_streaming ans x"
  shows "table_wf E (x_headers y)" "r_final y = []" "\<not> x_lua y" "\<not> x_pipe1 y" "\<not> x_eof y"
    "x_conn y \<Longrightarrow> stream_inv E y \<and> x_streaming_rc y = NGX_OK \<and> \<not> r_header_only y"
proof -
  let ?z = "x\<lparr>x_lua := False, x_pipe1 := False\<rparr>"
  have rc: "x_conn ?z \<Longrightarrow> x_streaming_rc ?z = NGX_OK"
    using assms(1) by (simp add: stream_inv_def stream_open_def)
  have "table_wf E (x_headers y) \<and> r_final y = [] \<and> \<not> x_lua y \<and> \<not> x_pipe1 y \<and> \<not> x_eof y \<and>
    (x_conn y \<longrightarrow> stream_inv E y \<and> x_streaming_rc y = NGX_OK \<and> \<not> r_header_only y)"
    using assms(1,2) unfolding y_def finalize_streaming_check
    by (cases rule: check_streaming_cases [OF rc, where ans = ans])
       (auto simp: stream_inv_def stream_open_def stream_live_def)
  then show "table_wf E (x_headers y)" "r_final y = []" "\<not> x_lua y" "\<not> x_pipe1 y" "\<not> x_eof y"
    "x_conn y \<Longrightarrow> stream_inv E y \<and> x_streaming_rc y = NGX_OK \<and> \<not> r_header_only y" by blast+
qed

definition done_inv :: "lws_env \<Rightarrow> lws_stream \<Rightarrow> bool" where
  "done_inv E x \<longleftrightarrow> table_wf E (x_headers x) \<and> \<not> x_conn x \<and> \<not> x_lua x \<and> \<not> x_pipe1 x \<and> \<not> x_eof x"

lemma done_inv_more: "ngx_request.more y = ngx_request.more x \<Longrightarrow> done_inv E x \<Longrightarrow> done_inv E y"
  by (simp add: done_inv_def more_eq [of y x])

lemma done_inv_stream: "done_inv E x \<Longrightarrow> r_final x = [rc] \<Longrightarrow> stream_inv E x"
  by (simp add: done_inv_def stream_inv_def)

lemma finalization_inv:
  assumes E: "strncasecmp_ok E" and inv: "stream_inv E x" "x_lua x"
  shows "stream_inv E (lws_finalization_response E parse_time F er ans x)"
proof -
  define y where "y = lws_finalize_streaming ans x"
  note live = finalize_streaming_live [OF inv, of ans, folded y_def]
  show ?thesis
  proof (cases "x_conn y")
    case True
    with live(6) show ?thesis
      by (simp add: lws_finalization_response_def Let_def y_def [symmetric])
  next
    case False
    then have y: "done_inv E y" using live by (simp add: done_inv_def)
    obtain rc z where z: "the (lws_set_response_header E (fa_push ans) parse_time (x_headers y) y) = (rc, z)"
      "request_frame z y"
      using set_header_frame [OF live(1) E] by metis
    note fz = request_frame_keeps [OF z(2)]
    have zd: "done_inv E z" "r_final z = []"
      using done_inv_more [of z y E] fz y live(2) by auto
    have err: "stream_inv E (lws_send_error_response F er a d c w)" if "done_inv E w" "r_final w = []"
      for a d c w
      using done_inv_stream done_inv_more [OF send_error_frame(1) that(1)] send_error_frame(2)
        that(2) by (metis append_Nil)
    have resp: "stream_inv E (lws_send_response ans w)" if "done_inv E w" "r_final w = []" for w
      using done_inv_stream done_inv_more [OF send_response_frame(1) that(1)] send_response_frame(2)
        that(2) by (metis append_Nil)
    have fin: "stream_inv E (ngx_http_finalize_request c w)" if "done_inv E w" "r_final w = []" for c w
      using that done_inv_stream [of E "ngx_http_finalize_request c w" c]
      by (simp add: done_inv_def ngx_http_finalize_request_def)
    have upd: "done_inv E (y\<lparr>r_last := b\<rparr>)" "done_inv E (y\<lparr>x_internal := i\<rparr>)"
      "done_inv E (y\<lparr>x_named := n\<rparr>)" for b i n
      using y by (simp_all add: done_inv_def)
    show ?thesis
      using False y zd z(1) live(2) upd
      by (simp add: lws_finalization_response_def Let_def y_def [symmetric] err resp fin)
  qed
qed

lemma stream_step_inv:
  assumes "strncasecmp_ok E"
  shows "lws_stream_step E parse_time pagesize F er x y \<Longrightarrow> stream_inv E x \<Longrightarrow> stream_inv E y"
proof (induction rule: lws_stream_step.induct)
  case (flush x bytes)
  then show ?case by (auto simp: stream_inv_def stream_open_def stream_live_def)
next
  case (lua x t rc status redirect args diagnostic body)
  then show ?case by (auto simp: stream_inv_def stream_open_def stream_live_def)
next
  case (stream x ans)
  then show ?case by (intro stream_handler_inv assms)
next
  case (writable ans x)
  then show ?case by (auto simp: lws_stream_write_handler_def intro: stream_handler_inv assms)
next
  case (final x fans)
  then show ?case by (intro finalization_inv assms)
qed

lemma stream_reach_inv:
  assumes "strncasecmp_ok E"
  shows "lws_stream_reach E parse_time pagesize F er x \<Longrightarrow> stream_inv E x"
proof (induction rule: lws_stream_reach.induct)
  case (start x)
  then show ?case
    by (auto simp: lws_stream_start_def stream_inv_def stream_open_def stream_live_def)
next
  case (step x y)
  then show ?case using stream_step_inv [OF assms] by blast
qed

section \<open>Progress\<close>

text \<open>Answers of a client and a system that take everything at once.\<close>

definition smooth :: "nat \<Rightarrow> lws_stream_answers \<Rightarrow> bool" where
  "smooth pagesize ans \<longleftrightarrow> (\<forall>i. let a = sa_reads ans i in ra_buf a \<and> ra_page a \<and> \<not> ra_error a \<and>
     pagesize \<le> ra_n a \<and> (\<forall>n. ra_push a n) \<and> ha_rc (ra_header a) = NGX_OK \<and> ha_sent (ra_header a) \<and>
     \<not> ha_only (ra_header a) \<and> ra_output a = NGX_OK \<and> \<not> ra_busy a \<and> \<not> ra_buffered a)"

text \<open>A request with a body, as far as the stream handler can see before the first data.\<close>

definition bodied :: "lws_stream \<Rightarrow> bool" where
  "bodied x \<longleftrightarrow> r_header_sent x \<or> x_pipe x \<noteq> [] \<and> \<not> (r_main x \<and> (r_head x \<or>
     r_status x = NGX_HTTP_NO_CONTENT \<or> r_status x = NGX_HTTP_NOT_MODIFIED))"

lemma smoothD:
  assumes "smooth pagesize ans"
  shows "ra_buf (sa_reads ans i)" "ra_page (sa_reads ans i)" "\<not> ra_error (sa_reads ans i)"
    "pagesize \<le> ra_n (sa_reads ans i)" "ra_push (sa_reads ans i) n"
    "ha_rc (ra_header (sa_reads ans i)) = NGX_OK" "ha_sent (ra_header (sa_reads ans i))"
    "\<not> ha_only (ra_header (sa_reads ans i))" "ra_output (sa_reads ans i) = NGX_OK"
    "\<not> ra_busy (sa_reads ans i)" "\<not> ra_buffered (sa_reads ans i)"
  using assms by (auto simp: smooth_def Let_def)

lemma stream_header_smooth:
  assumes "table_wf E (x_headers x)" "strncasecmp_ok E" "smooth pagesize ans"
    and "bodied x \<or> bodied (x\<lparr>x_pipe := bytes\<rparr>)" "\<not> r_header_only x"
    and "lws_stream_header E parse_time (sa_reads ans i) x = (res, y)"
  shows "res = None \<and> r_header_sent y \<and> r_main y = r_main x"
proof (cases "r_header_sent x")
  case True
  with assms(6) show ?thesis by (auto simp: lws_stream_header_def)
next
  case False
  note good = smoothD [OF assms(3), of i]
  have "\<not> (r_main x \<and> (r_head x \<or> r_status x = NGX_HTTP_NO_CONTENT \<or> r_status x = NGX_HTTP_NOT_MODIFIED))"
    using assms(4) False by (auto simp: bodied_def)
  moreover obtain rc z where z: "the (lws_set_response_header E (ra_push (sa_reads ans i)) parse_time
      (x_headers x) x) = (rc, z)" "request_frame z x" "rc = NGX_OK"
    using set_header_frame [OF assms(1,2), where push = "ra_push (sa_reads ans i)"
        and parse_time = parse_time and r = x] good(5) by metis
  note fz = request_frame_keeps [OF z(2)]
  ultimately show ?thesis using assms(5,6) False good z(1,3)
    by (simp add: lws_stream_header_def Let_def ngx_http_send_header_def split: if_splits) auto
qed

lemma stream_reads_complete:
  assumes E: "strncasecmp_ok E" and good: "smooth pagesize ans" and page: "0 < pagesize"
  shows "stream_open E x \<Longrightarrow> \<not> x_lua x \<Longrightarrow> \<not> x_busy x \<Longrightarrow> bodied x \<Longrightarrow>
    length (x_pipe x) \<le> left * pagesize \<Longrightarrow>
    let y = lws_stream_reads E parse_time pagesize ans (Suc left) x in
    r_final y = [if r_main x then sa_special ans else NGX_OK] \<and> r_out y = x_flushed x \<and> x_eof y"
proof (induction left arbitrary: x)
  case 0
  note g = smoothD [OF good]
  from 0 have "pipe_read pagesize a (x\<lparr>x_free := f\<rparr>) = PipeEof" if "\<not> ra_error a" for a f
    using that by (simp add: pipe_read_def stream_open_def stream_live_def)
  with 0 g show ?case
    by (simp add: lws_stream_reads.simps Let_def lws_stream_eof_def bodied_def stream_open_def
        stream_live_def ngx_http_finalize_request_def)
next
  case (Suc left)
  note g = smoothD [OF good]
  let ?a = "sa_reads ans (Suc (Suc left))" and ?x = "x\<lparr>x_free := x_free x - 1\<rparr>"
  show ?case
  proof (cases "x_pipe x = []")
    case True
    with Suc.prems g(3) have "pipe_read pagesize ?a (x\<lparr>x_free := f\<rparr>) = PipeEof" for f
      by (simp add: pipe_read_def stream_open_def stream_live_def)
    with True Suc.prems g show ?thesis
      by (simp add: lws_stream_reads.simps Let_def lws_stream_eof_def bodied_def stream_open_def
          stream_live_def ngx_http_finalize_request_def)
  next
    case False
    define bytes where "bytes = take (max 1 (min (ra_n ?a) pagesize)) (x_pipe x)"
    have n: "max 1 (min (ra_n ?a) pagesize) = pagesize" using page by (simp add: min_absorb2 [OF g(4)])
    have read: "pipe_read pagesize ?a ?x = PipeData bytes"
      using False g(3) by (simp add: pipe_read_def bytes_def)
    note data = pipe_read_data [OF read]
    let ?x1 = "?x\<lparr>x_pipe := drop (length bytes) (x_pipe ?x)\<rparr>"
    obtain res y where y: "lws_stream_header E parse_time ?a ?x1 = (res, y)" by force
    have wf: "table_wf E (x_headers ?x1)" using Suc.prems(1) by (simp add: stream_open_def stream_live_def)
    note h = stream_header_frame [OF wf E y]
    note h' = more_eq [OF h(1)]
    have "res = None \<and> r_header_sent y \<and> r_main y = r_main ?x1"
      by (rule stream_header_smooth [OF wf E good _ _ y, of "x_pipe x"])
         (use Suc.prems in \<open>auto simp: bodied_def stream_open_def\<close>)
    then have res: "res = None" "r_header_sent y" "r_main y = r_main x" by auto
    define z where "z = ngx_http_output_filter bytes False y"
    define w where "w = z\<lparr>x_busy := ra_busy ?a, x_free := ra_free ?a\<rparr>"
    have out: "r_out y @ bytes @ x_pipe y = x_flushed y"
      using h h' data Suc.prems(1) by (simp add: stream_open_def)
    have w: "stream_open E w" "\<not> x_lua w" "\<not> x_busy w" "bodied w" "x_flushed w = x_flushed x"
      "r_main w = r_main x"
      using h h' res out g(10) Suc.prems
      by (auto simp: w_def z_def ngx_http_output_filter_def stream_open_def stream_live_def bodied_def)
    have "length bytes = min (length (x_pipe x)) pagesize" by (simp only: bytes_def n length_take)
    moreover have "length (x_pipe w) = length (x_pipe x) - length bytes"
      using h' by (simp add: w_def z_def ngx_http_output_filter_def)
    ultimately have len: "length (x_pipe w) \<le> left * pagesize" using Suc.prems(5) by simp
    have reads: "lws_stream_reads E parse_time pagesize ans (Suc (Suc left)) x =
        lws_stream_reads E parse_time pagesize ans (Suc left) w"
      using y unfolding res(1)
      by (simp only: lws_stream_reads.simps(2) [of _ _ _ _ "Suc left"] Let_def read pipe_result.case
          prod.case option.case z_def [symmetric] w_def [symmetric] g Suc.prems(3) w(3) simp_thms if_False
          if_True zero_neq_neg_one nat.distinct refl eq_commute [of "0::int"])
         (simp add: w_def g)
    show ?thesis unfolding reads using Suc.IH [OF w(1-4) len] w(5,6) by simp
  qed
qed

section \<open>Properties\<close>

text \<open>C27: In whatever order the Lua thread, the stream handler and the finalization handler run and
  whatever fails on the way, the request is finalized at most once, and it is not finalized exactly as
  long as the thread runs or the pipe is being read; while it is read, the read event is armed or
  the write handler is installed, so the handler will be called again.\<close>

theorem lws_stream_finalized_once:
  assumes "strncasecmp_ok E" "lws_stream_reach E parse_time pagesize F error_response x"
  shows "length (r_final x) \<le> 1 \<and> (r_final x = [] \<longleftrightarrow> x_lua x \<or> x_conn x) \<and>
    (x_conn x \<longrightarrow> x_pipe0 x \<and> (x_active x \<or> x_write_handler x))"
  using stream_reach_inv [OF assms] by (auto simp: stream_inv_def stream_open_def stream_live_def)

text \<open>C28: No byte is lost, repeated or reordered: while the pipe is being read, what was sent followed by
  what is in the pipe is what Lua wrote; when the end of the pipe was reached, everything was sent.\<close>

theorem lws_stream_data:
  assumes "strncasecmp_ok E" "lws_stream_reach E parse_time pagesize F error_response x"
  shows "(x_conn x \<longrightarrow> r_out x @ x_pipe x = x_flushed x) \<and> (x_eof x \<longrightarrow> r_out x = x_flushed x)"
  using stream_reach_inv [OF assms] by (auto simp: stream_inv_def stream_open_def)

text \<open>C29: A response that Lua has completed is finished by the next event of the pipe, if a client and a
  system that take everything at once leave at most fifteen pages in the pipe: the rest is sent, with
  the end of the response if it is a main response, and the request is finalized.\<close>

theorem lws_stream_completes:
  assumes "strncasecmp_ok E" "lws_stream_reach E parse_time pagesize F error_response x"
    and "x_conn x" "\<not> x_lua x" "\<not> x_write_handler x" "\<not> x_busy x" "bodied x"
    and "smooth pagesize ans" "0 < pagesize" "length (x_pipe x) \<le> 15 * pagesize"
  shows "let y = lws_stream_handler E parse_time pagesize ans x in
    r_final y = [if r_main x then sa_special ans else NGX_OK] \<and> r_out y = x_flushed x \<and> x_eof y"
proof -
  have "stream_open E x" using stream_reach_inv [OF assms(1,2)] assms(3) by (simp add: stream_inv_def)
  from stream_reads_complete [OF assms(1,8,9) this assms(4,6,7,10)] assms(5) show ?thesis
    by (simp add: lws_stream_handler_def LWS_STREAMING_READS_MAX_def eval_nat_numeral)
qed

text \<open>The response of a request that did not stream, by the result of the Lua code.\<close>

definition final_status :: "int \<Rightarrow> int" where
  "final_status rc = (if rc \<ge> 100 \<and> rc < 600 then rc else NGX_HTTP_INTERNAL_SERVER_ERROR)"

lemma final_status_bounds: "100 \<le> final_status rc" "final_status rc < 1000"
  by (simp_all add: final_status_def)

lemma finalize_unstreamed:
  assumes "\<not> x_conn x"
  obtains y where "lws_finalize_streaming ans x = y" "ngx_request.truncate y = ngx_request.truncate x"
    "x_conn y = x_conn x" "x_streaming_rc y = x_streaming_rc x" "x_rc y = x_rc x"
    "x_status y = x_status x" "x_redirect y = x_redirect x" "x_redirect_args y = x_redirect_args x"
    "x_diagnostic y = x_diagnostic x" "x_body y = x_body x" "x_headers y = x_headers x"
  by (rule that [of "x\<lparr>x_lua := False, x_pipe1 := False\<rparr>"])
     (use assms in \<open>simp_all add: finalize_streaming_check lws_check_streaming_def ngx_request.defs\<close>)

lemma truncate_eq:
  assumes "ngx_request.truncate y = ngx_request.truncate (x :: lws_stream)"
  shows "r_main y = r_main x" "r_head y = r_head x" "r_header_only y = r_header_only x"
    "r_header_sent y = r_header_sent x" "r_out y = r_out x" "r_final y = r_final x"
    "r_headers y = r_headers x" "r_last y = r_last x"
  using assms by (simp_all add: ngx_request.defs)

lemma response_ok_start: "response_ok r r' \<Longrightarrow> r_out r0 = r_out r \<Longrightarrow> r_final r0 = r_final r \<Longrightarrow>
  r_main r0 = r_main r \<Longrightarrow> response_ok r0 r'"
  by (simp add: response_ok_def)

section \<open>A streamed response\<close>

definition demo_stream :: lws_stream where
  "demo_stream = ngx_request.extend demo_request (lws_stream.fields True True True True [] [] NGX_OK
     False 0 True False False False False 0 200 [] (None, 0) [] [] demo_resp None None)"

definition demo_read :: lws_read_answers where
  "demo_read = \<lparr>ra_buf = True, ra_page = True, ra_error = False, ra_n = 4096, ra_rearm = True,
     ra_push = (\<lambda>_. True), ra_header = \<lparr>ha_rc = NGX_OK, ha_sent = True, ha_only = False\<rparr>,
     ra_output = NGX_OK, ra_busy = False, ra_free = 1, ra_buffered = False, ra_del = True\<rparr>"

definition demo_sa :: lws_stream_answers where
  "demo_sa = \<lparr>sa_timedout = False, sa_delayed = False, sa_ready = True, sa_output = NGX_OK,
     sa_busy = False, sa_free = 1, sa_buffered = False, sa_rearm = True, sa_del = True, sa_write = True,
     sa_special = NGX_OK, sa_reads = (\<lambda>_. demo_read)\<rparr>"

definition demo_fa :: lws_final_answers where
  "demo_fa = \<lparr>fa_nread = True, fa_special = NGX_OK, fa_error = demo_answers_ok, fa_redirect = NGX_OK,
     fa_push = (\<lambda>_. True), fa_fflush = True,
     fa_header = \<lparr>ha_rc = NGX_OK, ha_sent = True, ha_only = False\<rparr>, fa_buf = True, fa_output = NGX_OK\<rparr>"

text \<open>Lua has written two bytes and is done; the stream handler has not run yet.\<close>

definition demo_pending :: lws_stream where
  "demo_pending = demo_stream\<lparr>x_pipe := lit ''hi'', x_flushed := lit ''hi'', x_lua := False,
     x_pipe1 := False\<rparr>"

abbreviation demo_stream_reach where
  "demo_stream_reach \<equiv> lws_stream_reach demo_env (\<lambda>_. 0) 4096 demo_fmt LWS_ER_JSON"

lemmas demo_stream_defs = demo_stream_def demo_request_def ngx_request.defs lws_stream.defs

lemma demo_pending_reach: "demo_stream_reach demo_pending"
proof -
  have "lws_stream_start demo_env demo_stream"
    by (simp add: lws_stream_start_def demo_stream_defs demo_resp_wf)
  note r = lws_stream_reach.start [OF this]
  have "x_lua demo_stream" "x_pipe1 demo_stream" "x_pipe0 demo_stream"
    by (simp_all add: demo_stream_defs)
  note r = lws_stream_reach.step [OF r lws_stream_step.flush [OF this, where bytes = "lit ''hi''"]]
  have "x_lua (demo_stream\<lparr>x_pipe := x_pipe demo_stream @ lit ''hi'',
      x_flushed := x_flushed demo_stream @ lit ''hi''\<rparr>)" by (simp add: demo_stream_defs)
  note r = lws_stream_reach.step [OF r lws_stream_step.final [OF this, where fans = demo_fa]]
  have "lws_finalization_response demo_env (\<lambda>_. 0) demo_fmt LWS_ER_JSON demo_fa
      (demo_stream\<lparr>x_pipe := x_pipe demo_stream @ lit ''hi'',
         x_flushed := x_flushed demo_stream @ lit ''hi''\<rparr>) = demo_pending"
    by (simp add: lws_finalization_response_def finalize_streaming_check lws_check_streaming_def
        demo_stream_defs demo_pending_def demo_fa_def lit_def)
  with r [of "\<lambda>_. 0" 4096 demo_fmt LWS_ER_JSON] show ?thesis by simp
qed

theorem lws_stream_finalized_once_witness:
  "r_final demo_pending = [] \<and> x_conn demo_pending \<and> x_active demo_pending"
proof -
  have "x_conn demo_pending" "\<not> x_write_handler demo_pending"
    by (simp_all add: demo_pending_def demo_stream_defs)
  with lws_stream_finalized_once [OF demo_env_ok demo_pending_reach] show ?thesis by blast
qed

theorem lws_stream_data_witness: "r_out demo_pending @ x_pipe demo_pending = lit ''hi''"
proof -
  have "x_conn demo_pending" "x_flushed demo_pending = lit ''hi''"
    by (simp_all add: demo_pending_def demo_stream_defs)
  with lws_stream_data [OF demo_env_ok demo_pending_reach] show ?thesis by simp
qed

theorem lws_stream_completes_witness:
  "r_final (lws_stream_handler demo_env (\<lambda>_. 0) 4096 demo_sa demo_pending) = [NGX_OK] \<and>
   r_out (lws_stream_handler demo_env (\<lambda>_. 0) 4096 demo_sa demo_pending) = lit ''hi''"
proof -
  have "x_conn demo_pending" "\<not> x_lua demo_pending" "\<not> x_write_handler demo_pending"
    "\<not> x_busy demo_pending" "bodied demo_pending" "length (x_pipe demo_pending) \<le> 15 * 4096"
    by (simp_all add: demo_pending_def demo_stream_defs bodied_def lit_def)
  moreover have "smooth 4096 demo_sa"
    by (simp add: smooth_def demo_sa_def demo_read_def)
  moreover have "r_main demo_pending" "x_flushed demo_pending = lit ''hi''" "sa_special demo_sa = NGX_OK"
    by (simp_all add: demo_pending_def demo_stream_defs demo_sa_def)
  ultimately show ?thesis
    using lws_stream_completes [OF demo_env_ok demo_pending_reach, of demo_sa]
    by (simp add: Let_def)
qed

end
