(* ===== verification/LwsFinal.thy ===== *)
theory LwsFinal
  imports LwsStreamCorrect
begin

text \<open>
  The response that \<open>lws_finalization_handler\<close> makes for a request that did not stream: what is sent
  for each result of the Lua code, and that the body is as long as announced.
\<close>

section \<open>What the client gets\<close>

text \<open>A response that has no body by the rules of HTTP, and a header that the filters of NGINX accept and
  that leaves room for a body.\<close>

definition no_body :: "'a ngx_request_scheme \<Rightarrow> int \<Rightarrow> bool" where
  "no_body r status \<longleftrightarrow> r_main r \<and> (r_head r \<or> status = NGX_HTTP_NO_CONTENT \<or> status = NGX_HTTP_NOT_MODIFIED)"

definition header_passed :: "ngx_header_answer \<Rightarrow> 'a ngx_request_scheme \<Rightarrow> bool" where
  "header_passed a r \<longleftrightarrow> ha_rc a \<noteq> NGX_ERROR \<and> ha_rc a \<le> NGX_OK \<and> \<not> ha_only a \<and> \<not> r_header_only r"

text \<open>The text of an error response; without a diagnostic, the HTML form leaves it to NGINX. It is sent
  if there is memory and the header passes. In any case, the client gets the status: with the header,
  or from NGINX, which makes the response for the code that the request is finalized with.\<close>

definition error_body :: "lws_fmt \<Rightarrow> nat \<Rightarrow> ngx_str \<Rightarrow> int \<Rightarrow> ngx_str" where
  "error_body F error_response diagnostic status =
     (if error_response \<noteq> LWS_ER_HTML then lws_json_text F diagnostic status
      else if diagnostic = [] then []
      else lws_html_pre F @ f_escape_html F diagnostic @ lws_html_epi)"

definition error_memory :: "nat \<Rightarrow> lws_error_answers \<Rightarrow> ngx_str \<Rightarrow> bool" where
  "error_memory error_response ans diagnostic \<longleftrightarrow> (diagnostic \<noteq> [] \<longrightarrow> ea_dia ans) \<and> ea_push ans \<and> ea_chain ans \<and>
     (error_response \<noteq> LWS_ER_HTML \<longrightarrow> ea_start ans)"

definition error_outcome ::
  "lws_fmt \<Rightarrow> nat \<Rightarrow> lws_error_answers \<Rightarrow> ngx_str \<Rightarrow> int \<Rightarrow> 'a ngx_request_scheme \<Rightarrow> 'a ngx_request_scheme \<Rightarrow> bool" where
  "error_outcome F error_response ans diagnostic status r r' \<longleftrightarrow>
     r_out r' = r_out r @
       (if \<not> no_body r status \<and> error_memory error_response ans diagnostic \<and> header_passed (ea_header ans) r
        then error_body F error_response diagnostic status else []) \<and>
     (r_status r' = status \<or> r_final r' = r_final r @ [status])"

lemma error_outcome_sent:
  "error_outcome F error_response ans diagnostic status r
     (lws_send_error_response F error_response ans diagnostic status r)"
  unfolding error_outcome_def lws_send_error_response_def lws_send_json_error_response_def
    lws_send_html_error_response_def no_body_def error_memory_def header_passed_def error_body_def
  by (auto simp: ngx_http_finalize_request_def ngx_http_send_header_def ngx_http_output_filter_def LWS_ER_JSON_def
      LWS_ER_HTML_def Let_def)

lemma error_response_frame:
  fixes F er a d status and r :: "'a ngx_request_scheme"
  defines "r' \<equiv> lws_send_error_response F er a d status r"
  shows "ngx_request.more r' = ngx_request.more r" "\<exists>hs. r_headers r' = r_headers r @ hs"
  unfolding r'_def
  by (auto simp: lws_send_error_response_def lws_send_json_error_response_def lws_send_html_error_response_def
      ngx_http_finalize_request_def ngx_http_send_header_def ngx_http_output_filter_def Let_def)

text \<open>The response that Lua made: status, headers and body as Lua set them. An empty body of a main
  response is announced as such.\<close>

definition lua_outcome :: "lws_final_answers \<Rightarrow> (ngx_str \<times> ngx_str) list \<Rightarrow> lws_stream \<Rightarrow> lws_stream \<Rightarrow> bool" where
  "lua_outcome ans lines x y \<longleftrightarrow>
     (if \<not> fa_fflush ans then r_out y = r_out x \<and> r_final y = r_final x @ [NGX_HTTP_INTERNAL_SERVER_ERROR]
      else r_status y = x_status x \<and> r_headers y = lines \<and>
        (if x_body x \<noteq> [] \<and> \<not> no_body x (x_status x) \<and> header_passed (fa_header ans) x \<and> fa_buf ans
         then r_out y = r_out x @ x_body x \<and> r_final y = r_final x @ [fa_output ans]
         else r_out y = r_out x \<and> (x_body x \<noteq> [] \<longrightarrow> r_final y = r_final x @ [ha_rc (fa_header ans)])) \<and>
        (x_body x = [] \<and> r_main x \<and> \<not> no_body x (x_status x) \<and> x_status x \<ge> NGX_HTTP_OK \<longrightarrow>
          r_content_length y = Some 0 \<and> r_header_only y))"

lemma lua_outcome_sent: "lua_outcome ans (r_headers x) x (lws_send_response ans x)"
  unfolding lua_outcome_def lws_send_response_def no_body_def header_passed_def
  by (auto simp: ngx_http_finalize_request_def ngx_http_send_header_def ngx_http_output_filter_def Let_def)

lemma send_response_ok:
  "response_ok x (lws_send_response ans x)" "x_internal (lws_send_response ans x) = x_internal x"
  "x_named (lws_send_response ans x) = x_named x"
  by (auto simp: lws_send_response_def response_defs Let_def)

text \<open>The outcome for each result of the Lua code. Without a redirect, the response headers of Lua are set
  first, which needs memory for each of them.\<close>

definition final_outcome ::
  "lws_env \<Rightarrow> lws_fmt \<Rightarrow> nat \<Rightarrow> lws_final_answers \<Rightarrow> lws_stream \<Rightarrow> lws_stream \<Rightarrow> bool" where
  "final_outcome E F error_response ans x y \<longleftrightarrow>
     (let lines = r_headers x @ all_lines E (lru_items (lws_table_abs (x_headers x))) in
      if x_rc x < 0 then
        error_outcome F error_response (fa_error ans) (x_diagnostic x) NGX_HTTP_INTERNAL_SERVER_ERROR x y \<and>
        x_internal y = x_internal x \<and> x_named y = x_named x
      else if x_redirect x \<noteq> [] then
        r_out y = r_out x \<and> r_final y = r_final x @ [fa_redirect ans] \<and>
        (if hd (x_redirect x) = 64 then x_named y = Some (tl (x_redirect x)) \<and> x_internal y = x_internal x
         else x_internal y = Some (x_redirect x, x_redirect_args x) \<and> x_named y = x_named x)
      else x_internal y = x_internal x \<and> x_named y = x_named x \<and>
        ((\<exists>n. \<not> fa_push ans n) \<and> r_out y = r_out x \<and> r_final y = r_final x @ [NGX_HTTP_INTERNAL_SERVER_ERROR] \<or>
         (if x_rc x = 0 then lua_outcome ans lines x y
          else error_outcome F error_response (fa_error ans) (x_diagnostic x) (final_status (x_rc x)) x y \<and>
            (\<exists>hs. r_headers y = lines @ hs))))"

section \<open>The decisions of the handler\<close>

lemma more_redirect: "ngx_request.more z = ngx_request.more x \<Longrightarrow> x_internal z = x_internal x \<and> x_named z = x_named x"
  by (cases z, cases x) simp

lemma finalize_call:
  "r_final y = r_final x \<Longrightarrow> r_out y = r_out x \<Longrightarrow> response_ok x (ngx_http_finalize_request rc y)"
  "r_out (ngx_http_finalize_request rc y) = r_out y" "r_final (ngx_http_finalize_request rc y) = r_final y @ [rc]"
  "x_internal (ngx_http_finalize_request rc z) = x_internal z"
  "x_named (ngx_http_finalize_request rc z) = x_named z"
  by (simp_all add: response_ok_def ngx_http_finalize_request_def)

text \<open>For a request \<open>x\<close> that is \<open>w\<close> once streaming is dealt with.\<close>

definition unstreamed_response ::
  "lws_env \<Rightarrow> (ngx_str \<Rightarrow> int) \<Rightarrow> lws_fmt \<Rightarrow> nat \<Rightarrow> lws_final_answers \<Rightarrow> lws_stream \<Rightarrow> lws_stream" where
  "unstreamed_response E parse_time F error_response ans w =
     (if x_rc w < 0 then
        lws_send_error_response F error_response (fa_error ans) (x_diagnostic w)
          NGX_HTTP_INTERNAL_SERVER_ERROR w
      else if x_redirect w \<noteq> [] then
        if hd (x_redirect w) \<noteq> 64 then
          ngx_http_finalize_request (fa_redirect ans)
            (w\<lparr>x_internal := Some (x_redirect w, x_redirect_args w)\<rparr>)
        else ngx_http_finalize_request (fa_redirect ans) (w\<lparr>x_named := Some (tl (x_redirect w))\<rparr>)
      else
        let (rc, z) = the (lws_set_response_header E (fa_push ans) parse_time (x_headers w) w) in
        if rc \<noteq> NGX_OK then ngx_http_finalize_request NGX_HTTP_INTERNAL_SERVER_ERROR z
        else if x_rc z > 0 then
          lws_send_error_response F error_response (fa_error ans) (x_diagnostic z)
            (final_status (x_rc z)) z
        else lws_send_response ans z)"

lemma finalization_branches:
  assumes "\<not> x_conn x" "\<not> r_header_sent x" "x_streaming_rc x = NGX_OK"
  obtains w where "w = x\<lparr>x_lua := False, x_pipe1 := False\<rparr>"
    "lws_finalization_response E parse_time F error_response ans x = unstreamed_response E parse_time F error_response ans w"
proof (rule that [OF refl])
  have "lws_finalize_streaming ans x = x\<lparr>x_lua := False, x_pipe1 := False\<rparr>"
    using assms by (simp add: finalize_streaming_check lws_check_streaming_def)
  then show "lws_finalization_response E parse_time F error_response ans x =
      unstreamed_response E parse_time F error_response ans (x\<lparr>x_lua := False, x_pipe1 := False\<rparr>)"
    using assms by (simp add: lws_finalization_response_def unstreamed_response_def final_status_def Let_def hd_conv_nth
        split: prod.split)
qed

text \<open>The outcome depends on what the handler's first steps leave as they are.\<close>

definition same_reply :: "lws_stream \<Rightarrow> lws_stream \<Rightarrow> bool" where
  "same_reply x z \<longleftrightarrow> r_main z = r_main x \<and> r_head z = r_head x \<and> r_header_only z = r_header_only x \<and>
     r_out z = r_out x \<and> r_final z = r_final x \<and> x_rc z = x_rc x \<and> x_status z = x_status x \<and> x_body z = x_body x \<and>
     x_diagnostic z = x_diagnostic x \<and> x_internal z = x_internal x \<and> x_named z = x_named x"

lemma same_reply_predicates:
  "same_reply x z \<Longrightarrow> no_body z = no_body x" "same_reply x z \<Longrightarrow> header_passed a z = header_passed a x"
  by (simp_all add: same_reply_def no_body_def header_passed_def fun_eq_iff)

lemma error_outcome_cong: "same_reply x z \<Longrightarrow> error_outcome F er a d status z y = error_outcome F er a d status x y"
  by (simp add: error_outcome_def same_reply_predicates) (simp add: same_reply_def)

lemma lua_outcome_cong: "same_reply x z \<Longrightarrow> lua_outcome ans lines z y = lua_outcome ans lines x y"
  by (simp add: lua_outcome_def same_reply_predicates) (simp add: same_reply_def)

lemma response_ok_cong: "same_reply x z \<Longrightarrow> response_ok z y = response_ok x y"
  by (simp add: same_reply_def response_ok_def)

lemmas reply_cong = error_outcome_cong lua_outcome_cong response_ok_cong

lemma error_reply:
  fixes er a
  assumes "same_reply x z" "fmt_ok F" "100 \<le> status" "status < 1000"
  defines "y \<equiv> lws_send_error_response F er a (x_diagnostic z) status z"
  shows "response_ok x y" "error_outcome F er a (x_diagnostic x) status x y"
    "x_internal y = x_internal x" "x_named y = x_named x" "\<exists>hs. r_headers y = r_headers z @ hs"
proof -
  have more: "x_internal y = x_internal z" "x_named y = x_named z"
    using error_response_frame(1) [of F er a "x_diagnostic z" status z] by (auto dest: more_redirect simp: y_def)
  have dia: "x_diagnostic x = x_diagnostic z" using assms(1) by (simp add: same_reply_def)
  show "response_ok x y" "error_outcome F er a (x_diagnostic x) status x y"
    using error_response_ok [OF assms(2-4)] error_outcome_sent [of F er a "x_diagnostic z" status z] assms(1)
    by (simp_all add: y_def dia reply_cong [OF assms(1), symmetric])
  show "x_internal y = x_internal x" "x_named y = x_named x" "\<exists>hs. r_headers y = r_headers z @ hs"
    using more assms(1) error_response_frame(2) [of F er a "x_diagnostic z" status z] by (simp_all add: y_def same_reply_def)
qed

lemma unstreamed_outcome:
  fixes parse_time er ans
  assumes "table_wf E (x_headers x)" "strncasecmp_ok E" "fmt_ok F"
  defines "y \<equiv> unstreamed_response E parse_time F er ans x"
  shows "response_ok x y \<and> final_outcome E F er ans x y"
proof -
  have refl: "same_reply x x" by (simp add: same_reply_def)
  consider (error) "x_rc x < 0" | (redirect) "x_rc x \<ge> 0" "x_redirect x \<noteq> []" | (reply) "x_rc x \<ge> 0" "x_redirect x = []"
    by fastforce
  then show ?thesis
  proof cases
    case error
    with error_reply [OF refl assms(3), of 500 er "fa_error ans"] show ?thesis
      by (simp add: y_def unstreamed_response_def final_outcome_def)
  next
    case redirect
    then show ?thesis by (simp add: y_def unstreamed_response_def final_outcome_def finalize_call)
  next
    case reply
    obtain rc z where z: "the (lws_set_response_header E (fa_push ans) parse_time (x_headers x) x) = (rc, z)"
      "request_frame z x" "(\<And>n. fa_push ans n) \<Longrightarrow> rc = NGX_OK"
      "rc = NGX_OK \<Longrightarrow> r_headers z = r_headers x @ all_lines E (lru_items (lws_table_abs (x_headers x)))"
      using set_header_frame [OF assms(1,2), where push = "fa_push ans" and parse_time = parse_time and r = x] by metis
    have same: "same_reply x z"
      using request_frame_keeps [OF z(2)] more_eq [of z x] more_redirect [of z x] by (simp add: same_reply_def)
    then have rc: "x_rc z = x_rc x" "r_out z = r_out x" "r_final z = r_final x" "x_internal z = x_internal x" "x_named z = x_named x"
      by (simp_all add: same_reply_def)
    have y: "y = (if rc \<noteq> NGX_OK then ngx_http_finalize_request NGX_HTTP_INTERNAL_SERVER_ERROR z
        else if x_rc x > 0 then lws_send_error_response F er (fa_error ans) (x_diagnostic z) (final_status (x_rc x)) z
        else lws_send_response ans z)"
      using reply z(1) rc(1) by (simp add: y_def unstreamed_response_def)
    note sent = send_response_ok [where x = z and ans = ans, unfolded rc response_ok_cong [OF same]]
      lua_outcome_sent [of ans z, unfolded lua_outcome_cong [OF same]]
    note err = error_reply [OF same assms(3) final_status_bounds, of er "fa_error ans"]
    from reply z(3,4) rc sent err show ?thesis
      by (auto simp: y final_outcome_def finalize_call Let_def)
  qed
qed

lemma outcome_cong:
  assumes "x' = x\<lparr>x_lua := False, x_pipe1 := False\<rparr>"
  shows "final_outcome E F er ans x' y = final_outcome E F er ans x y" "response_ok x' y = response_ok x y"
proof -
  have "same_reply x x'" by (simp add: assms same_reply_def)
  from reply_cong [OF this] show "final_outcome E F er ans x' y = final_outcome E F er ans x y" "response_ok x' y = response_ok x y"
    by (simp_all add: final_outcome_def assms)
qed

lemma finalization_unstreamed:
  fixes parse_time er ans
  assumes "table_wf E (x_headers x)" "strncasecmp_ok E" "fmt_ok F"
    and "\<not> x_conn x" "\<not> r_header_sent x" "x_streaming_rc x = NGX_OK"
  defines "y \<equiv> lws_finalization_response E parse_time F er ans x"
  shows "response_ok x y \<and> final_outcome E F er ans x y"
proof -
  obtain w where w: "w = x\<lparr>x_lua := False, x_pipe1 := False\<rparr>" "y = unstreamed_response E parse_time F er ans w"
    unfolding y_def by (rule finalization_branches [OF assms(4-6)])
  then have "table_wf E (x_headers w)" using assms(1) by simp
  from unstreamed_outcome [OF this assms(2,3)] show ?thesis
    unfolding w(2) outcome_cong [OF w(1)] .
qed

text \<open>C26: The response of a request that did not stream. It is finalized exactly once, and a body that is
  sent is as long as announced. If Lua returned 0 and asked for no redirect, the response has the
  status and the headers that Lua set, and its body is the one that Lua wrote; only a HEAD request, a
  status without a body, a header that the filters of NGINX turn down, or an allocation or a flush that
  fails can suppress it. If Lua failed, the client gets an error with status 500; if Lua returned another number, an error
  with that number as its status, or 500 if it is none, along with the headers that Lua set. An error has the
  text of the location's format, unless one of the same reasons suppresses it. A redirect goes to the
  location with the arguments, or to the name after the @, that Lua gave, and sends nothing.\<close>

theorem lws_finalization_correct:
  fixes parse_time error_response ans
  assumes "table_wf E (x_headers x)" "strncasecmp_ok E" "fmt_ok F"
    and "\<not> x_conn x" "\<not> r_header_sent x" "x_streaming_rc x = NGX_OK"
  defines "y \<equiv> lws_finalization_response E parse_time F error_response ans x"
  shows "response_ok x y \<and> final_outcome E F error_response ans x y"
  unfolding y_def by (rule finalization_unstreamed [OF assms(1-6)])

definition demo_done :: lws_stream where
  "demo_done = demo_stream\<lparr>x_conn := False, x_pipe0 := False, x_pipe1 := False,
     x_body := lit ''Hello''\<rparr>"

theorem lws_finalization_correct_witness:
  "let y = lws_finalization_response demo_env (\<lambda>_. 0) demo_fmt LWS_ER_JSON demo_fa demo_done in
   r_final y = [NGX_OK] \<and> r_out y = lit ''Hello'' \<and> r_status y = 200 \<and> r_content_length y = Some 5"
proof -
  have d: "x_headers demo_done = demo_resp" "\<not> x_conn demo_done" "\<not> r_header_sent demo_done"
    "x_streaming_rc demo_done = NGX_OK" "r_out demo_done = []" "r_final demo_done = []"
    "x_rc demo_done = 0" "x_redirect demo_done = []" "x_body demo_done = lit ''Hello''"
    "x_status demo_done = 200" "\<not> no_body demo_done 200" "header_passed (fa_header demo_fa) demo_done"
    by (simp_all add: demo_done_def demo_stream_defs no_body_def header_passed_def demo_fa_def)
  have "table_wf demo_env (x_headers demo_done)" by (simp add: d demo_resp_wf)
  from lws_finalization_correct [OF this demo_env_ok demo_fmt_ok d(2-4),
      where parse_time = "\<lambda>_. 0" and error_response = LWS_ER_JSON and ans = demo_fa] d
  show ?thesis by (simp add: Let_def response_ok_def final_outcome_def lua_outcome_def lit_def demo_fa_def)
qed

end
