(* ===== verification/LwsState.thy ===== *)
theory LwsState
  imports LwsPrelude
begin

text \<open>
  The Lua states of src/lws_state.c: the accounting allocator, creation, closing, acquisition, release
  and execution of a state, and the timer of a state.

  Representation. A \<open>lws_state_t\<close> is a record. It is owned by exactly one place at a time, the queue of
  inactive states of its location or the request that uses it, so it is passed by value. The fields of
  \<open>lws_loc_conf_t\<close> and \<open>lws_main_conf_t\<close> that the operations read and write, and the counters of the shared
  \<open>lws_monitor_t\<close>, are a record each; \<open>ngx_uint_t\<close>, \<open>size_t\<close>, \<open>ngx_msec_t\<close> and \<open>ngx_atomic_t\<close> are
  64-bit words whose arithmetic wraps. What the code asks of NGINX and of Lua (does an allocation
  succeed, does \<open>lua_newstate\<close>, what does \<open>lua_pcall\<close> return, how much memory does \<open>lua_gc\<close> report) is
  an argument of the operation that asks. States given to \<open>lws_close_state\<close> and blocks that nobody
  can free any more are logged in \<open>w_closed\<close> and \<open>w_leaked\<close>.
\<close>

type_synonym size_t = "64 word"

type_synonym ngx_msec = "64 word"

definition NGX_TIMER_INFINITE :: ngx_msec where
  "NGX_TIMER_INFINITE = - 1"

section \<open>Allocators\<close>

text \<open>The memory behind \<open>realloc\<close> and \<open>free\<close>: a map from the live blocks to their sizes; \<open>0\<close> is the
  NULL pointer. \<open>fresh\<close> is the address that a successful \<open>realloc\<close> returns, \<open>0\<close> if it fails.\<close>

type_synonym ptr = nat

type_synonym heap = "ptr \<rightharpoonup> size_t"

definition c_free :: "ptr \<Rightarrow> heap \<Rightarrow> heap" where
  "c_free p h = (if p = 0 then h else h(p := None))"

definition c_realloc :: "ptr \<Rightarrow> size_t \<Rightarrow> ptr \<Rightarrow> heap \<Rightarrow> ptr \<times> heap" where
  "c_realloc p n fresh h =
     (if fresh = 0 then (0, h) else (fresh, (c_free p h)(fresh \<mapsto> n)))"

definition lws_alloc_unchecked ::
  "ptr \<Rightarrow> size_t \<Rightarrow> size_t \<Rightarrow> ptr \<Rightarrow> heap \<Rightarrow> ptr \<times> heap" where
  "lws_alloc_unchecked p osize nsize fresh h =
     (if nsize = 0 then (0, c_free p h) else c_realloc p nsize fresh h)"

text \<open>\<open>lua_52\<close> stands for the preprocessor test \<open>LUA_VERSION_NUM >= 502\<close>: from Lua 5.2 on, \<open>osize\<close>
  codes the kind of object if \<open>p\<close> is NULL. The state is what the allocator reads and writes of
  \<open>lws_state_t\<close>: the used memory and the maximum.\<close>

definition lws_alloc_checked ::
  "bool \<Rightarrow> size_t \<Rightarrow> ptr \<Rightarrow> size_t \<Rightarrow> size_t \<Rightarrow> ptr \<Rightarrow> size_t \<times> heap \<Rightarrow> ptr \<times> size_t \<times> heap" where
  "lws_alloc_checked lua_52 memory_max p osize nsize fresh mh =
     (let (memory_used, h) = mh;
          osize = (if lua_52 \<and> p = 0 then 0 else osize) in
      if nsize = 0 then (0, memory_used - osize, c_free p h)
      else
        let memory_used' = memory_used - osize + nsize in
        if memory_used' > memory_max then (0, memory_used, h)
        else
          let (p', h') = c_realloc p nsize fresh h in
          (p', if p' \<noteq> 0 then memory_used' else memory_used, h'))"

section \<open>Data\<close>

record lws_state =
  s_memory_used :: size_t
  s_memory_max :: size_t
  s_memory_monitor :: size_t
  s_request_count :: int
  s_time_max :: ngx_msec
  s_timeout :: ngx_msec
  s_tev :: "ngx_msec option"
  s_timedout :: bool
  s_in_use :: bool
  s_init :: bool
  s_close :: bool
  s_profiler :: "2 word"

record lws_monitor =
  m_states_n :: "64 word"
  m_requests_n :: "64 word"
  m_memory_used :: "64 word"
  m_request_count :: "64 word"
  m_profiler :: "64 word"

record lws_request_ctx =
  c_id :: nat
  c_rc :: int
  c_diagnostic :: ngx_str

record lws_loc_conf =
  l_path :: ngx_str
  l_cpath :: ngx_str
  l_states_max :: size_t
  l_requests_max :: size_t
  l_state_memory_max :: size_t
  l_state_gc :: size_t
  l_state_requests_max :: int
  l_state_time_max :: ngx_msec
  l_state_timeout :: ngx_msec
  l_diagnostic :: bool
  l_states_n :: "64 word"
  l_states :: "lws_state list"
  l_requests_n :: "64 word"
  l_requests :: "lws_request_ctx list"
  l_qev :: bool

record lws_world =
  w_llcf :: lws_loc_conf
  w_monitor :: "lws_monitor option"
  w_closed :: "lws_state list"
  w_leaked :: nat

text \<open>\<open>ngx_atomic_fetch_add\<close> on a counter of the monitor, if there is a monitor.\<close>

definition monitor_add :: "((64 word \<Rightarrow> 64 word) \<Rightarrow> lws_monitor \<Rightarrow> lws_monitor) \<Rightarrow> 64 word \<Rightarrow>
    lws_world \<Rightarrow> lws_world" where
  "monitor_add upd n w = w\<lparr>w_monitor := map_option (upd (\<lambda>x. x + n)) (w_monitor w)\<rparr>"

definition zero_state :: lws_state where
  "zero_state = \<lparr>s_memory_used = 0, s_memory_max = 0, s_memory_monitor = 0, s_request_count = 0,
     s_time_max = 0, s_timeout = 0, s_tev = None, s_timedout = False, s_in_use = False,
     s_init = False, s_close = False, s_profiler = 0\<rparr>"

section \<open>Timer\<close>

text \<open>\<open>s_tev\<close> is the time at which the timer of the state expires, if it is set: a timer added with
  \<open>delay\<close> expires at \<open>now + delay\<close>, in the wrapping arithmetic of \<open>ngx_msec_t\<close>.\<close>

definition lws_set_state_timer :: "ngx_msec \<Rightarrow> lws_state \<Rightarrow> lws_state" where
  "lws_set_state_timer now state =
     (let state = (if s_tev state \<noteq> None then state\<lparr>s_tev := None\<rparr> else state) in
      if s_time_max state \<noteq> NGX_TIMER_INFINITE \<or> s_timeout state \<noteq> NGX_TIMER_INFINITE then
        let next_msec = (if s_timeout state < s_time_max state then s_timeout state
                         else s_time_max state) in
        state\<lparr>s_tev := Some (now + (next_msec - now))\<rparr>
      else state)"

section \<open>Create and close\<close>

record lws_create_answers =
  a_calloc :: bool
  a_newstate :: bool
  a_init :: bool
  a_memory :: size_t

definition lws_close_state :: "ngx_msec \<Rightarrow> lws_state \<Rightarrow> lws_world \<Rightarrow> lws_world" where
  "lws_close_state now state w =
     (let state = lws_set_state_timer now
            (state\<lparr>s_time_max := NGX_TIMER_INFINITE, s_timeout := NGX_TIMER_INFINITE\<rparr>);
          w = w\<lparr>w_llcf := (w_llcf w)\<lparr>l_states_n := l_states_n (w_llcf w) - 1\<rparr>\<rparr>;
          w = monitor_add m_states_n_update (- 1) w;
          w = monitor_add m_memory_used_update (0 - s_memory_monitor state) w
      in w\<lparr>w_closed := w_closed w @ [state]\<rparr>)"

text \<open>\<open>a_memory\<close> is the memory that the checked allocator accounts for after initialization.\<close>

definition lws_create_state ::
  "lws_create_answers \<Rightarrow> ngx_msec \<Rightarrow> lws_world \<Rightarrow> lws_state option \<times> lws_world" where
  "lws_create_state ans now w =
     (let llcf = w_llcf w in
      if \<not> a_calloc ans then (None, w)
      else
        let state = zero_state;
            state = (if l_state_memory_max llcf > 0
                     then state\<lparr>s_memory_max := l_state_memory_max llcf\<rparr> else state) in
        if \<not> a_newstate ans then (None, w\<lparr>w_leaked := w_leaked w + 1\<rparr>)
        else
          let state = (if l_state_memory_max llcf > 0
                       then state\<lparr>s_memory_used := a_memory ans\<rparr> else state) in
          if \<not> a_init ans then (None, lws_close_state now state w)
          else
            let state = (if l_state_time_max llcf \<noteq> 0
                         then state\<lparr>s_time_max := now + l_state_time_max llcf\<rparr>
                         else state\<lparr>s_time_max := NGX_TIMER_INFINITE\<rparr>);
                state = lws_set_state_timer now (state\<lparr>s_timeout := NGX_TIMER_INFINITE\<rparr>);
                w = w\<lparr>w_llcf := llcf\<lparr>l_states_n := l_states_n llcf + 1\<rparr>\<rparr>;
                w = monitor_add m_states_n_update 1 w
            in (Some state, w))"

section \<open>Acquire, release, run\<close>

definition lws_acquire_state ::
  "lws_create_answers \<Rightarrow> ngx_msec \<Rightarrow> lws_world \<Rightarrow> lws_state option \<times> lws_world" where
  "lws_acquire_state ans now w =
     (let llcf = w_llcf w;
          (st, w) = (case l_states llcf of
              state # states \<Rightarrow>
                (Some (if l_state_timeout llcf > 0
                       then lws_set_state_timer now (state\<lparr>s_timeout := NGX_TIMER_INFINITE\<rparr>)
                       else state),
                 w\<lparr>w_llcf := llcf\<lparr>l_states := states\<rparr>\<rparr>)
            | [] \<Rightarrow> lws_create_state ans now w) in
      case st of
        None \<Rightarrow> (None, w)
      | Some state \<Rightarrow>
          (Some (state\<lparr>s_profiler := (case w_monitor w of
                          Some m \<Rightarrow> ucast (m_profiler m) | None \<Rightarrow> 0),
                       s_in_use := True\<rparr>), w))"

text \<open>\<open>used\<close> is the memory that \<open>lua_gc\<close> reports, \<open>collected\<close> the memory in use after a collection,
  which \<open>lua_gc\<close> reports if allocation is unchecked and the checked allocator has counted if not.\<close>

definition lws_release_state ::
  "size_t \<Rightarrow> size_t \<Rightarrow> ngx_msec \<Rightarrow> lws_state \<Rightarrow> lws_world \<Rightarrow> lws_world" where
  "lws_release_state used collected now state w =
     (let state = state\<lparr>s_request_count := s_request_count state + 1\<rparr>;
          w = monitor_add m_request_count_update 1 w;
          llcf = w_llcf w in
      if s_close state \<or> s_timedout state \<or>
         (l_state_requests_max llcf > 0 \<and> s_request_count state \<ge> l_state_requests_max llcf)
      then lws_close_state now state w
      else
        let state = (if l_state_memory_max llcf = 0 \<and> (l_state_gc llcf > 0 \<or> w_monitor w \<noteq> None)
                     then state\<lparr>s_memory_used := used\<rparr> else state);
            state = (if l_state_gc llcf > 0 \<and> s_memory_used state > l_state_gc llcf
                     then state\<lparr>s_memory_used := collected\<rparr> else state);
            w = monitor_add m_memory_used_update (s_memory_used state - s_memory_monitor state) w;
            state = (if w_monitor w \<noteq> None then state\<lparr>s_memory_monitor := s_memory_used state\<rparr>
                     else state);
            state = (if l_state_timeout llcf > 0
                     then lws_set_state_timer now (state\<lparr>s_timeout := now + l_state_timeout llcf\<rparr>)
                     else state);
            state = state\<lparr>s_in_use := False\<rparr>
        in w\<lparr>w_llcf := (w_llcf w)\<lparr>l_states := state # l_states (w_llcf w)\<rparr>\<rparr>)"

text \<open>The result of the protected call of \<open>lws_run\<close>: the integer it returned, which the code narrows
  from \<open>lua_Integer\<close> to \<open>int\<close>, or the error message.\<close>

definition lws_run_state ::
  "ngx_str + 64 word \<Rightarrow> bool \<Rightarrow> lws_loc_conf \<Rightarrow> lws_state \<Rightarrow> lws_request_ctx \<Rightarrow>
   int \<times> lws_state \<times> lws_request_ctx" where
  "lws_run_state pcall alloc_ok llcf state ctx =
     (case pcall of
        Inr r \<Rightarrow> (sint (ucast r :: 32 word), state, ctx)
      | Inl msg \<Rightarrow>
          let state = state\<lparr>s_close := True\<rparr> in
          if \<not> l_diagnostic llcf then (-1, state, ctx)
          else if \<not> alloc_ok then (-1, state, ctx)
          else (-1, state, ctx\<lparr>c_diagnostic := msg\<rparr>))"

text \<open>The timer of a state that is not in use closes it; \<open>i\<close> is the position of the state in the queue
  of inactive states. The timer of a state in use has no effect but the flag that
  \<open>lws_release_state\<close> reads.\<close>

definition lws_state_timer_handler :: "ngx_msec \<Rightarrow> nat \<Rightarrow> lws_world \<Rightarrow> lws_world" where
  "lws_state_timer_handler now i w =
     (let llcf = w_llcf w; state = l_states llcf ! i in
      if \<not> s_in_use state then
        lws_close_state now state
          (w\<lparr>w_llcf := llcf\<lparr>l_states := take i (l_states llcf) @ drop (Suc i) (l_states llcf)\<rparr>\<rparr>)
      else w)"

section \<open>Accounting of memory\<close>

text \<open>The allocator's books are right: the used memory is the sum of the sizes of the live blocks.\<close>

definition heap_size :: "heap \<Rightarrow> nat" where
  "heap_size h = (\<Sum>p\<in>dom h. unat (the (h p)))"

definition heap_ok :: "size_t \<Rightarrow> size_t \<times> heap \<Rightarrow> bool" where
  "heap_ok memory_max mh \<longleftrightarrow> finite (dom (snd mh)) \<and> snd mh 0 = None \<and>
     unat (fst mh) = heap_size (snd mh) \<and> fst mh \<le> memory_max"

text \<open>What Lua promises of a call of its allocator, a block is passed with its size, and what the C
  library promises: a new block is not live, and the live blocks fit into the address space.\<close>

definition alloc_call_ok :: "bool \<Rightarrow> ptr \<Rightarrow> size_t \<Rightarrow> size_t \<Rightarrow> ptr \<Rightarrow> heap \<Rightarrow> bool" where
  "alloc_call_ok lua_52 p osize nsize fresh h \<longleftrightarrow>
     (if p = 0 then lua_52 \<or> osize = 0 else h p = Some osize) \<and>
     (fresh = 0 \<or> (fresh = p \<or> h fresh = None) \<and>
        heap_size ((c_free p h)(fresh \<mapsto> nsize)) < 2 ^ 64)"

lemma heap_size_remove:
  assumes "finite (dom h)" "h p = Some n"
  shows "heap_size h = unat n + heap_size (h(p := None))"
proof -
  have "p \<in> dom h" using assms(2) by blast
  from sum.remove [OF assms(1) this, of "\<lambda>p. unat (the (h p))"] assms(2)
  have "heap_size h = unat n + (\<Sum>q\<in>dom h - {p}. unat (the (h q)))" by (simp add: heap_size_def)
  also have "(\<Sum>q\<in>dom h - {p}. unat (the (h q))) = heap_size (h(p := None))"
    unfolding heap_size_def by (intro sum.cong) auto
  finally show ?thesis .
qed

lemma heap_size_insert:
  assumes "finite (dom h)" "h p = None"
  shows "heap_size (h(p \<mapsto> n)) = unat n + heap_size h"
proof -
  have "(h(p \<mapsto> n))(p := None) = h" using assms(2) by (simp add: fun_upd_idem)
  with heap_size_remove [of "h(p \<mapsto> n)" p n] assms(1) show ?thesis by simp
qed

lemma c_free_props:
  assumes "finite (dom h)" "h 0 = None"
  shows "finite (dom (c_free p h))" "c_free p h 0 = None" "c_free p h p = None"
    "heap_size h = (case h p of Some n \<Rightarrow> unat n | None \<Rightarrow> 0) + heap_size (c_free p h)"
  using assms heap_size_remove [of h p]
  by (auto simp: c_free_def fun_upd_idem split: option.split)

lemma alloc_checked_free:
  assumes ok: "heap_ok mm (mu, h)" and call: "alloc_call_ok lua_52 p osize 0 fresh h"
  shows "\<exists>mu'. lws_alloc_checked lua_52 mm p osize 0 fresh (mu, h) = (0, mu', c_free p h) \<and>
    heap_ok mm (mu', c_free p h)"
proof -
  let ?o = "if lua_52 \<and> p = 0 then 0 else osize"
  from ok have h: "finite (dom h)" "h 0 = None" "unat mu = heap_size h" "mu \<le> mm"
    by (auto simp: heap_ok_def)
  have size: "heap_size h = unat ?o + heap_size (c_free p h)"
    using c_free_props(4) [OF h(1,2), of p] call h(2)
    by (auto simp: alloc_call_ok_def split: if_splits)
  then have "?o \<le> mu" using h(3) by (simp add: word_le_nat_alt)
  then have "unat (mu - ?o) = heap_size (c_free p h)" "mu - ?o \<le> mm"
    using size h(3,4) by (auto simp: unat_sub word_le_nat_alt)
  with c_free_props [OF h(1,2)] show ?thesis
    by (simp add: lws_alloc_checked_def Let_def heap_ok_def)
qed

lemma alloc_checked_size:
  assumes ok: "heap_ok mm (mu, h)" and call: "alloc_call_ok lua_52 p osize nsize fresh h"
    and n: "nsize \<noteq> 0"
  defines "mu' \<equiv> mu - (if lua_52 \<and> p = 0 then 0 else osize) + nsize"
  shows "lws_alloc_checked lua_52 mm p osize nsize fresh (mu, h) =
      (if mm < mu' \<or> fresh = 0 then (0, mu, h)
       else (fresh, mu', (c_free p h)(fresh \<mapsto> nsize)))"
    "fresh \<noteq> 0 \<Longrightarrow> unat mu' = heap_size ((c_free p h)(fresh \<mapsto> nsize))"
    "fresh \<noteq> 0 \<Longrightarrow> mu' \<le> mm \<Longrightarrow> heap_ok mm (mu', (c_free p h)(fresh \<mapsto> nsize))"
proof -
  let ?o = "if lua_52 \<and> p = 0 then 0 else osize"
  from ok have h: "finite (dom h)" "h 0 = None" "unat mu = heap_size h"
    by (auto simp: heap_ok_def)
  show "lws_alloc_checked lua_52 mm p osize nsize fresh (mu, h) =
      (if mm < mu' \<or> fresh = 0 then (0, mu, h)
       else (fresh, mu', (c_free p h)(fresh \<mapsto> nsize)))"
    using n by (auto simp: lws_alloc_checked_def c_realloc_def Let_def mu'_def)
  assume fresh: "fresh \<noteq> 0"
  let ?h' = "(c_free p h)(fresh \<mapsto> nsize)"
  have size: "heap_size h = unat ?o + heap_size (c_free p h)"
    using c_free_props(4) [OF h(1,2), of p] call h(2)
    by (auto simp: alloc_call_ok_def split: if_splits)
  have none: "c_free p h fresh = None"
    using call fresh c_free_props(3) [OF h(1,2), of p] by (auto simp: alloc_call_ok_def c_free_def)
  have size': "heap_size ?h' = unat nsize + heap_size (c_free p h)"
    by (rule heap_size_insert [OF c_free_props(1) [OF h(1,2)] none])
  moreover have "heap_size ?h' < 2 ^ 64" using call fresh by (simp add: alloc_call_ok_def)
  moreover have "unat (mu - ?o) = heap_size (c_free p h)"
    using size h(3) by (simp add: unat_sub word_le_nat_alt)
  ultimately show total: "unat mu' = heap_size ?h'"
    unfolding mu'_def by (subst unat_plus_if') simp
  assume "mu' \<le> mm"
  with total fresh c_free_props [OF h(1,2)] show "heap_ok mm (mu', ?h')" by (simp add: heap_ok_def)
qed

text \<open>C35: The checked allocator keeps its books, never exceeds the limit, and grants a request exactly
  if the C library has the memory and the live blocks then fit the limit; a refused request leaves
  memory and books as they were, and a size of zero frees the block.\<close>

theorem lws_alloc_checked_accounts:
  assumes "heap_ok mm (mu, h)" "alloc_call_ok lua_52 p osize nsize fresh h"
  shows "case lws_alloc_checked lua_52 mm p osize nsize fresh (mu, h) of (p', mh') \<Rightarrow>
    heap_ok mm mh' \<and>
    (if nsize = 0 then p' = 0 \<and> snd mh' = c_free p h
     else if fresh \<noteq> 0 \<and> heap_size ((c_free p h)(fresh \<mapsto> nsize)) \<le> unat mm
     then p' = fresh \<and> snd mh' = (c_free p h)(fresh \<mapsto> nsize)
     else p' = 0 \<and> mh' = (mu, h))"
proof (cases "nsize = 0")
  case True
  with alloc_checked_free [of mm mu h lua_52 p osize fresh] assms show ?thesis by auto
next
  case False
  note size = alloc_checked_size [OF assms False]
  show ?thesis
  proof (cases "fresh = 0")
    case True
    with assms(1) False show ?thesis unfolding size(1) by simp
  next
    case live: False
    define mu' where "mu' = mu - (if lua_52 \<and> p = 0 then 0 else osize) + nsize"
    have "mu' \<le> mm \<longleftrightarrow> heap_size ((c_free p h)(fresh \<mapsto> nsize)) \<le> unat mm"
      using size(2) [OF live, folded mu'_def] by (simp add: word_le_nat_alt)
    then show ?thesis
      using assms(1) False live size(3) [OF live, folded mu'_def] linorder_not_le [of mu' mm]
      unfolding size(1) [folded mu'_def]
      by (cases "mu' \<le> mm") (simp_all only: simp_thms if_True if_False prod.case fst_conv snd_conv)
  qed
qed

definition demo_heap :: heap where
  "demo_heap = [16 \<mapsto> 40, 64 \<mapsto> 24]"

lemma demo_heap_ok: "heap_ok 100 (64, demo_heap)"
  by (simp add: heap_ok_def heap_size_def demo_heap_def insert_commute)

theorem lws_alloc_checked_accounts_witness:
  "fst (lws_alloc_checked True 100 16 40 76 200 (64, demo_heap)) = 200 \<and>
   fst (lws_alloc_checked True 100 16 40 77 200 (64, demo_heap)) = 0"
proof -
  have new: "(c_free 16 demo_heap)(200 \<mapsto> n) = [64 \<mapsto> 24, 200 \<mapsto> n]" for n
    by (auto simp: c_free_def demo_heap_def)
  have "heap_size [64 \<mapsto> 24, 200 \<mapsto> n] = 24 + unat n" for n :: size_t
    by (simp add: heap_size_def)
  then have "alloc_call_ok True 16 40 76 200 demo_heap" "alloc_call_ok True 16 40 77 200 demo_heap"
    and size: "heap_size ((c_free 16 demo_heap)(200 \<mapsto> n)) = 24 + unat n" for n
    unfolding alloc_call_ok_def new by (simp_all add: demo_heap_def)
  from lws_alloc_checked_accounts [OF demo_heap_ok this(1)]
    lws_alloc_checked_accounts [OF demo_heap_ok this(2)]
  show ?thesis unfolding size by (auto split: prod.splits)
qed

text \<open>Lua assumes that its allocator does not fail when it shrinks a block: the limit never refuses
  that.\<close>

theorem lws_alloc_checked_shrinks:
  assumes "heap_ok mm (mu, h)" "alloc_call_ok lua_52 p osize nsize fresh h"
    and "p \<noteq> 0" "0 < nsize" "nsize \<le> osize" "fresh \<noteq> 0"
  shows "fst (lws_alloc_checked lua_52 mm p osize nsize fresh (mu, h)) = fresh"
proof -
  have n: "nsize \<noteq> 0" using assms(4) by auto
  have live: "h p = Some osize" using assms(2,3) by (simp add: alloc_call_ok_def)
  from assms(1) have h: "finite (dom h)" "h 0 = None" "unat mu = heap_size h" "mu \<le> mm"
    by (auto simp: heap_ok_def)
  have size: "heap_size h = unat osize + heap_size (c_free p h)"
    using c_free_props(4) [OF h(1,2), of p] live by simp
  have none: "c_free p h fresh = None"
    using assms(2,6) c_free_props(3) [OF h(1,2), of p] by (auto simp: alloc_call_ok_def c_free_def)
  have "heap_size ((c_free p h)(fresh \<mapsto> nsize)) = unat nsize + heap_size (c_free p h)"
    by (rule heap_size_insert [OF c_free_props(1) [OF h(1,2)] none])
  also have "\<dots> \<le> unat mm" using size h(3,4) assms(5) by (simp add: word_le_nat_alt)
  finally have "mu - (if lua_52 \<and> p = 0 then 0 else osize) + nsize \<le> mm"
    using alloc_checked_size(2) [OF assms(1,2) n assms(6)] by (simp add: word_le_nat_alt)
  with assms(6) show ?thesis unfolding alloc_checked_size(1) [OF assms(1,2) n] by auto
qed

theorem lws_alloc_checked_shrinks_witness:
  "fst (lws_alloc_checked True 64 16 40 8 16 (64, demo_heap)) = 16"
proof -
  have ok: "heap_ok 64 (64, demo_heap)"
    by (simp add: heap_ok_def heap_size_def demo_heap_def insert_commute)
  have "(c_free 16 demo_heap)(16 \<mapsto> 8) = [64 \<mapsto> 24, 16 \<mapsto> 8]"
    by (auto simp: c_free_def demo_heap_def)
  then have "alloc_call_ok True 16 40 8 16 demo_heap"
    unfolding alloc_call_ok_def by (simp add: demo_heap_def heap_size_def)
  from lws_alloc_checked_shrinks [OF ok this] show ?thesis by simp
qed

end

