(* ===== verification/LwsQueue.thy ===== *)
theory LwsQueue
  imports LwsState LwsHttp
begin

text \<open>
  The life of a request between its body and its response, from src/lws_module.c: a request takes an
  inactive Lua state or a new one, or waits in the queue of its location, or is refused; the Lua code
  runs in a thread; the finalization handler gives the state back and wakes the queue.

  The world of LwsState is extended with the posted thread tasks, each with the request and the state
  it uses, with the requests whose task is complete, and with the log of the requests finalized
  before a task ran. Events are handled one at a time by the worker process; only
  \<open>lws_thread_handler\<close> runs in another thread, on a request and a state that no handler touches
  meanwhile, so interleaving whole handlers loses nothing.
\<close>

section \<open>Handlers\<close>

record lws_answers =
  n_create :: lws_create_answers
  n_now :: ngx_msec
  n_used :: size_t
  n_collected :: size_t
  n_task_alloc :: bool
  n_task_post :: bool
  n_body :: bool
  n_body_stream :: bool

record lws_process =
  q_world :: lws_world
  q_active :: "(lws_request_ctx \<times> lws_state) list"
  q_done :: "lws_request_ctx list"
  q_final :: "(nat \<times> int) list"

abbreviation llcf_of :: "lws_process \<Rightarrow> lws_loc_conf" where
  "llcf_of q \<equiv> w_llcf (q_world q)"

definition finalize_request :: "lws_request_ctx \<Rightarrow> int \<Rightarrow> lws_process \<Rightarrow> lws_process" where
  "finalize_request ctx rc q = q\<lparr>q_final := q_final q @ [(c_id ctx, rc)]\<rparr>"

definition lws_state_handler ::
  "lws_answers \<Rightarrow> lws_request_ctx \<Rightarrow> lws_process \<Rightarrow> lws_process" where
  "lws_state_handler ans ctx q =
     (case lws_acquire_state (n_create ans) (n_now ans) (q_world q) of
        (None, w) \<Rightarrow> finalize_request ctx NGX_HTTP_INTERNAL_SERVER_ERROR (q\<lparr>q_world := w\<rparr>)
      | (Some state, w) \<Rightarrow>
          if \<not> n_task_alloc ans then
            finalize_request ctx NGX_HTTP_INTERNAL_SERVER_ERROR
              (q\<lparr>q_world := lws_release_state (n_used ans) (n_collected ans) (n_now ans) state w\<rparr>)
          else if \<not> n_task_post ans then
            finalize_request ctx NGX_HTTP_INTERNAL_SERVER_ERROR
              (q\<lparr>q_world := lws_release_state (n_used ans) (n_collected ans) (n_now ans) state w\<rparr>)
          else q\<lparr>q_world := w, q_active := q_active q @ [(ctx, state)]\<rparr>)"

text \<open>The test of \<open>lws_body_handler\<close> and of \<open>lws_queue_handler\<close>.\<close>

definition state_available :: "lws_loc_conf \<Rightarrow> bool" where
  "state_available llcf \<longleftrightarrow>
     l_states llcf \<noteq> [] \<or> l_states_max llcf = 0 \<or> l_states_n llcf < l_states_max llcf"

definition lws_body_handler ::
  "lws_answers \<Rightarrow> lws_request_ctx \<Rightarrow> lws_process \<Rightarrow> lws_process" where
  "lws_body_handler ans ctx q =
     (let llcf = llcf_of q in
      if \<not> n_body ans then finalize_request ctx NGX_HTTP_INTERNAL_SERVER_ERROR q
      else if \<not> n_body_stream ans then finalize_request ctx NGX_HTTP_INTERNAL_SERVER_ERROR q
      else if state_available llcf then lws_state_handler ans ctx q
      else if l_requests_max llcf = 0 \<or> l_requests_n llcf < l_requests_max llcf then
        q\<lparr>q_world := monitor_add m_requests_n_update 1
            ((q_world q)\<lparr>w_llcf := llcf\<lparr>l_requests_n := l_requests_n llcf + 1,
               l_requests := l_requests llcf @ [ctx]\<rparr>\<rparr>)\<rparr>
      else finalize_request ctx NGX_HTTP_SERVICE_UNAVAILABLE q)"

definition dequeue :: "lws_process \<Rightarrow> lws_process" where
  "dequeue q =
     (let llcf = llcf_of q in
      q\<lparr>q_world := monitor_add m_requests_n_update (- 1)
          ((q_world q)\<lparr>w_llcf := llcf\<lparr>l_requests := tl (l_requests llcf),
             l_requests_n := l_requests_n llcf - 1\<rparr>\<rparr>)\<rparr>)"

lemma monitor_add_llcf [simp]: "w_llcf (monitor_add upd n w) = w_llcf w"
  by (simp add: monitor_add_def)

lemma close_llcf [simp]:
  "w_llcf (lws_close_state now state w) = (w_llcf w)\<lparr>l_states_n := l_states_n (w_llcf w) - 1\<rparr>"
  by (simp add: lws_close_state_def Let_def)

lemma create_requests: "lws_create_state ans now w = (st, w') \<Longrightarrow>
  l_requests (w_llcf w') = l_requests (w_llcf w)"
  by (auto simp: lws_create_state_def Let_def split: if_splits)

lemma acquire_requests: "lws_acquire_state ans now w = (st, w') \<Longrightarrow>
  l_requests (w_llcf w') = l_requests (w_llcf w)"
  by (auto simp: lws_acquire_state_def Let_def create_requests split: list.splits prod.splits
      option.splits)

lemma release_requests:
  "l_requests (w_llcf (lws_release_state used collected now state w)) = l_requests (w_llcf w)"
  by (simp add: lws_release_state_def Let_def)

lemma state_handler_requests:
  "l_requests (llcf_of (lws_state_handler ans ctx q)) = l_requests (llcf_of q)"
  by (auto simp: lws_state_handler_def finalize_request_def acquire_requests release_requests
      split: prod.split option.split)

function lws_queue_handler :: "(nat \<Rightarrow> lws_answers) \<Rightarrow> lws_process \<Rightarrow> lws_process" where
  "lws_queue_handler ans q =
     (if l_requests (llcf_of q) \<noteq> [] \<and> state_available (llcf_of q) then
        let ctx = hd (l_requests (llcf_of q)) in
        lws_queue_handler ans (lws_state_handler (ans (c_id ctx)) ctx (dequeue q))
      else q)"
  by pat_completeness auto
termination
  by (relation "measure (\<lambda>(ans, q). length (l_requests (llcf_of q)))")
     (auto simp: state_handler_requests dequeue_def Let_def)

declare lws_queue_handler.simps [simp del]

text \<open>The thread runs the request; \<open>memory\<close> is what the checked allocator has counted at the end.\<close>

definition lws_thread_handler ::
  "ngx_str + 64 word \<Rightarrow> bool \<Rightarrow> size_t \<Rightarrow> lws_loc_conf \<Rightarrow> lws_request_ctx \<times> lws_state \<Rightarrow>
   lws_request_ctx \<times> lws_state" where
  "lws_thread_handler pcall alloc_ok memory llcf cs =
     (let (rc, state, ctx) = lws_run_state pcall alloc_ok llcf (snd cs) (fst cs);
          state = (if l_state_memory_max llcf > 0 then state\<lparr>s_memory_used := memory\<rparr> else state)
      in (ctx\<lparr>c_rc := rc\<rparr>, state))"

text \<open>The part of \<open>lws_finalization_handler\<close> that gives the state back and wakes the queue; the rest
  of it, in LwsStream, makes the response.\<close>

definition lws_finalization_release ::
  "size_t \<Rightarrow> size_t \<Rightarrow> ngx_msec \<Rightarrow> nat \<Rightarrow> lws_process \<Rightarrow> lws_process" where
  "lws_finalization_release used collected now i q =
     (let (ctx, state) = q_active q ! i;
          w = lws_release_state used collected now state (q_world q);
          llcf = w_llcf w;
          w = (if l_requests llcf \<noteq> [] \<and> \<not> l_qev llcf then w\<lparr>w_llcf := llcf\<lparr>l_qev := True\<rparr>\<rparr> else w)
      in q\<lparr>q_world := w, q_active := take i (q_active q) @ drop (Suc i) (q_active q),
           q_done := q_done q @ [ctx]\<rparr>)"

section \<open>Events\<close>

text \<open>A timer that expires is no longer set and leaves its flag.\<close>

definition expire :: "lws_state \<Rightarrow> lws_state" where
  "expire state = state\<lparr>s_tev := None, s_timedout := True\<rparr>"

text \<open>The events of a location. \<open>fails\<close> tells whether \<open>lws_init\<close>, the code that opens the libraries in
  a new Lua state, may raise an error. The second argument is the request that arrives with an event;
  only the body handler brings one.\<close>

inductive lws_step :: "bool \<Rightarrow> lws_request_ctx option \<Rightarrow> lws_process \<Rightarrow> lws_process \<Rightarrow> bool" for fails where
  body: "a_init (n_create ans) \<or> fails \<Longrightarrow> lws_step fails (Some ctx) q (lws_body_handler ans ctx q)"
| queue: "l_qev (llcf_of q) \<Longrightarrow> (\<And>i. a_init (n_create (ans i)) \<or> fails) \<Longrightarrow>
    lws_step fails None q (lws_queue_handler ans
      (q\<lparr>q_world := (q_world q)\<lparr>w_llcf := (llcf_of q)\<lparr>l_qev := False\<rparr>\<rparr>\<rparr>))"
| thread: "i < length (q_active q) \<Longrightarrow> lws_step fails None q (q\<lparr>q_active := (q_active q)
    [i := lws_thread_handler pcall alloc_ok memory (llcf_of q) (q_active q ! i)]\<rparr>)"
| finalization: "i < length (q_active q) \<Longrightarrow>
    lws_step fails None q (lws_finalization_release used collected now i q)"
| idle_timer: "i < length (l_states (llcf_of q)) \<Longrightarrow> s_tev (l_states (llcf_of q) ! i) \<noteq> None \<Longrightarrow>
    lws_step fails None q (q\<lparr>q_world := lws_state_timer_handler now i ((q_world q)\<lparr>w_llcf := (llcf_of q)
      \<lparr>l_states := (l_states (llcf_of q))[i := expire (l_states (llcf_of q) ! i)]\<rparr>\<rparr>)\<rparr>)"
| busy_timer: "i < length (q_active q) \<Longrightarrow> s_tev (snd (q_active q ! i)) \<noteq> None \<Longrightarrow>
    lws_step fails None q (q\<lparr>q_active := (q_active q)[i := map_prod id expire (q_active q ! i)]\<rparr>)"

text \<open>A worker process starts with no states, no requests, and counters at zero.\<close>

definition lws_start :: "lws_process \<Rightarrow> bool" where
  "lws_start q \<longleftrightarrow> q_active q = [] \<and> q_done q = [] \<and> q_final q = [] \<and>
     l_states_n (llcf_of q) = 0 \<and> l_states (llcf_of q) = [] \<and>
     l_requests_n (llcf_of q) = 0 \<and> l_requests (llcf_of q) = [] \<and> \<not> l_qev (llcf_of q) \<and>
     w_closed (q_world q) = [] \<and> w_leaked (q_world q) = 0 \<and>
     (case w_monitor (q_world q) of None \<Rightarrow> True | Some m \<Rightarrow>
        m_states_n m = 0 \<and> m_requests_n m = 0 \<and> m_memory_used m = 0 \<and> m_request_count m = 0)"

inductive lws_reach :: "bool \<Rightarrow> lws_process \<Rightarrow> bool" for fails where
  start: "lws_start q \<Longrightarrow> lws_reach fails q"
| step: "lws_reach fails q \<Longrightarrow> lws_step fails arrival q q' \<Longrightarrow> lws_reach fails q'"

end
