(* ===== verification/LwsQueueInv.thy ===== *)
theory LwsQueueInv
  imports LwsQueue
begin

text \<open>
  The invariant of the request queue and of the Lua states of a location: the counters are the lengths
  of the lists, the limits hold, the monitor's counters agree, inactive states may be reused, and a
  waiting request is always going to be looked at. Each operation is shown to keep it.
\<close>

section \<open>What the operations leave alone\<close>

text \<open>The operations on states touch of the location only its states.\<close>

definition state_frame :: "lws_world \<Rightarrow> lws_world \<Rightarrow> bool" where
  "state_frame w w' \<longleftrightarrow> w_llcf w' = (w_llcf w)\<lparr>l_states_n := l_states_n (w_llcf w'),
     l_states := l_states (w_llcf w')\<rparr> \<and>
     map_option m_requests_n (w_monitor w') = map_option m_requests_n (w_monitor w)"

lemma state_frameD:
  assumes "state_frame w w'"
  shows "l_states_max (w_llcf w') = l_states_max (w_llcf w)"
    "l_requests_max (w_llcf w') = l_requests_max (w_llcf w)"
    "l_state_requests_max (w_llcf w') = l_state_requests_max (w_llcf w)"
    "l_requests_n (w_llcf w') = l_requests_n (w_llcf w)"
    "l_requests (w_llcf w') = l_requests (w_llcf w)"
    "l_qev (w_llcf w') = l_qev (w_llcf w)"
    "map_option m_requests_n (w_monitor w') = map_option m_requests_n (w_monitor w)"
  using assms unfolding state_frame_def
  by (cases "w_llcf w"; cases "w_llcf w'"; simp)+

lemma state_frame_refl [simp]: "state_frame w w"
  by (simp add: state_frame_def)

lemma state_frame_trans: "state_frame w1 w2 \<Longrightarrow> state_frame w2 w3 \<Longrightarrow> state_frame w1 w3"
  unfolding state_frame_def
  by (cases "w_llcf w1"; cases "w_llcf w2"; cases "w_llcf w3") auto

lemma monitor_add_sel [simp]:
  "w_closed (monitor_add upd n w) = w_closed w" "w_leaked (monitor_add upd n w) = w_leaked w"
  "w_monitor (monitor_add upd n w) = map_option (upd (\<lambda>x. x + n)) (w_monitor w)"
  by (simp_all add: monitor_add_def)

lemma close_frame: "state_frame w (lws_close_state now state w)"
  by (cases "w_monitor w") (simp_all add: state_frame_def lws_close_state_def Let_def)

lemma create_frame: "lws_create_state ans now w = (st, w') \<Longrightarrow> state_frame w w'"
  by (cases "w_monitor w")
     (auto simp: lws_create_state_def lws_close_state_def Let_def state_frame_def split: if_splits)

lemma acquire_frame: "lws_acquire_state ans now w = (st, w') \<Longrightarrow> state_frame w w'"
proof (cases "l_states (w_llcf w)")
  case Nil
  assume "lws_acquire_state ans now w = (st, w')"
  with Nil have "\<exists>st. lws_create_state ans now w = (st, w')"
    by (auto simp: lws_acquire_state_def Let_def split: prod.splits option.splits)
  then show ?thesis using create_frame by blast
next
  case (Cons s ss)
  assume "lws_acquire_state ans now w = (st, w')"
  with Cons show ?thesis by (auto simp: lws_acquire_state_def Let_def state_frame_def)
qed

lemma release_frame: "state_frame w (lws_release_state used collected now state w)"
  by (cases "w_monitor w")
     (simp_all add: lws_release_state_def Let_def state_frame_def lws_close_state_def)

section \<open>Books\<close>

text \<open>An inactive state that the next request may take.\<close>

definition reusable :: "int \<Rightarrow> lws_state \<Rightarrow> bool" where
  "reusable requests_max s \<longleftrightarrow> \<not> s_in_use s \<and> \<not> s_close s \<and> \<not> s_timedout s \<and>
     (0 < requests_max \<longrightarrow> s_request_count s < requests_max)"

definition memory_sum :: "lws_state list \<Rightarrow> 64 word" where
  "memory_sum ss = sum_list (map s_memory_monitor ss)"

text \<open>The books of a location whose states in use are \<open>held\<close>.\<close>

definition books_ok :: "lws_world \<Rightarrow> lws_state list \<Rightarrow> bool" where
  "books_ok w held \<longleftrightarrow>
     (let llcf = w_llcf w in
      l_states_n llcf = of_nat (length (l_states llcf) + length held) \<and>
      (l_states_max llcf \<noteq> 0 \<longrightarrow>
         length (l_states llcf) + length held \<le> unat (l_states_max llcf)) \<and>
      (\<forall>s\<in>set (l_states llcf). reusable (l_state_requests_max llcf) s) \<and>
      (\<forall>s\<in>set (w_closed w). s_tev s = None) \<and>
      (case w_monitor w of None \<Rightarrow> True | Some m \<Rightarrow>
         m_states_n m = l_states_n llcf \<and>
         m_memory_used m = memory_sum (l_states llcf @ held)))"

lemma memory_sum_simps [simp]:
  "memory_sum [] = 0" "memory_sum (s # ss) = s_memory_monitor s + memory_sum ss"
  "memory_sum (xs @ ys) = memory_sum xs + memory_sum ys"
  by (simp_all add: memory_sum_def)

lemma timer_sel [simp]:
  "s_memory_monitor (lws_set_state_timer now s) = s_memory_monitor s"
  "s_memory_used (lws_set_state_timer now s) = s_memory_used s"
  "s_request_count (lws_set_state_timer now s) = s_request_count s"
  "s_in_use (lws_set_state_timer now s) = s_in_use s"
  "s_close (lws_set_state_timer now s) = s_close s"
  "s_timedout (lws_set_state_timer now s) = s_timedout s"
  "s_time_max (lws_set_state_timer now s) = s_time_max s"
  "s_timeout (lws_set_state_timer now s) = s_timeout s"
  by (simp_all add: lws_set_state_timer_def Let_def)

lemma timer_key:
  "s_tev (lws_set_state_timer now s) =
     (if s_time_max s = NGX_TIMER_INFINITE \<and> s_timeout s = NGX_TIMER_INFINITE then None
      else Some (min (s_timeout s) (s_time_max s)))"
  by (auto simp: lws_set_state_timer_def Let_def min_def)

text \<open>Closing a state that is in use, or that was in the queue.\<close>

lemma close_books:
  assumes "books_ok w (s # held)" "s_memory_monitor s' = s_memory_monitor s"
  shows "books_ok (lws_close_state now s' w) held"
  using assms unfolding books_ok_def
  by (auto simp: lws_close_state_def Let_def timer_key split: option.splits)

lemma create_cases:
  assumes "lws_create_state ans now w = (st, w')" "a_init ans"
  obtains (none) "st = None" "w_llcf w' = w_llcf w" "w_monitor w' = w_monitor w"
      "w_closed w' = w_closed w"
    | (some) s where "st = Some s" "s_memory_monitor s = 0" "s_request_count s = 0"
      "\<not> s_close s" "\<not> s_timedout s"
      "w_llcf w' = (w_llcf w)\<lparr>l_states_n := l_states_n (w_llcf w) + 1\<rparr>"
      "w_monitor w' = map_option (m_states_n_update (\<lambda>x. x + 1)) (w_monitor w)"
      "w_closed w' = w_closed w"
  using assms by (auto simp: lws_create_state_def Let_def zero_state_def split: if_splits)

lemma create_books:
  assumes books: "books_ok w held" and "a_init ans" and empty: "l_states (w_llcf w) = []"
    and room: "l_states_max (w_llcf w) = 0 \<or> l_states_n (w_llcf w) < l_states_max (w_llcf w)"
    and c: "lws_create_state ans now w = (st, w')"
  shows "case st of None \<Rightarrow> books_ok w' held
    | Some s \<Rightarrow> books_ok w' (s # held) \<and> s_memory_monitor s = 0"
  using c assms(2)
proof (cases rule: create_cases)
  case none
  with books show ?thesis by (simp add: books_ok_def)
next
  case (some s)
  have "length held < unat (l_states_max (w_llcf w))" if "l_states_max (w_llcf w) \<noteq> 0"
  proof -
    have "length held \<le> unat (l_states_max (w_llcf w))"
      and n: "l_states_n (w_llcf w) = of_nat (length held)"
      using books empty that by (auto simp: books_ok_def Let_def)
    then have "length held < 2 ^ 64"
      using unsigned_less [of "l_states_max (w_llcf w)", where 'a = nat] by simp
    then have "unat (of_nat (length held) :: 64 word) = length held"
      by (simp add: unsigned_of_nat take_bit_nat_eq_self_iff)
    with n room that show ?thesis by (simp add: word_less_nat_alt)
  qed
  with books some empty show ?thesis
    unfolding books_ok_def Let_def by (cases "w_monitor w") (simp_all add: Suc_le_eq)
qed

lemma books_reusable:
  "books_ok w held \<Longrightarrow> \<forall>s\<in>set (l_states (w_llcf w)). reusable (l_state_requests_max (w_llcf w)) s"
  by (simp add: books_ok_def Let_def)

lemma books_perm: "books_ok w (xs @ s # ys) \<longleftrightarrow> books_ok w (s # xs @ ys)"
  by (auto simp: books_ok_def Let_def add_ac split: option.splits)

lemma acquire_books:
  assumes "books_ok w held" "a_init ans" "state_available (w_llcf w)"
    and acq: "lws_acquire_state ans now w = (st, w')"
  shows "case st of None \<Rightarrow> books_ok w' held | Some s \<Rightarrow> books_ok w' (s # held)"
proof (cases "l_states (w_llcf w)")
  case Nil
  obtain st0 w0 where c: "lws_create_state ans now w = (st0, w0)" by fastforce
  from assms(3) Nil have "l_states_max (w_llcf w) = 0 \<or>
    l_states_n (w_llcf w) < l_states_max (w_llcf w)" by (simp add: state_available_def)
  from create_books [OF assms(1,2) Nil this c] acq Nil c show ?thesis
    by (auto simp: lws_acquire_state_def Let_def books_ok_def split: option.splits)
next
  case (Cons s ss)
  with assms(1) acq show ?thesis
    by (auto simp: lws_acquire_state_def Let_def books_ok_def add_ac split: option.splits)
qed

lemma release_books:
  assumes "books_ok w (s # held)"
  shows "books_ok (lws_release_state used collected now s w) held"
proof -
  define s1 where "s1 = s\<lparr>s_request_count := s_request_count s + 1\<rparr>"
  define w1 where "w1 = monitor_add m_request_count_update 1 w"
  have w1: "books_ok w1 (s # held)"
    using assms by (auto simp: books_ok_def Let_def w1_def split: option.splits)
  show ?thesis
  proof (cases "s_close s1 \<or> s_timedout s1 \<or> (l_state_requests_max (w_llcf w) > 0 \<and>
      s_request_count s1 \<ge> l_state_requests_max (w_llcf w))")
    case True
    then have "lws_release_state used collected now s w = lws_close_state now s1 w1"
      by (simp add: lws_release_state_def Let_def s1_def w1_def)
    with close_books [OF w1, of s1] show ?thesis by (simp add: s1_def)
  next
    case False
    define r where "r = lws_release_state used collected now s w"
    define mem where "mem = s_memory_monitor (hd (l_states (w_llcf r)))"
    have r: "w_llcf r = (w_llcf w)\<lparr>l_states := hd (l_states (w_llcf r)) # l_states (w_llcf w)\<rparr>"
      "w_closed r = w_closed w"
      "reusable (l_state_requests_max (w_llcf w)) (hd (l_states (w_llcf r)))"
      "w_monitor r = map_option (\<lambda>m. m\<lparr>m_request_count := m_request_count m + 1,
         m_memory_used := m_memory_used m + (mem - s_memory_monitor s)\<rparr>) (w_monitor w)"
      using False unfolding r_def mem_def lws_release_state_def Let_def
      by (cases "w_monitor w"; auto simp: s1_def reusable_def)+
    obtain s' where "hd (l_states (w_llcf r)) = s'" by blast
    note r = r [unfolded mem_def this]
    from r assms show ?thesis
      unfolding r_def [symmetric] books_ok_def Let_def
      by (auto split: option.splits)
  qed
qed

section \<open>The queue\<close>

definition requests_ok :: "lws_world \<Rightarrow> bool" where
  "requests_ok w \<longleftrightarrow>
     l_requests_n (w_llcf w) = of_nat (length (l_requests (w_llcf w))) \<and>
     (l_requests_max (w_llcf w) \<noteq> 0 \<longrightarrow>
        length (l_requests (w_llcf w)) \<le> unat (l_requests_max (w_llcf w))) \<and>
     (case w_monitor w of None \<Rightarrow> True | Some m \<Rightarrow> m_requests_n m = l_requests_n (w_llcf w))"

definition waiting_ok :: "lws_process \<Rightarrow> bool" where
  "waiting_ok q \<longleftrightarrow> l_requests (llcf_of q) = [] \<or> l_qev (llcf_of q) \<or> q_active q \<noteq> []"

definition process_ok :: "lws_process \<Rightarrow> bool" where
  "process_ok q \<longleftrightarrow> books_ok (q_world q) (map snd (q_active q)) \<and> requests_ok (q_world q) \<and>
     waiting_ok q"

lemma requests_ok_frame: "state_frame w w' \<Longrightarrow> requests_ok w \<Longrightarrow> requests_ok w'"
  using state_frameD [of w w'] by (auto simp: requests_ok_def split: option.splits)

lemma no_state_busy: "books_ok w held \<Longrightarrow> \<not> state_available (w_llcf w) \<Longrightarrow> held \<noteq> []"
  by (auto simp: books_ok_def state_available_def Let_def not_less)

lemma finalize_request_sel [simp]:
  "q_world (finalize_request ctx rc q) = q_world q" "q_active (finalize_request ctx rc q) = q_active q"
  "q_done (finalize_request ctx rc q) = q_done q"
  "q_final (finalize_request ctx rc q) = q_final q @ [(c_id ctx, rc)]"
  by (simp_all add: finalize_request_def)

text \<open>Where the state handler leaves a request: with a task, or finalized.\<close>

lemma state_handler_spec:
  fixes ctx :: lws_request_ctx
  assumes "books_ok (q_world q) (map snd (q_active q))" "a_init (n_create ans)"
    "state_available (llcf_of q)"
  defines "q' \<equiv> lws_state_handler ans ctx q"
  shows "books_ok (q_world q') (map snd (q_active q'))" "state_frame (q_world q) (q_world q')"
    "q_done q' = q_done q"
    "(\<exists>s. q_active q' = q_active q @ [(ctx, s)]) \<and> q_final q' = q_final q \<or>
     q_active q' = q_active q \<and> q_final q' = q_final q @ [(c_id ctx, NGX_HTTP_INTERNAL_SERVER_ERROR)]"
proof -
  obtain st w where acq: "lws_acquire_state (n_create ans) (n_now ans) (q_world q) = (st, w)"
    by fastforce
  note books = acquire_books [OF assms(1-3) acq]
  note frame = acquire_frame [OF acq]
  note rel = release_frame state_frame_trans [OF frame]
  have perm: "books_ok w (map snd (q_active q @ [(ctx, s)]))"
    if "books_ok w (s # map snd (q_active q))" for s
    using that books_perm [of w "map snd (q_active q)" s "[]"] by simp
  show "books_ok (q_world q') (map snd (q_active q'))" "state_frame (q_world q) (q_world q')"
    "q_done q' = q_done q"
    "(\<exists>s. q_active q' = q_active q @ [(ctx, s)]) \<and> q_final q' = q_final q \<or>
     q_active q' = q_active q \<and> q_final q' = q_final q @ [(c_id ctx, NGX_HTTP_INTERNAL_SERVER_ERROR)]"
    using books frame rel perm acq
    by (auto simp: q'_def lws_state_handler_def split: option.splits intro: release_books)
qed

lemma dequeue_sel [simp]:
  "q_active (dequeue q) = q_active q" "q_done (dequeue q) = q_done q"
  "q_final (dequeue q) = q_final q"
  "llcf_of (dequeue q) = (llcf_of q)\<lparr>l_requests := tl (l_requests (llcf_of q)),
     l_requests_n := l_requests_n (llcf_of q) - 1\<rparr>"
  "w_closed (q_world (dequeue q)) = w_closed (q_world q)"
  "w_monitor (q_world (dequeue q)) = map_option (m_requests_n_update (\<lambda>x. x - 1)) (w_monitor (q_world q))"
  by (simp_all add: dequeue_def Let_def)

lemma dequeue_ok:
  assumes "l_requests (llcf_of q) \<noteq> []"
  shows "books_ok (q_world q) held \<Longrightarrow> books_ok (q_world (dequeue q)) held"
    "requests_ok (q_world q) \<Longrightarrow> requests_ok (q_world (dequeue q))"
    "state_available (llcf_of (dequeue q)) = state_available (llcf_of q)"
  using assms
  by (cases "w_monitor (q_world q)"; cases "l_requests (llcf_of q)";
      auto simp: books_ok_def requests_ok_def state_available_def Let_def)+

lemma qev_irrelevant [simp]:
  "books_ok (w\<lparr>w_llcf := (w_llcf w)\<lparr>l_qev := b\<rparr>\<rparr>) held = books_ok w held"
  "requests_ok (w\<lparr>w_llcf := (w_llcf w)\<lparr>l_qev := b\<rparr>\<rparr>) = requests_ok w"
  by (cases "w_monitor w"; simp add: books_ok_def requests_ok_def Let_def)+

text \<open>The queue is served from its head, as long as it is not empty and a state is available.\<close>

lemma queue_handler_spec:
  assumes "books_ok (q_world q) (map snd (q_active q))" "requests_ok (q_world q)"
    "\<And>i. a_init (n_create (ans i))"
  defines "q' \<equiv> lws_queue_handler ans q"
  shows "books_ok (q_world q') (map snd (q_active q')) \<and> requests_ok (q_world q') \<and>
    (l_requests (llcf_of q') = [] \<or> \<not> state_available (llcf_of q')) \<and>
    l_qev (llcf_of q') = l_qev (llcf_of q) \<and> q_done q' = q_done q"
  using assms(1-3) unfolding q'_def
proof (induction ans q rule: lws_queue_handler.induct)
  case (1 ans q)
  show ?case
  proof (cases "l_requests (llcf_of q) \<noteq> [] \<and> state_available (llcf_of q)")
    case False
    with 1(2,3) show ?thesis by (subst (1 2 3 4 5 6 7) lws_queue_handler.simps) auto
  next
    case True
    define ctx where "ctx = hd (l_requests (llcf_of q))"
    let ?q1 = "lws_state_handler (ans (c_id ctx)) ctx (dequeue q)"
    have eq: "lws_queue_handler ans q = lws_queue_handler ans ?q1"
      using True by (subst lws_queue_handler.simps) (simp add: ctx_def Let_def)
    have d: "books_ok (q_world (dequeue q)) (map snd (q_active (dequeue q)))"
      "requests_ok (q_world (dequeue q))" "state_available (llcf_of (dequeue q))"
      using True 1(2,3) dequeue_ok [of q] by auto
    note h = state_handler_spec [OF d(1) 1(4) d(3), of "c_id ctx" ctx]
    have "l_qev (llcf_of ?q1) = l_qev (llcf_of q)" using state_frameD(6) [OF h(2)] by simp
    with 1(1) [OF True ctx_def h(1) requests_ok_frame [OF h(2) d(2)] 1(4)] h(3) show ?thesis
      unfolding eq by simp
  qed
qed

lemma finalize_ok:
  assumes "process_ok q" shows "process_ok (finalize_request ctx rc q)"
  using assms by (simp add: process_ok_def waiting_ok_def)

lemma state_handler_ok:
  assumes "process_ok q" "a_init (n_create ans)" "state_available (llcf_of q)"
  shows "process_ok (lws_state_handler ans ctx q)"
proof -
  from assms(1) have q: "books_ok (q_world q) (map snd (q_active q))" "requests_ok (q_world q)"
    "waiting_ok q" by (auto simp: process_ok_def)
  note h = state_handler_spec [OF q(1) assms(2,3), of ctx]
  from h(4) have "q_active q \<noteq> [] \<Longrightarrow> q_active (lws_state_handler ans ctx q) \<noteq> []" by auto
  with h(1) requests_ok_frame [OF h(2) q(2)] q(3) state_frameD(5,6) [OF h(2)] show ?thesis
    by (auto simp: process_ok_def waiting_ok_def)
qed

lemma body_ok:
  assumes q: "process_ok q" and "a_init (n_create ans)"
  shows "process_ok (lws_body_handler ans ctx q)"
proof -
  let ?enq = "q\<lparr>q_world := monitor_add m_requests_n_update 1
    ((q_world q)\<lparr>w_llcf := (llcf_of q)\<lparr>l_requests_n := l_requests_n (llcf_of q) + 1,
      l_requests := l_requests (llcf_of q) @ [ctx]\<rparr>\<rparr>)\<rparr>"
  have "process_ok ?enq" if busy: "\<not> state_available (llcf_of q)"
    and room: "l_requests_max (llcf_of q) = 0 \<or> l_requests_n (llcf_of q) < l_requests_max (llcf_of q)"
  proof -
    from q have books: "books_ok (q_world q) (map snd (q_active q))" and req: "requests_ok (q_world q)"
      by (auto simp: process_ok_def)
    have "q_active q \<noteq> []" using no_state_busy [OF books busy] by simp
    moreover have "books_ok (q_world ?enq) (map snd (q_active ?enq))"
      using books by (cases "w_monitor (q_world q)") (auto simp: books_ok_def Let_def)
    moreover have "requests_ok (q_world ?enq)"
    proof -
      have "length (l_requests (llcf_of q)) < unat (l_requests_max (llcf_of q))"
        if max: "l_requests_max (llcf_of q) \<noteq> 0"
      proof -
        have le: "length (l_requests (llcf_of q)) \<le> unat (l_requests_max (llcf_of q))"
          and n: "l_requests_n (llcf_of q) = of_nat (length (l_requests (llcf_of q)))"
          using req max by (auto simp: requests_ok_def)
        then have "unat (of_nat (length (l_requests (llcf_of q))) :: 64 word) =
            length (l_requests (llcf_of q))"
          using unsigned_less [of "l_requests_max (llcf_of q)", where 'a = nat]
          by (simp add: unsigned_of_nat take_bit_nat_eq_self_iff)
        with n room max show ?thesis by (simp add: word_less_nat_alt)
      qed
      with req show ?thesis
        by (cases "w_monitor (q_world q)") (auto simp: requests_ok_def)
    qed
    ultimately show ?thesis by (simp add: process_ok_def waiting_ok_def)
  qed
  with q assms(2) show ?thesis
    by (simp add: lws_body_handler_def Let_def finalize_ok state_handler_ok)
qed

lemma queue_ok:
  assumes q: "process_ok q" and "\<And>i. a_init (n_create (ans i))"
  shows "process_ok (lws_queue_handler ans
    (q\<lparr>q_world := (q_world q)\<lparr>w_llcf := (llcf_of q)\<lparr>l_qev := False\<rparr>\<rparr>\<rparr>))"
    (is "process_ok (lws_queue_handler ans ?q)")
proof -
  have "books_ok (q_world ?q) (map snd (q_active ?q))" "requests_ok (q_world ?q)"
    using q by (simp_all add: process_ok_def)
  note spec = queue_handler_spec [of ?q ans, OF this assms(2)]
  let ?q' = "lws_queue_handler ans ?q"
  have "l_requests (llcf_of ?q') = [] \<or> map snd (q_active ?q') \<noteq> []"
    using spec no_state_busy [of "q_world ?q'" "map snd (q_active ?q')"] by blast
  with spec show ?thesis by (auto simp only: process_ok_def waiting_ok_def list.map_disc_iff)
qed

lemma finalization_ok:
  assumes q: "process_ok q" and i: "i < length (q_active q)"
  shows "process_ok (lws_finalization_release used collected now i q)"
proof -
  obtain ctx s where cs: "q_active q ! i = (ctx, s)" by fastforce
  let ?act = "take i (q_active q) @ drop (Suc i) (q_active q)"
  have "q_active q = take i (q_active q) @ (ctx, s) # drop (Suc i) (q_active q)"
    using id_take_nth_drop [OF i] cs by simp
  then have "map snd (q_active q) = map snd (take i (q_active q)) @ s # map snd (drop (Suc i) (q_active q))"
    by (metis list.simps(9) map_append snd_conv)
  with q have "books_ok (q_world q) (s # map snd ?act)"
    by (simp add: process_ok_def books_perm)
  note rel = release_books [OF this, of used collected now]
  note frame = release_frame [of "q_world q" used collected now s]
  let ?w = "lws_release_state used collected now s (q_world q)"
  have req: "requests_ok ?w" using requests_ok_frame [OF frame] q by (simp add: process_ok_def)
  have "books_ok (?w\<lparr>w_llcf := (w_llcf ?w)\<lparr>l_qev := True\<rparr>\<rparr>) (map snd ?act)"
    "requests_ok (?w\<lparr>w_llcf := (w_llcf ?w)\<lparr>l_qev := True\<rparr>\<rparr>)"
    using rel req by simp_all
  with rel req cs show ?thesis
    by (auto simp: lws_finalization_release_def Let_def process_ok_def waiting_ok_def)
qed

lemma take_state_books:
  assumes "books_ok w held" "l_states (w_llcf w) = xs @ s # ys"
  shows "books_ok (w\<lparr>w_llcf := (w_llcf w)\<lparr>l_states := xs @ ys\<rparr>\<rparr>) (s # held)"
  using assms unfolding books_ok_def Let_def
  by (cases "w_monitor w") (simp_all add: add_ac)

lemma idle_timer_ok:
  assumes q: "process_ok q" and i: "i < length (l_states (llcf_of q))"
  shows "process_ok (q\<lparr>q_world := lws_state_timer_handler now i ((q_world q)\<lparr>w_llcf := (llcf_of q)
      \<lparr>l_states := (l_states (llcf_of q))[i := expire (l_states (llcf_of q) ! i)]\<rparr>\<rparr>)\<rparr>)"
proof -
  let ?ss = "l_states (llcf_of q)" and ?w = "q_world q"
  let ?s = "?ss ! i"
  let ?w1 = "?w\<lparr>w_llcf := (w_llcf ?w)\<lparr>l_states := take i ?ss @ drop (Suc i) ?ss\<rparr>\<rparr>"
  have books: "books_ok ?w (map snd (q_active q))" and req: "requests_ok ?w" and wait: "waiting_ok q"
    using q by (auto simp: process_ok_def)
  have in_use: "\<not> s_in_use ?s"
    using books_reusable [OF books] nth_mem [OF i] by (auto simp: reusable_def)
  from take_state_books [OF books id_take_nth_drop [OF i]]
  have "books_ok ?w1 (?s # map snd (q_active q))" .
  from close_books [OF this, of "expire ?s" now]
  have c: "books_ok (lws_close_state now (expire ?s) ?w1) (map snd (q_active q))"
    by (simp add: expire_def)
  have "requests_ok ?w1" using req by (cases "w_monitor ?w") (simp_all add: requests_ok_def)
  from requests_ok_frame [OF close_frame this]
  have r: "requests_ok (lws_close_state now (expire ?s) ?w1)" .
  have "lws_state_timer_handler now i (?w\<lparr>w_llcf := (w_llcf ?w)\<lparr>l_states := ?ss[i := expire ?s]\<rparr>\<rparr>)
    = lws_close_state now (expire ?s) ?w1"
    using i in_use by (simp add: lws_state_timer_handler_def Let_def expire_def)
  then show ?thesis
    using c r wait by (simp add: process_ok_def waiting_ok_def)
qed

lemma active_update_ok:
  assumes q: "process_ok q" and i: "i < length (q_active q)"
    and s: "s_memory_monitor (snd cs) = s_memory_monitor (snd (q_active q ! i))"
  shows "process_ok (q\<lparr>q_active := (q_active q)[i := cs]\<rparr>)"
proof -
  have "memory_sum (map snd ((q_active q)[i := cs])) = memory_sum (map snd (q_active q))"
    unfolding memory_sum_def using s i
    by (metis (no_types, lifting) list_update_id map_map map_update nth_map)
  moreover have "(q_active q)[i := cs] \<noteq> []" using i by (cases "q_active q") (auto split: nat.split)
  ultimately show ?thesis
    using q by (auto simp: process_ok_def books_ok_def requests_ok_def waiting_ok_def Let_def
        split: option.splits)
qed

lemma thread_memory: "s_memory_monitor (snd (lws_thread_handler pcall alloc_ok memory llcf cs)) =
  s_memory_monitor (snd cs)"
  by (simp add: lws_thread_handler_def lws_run_state_def Let_def split: sum.split prod.split)

lemma step_ok: "lws_step False arrival q q' \<Longrightarrow> process_ok q \<Longrightarrow> process_ok q'"
proof (induction rule: lws_step.induct)
  case (body ans q ctx)
  then show ?case by (simp add: body_ok)
next
  case (queue q ans)
  then show ?case by (simp add: queue_ok)
next
  case (thread i q pcall alloc_ok memory)
  then show ?case by (intro active_update_ok) (simp_all add: thread_memory)
next
  case (finalization i q used collected now)
  then show ?case by (simp add: finalization_ok)
next
  case (idle_timer i q now)
  then show ?case by (simp add: idle_timer_ok)
next
  case (busy_timer i q)
  then show ?case by (intro active_update_ok) (simp_all add: expire_def)
qed

lemma start_ok: "lws_start q \<Longrightarrow> process_ok q"
  by (auto simp: lws_start_def process_ok_def books_ok_def requests_ok_def waiting_ok_def Let_def
      split: option.splits)

lemma reach_ok: "lws_reach False q \<Longrightarrow> process_ok q"
  by (induction rule: lws_reach.induct) (auto intro: start_ok step_ok)

end
