(* ===== verification/LwsQueueCorrect.thy ===== *)
theory LwsQueueCorrect
  imports LwsQueueInv "HOL-Library.Multiset"
begin

text \<open>
  The theorems about the Lua states and the request queue: the accounting of the allocator, the timer,
  the invariant of every reachable process, conservation and order of requests, and what happens
  to a location when a new Lua state fails to initialize.
\<close>

section \<open>Requests\<close>

text \<open>The requests of a process, wherever they are.\<close>

definition requests_of :: "lws_process \<Rightarrow> nat multiset" where
  "requests_of q = mset (map c_id (l_requests (llcf_of q))) + mset (map (c_id \<circ> fst) (q_active q)) +
     mset (map c_id (q_done q)) + mset (map fst (q_final q))"

lemma state_handler_requests_of:
  "requests_of (lws_state_handler ans ctx q) = add_mset (c_id ctx) (requests_of q)"
  using state_handler_requests [of ans ctx q]
  by (auto simp: requests_of_def lws_state_handler_def finalize_request_def split: prod.split option.split)

lemma dequeue_requests_of:
  "l_requests (llcf_of q) = ctx # rest \<Longrightarrow> requests_of q = add_mset (c_id ctx) (requests_of (dequeue q))"
  by (simp add: requests_of_def)

lemma queue_handler_requests_of: "requests_of (lws_queue_handler ans q) = requests_of q"
proof (induction ans q rule: lws_queue_handler.induct)
  case (1 ans q)
  show ?case
  proof (cases "l_requests (llcf_of q) \<noteq> [] \<and> state_available (llcf_of q)")
    case False
    then show ?thesis by (subst lws_queue_handler.simps) auto
  next
    case True
    then obtain ctx rest where r: "l_requests (llcf_of q) = ctx # rest"
      by (cases "l_requests (llcf_of q)") auto
    with 1 [OF True refl] True dequeue_requests_of [OF r] show ?thesis
      by (subst lws_queue_handler.simps) (simp add: state_handler_requests_of Let_def)
  qed
qed

lemma body_requests_of:
  "requests_of (lws_body_handler ans ctx q) = add_mset (c_id ctx) (requests_of q)"
  using state_handler_requests_of [of ans ctx q]
  by (simp add: lws_body_handler_def Let_def) (simp add: requests_of_def)

lemma thread_id: "c_id (fst (lws_thread_handler pcall alloc_ok memory llcf cs)) = c_id (fst cs)"
  by (simp add: lws_thread_handler_def lws_run_state_def Let_def split: sum.split prod.split)

lemma active_update_requests_of:
  assumes "i < length (q_active q)" "c_id (fst cs) = c_id (fst (q_active q ! i))"
  shows "requests_of (q\<lparr>q_active := (q_active q)[i := cs]\<rparr>) = requests_of q"
proof -
  have "map (c_id \<circ> fst) ((q_active q)[i := cs]) = map (c_id \<circ> fst) (q_active q)"
    using assms by (simp add: map_update) (metis comp_apply list_update_id nth_map)
  then show ?thesis by (simp add: requests_of_def)
qed

lemma finalization_requests_of:
  assumes i: "i < length (q_active q)"
  shows "requests_of (lws_finalization_release used collected now i q) = requests_of q"
proof -
  obtain ctx s where cs: "q_active q ! i = (ctx, s)" by fastforce
  have "mset (map (c_id \<circ> fst) (q_active q)) =
    add_mset (c_id ctx) (mset (map (c_id \<circ> fst) (take i (q_active q) @ drop (Suc i) (q_active q))))"
    by (subst (1) id_take_nth_drop [OF i]) (simp add: cs)
  with cs show ?thesis
    by (simp add: lws_finalization_release_def Let_def requests_of_def release_requests)
qed

lemma timer_requests_of:
  "requests_of (q\<lparr>q_world := lws_state_timer_handler now i ((q_world q)\<lparr>w_llcf := (llcf_of q)
      \<lparr>l_states := ss\<rparr>\<rparr>)\<rparr>) = requests_of q"
  by (simp add: requests_of_def lws_state_timer_handler_def Let_def)

text \<open>Where a request goes that arrives.\<close>

definition placed :: "lws_request_ctx \<Rightarrow> lws_process \<Rightarrow> lws_process \<Rightarrow> bool" where
  "placed ctx q q' \<longleftrightarrow>
     (if state_available (llcf_of q) then
        (\<exists>s. q_active q' = q_active q @ [(ctx, s)]) \<or> q_final q' = q_final q @ [(c_id ctx, NGX_HTTP_INTERNAL_SERVER_ERROR)]
      else if l_requests_max (llcf_of q) = 0 \<or> l_requests_n (llcf_of q) < l_requests_max (llcf_of q) then
        l_requests (llcf_of q') = l_requests (llcf_of q) @ [ctx] \<or>
        q_final q' = q_final q @ [(c_id ctx, NGX_HTTP_INTERNAL_SERVER_ERROR)]
      else q_final q' = q_final q @ [(c_id ctx, NGX_HTTP_SERVICE_UNAVAILABLE)] \<or>
        q_final q' = q_final q @ [(c_id ctx, NGX_HTTP_INTERNAL_SERVER_ERROR)])"

lemma state_handler_place:
  "(\<exists>s. q_active (lws_state_handler ans ctx q) = q_active q @ [(ctx, s)]) \<and>
     q_final (lws_state_handler ans ctx q) = q_final q \<or>
   q_active (lws_state_handler ans ctx q) = q_active q \<and>
     q_final (lws_state_handler ans ctx q) =
       q_final q @ [(c_id ctx, NGX_HTTP_INTERNAL_SERVER_ERROR)]"
  by (auto simp: lws_state_handler_def finalize_request_def split: prod.split option.split)

lemma body_placed: "placed ctx q (lws_body_handler ans ctx q)"
  using state_handler_place [of ans ctx q]
  by (auto simp: placed_def lws_body_handler_def finalize_request_def Let_def)

text \<open>C4: No event loses or duplicates a request. With an event that brings a request, the requests of
  the process, waiting, running, complete or finalized, are those from before and that one; with any
  other event they are those from before. A request that arrives runs if a state is available, or
  waits at the end of the queue if not, or is finalized with status 503 if the queue is full; if its
  body, a state or a task cannot be had, it is finalized with status 500.\<close>

theorem lws_requests_conserved:
  "lws_step fails arrival q q' \<Longrightarrow>
    (case arrival of
       None \<Rightarrow> requests_of q' = requests_of q
     | Some ctx \<Rightarrow> requests_of q' = add_mset (c_id ctx) (requests_of q) \<and> placed ctx q q')"
proof (induction rule: lws_step.induct)
  case (body ans ctx q)
  then show ?case using body_requests_of body_placed by simp
next
  case (queue q ans)
  have "requests_of (q\<lparr>q_world := (q_world q)\<lparr>w_llcf := (llcf_of q)\<lparr>l_qev := False\<rparr>\<rparr>\<rparr>) = requests_of q"
    by (simp add: requests_of_def)
  then show ?case by (simp add: queue_handler_requests_of)
next
  case (thread i q pcall alloc_ok memory)
  then show ?case by (simp add: active_update_requests_of thread_id)
next
  case (finalization i q used collected now)
  then show ?case by (simp add: finalization_requests_of)
next
  case (idle_timer i q now)
  then show ?case by (simp add: timer_requests_of)
next
  case (busy_timer i q)
  then show ?case by (simp add: active_update_requests_of expire_def)
qed

section \<open>A concrete process\<close>

definition demo_loc :: lws_loc_conf where
  "demo_loc = \<lparr>l_path = [], l_cpath = [], l_states_max = 1, l_requests_max = 1,
     l_state_memory_max = 0, l_state_gc = 0, l_state_requests_max = 2, l_state_time_max = 0,
     l_state_timeout = 0, l_diagnostic = False, l_states_n = 0, l_states = [], l_requests_n = 0,
     l_requests = [], l_qev = False\<rparr>"

definition demo_process :: lws_process where
  "demo_process = \<lparr>q_world = \<lparr>w_llcf = demo_loc,
       w_monitor = Some \<lparr>m_states_n = 0, m_requests_n = 0, m_memory_used = 0, m_request_count = 0,
         m_profiler = 0\<rparr>, w_closed = [], w_leaked = 0\<rparr>,
     q_active = [], q_done = [], q_final = []\<rparr>"

definition demo_answers :: "bool \<Rightarrow> lws_answers" where
  "demo_answers ini = \<lparr>n_create = \<lparr>a_calloc = True, a_newstate = True, a_init = ini, a_memory = 0\<rparr>,
     n_now = 5, n_used = 100, n_collected = 50, n_task_alloc = True, n_task_post = True,
     n_body = True, n_body_stream = True\<rparr>"

definition demo_ctx :: "nat \<Rightarrow> lws_request_ctx" where
  "demo_ctx i = \<lparr>c_id = i, c_rc = 0, c_diagnostic = []\<rparr>"

definition demo_arrive :: "bool \<Rightarrow> nat \<Rightarrow> lws_process \<Rightarrow> lws_process" where
  "demo_arrive ini i q = lws_body_handler (demo_answers ini) (demo_ctx i) q"

lemma demo_process_start: "lws_start demo_process"
  by (simp add: lws_start_def demo_process_def demo_loc_def)

lemma demo_arrive_reach: "lws_reach f q \<Longrightarrow> ini \<or> f \<Longrightarrow> lws_reach f (demo_arrive ini i q)"
  unfolding demo_arrive_def by (rule lws_reach.step, assumption, rule lws_step.body)
    (simp add: demo_answers_def)

lemmas demo_run_defs = demo_arrive_def demo_answers_def demo_ctx_def demo_process_def demo_loc_def
  lws_body_handler_def lws_state_handler_def lws_acquire_state_def lws_create_state_def
  lws_close_state_def lws_release_state_def state_available_def finalize_request_def Let_def
  zero_state_def lws_set_state_timer_def NGX_TIMER_INFINITE_def monitor_add_def

definition demo_busy :: lws_process where
  "demo_busy = demo_arrive True 2 (demo_arrive True 1 demo_process)"

lemma demo_busy_reach: "lws_reach False demo_busy"
  unfolding demo_busy_def
  by (intro demo_arrive_reach lws_reach.start demo_process_start) simp_all

lemma demo_busy_requests: "l_requests (llcf_of demo_busy) = [demo_ctx 2]"
  by (simp add: demo_busy_def demo_run_defs)

text \<open>The location allows one state and one waiting request, so a third request is refused.\<close>

theorem lws_requests_conserved_witness:
  "requests_of demo_busy = {#1, 2#} \<and> requests_of (demo_arrive True 3 demo_busy) = {#1, 2, 3#} \<and>
   q_final (demo_arrive True 3 demo_busy) = [(3, 503)]"
proof -
  have busy: "requests_of demo_busy = {#1, 2#}" "\<not> state_available (llcf_of demo_busy)" "q_final demo_busy = []"
    "l_requests_n (llcf_of demo_busy) = 1" "l_requests_max (llcf_of demo_busy) = 1"
    by (simp_all add: requests_of_def demo_busy_def demo_run_defs)
  have "lws_step False (Some (demo_ctx 3)) demo_busy (demo_arrive True 3 demo_busy)"
    unfolding demo_arrive_def by (rule lws_step.body) (simp add: demo_answers_def)
  from lws_requests_conserved [OF this] busy
  have "requests_of (demo_arrive True 3 demo_busy) = {#1, 2, 3#}" by (simp add: demo_ctx_def)
  moreover have "q_final (demo_arrive True 3 demo_busy) = [(3, 503)]"
    using busy by (simp add: demo_arrive_def lws_body_handler_def demo_answers_def demo_ctx_def finalize_request_def Let_def)
  ultimately show ?thesis using busy(1) by blast
qed

section \<open>The invariant\<close>

lemma process_okD:
  assumes "process_ok q"
  shows "l_states_n (llcf_of q) = of_nat (length (l_states (llcf_of q)) + length (q_active q))"
    "l_states_max (llcf_of q) \<noteq> 0 \<Longrightarrow>
      length (l_states (llcf_of q)) + length (q_active q) \<le> unat (l_states_max (llcf_of q))"
    "l_requests_n (llcf_of q) = of_nat (length (l_requests (llcf_of q)))"
    "l_requests_max (llcf_of q) \<noteq> 0 \<Longrightarrow>
      length (l_requests (llcf_of q)) \<le> unat (l_requests_max (llcf_of q))"
    "w_monitor (q_world q) = Some m \<Longrightarrow> m_states_n m = l_states_n (llcf_of q) \<and>
      m_requests_n m = l_requests_n (llcf_of q) \<and>
      m_memory_used m = memory_sum (l_states (llcf_of q) @ map snd (q_active q))"
    "s \<in> set (l_states (llcf_of q)) \<Longrightarrow> reusable (l_state_requests_max (llcf_of q)) s"
    "s \<in> set (w_closed (q_world q)) \<Longrightarrow> s_tev s = None"
    "l_requests (llcf_of q) \<noteq> [] \<Longrightarrow> l_qev (llcf_of q) \<or> q_active q \<noteq> []"
  using assms by (auto simp: process_ok_def books_ok_def requests_ok_def waiting_ok_def Let_def)

text \<open>C3: As long as no new Lua state fails to initialize, every reachable process keeps its books:
  the state and request counters are the numbers of states and of waiting requests, the limits on
  both hold, the monitor's counters agree, every inactive state is fit for the next request (not
  marked, not expired, below its request limit), no closed state has a timer, and while a request
  waits, either the queue event is set or a running task will set it.\<close>

theorem lws_process_invariant:
  assumes "lws_reach False q"
  shows "l_states_n (llcf_of q) = of_nat (length (l_states (llcf_of q)) + length (q_active q)) \<and>
    (l_states_max (llcf_of q) \<noteq> 0 \<longrightarrow>
      length (l_states (llcf_of q)) + length (q_active q) \<le> unat (l_states_max (llcf_of q))) \<and>
    l_requests_n (llcf_of q) = of_nat (length (l_requests (llcf_of q))) \<and>
    (l_requests_max (llcf_of q) \<noteq> 0 \<longrightarrow>
      length (l_requests (llcf_of q)) \<le> unat (l_requests_max (llcf_of q))) \<and>
    (\<forall>m. w_monitor (q_world q) = Some m \<longrightarrow> m_states_n m = l_states_n (llcf_of q) \<and>
      m_requests_n m = l_requests_n (llcf_of q) \<and>
      m_memory_used m = memory_sum (l_states (llcf_of q) @ map snd (q_active q))) \<and>
    (\<forall>s\<in>set (l_states (llcf_of q)). reusable (l_state_requests_max (llcf_of q)) s) \<and>
    (\<forall>s\<in>set (w_closed (q_world q)). s_tev s = None) \<and>
    (l_requests (llcf_of q) \<noteq> [] \<longrightarrow> l_qev (llcf_of q) \<or> q_active q \<noteq> [])"
  using process_okD [OF reach_ok [OF assms]] by blast

theorem lws_process_invariant_witness:
  "l_requests (llcf_of demo_busy) = [demo_ctx 2] \<and> l_requests_n (llcf_of demo_busy) = 1 \<and>
     (l_qev (llcf_of demo_busy) \<or> 0 < length (q_active demo_busy))"
  using lws_process_invariant [OF demo_busy_reach] by (simp add: demo_busy_requests)

text \<open>The requests of \<open>rs\<close> whose mark in \<open>bs\<close> is \<open>b\<close>.\<close>

definition served :: "lws_request_ctx list \<Rightarrow> bool list \<Rightarrow> bool \<Rightarrow> lws_request_ctx list" where
  "served rs bs b = map fst (filter (\<lambda>x. snd x = b) (zip rs bs))"

lemma served_Cons: "served (r # rs) (b # bs) b' = (if b = b' then r # served rs bs b' else served rs bs b')"
  by (simp add: served_def)

lemma queue_handler_order:
  "\<exists>n bs. length bs = n \<and> n \<le> length (l_requests (llcf_of q)) \<and>
     l_requests (llcf_of (lws_queue_handler ans q)) = drop n (l_requests (llcf_of q)) \<and>
     map fst (q_active (lws_queue_handler ans q)) =
       map fst (q_active q) @ served (take n (l_requests (llcf_of q))) bs True \<and>
     q_final (lws_queue_handler ans q) = q_final q @
       map (\<lambda>c. (c_id c, NGX_HTTP_INTERNAL_SERVER_ERROR))
         (served (take n (l_requests (llcf_of q))) bs False) \<and>
     (l_requests (llcf_of (lws_queue_handler ans q)) = [] \<or>
      \<not> state_available (llcf_of (lws_queue_handler ans q)))"
proof (induction ans q rule: lws_queue_handler.induct)
  case (1 ans q)
  show ?case
  proof (cases "l_requests (llcf_of q) \<noteq> [] \<and> state_available (llcf_of q)")
    case False
    then have "lws_queue_handler ans q = q" by (subst lws_queue_handler.simps) auto
    with False show ?thesis
      by (intro exI [of _ 0] exI [of _ "[]"]) (simp add: served_def)
  next
    case True
    then obtain ctx rest where r: "l_requests (llcf_of q) = ctx # rest"
      by (cases "l_requests (llcf_of q)") auto
    let ?q1 = "lws_state_handler (ans (c_id ctx)) ctx (dequeue q)"
    have eq: "lws_queue_handler ans q = lws_queue_handler ans ?q1"
      using True r by (subst lws_queue_handler.simps) (simp add: Let_def)
    have r1: "l_requests (llcf_of ?q1) = rest" using r by (simp add: state_handler_requests)
    from 1 [OF True refl] r r1 obtain n bs where
      IH: "length bs = n" "n \<le> length rest"
        "l_requests (llcf_of (lws_queue_handler ans ?q1)) = drop n rest"
        "map fst (q_active (lws_queue_handler ans ?q1)) =
          map fst (q_active ?q1) @ served (take n rest) bs True"
        "q_final (lws_queue_handler ans ?q1) = q_final ?q1 @
          map (\<lambda>c. (c_id c, NGX_HTTP_INTERNAL_SERVER_ERROR)) (served (take n rest) bs False)"
        "l_requests (llcf_of (lws_queue_handler ans ?q1)) = [] \<or>
          \<not> state_available (llcf_of (lws_queue_handler ans ?q1))"
      by auto
    define b where "b \<longleftrightarrow> q_final ?q1 = q_final q"
    from state_handler_place [of "ans (c_id ctx)" ctx "dequeue q"]
    have "map fst (q_active ?q1) = map fst (q_active q) @ (if b then [ctx] else [])"
      "q_final ?q1 = q_final q @ (if b then [] else [(c_id ctx, NGX_HTTP_INTERNAL_SERVER_ERROR)])"
      by (auto simp: b_def)
    with IH r show ?thesis
      unfolding eq by (intro exI [of _ "Suc n"] exI [of _ "b # bs"]) (simp add: served_Cons)
  qed
qed

text \<open>When the queue event fires, waiting requests are taken from the head of the queue, in order,
  until none is left or no state is available; each one taken gets a task, or is answered with
  status 500 if a state or a task cannot be had.\<close>

theorem lws_queue_in_order:
  "\<exists>n bs. length bs = n \<and> n \<le> length (l_requests (llcf_of q)) \<and>
     l_requests (llcf_of (lws_queue_handler ans q)) = drop n (l_requests (llcf_of q)) \<and>
     map fst (q_active (lws_queue_handler ans q)) =
       map fst (q_active q) @ served (take n (l_requests (llcf_of q))) bs True \<and>
     q_final (lws_queue_handler ans q) = q_final q @
       map (\<lambda>c. (c_id c, NGX_HTTP_INTERNAL_SERVER_ERROR))
         (served (take n (l_requests (llcf_of q))) bs False) \<and>
     \<not> (l_requests (llcf_of (lws_queue_handler ans q)) \<noteq> [] \<and>
        state_available (llcf_of (lws_queue_handler ans q)))"
  using queue_handler_order [of q ans] by simp

section \<open>A state that fails to initialize\<close>

text \<open>A location is wedged if it has requests to serve and no state, and yet believes to be at its
  limit of states.\<close>

definition wedged :: "lws_process \<Rightarrow> bool" where
  "wedged q \<longleftrightarrow> l_states (llcf_of q) = [] \<and> q_active q = [] \<and> \<not> l_qev (llcf_of q) \<and>
     l_states_max (llcf_of q) \<noteq> 0 \<and> l_states_max (llcf_of q) \<le> l_states_n (llcf_of q) \<and>
     l_requests (llcf_of q) \<noteq> []"

lemma wedged_step: "lws_step fails arrival q q' \<Longrightarrow> wedged q \<Longrightarrow> wedged q' \<and> q_done q' = q_done q"
  by (induction rule: lws_step.induct)
     (auto simp: wedged_def lws_body_handler_def state_available_def finalize_request_def Let_def)

lemma wedged_forever:
  "(\<lambda>q q'. \<exists>arrival. lws_step fails arrival q q')\<^sup>*\<^sup>* q q' \<Longrightarrow> wedged q \<Longrightarrow> wedged q' \<and> q_done q' = q_done q"
  by (induction rule: rtranclp_induct) (auto dest: wedged_step)

text \<open>C39: \<open>lws_close_state\<close> counts a state out that \<open>lws_create_state\<close> had not yet counted in when its
  initialization fails: after one such failure in a fresh location with a limit of one state and one
  waiting request, the counter of states has wrapped to its largest value, the next request waits
  although there is no state at all, and from then on, whatever happens, no request is ever served
  and the waiting ones stay.\<close>

theorem lws_init_failure_wedges:
  "\<exists>q. lws_reach True q \<and> l_states_n (llcf_of q) = - 1 \<and> q_final q = [(1, 500)] \<and>
     l_requests (llcf_of q) = [demo_ctx 2] \<and>
     (\<forall>q'. (\<lambda>q q'. \<exists>arrival. lws_step True arrival q q')\<^sup>*\<^sup>* q q' \<longrightarrow> q_active q' = [] \<and> q_done q' = [] \<and> l_requests (llcf_of q') \<noteq> [])"
proof -
  let ?q = "demo_arrive True 2 (demo_arrive False 1 demo_process)"
  have "lws_reach True ?q"
    by (intro demo_arrive_reach lws_reach.start demo_process_start) simp_all
  moreover have q: "l_states_n (llcf_of ?q) = - 1" "q_final ?q = [(1, 500)]"
    "l_requests (llcf_of ?q) = [demo_ctx 2]" "q_done ?q = []"
    by (simp_all add: demo_run_defs)
  moreover have "wedged ?q"
    using q by (simp add: wedged_def) (simp add: demo_run_defs)
  ultimately show ?thesis
    using wedged_forever [of True ?q] by (intro exI [of _ ?q]) (auto simp: wedged_def)
qed

theorem lws_init_failure_wedges_witness:
  "\<exists>q. lws_reach True q \<and> l_states_n (llcf_of q) = - 1"
  using lws_init_failure_wedges by blast

section \<open>The timer\<close>

text \<open>The timer of a state is set to the earlier of its end of life and its idle timeout, also when
  that time has already passed and the delay that the code computes wraps below zero; it is not set
  if neither is limited.\<close>

theorem lws_set_state_timer_expiry:
  "s_tev (lws_set_state_timer now s) =
     (if s_time_max s = NGX_TIMER_INFINITE \<and> s_timeout s = NGX_TIMER_INFINITE then None
      else Some (min (s_timeout s) (s_time_max s)))"
  by (rule timer_key)

end
