(* ===== verification/LwsRequest.thy ===== *)
theory LwsRequest
  imports LwsRunCorrect LwsFinal LwsQueueCorrect
begin

text \<open>
  A request from the Lua code to the response: \<open>lws_run\<close> (src/lws_lib.c) under the protected call of
  \<open>lws_run_state\<close> (src/lws_state.c), whose result the finalization handler (src/lws_module.c) turns into
  the response. The response streaming of the location is off here; LwsStreamCorrect has the other case.
\<close>

text \<open>The string that a pointer and a length stand for. A pointer that is NULL with a length that is not
  zero stands for none.\<close>

definition dangling :: "dup_str \<Rightarrow> bool" where
  "dangling d \<longleftrightarrow> fst d = None \<and> snd d \<noteq> 0"

definition dup_value :: "dup_str \<Rightarrow> ngx_str" where
  "dup_value d = (case fst d of None \<Rightarrow> [] | Some s \<Rightarrow> take (snd d) s)"

text \<open>The fields of the request context that the Lua thread hands to the finalization handler.\<close>

definition handed_over :: "int \<Rightarrow> ngx_str \<Rightarrow> lws_lua_request_ctx \<Rightarrow> lws_stream \<Rightarrow> lws_stream" where
  "handed_over rc diagnostic k x =
     x\<lparr>x_rc := rc, x_diagnostic := diagnostic, x_status := k_status k, x_headers := k_headers k,
       x_redirect := dup_value (k_redirect k), x_redirect_args := k_redirect_args k,
       x_body := k_body k\<rparr>"

text \<open>The finalization handler tests the length of the redirect and then reads its first byte, after it has
  dealt with streaming and with Lua errors. The result is \<open>None\<close> if this reads through NULL.\<close>

definition lws_finalize_run ::
  "lws_env \<Rightarrow> (ngx_str \<Rightarrow> int) \<Rightarrow> lws_fmt \<Rightarrow> nat \<Rightarrow> lws_final_answers \<Rightarrow> int \<Rightarrow> ngx_str \<Rightarrow> lws_lua_request_ctx \<Rightarrow>
   lws_stream \<Rightarrow> lws_stream option" where
  "lws_finalize_run E parse_time F error_response ans rc diagnostic k x =
     (let x = handed_over rc diagnostic k x; w = lws_finalize_streaming ans x in
      if \<not> (r_header_sent w \<or> x_conn w \<or> x_streaming_rc w \<noteq> NGX_OK) \<and> \<not> x_rc w < 0 \<and> dangling (k_redirect k) then None
      else Some (lws_finalization_response E parse_time F error_response ans x))"

lemma handed_over_predicates:
  "no_body (handed_over rc d k x) = no_body x" "header_passed a (handed_over rc d k x) = header_passed a x"
  "no_body (x\<lparr>x_status := s, x_body := b\<rparr>) = no_body x" "header_passed a (x\<lparr>x_status := s, x_body := b\<rparr>) = header_passed a x"
  by (simp_all add: handed_over_def no_body_def header_passed_def fun_eq_iff)

lemma handed_over_sel:
  "r_headers (handed_over rc d k x) = r_headers x" "r_out (handed_over rc d k x) = r_out x"
  "r_final (handed_over rc d k x) = r_final x" "r_main (handed_over rc d k x) = r_main x"
  "x_status (handed_over rc d k x) = k_status k" "x_body (handed_over rc d k x) = k_body k"
  by (simp_all add: handed_over_def)

lemma handed_over_frame:
  "response_ok (handed_over rc d k x) y = response_ok x y"
  "error_outcome F er a dia status (handed_over rc d k x) y = error_outcome F er a dia status x y"
  "lua_outcome ans lines (handed_over rc d k x) y =
    lua_outcome ans lines (x\<lparr>x_status := k_status k, x_body := k_body k\<rparr>) y"
  by (simp_all add: handed_over_predicates handed_over_sel response_ok_def error_outcome_def lua_outcome_def)

lemma finalize_run_unstreamed:
  assumes "\<not> x_conn x" "\<not> r_header_sent x" "x_streaming_rc x = NGX_OK"
  shows "lws_finalize_run E parse_time F er ans rc d k x =
    (if \<not> rc < 0 \<and> dangling (k_redirect k) then None
     else Some (lws_finalization_response E parse_time F er ans (handed_over rc d k x)))"
  using assms by (simp add: lws_finalize_run_def Let_def finalize_streaming_check lws_check_streaming_def handed_over_def)

lemma run_result_int: "result_ok n \<Longrightarrow> sint (ucast (of_int n :: 64 word) :: 32 word) = n"
proof -
  assume "result_ok n"
  then have n: "0 \<le> n" "n < 2 ^ 31" by (simp_all add: result_ok_def)
  have "sint (of_int n :: 64 word) = n"
    using n by (simp add: signed_of_int signed_take_bit_int_eq_self)
  with sint_narrow [of "of_int n"] n show ?thesis by simp
qed

text \<open>C5: A request to a location without streaming, from its Lua code to its response. If a chunk fails,
  the Lua state is closed and the client gets an error with status 500. If none fails, the result of the
  run is the result that \<open>lws_run_state\<close> returns, and: if a redirect was scheduled, the request goes
  there, with the arguments that were scheduled, and nothing is sent; otherwise, if the result is 0, the
  response has the status and the header lines that Lua set, and its body consists of the bytes that Lua
  wrote, unless HTTP forbids a body, NGINX turns the header down, or an allocation or a flush fails; if the
  result is not 0, the client gets an error with that status, or 500 if it is none. Every request is finalized
  exactly once, and a body is as long as announced. The exception: if there was no memory for the copy of
  the redirect and the Lua code went on, the handler reads through a NULL pointer.\<close>

theorem lws_request_correct:
  fixes parse_time error_response ans
  assumes "ctx_ok E k" "fmt_ok F"
    and k: "\<not> k_pipe1 k" "k_pipe k = []" "k_body k = []" "k_written k = []" "\<not> k_broken k"
    and x: "\<not> x_conn x" "\<not> r_header_sent x" "x_streaming_rc x = NGX_OK"
    and run: "lws_run LL E conf k = Some (res, k')"
    and state: "lws_run_state (pcall_result LL res) alloc_ok llcf st ctx = (rc, st', ctx')"
  defines "final \<equiv> lws_finalize_run E parse_time F error_response ans rc (c_diagnostic ctx') k' x"
    and "lines \<equiv> r_headers x @ all_lines E (lru_items (lws_table_abs (k_headers k')))"
  shows "case res of
      Inl e \<Rightarrow> rc = -1 \<and> s_close st' \<and> (\<exists>y. final = Some y \<and> response_ok x y \<and>
        error_outcome F error_response (fa_error ans) (c_diagnostic ctx') NGX_HTTP_INTERNAL_SERVER_ERROR x y)
    | Inr n \<Rightarrow> rc = n \<and>
        (if dangling (k_redirect k') then final = None
         else \<exists>y redirect. final = Some y \<and> response_ok x y \<and> redirect = dup_value (k_redirect k') \<and>
           (if redirect \<noteq> [] then
              r_out y = r_out x \<and> r_final y = r_final x @ [fa_redirect ans] \<and>
              (if hd redirect = 64 then x_named y = Some (tl redirect)
               else x_internal y = Some (redirect, k_redirect_args k'))
            else
              (\<exists>n. \<not> fa_push ans n) \<and> r_out y = r_out x \<and> r_final y = r_final x @ [NGX_HTTP_INTERNAL_SERVER_ERROR] \<or>
              (if n = 0 then lua_outcome ans lines (x\<lparr>x_status := k_status k', x_body := k_written k'\<rparr>) y
               else error_outcome F error_response (fa_error ans) (c_diagnostic ctx') (final_status n) x y \<and>
                 (\<exists>hs. r_headers y = lines @ hs))))"
proof -
  let ?x = "handed_over rc (c_diagnostic ctx') k' x"
  have ok: "ctx_ok E k'" "run_outcome conf k res k'"
    by (rule seal.run_rel [OF assms(1), of LL conf]; use run in auto)+
  have "body_rel E (lws_create_lua_request_ctx k) k'"
    by (rule body.run_rel [OF assms(1), of LL conf]) (use run in auto)
  with k have written: "k_body k' = k_written k'"
    by (auto simp: body_rel_def lws_create_lua_request_ctx_def)
  have rc: "case res of Inl e \<Rightarrow> rc = -1 \<and> s_close st' | Inr n \<Rightarrow> rc = n \<and> n \<ge> 0"
  proof (cases res)
    case (Inl e)
    with state show ?thesis
      by (auto simp: pcall_result_def lws_run_state_def Let_def split: if_splits)
  next
    case (Inr n)
    with run_outcome_ok ok(2) have "result_ok n" by (auto simp: run_shape_def)
    with run_result_int [OF this] state Inr show ?thesis
      by (auto simp: pcall_result_def lws_run_state_def result_ok_def)
  qed
  have "table_wf E (x_headers ?x)" "strncasecmp_ok E" "\<not> x_conn ?x" "\<not> r_header_sent ?x" "x_streaming_rc ?x = NGX_OK"
    using ok(1) x by (simp_all add: ctx_ok_def plain_table_def handed_over_def)
  from finalization_unstreamed [OF this(1,2) assms(2) this(3-5), of parse_time error_response ans]
  have fin: "response_ok x y" "final_outcome E F error_response ans ?x y"
    if "y = lws_finalization_response E parse_time F error_response ans ?x" for y
    using that by (simp_all add: handed_over_frame)
  have sel: "x_rc ?x = rc" "x_redirect ?x = dup_value (k_redirect k')" "x_redirect_args ?x = k_redirect_args k'"
    "x_diagnostic ?x = c_diagnostic ctx'" "x_headers ?x = k_headers k'"
    by (simp_all add: handed_over_def)
  have final: "final = (if \<not> rc < 0 \<and> dangling (k_redirect k') then None
      else Some (lws_finalization_response E parse_time F error_response ans ?x))"
    unfolding final_def by (rule finalize_run_unstreamed [OF x])
  show ?thesis
  proof (cases res)
    case (Inl e)
    with rc fin sel final show ?thesis by (simp add: final_outcome_def handed_over_frame handed_over_sel)
  next
    case (Inr n)
    with rc have n: "rc = n" "\<not> n < 0" by simp_all
    show ?thesis
    proof (cases "dangling (k_redirect k')")
      case True
      with Inr n final show ?thesis by simp
    next
      case False
      with n final obtain y where y: "final = Some y" "y = lws_finalization_response E parse_time F error_response ans ?x" by simp
      from Inr n False y(1) fin [OF y(2)] sel written show ?thesis
        by (simp add: final_outcome_def handed_over_frame handed_over_sel lines_def Let_def del: lws_table_abs_sel split: if_splits)
    qed
  qed
qed

definition hello_lua :: lws_lua where
  "hello_lua = demo_lua\<lparr>ll_load := [lit ''main'' \<mapsto> Call demo_ans (BodyWrite (lit ''Hello'')) (\<lambda>_. Return LuaNil)]\<rparr>"

definition hello_conf :: lws_chunk_conf where
  "hello_conf = \<lparr>cc_init = [], cc_pre = [], cc_main = lit ''main'', cc_post = [], cc_profiler = None\<rparr>"

definition hello_ctx :: lws_lua_request_ctx where
  "hello_ctx = demo_lctx\<lparr>k_pipe1 := False\<rparr>"

definition hello_after :: lws_lua_request_ctx where
  "hello_after = hello_ctx\<lparr>k_chunk := LWS_LC_MAIN, k_env := True, k_init := True,
     k_raw := [lit ''headers'' \<mapsto> LuaOther, lit ''body'' \<mapsto> LuaOther],
     k_body := lit ''Hello'', k_written := lit ''Hello'', k_trace := [(LWS_LC_MAIN, Inr 0)],
     k_chunks := [lit ''main'' \<mapsto> (Call demo_ans (BodyWrite (lit ''Hello'')) (\<lambda>_. Return LuaNil), ENV_GLOBALS)]\<rparr>"

lemma hello_run: "lws_run hello_lua demo_env hello_conf hello_ctx = Some (Inr 0, hello_after)"
  by (simp add: lws_run_def profiler_call_def run_chunks_def run_init_def run_main_def run_post_def call_if_def then_ok_def hello_conf_def
      hello_ctx_def hello_after_def demo_lctx_def hello_lua_def lws_call_def get_chunk_def set_chunk_env_def
      check_result_def chunk_result_def finish_call_def api_call_def body_write_def Let_def
      lws_create_lua_request_ctx_def lws_push_env_def run_clear_def lws_clear_env_def)

theorem lws_request_correct_witness:
  "\<exists>y. lws_finalize_run demo_env (\<lambda>_. 0) demo_fmt LWS_ER_JSON demo_fa 0 [] hello_after demo_done = Some y \<and>
     r_final y = [NGX_OK] \<and> r_out y = lit ''Hello'' \<and> r_status y = 200 \<and> r_content_length y = Some 5"
proof -
  have ok: "ctx_ok demo_env hello_ctx" using demo_lctx_ok by (simp add: ctx_ok_def hello_ctx_def)
  have d: "\<not> x_conn demo_done" "\<not> r_header_sent demo_done"
    "x_streaming_rc demo_done = NGX_OK" "r_out demo_done = []" "r_final demo_done = []"
    "\<not> no_body demo_done 200" "header_passed (fa_header demo_fa) demo_done"
    by (simp_all add: demo_done_def demo_stream_defs no_body_def header_passed_def demo_fa_def)
  have k: "\<not> k_pipe1 hello_ctx" "k_pipe hello_ctx = []" "k_body hello_ctx = []" "k_written hello_ctx = []"
    "\<not> k_broken hello_ctx" by (simp_all add: hello_ctx_def demo_lctx_def)
  have after: "k_redirect hello_after = (None, 0)" "k_written hello_after = lit ''Hello''" "k_status hello_after = 200"
    by (simp_all add: hello_after_def hello_ctx_def demo_lctx_def)
  have state: "lws_run_state (pcall_result hello_lua (Inr 0)) True demo_loc zero_state
      \<lparr>c_id = 0, c_rc = 0, c_diagnostic = []\<rparr> = (0, zero_state, \<lparr>c_id = 0, c_rc = 0, c_diagnostic = []\<rparr>)"
    by (simp add: lws_run_state_def pcall_result_def)
  from lws_request_correct [OF ok demo_fmt_ok k d(1-3) hello_run state, where parse_time = "\<lambda>_. 0"
      and error_response = LWS_ER_JSON and ans = demo_fa] after d
  show ?thesis
    by (auto simp: dangling_def dup_value_def response_ok_def lua_outcome_def no_body_def header_passed_def demo_fa_def lit_def)
qed

end
