(* ===== verification/LwsHeaders.thy ===== *)
theory LwsHeaders
  imports LwsTableMap LwsResponse
begin

text \<open>
  The request headers as \<open>lws_handler\<close> (src/lws_module.c) prepares them for Lua: headers that occur more
  than once, up to letter case, become one header whose value is the list of their values.

  Representation. The table maps a name to the address of a \<open>lws_request_header_t\<close>, whose first member
  is the value that Lua reads; the loops write through that address, so the structures live in a heap.
  \<open>value.data\<close> is the buffer it points to, \<open>last\<close> an offset into that buffer. \<open>headers_in\<close> is the
  concatenation of the parts of the NGINX list, and \<open>i\<close> is the position in it. A write beyond the end
  of a buffer has no result.
\<close>

record lws_request_header =
  rh_len :: nat
  rh_data :: ngx_str
  rh_last :: "nat option"
  rh_count :: nat

type_synonym header_heap = "nat \<rightharpoonup> lws_request_header"

type_synonym header_state = "nat lws_table \<times> header_heap"

text \<open>The first loop: find or make the structure of each name, and add up the lengths. \<open>env i\<close> and
  \<open>fresh i\<close> are the environment and the answer of \<open>ngx_palloc\<close> at the header \<open>i\<close>. The result is
  \<open>Inl\<close> if the handler returns an error, and \<open>None\<close> for a lookup that does not end.\<close>

fun collect_headers ::
  "(nat \<Rightarrow> lws_env) \<Rightarrow> (nat \<Rightarrow> nat option) \<Rightarrow> nat \<Rightarrow> (ngx_str \<times> ngx_str) list \<Rightarrow> header_state \<Rightarrow>
   (header_state + header_state) option" where
  "collect_headers env fresh i [] (t, h) = Some (Inr (t, h))"
| "collect_headers env fresh i ((key, val) # hs) (t, h) =
     (case lws_table_get (env i) t key of
        None \<Rightarrow> None
      | Some (None, t) \<Rightarrow>
          (case fresh i of
             None \<Rightarrow> Some (Inl (t, h))
           | Some q \<Rightarrow>
               let h = h(q \<mapsto> \<lparr>rh_len = length val, rh_data = val, rh_last = None, rh_count = 1\<rparr>) in
               (case lws_table_set (env i) t key (Some q) of
                  None \<Rightarrow> None
                | Some (rc, t) \<Rightarrow>
                    if rc \<noteq> 0 then Some (Inl (t, h)) else collect_headers env fresh (Suc i) hs (t, h)))
      | Some (Some q, t) \<Rightarrow>
          let rh = the (h q);
              rh = rh\<lparr>rh_len := rh_len rh + (2 + length val)\<rparr>; rh = rh\<lparr>rh_count := rh_count rh + 1\<rparr>
          in collect_headers env fresh (Suc i) hs (t, h(q \<mapsto> rh)))"

text \<open>The body of the second loop: a buffer for each name that occurs more than once. \<open>alloc q\<close> is the
  answer of \<open>ngx_palloc\<close> for the structure at \<open>q\<close>, \<open>junk q\<close> are the bytes of the new buffer.\<close>

definition header_buffer ::
  "(nat \<Rightarrow> bool) \<Rightarrow> (nat \<Rightarrow> nat \<Rightarrow> byte) \<Rightarrow> ngx_str \<Rightarrow> nat option \<Rightarrow> header_heap \<Rightarrow> header_heap + header_heap" where
  "header_buffer alloc junk key par h =
     (let q = the par; rh = the (h q) in
      if rh_count rh > 1 then
        if \<not> alloc q then Inl h
        else Inr (h(q \<mapsto> rh\<lparr>rh_data := map (junk q) [0..<rh_len rh]\<rparr>))
      else Inr h)"

text \<open>\<open>ngx_cpymem\<close> into a buffer.\<close>

definition put_bytes :: "nat \<Rightarrow> ngx_str \<Rightarrow> ngx_str \<Rightarrow> ngx_str option" where
  "put_bytes pos bytes buf =
     (if pos + length bytes \<le> length buf
      then Some (take pos buf @ bytes @ drop (pos + length bytes) buf) else None)"

text \<open>The third loop: append the values.\<close>

definition append_value :: "ngx_str \<Rightarrow> lws_request_header \<Rightarrow> lws_request_header option" where
  "append_value val rh = do {
     rh \<leftarrow> (case rh_last rh of
        Some pos \<Rightarrow> do {
          data \<leftarrow> put_bytes pos (lit '', '') (rh_data rh);
          Some (rh\<lparr>rh_data := data, rh_last := Some (pos + length (lit '', ''))\<rparr>)
        }
      | None \<Rightarrow> Some (rh\<lparr>rh_last := Some 0\<rparr>));
     let pos = the (rh_last rh);
     data \<leftarrow> put_bytes pos val (rh_data rh);
     Some (rh\<lparr>rh_data := data, rh_last := Some (pos + length val)\<rparr>)
   }"

fun fill_headers ::
  "lws_env \<Rightarrow> (ngx_str \<times> ngx_str) list \<Rightarrow> header_state \<Rightarrow> header_state option" where
  "fill_headers E [] (t, h) = Some (t, h)"
| "fill_headers E ((key, val) # hs) (t, h) =
     (case lws_table_get E t key of
        None \<Rightarrow> None
      | Some (par, t) \<Rightarrow>
          let q = the par; rh = the (h q) in
          if rh_count rh = 1 then fill_headers E hs (t, h)
          else
            (case append_value val rh of
               None \<Rightarrow> None | Some rh \<Rightarrow> fill_headers E hs (t, h(q \<mapsto> rh))))"

text \<open>The three loops. The outer \<open>None\<close> is a loop that does not end or a write out of bounds.\<close>

definition request_headers ::
  "(nat \<Rightarrow> lws_env) \<Rightarrow> (nat \<Rightarrow> nat option) \<Rightarrow> (nat \<Rightarrow> bool) \<Rightarrow> (nat \<Rightarrow> nat \<Rightarrow> byte) \<Rightarrow>
   (ngx_str \<times> ngx_str) list \<Rightarrow> nat lws_table \<Rightarrow> (header_state + header_state) option" where
  "request_headers env fresh alloc junk headers_in t =
     (case collect_headers env fresh 0 headers_in (t, Map.empty) of
        None \<Rightarrow> None
      | Some (Inl s) \<Rightarrow> Some (Inl s)
      | Some (Inr (t, h)) \<Rightarrow>
          (case lws_table_each (env 0) t (header_buffer alloc junk) None h of
             None \<Rightarrow> None
           | Some (Inl h) \<Rightarrow> Some (Inl (t, h))
           | Some (Inr h) \<Rightarrow> map_option Inr (fill_headers (env 0) headers_in (t, h))))"

section \<open>What Lua reads\<close>

text \<open>The values of the headers of one name, and the value that the table holds.\<close>

definition header_values :: "(ngx_str \<Rightarrow> ngx_str) \<Rightarrow> (ngx_str \<times> ngx_str) list \<Rightarrow> ngx_str \<Rightarrow> ngx_str list" where
  "header_values n hs k = map snd (filter (\<lambda>x. n (fst x) = k) hs)"

definition joined :: "ngx_str list \<Rightarrow> ngx_str" where
  "joined vs = join_with (lit '', '') vs"

definition header_value :: "header_heap \<Rightarrow> nat option \<Rightarrow> ngx_str option" where
  "header_value h par = map_option (\<lambda>q. take (rh_len (the (h q))) (rh_data (the (h q)))) par"

lemma header_values_simps [simp]:
  "header_values n [] k = []"
  "header_values n (hs @ [x]) k = header_values n hs k @ (if n (fst x) = k then [snd x] else [])"
  "header_values n (x # hs) k = (if n (fst x) = k then [snd x] else []) @ header_values n hs k"
  by (simp_all add: header_values_def)

lemma header_values_append: "header_values n (hs @ hs') k = header_values n hs k @ header_values n hs' k"
  by (simp add: header_values_def)

lemma joined_snoc: "joined (vs @ [v]) = (if vs = [] then v else joined vs @ lit '', '' @ v)"
proof (induction vs)
  case (Cons u vs)
  then show ?case by (cases vs) (simp_all add: joined_def)
qed (simp add: joined_def)

lemma joined_prefix: "length (joined vs) \<le> length (joined (vs @ ws))"
proof (induction ws rule: rev_induct)
  case (snoc w ws)
  then show ?case by (simp add: joined_snoc append_assoc [symmetric] del: append_assoc) (simp add: joined_def)
qed simp

section \<open>The first loop\<close>

text \<open>The structures after the headers \<open>ps\<close> were seen.\<close>

definition collected :: "lws_env \<Rightarrow> (ngx_str \<times> ngx_str) list \<Rightarrow> header_state \<Rightarrow> bool" where
  "collected E ps s \<longleftrightarrow> (case s of (t, h) \<Rightarrow> class_table E t \<and>
     inj_on (class_view E t) (dom (class_view E t)) \<and>
     (\<forall>k. case class_view E t k of
        None \<Rightarrow> header_values (norm_key E t) ps k = []
      | Some q \<Rightarrow> (let vs = header_values (norm_key E t) ps k in vs \<noteq> [] \<and>
          h q = Some \<lparr>rh_len = length (joined vs), rh_data = hd vs, rh_last = None, rh_count = length vs\<rparr>)))"

lemma collected_some:
  assumes "collected E ps (t, h)" "class_view E t k = Some q"
  shows "header_values (norm_key E t) ps k \<noteq> []"
    "h q = Some \<lparr>rh_len = length (joined (header_values (norm_key E t) ps k)),
       rh_data = hd (header_values (norm_key E t) ps k), rh_last = None,
       rh_count = length (header_values (norm_key E t) ps k)\<rparr>"
  using assms by (auto simp: collected_def Let_def split: option.splits)

lemma collected_none: "collected E ps (t, h) \<Longrightarrow> class_view E t k = None \<Longrightarrow> header_values (norm_key E t) ps k = []"
  by (auto simp: collected_def dest!: spec [of _ k])

lemma collected_other:
  assumes "collected E ps (t, h)" "class_view E t k = Some q" "class_view E t k' = Some q" 
  shows "k' = k"
  using assms by (auto simp: collected_def dom_def inj_on_def)

lemma collectedI:
  assumes "class_table E t" "inj_on (class_view E t) (dom (class_view E t))"
    and "\<And>k. class_view E t k = None \<Longrightarrow> header_values (norm_key E t) ps k = []"
    and "\<And>k q vs. class_view E t k = Some q \<Longrightarrow> vs = header_values (norm_key E t) ps k \<Longrightarrow> vs \<noteq> [] \<and>
      h q = Some \<lparr>rh_len = length (joined vs), rh_data = hd vs, rh_last = None, rh_count = length vs\<rparr>"
  shows "collected E ps (t, h)"
  using assms by (auto simp: collected_def Let_def split: option.split)

lemma collect_old:
  assumes c: "collected E ps (t, h)" and q: "class_view E t (norm_key E t key) = Some q"
  defines "rh \<equiv> the (h q)"
  shows "collected E (ps @ [(key, val)])
    (t, h(q \<mapsto> rh\<lparr>rh_len := rh_len rh + (2 + length val), rh_count := rh_count rh + 1\<rparr>))"
proof -
  let ?n = "norm_key E t"
  note old = collected_some [OF c q]
  show ?thesis
  proof (rule collectedI)
    show "class_table E t" "inj_on (class_view E t) (dom (class_view E t))"
      using c by (auto simp: collected_def)
    show "header_values ?n (ps @ [(key, val)]) k = []" if "class_view E t k = None" for k
      using collected_none [OF c that] q that by auto
    fix k q' vs
    assume q': "class_view E t k = Some q'" and vs: "vs = header_values ?n (ps @ [(key, val)]) k"
    show "vs \<noteq> [] \<and> (h(q \<mapsto> rh\<lparr>rh_len := rh_len rh + (2 + length val), rh_count := rh_count rh + 1\<rparr>)) q' =
      Some \<lparr>rh_len = length (joined vs), rh_data = hd vs, rh_last = None, rh_count = length vs\<rparr>"
    proof (cases "k = ?n key")
      case True
      with old q q' show ?thesis
        by (simp add: vs rh_def joined_snoc)
    next
      case False
      then have "q' \<noteq> q" using collected_other [OF c q] q' by blast
      with collected_some [OF c q'] False show ?thesis by (simp add: vs)
    qed
  qed
qed

lemma collect_new:
  assumes c: "collected E ps (t, h)" and none: "class_view E t (norm_key E t key) = None"
    and fresh: "h q = None"
    and t': "class_table E t'" "norm_key E t' = norm_key E t"
      "class_view E t' = (class_view E t)(norm_key E t key \<mapsto> q)"
  shows "collected E (ps @ [(key, val)])
    (t', h(q \<mapsto> \<lparr>rh_len = length val, rh_data = val, rh_last = None, rh_count = 1\<rparr>))"
proof -
  let ?n = "norm_key E t"
  have old: "class_view E t k \<noteq> Some q" for k
    using collected_some(2) [OF c, of k q] fresh by auto
  show ?thesis
  proof (rule collectedI)
    show "class_table E t'" by (rule t'(1))
    show "inj_on (class_view E t') (dom (class_view E t'))"
      using c old none unfolding t'(3) by (auto simp: collected_def inj_on_def dom_def)
    show "header_values (norm_key E t') (ps @ [(key, val)]) k = []" if "class_view E t' k = None" for k
      using collected_none [OF c, of k] that unfolding t'(2,3) by (auto split: if_splits)
    fix k q' vs
    assume q': "class_view E t' k = Some q'" and vs: "vs = header_values (norm_key E t') (ps @ [(key, val)]) k"
    show "vs \<noteq> [] \<and> (h(q \<mapsto> \<lparr>rh_len = length val, rh_data = val, rh_last = None, rh_count = 1\<rparr>)) q' =
      Some \<lparr>rh_len = length (joined vs), rh_data = hd vs, rh_last = None, rh_count = length vs\<rparr>"
    proof (cases "k = ?n key")
      case True
      with collected_none [OF c none] q' show ?thesis
        by (simp add: vs t'(2,3) joined_def)
    next
      case False
      with q' have q1: "class_view E t k = Some q'" by (simp add: t'(3))
      with old have "q' \<noteq> q" by blast
      with collected_some [OF c q1] False show ?thesis by (simp add: vs t'(2))
    qed
  qed
qed

lemma collected_process:
  assumes "collected E ps (t, h)" "same_process E' E"
  shows "collected E' ps (t, h)"
proof -
  from assms(1) have "class_table E t" by (simp add: collected_def)
  note p = class_process [OF this assms(2)]
  from assms(1) p(1) show ?thesis unfolding collected_def prod.case p(2,3) by blast
qed

text \<open>Fresh addresses: new memory, and each answer is a different block.\<close>

definition fresh_ok :: "(nat \<Rightarrow> nat option) \<Rightarrow> nat \<Rightarrow> header_heap \<Rightarrow> bool" where
  "fresh_ok fresh i h \<longleftrightarrow> (\<forall>j q. i \<le> j \<longrightarrow> fresh j = Some q \<longrightarrow> h q = None) \<and>
     (\<forall>j j' q. fresh j = Some q \<longrightarrow> fresh j' = Some q \<longrightarrow> j = j')"

lemma fresh_ok_old: "fresh_ok fresh i h \<Longrightarrow> h q \<noteq> None \<Longrightarrow> fresh_ok fresh (Suc i) (h(q \<mapsto> rh))"
  by (auto simp: fresh_ok_def) (metis Suc_leD option.distinct(1))+

lemma fresh_ok_new: "fresh_ok fresh i h \<Longrightarrow> fresh i = Some q \<Longrightarrow> fresh_ok fresh (Suc i) (h(q \<mapsto> rh))"
  unfolding fresh_ok_def by (metis Suc_le_D Suc_le_lessD fun_upd_apply less_irrefl_nat less_or_eq_imp_le)

text \<open>The loop fails at a header for which no structure is to be had, or whose name does not get into
  the table.\<close>

definition collect_failed ::
  "(nat \<Rightarrow> lws_env) \<Rightarrow> (nat \<Rightarrow> nat option) \<Rightarrow> nat \<Rightarrow> (ngx_str \<times> ngx_str) list \<Rightarrow> header_state \<Rightarrow> bool" where
  "collect_failed env fresh i hs s \<longleftrightarrow> (\<exists>j t h. j < length hs \<and>
     collect_headers env fresh i (take j hs) s = Some (Inr (t, h)) \<and>
     lws_table_get (env (i + j)) t (fst (hs ! j)) = Some (None, t) \<and>
     (fresh (i + j) = None \<or> \<not> lws_table_set_ok (env (i + j)) t (fst (hs ! j))))"

definition collect_ok where
  "collect_ok E env fresh ps i hs s r \<longleftrightarrow> (case r of
     Inl s' \<Rightarrow> table_wf E (fst s') \<and> collect_failed env fresh i hs s
   | Inr s' \<Rightarrow> collected E (ps @ hs) s' \<and> norm_key E (fst s') = norm_key E (fst s))"

lemma collect_ok_step:
  assumes step: "\<And>ys. collect_headers env fresh i (x # ys) s = collect_headers env fresh (Suc i) ys s'"
    and norm: "norm_key E (fst s') = norm_key E (fst s)"
    and ok: "\<exists>r. collect_headers env fresh (Suc i) hs s' = Some r \<and> collect_ok E env fresh (ps @ [x]) (Suc i) hs s' r"
  shows "\<exists>r. collect_headers env fresh i (x # hs) s = Some r \<and> collect_ok E env fresh ps i (x # hs) s r"
proof -
  have "collect_failed env fresh i (x # hs) s" if "collect_failed env fresh (Suc i) hs s'"
  proof -
    from that obtain j t h where "j < length hs" "collect_headers env fresh (Suc i) (take j hs) s' = Some (Inr (t, h))"
      "lws_table_get (env (Suc i + j)) t (fst (hs ! j)) = Some (None, t)"
      "fresh (Suc i + j) = None \<or> \<not> lws_table_set_ok (env (Suc i + j)) t (fst (hs ! j))"
      unfolding collect_failed_def by blast
    then show ?thesis
      unfolding collect_failed_def by (intro exI [of _ "Suc j"] exI [of _ t] exI [of _ h]) (simp add: step)
  qed
  moreover from ok obtain r where "collect_headers env fresh (Suc i) hs s' = Some r"
    "collect_ok E env fresh (ps @ [x]) (Suc i) hs s' r" by blast
  ultimately show ?thesis using norm by (cases r) (simp_all add: step collect_ok_def)
qed

lemma collect_fail_now:
  "lws_table_get (env i) (fst s) (fst x) = Some (None, fst s) \<Longrightarrow>
   fresh i = None \<or> \<not> lws_table_set_ok (env i) (fst s) (fst x) \<Longrightarrow> collect_failed env fresh i (x # hs) s"
  unfolding collect_failed_def
  by (intro exI [of _ 0] exI [of _ "fst s"] exI [of _ "snd s"]) (cases s, simp)

lemma collect_spec:
  assumes env: "\<And>i. same_process (env i) E" "strncasecmp_ok E"
  shows "collected E ps (t, h) \<Longrightarrow> fresh_ok fresh i h \<Longrightarrow> \<forall>x\<in>set hs. 0 \<notin> set (fst x) \<Longrightarrow>
    \<exists>r. collect_headers env fresh i hs (t, h) = Some r \<and> collect_ok E env fresh ps i hs (t, h) r"
proof (induction hs arbitrary: ps t h i)
  case Nil
  then show ?case by (simp add: collect_ok_def)
next
  case (Cons x hs)
  obtain key val where x: "x = (key, val)" by (cases x)
  with Cons.prems have key: "0 \<notin> set key" and hs: "\<forall>x\<in>set hs. 0 \<notin> set (fst x)" by auto
  have c: "collected (env i) ps (t, h)" by (rule collected_process [OF Cons.prems(1) env(1)])
  then have t: "class_table (env i) t" by (simp add: collected_def)
  from Cons.prems(1) have t0: "class_table E t" by (simp add: collected_def)
  note view = class_process(2,3) [OF t0 env(1) [of i]]
  note get = cls.get_class [OF t key]
  show ?case
  proof (cases "class_view E t (norm_key E t key)")
    case (Some q)
    let ?rh = "the (h q)"
    let ?h = "h(q \<mapsto> ?rh\<lparr>rh_len := rh_len ?rh + (2 + length val), rh_count := rh_count ?rh + 1\<rparr>)"
    have "h q \<noteq> None" using collected_some(2) [OF Cons.prems(1) Some] by simp
    with collect_old [OF Cons.prems(1) Some, of val] fresh_ok_old [OF Cons.prems(2)]
    have "collected E (ps @ [x]) (t, ?h)" "fresh_ok fresh (Suc i) ?h" by (simp_all add: x)
    note IH = Cons.IH [OF this hs]
    have "collect_headers env fresh i (x # ys) (t, h) = collect_headers env fresh (Suc i) ys (t, ?h)" for ys
      using get Some by (simp add: x view Let_def)
    from collect_ok_step [OF this _ IH] show ?thesis by simp
  next
    case None
    show ?thesis
    proof (cases "fresh i")
      case f: None
      with collect_fail_now [of env i "(t, h)" x fresh hs] get None class_tableD(1) [OF t0]
      show ?thesis by (simp add: x view collect_ok_def)
    next
      case f: (Some q)
      from put_class [OF t key, of q] obtain rc t' where
        set: "lws_table_set (env i) t key (Some q) = Some (rc, t')" "class_table (env i) t'" "same_config t' t"
          "class_view (env i) t' =
             (if rc = 0 then (class_view (env i) t)(norm_key (env i) t key \<mapsto> q) else class_view (env i) t)"
          "lws_table_set_ok (env i) t key \<longrightarrow> rc = 0" by blast
      have sym: "same_process E (env i)" using env(1) [of i] env(2) by (simp add: same_process_def)
      note t' = class_process [OF set(2) sym]
      show ?thesis
      proof (cases "rc = 0")
        case False
        with set(5) have "\<not> lws_table_set_ok (env i) t key" by blast
        with collect_fail_now [of env i "(t, h)" x fresh hs] get None f set(1) False class_tableD(1) [OF t'(1)]
        show ?thesis by (simp add: x view collect_ok_def Let_def)
      next
        case True
        let ?h = "h(q \<mapsto> \<lparr>rh_len = length val, rh_data = val, rh_last = None, rh_count = 1\<rparr>)"
        have n: "norm_key E t' = norm_key E t" by (rule norm_same [OF set(3)])
        have "class_view E t' = (class_view E t)(norm_key E t key \<mapsto> q)"
          using set(4) True view t'(3) by simp
        moreover have "h q = None" using Cons.prems(2) f unfolding fresh_ok_def by blast
        ultimately have "collected E (ps @ [x]) (t', ?h)"
          unfolding x by (intro collect_new [OF Cons.prems(1) None _ t'(1) n])
        note IH = Cons.IH [OF this fresh_ok_new [OF Cons.prems(2) f] hs]
        have "collect_headers env fresh i (x # ys) (t, h) = collect_headers env fresh (Suc i) ys (t', ?h)" for ys
          using get None f set(1) True by (simp add: x view Let_def)
        from collect_ok_step [OF this _ IH] n show ?thesis by simp
      qed
    qed
  qed
qed

section \<open>The second loop\<close>

text \<open>The structures of the names that occur more than once have a buffer of their length.\<close>

definition buffered :: "(nat \<Rightarrow> nat \<Rightarrow> byte) \<Rightarrow> nat set \<Rightarrow> header_heap \<Rightarrow> header_heap \<Rightarrow> bool" where
  "buffered junk Q h h' \<longleftrightarrow> (\<forall>q. h' q = (case h q of
     Some rh \<Rightarrow> Some (if q \<in> Q \<and> rh_count rh > 1 then rh\<lparr>rh_data := map (junk q) [0..<rh_len rh]\<rparr> else rh)
   | None \<Rightarrow> None))"

lemma buffer_spec:
  "\<forall>x\<in>set xs. h (fst (snd x)) \<noteq> None \<Longrightarrow> distinct (map (\<lambda>x. fst (snd x)) xs) \<Longrightarrow>
    (case each_item (header_buffer alloc junk) xs h of
       Inl h' \<Rightarrow> \<exists>q. \<not> alloc q | Inr h' \<Rightarrow> buffered junk ((\<lambda>x. fst (snd x)) ` set xs) h h')"
proof (induction xs arbitrary: h)
  case Nil
  then show ?case by (auto simp: buffered_def split: option.split)
next
  case (Cons x xs)
  let ?q = "fst (snd x)"
  obtain rh where rh: "h ?q = Some rh" using Cons.prems(1) by auto
  let ?h = "if rh_count rh > 1 then h(?q \<mapsto> rh\<lparr>rh_data := map (junk ?q) [0..<rh_len rh]\<rparr>) else h"
  have q: "?q \<notin> (\<lambda>x. fst (snd x)) ` set xs" "distinct (map (\<lambda>x. fst (snd x)) xs)" using Cons.prems(2) by auto
  have dom: "\<forall>x\<in>set xs. ?h (fst (snd x)) \<noteq> None" using Cons.prems(1) by auto
  show ?case
  proof (cases "rh_count rh > 1 \<and> \<not> alloc ?q")
    case True
    with rh show ?thesis by (auto simp: header_buffer_def)
  next
    case False
    then have step: "each_item (header_buffer alloc junk) (x # xs) h = each_item (header_buffer alloc junk) xs ?h"
      using rh by (auto simp: header_buffer_def Let_def)
    have "buffered junk ((\<lambda>x. fst (snd x)) ` set (x # xs)) h h'"
      if "buffered junk ((\<lambda>x. fst (snd x)) ` set xs) ?h h'" for h'
      using that q(1) rh unfolding buffered_def by (auto split: option.splits if_splits)
    with Cons.IH [OF dom q(2)] show ?thesis
      unfolding step by (cases "each_item (header_buffer alloc junk) xs ?h") (simp_all only: sum.case)
  qed
qed

section \<open>The third loop\<close>

text \<open>The structures after the headers \<open>ps\<close> of \<open>all\<close> were appended.\<close>

definition filled_value :: "ngx_str list \<Rightarrow> ngx_str list \<Rightarrow> lws_request_header \<Rightarrow> bool" where
  "filled_value vs ws rh \<longleftrightarrow> rh_len rh = length (joined ws) \<and> rh_count rh = length ws \<and>
     (if length ws = 1 then rh_data rh = joined ws
      else length (rh_data rh) = length (joined ws) \<and>
        rh_last rh = (if vs = [] then None else Some (length (joined vs))) \<and>
        take (length (joined vs)) (rh_data rh) = joined vs)"

definition filled :: "lws_env \<Rightarrow> (ngx_str \<times> ngx_str) list \<Rightarrow> (ngx_str \<times> ngx_str) list \<Rightarrow> header_state \<Rightarrow> bool" where
  "filled E all ps s \<longleftrightarrow> (case s of (t, h) \<Rightarrow> class_table E t \<and>
     inj_on (class_view E t) (dom (class_view E t)) \<and>
     (\<forall>k. case class_view E t k of
        None \<Rightarrow> header_values (norm_key E t) all k = []
      | Some q \<Rightarrow> header_values (norm_key E t) all k \<noteq> [] \<and> (\<exists>rh. h q = Some rh \<and>
          filled_value (header_values (norm_key E t) ps k) (header_values (norm_key E t) all k) rh)))"

lemma put_bytes_ok:
  assumes "pos + length bytes \<le> length buf"
  obtains buf' where "put_bytes pos bytes buf = Some buf'" "length buf' = length buf"
    "take (pos + length bytes) buf' = take pos buf @ bytes"
  using assms by (auto simp: put_bytes_def)

lemma append_value_ok:
  assumes f: "filled_value vs ws rh" and ws: "ws = vs @ v # rest" "length ws \<noteq> 1"
  shows "\<exists>rh'. append_value v rh = Some rh' \<and> filled_value (vs @ [v]) ws rh'"
proof -
  have len: "length (joined (vs @ [v])) \<le> length (rh_data rh)"
    using f ws joined_prefix [of "vs @ [v]" rest] by (simp add: filled_value_def)
  show ?thesis
  proof (cases "vs = []")
    case True
    with f ws(2) have last: "rh_last rh = None" by (simp add: filled_value_def)
    from True len have "0 + length v \<le> length (rh_data rh)" by (simp add: joined_def)
    then obtain buf where buf: "put_bytes 0 v (rh_data rh) = Some buf" "length buf = length (rh_data rh)"
      "take (0 + length v) buf = take 0 (rh_data rh) @ v" by (rule put_bytes_ok)
    with f ws(2) last True show ?thesis
      by (simp add: append_value_def filled_value_def joined_def)
  next
    case False
    let ?pos = "length (joined vs)"
    from f ws(2) False have last: "rh_last rh = Some ?pos" and pre: "take ?pos (rh_data rh) = joined vs"
      by (simp_all add: filled_value_def)
    from False len have fit: "?pos + length (lit '', '') + length v \<le> length (rh_data rh)"
      by (simp add: joined_snoc)
    then have "?pos + length (lit '', '') \<le> length (rh_data rh)" by simp
    then obtain b1 where b1: "put_bytes ?pos (lit '', '') (rh_data rh) = Some b1" "length b1 = length (rh_data rh)"
      "take (?pos + length (lit '', '')) b1 = take ?pos (rh_data rh) @ lit '', ''" by (rule put_bytes_ok)
    from fit b1(2) have "(?pos + length (lit '', '')) + length v \<le> length b1" by simp
    then obtain b2 where b2: "put_bytes (?pos + length (lit '', '')) v b1 = Some b2" "length b2 = length b1"
      "take (?pos + length (lit '', '') + length v) b2 = take (?pos + length (lit '', '')) b1 @ v"
      by (rule put_bytes_ok)
    have app: "append_value v rh = Some (rh\<lparr>rh_data := b2, rh_last := Some (?pos + length (lit '', '') + length v)\<rparr>)"
      using last b1(1) b2(1) by (simp add: append_value_def)
    have "joined (vs @ [v]) = joined vs @ lit '', '' @ v" using False by (simp add: joined_snoc)
    with f ws(2) app b1(2,3) b2(2,3) pre show ?thesis by (simp add: filled_value_def)
  qed
qed

lemma filledD:
  assumes "filled E all ps (t, h)"
  shows "class_table E t" "inj_on (class_view E t) (dom (class_view E t))"
    "class_view E t k = None \<Longrightarrow> header_values (norm_key E t) all k = []"
    "class_view E t k = Some q \<Longrightarrow> header_values (norm_key E t) all k \<noteq> [] \<and> (\<exists>rh. h q = Some rh \<and>
      filled_value (header_values (norm_key E t) ps k) (header_values (norm_key E t) all k) rh)"
  using assms by (auto simp: filled_def dest!: spec [of _ k])

lemma filled_process:
  assumes "filled E all ps (t, h)" "same_process E' E"
  shows "filled E' all ps (t, h)"
proof -
  note p = class_process [OF filledD(1) [OF assms(1)] assms(2)]
  from assms(1) p(1) show ?thesis unfolding filled_def prod.case p(2,3) by blast
qed

lemma filledI:
  assumes "class_table E t" "inj_on (class_view E t) (dom (class_view E t))"
    "\<And>k. class_view E t k = None \<Longrightarrow> header_values (norm_key E t) all k = []"
    "\<And>k q. class_view E t k = Some q \<Longrightarrow> header_values (norm_key E t) all k \<noteq> [] \<and> (\<exists>rh. h q = Some rh \<and>
      filled_value (header_values (norm_key E t) ps k) (header_values (norm_key E t) all k) rh)"
  shows "filled E all ps (t, h)"
  using assms by (auto simp: filled_def split: option.split)

lemma fill_spec:
  assumes "\<forall>x\<in>set all. 0 \<notin> set (fst x)"
  shows "filled E all ps (t, h) \<Longrightarrow> all = ps @ hs \<Longrightarrow>
    \<exists>h'. fill_headers E hs (t, h) = Some (t, h') \<and> filled E all all (t, h')"
proof (induction hs arbitrary: ps h)
  case Nil
  then show ?case by simp
next
  case (Cons x hs)
  obtain key val where x: "x = (key, val)" by (cases x)
  let ?n = "norm_key E t" and ?k = "norm_key E t key"
  have key: "0 \<notin> set key" using assms Cons.prems(2) by (auto simp: x)
  note fd = filledD [OF Cons.prems(1)]
  have all: "header_values ?n all ?k = header_values ?n ps ?k @ val # header_values ?n hs ?k"
    by (simp add: Cons.prems(2) x header_values_append)
  with fd(3) [of ?k] obtain q where q: "class_view E t ?k = Some q" by fastforce
  from fd(4) [OF q] obtain rh where rh: "h q = Some rh"
    "filled_value (header_values ?n ps ?k) (header_values ?n all ?k) rh" by blast
  note get = cls.get_class [OF fd(1) key]
  have count: "rh_count rh = length (header_values ?n all ?k)" using rh(2) by (simp add: filled_value_def)
  have step: "filled E all (ps @ [x]) (t, h(q \<mapsto> rh'))"
    if "filled_value (header_values ?n ps ?k @ [val]) (header_values ?n all ?k) rh'" for rh'
  proof (rule filledI [OF fd(1,2,3)])
    fix k q' assume q': "class_view E t k = Some q'"
    show "header_values ?n all k \<noteq> [] \<and> (\<exists>r. (h(q \<mapsto> rh')) q' = Some r \<and>
      filled_value (header_values ?n (ps @ [x]) k) (header_values ?n all k) r)"
    proof (cases "k = ?k")
      case True
      with that q q' fd(4) [OF q] show ?thesis by (simp add: x)
    next
      case False
      have "q' \<noteq> q" using inj_onD [OF fd(2), of k ?k] q q' False by auto
      with fd(4) [OF q'] False show ?thesis by (auto simp: x)
    qed
  qed
  show ?case
  proof (cases "rh_count rh = 1")
    case True
    then have "filled_value (header_values ?n ps ?k @ [val]) (header_values ?n all ?k) rh"
      using rh(2) count by (simp add: filled_value_def)
    from step [OF this] rh(1) have "filled E all (ps @ [x]) (t, h)" by (simp add: fun_upd_idem)
    from Cons.IH [OF this] Cons.prems(2) get q rh(1) True show ?thesis by (simp add: x)
  next
    case False
    with count append_value_ok [OF rh(2) all] obtain rh' where rh': "append_value val rh = Some rh'"
      "filled_value (header_values ?n ps ?k @ [val]) (header_values ?n all ?k) rh'" by auto
    from Cons.IH [OF step [OF rh'(2)]] Cons.prems(2) obtain h' where
      "fill_headers E hs (t, h(q \<mapsto> rh')) = Some (t, h')" "filled E all all (t, h')" by (auto simp: fun_upd_def)
    with get q rh(1) False rh'(1) show ?thesis by (simp add: x)
  qed
qed

section \<open>The three loops\<close>

lemma collected_item:
  assumes "collected E ps (t, h)" "x \<in> set (lru_items (lws_table_abs t))"
  shows "h (fst (snd x)) \<noteq> None"
proof -
  from assms(1) have t: "class_table E t" by (simp add: collected_def)
  from collected_some(2) [OF assms(1) class_item [OF t assms(2)]] show ?thesis by simp
qed

lemma collected_buffers:
  assumes "collected E all (t, h)"
  shows "case each_item (header_buffer alloc junk) (lru_items (lws_table_abs t)) h of
     Inl h' \<Rightarrow> \<exists>q. \<not> alloc q | Inr h' \<Rightarrow> buffered junk (ran (class_view E t)) h h'"
proof -
  let ?xs = "lru_items (lws_table_abs t)"
  from assms have t: "class_table E t" and inj: "inj_on (class_view E t) (dom (class_view E t))"
    by (auto simp: collected_def)
  have "inj_on (\<lambda>x. fst (snd x)) (set ?xs)"
  proof (rule inj_onI)
    fix x y assume xy: "x \<in> set ?xs" "y \<in> set ?xs" "fst (snd x) = fst (snd y)"
    have "norm_key E t (fst x) = norm_key E t (fst y)"
      using class_item [OF t xy(1)] class_item [OF t xy(2)] xy(3) by (intro inj_onD [OF inj]) auto
    then show "x = y"
      using class_norms [OF t] by (intro inj_onD [OF _ _ xy(1,2), of "norm_key E t \<circ> fst"])
        (simp_all add: distinct_map comp_def del: lws_table_abs_sel)
  qed
  moreover from class_norms [OF t] have "distinct ?xs" by (simp add: distinct_map del: lws_table_abs_sel)
  ultimately have "distinct (map (\<lambda>x. fst (snd x)) ?xs)" by (simp add: distinct_map del: lws_table_abs_sel)
  moreover have "\<forall>x\<in>set ?xs. h (fst (snd x)) \<noteq> None" using collected_item [OF assms] by blast
  ultimately show ?thesis unfolding class_ran [OF t] by (intro buffer_spec)
qed

lemma joined_one [simp]: "joined [v] = v" "joined [] = []"
  by (simp_all add: joined_def)

lemma collected_filled:
  assumes c: "collected E all (t, h)" and b: "buffered junk (ran (class_view E t)) h h'"
  shows "filled E all [] (t, h')"
proof (rule filledI)
  show "class_table E t" "inj_on (class_view E t) (dom (class_view E t))" using c by (auto simp: collected_def)
  show "header_values (norm_key E t) all k = []" if "class_view E t k = None" for k
    by (rule collected_none [OF c that])
  fix k q assume q: "class_view E t k = Some q"
  let ?vs = "header_values (norm_key E t) all k"
  note old = collected_some [OF c q]
  have Q: "q \<in> ran (class_view E t)" using q by (auto simp: ran_def)
  show "?vs \<noteq> [] \<and> (\<exists>rh. h' q = Some rh \<and> filled_value (header_values (norm_key E t) [] k) ?vs rh)"
  proof (cases "length ?vs = 1")
    case True
    then obtain v where "?vs = [v]" by (auto simp: length_Suc_conv)
    with old b show ?thesis by (simp add: buffered_def filled_value_def)
  next
    case False
    with old(1) have "length ?vs > 1" by (cases ?vs) auto
    with old b Q show ?thesis by (auto simp: buffered_def filled_value_def)
  qed
qed

lemma filled_value:
  assumes "filled E all all (t, h)" "0 \<notin> set key"
  shows "\<exists>par. lws_table_get E t key = Some (par, t) \<and> header_value h par =
    (let vs = header_values (norm_key E t) all (norm_key E t key) in if vs = [] then None else Some (joined vs))"
proof -
  note fd = filledD [OF assms(1)]
  have "take (rh_len rh) (rh_data rh) = joined vs" if "filled_value vs vs rh" for vs rh
    using that by (auto simp: filled_value_def split: if_splits)
  with cls.get_class [OF fd(1) assms(2)] fd(3,4) [of "norm_key E t key"] show ?thesis
    by (cases "class_view E t (norm_key E t key)") (auto simp: header_value_def Let_def)
qed

lemma request_headers_filled:
  assumes create: "lws_table_create E 32 = Some t"
    and env: "\<And>i. same_process (env i) E" "strncasecmp_ok E"
    and fresh: "fresh_ok fresh 0 Map.empty" and names: "\<forall>x\<in>set headers_in. 0 \<notin> set (fst x)"
  shows "\<exists>res. request_headers env fresh alloc junk headers_in (snd (lws_table_set_ci t True)) = Some res \<and>
    (case res of
       Inl (t', h) \<Rightarrow> table_wf E t' \<and> ((\<exists>q. \<not> alloc q) \<or>
         collect_failed env fresh 0 headers_in (snd (lws_table_set_ci t True), Map.empty))
     | Inr (t', h) \<Rightarrow> filled E headers_in headers_in (t', h) \<and> norm_key E t' = map (env_tolower E))"
proof -
  let ?t = "snd (lws_table_set_ci t True)"
  have t: "class_table E ?t" "class_view E ?t = Map.empty" "norm_key E ?t = map (env_tolower E)"
    using class_created [OF create env(2)] by auto
  then have "collected E [] (?t, Map.empty)" by (simp add: collected_def)
  with fresh obtain r where r: "collect_headers env fresh 0 headers_in (?t, Map.empty) = Some r"
    "collect_ok E env fresh [] 0 headers_in (?t, Map.empty) r"
    using collect_spec [of env E "[]" ?t Map.empty fresh 0 headers_in] env names by blast
  show ?thesis
  proof (cases r)
    case (Inl s)
    with r show ?thesis by (cases s) (simp add: request_headers_def collect_ok_def)
  next
    case (Inr s)
    obtain t' h where s: "s = (t', h)" by (cases s)
    with r(2) Inr t(3) have c: "collected E headers_in (t', h)" and n: "norm_key E t' = map (env_tolower E)"
      by (simp_all add: collect_ok_def)
    have c0: "collected (env 0) headers_in (t', h)" by (rule collected_process [OF c env(1)])
    then have wf: "table_wf (env 0) t'" "strncasecmp_ok (env 0)" by (simp_all add: collected_def class_table_def)
    have wfE: "table_wf E t'" using c by (simp add: collected_def class_table_def)
    note each = each_all [OF wf, of "header_buffer alloc junk" h]
    note bufs = collected_buffers [OF c0, of alloc junk]
    show ?thesis
    proof (cases "each_item (header_buffer alloc junk) (lru_items (lws_table_abs t')) h")
      case Inl': (Inl h')
      with bufs each wfE r(1) Inr show ?thesis by (simp add: s request_headers_def)
    next
      case Inr': (Inr h')
      with bufs have "filled (env 0) headers_in [] (t', h')" by (intro collected_filled [OF c0]) simp
      with names obtain h2 where h2: "fill_headers (env 0) headers_in (t', h') = Some (t', h2)"
        "filled (env 0) headers_in headers_in (t', h2)" using fill_spec by (metis append_Nil)
      have sym: "same_process E (env 0)" using env(1) [of 0] env(2) by (simp add: same_process_def)
      from filled_process [OF h2(2) sym] h2(1) Inr' each r(1) Inr n show ?thesis
        by (simp add: s request_headers_def)
    qed
  qed
qed

text \<open>C12: The request headers that Lua reads: for a request whose header names hold no NUL byte, the
  loops of \<open>lws_handler\<close> end and stay inside their buffers. If they succeed, then looking up a name in
  any letter case yields the values of all headers of that name, in the order of the request and
  separated by a comma and a space, or nothing if the request has no such header. They fail only if
  an allocation failed, and then leave a well-formed table to the cleanup.\<close>

theorem lws_request_headers_correct:
  assumes create: "lws_table_create E 32 = Some t"
    and env: "\<And>i. same_process (env i) E" "strncasecmp_ok E"
    and fresh: "\<And>i j q. fresh i = Some q \<Longrightarrow> fresh j = Some q \<Longrightarrow> i = j"
    and names: "\<And>x. x \<in> set headers_in \<Longrightarrow> 0 \<notin> set (fst x)"
  shows "\<exists>res. request_headers env fresh alloc junk headers_in (snd (lws_table_set_ci t True)) = Some res \<and>
    (case res of
       Inl (t', h) \<Rightarrow> table_wf E t' \<and> ((\<exists>q. \<not> alloc q) \<or>
         collect_failed env fresh 0 headers_in (snd (lws_table_set_ci t True), Map.empty))
     | Inr (t', h) \<Rightarrow> (\<forall>key. 0 \<notin> set key \<longrightarrow> (\<exists>par. lws_table_get E t' key = Some (par, t') \<and>
         header_value h par =
           (let vs = header_values (map (env_tolower E)) headers_in (map (env_tolower E) key) in
            if vs = [] then None else Some (joined vs)))))"
proof -
  have res: "(case res of Inl (t', h) \<Rightarrow> table_wf E t' \<and> P | Inr (t', h) \<Rightarrow> (\<forall>key. 0 \<notin> set key \<longrightarrow>
       (\<exists>par. lws_table_get E t' key = Some (par, t') \<and> header_value h par =
         (let vs = header_values (map (env_tolower E)) headers_in (map (env_tolower E) key) in
          if vs = [] then None else Some (joined vs)))))"
    if "case res of Inl (t', h) \<Rightarrow> table_wf E t' \<and> P
        | Inr (t', h) \<Rightarrow> filled E headers_in headers_in (t', h) \<and> norm_key E t' = map (env_tolower E)" for res P
  proof (cases res)
    case (Inr x)
    obtain t' h where "x = (t', h)" by (cases x)
    with that Inr filled_value [of E headers_in t' h] show ?thesis by simp
  qed (use that in simp)
  have "fresh_ok fresh 0 Map.empty" "\<forall>x\<in>set headers_in. 0 \<notin> set (fst x)"
    using fresh names by (auto simp: fresh_ok_def)
  from request_headers_filled [where env = env and fresh = fresh and alloc = alloc and junk = junk
      and headers_in = headers_in, OF create env this] res
  show ?thesis by blast
qed

definition demo_headers :: "(ngx_str \<times> ngx_str) list" where
  "demo_headers = [(lit ''A'', lit ''x''), (lit ''a'', lit ''y'')]"

lemma demo_not_failed:
  assumes t: "lws_table_create demo_env 32 = Some t" "32 \<le> t_load t" "t_count t = 0" "\<not> t_capped t"
  shows "\<not> collect_failed (\<lambda>_. demo_env) Some 0 demo_headers (snd (lws_table_set_ci t True), Map.empty)"
proof -
  let ?t = "snd (lws_table_set_ci t True)"
  note c = class_created [OF t(1) demo_env_ok]
  have ok: "lws_table_set_ok demo_env ?t (lit ''A'')"
    using t(2-4) by (simp add: lws_table_set_ok_def lws_table_grow_ok_def lws_table_copy_ok_def
        lws_table_evict_def lws_table_set_ci_def demo_env_sel)
  have nul: "0 \<notin> set (lit ''A'')" "0 \<notin> set (lit ''a'')" by (simp_all add: lit_def)
  have same: "norm_key demo_env ?t (lit ''a'') = norm_key demo_env ?t (lit ''A'')"
    unfolding c(3) by (simp add: demo_env_sel lit_def ascii_tolower_def)
  from put_class [OF c(1) nul(1), of 0] ok obtain t1 where
    t1: "lws_table_set demo_env ?t (lit ''A'') (Some 0) = Some (0, t1)" by auto
  have get: "lws_table_get demo_env ?t (lit ''A'') = Some (None, ?t)"
    using cls.get_class [OF c(1) nul(1)] by (simp add: c(2))
  have get': "lws_table_get demo_env t1 (lit ''a'') = Some (Some 0, t1)"
    by (rule cls.put_found [OF c(1) nul(1) t1 nul(2) same])
  have len: "length demo_headers = 2" by (simp add: demo_headers_def)
  show ?thesis
  proof
    assume "collect_failed (\<lambda>_. demo_env) Some 0 demo_headers (?t, Map.empty)"
    then obtain j t' h where j: "j < 2" "collect_headers (\<lambda>_. demo_env) Some 0 (take j demo_headers) (?t, Map.empty) =
        Some (Inr (t', h))"
      "lws_table_get demo_env t' (fst (demo_headers ! j)) = Some (None, t')"
      "\<not> lws_table_set_ok demo_env t' (fst (demo_headers ! j))"
      by (auto simp: collect_failed_def len)
    then consider "j = 0" | "j = 1" by linarith
    then show False
    proof cases
      case 1
      with j(2,4) ok show ?thesis by (simp add: demo_headers_def)
    next
      case 2
      with j(2,3) get get' t1 show ?thesis by (simp add: demo_headers_def Let_def)
    qed
  qed
qed

theorem lws_request_headers_correct_witness:
  "\<exists>t t' h par. lws_table_create demo_env 32 = Some t \<and>
     request_headers (\<lambda>_. demo_env) Some (\<lambda>_. True) (\<lambda>_ _. 0) demo_headers (snd (lws_table_set_ci t True)) =
       Some (Inr (t', h)) \<and>
     lws_table_get demo_env t' (lit ''A'') = Some (par, t') \<and> header_value h par = Some (lit ''x, y'')"
proof -
  from demo_created obtain t :: "nat lws_table" where
    t: "lws_table_create demo_env 32 = Some t" "32 \<le> t_load t" "t_count t = 0" "\<not> t_capped t" by blast
  have names: "0 \<notin> set (fst x)" if "x \<in> set demo_headers" for x using that by (auto simp: demo_headers_def lit_def)
  let ?r = "request_headers (\<lambda>_. demo_env) Some (\<lambda>_. True) (\<lambda>_ _. 0) demo_headers (snd (lws_table_set_ci t True))"
  from lws_request_headers_correct [OF t(1), of "\<lambda>_. demo_env" Some demo_headers "\<lambda>_. True" "\<lambda>_ _. 0",
      OF same_process_refl [OF demo_env_ok] demo_env_ok _ names]
  obtain res where r: "?r = Some res"
    "case res of
       Inl (t', h) \<Rightarrow> table_wf demo_env t' \<and> ((\<exists>q::nat. \<not> True) \<or>
         collect_failed (\<lambda>_. demo_env) Some 0 demo_headers (snd (lws_table_set_ci t True), Map.empty))
     | Inr (t', h) \<Rightarrow> (\<forall>key. 0 \<notin> set key \<longrightarrow> (\<exists>par. lws_table_get demo_env t' key = Some (par, t') \<and>
         header_value h par =
           (let vs = header_values (map (env_tolower demo_env)) demo_headers (map (env_tolower demo_env) key) in
            if vs = [] then None else Some (joined vs))))"
    by blast
  from r(2) demo_not_failed [OF t] obtain t' h where res: "res = Inr (t', h)"
    by (cases res) auto
  have "0 \<notin> set (lit ''A'')" by (simp add: lit_def)
  with r(2) obtain par where par: "lws_table_get demo_env t' (lit ''A'') = Some (par, t')"
    "header_value h par =
       (let vs = header_values (map (env_tolower demo_env)) demo_headers (map (env_tolower demo_env) (lit ''A'')) in
        if vs = [] then None else Some (joined vs))"
    unfolding res by fastforce
  have "header_values (map (env_tolower demo_env)) demo_headers (map (env_tolower demo_env) (lit ''A'')) =
      [lit ''x'', lit ''y'']"
    by (simp add: demo_headers_def demo_env_sel lit_def ascii_tolower_def)
  with par have "header_value h par = Some (lit ''x, y'')" by (simp add: joined_def lit_def)
  with par(1) r(1) t(1) show ?thesis unfolding res by blast
qed

end
