(* ===== verification/LwsConf.thy ===== *)
theory LwsConf
  imports LwsState LwsTableMap LwsResponse
begin

text \<open>
  The configuration: src/lws_module.c, lines 238 to 533, and the directive \<open>lws_monitor\<close> of
  src/lws_monitor.c. Unset settings are the values \<open>NGX_CONF_UNSET_*\<close> of NGINX, which the code tests;
  a string with \<open>data == NULL\<close> is \<open>None\<close>. NGINX functions (parsers of sizes and times, thread pools,
  shared memory, complex values, variable indices, allocation) are arguments.
\<close>

datatype lws_file_status = LWS_FS_UNKNOWN | LWS_FS_FOUND | LWS_FS_NOT_FOUND

text \<open>\<open>NULL\<close>, \<open>NGX_CONF_ERROR\<close> or a message that NGINX logs.\<close>

datatype conf_result = NGX_CONF_OK | NGX_CONF_ERROR | CONF_MESSAGE string

text \<open>What a function that creates a configuration returns; \<open>NGX_CONF_ERROR\<close> is the pointer -1.\<close>

datatype 'c conf_ptr = CONF_NULL | CONF_MINUS_1 | CONF_PTR 'c

definition NGX_CONF_UNSET :: int where "NGX_CONF_UNSET = -1"

definition NGX_CONF_UNSET_SIZE :: size_t where "NGX_CONF_UNSET_SIZE = -1"

definition NGX_CONF_UNSET_MSEC :: ngx_msec where "NGX_CONF_UNSET_MSEC = -1"

definition LWS_THREAD_POOL_NAME_DEFAULT :: ngx_str where
  "LWS_THREAD_POOL_NAME_DEFAULT = lit ''default''"

definition LWS_STAT_CACHE_CAP_DEFAULT :: size_t where "LWS_STAT_CACHE_CAP_DEFAULT = 1024"

definition LWS_STAT_CACHE_TIMEOUT_DEFAULT :: int where "LWS_STAT_CACHE_TIMEOUT_DEFAULT = 30"

definition LWS_STATES_MAX_DEFAULT :: size_t where "LWS_STATES_MAX_DEFAULT = 32"

definition LWS_REQUESTS_MAX_DEFAULT :: size_t where "LWS_REQUESTS_MAX_DEFAULT = 256"

section \<open>The main configuration\<close>

record lws_main_conf =
  mc_thread_pool :: "nat option"
  mc_thread_pool_name :: "ngx_str option"
  mc_stat_cache :: "lws_file_status lws_table option"
  mc_stat_cache_cap :: size_t
  mc_stat_cache_timeout :: int
  mc_monitor_shm :: bool

text \<open>\<open>palloc\<close> and \<open>cleanup\<close>: do \<open>ngx_pcalloc\<close> and \<open>ngx_pool_cleanup_add\<close> succeed? The second result
  tells whether \<open>lws_cleanup_main_conf\<close> is registered.\<close>

definition lws_create_main_conf :: "bool \<Rightarrow> bool \<Rightarrow> lws_main_conf conf_ptr \<times> bool" where
  "lws_create_main_conf palloc cleanup =
     (if \<not> palloc then (CONF_NULL, False)
      else
        let lmcf = \<lparr>mc_thread_pool = None, mc_thread_pool_name = None, mc_stat_cache = None,
              mc_stat_cache_cap = NGX_CONF_UNSET_SIZE, mc_stat_cache_timeout = NGX_CONF_UNSET, mc_monitor_shm = False\<rparr> in
        if \<not> cleanup then (CONF_MINUS_1, False) else (CONF_PTR lmcf, True))"

text \<open>\<open>ngx_conf_init_size_value\<close> and \<open>ngx_conf_init_value\<close> on the settings of the stat cache, and the
  options of its table.\<close>

definition stat_cache_defaults :: "lws_main_conf \<Rightarrow> lws_main_conf" where
  "stat_cache_defaults lmcf =
     (let lmcf = (if mc_stat_cache_cap lmcf = NGX_CONF_UNSET_SIZE
                  then lmcf\<lparr>mc_stat_cache_cap := LWS_STAT_CACHE_CAP_DEFAULT\<rparr> else lmcf)
      in if mc_stat_cache_timeout lmcf = NGX_CONF_UNSET
         then lmcf\<lparr>mc_stat_cache_timeout := LWS_STAT_CACHE_TIMEOUT_DEFAULT\<rparr> else lmcf)"

definition stat_cache_options :: "size_t \<Rightarrow> int \<Rightarrow> 'v lws_table \<Rightarrow> 'v lws_table" where
  "stat_cache_options cap timeout t =
     (let t = snd (lws_table_set_dup t True);
          t = snd (lws_table_set_cap t (unat cap));
          t = snd (lws_table_set_timeout t timeout) in t)"

text \<open>The bytes of a string; a null string has the length 0.\<close>

definition str_value :: "ngx_str option \<Rightarrow> ngx_str" where
  "str_value v = (case v of Some s \<Rightarrow> s | None \<Rightarrow> [])"

definition lws_init_main_conf ::
  "lws_env \<Rightarrow> (ngx_str \<Rightarrow> nat option) \<Rightarrow> lws_main_conf \<Rightarrow> conf_result \<times> lws_main_conf" where
  "lws_init_main_conf E ngx_thread_pool_add lmcf =
     (let lmcf = (if length (str_value (mc_thread_pool_name lmcf)) = 0
                  then lmcf\<lparr>mc_thread_pool_name := Some LWS_THREAD_POOL_NAME_DEFAULT\<rparr> else lmcf);
          lmcf = lmcf\<lparr>mc_thread_pool := ngx_thread_pool_add (str_value (mc_thread_pool_name lmcf))\<rparr> in
      if mc_thread_pool lmcf = None then (NGX_CONF_ERROR, lmcf)
      else
        let lmcf = stat_cache_defaults lmcf in
        if mc_stat_cache_cap lmcf \<noteq> 0 then
          (case lws_table_create E 32 of
             None \<Rightarrow> (NGX_CONF_ERROR, lmcf)
           | Some t \<Rightarrow>
               (NGX_CONF_OK, lmcf\<lparr>mc_stat_cache :=
                  Some (stat_cache_options (mc_stat_cache_cap lmcf) (mc_stat_cache_timeout lmcf) t)\<rparr>))
        else (NGX_CONF_OK, lmcf))"

definition lws_cleanup_main_conf :: "lws_main_conf \<Rightarrow> lws_file_status lws_freed list" where
  "lws_cleanup_main_conf lmcf =
     (case mc_stat_cache lmcf of None \<Rightarrow> [] | Some t \<Rightarrow> lws_table_free t)"

text \<open>The directive \<open>lws_stat_cache\<close>. The parsers return \<open>NGX_ERROR\<close>, -1, for an invalid value.\<close>

definition lws_stat_cache ::
  "(ngx_str \<Rightarrow> int) \<Rightarrow> (ngx_str \<Rightarrow> int) \<Rightarrow> ngx_str list \<Rightarrow> lws_main_conf \<Rightarrow> conf_result \<times> lws_main_conf" where
  "lws_stat_cache ngx_parse_size ngx_parse_time values lmcf =
     (if mc_stat_cache_cap lmcf \<noteq> NGX_CONF_UNSET_SIZE then (CONF_MESSAGE ''is duplicate'', lmcf)
      else
        let lmcf = lmcf\<lparr>mc_stat_cache_cap := word_of_int (ngx_parse_size (values ! 1))\<rparr> in
        if mc_stat_cache_cap lmcf = word_of_int NGX_ERROR then (CONF_MESSAGE ''has invalid cap value'', lmcf)
        else
          let lmcf = lmcf\<lparr>mc_stat_cache_timeout := ngx_parse_time (values ! 2)\<rparr> in
          if mc_stat_cache_timeout lmcf = NGX_ERROR then (CONF_MESSAGE ''has invalid timeout value'', lmcf)
          else (NGX_CONF_OK, lmcf))"

section \<open>The location configuration\<close>

text \<open>The settings of \<open>struct lws_loc_conf_s\<close>; its run-time part is the record \<open>lws_loc_conf\<close>. The
  complex values of NGINX are of the type \<open>'cv\<close>.\<close>

record lws_variable_t =
  v_name :: ngx_str
  v_index :: int

record 'cv lws_loc_settings =
  lc_main :: "'cv option"
  lc_path_info :: "'cv option"
  lc_init :: "ngx_str option"
  lc_pre :: "ngx_str option"
  lc_post :: "ngx_str option"
  lc_path :: "ngx_str option"
  lc_cpath :: "ngx_str option"
  lc_states_max :: size_t
  lc_requests_max :: size_t
  lc_state_memory_max :: size_t
  lc_state_gc :: size_t
  lc_state_requests_max :: int
  lc_state_time_max :: ngx_msec
  lc_state_timeout :: ngx_msec
  lc_error_response :: size_t
  lc_diagnostic :: int
  lc_streaming :: int
  lc_monitor :: bool
  lc_variables :: "lws_variable_t list"

definition lws_create_loc_conf :: "bool \<Rightarrow> bool \<Rightarrow> bool \<Rightarrow> 'cv lws_loc_settings conf_ptr \<times> bool" where
  "lws_create_loc_conf palloc array_init cleanup =
     (if \<not> palloc then (CONF_NULL, False)
      else
        let llcf = \<lparr>lc_main = None, lc_path_info = None, lc_init = None, lc_pre = None, lc_post = None, lc_path = None,
              lc_cpath = None, lc_states_max = NGX_CONF_UNSET_SIZE, lc_requests_max = NGX_CONF_UNSET_SIZE,
              lc_state_memory_max = NGX_CONF_UNSET_SIZE, lc_state_gc = NGX_CONF_UNSET_SIZE,
              lc_state_requests_max = NGX_CONF_UNSET, lc_state_time_max = NGX_CONF_UNSET_MSEC,
              lc_state_timeout = NGX_CONF_UNSET_MSEC, lc_error_response = NGX_CONF_UNSET_SIZE,
              lc_diagnostic = NGX_CONF_UNSET, lc_streaming = NGX_CONF_UNSET, lc_monitor = False, lc_variables = []\<rparr> in
        if \<not> array_init then (CONF_NULL, False)
        else if \<not> cleanup then (CONF_NULL, False) else (CONF_PTR llcf, True))"

text \<open>The merge macros of NGINX: the value of the child, or of the parent, or the default.\<close>

definition ngx_conf_merge :: "'a \<Rightarrow> 'a \<Rightarrow> 'a \<Rightarrow> 'a \<Rightarrow> 'a" where
  "ngx_conf_merge unset dflt prev conf =
     (if conf = unset then (if prev = unset then dflt else prev) else conf)"

text \<open>Copying into an array, for \<open>ngx_memmove\<close> and \<open>ngx_memcpy\<close>.\<close>

definition blit :: "nat \<Rightarrow> 'a list \<Rightarrow> 'a list \<Rightarrow> 'a list" where
  "blit pos xs ys = take pos ys @ xs @ drop (pos + length xs) ys"

text \<open>The variables of the parent are put before those of the child: \<open>ngx_array_push_n\<close> adds elements
  at the end, whose content is \<open>junk\<close>.\<close>

definition merge_variables ::
  "(nat \<Rightarrow> lws_variable_t) \<Rightarrow> lws_variable_t list \<Rightarrow> lws_variable_t list \<Rightarrow> lws_variable_t list" where
  "merge_variables junk prev conf =
     (let elts = conf @ map junk [0..<length prev];
          elts = blit (length prev) (take (length elts - length prev) elts) elts
      in blit 0 prev elts)"

definition lws_merge_loc_conf ::
  "bool \<Rightarrow> (nat \<Rightarrow> lws_variable_t) \<Rightarrow> 'cv lws_loc_settings \<Rightarrow> 'cv lws_loc_settings \<Rightarrow>
   conf_result \<times> 'cv lws_loc_settings" where
  "lws_merge_loc_conf push junk prev conf =
     (let conf = conf\<lparr>
        lc_main := (if lc_main conf = None then lc_main prev else lc_main conf),
        lc_path_info := (if lc_path_info conf = None then lc_path_info prev else lc_path_info conf),
        lc_init := ngx_conf_merge None (Some []) (lc_init prev) (lc_init conf),
        lc_pre := ngx_conf_merge None (Some []) (lc_pre prev) (lc_pre conf),
        lc_post := ngx_conf_merge None (Some []) (lc_post prev) (lc_post conf),
        lc_path := ngx_conf_merge None (Some []) (lc_path prev) (lc_path conf),
        lc_cpath := ngx_conf_merge None (Some []) (lc_cpath prev) (lc_cpath conf),
        lc_states_max := ngx_conf_merge NGX_CONF_UNSET_SIZE LWS_STATES_MAX_DEFAULT (lc_states_max prev) (lc_states_max conf),
        lc_requests_max := ngx_conf_merge NGX_CONF_UNSET_SIZE LWS_REQUESTS_MAX_DEFAULT (lc_requests_max prev) (lc_requests_max conf),
        lc_state_memory_max := ngx_conf_merge NGX_CONF_UNSET_SIZE 0 (lc_state_memory_max prev) (lc_state_memory_max conf),
        lc_state_gc := ngx_conf_merge NGX_CONF_UNSET_SIZE 0 (lc_state_gc prev) (lc_state_gc conf),
        lc_state_requests_max := ngx_conf_merge NGX_CONF_UNSET 0 (lc_state_requests_max prev) (lc_state_requests_max conf),
        lc_state_time_max := ngx_conf_merge NGX_CONF_UNSET_MSEC 0 (lc_state_time_max prev) (lc_state_time_max conf),
        lc_state_timeout := ngx_conf_merge NGX_CONF_UNSET_MSEC 0 (lc_state_timeout prev) (lc_state_timeout conf),
        lc_error_response := ngx_conf_merge NGX_CONF_UNSET_SIZE 0 (lc_error_response prev) (lc_error_response conf),
        lc_diagnostic := ngx_conf_merge NGX_CONF_UNSET 0 (lc_diagnostic prev) (lc_diagnostic conf),
        lc_streaming := ngx_conf_merge NGX_CONF_UNSET 0 (lc_streaming prev) (lc_streaming conf)\<rparr> in
      if \<not> push then (NGX_CONF_ERROR, conf)
      else (NGX_CONF_OK, conf\<lparr>lc_variables := merge_variables junk (lc_variables prev) (lc_variables conf)\<rparr>))"

text \<open>The idle states of a location are closed when its configuration goes away.\<close>

fun close_states :: "ngx_msec \<Rightarrow> lws_state list \<Rightarrow> lws_world \<Rightarrow> lws_world" where
  "close_states now [] w = w"
| "close_states now (state # states) w =
     close_states now states
       (lws_close_state now state (w\<lparr>w_llcf := (w_llcf w)\<lparr>l_states := states\<rparr>\<rparr>))"

definition lws_cleanup_loc_conf :: "ngx_msec \<Rightarrow> lws_world \<Rightarrow> lws_world" where
  "lws_cleanup_loc_conf now w = close_states now (l_states (w_llcf w)) w"

section \<open>The directives\<close>

text \<open>\<open>compile value zero\<close> is \<open>ngx_http_compile_complex_value\<close>; the second result tells whether the
  directive installed the handler of the location.\<close>

definition lws_directive ::
  "bool \<Rightarrow> bool \<Rightarrow> (ngx_str \<Rightarrow> bool \<Rightarrow> 'cv option) \<Rightarrow> ngx_str list \<Rightarrow> 'cv lws_loc_settings \<Rightarrow>
   (conf_result \<times> bool) \<times> 'cv lws_loc_settings" where
  "lws_directive palloc palloc2 compile values llcf =
     (if lc_main llcf \<noteq> None then ((CONF_MESSAGE ''is duplicate'', False), llcf)
      else if lc_monitor llcf then ((CONF_MESSAGE ''is exclusive with lws_monitor directive'', False), llcf)
      else if \<not> palloc then ((NGX_CONF_ERROR, False), llcf)
      else
        (case compile (values ! 1) True of
           None \<Rightarrow> ((NGX_CONF_ERROR, False), llcf)
         | Some cv \<Rightarrow>
             let llcf = llcf\<lparr>lc_main := Some cv\<rparr> in
             if length values \<ge> 3 then
               if \<not> palloc2 then ((NGX_CONF_ERROR, False), llcf)
               else
                 (case compile (values ! 2) False of
                    None \<Rightarrow> ((NGX_CONF_ERROR, False), llcf)
                  | Some cv \<Rightarrow> ((NGX_CONF_OK, True), llcf\<lparr>lc_path_info := Some cv\<rparr>))
             else ((NGX_CONF_OK, True), llcf)))"

definition lws_max_states ::
  "(ngx_str \<Rightarrow> int) \<Rightarrow> ngx_str list \<Rightarrow> 'cv lws_loc_settings \<Rightarrow> conf_result \<times> 'cv lws_loc_settings" where
  "lws_max_states ngx_parse_size values llcf =
     (if lc_states_max llcf \<noteq> NGX_CONF_UNSET_SIZE then (CONF_MESSAGE ''is duplicate'', llcf)
      else
        let llcf = llcf\<lparr>lc_states_max := word_of_int (ngx_parse_size (values ! 1))\<rparr> in
        if lc_states_max llcf = word_of_int NGX_ERROR then (CONF_MESSAGE ''has invalid max_states value'', llcf)
        else if length values \<ge> 3 then
          let llcf = llcf\<lparr>lc_requests_max := word_of_int (ngx_parse_size (values ! 2))\<rparr> in
          if lc_requests_max llcf = word_of_int NGX_ERROR then (CONF_MESSAGE ''has invalid max_requests value'', llcf)
          else (NGX_CONF_OK, llcf)
        else (NGX_CONF_OK, llcf))"

definition lws_variable ::
  "(ngx_str \<Rightarrow> int) \<Rightarrow> bool \<Rightarrow> ngx_str list \<Rightarrow> 'cv lws_loc_settings \<Rightarrow> conf_result \<times> 'cv lws_loc_settings" where
  "lws_variable ngx_http_get_variable_index push values llcf =
     (let index = ngx_http_get_variable_index (values ! 1) in
      if index = NGX_ERROR then (CONF_MESSAGE ''has invalid variable name'', llcf)
      else if \<not> push then (NGX_CONF_ERROR, llcf)
      else (NGX_CONF_OK, llcf\<lparr>lc_variables := lc_variables llcf @ [\<lparr>v_name = values ! 1, v_index = index\<rparr>]\<rparr>))"

text \<open>\<open>enum_slot\<close> is \<open>ngx_conf_set_enum_slot\<close> on the values json and html, \<open>ngx_strcasecmp\<close> a comparison
  that is 0 if its arguments agree.\<close>

definition lws_error_responses :: "(ngx_str \<times> size_t) list" where
  "lws_error_responses = [(lit ''json'', 0), (lit ''html'', 1)]"

fun error_response_attributes ::
  "(ngx_str \<Rightarrow> ngx_str \<Rightarrow> int) \<Rightarrow> ngx_str list \<Rightarrow> 'cv lws_loc_settings \<Rightarrow> conf_result \<times> 'cv lws_loc_settings" where
  "error_response_attributes ngx_strcasecmp [] llcf = (NGX_CONF_OK, llcf)"
| "error_response_attributes ngx_strcasecmp (value # values) llcf =
     (if ngx_strcasecmp value (lit ''diagnostic'') = 0
      then error_response_attributes ngx_strcasecmp values (llcf\<lparr>lc_diagnostic := 1\<rparr>)
      else (NGX_CONF_ERROR, llcf))"

definition lws_error_response ::
  "((ngx_str \<times> size_t) list \<Rightarrow> ngx_str \<Rightarrow> size_t \<Rightarrow> conf_result \<times> size_t) \<Rightarrow> (ngx_str \<Rightarrow> ngx_str \<Rightarrow> int) \<Rightarrow>
   ngx_str list \<Rightarrow> 'cv lws_loc_settings \<Rightarrow> conf_result \<times> 'cv lws_loc_settings" where
  "lws_error_response enum_slot ngx_strcasecmp values llcf =
     (case enum_slot lws_error_responses (values ! 1) (lc_error_response llcf) of
        (result, er) \<Rightarrow>
          let llcf = llcf\<lparr>lc_error_response := er\<rparr> in
          if result \<noteq> NGX_CONF_OK then (result, llcf)
          else error_response_attributes ngx_strcasecmp (drop 2 values) (llcf\<lparr>lc_diagnostic := 0\<rparr>))"

text \<open>The directive \<open>lws_monitor\<close>; \<open>shm\<close> is the success of \<open>ngx_shared_memory_add\<close>.\<close>

definition lws_monitor_directive ::
  "bool \<Rightarrow> lws_main_conf \<Rightarrow> 'cv lws_loc_settings \<Rightarrow>
   (conf_result \<times> bool) \<times> lws_main_conf \<times> 'cv lws_loc_settings" where
  "lws_monitor_directive shm lmcf llcf =
     (if lc_monitor llcf then ((CONF_MESSAGE ''is duplicate'', False), lmcf, llcf)
      else if lc_main llcf \<noteq> None then ((CONF_MESSAGE ''is exclusive with lws directive'', False), lmcf, llcf)
      else
        let llcf = llcf\<lparr>lc_monitor := True\<rparr> in
        if \<not> mc_monitor_shm lmcf then
          if \<not> shm then ((NGX_CONF_ERROR, False), lmcf, llcf)
          else ((NGX_CONF_OK, True), lmcf\<lparr>mc_monitor_shm := True\<rparr>, llcf)
        else ((NGX_CONF_OK, True), lmcf, llcf))"

text \<open>\<open>worker\<close>: is the process a worker or the single process? \<open>init\<close> is the result of
  \<open>lws_table_init_hash\<close> for a hash seed.\<close>

definition lws_init_process :: "bool \<Rightarrow> (64 word \<Rightarrow> int \<times> 64 word) \<Rightarrow> 64 word \<Rightarrow> int \<times> 64 word" where
  "lws_init_process worker init seed =
     (if \<not> worker then (0, seed)
      else case init seed of (rc, seed) \<Rightarrow> if rc \<noteq> 0 then (NGX_ERROR, seed) else (0, seed))"

section \<open>Inheritance\<close>

text \<open>The effective value of a setting: that of the innermost level that sets it, or the default.\<close>

definition inherit :: "'a \<Rightarrow> 'a \<Rightarrow> 'a list \<Rightarrow> 'a" where
  "inherit unset dflt vs = (case find (\<lambda>v. v \<noteq> unset) vs of Some v \<Rightarrow> v | None \<Rightarrow> dflt)"

lemma inherit_Cons: "inherit unset dflt (v # vs) = (if v = unset then inherit unset dflt vs else v)"
  by (simp add: inherit_def)

lemma merge_inherit:
  assumes "dflt \<noteq> unset"
  shows "foldl (\<lambda>p c. ngx_conf_merge unset dflt p c) (inherit unset dflt ps) vs = inherit unset dflt (rev vs @ ps)"
proof (induction vs arbitrary: ps)
  case (Cons v vs)
  have "inherit unset dflt ps \<noteq> unset"
    using assms by (auto simp: inherit_def find_Some_iff split: option.split)
  then have "ngx_conf_merge unset dflt (inherit unset dflt ps) v = inherit unset dflt (v # ps)"
    by (simp add: ngx_conf_merge_def inherit_Cons)
  with Cons.IH [of "v # ps"] show ?case by simp
qed simp

lemma merge_levels:
  assumes "dflt \<noteq> unset" "vs \<noteq> []"
  shows "foldl (ngx_conf_merge unset dflt) v0 vs = inherit unset dflt (rev (v0 # vs))"
proof -
  obtain v ws where vs: "vs = v # ws" using assms(2) by (cases vs) auto
  have "ngx_conf_merge unset dflt v0 v = inherit unset dflt [v, v0]"
    by (simp add: ngx_conf_merge_def inherit_def)
  with merge_inherit [OF assms(1), of "[v, v0]" ws] show ?thesis by (simp add: vs)
qed

lemma merge_first: "foldl (\<lambda>p c. if c = None then p else c) v0 vs = inherit None None (rev (v0 # vs))"
  by (induction vs rule: rev_induct) (simp_all add: inherit_Cons inherit_def split: option.split)

lemma foldl_field: "(\<And>p c. f (m p c) = g (f p) (f c)) \<Longrightarrow> f (foldl m c0 cs) = foldl g (f c0) (map f cs)"
  by (induction cs arbitrary: c0) simp_all

lemma blit_prepend: "merge_variables junk prev conf = prev @ conf"
  by (simp add: merge_variables_def blit_def)

text \<open>A location inside its levels: \<open>c0\<close> is the outermost one, the last of \<open>cs\<close> is the location. NGINX
  merges them from the outside.\<close>

definition lws_merge_levels ::
  "(nat \<Rightarrow> lws_variable_t) \<Rightarrow> 'cv lws_loc_settings \<Rightarrow> 'cv lws_loc_settings list \<Rightarrow> 'cv lws_loc_settings" where
  "lws_merge_levels junk = foldl (\<lambda>prev conf. snd (lws_merge_loc_conf True junk prev conf))"

lemma level_fields:
  "lc_init (lws_merge_levels junk c0 cs) = foldl (ngx_conf_merge None (Some [])) (lc_init c0) (map lc_init cs)"
  "lc_pre (lws_merge_levels junk c0 cs) = foldl (ngx_conf_merge None (Some [])) (lc_pre c0) (map lc_pre cs)"
  "lc_post (lws_merge_levels junk c0 cs) = foldl (ngx_conf_merge None (Some [])) (lc_post c0) (map lc_post cs)"
  "lc_path (lws_merge_levels junk c0 cs) = foldl (ngx_conf_merge None (Some [])) (lc_path c0) (map lc_path cs)"
  "lc_cpath (lws_merge_levels junk c0 cs) = foldl (ngx_conf_merge None (Some [])) (lc_cpath c0) (map lc_cpath cs)"
  "lc_states_max (lws_merge_levels junk c0 cs) = foldl (ngx_conf_merge NGX_CONF_UNSET_SIZE LWS_STATES_MAX_DEFAULT) (lc_states_max c0) (map lc_states_max cs)"
  "lc_requests_max (lws_merge_levels junk c0 cs) = foldl (ngx_conf_merge NGX_CONF_UNSET_SIZE LWS_REQUESTS_MAX_DEFAULT) (lc_requests_max c0) (map lc_requests_max cs)"
  "lc_state_memory_max (lws_merge_levels junk c0 cs) = foldl (ngx_conf_merge NGX_CONF_UNSET_SIZE 0) (lc_state_memory_max c0) (map lc_state_memory_max cs)"
  "lc_state_gc (lws_merge_levels junk c0 cs) = foldl (ngx_conf_merge NGX_CONF_UNSET_SIZE 0) (lc_state_gc c0) (map lc_state_gc cs)"
  "lc_state_requests_max (lws_merge_levels junk c0 cs) = foldl (ngx_conf_merge NGX_CONF_UNSET 0) (lc_state_requests_max c0) (map lc_state_requests_max cs)"
  "lc_state_time_max (lws_merge_levels junk c0 cs) = foldl (ngx_conf_merge NGX_CONF_UNSET_MSEC 0) (lc_state_time_max c0) (map lc_state_time_max cs)"
  "lc_state_timeout (lws_merge_levels junk c0 cs) = foldl (ngx_conf_merge NGX_CONF_UNSET_MSEC 0) (lc_state_timeout c0) (map lc_state_timeout cs)"
  "lc_error_response (lws_merge_levels junk c0 cs) = foldl (ngx_conf_merge NGX_CONF_UNSET_SIZE 0) (lc_error_response c0) (map lc_error_response cs)"
  "lc_diagnostic (lws_merge_levels junk c0 cs) = foldl (ngx_conf_merge NGX_CONF_UNSET 0) (lc_diagnostic c0) (map lc_diagnostic cs)"
  "lc_streaming (lws_merge_levels junk c0 cs) = foldl (ngx_conf_merge NGX_CONF_UNSET 0) (lc_streaming c0) (map lc_streaming cs)"
  "lc_main (lws_merge_levels junk c0 cs) = foldl (\<lambda>p c. if c = None then p else c) (lc_main c0) (map lc_main cs)"
  "lc_path_info (lws_merge_levels junk c0 cs) =
     foldl (\<lambda>p c. if c = None then p else c) (lc_path_info c0) (map lc_path_info cs)"
  "lc_variables (lws_merge_levels junk c0 cs) = foldl (@) (lc_variables c0) (map lc_variables cs)"
  "lc_monitor (lws_merge_levels junk c0 cs) = foldl (\<lambda>p c. c) (lc_monitor c0) (map lc_monitor cs)"
  unfolding lws_merge_levels_def
  by (rule foldl_field, simp add: lws_merge_loc_conf_def Let_def blit_prepend)+

lemmas level_defaults = LWS_STATES_MAX_DEFAULT_def LWS_REQUESTS_MAX_DEFAULT_def NGX_CONF_UNSET_SIZE_def
  NGX_CONF_UNSET_MSEC_def NGX_CONF_UNSET_def

lemma level_inherit:
  "dflt \<noteq> unset \<Longrightarrow> cs \<noteq> [] \<Longrightarrow>
     foldl (ngx_conf_merge unset dflt) (f c0) (map f cs) = inherit unset dflt (map f (rev (c0 # cs)))"
  "foldl (\<lambda>p c. if c = None then p else c) (g c0) (map g cs) = inherit None None (map g (rev (c0 # cs)))"
  using merge_levels [of dflt unset "map f cs" "f c0"] merge_first [of "g c0" "map g cs"] by (simp_all add: rev_map)

lemma foldl_last: "foldl (\<lambda>p c. c) v0 vs = (if vs = [] then v0 else last vs)"
  by (induction vs arbitrary: v0) simp_all

lemma foldl_concat: "foldl (@) v0 vs = concat (v0 # vs)"
  by (induction vs arbitrary: v0) simp_all

text \<open>Every setting of a location is that of the innermost level (location, enclosing locations,
  server, http) that sets it, or the documented default, however deep the levels are nested; the
  variables are those of all levels, the outermost first. The directive \<open>lws_monitor\<close> is not inherited.\<close>

theorem lws_merge_loc_conf_correct:
  assumes "cs \<noteq> []"
  shows "let conf = lws_merge_levels junk c0 cs; levels = rev (c0 # cs);
      eff = (\<lambda>f dflt. inherit NGX_CONF_UNSET_SIZE dflt (map f levels));
      eff_int = (\<lambda>f dflt. inherit NGX_CONF_UNSET dflt (map f levels));
      eff_str = (\<lambda>f. inherit None (Some []) (map f levels)) in
    lc_main conf = inherit None None (map lc_main levels) \<and>
    lc_path_info conf = inherit None None (map lc_path_info levels) \<and>
    lc_init conf = eff_str lc_init \<and> lc_pre conf = eff_str lc_pre \<and> lc_post conf = eff_str lc_post \<and>
    lc_path conf = eff_str lc_path \<and> lc_cpath conf = eff_str lc_cpath \<and>
    lc_states_max conf = eff lc_states_max 32 \<and> lc_requests_max conf = eff lc_requests_max 256 \<and>
    lc_state_memory_max conf = eff lc_state_memory_max 0 \<and> lc_state_gc conf = eff lc_state_gc 0 \<and>
    lc_state_requests_max conf = eff_int lc_state_requests_max 0 \<and>
    lc_state_time_max conf = eff lc_state_time_max 0 \<and> lc_state_timeout conf = eff lc_state_timeout 0 \<and>
    lc_error_response conf = eff lc_error_response 0 \<and> lc_diagnostic conf = eff_int lc_diagnostic 0 \<and>
    lc_streaming conf = eff_int lc_streaming 0 \<and>
    lc_variables conf = concat (map lc_variables (c0 # cs)) \<and>
    lc_monitor conf = lc_monitor (last cs)"
proof -
  have msec: "NGX_CONF_UNSET_MSEC = NGX_CONF_UNSET_SIZE" by (simp add: level_defaults)
  show ?thesis
    unfolding Let_def level_fields level_inherit(2) foldl_last foldl_concat msec
    using assms by (simp add: level_inherit(1) level_defaults last_map)
qed

definition demo_level :: "nat lws_loc_settings" where
  "demo_level = (case fst (lws_create_loc_conf True True True) of CONF_PTR c \<Rightarrow> c)"

definition demo_server :: "nat lws_loc_settings" where
  "demo_server = snd (lws_max_states (\<lambda>_. 5) [lit ''lws_max_states'', lit ''5'']
     (snd (lws_variable (\<lambda>_. 2) True [lit ''lws_variable'', lit ''host''] demo_level)))"

definition demo_location :: "nat lws_loc_settings" where
  "demo_location = snd (lws_directive True True (\<lambda>_ _. Some 7) [lit ''lws'', lit ''main.lua'']
     (snd (lws_variable (\<lambda>_. 3) True [lit ''lws_variable'', lit ''uri''] demo_level)))"

theorem lws_merge_loc_conf_correct_witness:
  "let conf = lws_merge_levels (\<lambda>_. \<lparr>v_name = [], v_index = 0\<rparr>) demo_level [demo_server, demo_location] in
     lc_states_max conf = 5 \<and> lc_requests_max conf = 256 \<and> lc_main conf = Some 7 \<and>
     map v_index (lc_variables conf) = [2, 3] \<and> lc_streaming conf = 0"
  using lws_merge_loc_conf_correct [of "[demo_server, demo_location]" "\<lambda>_. \<lparr>v_name = [], v_index = 0\<rparr>" demo_level]
  by (simp add: demo_level_def demo_server_def demo_location_def lws_create_loc_conf_def lws_max_states_def
      lws_variable_def lws_directive_def inherit_def level_defaults Let_def)

text \<open>A location has one of the two handlers: the directives \<open>lws\<close> and \<open>lws_monitor\<close> exclude each
  other in either order, and each of them may be given once.\<close>

lemma lws_exclusive:
  "lc_monitor llcf \<longrightarrow> fst (lws_directive palloc palloc2 compile values llcf) \<noteq> (NGX_CONF_OK, True)"
  "lc_main llcf \<noteq> None \<longrightarrow> fst (lws_directive palloc palloc2 compile values llcf) \<noteq> (NGX_CONF_OK, True)"
  "lc_main llcf \<noteq> None \<or> lc_monitor llcf \<longrightarrow> fst (lws_monitor_directive shm lmcf llcf) \<noteq> (NGX_CONF_OK, True)"
  by (simp_all add: lws_directive_def lws_monitor_directive_def)

text \<open>The states that are idle when the configuration goes away are closed, each once and in order.\<close>

lemma close_states_spec:
  "w_closed (close_states now states w) = w_closed w @ map (\<lambda>state. lws_set_state_timer now
     (state\<lparr>s_time_max := NGX_TIMER_INFINITE, s_timeout := NGX_TIMER_INFINITE\<rparr>)) states"
  by (induction states arbitrary: w) (simp_all add: lws_close_state_def monitor_add_def Let_def split: option.split)

lemma lws_create_main_conf_not_null: "fst (lws_create_main_conf True False) \<noteq> CONF_NULL"
  by (simp add: lws_create_main_conf_def Let_def)

end
