(* ===== verification/LwsStatCache.thy ===== *)
theory LwsStatCache
  imports LwsConf
begin

text \<open>
  The stat cache: \<open>lws_get_file_status\<close> of src/lws_module.c on the table that \<open>lws_init_main_conf\<close>
  makes, and the bound on how old its answers are. \<open>stat\<close> is the file system at the time of the
  query: the mode of the file of a C string, if there is one. The cache stores the status as a
  pointer whose null is \<open>LWS_FS_UNKNOWN\<close>.
\<close>

definition S_IFMT :: "32 word" where "S_IFMT = 0xF000"

definition S_IFREG :: "32 word" where "S_IFREG = 0x8000"

definition S_ISREG :: "32 word \<Rightarrow> bool" where "S_ISREG mode \<longleftrightarrow> mode AND S_IFMT = S_IFREG"

definition file_status :: "(ngx_str \<Rightarrow> 32 word option) \<Rightarrow> ngx_str \<Rightarrow> lws_file_status" where
  "file_status stat filename =
     (case stat (c_view filename) of
        Some mode \<Rightarrow> if S_ISREG mode then LWS_FS_FOUND else LWS_FS_NOT_FOUND
      | None \<Rightarrow> LWS_FS_NOT_FOUND)"

text \<open>\<open>E\<close> and \<open>E'\<close> are the environments of the lookup and of the update, whose clock readings may
  differ. The result is \<open>None\<close> for a lookup that does not end.\<close>

definition lws_get_file_status ::
  "lws_env \<Rightarrow> lws_env \<Rightarrow> (ngx_str \<Rightarrow> 32 word option) \<Rightarrow> ngx_str \<Rightarrow> lws_main_conf \<Rightarrow>
   (lws_file_status \<times> lws_main_conf) option" where
  "lws_get_file_status E E' stat filename lmcf =
     (case mc_stat_cache lmcf of
        None \<Rightarrow> Some (file_status stat filename, lmcf)
      | Some t \<Rightarrow>
          (case lws_table_get E t filename of
             None \<Rightarrow> None
           | Some (par, t) \<Rightarrow>
               let fs = (case par of None \<Rightarrow> LWS_FS_UNKNOWN | Some fs \<Rightarrow> fs) in
               if fs \<noteq> LWS_FS_UNKNOWN then Some (fs, lmcf\<lparr>mc_stat_cache := Some t\<rparr>)
               else
                 let fs = file_status stat filename in
                 (case lws_table_set E' t filename (Some fs) of
                    None \<Rightarrow> None
                  | Some (_, t) \<Rightarrow> Some (fs, lmcf\<lparr>mc_stat_cache := Some t\<rparr>))))"

section \<open>Histories\<close>

record stat_query =
  q_env :: lws_env
  q_set_env :: lws_env
  q_stat :: "ngx_str \<Rightarrow> 32 word option"
  q_filename :: ngx_str

fun stat_queries :: "stat_query list \<Rightarrow> lws_main_conf \<Rightarrow> (lws_file_status list \<times> lws_main_conf) option" where
  "stat_queries [] lmcf = Some ([], lmcf)"
| "stat_queries (q # qs) lmcf =
     (case lws_get_file_status (q_env q) (q_set_env q) (q_stat q) (q_filename q) lmcf of
        None \<Rightarrow> None
      | Some (fs, lmcf) \<Rightarrow> map_option (apfst ((#) fs)) (stat_queries qs lmcf))"

text \<open>The status of a file as a query saw it in the file system.\<close>

definition seen :: "stat_query list \<Rightarrow> ngx_str \<Rightarrow> lws_file_status \<Rightarrow> int \<Rightarrow> bool" where
  "seen qs filename fs tm \<longleftrightarrow> (\<exists>q\<in>set qs. c_view (q_filename q) = c_view filename \<and>
     fs = file_status (q_stat q) filename \<and> tm = env_time (q_set_env q))"

text \<open>An answer is current if it was seen less than the timeout of the cache ago.\<close>

definition current :: "stat_query list \<Rightarrow> int \<Rightarrow> stat_query \<Rightarrow> lws_file_status \<Rightarrow> bool" where
  "current qs timeout q fs \<longleftrightarrow> fs = file_status (q_stat q) (q_filename q) \<or>
     (\<exists>tm. seen qs (q_filename q) fs tm \<and> env_time (q_env q) < tm + timeout)"

definition cache_ok :: "lws_env \<Rightarrow> stat_query list \<Rightarrow> lws_main_conf \<Rightarrow> bool" where
  "cache_ok E qs lmcf \<longleftrightarrow> (case mc_stat_cache lmcf of
     None \<Rightarrow> True
   | Some t \<Rightarrow> table_wf E t \<and> \<not> t_ci t \<and> t_timed t \<and> t_timeout t = mc_stat_cache_timeout lmcf \<and>
       t_capped t \<and> t_cap t = unat (mc_stat_cache_cap lmcf) \<and>
       (\<forall>(k, fs, tm)\<in>set (lru_items (lws_table_abs t)). seen qs k fs tm))"

lemma seen_cong: "c_view k' = c_view k \<Longrightarrow> seen qs k' fs tm = seen qs k fs tm"
  by (auto simp: seen_def file_status_def)

lemma seen_mono: "seen qs k fs tm \<Longrightarrow> set qs \<subseteq> set qs' \<Longrightarrow> seen qs' k fs tm"
  by (auto simp: seen_def)

lemma status_known: "file_status stat filename \<noteq> LWS_FS_UNKNOWN"
  by (simp add: file_status_def split: option.split)

lemma seen_known: "seen qs k fs tm \<Longrightarrow> fs \<noteq> LWS_FS_UNKNOWN"
  unfolding seen_def by (metis status_known)

lemma current_known: "current qs timeout q fs \<Longrightarrow> fs \<noteq> LWS_FS_UNKNOWN"
  unfolding current_def using seen_known status_known by metis

lemma cached_class: "\<not> t_ci t \<Longrightarrow> key_class E t k = key_class E t k' \<Longrightarrow> c_view k = c_view k'"
  by (simp add: key_class_def)

lemma stat_cache_defaults_same [simp]: "mc_stat_cache (stat_cache_defaults lmcf) = mc_stat_cache lmcf"
  by (simp add: stat_cache_defaults_def Let_def)

lemma options_ok:
  fixes timeout :: int
  assumes create: "lws_table_create E 32 = Some t0" and cap: "cap \<noteq> 0"
  defines "t \<equiv> stat_cache_options cap timeout t0"
  shows "table_wf E t" "\<not> t_ci t" "t_timed t" "t_timeout t = timeout" "t_capped t" "t_cap t = unat cap"
    "lru_items (lws_table_abs t) = []"
proof -
  note spec = create_spec [OF create]
  have one: "\<not> unat cap < 1" using cap unat_gt_0 [of cap] by simp
  have eq: "t = t0\<lparr>t_dup := True, t_cap := unat cap, t_capped := True, t_timeout := timeout, t_timed := True\<rparr>"
    using spec(3) one
    by (simp add: t_def stat_cache_options_def lws_table_set_dup_def lws_table_set_cap_def lws_table_set_timeout_def)
  show "table_wf E t" by (rule empty_wf [OF spec(1,3)]) (use one in \<open>simp_all add: eq\<close>)
  show "t_timed t" "t_timeout t = timeout" "t_capped t" "t_cap t = unat cap" by (simp_all add: eq)
  show "\<not> t_ci t" by (simp add: eq) (subst spec(5), simp)
  show "lru_items (lws_table_abs t) = []" using spec(2) by (simp add: eq lws_table_items_def)
qed

lemma init_cache_ok:
  assumes init: "lws_init_main_conf E pool lmcf0 = (NGX_CONF_OK, lmcf)"
    and unset: "mc_stat_cache lmcf0 = None"
  shows "cache_ok E [] lmcf" "mc_stat_cache_cap lmcf = 0 \<Longrightarrow> mc_stat_cache lmcf = None"
proof -
  define m0 where "m0 = (if length (str_value (mc_thread_pool_name lmcf0)) = 0
                  then lmcf0\<lparr>mc_thread_pool_name := Some LWS_THREAD_POOL_NAME_DEFAULT\<rparr> else lmcf0)"
  define m1 where "m1 = m0\<lparr>mc_thread_pool := pool (str_value (mc_thread_pool_name m0))\<rparr>"
  define m2 where "m2 = stat_cache_defaults m1"
  have none: "mc_stat_cache m2 = None" using unset by (simp add: m2_def m1_def m0_def)
  have "(if mc_thread_pool m1 = None then (NGX_CONF_ERROR, m1)
     else if mc_stat_cache_cap m2 \<noteq> 0 then
          (case lws_table_create E 32 of
             None \<Rightarrow> (NGX_CONF_ERROR, m2)
           | Some t \<Rightarrow> (NGX_CONF_OK, m2\<lparr>mc_stat_cache :=
                  Some (stat_cache_options (mc_stat_cache_cap m2) (mc_stat_cache_timeout m2) t)\<rparr>))
     else (NGX_CONF_OK, m2)) = (NGX_CONF_OK, lmcf)"
    using init unfolding lws_init_main_conf_def Let_def m2_def m1_def m0_def .
  then consider "mc_stat_cache_cap m2 = 0" "lmcf = m2"
    | t0 where "mc_stat_cache_cap m2 \<noteq> 0" "lws_table_create E 32 = Some t0"
      "lmcf = m2\<lparr>mc_stat_cache := Some (stat_cache_options (mc_stat_cache_cap m2) (mc_stat_cache_timeout m2) t0)\<rparr>"
    by (auto split: if_splits option.splits)
  then have "cache_ok E [] lmcf \<and> (mc_stat_cache_cap lmcf = 0 \<longrightarrow> mc_stat_cache lmcf = None)"
  proof cases
    case 1
    with none show ?thesis by (simp add: cache_ok_def)
  next
    case 2
    with options_ok [OF 2(2,1), of "mc_stat_cache_timeout m2"] show ?thesis
      by (simp add: cache_ok_def del: lws_table_abs_sel)
  qed
  then show "cache_ok E [] lmcf" "mc_stat_cache_cap lmcf = 0 \<Longrightarrow> mc_stat_cache lmcf = None" by blast+
qed

section \<open>One query\<close>

lemma cache_ok_mono: "cache_ok E qs lmcf \<Longrightarrow> set qs \<subseteq> set qs' \<Longrightarrow> cache_ok E qs' lmcf"
  using seen_mono unfolding cache_ok_def by (fastforce split: option.splits)

lemma query_ok:
  assumes ok: "cache_ok E qs lmcf" and E: "same_process (q_env q) E" "same_process (q_set_env q) E" "strncasecmp_ok E"
  shows "\<exists>fs lmcf'. lws_get_file_status (q_env q) (q_set_env q) (q_stat q) (q_filename q) lmcf = Some (fs, lmcf') \<and>
    cache_ok E (qs @ [q]) lmcf' \<and> current qs (mc_stat_cache_timeout lmcf) q fs \<and>
    mc_stat_cache_timeout lmcf' = mc_stat_cache_timeout lmcf \<and> mc_stat_cache_cap lmcf' = mc_stat_cache_cap lmcf \<and>
    (mc_stat_cache lmcf = None \<longrightarrow> fs = file_status (q_stat q) (q_filename q) \<and> lmcf' = lmcf)"
proof (cases "mc_stat_cache lmcf")
  case None
  with ok show ?thesis by (simp add: lws_get_file_status_def cache_ok_def current_def)
next
  case (Some t)
  let ?key = "q_filename q" and ?fs = "file_status (q_stat q) (q_filename q)"
  from ok Some have t: "table_wf E t" "\<not> t_ci t" "t_timed t" "t_timeout t = mc_stat_cache_timeout lmcf"
    "t_capped t" "t_cap t = unat (mc_stat_cache_cap lmcf)"
    by (simp_all only: cache_ok_def option.case simp_thms)
  from ok Some have items: "\<forall>(k, fs, tm)\<in>set (lru_items (lws_table_abs t)). seen qs k fs tm"
    by (auto simp: cache_ok_def simp del: lws_table_abs_sel)
  have wf: "table_wf (q_env q) t" "strncasecmp_ok (q_env q)" "strncasecmp_ok (q_set_env q)"
    using t(1) E table_wf_process [OF E(1), of t] by (simp_all add: same_process_def)
  from get_refines [OF wf(1,2), of ?key] obtain par t1 where get: "lws_table_get (q_env q) t ?key = Some (par, t1)"
    "table_wf (q_env q) t1" "same_config t1 t"
    "lru_get (key_class (q_env q) t) (env_time (q_env q)) ?key (lws_table_abs t) = (par, lws_table_abs t1)" by blast
  have t1: "table_wf E t1" "set (lru_items (lws_table_abs t1)) \<subseteq> set (lru_items (lws_table_abs t))"
    using get(2) table_wf_process [OF E(1), of t1] lru_get_items [OF get(4)] by simp_all
  with items have items1: "\<forall>(k, fs, tm)\<in>set (lru_items (lws_table_abs t1)). seen qs k fs tm" by blast
  note c1 = same_configD [OF get(3)]
  show ?thesis
  proof (cases par)
    case fs: (Some fs)
    from get(4) fs obtain k tm where x: "lru_lookup (key_class (q_env q) t) ?key (lru_items (lws_table_abs t)) = Some (k, fs, tm)"
      "\<not> lru_expired (lws_table_abs t) (env_time (q_env q)) tm"
      by (auto simp: lru_get_def simp del: lws_table_abs_sel split: option.splits if_splits)
    from lru_lookup_mem [OF x(1)] items have seen: "seen qs k fs tm" by blast
    from lru_lookup_class [OF x(1)] have "key_class (q_env q) t k = key_class (q_env q) t ?key" unfolding fst_conv .
    from cached_class [OF t(2) this] have "c_view k = c_view ?key" .
    with seen have "seen qs ?key fs tm" using seen_cong [of k ?key qs fs tm] by blast
    moreover have "lws_get_file_status (q_env q) (q_set_env q) (q_stat q) ?key lmcf = Some (fs, lmcf\<lparr>mc_stat_cache := Some t1\<rparr>)"
      using get(1) Some fs seen_known [OF seen] by (simp add: lws_get_file_status_def)
    moreover have "env_time (q_env q) < tm + mc_stat_cache_timeout lmcf"
      using x(2) t(3,4) by (simp add: lru_expired_def)
    moreover have "cache_ok E qs (lmcf\<lparr>mc_stat_cache := Some t1\<rparr>)"
      using t t1 items1 c1 by (simp add: cache_ok_def del: lws_table_abs_sel)
    then have "cache_ok E (qs @ [q]) (lmcf\<lparr>mc_stat_cache := Some t1\<rparr>)" by (rule cache_ok_mono) auto
    ultimately show ?thesis
      using Some by (intro exI [of _ fs] exI [of _ "lmcf\<lparr>mc_stat_cache := Some t1\<rparr>"]) (auto simp: current_def)
  next
    case None
    have wf1: "table_wf (q_set_env q) t1" using t1(1) table_wf_process [OF E(2), of t1] by simp
    from set_refines [OF wf1 wf(3), of ?key "Some ?fs"] obtain rc t2 where
      set: "lws_table_set (q_set_env q) t1 ?key (Some ?fs) = Some (rc, t2)" "table_wf (q_set_env q) t2" "same_config t2 t1"
        "lru_put (key_class (q_set_env q) t1) (env_time (q_set_env q)) (lws_table_set_ok (q_set_env q) t1 ?key) ?key ?fs
           (lws_table_abs t1) = (rc, lws_table_abs t2)"
      by (auto simp: lru_set_def simp del: lws_table_abs_sel)
    note c2 = same_configD [OF set(3)]
    have new: "seen (qs @ [q]) k ?fs (env_time (q_set_env q))"
      if "k = ?key \<or> key_class (q_set_env q) t1 k = key_class (q_set_env q) t1 ?key" for k
    proof -
      have "c_view ?key = c_view k" using that cached_class [of t1] t(2) c1 by metis
      then show ?thesis by (auto simp: seen_def file_status_def)
    qed
    have stamp: "lru_stamp (lws_table_abs t1) now = now" for now using t(3) c1 by (simp add: lru_stamp_def)
    have "seen (qs @ [q]) k fs tm" if "(k, fs, tm) \<in> set (lru_items (lws_table_abs t2))" for k fs tm
    proof -
      from subsetD [OF lru_put_items [OF set(4), unfolded stamp] that] consider
        "(k, fs, tm) \<in> set (lru_items (lws_table_abs t1))"
        | "fs = ?fs" "tm = env_time (q_set_env q)"
          "k = ?key \<or> key_class (q_set_env q) t1 k = key_class (q_set_env q) t1 ?key" by blast
      then show ?thesis
      proof cases
        case 1
        with items1 have "seen qs k fs tm" by blast
        then show ?thesis by (rule seen_mono) auto
      next
        case 2
        from new [OF 2(3)] 2(1,2) show ?thesis by simp
      qed
    qed
    then have "\<forall>(k, fs, tm)\<in>set (lru_items (lws_table_abs t2)). seen (qs @ [q]) k fs tm" by blast
    moreover have "table_wf E t2" using set(2) table_wf_process [OF E(2), of t2] by simp
    ultimately have "cache_ok E (qs @ [q]) (lmcf\<lparr>mc_stat_cache := Some t2\<rparr>)"
      using t c1 c2 by (simp add: cache_ok_def del: lws_table_abs_sel)
    with get(1) set(1) Some None show ?thesis by (simp add: lws_get_file_status_def current_def)
  qed
qed

section \<open>Histories of queries\<close>

lemma queries_ok:
  assumes E: "strncasecmp_ok E"
  shows "cache_ok E hs lmcf \<Longrightarrow> \<forall>q\<in>set qs. same_process (q_env q) E \<and> same_process (q_set_env q) E \<Longrightarrow>
    \<exists>answers lmcf'. stat_queries qs lmcf = Some (answers, lmcf') \<and> length answers = length qs \<and>
      cache_ok E (hs @ qs) lmcf' \<and> mc_stat_cache_cap lmcf' = mc_stat_cache_cap lmcf \<and>
      (\<forall>i < length qs. current (hs @ take i qs) (mc_stat_cache_timeout lmcf) (qs ! i) (answers ! i) \<and>
        (mc_stat_cache lmcf = None \<longrightarrow> answers ! i = file_status (q_stat (qs ! i)) (q_filename (qs ! i))))"
proof (induction qs arbitrary: hs lmcf)
  case Nil
  then show ?case by simp
next
  case (Cons q qs)
  from Cons.prems(2) have q: "same_process (q_env q) E" "same_process (q_set_env q) E"
    and qs: "\<forall>q\<in>set qs. same_process (q_env q) E \<and> same_process (q_set_env q) E" by auto
  from query_ok [OF Cons.prems(1) q E] obtain fs m where
    m: "lws_get_file_status (q_env q) (q_set_env q) (q_stat q) (q_filename q) lmcf = Some (fs, m)"
      "cache_ok E (hs @ [q]) m" "current hs (mc_stat_cache_timeout lmcf) q fs"
      "mc_stat_cache_timeout m = mc_stat_cache_timeout lmcf" "mc_stat_cache_cap m = mc_stat_cache_cap lmcf"
      "mc_stat_cache lmcf = None \<longrightarrow> fs = file_status (q_stat q) (q_filename q) \<and> m = lmcf"
    by (elim exE conjE) (rule that)
  from Cons.IH [OF m(2) qs] obtain answers m' where
    IH: "stat_queries qs m = Some (answers, m')" "length answers = length qs" "cache_ok E (hs @ q # qs) m'"
      "mc_stat_cache_cap m' = mc_stat_cache_cap m"
      "\<forall>i < length qs. current (hs @ q # take i qs) (mc_stat_cache_timeout m) (qs ! i) (answers ! i) \<and>
        (mc_stat_cache m = None \<longrightarrow> answers ! i = file_status (q_stat (qs ! i)) (q_filename (qs ! i)))"
    by auto
  have "\<forall>i < length (q # qs). current (hs @ take i (q # qs)) (mc_stat_cache_timeout lmcf) ((q # qs) ! i) ((fs # answers) ! i) \<and>
        (mc_stat_cache lmcf = None \<longrightarrow> (fs # answers) ! i = file_status (q_stat ((q # qs) ! i)) (q_filename ((q # qs) ! i)))"
    using IH(5) m(3,4,6) by (auto simp: less_Suc_eq_0_disj)
  with m(1,5) IH(1-4) show ?case by (intro exI [of _ "fs # answers"] exI [of _ m']) simp
qed

lemma cache_bounded:
  assumes "cache_ok E qs lmcf" "mc_stat_cache lmcf = Some t"
  shows "length (lru_items (lws_table_abs t)) \<le> unat (mc_stat_cache_cap lmcf)"
proof -
  from assms have t: "table_wf E t" "t_capped t" "t_cap t = unat (mc_stat_cache_cap lmcf)"
    by (simp_all only: cache_ok_def option.case)
  with table_wfD(1,7) [OF t(1)] show ?thesis by (simp add: length_items)
qed

text \<open>C22: The stat cache: from the start of the process, every query of a file returns an answer that
  is the status of the file at that moment, or was the status of the file (the file of the same C
  string) at an earlier query whose answer entered the cache less than the configured timeout ago.
  The cache never holds more entries than configured, and with a capacity of zero every answer is
  the status at the moment.\<close>

theorem lws_stat_cache_fresh:
  assumes init: "lws_init_main_conf E pool lmcf0 = (NGX_CONF_OK, lmcf)" "mc_stat_cache lmcf0 = None"
    and E: "strncasecmp_ok E"
    and env: "\<And>q. q \<in> set qs \<Longrightarrow> same_process (q_env q) E \<and> same_process (q_set_env q) E"
  shows "\<exists>answers lmcf'. stat_queries qs lmcf = Some (answers, lmcf') \<and> length answers = length qs \<and>
    (\<forall>i < length qs. current (take i qs) (mc_stat_cache_timeout lmcf) (qs ! i) (answers ! i) \<and>
      (mc_stat_cache_cap lmcf = 0 \<longrightarrow> answers ! i = file_status (q_stat (qs ! i)) (q_filename (qs ! i)))) \<and>
    (\<forall>t. mc_stat_cache lmcf' = Some t \<longrightarrow> length (lru_items (lws_table_abs t)) \<le> unat (mc_stat_cache_cap lmcf))"
proof -
  from queries_ok [OF E init_cache_ok(1) [OF init], of qs] env obtain answers lmcf' where
    r: "stat_queries qs lmcf = Some (answers, lmcf')" "length answers = length qs" "cache_ok E qs lmcf'"
      "mc_stat_cache_cap lmcf' = mc_stat_cache_cap lmcf"
      "\<forall>i < length qs. current (take i qs) (mc_stat_cache_timeout lmcf) (qs ! i) (answers ! i) \<and>
        (mc_stat_cache lmcf = None \<longrightarrow> answers ! i = file_status (q_stat (qs ! i)) (q_filename (qs ! i)))" by auto
  from cache_bounded [OF r(3)] r(4) r(1,2,5) init_cache_ok(2) [OF init] show ?thesis by metis
qed

text \<open>A file that exists at 100 and is gone at 200, 70 seconds after its entry expired.\<close>

definition demo_query :: "int \<Rightarrow> 32 word option \<Rightarrow> stat_query" where
  "demo_query now mode = \<lparr>q_env = demo_env\<lparr>env_time := now\<rparr>, q_set_env = demo_env\<lparr>env_time := now\<rparr>,
     q_stat = (\<lambda>_. mode), q_filename = lit ''main.lua''\<rparr>"

definition demo_conf :: lws_main_conf where
  "demo_conf = (case fst (lws_create_main_conf True True) of CONF_PTR c \<Rightarrow> c)"

lemma demo_conf_init: "\<exists>lmcf. lws_init_main_conf demo_env (\<lambda>_. Some 1) demo_conf = (NGX_CONF_OK, lmcf) \<and>
    mc_stat_cache_timeout lmcf = 30"
proof -
  from demo_created obtain t :: "lws_file_status lws_table" where "lws_table_create demo_env 32 = Some t" by blast
  then show ?thesis
    by (simp add: lws_init_main_conf_def demo_conf_def lws_create_main_conf_def stat_cache_defaults_def
        NGX_CONF_UNSET_SIZE_def NGX_CONF_UNSET_def LWS_STAT_CACHE_CAP_DEFAULT_def LWS_STAT_CACHE_TIMEOUT_DEFAULT_def Let_def)
qed

theorem lws_stat_cache_fresh_witness:
  "\<exists>lmcf lmcf'. lws_init_main_conf demo_env (\<lambda>_. Some 1) demo_conf = (NGX_CONF_OK, lmcf) \<and>
     stat_queries [demo_query 100 (Some 0x81A4), demo_query 200 None] lmcf =
       Some ([LWS_FS_FOUND, LWS_FS_NOT_FOUND], lmcf')"
proof -
  let ?qs = "[demo_query 100 (Some 0x81A4), demo_query 200 None]"
  from demo_conf_init obtain lmcf where lmcf: "lws_init_main_conf demo_env (\<lambda>_. Some 1) demo_conf = (NGX_CONF_OK, lmcf)"
    "mc_stat_cache_timeout lmcf = 30" by blast
  have none: "mc_stat_cache demo_conf = None" by (simp add: demo_conf_def lws_create_main_conf_def Let_def)
  have env: "same_process (q_env q) demo_env \<and> same_process (q_set_env q) demo_env" if "q \<in> set ?qs" for q
    using that demo_env_ok by (auto simp: demo_query_def same_process_def strncasecmp_ok_def)
  from lws_stat_cache_fresh [OF lmcf(1) none demo_env_ok env] obtain answers lmcf' where
    r: "stat_queries ?qs lmcf = Some (answers, lmcf')" "length answers = length ?qs"
      "\<forall>i < length ?qs. current (take i ?qs) (mc_stat_cache_timeout lmcf) (?qs ! i) (answers ! i)" by blast
  obtain a b where ab: "answers = [a, b]" using r(2) by (auto simp: length_Suc_conv)
  have mode: "S_ISREG 0x81A4" by (simp add: S_ISREG_def S_IFMT_def S_IFREG_def)
  from r(3) have "current [] 30 (?qs ! 0) a" "current [?qs ! 0] 30 (?qs ! 1) b"
    using lmcf(2) by (auto simp: ab less_Suc_eq)
  then have "a = LWS_FS_FOUND" "b = LWS_FS_NOT_FOUND"
    using mode by (auto simp: current_def seen_def demo_query_def file_status_def)
  with r(1) lmcf(1) ab show ?thesis by blast
qed

end
