(* ===== verification/LwsTableRoom.thy ===== *)
theory LwsTableRoom
  imports LwsTableMap
begin

text \<open>
  Tables with plenty of memory: with fewer than \<open>2 ^ 40\<close> items, and if every allocation succeeds,
  \<open>lws_table_create\<close> and \<open>lws_table_set\<close> succeed. The bound is far below the largest table size.
\<close>

definition plenty :: "lws_env \<Rightarrow> bool" where
  "plenty E \<longleftrightarrow> (\<forall>n. env_alloc_ok E n) \<and> (\<forall>n. env_calloc_ok E n)"

definition items_n :: "'v lws_table \<Rightarrow> nat" where
  "items_n t = length (lru_items (lws_table_abs t))"

lemma size_exists:
  assumes "sz \<le> 272513087380099"
  shows "\<exists>a. lws_table_size sz = Some a"
proof -
  have "272513087380099 \<in> set lws_table_sizes" by (simp add: lws_table_sizes_def)
  with assms have "find (\<lambda>s. sz \<le> s) lws_table_sizes \<noteq> None" unfolding find_None_iff by blast
  then show ?thesis by (simp add: lws_table_size_find)
qed

lemma create_room:
  assumes "plenty E" "load < 2 ^ 40"
  shows "\<exists>t. lws_table_create E load = Some t"
proof -
  have "load + (if load < lws_table_sizes ! (lws_table_sizes_n - 1) then load div 7 + 3 else 0) \<le> load + load div 7 + 3"
    by simp
  also have "\<dots> \<le> 272513087380099" using assms(2) by simp
  finally obtain a where "lws_table_size (load + (if load < lws_table_sizes ! (lws_table_sizes_n - 1)
      then load div 7 + 3 else 0)) = Some a" using size_exists by blast
  with assms(1) show ?thesis by (simp add: lws_table_create_def plenty_def Let_def)
qed

lemma set_room:
  assumes "class_table E t" "plenty E" "items_n t < 2 ^ 40"
  shows "lws_table_set_ok E t key"
proof -
  note ok = class_tableD [OF assms(1)]
  have slots: "slots_wf t" using ok(1) by (simp add: table_wf_def)
  have count: "t_count t < 2 ^ 40"
    using slots_wfD(4) [OF slots] assms(3) by (simp add: items_n_def lws_table_items_def)
  have "\<exists>a. lws_table_size (t_alloc t + 1) = Some a" if "t_count t = t_load t"
  proof -
    have "t_alloc t div 2 \<le> t_count t" using slots_wfD(5) [OF slots] that by (simp add: lws_table_load_div)
    with count have "t_alloc t + 1 \<le> 272513087380099" by simp
    then show ?thesis by (rule size_exists)
  qed
  with ok(4) assms(2) show ?thesis
    by (auto simp: lws_table_set_ok_def lws_table_grow_ok_def lws_table_copy_ok_def lws_table_evict_def plenty_def)
qed

lemma put_room:
  assumes "class_table E t" "plenty E" "items_n t < 2 ^ 40" "0 \<notin> set key"
  obtains t' where "lws_table_set E t key (Some v) = Some (0, t')" "class_table E t'" "same_config t' t"
    "items_n t' \<le> Suc (items_n t)"
proof -
  from put_class [OF assms(1,4), of v] set_room [OF assms(1-3), of key] obtain t' where
    t': "lws_table_set E t key (Some v) = Some (0, t')" "class_table E t'" "same_config t' t" by auto
  from set_refines [OF class_tableD(1,2) [OF assms(1)], of key "Some v"] t'(1)
  have "lru_put (key_class E t) (env_time E) (lws_table_set_ok E t key) key v (lws_table_abs t) = (0, lws_table_abs t')"
    by (auto simp: lru_set_def simp del: lws_table_abs_sel)
  moreover have "lru_cap (lws_table_abs t) = None" using class_tableD(4) [OF assms(1)] by simp
  ultimately have "items_n t' \<le> Suc (items_n t)"
    by (auto simp: items_n_def lru_put_def lru_update_def lru_evict_def lru_full_def lru_replace_def Let_def
        simp del: lws_table_abs_sel split: option.splits if_splits dest!: arg_cong [of _ "lws_table_abs t'" "\<lambda>l. length (lru_items l)"])
  with t' that show thesis by blast
qed

end
