(* ===== verification/LwsHandler.thy ===== *)
theory LwsHandler
  imports LwsHeaders LwsStatCache LwsTableRoom "HOL-Library.Multiset"
begin

text \<open>
  The content handler \<open>lws_handler\<close> of src/lws_module.c, which makes the context of a request, and the
  pool cleanup \<open>lws_cleanup_request_ctx\<close>, which releases what the context holds.

  Every answer of NGINX and of the system is a field of \<open>handler_answers\<close>. What the handler acquires
  (tables, the memory stream with its buffer, descriptors, the connection) is logged where the call
  is made; what the cleanup releases is its result. Closing a connection closes its descriptor.
\<close>

definition NGX_DECLINED :: int where "NGX_DECLINED = -5"

definition NGX_DONE :: int where "NGX_DONE = -4"

datatype resource =
    Variables | RequestHeaders | RequestBody | ResponseHeaders
  | BodyStream | BodyBuffer | Fd int | Conn int | Block nat

record lws_handler_ctx =
  hc_main :: ngx_str
  hc_path_info :: ngx_str
  hc_variables :: "ngx_str lws_table option"
  hc_request_headers :: "nat lws_table option"
  hc_header_heap :: header_heap
  hc_request_body :: bool
  hc_status :: int
  hc_response_headers :: "ngx_str lws_table option"
  hc_response_body :: bool
  hc_pipe_in :: int
  hc_pipe_out :: int
  hc_conn :: "int option"
  hc_redirect :: "nat option"
  hc_redirect_args :: "nat option"
  hc_diagnostic :: "nat option"

record 'cv handler_answers =
  a_complex :: "'cv \<Rightarrow> ngx_str option"
  a_stat :: stat_query
  a_ctx :: bool
  a_cleanup :: bool
  a_variables_env :: lws_env
  a_variable :: "int \<Rightarrow> ngx_str option"
  a_value :: "nat \<Rightarrow> bool"
  a_variable_env :: "nat \<Rightarrow> lws_env"
  a_headers_env :: lws_env
  a_header_env :: "nat \<Rightarrow> lws_env"
  a_header :: "nat \<Rightarrow> nat option"
  a_buffer :: "nat \<Rightarrow> bool"
  a_junk :: "nat \<Rightarrow> nat \<Rightarrow> byte"
  a_response_env :: lws_env
  a_memstream :: bool
  a_pipe :: "(int \<times> int) option"
  a_nonblocking :: bool
  a_connection :: bool
  a_read_event :: bool
  a_read_body :: int

text \<open>A context under construction and what was acquired for it. A step returns \<open>Inl\<close> to end the
  handler with status 500; \<open>None\<close> is a table operation that does not end.\<close>

type_synonym making = "lws_handler_ctx \<times> resource list"

type_synonym made = "(making + making) option"

definition and_then :: "made \<Rightarrow> (making \<Rightarrow> made) \<Rightarrow> made" where
  "and_then r f = (case r of None \<Rightarrow> None | Some (Inl s) \<Rightarrow> Some (Inl s) | Some (Inr s) \<Rightarrow> f s)"

definition empty_ctx :: lws_handler_ctx where
  "empty_ctx = \<lparr>hc_main = [], hc_path_info = [], hc_variables = None, hc_request_headers = None,
     hc_header_heap = Map.empty, hc_request_body = False, hc_status = 0, hc_response_headers = None,
     hc_response_body = False, hc_pipe_in = -1, hc_pipe_out = -1, hc_conn = None,
     hc_redirect = None, hc_redirect_args = None, hc_diagnostic = None\<rparr>"

definition handler_path_info :: "'cv handler_answers \<Rightarrow> 'cv lws_loc_settings \<Rightarrow> making \<Rightarrow> made" where
  "handler_path_info a llcf s =
     (case s of (ctx, acq) \<Rightarrow>
        (case lc_path_info llcf of
           None \<Rightarrow> Some (Inr (ctx, acq))
         | Some cv \<Rightarrow>
             (case a_complex a cv of
                None \<Rightarrow> Some (Inl (ctx, acq))
              | Some path \<Rightarrow> Some (Inr (ctx\<lparr>hc_path_info := path\<rparr>, acq)))))"

fun set_variables ::
  "'cv handler_answers \<Rightarrow> nat \<Rightarrow> lws_variable_t list \<Rightarrow> ngx_str lws_table \<Rightarrow>
   (ngx_str lws_table + ngx_str lws_table) option" where
  "set_variables a i [] t = Some (Inr t)"
| "set_variables a i (v # vs) t =
     (case a_variable a (v_index v) of
        None \<Rightarrow> set_variables a (Suc i) vs t
      | Some value \<Rightarrow>
          if \<not> a_value a i then Some (Inl t)
          else
            (case lws_table_set (a_variable_env a i) t (v_name v) (Some value) of
               None \<Rightarrow> None
             | Some (rc, t) \<Rightarrow> if rc \<noteq> 0 then Some (Inl t) else set_variables a (Suc i) vs t))"

definition handler_variables :: "'cv handler_answers \<Rightarrow> 'cv lws_loc_settings \<Rightarrow> making \<Rightarrow> made" where
  "handler_variables a llcf s =
     (case s of (ctx, acq) \<Rightarrow>
        (case lws_table_create (a_variables_env a) (length (lc_variables llcf)) of
           None \<Rightarrow> Some (Inl (ctx, acq))
         | Some t \<Rightarrow>
             (case set_variables a 0 (lc_variables llcf) t of
                None \<Rightarrow> None
              | Some (Inl t) \<Rightarrow> Some (Inl (ctx\<lparr>hc_variables := Some t\<rparr>, acq @ [Variables]))
              | Some (Inr t) \<Rightarrow> Some (Inr (ctx\<lparr>hc_variables := Some t\<rparr>, acq @ [Variables])))))"

definition handler_request_headers :: "'cv handler_answers \<Rightarrow> (ngx_str \<times> ngx_str) list \<Rightarrow> making \<Rightarrow> made" where
  "handler_request_headers a headers_in s =
     (case s of (ctx, acq) \<Rightarrow>
        (case lws_table_create (a_headers_env a) 32 of
           None \<Rightarrow> Some (Inl (ctx, acq))
         | Some t \<Rightarrow>
             (case request_headers (a_header_env a) (a_header a) (a_buffer a) (a_junk a) headers_in
                     (snd (lws_table_set_ci t True)) of
                None \<Rightarrow> None
              | Some (Inl (t, h)) \<Rightarrow>
                  Some (Inl (ctx\<lparr>hc_request_headers := Some t, hc_header_heap := h\<rparr>, acq @ [RequestHeaders]))
              | Some (Inr (t, h)) \<Rightarrow>
                  Some (Inr (ctx\<lparr>hc_request_headers := Some t, hc_header_heap := h\<rparr>, acq @ [RequestHeaders])))))"

definition handler_response_headers :: "'cv handler_answers \<Rightarrow> making \<Rightarrow> made" where
  "handler_response_headers a s =
     (case s of (ctx, acq) \<Rightarrow>
        (case lws_table_create (a_response_env a) 8 of
           None \<Rightarrow> Some (Inl (ctx, acq))
         | Some t \<Rightarrow>
             let t = snd (lws_table_set_dup t True);
                 t = snd (lws_table_set_free t True);
                 t = snd (lws_table_set_ci t True)
             in Some (Inr (ctx\<lparr>hc_response_headers := Some t, hc_status := NGX_HTTP_OK\<rparr>,
                  acq @ [ResponseHeaders]))))"

definition handler_response_body :: "'cv handler_answers \<Rightarrow> making \<Rightarrow> made" where
  "handler_response_body a s =
     (case s of (ctx, acq) \<Rightarrow>
        if \<not> a_memstream a then Some (Inl (ctx, acq))
        else Some (Inr (ctx\<lparr>hc_response_body := True\<rparr>, acq @ [BodyStream, BodyBuffer])))"

definition handler_streaming :: "'cv handler_answers \<Rightarrow> 'cv lws_loc_settings \<Rightarrow> making \<Rightarrow> made" where
  "handler_streaming a llcf s =
     (case s of (ctx, acq) \<Rightarrow>
        if lc_streaming llcf = 0 then Some (Inr (ctx, acq))
        else
          (case a_pipe a of
             None \<Rightarrow> Some (Inl (ctx, acq))
           | Some (fd_in, fd_out) \<Rightarrow>
               let ctx = ctx\<lparr>hc_pipe_in := fd_in, hc_pipe_out := fd_out\<rparr>; acq = acq @ [Fd fd_in, Fd fd_out] in
               if \<not> a_nonblocking a then Some (Inl (ctx, acq))
               else if \<not> a_connection a then Some (Inl (ctx, acq))
               else
                 let ctx = ctx\<lparr>hc_conn := Some fd_in\<rparr>; acq = acq @ [Conn fd_in] in
                 if \<not> a_read_event a then Some (Inl (ctx, acq)) else Some (Inr (ctx, acq))))"

text \<open>The result: the return code, the configuration with its stat cache, the context if one was
  attached to the request, whether its cleanup is registered, what was acquired, and whether the
  request body is being read (its handler is \<open>lws_body_handler\<close>).\<close>

record handler_result =
  hr_rc :: int
  hr_conf :: lws_main_conf
  hr_ctx :: "lws_handler_ctx option"
  hr_cleanup :: bool
  hr_acquired :: "resource list"
  hr_reading :: bool

definition lws_make_ctx ::
  "'cv handler_answers \<Rightarrow> 'cv lws_loc_settings \<Rightarrow> (ngx_str \<times> ngx_str) list \<Rightarrow> making \<Rightarrow> made" where
  "lws_make_ctx a llcf headers_in s =
     and_then (and_then (and_then (and_then (and_then (handler_path_info a llcf s)
       (handler_variables a llcf)) (handler_request_headers a headers_in))
       (handler_response_headers a)) (handler_response_body a)) (handler_streaming a llcf)"

definition lws_handler ::
  "'cv handler_answers \<Rightarrow> 'cv lws_loc_settings \<Rightarrow> (ngx_str \<times> ngx_str) list \<Rightarrow> lws_main_conf \<Rightarrow>
   handler_result option" where
  "lws_handler a llcf headers_in lmcf =
     (let result = \<lambda>rc lmcf. \<lparr>hr_rc = rc, hr_conf = lmcf, hr_ctx = None, hr_cleanup = False,
            hr_acquired = [], hr_reading = False\<rparr> in
      case lc_main llcf of
        None \<Rightarrow> Some (result NGX_DECLINED lmcf)
      | Some cv \<Rightarrow>
          (case a_complex a cv of
             None \<Rightarrow> Some (result NGX_HTTP_INTERNAL_SERVER_ERROR lmcf)
           | Some main \<Rightarrow>
               (case lws_get_file_status (q_env (a_stat a)) (q_set_env (a_stat a)) (q_stat (a_stat a)) main lmcf of
                  None \<Rightarrow> None
                | Some (fs, lmcf) \<Rightarrow>
                    if fs = LWS_FS_NOT_FOUND then Some (result NGX_HTTP_NOT_FOUND lmcf)
                    else if \<not> a_ctx a then Some (result NGX_HTTP_INTERNAL_SERVER_ERROR lmcf)
                    else if \<not> a_cleanup a then
                      Some ((result NGX_HTTP_INTERNAL_SERVER_ERROR lmcf)\<lparr>hr_ctx := Some empty_ctx\<rparr>)
                    else
                      (case lws_make_ctx a llcf headers_in (empty_ctx\<lparr>hc_main := main\<rparr>, []) of
                         None \<Rightarrow> None
                       | Some (Inl (ctx, acq)) \<Rightarrow>
                           Some ((result NGX_HTTP_INTERNAL_SERVER_ERROR lmcf)\<lparr>hr_ctx := Some ctx,
                             hr_cleanup := True, hr_acquired := acq\<rparr>)
                       | Some (Inr (ctx, acq)) \<Rightarrow>
                           let rc = a_read_body a;
                               rc = (if rc \<ge> NGX_HTTP_SPECIAL_RESPONSE then rc else NGX_DONE)
                           in Some ((result rc lmcf)\<lparr>hr_ctx := Some ctx,
                                hr_cleanup := True, hr_acquired := acq, hr_reading := True\<rparr>)))))"

text \<open>The pool cleanup: what it releases, in its order.\<close>

definition cleanup_streaming :: "lws_handler_ctx \<Rightarrow> resource list" where
  "cleanup_streaming ctx =
     (case hc_conn ctx of
        Some fd \<Rightarrow> [Conn fd, Fd fd]
      | None \<Rightarrow> if hc_pipe_in ctx \<noteq> -1 then [Fd (hc_pipe_in ctx)] else []) @
     (if hc_pipe_out ctx \<noteq> -1 then [Fd (hc_pipe_out ctx)] else [])"

definition lws_cleanup_request_ctx :: "lws_handler_ctx \<Rightarrow> resource list" where
  "lws_cleanup_request_ctx ctx =
     (if hc_variables ctx \<noteq> None then [Variables] else []) @
     (if hc_request_headers ctx \<noteq> None then [RequestHeaders] else []) @
     (if hc_request_body ctx then [RequestBody] else []) @
     (if hc_response_headers ctx \<noteq> None then [ResponseHeaders] else []) @
     (if hc_response_body ctx then [BodyStream, BodyBuffer] else []) @
     cleanup_streaming ctx @
     (case hc_redirect ctx of Some p \<Rightarrow> [Block p] | None \<Rightarrow> []) @
     (case hc_redirect_args ctx of Some p \<Rightarrow> [Block p] | None \<Rightarrow> []) @
     (case hc_diagnostic ctx of Some p \<Rightarrow> [Block p] | None \<Rightarrow> [])"

section \<open>What a finished context holds\<close>

text \<open>The value of a variable: of the last directive \<open>lws_variable\<close> of that name whose variable is
  valid. The variables of a location come after those of its server.\<close>

definition variable_values :: "'cv handler_answers \<Rightarrow> lws_variable_t list \<Rightarrow> ngx_str \<rightharpoonup> ngx_str" where
  "variable_values a vs = map_of (rev (List.map_filter
     (\<lambda>v. map_option (Pair (v_name v)) (a_variable a (v_index v))) vs))"

definition variables_ready :: "lws_env \<Rightarrow> 'cv handler_answers \<Rightarrow> lws_variable_t list \<Rightarrow> ngx_str lws_table option \<Rightarrow> bool" where
  "variables_ready E a vs table \<longleftrightarrow> (\<exists>t. table = Some t \<and>
     (\<forall>name. 0 \<notin> set name \<longrightarrow> lws_table_get E t name = Some (variable_values a vs name, t)))"

definition headers_ready :: "lws_env \<Rightarrow> (ngx_str \<times> ngx_str) list \<Rightarrow> nat lws_table option \<Rightarrow> header_heap \<Rightarrow> bool" where
  "headers_ready E headers_in table h \<longleftrightarrow> (\<exists>t. table = Some t \<and>
     (\<forall>key. 0 \<notin> set key \<longrightarrow> (\<exists>par. lws_table_get E t key = Some (par, t) \<and>
       header_value h par =
         (let vs = header_values (map (env_tolower E)) headers_in (map (env_tolower E) key) in
          if vs = [] then None else Some (joined vs)))))"

definition response_ready :: "lws_env \<Rightarrow> ngx_str lws_table option \<Rightarrow> bool" where
  "response_ready E table \<longleftrightarrow> (\<exists>t. table = Some t \<and> class_table E t \<and> class_view E t = Map.empty \<and>
     t_ci t \<and> t_dup t \<and> t_free t)"

definition path_info :: "'cv handler_answers \<Rightarrow> 'cv lws_loc_settings \<Rightarrow> ngx_str" where
  "path_info a llcf = (case lc_path_info llcf of None \<Rightarrow> [] | Some cv \<Rightarrow> the (a_complex a cv))"

definition ctx_ready ::
  "lws_env \<Rightarrow> 'cv handler_answers \<Rightarrow> 'cv lws_loc_settings \<Rightarrow> (ngx_str \<times> ngx_str) list \<Rightarrow> lws_handler_ctx \<Rightarrow> bool" where
  "ctx_ready E a llcf headers_in ctx \<longleftrightarrow>
     variables_ready E a (lc_variables llcf) (hc_variables ctx) \<and>
     headers_ready E headers_in (hc_request_headers ctx) (hc_header_heap ctx) \<and>
     response_ready E (hc_response_headers ctx) \<and> hc_status ctx = NGX_HTTP_OK \<and> hc_response_body ctx \<and>
     Option.bind (lc_main llcf) (a_complex a) = Some (hc_main ctx) \<and> hc_path_info ctx = path_info a llcf \<and>
     (hc_conn ctx \<noteq> None \<longleftrightarrow> lc_streaming llcf \<noteq> 0)"

text \<open>The answers of one worker process: \<open>ngx_palloc\<close> returns different blocks, and \<open>pipe\<close> two
  descriptors.\<close>

definition answers_ok :: "lws_env \<Rightarrow> 'cv handler_answers \<Rightarrow> bool" where
  "answers_ok E a \<longleftrightarrow> strncasecmp_ok E \<and>
     same_process (q_env (a_stat a)) E \<and> same_process (q_set_env (a_stat a)) E \<and>
     same_process (a_variables_env a) E \<and> (\<forall>i. same_process (a_variable_env a i) E) \<and>
     same_process (a_headers_env a) E \<and> (\<forall>i. same_process (a_header_env a i) E) \<and>
     same_process (a_response_env a) E \<and>
     (\<forall>i j q. a_header a i = Some q \<longrightarrow> a_header a j = Some q \<longrightarrow> i = j) \<and>
     (case a_pipe a of None \<Rightarrow> True | Some (fd_in, fd_out) \<Rightarrow> 0 \<le> fd_in \<and> 0 \<le> fd_out)"

section \<open>The variables\<close>

lemma set_variables_spec:
  assumes env: "\<And>i. same_process (a_variable_env a i) E" "strncasecmp_ok E"
  shows "exact_table E t \<Longrightarrow> \<forall>v\<in>set vs. 0 \<notin> set (v_name v) \<Longrightarrow>
    \<exists>r. set_variables a i vs t = Some r \<and>
      (\<forall>t'. r = Inr t' \<longrightarrow> exact_table E t' \<and> table_map t' = table_map t ++ variable_values a vs)"
proof (induction vs arbitrary: t i)
  case Nil
  then show ?case by (simp add: variable_values_def List.map_filter_def)
next
  case (Cons v vs)
  from Cons.prems(2) have name: "0 \<notin> set (v_name v)" and vs: "\<forall>v\<in>set vs. 0 \<notin> set (v_name v)" by auto
  show ?case
  proof (cases "a_variable a (v_index v)")
    case None
    with Cons.IH [OF Cons.prems(1) vs, of "Suc i"] show ?thesis
      by (simp add: variable_values_def List.map_filter_def)
  next
    case (Some val)
    have sym: "same_process E (a_variable_env a i)" using env(1) [of i] env(2) by (simp add: same_process_def)
    from exact.put_map [OF exact_process [OF Cons.prems(1) env(1) [of i]] name, of val] obtain rc t' where
      set: "lws_table_set (a_variable_env a i) t (v_name v) (Some val) = Some (rc, t')"
        "exact_table (a_variable_env a i) t'"
        "table_map t' = (if rc = 0 then (table_map t)(v_name v \<mapsto> val) else table_map t)" by blast
    from Cons.IH [OF exact_process [OF set(2) sym] vs, of "Suc i"] obtain r where
      r: "set_variables a (Suc i) vs t' = Some r"
        "\<forall>t''. r = Inr t'' \<longrightarrow> exact_table E t'' \<and> table_map t'' = table_map t' ++ variable_values a vs" by blast
    have "(table_map t)(v_name v \<mapsto> val) ++ variable_values a vs = table_map t ++ variable_values a (v # vs)"
      using Some by (simp add: variable_values_def List.map_filter_def map_add_upd_left map_of_append map_add_assoc [symmetric])
    with r set(1,3) Some show ?thesis by auto
  qed
qed

section \<open>The steps\<close>

text \<open>The cleanup releases what was acquired, each resource once.\<close>

definition balanced :: "making \<Rightarrow> bool" where
  "balanced s \<longleftrightarrow> mset (lws_cleanup_request_ctx (fst s)) = mset (snd s)"

text \<open>A step leaves a balanced context, and a context as required if it succeeds.\<close>

definition makes :: "(making \<Rightarrow> bool) \<Rightarrow> made \<Rightarrow> bool" where
  "makes Q r \<longleftrightarrow> (case r of None \<Rightarrow> False | Some (Inl s) \<Rightarrow> balanced s | Some (Inr s) \<Rightarrow> balanced s \<and> Q s)"

lemma makes_and_then:
  assumes "makes Q r" "\<And>s. balanced s \<Longrightarrow> Q s \<Longrightarrow> makes R (f s)"
  shows "makes R (and_then r f)"
proof (cases r)
  case None
  with assms(1) show ?thesis by (simp add: makes_def)
next
  case (Some x)
  show ?thesis
  proof (cases x)
    case (Inl s)
    with Some assms(1) show ?thesis by (simp add: makes_def and_then_def)
  next
    case (Inr s)
    with Some assms(1) have "balanced s" "Q s" by (simp_all add: makes_def)
    with assms(2) Some Inr show ?thesis by (simp add: and_then_def)
  qed
qed

text \<open>The fields that the later steps set are empty, and the earlier ones are as required.\<close>

definition stage ::
  "lws_env \<Rightarrow> 'cv handler_answers \<Rightarrow> 'cv lws_loc_settings \<Rightarrow> (ngx_str \<times> ngx_str) list \<Rightarrow> nat \<Rightarrow> making \<Rightarrow> bool" where
  "stage E a llcf headers_in n s \<longleftrightarrow> (case s of (ctx, _) \<Rightarrow>
     (if n > 1 then variables_ready E a (lc_variables llcf) (hc_variables ctx) else hc_variables ctx = None) \<and>
     (if n > 2 then headers_ready E headers_in (hc_request_headers ctx) (hc_header_heap ctx)
      else hc_request_headers ctx = None) \<and>
     (if n > 3 then response_ready E (hc_response_headers ctx) \<and> hc_status ctx = NGX_HTTP_OK
      else hc_response_headers ctx = None) \<and>
     (hc_response_body ctx \<longleftrightarrow> n > 4) \<and>
     Option.bind (lc_main llcf) (a_complex a) = Some (hc_main ctx) \<and>
     hc_path_info ctx = (if n > 0 then path_info a llcf else []) \<and>
     (if n > 5 then hc_conn ctx \<noteq> None \<longleftrightarrow> lc_streaming llcf \<noteq> 0
      else hc_conn ctx = None \<and> hc_pipe_in ctx = -1 \<and> hc_pipe_out ctx = -1))"

lemma cleanup_streaming_update:
  assumes "cleanup_streaming ctx = []"
  shows "mset (lws_cleanup_request_ctx (ctx\<lparr>hc_pipe_in := x, hc_pipe_out := y\<rparr>)) =
      mset (lws_cleanup_request_ctx ctx) + mset (cleanup_streaming (ctx\<lparr>hc_pipe_in := x, hc_pipe_out := y\<rparr>))"
    "mset (lws_cleanup_request_ctx (ctx\<lparr>hc_pipe_in := x, hc_pipe_out := y, hc_conn := c\<rparr>)) =
      mset (lws_cleanup_request_ctx ctx) +
      mset (cleanup_streaming (ctx\<lparr>hc_pipe_in := x, hc_pipe_out := y, hc_conn := c\<rparr>))"
  using assms by (simp_all add: lws_cleanup_request_ctx_def ac_simps split del: if_split)

lemma cleanup_streaming_other [simp]:
  "cleanup_streaming (ctx\<lparr>hc_variables := t\<rparr>) = cleanup_streaming ctx"
  "cleanup_streaming (ctx\<lparr>hc_request_headers := u, hc_header_heap := h\<rparr>) = cleanup_streaming ctx"
  "cleanup_streaming (ctx\<lparr>hc_response_headers := t, hc_status := i\<rparr>) = cleanup_streaming ctx"
  "cleanup_streaming (ctx\<lparr>hc_response_body := b\<rparr>) = cleanup_streaming ctx"
  "cleanup_streaming (ctx\<lparr>hc_path_info := str\<rparr>) = cleanup_streaming ctx"
  by (simp_all add: cleanup_streaming_def split: option.split)

lemmas step_defs = makes_def stage_def balanced_def lws_cleanup_request_ctx_def

lemma answersD:
  assumes "answers_ok E a"
  shows "strncasecmp_ok E" "same_process (a_variables_env a) E" "same_process (a_variable_env a i) E"
    "same_process (a_headers_env a) E" "same_process (a_header_env a i) E" "same_process (a_response_env a) E"
    "a_header a i = Some q \<Longrightarrow> a_header a j = Some q \<Longrightarrow> i = j"
    "a_pipe a = Some (fd_in, fd_out) \<Longrightarrow> fd_in \<noteq> -1 \<and> fd_out \<noteq> -1"
  using assms by (auto simp: answers_ok_def)

lemma path_info_step:
  "balanced s \<Longrightarrow> stage E a llcf headers_in 0 s \<Longrightarrow> makes (stage E a llcf headers_in 1) (handler_path_info a llcf s)"
  by (cases s) (simp add: handler_path_info_def path_info_def step_defs split: option.split)

lemma variables_step:
  assumes ok: "answers_ok E a" and names: "\<forall>v\<in>set (lc_variables llcf). 0 \<notin> set (v_name v)"
    and s: "balanced s" "stage E a llcf headers_in 1 s"
  shows "makes (stage E a llcf headers_in 2) (handler_variables a llcf s)"
proof -
  obtain ctx acq where ctx: "s = (ctx, acq)" by (cases s)
  show ?thesis
  proof (cases "lws_table_create (a_variables_env a) (length (lc_variables llcf)) :: ngx_str lws_table option")
    case None
    with s show ?thesis by (simp add: ctx handler_variables_def makes_def)
  next
    case (Some t)
    note E' = answersD(2) [OF ok]
    have "strncasecmp_ok (a_variables_env a)" using E' by (simp add: same_process_def)
    note new = exact_created [OF Some this]
    from set_variables_spec [of a E t, OF answersD(3) [OF ok] answersD(1) [OF ok]
        exact_process [OF new(1) same_process_sym [OF E' answersD(1) [OF ok]]] names, of 0]
    obtain r where r: "set_variables a 0 (lc_variables llcf) t = Some r"
      "\<forall>t'. r = Inr t' \<longrightarrow> exact_table E t' \<and> table_map t' = variable_values a (lc_variables llcf)"
      using new(2) by auto
    show ?thesis
    proof (cases r)
      case (Inl t')
      with s r(1) Some show ?thesis by (simp add: ctx handler_variables_def step_defs)
    next
      case (Inr t')
      with r(2) have "exact_table E t'" "table_map t' = variable_values a (lc_variables llcf)" by auto
      then have "variables_ready E a (lc_variables llcf) (Some t')"
        using exact.get_map [of E t'] by (simp add: variables_ready_def)
      with s r(1) Inr Some show ?thesis by (simp add: ctx handler_variables_def step_defs)
    qed
  qed
qed

lemma filled_ready:
  assumes "filled E' headers_in headers_in (t, h)" "norm_key E' t = map (env_tolower E)"
    and E: "same_process E' E" "strncasecmp_ok E"
  shows "headers_ready E headers_in (Some t) h"
proof -
  have f: "filled E headers_in headers_in (t, h)"
    by (rule filled_process [OF assms(1) same_process_sym [OF E]])
  have "norm_key E t = map (env_tolower E)"
    using class_process(2) [OF filledD(1) [OF f] E(1)] assms(2) by simp
  with filled_value [OF f] show ?thesis by (simp add: headers_ready_def)
qed

lemma request_headers_step:
  assumes ok: "answers_ok E a" and names: "\<forall>x\<in>set headers_in. 0 \<notin> set (fst x)"
    and s: "balanced s" "stage E a llcf headers_in 2 s"
  shows "makes (stage E a llcf headers_in 3) (handler_request_headers a headers_in s)"
proof -
  obtain ctx acq where ctx: "s = (ctx, acq)" by (cases s)
  show ?thesis
  proof (cases "lws_table_create (a_headers_env a) 32 :: nat lws_table option")
    case None
    with s show ?thesis by (simp add: ctx handler_request_headers_def makes_def)
  next
    case (Some t)
    note E' = answersD(4) [OF ok]
    have "strncasecmp_ok (a_headers_env a)" using E' by (simp add: same_process_def)
    have env: "same_process (a_header_env a i) (a_headers_env a)" for i
      using answersD(5) [OF ok, of i] E' by (simp add: same_process_def)
    have lower: "env_tolower (a_headers_env a) = env_tolower E" using E' by (simp add: same_process_def)
    have fresh: "fresh_ok (a_header a) 0 Map.empty" using answersD(7) [OF ok] by (auto simp: fresh_ok_def)
    from request_headers_filled [where env = "a_header_env a" and fresh = "a_header a" and headers_in = headers_in
        and alloc = "a_buffer a" and junk = "a_junk a", OF Some env \<open>strncasecmp_ok (a_headers_env a)\<close>
        fresh names]
    obtain r where r: "request_headers (a_header_env a) (a_header a) (a_buffer a) (a_junk a) headers_in
           (snd (lws_table_set_ci t True)) = Some r"
      "case r of Inl (t', h) \<Rightarrow> table_wf (a_headers_env a) t' \<and> ((\<exists>q. \<not> a_buffer a q) \<or>
           collect_failed (a_header_env a) (a_header a) 0 headers_in (snd (lws_table_set_ci t True), Map.empty))
       | Inr (t', h) \<Rightarrow> filled (a_headers_env a) headers_in headers_in (t', h) \<and>
           norm_key (a_headers_env a) t' = map (env_tolower E)"
      unfolding lower by blast
    show ?thesis
    proof (cases r)
      case (Inl x)
      obtain t' h where x: "x = (t', h)" by (cases x)
      with x s r(1) Some Inl show ?thesis by (simp add: ctx handler_request_headers_def step_defs)
    next
      case (Inr x)
      obtain t' h where x: "x = (t', h)" by (cases x)
      with r(2) Inr have "filled (a_headers_env a) headers_in headers_in (t', h)"
        "norm_key (a_headers_env a) t' = map (env_tolower E)" by auto
      from filled_ready [OF this E' answersD(1) [OF ok]] s r(1) Some Inr x
      show ?thesis by (simp add: ctx handler_request_headers_def step_defs)
    qed
  qed
qed

lemma response_created:
  assumes "lws_table_create E' load = Some t" "same_process E' E" "strncasecmp_ok E"
  shows "response_ready E (Some (snd (lws_table_set_ci (snd (lws_table_set_free (snd (lws_table_set_dup t True)) True)) True)))"
proof -
  note spec = create_spec [OF assms(1)]
  let ?t = "t\<lparr>t_dup := True, t_free := True, t_ci := True\<rparr>"
  have eq: "snd (lws_table_set_ci (snd (lws_table_set_free (snd (lws_table_set_dup t True)) True)) True) = ?t"
    using spec(3) by (simp add: lws_table_set_ci_def lws_table_set_free_def lws_table_set_dup_def)
  have items: "lru_items (lws_table_abs ?t) = []" using spec(2) by (simp add: lws_table_items_def)
  have flags: "\<not> t_timed t" "\<not> t_capped t" using spec(5) by (metis lws_table.select_convs)+
  have "table_wf E' ?t" by (rule empty_wf [OF spec(1,3)]) (use flags in simp_all)
  then have "table_wf E ?t" using table_wf_process [OF assms(2), of ?t] by simp
  with flags items assms(3) have "class_table E ?t"
    by (simp add: class_table_def clean_items_def del: lws_table_abs_sel)
  moreover have "class_view E ?t = Map.empty" using items by (simp add: class_view_def nmap_def del: lws_table_abs_sel)
  ultimately show ?thesis by (simp add: eq response_ready_def)
qed

lemma response_headers_step:
  assumes ok: "answers_ok E a" and s: "balanced s" "stage E a llcf headers_in 3 s"
  shows "makes (stage E a llcf headers_in 4) (handler_response_headers a s)"
proof -
  obtain ctx acq where ctx: "s = (ctx, acq)" by (cases s)
  show ?thesis
  proof (cases "lws_table_create (a_response_env a) 8 :: ngx_str lws_table option")
    case None
    with s show ?thesis by (simp add: ctx handler_response_headers_def makes_def)
  next
    case (Some t)
    note ready = response_created [OF Some answersD(6,1) [OF ok]]
    with s Some show ?thesis by (simp add: ctx handler_response_headers_def step_defs Let_def)
  qed
qed

lemma response_body_step:
  "balanced s \<Longrightarrow> stage E a llcf headers_in 4 s \<Longrightarrow> makes (stage E a llcf headers_in 5) (handler_response_body a s)"
  by (cases s) (simp add: handler_response_body_def step_defs)

lemma streaming_step:
  assumes ok: "answers_ok E a" and s: "balanced s" "stage E a llcf headers_in 5 s"
  shows "makes (stage E a llcf headers_in 6) (handler_streaming a llcf s)"
proof -
  obtain ctx acq where ctx: "s = (ctx, acq)" by (cases s)
  have none: "cleanup_streaming ctx = []" using s(2) by (simp add: ctx stage_def cleanup_streaming_def)
  show ?thesis
  proof (cases "a_pipe a")
    case None
    with s show ?thesis by (simp add: ctx handler_streaming_def makes_def stage_def)
  next
    case (Some p)
    obtain fd_in fd_out where p: "p = (fd_in, fd_out)" by (cases p)
    with answersD(8) [OF ok] Some have fds: "fd_in \<noteq> -1" "fd_out \<noteq> -1" by auto
    from s(2) have "hc_conn ctx = None" by (simp add: ctx stage_def)
    with s fds have "balanced (ctx\<lparr>hc_pipe_in := fd_in, hc_pipe_out := fd_out\<rparr>, acq @ [Fd fd_in, Fd fd_out])"
      "balanced (ctx\<lparr>hc_pipe_in := fd_in, hc_pipe_out := fd_out, hc_conn := Some fd_in\<rparr>,
         acq @ [Fd fd_in, Fd fd_out, Conn fd_in])"
      by (simp_all add: ctx balanced_def cleanup_streaming_update [OF none] cleanup_streaming_def)
    with s Some p show ?thesis by (simp add: ctx handler_streaming_def makes_def stage_def Let_def)
  qed
qed

lemma make_ctx_makes:
  assumes ok: "answers_ok E a" and names: "\<forall>v\<in>set (lc_variables llcf). 0 \<notin> set (v_name v)"
    "\<forall>x\<in>set headers_in. 0 \<notin> set (fst x)" and main: "Option.bind (lc_main llcf) (a_complex a) = Some main"
  shows "makes (stage E a llcf headers_in 6) (lws_make_ctx a llcf headers_in (empty_ctx\<lparr>hc_main := main\<rparr>, []))"
proof -
  let ?s = "(empty_ctx\<lparr>hc_main := main\<rparr>, []) :: making"
  have "balanced ?s" "stage E a llcf headers_in 0 ?s"
    using main by (simp_all add: step_defs cleanup_streaming_def empty_ctx_def)
  note m1 = path_info_step [OF this]
  note m2 = makes_and_then [OF m1 variables_step [OF ok names(1)]]
  note m3 = makes_and_then [OF m2 request_headers_step [OF ok names(2)]]
  note m4 = makes_and_then [OF m3 response_headers_step [OF ok]]
  note m5 = makes_and_then [OF m4 response_body_step]
  show ?thesis unfolding lws_make_ctx_def by (rule makes_and_then [OF m5 streaming_step [OF ok]])
qed

lemma stage_ready: "stage E a llcf headers_in 6 (ctx, acq) \<Longrightarrow> ctx_ready E a llcf headers_in ctx"
  by (simp add: stage_def ctx_ready_def)

section \<open>The handler\<close>

text \<open>What the handler needs of the system and of NGINX: an answer for each call that it makes.\<close>

definition streaming_ready :: "'cv handler_answers \<Rightarrow> bool" where
  "streaming_ready a \<longleftrightarrow> a_pipe a \<noteq> None \<and> a_nonblocking a \<and> a_connection a \<and> a_read_event a"

definition path_info_ready :: "'cv handler_answers \<Rightarrow> 'cv lws_loc_settings \<Rightarrow> bool" where
  "path_info_ready a llcf \<longleftrightarrow> (\<forall>cv. lc_path_info llcf = Some cv \<longrightarrow> a_complex a cv \<noteq> None)"

definition system_ready :: "'cv handler_answers \<Rightarrow> 'cv lws_loc_settings \<Rightarrow> bool" where
  "system_ready a llcf \<longleftrightarrow> a_ctx a \<and> a_cleanup a \<and> path_info_ready a llcf \<and> a_memstream a \<and>
     (lc_streaming llcf \<noteq> 0 \<longrightarrow> streaming_ready a)"

text \<open>Memory for the tables, and a number of variables and headers that the largest table holds with ease.\<close>

definition memory_ready ::
  "'cv handler_answers \<Rightarrow> 'cv lws_loc_settings \<Rightarrow> (ngx_str \<times> ngx_str) list \<Rightarrow> bool" where
  "memory_ready a llcf headers_in \<longleftrightarrow>
     plenty (a_variables_env a) \<and> (\<forall>i. plenty (a_variable_env a i) \<and> a_value a i) \<and>
     plenty (a_headers_env a) \<and> (\<forall>i. plenty (a_header_env a i) \<and> a_header a i \<noteq> None \<and> a_buffer a i) \<and>
     plenty (a_response_env a) \<and> length (lc_variables llcf) < 2 ^ 40 \<and> length headers_in < 2 ^ 40"

lemma set_variables_room:
  assumes env: "\<And>i. same_process (a_variable_env a i) E" "strncasecmp_ok E"
    and room: "\<And>i. plenty (a_variable_env a i)" "\<And>i. a_value a i"
  shows "class_table E t \<Longrightarrow> \<forall>v\<in>set vs. 0 \<notin> set (v_name v) \<Longrightarrow> items_n t + length vs < 2 ^ 40 \<Longrightarrow>
    \<exists>t'. set_variables a i vs t = Some (Inr t')"
proof (induction vs arbitrary: t i)
  case (Cons v vs)
  show ?case
  proof (cases "a_variable a (v_index v)")
    case None
    with Cons show ?thesis by simp
  next
    case (Some val)
    have "items_n t < 2 ^ 40" "0 \<notin> set (v_name v)" using Cons.prems(2,3) by simp_all
    note c = class_process(1) [OF Cons.prems(1) env(1) [of i]]
    obtain t' where t': "lws_table_set (a_variable_env a i) t (v_name v) (Some val) = Some (0, t')"
      "class_table (a_variable_env a i) t'" "items_n t' \<le> Suc (items_n t)"
      using \<open>items_n t < 2 ^ 40\<close> \<open>0 \<notin> set (v_name v)\<close> by (rule put_room [OF c room(1)])
    have sym: "same_process E (a_variable_env a i)" by (rule same_process_sym [OF env])
    have "items_n t' + length vs < 2 ^ 40" using t'(3) Cons.prems(3) by simp
    with Cons.IH [OF class_process(1) [OF t'(2) sym], of "Suc i"] Cons.prems(2) t'(1) Some room(2) show ?thesis by simp
  qed
qed simp

lemma collect_items:
  assumes env: "\<And>i. same_process (env i) E" "strncasecmp_ok E" and room: "\<And>i. plenty (env i)"
  shows "collect_headers env fresh i hs (t, h) = Some (Inr (t', h')) \<Longrightarrow> class_table E t \<Longrightarrow>
    \<forall>x\<in>set hs. 0 \<notin> set (fst x) \<Longrightarrow> items_n t + length hs < 2 ^ 40 \<Longrightarrow>
    class_table E t' \<and> items_n t' \<le> items_n t + length hs"
proof (induction hs arbitrary: i t h)
  case (Cons x hs)
  obtain key val where x: "x = (key, val)" by (cases x)
  with Cons.prems have key: "0 \<notin> set key" and small: "items_n t < 2 ^ 40" by auto
  note c = class_process(1) [OF Cons.prems(2) env(1) [of i]]
  note get = cls.get_class [OF c key]
  show ?case
  proof (cases "class_view (env i) t (norm_key (env i) t key)")
    case (Some q)
    with Cons.prems(1) get x obtain h'' where "collect_headers env fresh (Suc i) hs (t, h'') = Some (Inr (t', h'))"
      by (auto simp: Let_def)
    from Cons.IH [OF this Cons.prems(2)] Cons.prems(3,4) show ?thesis by simp
  next
    case None
    with Cons.prems(1) get x obtain q where q: "fresh i = Some q" by (cases "fresh i") auto
    obtain t1 where t1: "lws_table_set (env i) t key (Some q) = Some (0, t1)" "class_table (env i) t1"
      "items_n t1 \<le> Suc (items_n t)" by (rule put_room [OF c room small key])
    from Cons.prems(1) get x None q t1(1) obtain h'' where
      "collect_headers env fresh (Suc i) hs (t1, h'') = Some (Inr (t', h'))" by (auto simp: Let_def)
    from Cons.IH [OF this class_process(1) [OF t1(2) same_process_sym [OF env]]] Cons.prems(3,4) t1(3) show ?thesis by simp
  qed
qed simp

lemma collect_room:
  assumes env: "\<And>i. same_process (env i) E" "strncasecmp_ok E" and room: "\<And>i. plenty (env i)" "\<And>i. fresh i \<noteq> None"
    and t: "class_table E t" "items_n t + length hs < 2 ^ 40" "\<forall>x\<in>set hs. 0 \<notin> set (fst x)"
  shows "\<not> collect_failed env fresh i hs (t, h)"
proof
  assume "collect_failed env fresh i hs (t, h)"
  then obtain j t' h' where j: "j < length hs" "collect_headers env fresh i (take j hs) (t, h) = Some (Inr (t', h'))"
    "\<not> lws_table_set_ok (env (i + j)) t' (fst (hs ! j))"
    using room(2) unfolding collect_failed_def by blast
  have "items_n t + length (take j hs) < 2 ^ 40" "\<forall>x\<in>set (take j hs). 0 \<notin> set (fst x)"
    using j(1) t by (auto dest: in_set_takeD)
  with collect_items [OF env room(1) j(2) t(1)] have "class_table E t'" "items_n t' < 2 ^ 40"
    using j(1) t(2) by (auto intro: le_less_trans)
  from set_room [OF class_process(1) [OF this(1) env(1)] room(1) this(2)] j(3) show False by blast
qed

text \<open>With what it needs, no step fails.\<close>

definition passes :: "bool \<Rightarrow> made \<Rightarrow> bool" where
  "passes ok r \<longleftrightarrow> (ok \<longrightarrow> (\<exists>s. r = Some (Inr s)))"

lemma created_items:
  assumes "lws_table_create E load = Some t"
  shows "items_n (snd (lws_table_set_ci t b)) = 0" "items_n t = 0"
  using create_spec(2,3) [OF assms] by (simp_all add: items_n_def lws_table_set_ci_def lws_table_items_def)

lemma variables_passes:
  assumes ok: "answers_ok E a" and names: "\<forall>v\<in>set (lc_variables llcf). 0 \<notin> set (v_name v)"
  shows "passes (memory_ready a llcf headers_in) (handler_variables a llcf s)"
  unfolding passes_def
proof
  assume m: "memory_ready a llcf headers_in"
  then obtain t :: "ngx_str lws_table" where t: "lws_table_create (a_variables_env a) (length (lc_variables llcf)) = Some t"
    using create_room unfolding memory_ready_def by blast
  note E' = answersD(2) [OF ok]
  have "strncasecmp_ok (a_variables_env a)" using E' by (simp add: same_process_def)
  from exact_created(1) [OF t this] have "class_table (a_variables_env a) t" by (simp add: exact_class_table)
  note c = class_process(1) [OF this same_process_sym [OF E' answersD(1) [OF ok]]]
  from set_variables_room [OF answersD(3) [OF ok] answersD(1) [OF ok] _ _ c names, of 0] m created_items [OF t]
  show "\<exists>s'. handler_variables a llcf s = Some (Inr s')"
    by (auto simp: handler_variables_def t memory_ready_def split: prod.split)
qed

lemma request_headers_passes:
  assumes ok: "answers_ok E a" and names: "\<forall>x\<in>set headers_in. 0 \<notin> set (fst x)"
  shows "passes (memory_ready a llcf headers_in) (handler_request_headers a headers_in s)"
  unfolding passes_def
proof
  assume m: "memory_ready a llcf headers_in"
  then obtain t :: "nat lws_table" where t: "lws_table_create (a_headers_env a) 32 = Some t"
    using create_room [of "a_headers_env a" 32] unfolding memory_ready_def by auto
  note E' = answersD(4) [OF ok]
  have E: "strncasecmp_ok (a_headers_env a)" using E' by (simp add: same_process_def)
  have env: "same_process (a_header_env a i) (a_headers_env a)" for i
    using answersD(5) [OF ok, of i] E' by (simp add: same_process_def)
  have fresh: "fresh_ok (a_header a) 0 Map.empty" using answersD(7) [OF ok] by (auto simp: fresh_ok_def)
  have "\<not> collect_failed (a_header_env a) (a_header a) 0 headers_in (snd (lws_table_set_ci t True), Map.empty)"
    using m created_items(1) [OF t, of True]
    by (intro collect_room [OF env E _ _ class_created(1) [OF t E] _ names]) (simp_all add: memory_ready_def)
  with request_headers_filled [where env = "a_header_env a" and fresh = "a_header a" and headers_in = headers_in
      and alloc = "a_buffer a" and junk = "a_junk a", OF t env E fresh names]
  obtain r where "request_headers (a_header_env a) (a_header a) (a_buffer a) (a_junk a) headers_in
      (snd (lws_table_set_ci t True)) = Some r" "\<not> isl r"
    using m by (fastforce simp: memory_ready_def split: sum.splits)
  then obtain x where "request_headers (a_header_env a) (a_header a) (a_buffer a) (a_junk a) headers_in
      (snd (lws_table_set_ci t True)) = Some (Inr x)" by (cases r) auto
  then show "\<exists>s'. handler_request_headers a headers_in s = Some (Inr s')"
    by (cases x) (auto simp: handler_request_headers_def t split: prod.split)
qed

lemma response_headers_passes: "passes (memory_ready a llcf headers_in) (handler_response_headers a s)"
  using create_room [of "a_response_env a" 8, where ?'a = ngx_str]
  by (auto simp: passes_def memory_ready_def handler_response_headers_def Let_def split: prod.split)

lemma system_steps:
  "(\<exists>s'. handler_path_info a llcf s = Some (Inr s')) \<longleftrightarrow> path_info_ready a llcf"
  "(\<exists>s'. handler_response_body a s = Some (Inr s')) \<longleftrightarrow> a_memstream a"
  "(\<exists>s'. handler_streaming a llcf s = Some (Inr s')) \<longleftrightarrow> (lc_streaming llcf \<noteq> 0 \<longrightarrow> streaming_ready a)"
  by (auto simp: handler_path_info_def path_info_ready_def handler_response_body_def handler_streaming_def
      streaming_ready_def Let_def split: prod.split option.split)

lemma and_thenD: "and_then r f = Some (Inr s') \<Longrightarrow> \<exists>s. r = Some (Inr s) \<and> f s = Some (Inr s')"
  by (auto simp: and_then_def split: option.splits sum.splits)

lemma and_thenI:
  "\<exists>s. r = Some (Inr s) \<Longrightarrow> (\<And>s. \<exists>s'. f s = Some (Inr s')) \<Longrightarrow> \<exists>s'. and_then r f = Some (Inr s')"
  by (auto simp: and_then_def)

lemma make_ctx_needs:
  assumes "lws_make_ctx a llcf headers_in s = Some (Inr s')"
  shows "path_info_ready a llcf \<and> a_memstream a \<and> (lc_streaming llcf \<noteq> 0 \<longrightarrow> streaming_ready a)"
proof -
  from assms obtain s1 s5 s6 where "handler_path_info a llcf s = Some (Inr s1)"
    "handler_response_body a s5 = Some (Inr s6)" "handler_streaming a llcf s6 = Some (Inr s')"
    unfolding lws_make_ctx_def by (blast dest!: and_thenD)
  then show ?thesis using system_steps(1) [of a llcf s] system_steps(2) [of a s5] system_steps(3) [of a llcf s6] by blast
qed

lemma make_ctx_passes:
  assumes ok: "answers_ok E a" and names: "\<forall>v\<in>set (lc_variables llcf). 0 \<notin> set (v_name v)"
    "\<forall>x\<in>set headers_in. 0 \<notin> set (fst x)"
    and ready: "path_info_ready a llcf" "a_memstream a" "lc_streaming llcf \<noteq> 0 \<longrightarrow> streaming_ready a"
      "memory_ready a llcf headers_in"
  shows "\<exists>s'. lws_make_ctx a llcf headers_in s = Some (Inr s')"
  using ready variables_passes [OF ok names(1), of headers_in] request_headers_passes [OF ok names(2), of llcf]
    response_headers_passes [of a llcf headers_in] system_steps(1) [of a llcf s] system_steps(2) [of a] system_steps(3) [of a llcf]
  unfolding lws_make_ctx_def passes_def by (intro and_thenI) blast+

text \<open>C6: The content handler: it always returns. A location without a main chunk declines, and a main
  file that is not found, now or in the stat cache, is answered with 404 before anything is allocated.
  Otherwise the body of the request is read, with a complete context: the main file and the path info,
  the variables with the value of the last valid directive of each name, the folded request headers,
  an empty response header table that owns its strings and ignores case, status 200, a response
  stream, and a streaming connection exactly if streaming is enabled. Only if a call to the system or to
  NGINX that this takes fails, or memory for the tables, the answer is status 500 instead. In all
  cases the pool cleanup releases exactly what was acquired, each resource once.\<close>

theorem lws_handler_correct:
  assumes ok: "answers_ok E a" and cache: "cache_ok E qs lmcf"
    and names: "\<forall>v\<in>set (lc_variables llcf). 0 \<notin> set (v_name v)" "\<forall>x\<in>set headers_in. 0 \<notin> set (fst x)"
  shows "\<exists>res. lws_handler a llcf headers_in lmcf = Some res \<and>
    mset (if hr_cleanup res then lws_cleanup_request_ctx (the (hr_ctx res)) else []) = mset (hr_acquired res) \<and>
    (case Option.bind (lc_main llcf) (a_complex a) of
       None \<Rightarrow> \<not> hr_reading res \<and> hr_ctx res = None \<and>
         hr_rc res = (if lc_main llcf = None then NGX_DECLINED else NGX_HTTP_INTERNAL_SERVER_ERROR)
     | Some main \<Rightarrow> \<exists>fs. current qs (mc_stat_cache_timeout lmcf) ((a_stat a)\<lparr>q_filename := main\<rparr>) fs \<and>
         (if fs = LWS_FS_NOT_FOUND then hr_rc res = NGX_HTTP_NOT_FOUND \<and> hr_ctx res = None \<and> \<not> hr_reading res
          else if hr_reading res then system_ready a llcf \<and> hr_cleanup res \<and>
            ctx_ready E a llcf headers_in (the (hr_ctx res)) \<and>
            hr_rc res = (if 300 \<le> a_read_body a then a_read_body a else NGX_DONE)
          else hr_rc res = NGX_HTTP_INTERNAL_SERVER_ERROR \<and>
            \<not> (system_ready a llcf \<and> memory_ready a llcf headers_in)))"
proof (cases "Option.bind (lc_main llcf) (a_complex a)")
  case None
  then show ?thesis by (cases "lc_main llcf") (auto simp: lws_handler_def Let_def)
next
  case (Some main)
  then obtain cv where cv: "lc_main llcf = Some cv" "a_complex a cv = Some main" by (auto simp: bind_eq_Some_conv)
  let ?q = "(a_stat a)\<lparr>q_filename := main\<rparr>"
  have E: "same_process (q_env ?q) E" "same_process (q_set_env ?q) E" "strncasecmp_ok E"
    using ok by (simp_all add: answers_ok_def)
  from query_ok [OF cache E] obtain fs lmcf' where
    st: "lws_get_file_status (q_env (a_stat a)) (q_set_env (a_stat a)) (q_stat (a_stat a)) main lmcf = Some (fs, lmcf')"
      "current qs (mc_stat_cache_timeout lmcf) ?q fs" by auto
  show ?thesis
  proof (cases "fs = LWS_FS_NOT_FOUND \<or> \<not> a_ctx a \<or> \<not> a_cleanup a")
    case True
    with cv st show ?thesis by (auto simp: lws_handler_def system_ready_def Let_def)
  next
    case False
    have run: "lws_handler a llcf headers_in lmcf =
        (case lws_make_ctx a llcf headers_in (empty_ctx\<lparr>hc_main := main\<rparr>, []) of
           None \<Rightarrow> None
         | Some (Inl (ctx, acq)) \<Rightarrow> Some \<lparr>hr_rc = 500, hr_conf = lmcf', hr_ctx = Some ctx, hr_cleanup = True,
             hr_acquired = acq, hr_reading = False\<rparr>
         | Some (Inr (ctx, acq)) \<Rightarrow> Some \<lparr>hr_rc = (if 300 \<le> a_read_body a then a_read_body a else NGX_DONE),
             hr_conf = lmcf', hr_ctx = Some ctx, hr_cleanup = True, hr_acquired = acq, hr_reading = True\<rparr>)"
      using cv st(1) False by (simp add: lws_handler_def Let_def split: option.split sum.split)
    note m = make_ctx_makes [OF ok names Some]
    then obtain r where r: "lws_make_ctx a llcf headers_in (empty_ctx\<lparr>hc_main := main\<rparr>, []) = Some r"
      by (auto simp: makes_def split: option.splits)
    show ?thesis
    proof (cases r)
      case (Inl s)
      obtain ctx acq where "s = (ctx, acq)" by (cases s)
      with m r Inl Some st(2) False make_ctx_passes [OF ok names, of "(empty_ctx\<lparr>hc_main := main\<rparr>, [])"] show ?thesis by (auto simp: run makes_def balanced_def system_ready_def)
    next
      case (Inr s)
      obtain ctx acq where s: "s = (ctx, acq)" by (cases s)
      with m r Inr have "balanced (ctx, acq)" "stage E a llcf headers_in 6 (ctx, acq)" by (simp_all add: makes_def)
      with stage_ready [of E a llcf headers_in ctx acq] r Inr s Some st(2) False make_ctx_needs [of a llcf headers_in] show ?thesis
        by (auto simp: run balanced_def system_ready_def)
    qed
  qed
qed

definition demo_answers :: "nat handler_answers" where
  "demo_answers = \<lparr>a_complex = (\<lambda>_. Some (lit ''main.lua'')), a_stat = demo_query 100 (Some 0x81A4),
     a_ctx = True, a_cleanup = True, a_variables_env = demo_env, a_variable = (\<lambda>_. None), a_value = (\<lambda>_. True),
     a_variable_env = (\<lambda>_. demo_env), a_headers_env = demo_env, a_header_env = (\<lambda>_. demo_env),
     a_header = Some, a_buffer = (\<lambda>_. True), a_junk = (\<lambda>_ _. 0), a_response_env = demo_env,
     a_memstream = True, a_pipe = Some (7, 8), a_nonblocking = True, a_connection = True,
     a_read_event = True, a_read_body = 0\<rparr>"

definition demo_streaming :: "nat lws_loc_settings" where
  "demo_streaming = demo_level\<lparr>lc_main := Some 7, lc_streaming := 1\<rparr>"

lemma demo_make:
  "\<exists>ctx. lws_make_ctx demo_answers demo_streaming [] (empty_ctx\<lparr>hc_main := lit ''main.lua''\<rparr>, []) =
    Some (Inr (ctx, [Variables, RequestHeaders, ResponseHeaders, BodyStream, BodyBuffer, Fd 7, Fd 8, Conn 7]))"
proof -
  obtain t0 :: "ngx_str lws_table" where t0: "lws_table_create demo_env 0 = Some t0"
    using demo_created_small [of 0] by auto
  obtain t1 :: "nat lws_table" where t1: "lws_table_create demo_env 32 = Some t1"
    using demo_created_small [of 32] by auto
  obtain t2 :: "ngx_str lws_table" where t2: "lws_table_create demo_env 8 = Some t2"
    using demo_created_small [of 8] by auto
  note c = class_created(1) [OF t1 demo_env_ok]
  have items: "lru_items (lws_table_abs (snd (lws_table_set_ci t1 True))) = []"
    using create_spec(2,3) [OF t1] by (simp add: lws_table_set_ci_def lws_table_items_def)
  have h: "request_headers (\<lambda>_. demo_env) Some (\<lambda>_. True) (\<lambda>_ _. 0) [] (snd (lws_table_set_ci t1 True)) =
      Some (Inr (snd (lws_table_set_ci t1 True), Map.empty))"
    using each_all [OF class_tableD(1,2) [OF c], of "header_buffer (\<lambda>_. True) (\<lambda>_ _. 0)" Map.empty]
    by (simp add: request_headers_def items del: lws_table_abs_sel)
  show ?thesis
    using t0 t1 t2 h
    by (simp add: lws_make_ctx_def and_then_def handler_path_info_def handler_variables_def
        handler_request_headers_def handler_response_headers_def handler_response_body_def handler_streaming_def
        demo_answers_def demo_streaming_def demo_level_def lws_create_loc_conf_def Let_def)
qed

theorem lws_handler_correct_witness:
  "\<exists>res. lws_handler demo_answers demo_streaming [] demo_conf = Some res \<and> hr_reading res \<and>
     hr_rc res = NGX_DONE \<and> hr_acquired res =
       [Variables, RequestHeaders, ResponseHeaders, BodyStream, BodyBuffer, Fd 7, Fd 8, Conn 7] \<and>
     mset (lws_cleanup_request_ctx (the (hr_ctx res))) = mset (hr_acquired res)"
proof -
  have env: "same_process (demo_env\<lparr>env_time := 100\<rparr>) demo_env"
    using demo_env_ok by (auto simp: same_process_def strncasecmp_ok_def)
  have ok: "answers_ok demo_env demo_answers"
    using demo_env_ok env same_process_refl [OF demo_env_ok]
    by (simp add: answers_ok_def demo_answers_def demo_query_def)
  have cache: "cache_ok demo_env [] demo_conf"
    by (simp add: cache_ok_def demo_conf_def lws_create_main_conf_def Let_def)
  have names: "\<forall>v\<in>set (lc_variables demo_streaming). 0 \<notin> set (v_name v)"
    by (simp add: demo_streaming_def demo_level_def lws_create_loc_conf_def Let_def)
  have "S_ISREG 0x81A4" by (simp add: S_ISREG_def S_IFMT_def S_IFREG_def)
  with demo_make obtain ctx where run: "lws_handler demo_answers demo_streaming [] demo_conf =
      Some \<lparr>hr_rc = NGX_DONE, hr_conf = demo_conf, hr_ctx = Some ctx, hr_cleanup = True, hr_acquired =
        [Variables, RequestHeaders, ResponseHeaders, BodyStream, BodyBuffer, Fd 7, Fd 8, Conn 7], hr_reading = True\<rparr>"
    by (auto simp: lws_handler_def lws_get_file_status_def file_status_def demo_answers_def demo_streaming_def
        demo_conf_def lws_create_main_conf_def demo_query_def Let_def)
  from lws_handler_correct [OF ok cache names, of "[]"] run show ?thesis by simp
qed

section \<open>Reading the request body\<close>

text \<open>\<open>lws_read_handler\<close>, the read function of the request body stream: \<open>cl\<close> are the bytes from
  \<open>pos\<close> to \<open>last\<close> of the buffers of the chain that are left. Zero bytes mean the end of the stream.\<close>

definition lws_read_handler :: "nat \<Rightarrow> ngx_str list \<Rightarrow> ngx_str \<times> ngx_str list" where
  "lws_read_handler n cl =
     (case cl of
        [] \<Rightarrow> ([], [])
      | b # next \<Rightarrow>
          let count = length b; count = (if count > n then n else count);
              buf = take count b; b = drop count b
          in if b = [] then (buf, next) else (buf, b # next))"

text \<open>Reads of the given sizes until the stream ends, as the C library makes them.\<close>

fun read_body :: "nat list \<Rightarrow> ngx_str list \<Rightarrow> ngx_str" where
  "read_body [] cl = []"
| "read_body (n # ns) cl =
     (case lws_read_handler n cl of (buf, cl) \<Rightarrow> if buf = [] then [] else buf @ read_body ns cl)"

lemma read_step:
  assumes "[] \<notin> set cl" "0 < n"
  shows "case lws_read_handler n cl of (buf, cl') \<Rightarrow> [] \<notin> set cl' \<and> concat cl = buf @ concat cl' \<and>
    length buf \<le> n \<and> (buf = [] \<longleftrightarrow> cl = [])"
  using assms by (cases cl) (auto simp: lws_read_handler_def Let_def)

lemma read_all:
  "[] \<notin> set cl \<Longrightarrow> 0 \<notin> set ns \<Longrightarrow> length (concat cl) \<le> length ns \<Longrightarrow> read_body ns cl = concat cl"
proof (induction ns arbitrary: cl)
  case (Cons n ns)
  obtain buf cl' where r: "lws_read_handler n cl = (buf, cl')" by (cases "lws_read_handler n cl")
  from Cons.prems(2) have "0 < n" by auto
  from read_step [OF Cons.prems(1) this] r have s: "[] \<notin> set cl'" "concat cl = buf @ concat cl'"
    "buf = [] \<longleftrightarrow> cl = []" by simp_all
  show ?case
  proof (cases "buf = []")
    case False
    then have "length (concat cl') \<le> length ns" using s(2) Cons.prems(3) by (cases buf) auto
    with Cons.IH [OF s(1)] Cons.prems(2) r s(2) False show ?thesis by simp
  qed (use r s in simp)
qed simp

text \<open>C24: The body of a request that NGINX keeps in memory: reading it with buffers of any sizes yields
  its bytes, in order and complete, if no buffer of its chain is empty.\<close>

theorem lws_read_handler_correct:
  assumes "[] \<notin> set cl" "0 \<notin> set ns" "length (concat cl) \<le> length ns"
  shows "read_body ns cl = concat cl"
  using assms by (rule read_all)

theorem lws_read_handler_correct_witness:
  "read_body [2, 2, 2, 2, 2, 2] [lit ''abc'', lit ''de''] = lit ''abcde''"
  using lws_read_handler_correct [of "[lit ''abc'', lit ''de'']" "[2, 2, 2, 2, 2, 2]"] by (simp add: lit_def)

text \<open>An empty buffer ends the stream although bytes follow.\<close>

lemma lws_read_handler_empty: "0 < n \<Longrightarrow> read_body (n # ns) ([] # cl) = []"
  by (simp add: lws_read_handler_def)

end
