(* ===== verification/LwsMonitor.thy ===== *)
theory LwsMonitor
  imports LwsError LwsState "HOL-Library.Sublist"
begin

text \<open>
  The monitor of src/lws_monitor.c: its shared state, the JSON document that GET returns, and the
  parser and the effects of the modifications that POST sends.

  Representation. \<open>lws_monitor_t\<close> is the record of the shared counters (LwsState) extended by the
  profiled functions; \<open>functions_n\<close> is the length of \<open>m_functions\<close>. The slab pool of the zone is the
  number of its live blocks: the monitor, the array of functions, and one for the key of each
  function. The operations hold the mutex of the pool where they read or write the functions, so each
  is a step of its own.
\<close>

section \<open>Data\<close>

text \<open>A \<open>struct timespec\<close>; both components are signed 64-bit integers that stay far from their
  limits.\<close>

record timespec =
  tv_sec :: int
  tv_nsec :: int

record lws_function =
  fn_key :: ngx_str
  fn_calls :: "64 word"
  fn_time_self :: timespec
  fn_time_total :: timespec
  fn_memory :: size_t

record lws_monitor_shm = lws_monitor +
  m_out_of_memory :: int
  m_functions_alloc :: nat
  m_functions :: "lws_function list"
  m_slab :: nat

text \<open>The bounds of the code: the profiler state is one of the three that can be set, the array is large
  enough, and the functions have distinct keys, which are C strings, and sensible times.\<close>

definition timespec_ok :: "timespec \<Rightarrow> bool" where
  "timespec_ok t \<longleftrightarrow> 0 \<le> tv_nsec t \<and> tv_nsec t \<le> 1000000000"

definition function_ok :: "lws_function \<Rightarrow> bool" where
  "function_ok f \<longleftrightarrow> 0 \<notin> set (fn_key f) \<and> timespec_ok (fn_time_self f) \<and> timespec_ok (fn_time_total f)"

definition monitor_ok :: "lws_monitor_shm \<Rightarrow> bool" where
  "monitor_ok m \<longleftrightarrow> m_profiler m \<in> {0, 1, 2} \<and> m_out_of_memory m \<in> {0, 1} \<and>
     length (m_functions m) \<le> m_functions_alloc m \<and> 0 < m_functions_alloc m \<and>
     m_slab m = 2 + length (m_functions m) \<and> distinct (map fn_key (m_functions m)) \<and>
     (\<forall>f\<in>set (m_functions m). function_ok f)"

text \<open>The seconds are 64-bit integers, as they are on the platforms of the code.\<close>

definition function_fits :: "lws_function \<Rightarrow> bool" where
  "function_fits f \<longleftrightarrow> \<bar>tv_sec (fn_time_self f)\<bar> < 2 ^ 63 \<and> \<bar>tv_sec (fn_time_total f)\<bar> < 2 ^ 63"

text \<open>\<open>lws_init_monitor\<close>, with the answers of the slab allocator.\<close>

definition lws_init_monitor :: "bool \<Rightarrow> bool \<Rightarrow> lws_monitor_shm option" where
  "lws_init_monitor calloc_ok alloc_ok =
     (if \<not> calloc_ok then None
      else if \<not> alloc_ok then None
      else Some \<lparr>m_states_n = 0, m_requests_n = 0, m_memory_used = 0, m_request_count = 0,
        m_profiler = 0, m_out_of_memory = 0, m_functions_alloc = 32, m_functions = [], m_slab = 2\<rparr>)"

section \<open>The document\<close>

text \<open>\<open>ngx_sprintf\<close> with \<open>%i\<close>, a parameter; its documented behaviour, which the buffer relies on: the
  text of a 64-bit integer has at most 20 characters, and that of a digit has one.\<close>

record lws_monitor_fmt = lws_fmt +
  f_i :: "int \<Rightarrow> ngx_str"

definition fmt_i_ok :: "lws_monitor_fmt \<Rightarrow> bool" where
  "fmt_i_ok F \<longleftrightarrow> fmt_ok (lws_fmt.truncate F) \<and>
     (\<forall>n. - (2 ^ 63) \<le> n \<longrightarrow> n < 2 ^ 63 \<longrightarrow> length (f_i F n) \<le> 20) \<and>
     (\<forall>n. 0 \<le> n \<longrightarrow> n < 10 \<longrightarrow> length (f_i F n) = 1)"

text \<open>\<open>n\<close> tabs, and the size that the code calculates before it writes.\<close>

definition tabs :: "nat \<Rightarrow> ngx_str" where
  "tabs n = replicate n 9"

definition lws_monitor_length :: "lws_monitor_fmt \<Rightarrow> lws_monitor_shm \<Rightarrow> nat" where
  \<open>lws_monitor_length F m =
     (let len = length (lit ''{'' @ ln 0);
          len = len + length (tabs 1 @ lit ''"states_n": ,'' @ ln 0) + 20;
          len = len + length (tabs 1 @ lit ''"requests_n": ,'' @ ln 0) + 20;
          len = len + length (tabs 1 @ lit ''"memory_used": ,'' @ ln 0) + 20;
          len = len + length (tabs 1 @ lit ''"request_count": ,'' @ ln 0) + 20;
          len = len + length (tabs 1 @ lit ''"profiler": ,'' @ ln 0) + 1;
          len = len + length (tabs 1 @ lit ''"out_of_memory": ,'' @ ln 0) + 1;
          len = len + length (tabs 1 @ lit ''"functions": ['' @ ln 0);
          len = foldl (\<lambda>len f. len + length (tabs 2 @ lit ''["", , , , , , ],'' @ ln 0) + 6 * 20 +
                  (length (fn_key f) + f_escape_json_extra F (fn_key f))) len (m_functions m)
      in len + length (tabs 1 @ lit '']'' @ ln 0 @ lit ''}''))\<close>

text \<open>The text of one function, and the loop over the functions: all but the last are followed by a
  comma. \<open>calls\<close> and \<open>memory\<close> are unsigned and cast to \<open>ngx_int_t\<close>.\<close>

definition lws_function_text :: "lws_monitor_fmt \<Rightarrow> lws_function \<Rightarrow> ngx_str" where
  \<open>lws_function_text F f =
     tabs 2 @ lit ''["'' @ f_escape_json F (fn_key f) @ lit ''", '' @ f_i F (sint (fn_calls f)) @
     lit '', '' @ f_i F (tv_sec (fn_time_self f)) @ lit '', '' @ f_i F (tv_nsec (fn_time_self f)) @
     lit '', '' @ f_i F (tv_sec (fn_time_total f)) @ lit '', '' @ f_i F (tv_nsec (fn_time_total f)) @
     lit '', '' @ f_i F (sint (fn_memory f)) @ lit '']''\<close>

fun lws_functions_text :: "lws_monitor_fmt \<Rightarrow> lws_function list \<Rightarrow> ngx_str" where
  "lws_functions_text F [] = []"
| "lws_functions_text F (f # fs) =
     lws_function_text F f @ (if fs \<noteq> [] then lit '','' @ ln 0 else ln 0) @ lws_functions_text F fs"

definition lws_monitor_text :: "lws_monitor_fmt \<Rightarrow> lws_monitor_shm \<Rightarrow> ngx_str" where
  \<open>lws_monitor_text F m =
     lit ''{'' @ ln 0 @
     tabs 1 @ lit ''"states_n": '' @ f_i F (sint (m_states_n m)) @ lit '','' @ ln 0 @
     tabs 1 @ lit ''"requests_n": '' @ f_i F (sint (m_requests_n m)) @ lit '','' @ ln 0 @
     tabs 1 @ lit ''"memory_used": '' @ f_i F (sint (m_memory_used m)) @ lit '','' @ ln 0 @
     tabs 1 @ lit ''"request_count": '' @ f_i F (sint (m_request_count m)) @ lit '','' @ ln 0 @
     tabs 1 @ lit ''"profiler": '' @ f_i F (sint (m_profiler m)) @ lit '','' @ ln 0 @
     tabs 1 @ lit ''"out_of_memory": '' @ f_i F (m_out_of_memory m) @ lit '','' @ ln 0 @
     (if length (m_functions m) = 0 then tabs 1 @ lit ''"functions": []'' @ ln 0
      else tabs 1 @ lit ''"functions": ['' @ ln 0 @ lws_functions_text F (m_functions m) @
        tabs 1 @ lit '']'' @ ln 0) @
     lit ''}''\<close>

text \<open>\<open>lws_monitor_content_handler\<close>: the return code and the request. \<open>ea_chain\<close> is the answer to the
  allocations of the chain link and the buffer, \<open>ea_start\<close> to that of its memory.\<close>

definition document_type :: "'a ngx_request_scheme \<Rightarrow> 'a ngx_request_scheme" where
  "document_type r = r\<lparr>r_status := NGX_HTTP_OK, r_content_type := lit ''application/json'',
     r_content_type_len := length (lit ''application/json'')\<rparr>"

definition document_length :: "ngx_str \<Rightarrow> 'a ngx_request_scheme \<Rightarrow> 'a ngx_request_scheme" where
  "document_length body r =
     r\<lparr>r_headers := r_headers r @ [no_store], r_content_length := Some (int (length body))\<rparr>"

definition lws_monitor_content_handler ::
  "lws_monitor_fmt \<Rightarrow> lws_error_answers \<Rightarrow> lws_monitor_shm \<Rightarrow> 'a ngx_request_scheme \<Rightarrow>
   int \<times> 'a ngx_request_scheme" where
  "lws_monitor_content_handler F ans m r =
     (if \<not> ea_chain ans then (NGX_HTTP_INTERNAL_SERVER_ERROR, r)
      else if \<not> ea_start ans then (NGX_HTTP_INTERNAL_SERVER_ERROR, r)
      else
        let body = lws_monitor_text F m; r = document_type r in
        if \<not> ea_push ans then (NGX_HTTP_INTERNAL_SERVER_ERROR, r)
        else
          let (rc, r) = ngx_http_send_header (ea_header ans) (document_length body r) in
          if rc = NGX_ERROR \<or> rc > NGX_OK \<or> r_header_only r then (rc, r)
          else (ea_output ans, ngx_http_output_filter body (r_main r) r))"

section \<open>Modifications\<close>

text \<open>\<open>ngx_atomic_cmp_set\<close> on the profiler state.\<close>

definition profiler_cmp_set :: "64 word \<Rightarrow> 64 word \<Rightarrow> lws_monitor_shm \<Rightarrow> lws_monitor_shm option" where
  "profiler_cmp_set old new m =
     (if m_profiler m = old then Some (m\<lparr>m_profiler := new\<rparr>) else None)"

definition set_profiler :: "ngx_str \<Rightarrow> lws_monitor_shm \<Rightarrow> int \<times> lws_monitor_shm" where
  "set_profiler val m =
     (if length val \<noteq> 1 then (NGX_HTTP_BAD_REQUEST, m)
      else if val ! 0 = 48 then
        (case profiler_cmp_set 1 0 m of
           Some m' \<Rightarrow> (NGX_OK, m')
         | None \<Rightarrow>
             (case profiler_cmp_set 2 0 m of
                Some m' \<Rightarrow> (NGX_OK, m') | None \<Rightarrow> (NGX_HTTP_CONFLICT, m)))
      else if val ! 0 = 49 \<or> val ! 0 = 50 then
        (case profiler_cmp_set 0 (ucast (val ! 0) - 48) m of
           Some m' \<Rightarrow> (NGX_OK, m') | None \<Rightarrow> (NGX_HTTP_CONFLICT, m))
      else (NGX_HTTP_BAD_REQUEST, m))"

definition clear_functions :: "ngx_str \<Rightarrow> lws_monitor_shm \<Rightarrow> int \<times> lws_monitor_shm" where
  "clear_functions val m =
     (if length val \<noteq> 2 \<or> val ! 0 \<noteq> 91 \<or> val ! 1 \<noteq> 93 then (NGX_HTTP_BAD_REQUEST, m)
      else (NGX_OK, m\<lparr>m_out_of_memory := 0, m_functions := [],
                     m_slab := m_slab m - length (m_functions m)\<rparr>))"

definition lws_monitor_modification_handler ::
  "ngx_str \<Rightarrow> ngx_str \<Rightarrow> lws_monitor_shm \<Rightarrow> int \<times> lws_monitor_shm" where
  "lws_monitor_modification_handler key val m =
     (if length key = 8 then
        if strncmp key (lit ''profiler'') 8 = 0 then set_profiler val m else (NGX_OK, m)
      else if length key = 9 then
        if strncmp key (lit ''functions'') 9 = 0 then clear_functions val m else (NGX_OK, m)
      else (NGX_OK, m))"

section \<open>The request body\<close>

text \<open>A buffer of the request body holds its bytes in memory, or it is a part of a temporary file, of
  which it knows the size: then its \<open>pos\<close> and \<open>last\<close> are NULL.\<close>

datatype ngx_body_buf = Memory ngx_str | File nat

definition ngx_buf_size :: "ngx_body_buf \<Rightarrow> nat" where
  "ngx_buf_size b = (case b of Memory s \<Rightarrow> length s | File n \<Rightarrow> n)"

definition buf_memory :: "ngx_body_buf \<Rightarrow> ngx_str" where
  "buf_memory b = (case b of Memory s \<Rightarrow> s | File n \<Rightarrow> [])"

text \<open>What is in the block that the bytes are copied to, and what is behind it: \<open>junk i\<close> is the byte at
  offset \<open>i\<close> before the copy.\<close>

definition body_bytes :: "(nat \<Rightarrow> byte) \<Rightarrow> ngx_body_buf list \<Rightarrow> ngx_str" where
  "body_bytes junk bufs =
     (let len = sum_list (map ngx_buf_size bufs); copied = concat (map buf_memory bufs) in
      copied @ map junk [length copied..<len])"

text \<open>The loop of \<open>lws_monitor_body_handler\<close>. \<open>rest\<close> are the bytes from \<open>pos\<close> to \<open>last\<close>, \<open>past\<close> is the
  byte at \<open>last\<close>, which the test \<open>*pos == '='\<close> reads if there is no byte left, and \<open>key\<close> is the key
  that was read (\<open>state\<close> 1), if one was.\<close>

definition no_delimiter :: "byte \<Rightarrow> bool" where
  "no_delimiter c \<longleftrightarrow> c \<noteq> 61 \<and> c \<noteq> 38"

function lws_monitor_pairs ::
  "byte \<Rightarrow> ngx_str option \<Rightarrow> ngx_str \<Rightarrow> lws_monitor_shm \<Rightarrow> int \<times> lws_monitor_shm" where
  "lws_monitor_pairs past key rest m =
     (let field = takeWhile no_delimiter rest; rest = dropWhile no_delimiter rest;
          (key, val) = (case key of
             None \<Rightarrow> if (case rest of [] \<Rightarrow> past | c # _ \<Rightarrow> c) = 61 then (Some field, None)
                     else (Some field, Some [])
           | Some k \<Rightarrow> (Some k, Some field));
          (rc, m) = (case val of
             None \<Rightarrow> (NGX_OK, m)
           | Some v \<Rightarrow> lws_monitor_modification_handler (the key) v m) in
      if rc \<noteq> NGX_OK then (rc, m)
      else if rest = [] then (NGX_OK, m)
      else lws_monitor_pairs past (if val = None then key else None) (tl rest) m)"
  by pat_completeness auto
termination
proof (relation "measure (\<lambda>(past, key, rest, m). length rest)", goal_cases)
  case (2 past key rest m field rest' p key' val q rc m')
  have "length rest' \<le> length rest" unfolding 2(2) by (rule length_dropWhile_le)
  moreover have "rest' \<noteq> []" using 2 by blast
  ultimately show ?case by (cases rest') auto
qed simp

declare lws_monitor_pairs.simps [simp del]

text \<open>\<open>alloc_ok\<close> is the answer to the allocation of the body; \<open>None\<close> as body is a NULL pointer
  \<open>r->request_body\<close>. The result of the modifications, or of the document, finalizes the request.\<close>

definition lws_monitor_body_handler ::
  "lws_monitor_fmt \<Rightarrow> lws_error_answers \<Rightarrow> bool \<Rightarrow> (nat \<Rightarrow> byte) \<Rightarrow> ngx_body_buf list option \<Rightarrow>
   lws_monitor_shm \<Rightarrow> 'a ngx_request_scheme \<Rightarrow> lws_monitor_shm \<times> 'a ngx_request_scheme" where
  "lws_monitor_body_handler F ans alloc_ok junk bufs m r =
     (case bufs of
        None \<Rightarrow> (m, ngx_http_finalize_request NGX_HTTP_INTERNAL_SERVER_ERROR r)
      | Some bufs \<Rightarrow>
          if bufs = [] then (m, ngx_http_finalize_request NGX_HTTP_BAD_REQUEST r)
          else if \<not> alloc_ok then (m, ngx_http_finalize_request NGX_HTTP_INTERNAL_SERVER_ERROR r)
          else
            let body = body_bytes junk bufs;
                (rc, m) = lws_monitor_pairs (junk (length body)) None body m in
            if rc \<noteq> NGX_OK then (m, ngx_http_finalize_request rc r)
            else
              let (rc, r) = lws_monitor_content_handler F ans m r in
              (m, ngx_http_finalize_request rc r))"

text \<open>The methods. For POST, \<open>rc\<close> is the answer of \<open>ngx_http_read_client_request_body\<close>, which calls
  the body handler now or later.\<close>

definition NGX_HTTP_GET :: nat where "NGX_HTTP_GET = 2"

definition NGX_HTTP_POST :: nat where "NGX_HTTP_POST = 8"

definition lws_monitor_action_handler :: "int \<Rightarrow> int" where
  "lws_monitor_action_handler rc = (if rc \<ge> NGX_HTTP_SPECIAL_RESPONSE then rc else - 4)"

definition lws_monitor_handler ::
  "lws_monitor_fmt \<Rightarrow> lws_error_answers \<Rightarrow> int \<Rightarrow> nat \<Rightarrow> lws_monitor_shm \<Rightarrow> 'a ngx_request_scheme \<Rightarrow>
   int \<times> 'a ngx_request_scheme" where
  "lws_monitor_handler F ans read_rc method m r =
     (if method = NGX_HTTP_GET then lws_monitor_content_handler F ans m r
      else if method = NGX_HTTP_POST then (lws_monitor_action_handler read_rc, r)
      else (NGX_HTTP_NOT_ALLOWED, r))"

section \<open>What a modification is\<close>

text \<open>The modifications as doc/Monitor.md documents them: \<open>Inl\<close> is the status of a failure.\<close>

definition monitor_modify :: "ngx_str \<Rightarrow> ngx_str \<Rightarrow> lws_monitor_shm \<Rightarrow> int + lws_monitor_shm" where
  "monitor_modify key val m =
     (if key = lit ''profiler'' then
        if val = lit ''0'' then
          if m_profiler m = 1 \<or> m_profiler m = 2 then Inr (m\<lparr>m_profiler := 0\<rparr>) else Inl 409
        else if val = lit ''1'' then
          if m_profiler m = 0 then Inr (m\<lparr>m_profiler := 1\<rparr>) else Inl 409
        else if val = lit ''2'' then
          if m_profiler m = 0 then Inr (m\<lparr>m_profiler := 2\<rparr>) else Inl 409
        else Inl 400
      else if key = lit ''functions'' then
        if val = lit ''[]'' then
          Inr (m\<lparr>m_out_of_memory := 0, m_functions := [], m_slab := m_slab m - length (m_functions m)\<rparr>)
        else Inl 400
      else Inr m)"

text \<open>The modifications of a request, in order, until the first that fails.\<close>

fun monitor_modify_all :: "(ngx_str \<times> ngx_str) list \<Rightarrow> lws_monitor_shm \<Rightarrow> int \<times> lws_monitor_shm" where
  "monitor_modify_all [] m = (NGX_OK, m)"
| "monitor_modify_all ((key, val) # ps) m =
     (case monitor_modify key val m of
        Inl rc \<Rightarrow> (rc, m) | Inr m' \<Rightarrow> monitor_modify_all ps m')"

lemma strncmp_literal:
  assumes "length key = n" "length s = n" "0 \<notin> set (lit s)"
  shows "strncmp key (lit s) n = 0 \<longleftrightarrow> key = lit s"
proof -
  have "strncmp key (lit s) n = 0 \<longleftrightarrow> c_view key = lit s"
    using strncmp_eq_0 [of key "lit s"] assms by (simp add: c_view_no_nul)
  also have "\<dots> \<longleftrightarrow> key = lit s"
  proof
    assume view: "c_view key = lit s"
    have "prefix (c_view key) key" by (simp add: c_view_def takeWhile_is_prefix)
    then show "key = lit s"
      using view assms(1,2) by (metis length_lit not_equal_is_parallel parallelE)
  qed (use assms in \<open>simp add: c_view_no_nul\<close>)
  finally show ?thesis .
qed

lemma set_profiler_modify:
  "set_profiler val m = (case monitor_modify (lit ''profiler'') val m of
     Inl rc \<Rightarrow> (rc, m) | Inr m' \<Rightarrow> (NGX_OK, m'))"
proof (cases "length val = 1")
  case True
  then obtain c where c: "val = [c]" by (metis One_nat_def length_0_conv length_Suc_conv)
  show ?thesis
    by (simp add: c set_profiler_def profiler_cmp_set_def monitor_modify_def lit_def)
next
  case False
  then have "val \<noteq> lit ''0''" "val \<noteq> lit ''1''" "val \<noteq> lit ''2''" by auto
  with False show ?thesis by (simp add: set_profiler_def monitor_modify_def)
qed

lemma clear_functions_modify:
  "clear_functions val m = (case monitor_modify (lit ''functions'') val m of
     Inl rc \<Rightarrow> (rc, m) | Inr m' \<Rightarrow> (NGX_OK, m'))"
proof (cases "length val = 2")
  case True
  then obtain c d where c: "val = [c, d]"
    by (auto simp: numeral_2_eq_2 length_Suc_conv)
  show ?thesis by (simp add: c clear_functions_def monitor_modify_def lit_def)
next
  case False
  then have "val \<noteq> lit ''[]''" by auto
  with False show ?thesis by (simp add: clear_functions_def monitor_modify_def lit_def)
qed

lemma modification_handler_modify:
  "lws_monitor_modification_handler key val m =
    (case monitor_modify key val m of Inl rc \<Rightarrow> (rc, m) | Inr m' \<Rightarrow> (NGX_OK, m'))"
proof -
  have other: "monitor_modify key val m = Inr m"
    if "key \<noteq> lit ''profiler''" "key \<noteq> lit ''functions''" using that by (simp add: monitor_modify_def)
  have p: "strncmp key (lit ''profiler'') 8 = 0 \<longleftrightarrow> key = lit ''profiler''" if "length key = 8"
    by (rule strncmp_literal [OF that]) (simp_all add: lit_def)
  have f: "strncmp key (lit ''functions'') 9 = 0 \<longleftrightarrow> key = lit ''functions''" if "length key = 9"
    by (rule strncmp_literal [OF that]) (simp_all add: lit_def)
  have keys: "length (lit ''profiler'') = 8" "length (lit ''functions'') = 9" by simp_all
  show ?thesis
    unfolding lws_monitor_modification_handler_def
    using p f other set_profiler_modify clear_functions_modify keys by auto
qed

lemma modify_rc: "monitor_modify key val m = Inl rc \<Longrightarrow> rc \<in> {400, 409}"
  by (auto simp: monitor_modify_def split: if_splits)

lemma monitor_ok_updates:
  "monitor_ok m \<Longrightarrow> p \<in> {0, 1, 2} \<Longrightarrow> monitor_ok (m\<lparr>m_profiler := p\<rparr>)"
  "monitor_ok m \<Longrightarrow> monitor_ok (m\<lparr>m_out_of_memory := 0, m_functions := [],
     m_slab := m_slab m - length (m_functions m)\<rparr>)"
  by (simp_all add: monitor_ok_def)

lemma modify_ok:
  assumes "monitor_ok m" "monitor_modify key val m = Inr m'"
  shows "monitor_ok m'"
proof -
  have "m' = m \<or> m' = m\<lparr>m_profiler := 0\<rparr> \<or> m' = m\<lparr>m_profiler := 1\<rparr> \<or> m' = m\<lparr>m_profiler := 2\<rparr> \<or>
    m' = m\<lparr>m_out_of_memory := 0, m_functions := [], m_slab := m_slab m - length (m_functions m)\<rparr>"
    using assms(2) unfolding monitor_modify_def by (simp split: if_splits)
  with assms(1) monitor_ok_updates [OF assms(1)] show ?thesis by (elim disjE) simp_all
qed

lemma modify_all_ok:
  "monitor_ok m \<Longrightarrow> monitor_modify_all ps m = (rc, m') \<Longrightarrow> monitor_ok m' \<and> rc \<in> {NGX_OK, 400, 409}"
  by (induction ps m rule: monitor_modify_all.induct)
    (auto split: sum.splits dest: modify_ok modify_rc)

section \<open>Parsing\<close>

text \<open>A body of pairs \<open>key=value\<close>, separated by \<open>&\<close>.\<close>

definition pair_str :: "ngx_str \<times> ngx_str \<Rightarrow> ngx_str" where
  "pair_str p = fst p @ 61 # snd p"

definition pair_ok :: "ngx_str \<times> ngx_str \<Rightarrow> bool" where
  "pair_ok p \<longleftrightarrow> (\<forall>c\<in>set (fst p). no_delimiter c) \<and> (\<forall>c\<in>set (snd p). no_delimiter c)"

lemma no_delimiter_char [simp]: "\<not> no_delimiter 61" "\<not> no_delimiter 38"
  by (simp_all add: no_delimiter_def)

lemma scan_field:
  assumes "\<forall>c\<in>set f. no_delimiter c" "r = [] \<or> \<not> no_delimiter (hd r)"
  shows "takeWhile no_delimiter (f @ r) = f" "dropWhile no_delimiter (f @ r) = r"
  using take_drop_while [of f no_delimiter r] assms by blast+

lemma parse_pair_key:
  assumes "\<forall>c\<in>set k. no_delimiter c"
  shows "lws_monitor_pairs past None (k @ 61 # r) m = lws_monitor_pairs past (Some k) r m"
proof -
  have r: "61 # r = [] \<or> \<not> no_delimiter (hd (61 # r))" by simp
  show ?thesis
    unfolding lws_monitor_pairs.simps [of past None "k @ 61 # r"] scan_field [OF assms r] by simp
qed

lemma parse_pair_value:
  assumes "\<forall>c\<in>set v. no_delimiter c" "r = [] \<or> hd r = 38"
  shows "lws_monitor_pairs past (Some k) (v @ r) m =
    (case monitor_modify k v m of
       Inl rc \<Rightarrow> (rc, m)
     | Inr m' \<Rightarrow> if r = [] then (NGX_OK, m') else lws_monitor_pairs past None (tl r) m')"
proof -
  have r: "r = [] \<or> \<not> no_delimiter (hd r)" using assms(2) by auto
  show ?thesis
    unfolding lws_monitor_pairs.simps [of past "Some k" "v @ r"] scan_field [OF assms(1) r]
    using modify_rc [of k v m]
    by (simp add: modification_handler_modify split: sum.split) auto
qed

lemma parse_pairs:
  assumes "ps \<noteq> []" "\<forall>p\<in>set ps. pair_ok p"
  shows "lws_monitor_pairs past None (join_with [38] (map pair_str ps)) m = monitor_modify_all ps m"
  using assms
proof (induction "[38 :: byte]" "map pair_str ps" arbitrary: ps m rule: join_with.induct)
  case 1
  then show ?case by simp
next
  case (2 f)
  then obtain k v where ps: "ps = [(k, v)]" by (cases ps) auto
  with 2 have ok: "\<forall>c\<in>set k. no_delimiter c" "\<forall>c\<in>set v. no_delimiter c" by (auto simp: pair_ok_def)
  show ?case
    using parse_pair_value [OF ok(2), of "[]" past k m]
    by (simp add: ps pair_str_def parse_pair_key [OF ok(1)] split: sum.split)
next
  case (3 f g fs)
  then obtain k v qs where ps: "ps = (k, v) # qs" and f: "f = k @ 61 # v"
    and qs: "g # fs = map pair_str qs" by (cases ps) (auto simp: pair_str_def)
  with 3 have ok: "\<forall>c\<in>set k. no_delimiter c" "\<forall>c\<in>set v. no_delimiter c" "\<forall>p\<in>set qs. pair_ok p"
    by (auto simp: pair_ok_def)
  have IH: "lws_monitor_pairs past None (join_with [38] (map pair_str qs)) m' = monitor_modify_all qs m'"
    for m' using "3.hyps"(1) [OF qs] ok(3) qs by fastforce
  have "join_with [38] (map pair_str ps) = k @ 61 # v @ 38 # join_with [38] (map pair_str qs)"
    by (simp add: ps qs [symmetric] pair_str_def)
  then show ?case
    using parse_pair_value [OF ok(2), of "38 # join_with [38] (map pair_str qs)" past k m]
    by (simp add: ps parse_pair_key [OF ok(1)] IH split: sum.split)
qed

lemma memory_bytes:
  assumes "\<forall>b\<in>set bufs. \<exists>s. b = Memory s"
  shows "body_bytes junk bufs = concat (map buf_memory bufs)"
proof -
  have "sum_list (map ngx_buf_size bufs) = length (concat (map buf_memory bufs))"
    using assms by (induction bufs) (auto simp: ngx_buf_size_def buf_memory_def)
  then show ?thesis by (simp add: body_bytes_def Let_def)
qed

text \<open>The byte behind the body decides on a body that is a key alone: it is a failure, unless that byte
  is an equals sign; then nothing happens and the document is returned.\<close>

lemma lws_monitor_reads_past:
  "lws_monitor_pairs past None (lit ''profiler'') m = (if past = 61 then NGX_OK else 400, m)"
proof -
  have "\<forall>c\<in>set (lit ''profiler''). no_delimiter c" by (simp add: lit_def no_delimiter_def)
  note scan = scan_field [OF this, of "[]", unfolded append_Nil2]
  have "monitor_modify (lit ''profiler'') [] m = Inl 400" by (simp add: monitor_modify_def lit_def)
  then show ?thesis
    unfolding lws_monitor_pairs.simps [of past None "lit ''profiler''"] scan(1) [OF disjI1 [OF refl]]
      scan(2) [OF disjI1 [OF refl]]
    by (simp add: modification_handler_modify)
qed

text \<open>A body in a temporary file is not read: its bytes are those that the block happened to hold.\<close>

lemma lws_monitor_file_body: "body_bytes junk [File n] = map junk [0..<n]"
  by (simp add: body_bytes_def Let_def ngx_buf_size_def buf_memory_def)

section \<open>The size of the document\<close>

lemma fmt_iD:
  assumes "fmt_i_ok F"
  shows "length (f_i F (sint (w :: 64 word))) \<le> 20"
    "\<bar>n\<bar> < 2 ^ 63 \<Longrightarrow> length (f_i F n) \<le> 20"
    "n \<in> {0, 1, 2} \<Longrightarrow> length (f_i F n) = 1"
    "length (f_escape_json F s) = length s + f_escape_json_extra F s"
proof -
  have "- (2 ^ 63) \<le> sint w" "sint w < 2 ^ 63"
    using sint_greater_eq [of w] sint_less [of w] by simp_all
  with assms show "length (f_i F (sint w)) \<le> 20" by (simp add: fmt_i_ok_def)
qed (use assms in \<open>auto simp: fmt_i_ok_def fmt_ok_def lws_fmt.defs\<close>)

lemma length_tabs [simp]: "length (tabs n) = n"
  by (simp add: tabs_def)

definition function_size :: "lws_monitor_fmt \<Rightarrow> lws_function \<Rightarrow> nat" where
  \<open>function_size F f = length (tabs 2 @ lit ''["", , , , , , ],'' @ ln 0) + 6 * 20 +
     (length (fn_key f) + f_escape_json_extra F (fn_key f))\<close>

lemma foldl_sizes: "foldl (\<lambda>n f. n + c f) n fs = n + (\<Sum>f\<leftarrow>fs. c f)" for n :: nat
  by (induction fs arbitrary: n) simp_all

lemma functions_size:
  assumes F: "fmt_i_ok F" and "\<forall>f\<in>set fs. function_ok f \<and> function_fits f"
  shows "length (lws_functions_text F fs) \<le> (\<Sum>f\<leftarrow>fs. function_size F f)"
  using assms(2)
proof (induction fs)
  case (Cons f fs)
  then have t: "\<bar>tv_sec (fn_time_self f)\<bar> < 2 ^ 63" "\<bar>tv_nsec (fn_time_self f)\<bar> < 2 ^ 63"
    "\<bar>tv_sec (fn_time_total f)\<bar> < 2 ^ 63" "\<bar>tv_nsec (fn_time_total f)\<bar> < 2 ^ 63"
    by (simp_all add: function_ok_def function_fits_def timespec_ok_def)
  have "length (lws_function_text F f) + 2 \<le> function_size F f"
    using fmt_iD(1) [OF F, of "fn_calls f"] fmt_iD(1) [OF F, of "fn_memory f"]
      fmt_iD(2) [OF F t(1)] fmt_iD(2) [OF F t(2)] fmt_iD(2) [OF F t(3)] fmt_iD(2) [OF F t(4)]
    by (simp add: lws_function_text_def function_size_def fmt_iD(4) [OF F])
  with Cons.IH Cons.prems show ?case by simp
qed simp

lemma monitor_length:
  "lws_monitor_length F m = 209 + (\<Sum>f\<leftarrow>m_functions m. function_size F f)"
proof -
  have \<open>(\<lambda>len f. len + length (tabs 2 @ lit ''["", , , , , , ],'' @ ln 0) + 6 * 20 +
      (length (fn_key f) + f_escape_json_extra F (fn_key f))) = (\<lambda>len f. len + function_size F f)\<close>
    by (simp add: function_size_def fun_eq_iff)
  then show ?thesis by (simp add: lws_monitor_length_def Let_def foldl_sizes)
qed

lemma functions_join:
  "fs \<noteq> [] \<Longrightarrow> lws_functions_text F fs =
    join_with (lit '','' @ ln 0) (map (lws_function_text F) fs) @ ln 0"
proof (induction fs)
  case (Cons f fs)
  then show ?case by (cases fs) auto
qed simp

lemma document_fits:
  assumes "monitor_ok m" "fmt_i_ok F" "\<forall>f\<in>set (m_functions m). function_fits f"
  shows "length (lws_monitor_text F m) \<le> lws_monitor_length F m"
proof -
  have p: "sint (m_profiler m) \<in> {0, 1, 2}" "m_out_of_memory m \<in> {0, 1, 2}"
    using assms(1) by (auto simp: monitor_ok_def)
  have fs: "length (lws_functions_text F (m_functions m)) \<le> (\<Sum>f\<leftarrow>m_functions m. function_size F f)"
    by (rule functions_size [OF assms(2)]) (use assms(1,3) in \<open>simp add: monitor_ok_def\<close>)
  show ?thesis
    unfolding monitor_length lws_monitor_text_def
    using fs fmt_iD(1) [OF assms(2), of "m_states_n m"] fmt_iD(1) [OF assms(2), of "m_requests_n m"]
      fmt_iD(1) [OF assms(2), of "m_memory_used m"] fmt_iD(1) [OF assms(2), of "m_request_count m"]
      fmt_iD(3) [OF assms(2) p(1)] fmt_iD(3) [OF assms(2) p(2)]
    by simp
qed

section \<open>Properties\<close>

text \<open>The POST handler on a body as browsers send it: the rest of the program depends on what is in
  \<open>bufs\<close> only.\<close>

lemma body_handler_pairs:
  assumes "ps \<noteq> []" "\<forall>p\<in>set ps. pair_ok p" "\<forall>b\<in>set bufs. \<exists>s. b = Memory s"
    and "concat (map buf_memory bufs) = join_with [38] (map pair_str ps)"
    and "monitor_modify_all ps m = (rc, m')"
  shows "lws_monitor_body_handler F ans True junk (Some bufs) m r =
    (m', ngx_http_finalize_request
       (if rc \<noteq> NGX_OK then rc else fst (lws_monitor_content_handler F ans m' r))
       (if rc \<noteq> NGX_OK then r else snd (lws_monitor_content_handler F ans m' r)))"
proof -
  from assms(1) obtain k v qs where ps: "ps = (k, v) # qs" by (cases ps) auto
  have "join_with [38] (map pair_str ps) \<noteq> []" by (cases qs) (simp_all add: ps pair_str_def)
  with assms(4) have "bufs \<noteq> []" by auto
  then show ?thesis
    using parse_pairs [OF assms(1,2)] assms(5)
    by (simp add: lws_monitor_body_handler_def memory_bytes [OF assms(3)] assms(4) Let_def split_beta)
qed

lemma document_sel [simp]:
  "r_final (document_type r) = r_final r" "r_out (document_type r) = r_out r"
  "r_status (document_type r) = NGX_HTTP_OK" "r_header_only (document_type r) = r_header_only r"
  "r_final (document_length s r) = r_final r" "r_out (document_length s r) = r_out r"
  "r_status (document_length s r) = r_status r" "r_header_only (document_length s r) = r_header_only r"
  "r_content_length (document_length s r) = Some (int (length s))"
  "no_store \<in> set (r_headers (document_length s r))"
  by (simp_all add: document_type_def document_length_def)

lemma send_header_sel [simp]:
  "fst (ngx_http_send_header a r) = ha_rc a" "r_final (snd (ngx_http_send_header a r)) = r_final r"
  "r_out (snd (ngx_http_send_header a r)) = r_out r" "r_status (snd (ngx_http_send_header a r)) = r_status r"
  "r_content_length (snd (ngx_http_send_header a r)) = r_content_length r"
  "r_headers (snd (ngx_http_send_header a r)) = r_headers r"
  by (simp_all add: ngx_http_send_header_def)

lemma output_filter_sel [simp]:
  "r_final (ngx_http_output_filter s b r) = r_final r" "r_out (ngx_http_output_filter s b r) = r_out r @ s"
  "r_status (ngx_http_output_filter s b r) = r_status r"
  "r_content_length (ngx_http_output_filter s b r) = r_content_length r"
  "r_headers (ngx_http_output_filter s b r) = r_headers r"
  by (simp_all add: ngx_http_output_filter_def)

lemma content_handler_cases:
  assumes "lws_monitor_content_handler F ans m r = (rc, r')"
  shows "r_final r' = r_final r \<and>
    (r_out r' = r_out r \<and> (rc \<noteq> NGX_OK \<or> r_header_only r') \<or>
     r_out r' = r_out r @ lws_monitor_text F m \<and> r_status r' = NGX_HTTP_OK \<and>
       r_content_length r' = Some (int (length (lws_monitor_text F m))) \<and> no_store \<in> set (r_headers r') \<and>
       rc = ea_output ans)"
  using assms
  by (simp add: lws_monitor_content_handler_def Let_def split_beta split: if_splits) auto

text \<open>C14: A POST to the monitor whose body is a list of \<open>key=value\<close> pairs separated by \<open>&\<close>, in buffers
  in memory and cut into buffers anywhere, makes the modifications of doc/Monitor.md in their order,
  until one of them fails: \<open>profiler\<close> goes from disabled to one of the enabled states and back,
  \<open>functions\<close> is cleared by \<open>[]\<close>, other keys do nothing. The request is finalized once, with status
  400 for an invalid value, with 409 for a transition that is not valid, and else with the document.
  What the memory for the copy of the body held before and what is behind it does not matter, and
  the state of the monitor stays within its bounds.\<close>

theorem lws_monitor_modifications:
  assumes "monitor_ok m" "ps \<noteq> []" "\<forall>p\<in>set ps. pair_ok p"
    and "\<forall>b\<in>set bufs. \<exists>s. b = Memory s"
    and "concat (map buf_memory bufs) = join_with [38] (map pair_str ps)"
    and "monitor_modify_all ps m = (rc, m')"
  shows "\<exists>code r'. lws_monitor_body_handler F ans True junk (Some bufs) m r =
      (m', r'\<lparr>r_final := r_final r @ [code]\<rparr>) \<and> monitor_ok m' \<and> rc \<in> {NGX_OK, 400, 409} \<and>
    (if rc = NGX_OK then lws_monitor_content_handler F ans m' r = (code, r') else code = rc \<and> r' = r)"
proof -
  obtain code r' where doc: "lws_monitor_content_handler F ans m' r = (code, r')" by fastforce
  from content_handler_cases [OF doc] have "r_final r' = r_final r" by simp
  with body_handler_pairs [OF assms(2-6), of F ans junk r] modify_all_ok [OF assms(1,6)] doc
  show ?thesis by (auto simp: ngx_http_finalize_request_def)
qed

text \<open>C16: The document of the monitor is never longer than the buffer that is allocated for it, for all
  values of the counters, and any number of functions with any times of 64 bits. The functions are the elements of an array,
  separated by commas. If the document is sent, all of it is, with the content length that was
  announced, status 200 and the header line that keeps it out of caches.\<close>

theorem lws_monitor_document:
  assumes "monitor_ok m" "fmt_i_ok F" "\<forall>f\<in>set (m_functions m). function_fits f"
    and "lws_monitor_content_handler F ans m r = (rc, r')"
  shows "length (lws_monitor_text F m) \<le> lws_monitor_length F m \<and>
    (m_functions m \<noteq> [] \<longrightarrow> lws_functions_text F (m_functions m) =
      join_with (lit '','' @ ln 0) (map (lws_function_text F) (m_functions m)) @ ln 0) \<and>
    (r_out r' = r_out r \<and> (rc \<noteq> NGX_OK \<or> r_header_only r') \<or>
     r_out r' = r_out r @ lws_monitor_text F m \<and> r_status r' = NGX_HTTP_OK \<and>
       r_content_length r' = Some (int (length (lws_monitor_text F m))) \<and> no_store \<in> set (r_headers r'))"
  using document_fits [OF assms(1-3)] functions_join [of "m_functions m" F]
    content_handler_cases [OF assms(4)] by auto

section \<open>An example\<close>

fun dec_digits :: "nat \<Rightarrow> ngx_str" where
  "dec_digits n = (if n < 10 then [48 + of_nat n] else dec_digits (n div 10) @ [48 + of_nat (n mod 10)])"

declare dec_digits.simps [simp del]

lemma dec_digits_length: "n < 10 ^ Suc k \<Longrightarrow> length (dec_digits n) \<le> Suc k"
proof (induction k arbitrary: n)
  case 0
  then show ?case by (simp add: dec_digits.simps [of n])
next
  case (Suc k)
  have "n div 10 < 10 ^ Suc k"
    using Suc.prems by (simp add: less_mult_imp_div_less mult.commute)
  from Suc.IH [OF this] show ?case by (simp add: dec_digits.simps [of n])
qed

definition demo_i :: "int \<Rightarrow> ngx_str" where
  "demo_i n = (if n < 0 then 45 # dec_digits (nat (- n)) else dec_digits (nat n))"

definition demo_monitor_fmt :: lws_monitor_fmt where
  "demo_monitor_fmt = lws_fmt.extend demo_fmt \<lparr>f_i = demo_i\<rparr>"

lemma demo_monitor_fmt_ok: "fmt_i_ok demo_monitor_fmt"
proof -
  have "length (demo_i n) \<le> 20" if "- (2 ^ 63) \<le> n" "n < 2 ^ 63" for n
  proof -
    have "nat (- n) < 10 ^ Suc 18" "nat n < 10 ^ Suc 18" using that by (simp_all add: nat_less_iff)
    from this [THEN dec_digits_length] show ?thesis by (simp add: demo_i_def)
  qed
  moreover have "length (demo_i n) = 1" if "0 \<le> n" "n < 10" for n
    using that by (simp add: demo_i_def dec_digits.simps [of "nat n"])
  ultimately show ?thesis
    using demo_fmt_ok by (simp add: fmt_i_ok_def fmt_ok_def demo_monitor_fmt_def lws_fmt.defs)
qed

definition demo_fn :: "string \<Rightarrow> 64 word \<Rightarrow> lws_function" where
  "demo_fn key calls = \<lparr>fn_key = lit key, fn_calls = calls, fn_time_self = \<lparr>tv_sec = 0, tv_nsec = 7\<rparr>,
     fn_time_total = \<lparr>tv_sec = 1, tv_nsec = 12\<rparr>, fn_memory = 64\<rparr>"

definition demo_monitor :: lws_monitor_shm where
  "demo_monitor = \<lparr>m_states_n = 2, m_requests_n = 0, m_memory_used = 4096, m_request_count = 17,
     m_profiler = 0, m_out_of_memory = 1, m_functions_alloc = 32,
     m_functions = [demo_fn ''a'' 3, demo_fn ''b'' 4], m_slab = 4\<rparr>"

lemma demo_monitor_ok: "monitor_ok demo_monitor"
  by (simp add: monitor_ok_def function_ok_def timespec_ok_def demo_monitor_def demo_fn_def lit_def)

definition demo_pairs :: "(ngx_str \<times> ngx_str) list" where
  "demo_pairs = [(lit ''functions'', lit ''[]''), (lit ''profiler'', lit ''2''), (lit ''profiler'', lit ''1'')]"

definition demo_after_post :: lws_monitor_shm where
  "demo_after_post = demo_monitor\<lparr>m_out_of_memory := 0, m_functions := [], m_slab := 2, m_profiler := 2\<rparr>"

theorem lws_monitor_modifications_witness:
  "fst (lws_monitor_body_handler demo_monitor_fmt demo_answers_ok True (\<lambda>i. 61)
      (Some [Memory (lit ''functions=[]&prof''), Memory (lit ''iler=2&profiler=1'')]) demo_monitor
      demo_request) = demo_after_post"
proof -
  have all: "monitor_modify_all demo_pairs demo_monitor = (409, demo_after_post)"
    by (simp add: demo_pairs_def monitor_modify_def demo_monitor_def demo_after_post_def lit_def)
  have ok: "demo_pairs \<noteq> []" "\<forall>p\<in>set demo_pairs. pair_ok p"
    by (simp_all add: demo_pairs_def pair_ok_def no_delimiter_def lit_def)
  have memory: "\<forall>b\<in>set [Memory (lit ''functions=[]&prof''), Memory (lit ''iler=2&profiler=1'')].
    \<exists>s. b = Memory s" by simp
  have bytes: "concat (map buf_memory [Memory (lit ''functions=[]&prof''), Memory (lit ''iler=2&profiler=1'')]) =
    join_with [38] (map pair_str demo_pairs)"
    by (simp add: buf_memory_def demo_pairs_def pair_str_def lit_def)
  from lws_monitor_modifications [OF demo_monitor_ok ok memory bytes all, of demo_monitor_fmt
      demo_answers_ok "\<lambda>i. 61" demo_request] show ?thesis by (elim exE conjE) simp
qed

lemma demo_fits: "\<forall>f\<in>set (m_functions demo_monitor). function_fits f"
  by (simp add: function_fits_def demo_monitor_def demo_fn_def)

theorem lws_monitor_document_witness:
  "length (lws_monitor_text demo_monitor_fmt demo_monitor) \<le>
    lws_monitor_length demo_monitor_fmt demo_monitor \<and>
   r_out (snd (lws_monitor_content_handler demo_monitor_fmt demo_answers_ok demo_monitor demo_request)) =
    lws_monitor_text demo_monitor_fmt demo_monitor"
proof -
  obtain rc r' where doc: "lws_monitor_content_handler demo_monitor_fmt demo_answers_ok demo_monitor
    demo_request = (rc, r')" by fastforce
  moreover have "rc = 0" "\<not> r_header_only r'" "r_out demo_request = []"
    using doc by (auto simp: lws_monitor_content_handler_def demo_answers_ok_def demo_request_def
        ngx_http_send_header_def ngx_http_output_filter_def Let_def)
  ultimately show ?thesis
    using lws_monitor_document [OF demo_monitor_ok demo_monitor_fmt_ok demo_fits doc] by auto
qed

end
