(* ===== verification/LwsProfiler.thy ===== *)
theory LwsProfiler
  imports LwsMonitor LwsTableMap
begin

text \<open>
  The profiler of src/lws_profiler.c: the arithmetic on times and memory, the hook that Lua calls when
  a function is entered, left or tail called, and the start and the stop of a profile.

  Representation. The activation records of \<open>lws_profiler_t\<close> are reached by pointers from the table of
  functions and from the stack, and the hook writes through either, so they live in a heap
  \<open>p_records\<close>. \<open>stack[0 .. stack_n - 1]\<close> is \<open>p_stack\<close>. The counters of a record are 64-bit words. What
  Lua, the clock and the allocators answer to one call of the hook is a \<open>hook_answers\<close>. An error that
  the hook raises ends the call where it is raised; it is returned with the profiler as it is then.
\<close>

section \<open>Times and memory\<close>

text \<open>\<open>tv_nsec\<close> is carried if it is greater than a second, so it can be a full second.\<close>

definition lws_add_timespec :: "timespec \<Rightarrow> timespec \<Rightarrow> timespec" where
  "lws_add_timespec base inc =
     (let base = base\<lparr>tv_nsec := tv_nsec base + tv_nsec inc\<rparr>;
          base = base\<lparr>tv_sec := tv_sec base + tv_sec inc\<rparr> in
      if tv_nsec base > 1000000000 then
        base\<lparr>tv_nsec := tv_nsec base - 1000000000, tv_sec := tv_sec base + 1\<rparr>
      else base)"

definition lws_add_timespec_delta :: "timespec \<Rightarrow> timespec \<Rightarrow> timespec \<Rightarrow> timespec" where
  "lws_add_timespec_delta base from to =
     (let base = base\<lparr>tv_nsec := tv_nsec base + (tv_nsec to - tv_nsec from)\<rparr>;
          base = base\<lparr>tv_sec := tv_sec base + (tv_sec to - tv_sec from)\<rparr> in
      if tv_nsec base < 0 then
        base\<lparr>tv_nsec := tv_nsec base + 1000000000, tv_sec := tv_sec base - 1\<rparr>
      else if tv_nsec base > 1000000000 then
        base\<lparr>tv_nsec := tv_nsec base - 1000000000, tv_sec := tv_sec base + 1\<rparr>
      else base)"

definition lws_add_memory_delta :: "size_t \<Rightarrow> size_t \<Rightarrow> size_t \<Rightarrow> size_t" where
  "lws_add_memory_delta base from to = (if to > from then base + (to - from) else base)"

section \<open>Data\<close>

record lws_activation_record =
  ar_depth :: "64 word"
  ar_calls :: "64 word"
  ar_time_self_start :: timespec
  ar_time_self :: timespec
  ar_time_total_start :: timespec
  ar_time_total :: timespec
  ar_memory_start :: size_t
  ar_memory :: size_t

definition zero_time :: timespec where
  "zero_time = \<lparr>tv_sec = 0, tv_nsec = 0\<rparr>"

definition zero_record :: lws_activation_record where
  "zero_record = \<lparr>ar_depth = 0, ar_calls = 0, ar_time_self_start = zero_time, ar_time_self = zero_time,
     ar_time_total_start = zero_time, ar_time_total = zero_time, ar_memory_start = 0, ar_memory = 0\<rparr>"

datatype profiler_clock = LWS_PROFILER_CLOCK_CPU | LWS_PROFILER_CLOCK_WALL

record lws_profiler =
  p_functions :: "nat lws_table"
  p_stack_alloc :: nat
  p_stack :: "nat list"
  p_state :: "2 word"
  p_clock :: profiler_clock
  p_records :: "nat \<rightharpoonup> lws_activation_record"

text \<open>The part of \<open>lua_Debug\<close> that the hook reads; strings of C, without their terminating NUL.\<close>

datatype hook_event = LUA_HOOKCALL | LUA_HOOKRET | LUA_HOOKTAILCALL

record lua_debug =
  d_event :: hook_event
  d_name :: "ngx_str option"
  d_what :: ngx_str
  d_linedefined :: int
  d_short_src :: ngx_str

record hook_answers =
  hk_env :: lws_env
  hk_time1 :: "timespec option"
  hk_memory :: size_t
  hk_record :: "nat option"
  hk_stack :: bool
  hk_time2 :: "timespec option"

definition leaves :: "lua_debug \<Rightarrow> bool" where
  "leaves d \<longleftrightarrow> d_event d = LUA_HOOKTAILCALL \<or> d_event d = LUA_HOOKRET"

definition enters :: "lua_debug \<Rightarrow> bool" where
  "enters d \<longleftrightarrow> d_event d = LUA_HOOKCALL \<or> d_event d = LUA_HOOKTAILCALL"

section \<open>The hook\<close>

definition set_record :: "nat \<Rightarrow> lws_activation_record \<Rightarrow> lws_profiler \<Rightarrow> lws_profiler" where
  "set_record par a p = p\<lparr>p_records := (p_records p)(par \<mapsto> a)\<rparr>"

definition get_record :: "nat \<Rightarrow> lws_profiler \<Rightarrow> lws_activation_record" where
  "get_record par p = the (p_records p par)"

text \<open>Process function exit: the record on top of the stack is charged for the time since it was last
  entered, and is popped if its function ends.\<close>

definition profiler_exit :: "lua_debug \<Rightarrow> timespec \<Rightarrow> size_t \<Rightarrow> lws_profiler \<Rightarrow> lws_profiler" where
  "profiler_exit d time memory p =
     (if length (p_stack p) > 0 then
        let par = last (p_stack p); a = get_record par p;
            a = a\<lparr>ar_time_self := lws_add_timespec_delta (ar_time_self a) (ar_time_self_start a) time\<rparr>;
            a = a\<lparr>ar_memory := lws_add_memory_delta (ar_memory a) (ar_memory_start a) memory\<rparr> in
        if leaves d then
          let a = a\<lparr>ar_depth := ar_depth a - 1\<rparr>;
              a = (if ar_depth a = 0 then
                     a\<lparr>ar_time_total :=
                         lws_add_timespec_delta (ar_time_total a) (ar_time_total_start a) time\<rparr>
                   else a)
          in (set_record par a p)\<lparr>p_stack := butlast (p_stack p)\<rparr>
        else set_record par a p
      else p)"

text \<open>Identify the function. \<open>ngx_slprintf\<close> writes at most \<open>LWS_PROFILER_KEY_MAX\<close> bytes; \<open>fd\<close> is its
  conversion \<open>%d\<close>.\<close>

definition LWS_PROFILER_KEY_MAX :: nat where
  "LWS_PROFILER_KEY_MAX = 256"

definition function_name :: "lua_debug \<Rightarrow> ngx_str" where
  "function_name d =
     (case d_name d of
        Some name \<Rightarrow> name
      | None \<Rightarrow>
          (case d_what d of
             [] \<Rightarrow> lit ''?''
           | c # _ \<Rightarrow>
               if c = 109 then lit ''main chunk''
               else if c = 76 then lit ''anonymous function''
               else lit ''?''))"

definition function_key :: "(int \<Rightarrow> ngx_str) \<Rightarrow> lua_debug \<Rightarrow> ngx_str" where
  "function_key fd d =
     take LWS_PROFILER_KEY_MAX
       (if d_linedefined d > 0 then
          c_view (d_short_src d) @ lit '':'' @ fd (d_linedefined d) @ lit '': '' @ c_view (function_name d)
        else c_view (d_short_src d) @ lit '': '' @ c_view (function_name d))"

text \<open>Get or create the activation record; the outer \<open>None\<close> is a lookup that does not end.\<close>

definition function_record ::
  "hook_answers \<Rightarrow> ngx_str \<Rightarrow> lws_profiler \<Rightarrow> ((string + nat) \<times> lws_profiler) option" where
  "function_record ans key p =
     (case lws_table_get (hk_env ans) (p_functions p) key of
        None \<Rightarrow> None
      | Some (Some par, t) \<Rightarrow> Some (Inr par, p\<lparr>p_functions := t\<rparr>)
      | Some (None, t) \<Rightarrow>
          let p = p\<lparr>p_functions := t\<rparr> in
          (case hk_record ans of
             None \<Rightarrow> Some (Inl ''failed to allocate profiler activation record'', p)
           | Some par \<Rightarrow>
               let p = set_record par zero_record p in
               (case lws_table_set (hk_env ans) (p_functions p) key (Some par) of
                  None \<Rightarrow> None
                | Some (rc, t) \<Rightarrow>
                    let p = p\<lparr>p_functions := t\<rparr> in
                    if rc \<noteq> 0 then
                      Some (Inl ''failed to set profiler activation record'',
                            p\<lparr>p_records := (p_records p)(par := None)\<rparr>)
                    else Some (Inr par, p))))"

text \<open>Grow the stack as needed, and push.\<close>

definition profiler_push :: "hook_answers \<Rightarrow> nat \<Rightarrow> lws_profiler \<Rightarrow> string + lws_profiler" where
  "profiler_push ans par p =
     (if length (p_stack p) = p_stack_alloc p \<and> \<not> hk_stack ans then
        Inl ''failed to grow profiler stack''
      else
        let p = (if length (p_stack p) = p_stack_alloc p
                 then p\<lparr>p_stack_alloc := p_stack_alloc p * 2\<rparr> else p) in
        Inr (p\<lparr>p_stack := p_stack p @ [par]\<rparr>))"

text \<open>Process function entry.\<close>

definition profiler_enter ::
  "hook_answers \<Rightarrow> lua_debug \<Rightarrow> size_t \<Rightarrow> nat option \<Rightarrow> lws_profiler \<Rightarrow> (string + unit) \<times> lws_profiler" where
  "profiler_enter ans d memory par p =
     (case par of
        None \<Rightarrow> (Inr (), p)
      | Some par \<Rightarrow>
          (case hk_time2 ans of
             None \<Rightarrow> (Inl ''failed to get profiler time'', p)
           | Some time \<Rightarrow>
               let a = get_record par p; a = a\<lparr>ar_time_self_start := time\<rparr>;
                   a = a\<lparr>ar_memory_start := memory\<rparr> in
               if enters d then
                 let a = (if ar_depth a = 0 then a\<lparr>ar_time_total_start := time\<rparr> else a);
                     a = a\<lparr>ar_depth := ar_depth a + 1\<rparr>; a = a\<lparr>ar_calls := ar_calls a + 1\<rparr>
                 in (Inr (), set_record par a p)
               else (Inr (), set_record par a p)))"

definition lws_profiler_hook ::
  "(int \<Rightarrow> ngx_str) \<Rightarrow> hook_answers \<Rightarrow> lua_debug \<Rightarrow> lws_profiler \<Rightarrow>
   ((string + unit) \<times> lws_profiler) option" where
  "lws_profiler_hook fd ans d p =
     (case hk_time1 ans of
        None \<Rightarrow> Some (Inl ''failed to get profiler time'', p)
      | Some time \<Rightarrow>
          let memory = hk_memory ans; p = profiler_exit d time memory p in
          if enters d then
            (case function_record ans (function_key fd d) p of
               None \<Rightarrow> None
             | Some (Inl e, p) \<Rightarrow> Some (Inl e, p)
             | Some (Inr par, p) \<Rightarrow>
                 (case profiler_push ans par p of
                    Inl e \<Rightarrow> Some (Inl e, p)
                  | Inr p \<Rightarrow> Some (profiler_enter ans d memory (Some par) p)))
          else
            Some (profiler_enter ans d memory
              (if length (p_stack p) > 0 then Some (last (p_stack p)) else None) p))"

section \<open>Start and stop\<close>

text \<open>\<open>lws_start_profiler\<close>: \<open>stack_ok\<close> is the answer to the allocation of the stack.\<close>

definition lws_start_profiler :: "lws_env \<Rightarrow> bool \<Rightarrow> 2 word \<Rightarrow> string + lws_profiler" where
  "lws_start_profiler E stack_ok state =
     (case lws_table_create E 32 of
        None \<Rightarrow> Inl ''failed to create profiler functions''
      | Some t \<Rightarrow>
          let t = snd (lws_table_set_dup t True); t = snd (lws_table_set_free t True) in
          if \<not> stack_ok then Inl ''faild to allocate profiler stack''
          else Inr \<lparr>p_functions = t, p_stack_alloc = 32, p_stack = [], p_state = state,
            p_clock = (if state = 1 then LWS_PROFILER_CLOCK_CPU else LWS_PROFILER_CLOCK_WALL),
            p_records = Map.empty\<rparr>)"

text \<open>The first loop of \<open>lws_stop_profiler\<close>: the functions that the monitor has.\<close>

definition function_add :: "lws_activation_record \<Rightarrow> lws_function \<Rightarrow> lws_function" where
  "function_add a f =
     f\<lparr>fn_calls := fn_calls f + ar_calls a,
       fn_time_self := lws_add_timespec (fn_time_self f) (ar_time_self a),
       fn_time_total := lws_add_timespec (fn_time_total f) (ar_time_total a),
       fn_memory := fn_memory f + ar_memory a\<rparr>"

fun sync_functions ::
  "lws_env \<Rightarrow> (nat \<rightharpoonup> lws_activation_record) \<Rightarrow> lws_function list \<Rightarrow> nat lws_table \<Rightarrow>
   (lws_function list \<times> nat lws_table) option" where
  "sync_functions E h [] t = Some ([], t)"
| "sync_functions E h (f # fs) t =
     (case lws_table_get E t (fn_key f) of
        None \<Rightarrow> None
      | Some (None, t) \<Rightarrow>
          (case sync_functions E h fs t of None \<Rightarrow> None | Some (fs, t) \<Rightarrow> Some (f # fs, t))
      | Some (Some par, t) \<Rightarrow>
          let f' = function_add (the (h par)) f in
          (case lws_table_set E t (fn_key f) None of
             None \<Rightarrow> None
           | Some (rc, t) \<Rightarrow>
               (case sync_functions E h fs t of None \<Rightarrow> None | Some (fs, t) \<Rightarrow> Some (f' # fs, t))))"

text \<open>The body of the second loop: a function that the monitor does not have. \<open>grow\<close> and \<open>copy\<close> are the
  answers of the slab allocator to the requests for a larger array and for a key, when the monitor
  has so many functions; \<open>Inl\<close> is the end of the loop for lack of memory.\<close>

definition add_function ::
  "(nat \<Rightarrow> bool) \<Rightarrow> (nat \<Rightarrow> bool) \<Rightarrow> (nat \<rightharpoonup> lws_activation_record) \<Rightarrow> ngx_str \<Rightarrow> nat option \<Rightarrow>
   lws_monitor_shm \<Rightarrow> lws_monitor_shm + lws_monitor_shm" where
  "add_function grow copy h key par m =
     (let n = length (m_functions m) in
      if n = m_functions_alloc m \<and> \<not> grow n then Inl (m\<lparr>m_out_of_memory := 1\<rparr>)
      else
        let m = (if n = m_functions_alloc m then m\<lparr>m_functions_alloc := m_functions_alloc m * 2\<rparr> else m) in
        if \<not> copy n then Inl (m\<lparr>m_out_of_memory := 1\<rparr>)
        else
          let a = the (h (the par)) in
          Inr (m\<lparr>m_slab := m_slab m + 1, m_functions := m_functions m @
            [\<lparr>fn_key = key, fn_calls = ar_calls a, fn_time_self = ar_time_self a,
              fn_time_total = ar_time_total a, fn_memory = ar_memory a\<rparr>]\<rparr>))"

text \<open>\<open>lws_stop_profiler\<close>: \<open>None\<close> as profiler is one that is not in the registry.\<close>

definition lws_stop_profiler ::
  "lws_env \<Rightarrow> (nat \<Rightarrow> bool) \<Rightarrow> (nat \<Rightarrow> bool) \<Rightarrow> lws_profiler option \<Rightarrow> lws_monitor_shm \<Rightarrow>
   (string + lws_profiler \<times> lws_monitor_shm) option" where
  "lws_stop_profiler E grow copy p m =
     (case p of
        None \<Rightarrow> Some (Inl ''failed to get profiler'')
      | Some p \<Rightarrow>
          (case sync_functions E (p_records p) (m_functions m) (p_functions p) of
             None \<Rightarrow> None
           | Some (fs, t) \<Rightarrow>
               let m = m\<lparr>m_functions := fs\<rparr>; p = p\<lparr>p_functions := t\<rparr> in
               if m_out_of_memory m \<noteq> 0 then Some (Inr (p, m))
               else
                 (case lws_table_each E t (add_function grow copy (p_records p)) None m of
                    None \<Rightarrow> None
                  | Some (Inl m) \<Rightarrow> Some (Inr (p, m))
                  | Some (Inr m) \<Rightarrow> Some (Inr (p, m)))))"

text \<open>\<open>lws_profiler_gc\<close>: what is freed with the profiler; \<open>functions\<close> is NULL if the start failed.\<close>

definition lws_profiler_gc :: "nat lws_table option \<Rightarrow> nat lws_freed list" where
  "lws_profiler_gc functions = (case functions of Some t \<Rightarrow> lws_table_free t | None \<Rightarrow> [])"

end
