(* ===== verification/LwsProfile.thy ===== *)
theory LwsProfile
  imports LwsProfiler
begin

text \<open>
  What the profiler measures. A profile is defined on the events alone: a stack of function keys, and
  for each key the number of calls, the self time, the total time and the allocated memory, as
  unbounded numbers. The profiler of LwsProfiler, with its records, pointers, depth counters and
  carries, implements it.
\<close>

section \<open>Arithmetic\<close>

definition ns :: "timespec \<Rightarrow> int" where
  "ns t = tv_sec t * 1000000000 + tv_nsec t"

text \<open>What \<open>clock_gettime\<close> returns.\<close>

definition clock_ok :: "timespec \<Rightarrow> bool" where
  "clock_ok t \<longleftrightarrow> 0 \<le> tv_nsec t \<and> tv_nsec t < 1000000000"

lemma add_timespec:
  assumes "timespec_ok base" "timespec_ok inc"
  shows "ns (lws_add_timespec base inc) = ns base + ns inc" "timespec_ok (lws_add_timespec base inc)"
  using assms by (auto simp: ns_def timespec_ok_def lws_add_timespec_def Let_def algebra_simps)

lemma add_timespec_delta:
  assumes "timespec_ok base" "clock_ok from" "clock_ok to"
  shows "ns (lws_add_timespec_delta base from to) = ns base + (ns to - ns from)"
    "timespec_ok (lws_add_timespec_delta base from to)"
  using assms
  by (auto simp: ns_def timespec_ok_def clock_ok_def lws_add_timespec_delta_def Let_def algebra_simps)

lemma add_memory_delta: "lws_add_memory_delta base from to = base + of_nat (unat to - unat from)"
  by (cases "to > from")
    (auto simp: lws_add_memory_delta_def word_less_nat_alt unat_sub word_le_nat_alt
      of_nat_diff not_less)

section \<open>The profile of a sequence of events\<close>

record profile =
  pf_stack :: "ngx_str list"
  pf_out :: int
  pf_memory :: size_t
  pf_start :: "ngx_str \<Rightarrow> int"
  pf_calls :: "ngx_str \<Rightarrow> nat"
  pf_self :: "ngx_str \<Rightarrow> int"
  pf_total :: "ngx_str \<Rightarrow> int"
  pf_alloc :: "ngx_str \<Rightarrow> nat"

definition empty_profile :: profile where
  "empty_profile = \<lparr>pf_stack = [], pf_out = 0, pf_memory = 0, pf_start = (\<lambda>_. 0), pf_calls = (\<lambda>_. 0),
     pf_self = (\<lambda>_. 0), pf_total = (\<lambda>_. 0), pf_alloc = (\<lambda>_. 0)\<rparr>"

text \<open>The innermost function is charged for the time since the last event and for the growth of the
  memory. If it ends and is not active further out, its total time ends, too.\<close>

definition profile_exit :: "bool \<Rightarrow> int \<Rightarrow> size_t \<Rightarrow> profile \<Rightarrow> profile" where
  "profile_exit ends now memory s =
     (case pf_stack s of
        [] \<Rightarrow> s
      | k # ks \<Rightarrow>
          let s = s\<lparr>pf_self := (pf_self s)(k := pf_self s k + (now - pf_out s)),
                    pf_alloc := (pf_alloc s)(k := pf_alloc s k + (unat memory - unat (pf_memory s)))\<rparr> in
          if ends then
            s\<lparr>pf_stack := ks,
              pf_total := (if k \<in> set ks then pf_total s
                           else (pf_total s)(k := pf_total s k + (now - pf_start s k)))\<rparr>
          else s)"

text \<open>A function that is entered is innermost; its total time starts if it is not active yet.\<close>

definition profile_enter :: "ngx_str option \<Rightarrow> int \<Rightarrow> size_t \<Rightarrow> profile \<Rightarrow> profile" where
  "profile_enter key now memory s =
     (case key of
        None \<Rightarrow> s
      | Some k \<Rightarrow>
          s\<lparr>pf_start := (if k \<in> set (pf_stack s) then pf_start s else (pf_start s)(k := now)),
            pf_stack := k # pf_stack s, pf_calls := (pf_calls s)(k := pf_calls s k + 1)\<rparr>)
     \<lparr>pf_out := now, pf_memory := memory\<rparr>"

text \<open>An event: whether a function ends, the key of the function that is entered, the times at which
  the hook is entered and left, and the memory in use.\<close>

record profile_event =
  pe_ends :: bool
  pe_key :: "ngx_str option"
  pe_in :: int
  pe_out :: int
  pe_memory :: size_t

definition profile_event :: "profile_event \<Rightarrow> profile \<Rightarrow> profile" where
  "profile_event e s =
     profile_enter (pe_key e) (pe_out e) (pe_memory e)
       (profile_exit (pe_ends e) (pe_in e) (pe_memory e) s)"

definition profile_of :: "profile_event list \<Rightarrow> profile" where
  "profile_of es = foldl (\<lambda>s e. profile_event e s) empty_profile es"

lemma profile_of_snoc: "profile_of (es @ [e]) = profile_event e (profile_of es)"
  by (simp add: profile_of_def)

lemma profile_stack_length: "length (pf_stack (profile_of es)) \<le> length es"
proof (induction es rule: rev_induct)
  case Nil
  then show ?case by (simp add: profile_of_def empty_profile_def)
next
  case (snoc e es)
  let ?s = "profile_of es"
  have "length (pf_stack (profile_exit b n m ?s)) \<le> length (pf_stack ?s)" for b n m
    by (simp add: profile_exit_def Let_def split: list.split)
  moreover have "length (pf_stack (profile_enter k n m s)) \<le> Suc (length (pf_stack s))" for k n m s
    by (simp add: profile_enter_def split: option.split)
  ultimately have "length (pf_stack (profile_event e ?s)) \<le> Suc (length (pf_stack ?s))"
    unfolding profile_event_def by (meson Suc_le_mono le_trans)
  with snoc show ?case by (simp add: profile_of_snoc)
qed

section \<open>Simulation\<close>

definition record_ok :: "profile \<Rightarrow> ngx_str \<Rightarrow> lws_activation_record \<Rightarrow> bool" where
  "record_ok s k a \<longleftrightarrow> ar_depth a = of_nat (count_list (pf_stack s) k) \<and>
     ar_calls a = of_nat (pf_calls s k) \<and> ar_memory a = of_nat (pf_alloc s k) \<and>
     timespec_ok (ar_time_self a) \<and> ns (ar_time_self a) = pf_self s k \<and>
     timespec_ok (ar_time_total a) \<and> ns (ar_time_total a) = pf_total s k \<and>
     (k \<in> set (pf_stack s) \<longrightarrow>
        clock_ok (ar_time_total_start a) \<and> ns (ar_time_total_start a) = pf_start s k)"

definition idle :: "profile \<Rightarrow> ngx_str \<Rightarrow> bool" where
  "idle s k \<longleftrightarrow> k \<notin> set (pf_stack s) \<and> pf_calls s k = 0 \<and> pf_self s k = 0 \<and> pf_total s k = 0 \<and>
     pf_alloc s k = 0"

definition record_rel :: "profile \<Rightarrow> ngx_str \<Rightarrow> nat option \<Rightarrow> (nat \<rightharpoonup> lws_activation_record) \<Rightarrow> bool" where
  "record_rel s k par h \<longleftrightarrow>
     (case par of None \<Rightarrow> idle s k | Some q \<Rightarrow> (\<exists>a. h q = Some a \<and> record_ok s k a))"

definition core_rel :: "lws_env \<Rightarrow> lws_profiler \<Rightarrow> profile \<Rightarrow> bool" where
  "core_rel E p s \<longleftrightarrow> exact_table E (p_functions p) \<and>
     inj_on (table_map (p_functions p)) (dom (table_map (p_functions p))) \<and>
     (\<forall>k. record_rel s k (table_map (p_functions p) k) (p_records p)) \<and>
     map Some (p_stack p) = map (table_map (p_functions p)) (rev (pf_stack s))"

text \<open>The innermost function is being timed.\<close>

definition timed_rel :: "lws_profiler \<Rightarrow> profile \<Rightarrow> bool" where
  "timed_rel p s \<longleftrightarrow> (pf_stack s \<noteq> [] \<longrightarrow>
     (\<exists>a. p_records p (last (p_stack p)) = Some a \<and> clock_ok (ar_time_self_start a) \<and>
        ns (ar_time_self_start a) = pf_out s \<and> ar_memory_start a = pf_memory s))"

text \<open>Two profiles agree on a key.\<close>

definition same_key :: "profile \<Rightarrow> profile \<Rightarrow> ngx_str \<Rightarrow> bool" where
  "same_key s s' k \<longleftrightarrow> count_list (pf_stack s') k = count_list (pf_stack s) k \<and>
     pf_calls s' k = pf_calls s k \<and> pf_self s' k = pf_self s k \<and> pf_total s' k = pf_total s k \<and>
     pf_alloc s' k = pf_alloc s k \<and> pf_start s' k = pf_start s k"

lemma same_key_rel: "same_key s s' k \<Longrightarrow> record_rel s' k = record_rel s k"
proof -
  assume same: "same_key s s' k"
  then have "k \<in> set (pf_stack s') \<longleftrightarrow> k \<in> set (pf_stack s)"
    by (metis same_key_def count_list_0_iff)
  with same have "record_ok s' k = record_ok s k" "idle s' k = idle s k"
    by (auto simp: record_ok_def idle_def same_key_def)
  then show ?thesis by (intro ext) (simp add: record_rel_def split: option.split)
qed

lemma core_relD:
  assumes "core_rel E p s"
  shows "exact_table E (p_functions p)" "inj_on (table_map (p_functions p)) (dom (table_map (p_functions p)))"
    "record_rel s k (table_map (p_functions p) k) (p_records p)"
    "map Some (p_stack p) = map (table_map (p_functions p)) (rev (pf_stack s))"
  using assms by (simp_all add: core_rel_def)

text \<open>Writing the record of one function.\<close>

lemma core_rel_update:
  assumes rel: "core_rel E p s" and par: "table_map (p_functions p) k = Some par"
    and ok: "record_ok s' k a" and same: "\<And>k'. k' \<noteq> k \<Longrightarrow> same_key s s' k'"
    and p': "p_functions p' = p_functions p" "p_records p' = (p_records p)(par \<mapsto> a)"
    and st: "map Some (p_stack p') = map (table_map (p_functions p)) (rev (pf_stack s'))"
  shows "core_rel E p' s'"
proof -
  have "record_rel s' k' (table_map (p_functions p) k') (p_records p')" for k'
  proof (cases "k' = k")
    case True
    then show ?thesis using ok par p'(2) by (simp add: record_rel_def)
  next
    case False
    have "table_map (p_functions p) k' \<noteq> Some par"
    proof
      assume k': "table_map (p_functions p) k' = Some par"
      from inj_onD [OF core_relD(2) [OF rel], of k' k] par k' False show False by auto
    qed
    then have "record_rel s k' (table_map (p_functions p) k') (p_records p')"
      using core_relD(3) [OF rel, of k'] p'(2) by (auto simp: record_rel_def split: option.splits)
    then show ?thesis using same_key_rel [OF same [OF False]] by simp
  qed
  then show ?thesis using core_relD(1,2) [OF rel] p'(1) st by (simp add: core_rel_def)
qed

lemma top_record:
  assumes rel: "core_rel E p s" and st: "pf_stack s = k # ks"
  obtains q a where "p_stack p = q @ [the (table_map (p_functions p) k)]"
    "table_map (p_functions p) k = Some (last (p_stack p))"
    "map Some q = map (table_map (p_functions p)) (rev ks)"
    "p_records p (last (p_stack p)) = Some a" "record_ok s k a"
proof -
  have "map Some (p_stack p) = map (table_map (p_functions p)) (rev ks) @ [table_map (p_functions p) k]"
    using core_relD(4) [OF rel] st by simp
  then obtain q r where split: "p_stack p = q @ r" "map Some q = map (table_map (p_functions p)) (rev ks)"
    "map Some r = [table_map (p_functions p) k]" by (auto simp: map_eq_append_conv)
  then obtain par where par: "p_stack p = q @ [par]" "table_map (p_functions p) k = Some par" by auto
  with core_relD(3) [OF rel, of k] that split(2) show thesis by (auto simp: record_rel_def)
qed

lemma count_word:
  "length (pf_stack s) < 2 ^ 64 \<Longrightarrow> (of_nat (count_list (pf_stack s) k) :: 64 word) = 0 \<longleftrightarrow> k \<notin> set (pf_stack s)"
proof -
  assume "length (pf_stack s) < 2 ^ 64"
  with count_le_length [of "pf_stack s" k] have "count_list (pf_stack s) k < 2 ^ 64" by simp
  then show ?thesis
    using of_nat_inverse [of "count_list (pf_stack s) k" "0 :: 64 word"]
    by (auto simp: count_list_0_iff word_of_nat_eq_0_iff dest: nat_dvd_not_less)
qed

lemma exit_rel:
  assumes rel: "core_rel E p s" and top: "timed_rel p s" and now: "clock_ok now"
    and small: "length (pf_stack s) < 2 ^ 64"
  shows "core_rel E (profiler_exit d now memory p) (profile_exit (leaves d) (ns now) memory s)"
proof (cases "pf_stack s")
  case Nil
  with core_relD(4) [OF rel] have "p_stack p = []" by simp
  with Nil rel show ?thesis by (simp add: profiler_exit_def profile_exit_def)
next
  case (Cons k ks)
  from rel Cons obtain q a where st: "p_stack p = q @ [the (table_map (p_functions p) k)]"
    "table_map (p_functions p) k = Some (last (p_stack p))"
    "map Some q = map (table_map (p_functions p)) (rev ks)"
    "p_records p (last (p_stack p)) = Some a" "record_ok s k a" by (rule top_record)
  let ?self = "lws_add_timespec_delta (ar_time_self a) (ar_time_self_start a) now"
  let ?memory = "lws_add_memory_delta (ar_memory a) (ar_memory_start a) memory"
  let ?total = "lws_add_timespec_delta (ar_time_total a) (ar_time_total_start a) now"
  from top Cons st(4) have start: "clock_ok (ar_time_self_start a)"
    "ns (ar_time_self_start a) = pf_out s" "ar_memory_start a = pf_memory s"
    by (auto simp: timed_rel_def)
  from st(5) have a: "ar_depth a = of_nat (count_list (pf_stack s) k)" "ar_calls a = of_nat (pf_calls s k)"
    "ar_memory a = of_nat (pf_alloc s k)" "timespec_ok (ar_time_self a)" "ns (ar_time_self a) = pf_self s k"
    "timespec_ok (ar_time_total a)" "ns (ar_time_total a) = pf_total s k"
    "clock_ok (ar_time_total_start a)" "ns (ar_time_total_start a) = pf_start s k"
    using Cons by (auto simp: record_ok_def)
  note self = add_timespec_delta [OF a(4) start(1) now] and total = add_timespec_delta [OF a(6,8) now]
  have memory: "?memory = of_nat (pf_alloc s k + (unat memory - unat (pf_memory s)))"
    using a(3) start(3) by (simp add: add_memory_delta)
  let ?a = "a\<lparr>ar_time_self := ?self, ar_memory := ?memory\<rparr>"
  let ?s = "s\<lparr>pf_self := (pf_self s)(k := pf_self s k + (ns now - pf_out s)),
    pf_alloc := (pf_alloc s)(k := pf_alloc s k + (unat memory - unat (pf_memory s)))\<rparr>"
  show ?thesis
  proof (cases "leaves d")
    case False
    have p': "profiler_exit d now memory p = set_record (last (p_stack p)) ?a p"
      using st(1,4) False by (simp add: profiler_exit_def get_record_def Let_def)
    have s': "profile_exit (leaves d) (ns now) memory s = ?s"
      using Cons False by (simp add: profile_exit_def)
    show ?thesis
      unfolding p' s'
    proof (rule core_rel_update [OF rel st(2)])
      show "record_ok ?s k ?a" using a self start memory Cons by (simp add: record_ok_def)
      show "same_key s ?s k'" if "k' \<noteq> k" for k' using that by (simp add: same_key_def)
    qed (use core_relD(4) [OF rel] in \<open>simp_all add: set_record_def\<close>)
  next
    case True
    let ?b = "if k \<in> set ks then ?a\<lparr>ar_depth := ar_depth a - 1\<rparr>
      else ?a\<lparr>ar_depth := ar_depth a - 1, ar_time_total := ?total\<rparr>"
    let ?t = "?s\<lparr>pf_stack := ks, pf_total := (if k \<in> set ks then pf_total s
      else (pf_total s)(k := pf_total s k + (ns now - pf_start s k)))\<rparr>"
    have depth: "ar_depth a - 1 = of_nat (count_list ks k)" using a(1) Cons by simp
    have "length (pf_stack ?t) < 2 ^ 64" using small Cons by simp
    from count_word [OF this, of k] have zero: "ar_depth a - 1 = 0 \<longleftrightarrow> k \<notin> set ks"
      unfolding depth by simp
    have p': "profiler_exit d now memory p = (set_record (last (p_stack p)) ?b p)\<lparr>p_stack := q\<rparr>"
      using st(1,4) True zero by (simp add: profiler_exit_def get_record_def Let_def)
    have s': "profile_exit (leaves d) (ns now) memory s = ?t"
      using Cons True by (simp add: profile_exit_def)
    show ?thesis
      unfolding p' s'
    proof (rule core_rel_update [OF rel st(2)])
      show "record_ok ?t k ?b"
        using a self total start memory depth by (simp add: record_ok_def)
      show "same_key s ?t k'" if "k' \<noteq> k" for k' using that Cons by (simp add: same_key_def)
    qed (use st(3) in \<open>simp_all add: set_record_def\<close>)
  qed
qed

lemma exact_process_back:
  assumes "exact_table E' t" "same_process E' E" "strncasecmp_ok E"
  shows "exact_table E t"
  using exact_tableD [OF assms(1)] assms(3) table_wf_process [OF assms(2), of t]
  by (simp add: exact_table_def del: lws_table_abs_sel)

text \<open>The record of a function is found or made.\<close>

lemma function_record_rel:
  assumes rel: "core_rel E p s" and key: "0 \<notin> set key" and same: "same_process (hk_env ans) E"
    and fresh: "\<And>q. hk_record ans = Some q \<Longrightarrow> p_records p q = None"
    and run: "function_record ans key p = Some (Inr par, p')"
  shows "core_rel E p' s \<and> table_map (p_functions p') key = Some par \<and> p_stack p' = p_stack p"
proof -
  let ?T = "table_map (p_functions p)"
  have t: "exact_table (hk_env ans) (p_functions p)" by (rule exact_process [OF core_relD(1) [OF rel] same])
  note get = exact.get_map [OF t key]
  show ?thesis
  proof (cases "?T key")
    case (Some q)
    with run get have "par = q" "p' = p\<lparr>p_functions := p_functions p\<rparr>"
      by (auto simp: function_record_def)
    with rel Some show ?thesis by simp
  next
    case None
    obtain q where q: "hk_record ans = Some q"
      using run get None by (auto simp: function_record_def Let_def split: option.splits)
    from exact.put_map [OF t key, of q] obtain rc t' where
      set: "lws_table_set (hk_env ans) (p_functions p) key (Some q) = Some (rc, t')"
        "exact_table (hk_env ans) t'" "table_map t' = (if rc = 0 then ?T(key \<mapsto> q) else ?T)" by blast
    have rc: "rc = 0" and par: "par = q" and
      p': "p' = p\<lparr>p_records := (p_records p)(q \<mapsto> zero_record), p_functions := t'\<rparr>"
      using run get None q set(1)
      by (auto simp: function_record_def set_record_def Let_def split: if_splits)
    have old: "?T k \<noteq> Some q" for k
      using core_relD(3) [OF rel, of k] fresh [OF q] by (auto simp: record_rel_def)
    have "inj_on (?T(key \<mapsto> q)) (dom (?T(key \<mapsto> q)))"
      using core_relD(2) [OF rel] old None by (auto simp: inj_on_def dom_def split: if_splits)
    moreover have "record_rel s k ((?T(key \<mapsto> q)) k) ((p_records p)(q \<mapsto> zero_record))" for k
    proof (cases "k = key")
      case True
      with core_relD(3) [OF rel, of key] None have "idle s k" by (simp add: record_rel_def)
      then have "record_ok s k zero_record"
        by (simp add: record_ok_def idle_def zero_record_def zero_time_def timespec_ok_def ns_def
            count_list_0_iff)
      with True show ?thesis by (simp add: record_rel_def)
    next
      case False
      with core_relD(3) [OF rel, of k] old [of k] show ?thesis
        by (auto simp: record_rel_def split: option.splits)
    qed
    moreover have "map ?T (rev (pf_stack s)) = map (?T(key \<mapsto> q)) (rev (pf_stack s))"
    proof -
      have "key \<notin> set (pf_stack s)" using core_relD(3) [OF rel, of key] None by (simp add: record_rel_def idle_def)
      then show ?thesis by auto
    qed
    ultimately have "core_rel E p' s"
      using core_relD(4) [OF rel] exact_process_back [OF set(2) same exact_tableD(2) [OF core_relD(1) [OF rel]]]
        set(3) rc by (simp add: core_rel_def p')
    with set(3) rc par show ?thesis by (simp add: p')
  qed
qed

text \<open>Entering a function, and returning to one.\<close>

lemma enter_rel:
  assumes rel: "core_rel E p s" and key: "table_map (p_functions p) k = Some par"
    and now: "hk_time2 ans = Some now" "clock_ok now"
    and small: "length (pf_stack s) < 2 ^ 64" and d: "enters d"
    and push: "profiler_push ans par p = Inr p1"
    and run: "profiler_enter ans d memory (Some par) p1 = (Inr (), p')"
  shows "core_rel E p' (profile_enter (Some k) (ns now) memory s) \<and>
    timed_rel p' (profile_enter (Some k) (ns now) memory s)"
proof -
  let ?s = "profile_enter (Some k) (ns now) memory s"
  from core_relD(3) [OF rel, of k] key obtain a where a: "p_records p par = Some a" "record_ok s k a"
    by (auto simp: record_rel_def)
  from push have p1: "p_stack p1 = p_stack p @ [par]" "p_functions p1 = p_functions p"
    "p_records p1 = p_records p" by (auto simp: profiler_push_def Let_def split: if_splits)
  let ?b = "(if k \<in> set (pf_stack s) then a\<lparr>ar_time_self_start := now, ar_memory_start := memory\<rparr>
     else a\<lparr>ar_time_self_start := now, ar_memory_start := memory, ar_time_total_start := now\<rparr>)
    \<lparr>ar_depth := ar_depth a + 1, ar_calls := ar_calls a + 1\<rparr>"
  from a(2) have fields: "ar_depth a = of_nat (count_list (pf_stack s) k)" "ar_calls a = of_nat (pf_calls s k)"
    by (simp_all add: record_ok_def)
  have zero: "ar_depth a = 0 \<longleftrightarrow> k \<notin> set (pf_stack s)"
    unfolding fields(1) by (rule count_word [OF small])
  have p': "p' = set_record par ?b p1"
    using run now(1) d a(1) p1(3) zero
    by (auto simp: profiler_enter_def get_record_def Let_def split: if_splits)
  have s: "pf_stack ?s = k # pf_stack s" "pf_out ?s = ns now" "pf_memory ?s = memory"
    "pf_calls ?s = (pf_calls s)(k := pf_calls s k + 1)" "pf_self ?s = pf_self s" "pf_total ?s = pf_total s"
    "pf_alloc ?s = pf_alloc s"
    "pf_start ?s = (if k \<in> set (pf_stack s) then pf_start s else (pf_start s)(k := ns now))"
    by (simp_all add: profile_enter_def)
  have "core_rel E p' ?s"
  proof (rule core_rel_update [OF rel key])
    show "record_ok ?s k ?b" using a(2) fields now(2) unfolding record_ok_def s by simp
    show "same_key s ?s k'" if "k' \<noteq> k" for k' using that unfolding same_key_def s by simp
    show "map Some (p_stack p') = map (table_map (p_functions p)) (rev (pf_stack ?s))"
      using core_relD(4) [OF rel] key unfolding p' s by (simp add: set_record_def p1)
  qed (simp_all add: p' set_record_def p1)
  moreover have "timed_rel p' ?s"
    using now(2) unfolding timed_rel_def s p' by (simp add: set_record_def p1)
  ultimately show ?thesis ..
qed

lemma return_rel:
  assumes rel: "core_rel E p s" and d: "\<not> enters d"
    and now: "\<And>t. hk_time2 ans = Some t \<Longrightarrow> clock_ok t \<and> now = t"
    and run: "profiler_enter ans d memory (if length (p_stack p) > 0 then Some (last (p_stack p)) else None) p =
      (Inr (), p')"
  shows "core_rel E p' (profile_enter None (ns now) memory s) \<and>
    timed_rel p' (profile_enter None (ns now) memory s)"
proof -
  let ?s = "profile_enter None (ns now) memory s"
  have s: "pf_stack ?s = pf_stack s" "pf_out ?s = ns now" "pf_memory ?s = memory"
    "same_key s ?s k" for k
    by (simp_all add: profile_enter_def same_key_def)
  show ?thesis
  proof (cases "pf_stack s")
    case Nil
    with core_relD(4) [OF rel] have "p_stack p = []" by simp
    with run have "p' = p" by (simp add: profiler_enter_def)
    with rel Nil s same_key_rel [OF s(4)] show ?thesis by (simp add: core_rel_def timed_rel_def)
  next
    case (Cons k ks)
    from rel Cons obtain q a where st: "p_stack p = q @ [the (table_map (p_functions p) k)]"
      "table_map (p_functions p) k = Some (last (p_stack p))"
      "p_records p (last (p_stack p)) = Some a" "record_ok s k a" by (rule top_record)
    obtain t where t: "hk_time2 ans = Some t" using run st(1) by (auto simp: profiler_enter_def split: option.splits)
    let ?b = "a\<lparr>ar_time_self_start := t, ar_memory_start := memory\<rparr>"
    have p': "p' = set_record (last (p_stack p)) ?b p"
      using run t d st(1,3) by (simp add: profiler_enter_def get_record_def Let_def)
    have "core_rel E p' ?s"
    proof (rule core_rel_update [OF rel st(2)])
      show "record_ok ?s k ?b" using st(4) by (simp add: record_ok_def profile_enter_def)
      show "same_key s ?s k'" if "k' \<noteq> k" for k' by (rule s(4))
      show "map Some (p_stack p') = map (table_map (p_functions p)) (rev (pf_stack ?s))"
        using core_relD(4) [OF rel] unfolding p' s by (simp add: set_record_def)
    qed (simp_all add: p' set_record_def)
    moreover have "timed_rel p' ?s"
      using now [OF t] unfolding timed_rel_def s p' by (simp add: set_record_def t)
    ultimately show ?thesis ..
  qed
qed

section \<open>Sequences of hooks\<close>

text \<open>The event of a call of the hook.\<close>

definition event_of :: "(int \<Rightarrow> ngx_str) \<Rightarrow> hook_answers \<times> lua_debug \<Rightarrow> profile_event" where
  "event_of fd e = (case e of (ans, d) \<Rightarrow>
     \<lparr>pe_ends = leaves d, pe_key = (if enters d then Some (function_key fd d) else None),
       pe_in = ns (the (hk_time1 ans)),
       pe_out = ns (case hk_time2 ans of Some t \<Rightarrow> t | None \<Rightarrow> the (hk_time1 ans)),
       pe_memory = hk_memory ans\<rparr>)"

text \<open>What the environment promises: the times are normalized, and new memory is new.\<close>

definition hook_call_ok :: "lws_env \<Rightarrow> lws_profiler \<Rightarrow> hook_answers \<Rightarrow> bool" where
  "hook_call_ok E p ans \<longleftrightarrow> same_process (hk_env ans) E \<and> pred_option clock_ok (hk_time1 ans) \<and>
     pred_option clock_ok (hk_time2 ans) \<and> pred_option (\<lambda>q. p_records p q = None) (hk_record ans)"

definition stack_ok :: "lws_profiler \<Rightarrow> bool" where
  "stack_ok p \<longleftrightarrow> length (p_stack p) \<le> p_stack_alloc p \<and> 0 < p_stack_alloc p"

lemma function_key_no_nul:
  assumes "\<forall>n. 0 \<notin> set (fd n)"
  shows "0 \<notin> set (function_key fd d)"
proof -
  have "0 \<notin> set (c_view s)" for s by (auto simp: c_view_def dest: set_takeWhileD)
  then show ?thesis using assms
    by (auto simp: function_key_def lit_def dest!: in_set_takeD)
qed

lemma hook_rel:
  assumes rel: "core_rel E p s" "timed_rel p s" and small: "length (pf_stack s) < 2 ^ 64"
    and call: "hook_call_ok E p ans" and fd: "\<forall>n. 0 \<notin> set (fd n)"
    and run: "lws_profiler_hook fd ans d p = Some (Inr (), p')"
  shows "core_rel E p' (profile_event (event_of fd (ans, d)) s) \<and>
    timed_rel p' (profile_event (event_of fd (ans, d)) s)"
proof -
  obtain t1 where t1: "hk_time1 ans = Some t1" "clock_ok t1"
    using run call by (auto simp: lws_profiler_hook_def hook_call_ok_def split: option.splits)
  let ?p = "profiler_exit d t1 (hk_memory ans) p"
  let ?s = "profile_exit (leaves d) (ns t1) (hk_memory ans) s"
  have exit: "core_rel E ?p ?s" by (rule exit_rel [OF rel t1(2) small])
  have small': "length (pf_stack ?s) < 2 ^ 64"
    using small by (auto simp: profile_exit_def Let_def split: list.split)
  show ?thesis
  proof (cases "enters d")
    case True
    let ?key = "function_key fd d"
    from run t1 True obtain par p2 p3 where
      rcd: "function_record ans ?key ?p = Some (Inr par, p2)" and push: "profiler_push ans par p2 = Inr p3"
      and enter: "profiler_enter ans d (hk_memory ans) (Some par) p3 = (Inr (), p')"
      by (auto simp: lws_profiler_hook_def Let_def split: option.splits sum.splits prod.splits)
    obtain t2 where t2: "hk_time2 ans = Some t2" "clock_ok t2"
      using enter call by (auto simp: profiler_enter_def hook_call_ok_def split: option.splits)
    have fresh: "p_records ?p q = None" if "hk_record ans = Some q" for q
    proof -
      have "p_records p q = None" using call that by (simp add: hook_call_ok_def)
      moreover have "last (p_stack p) \<noteq> q" if "p_stack p \<noteq> []"
      proof -
        from core_relD(4) [OF rel(1)] that obtain k ks where "pf_stack s = k # ks"
          by (cases "pf_stack s") auto
        from top_record [OF rel(1) this] \<open>p_records p q = None\<close> show ?thesis by (metis option.distinct(1))
      qed
      ultimately show ?thesis
        by (auto simp: profiler_exit_def set_record_def Let_def)
    qed
    have "same_process (hk_env ans) E" using call by (simp add: hook_call_ok_def)
    from function_record_rel [OF exit function_key_no_nul [OF fd] this fresh rcd]
    have rec: "core_rel E p2 ?s" "table_map (p_functions p2) ?key = Some par" by simp_all
    from enter_rel [OF rec t2 small' True push enter] show ?thesis
      using True t1 t2 by (simp add: profile_event_def event_of_def)
  next
    case False
    let ?now = "case hk_time2 ans of Some t \<Rightarrow> t | None \<Rightarrow> the (hk_time1 ans)"
    have "clock_ok t \<and> ?now = t" if "hk_time2 ans = Some t" for t
      using call that by (simp add: hook_call_ok_def)
    from return_rel [OF exit False this, where p' = p'] run t1 False show ?thesis
      by (simp add: lws_profiler_hook_def profile_event_def event_of_def Let_def)
  qed
qed

lemma hook_stack_ok:
  assumes "stack_ok p" "lws_profiler_hook fd ans d p = Some (r, p')"
  shows "stack_ok p'"
proof -
  have exit: "stack_ok (profiler_exit d t m p)" for t m
    using assms(1) by (auto simp: stack_ok_def profiler_exit_def set_record_def Let_def)
  have rcd: "stack_ok p2" if "function_record ans key p1 = Some (res, p2)" "stack_ok p1" for key p1 p2 res
    using that by (auto simp: function_record_def set_record_def stack_ok_def Let_def
        split: option.splits if_splits prod.splits)
  have push: "stack_ok p2" if "profiler_push ans par p1 = Inr p2" "stack_ok p1" for par p1 p2
    using that by (auto simp: profiler_push_def stack_ok_def Let_def split: if_splits)
  have enter: "stack_ok (snd (profiler_enter ans d m par p1))" if "stack_ok p1" for m par p1
    using that by (auto simp: profiler_enter_def set_record_def stack_ok_def Let_def split: option.split)
  show ?thesis
    using assms(2) exit rcd push enter assms(1)
    by (auto simp: lws_profiler_hook_def Let_def split: option.splits if_splits sum.splits prod.splits)
      (metis enter snd_conv)+
qed

inductive profiler_runs ::
  "(int \<Rightarrow> ngx_str) \<Rightarrow> lws_env \<Rightarrow> lws_profiler \<Rightarrow> (hook_answers \<times> lua_debug) list \<Rightarrow> lws_profiler \<Rightarrow> bool"
  for fd E p0 where
  start: "profiler_runs fd E p0 [] p0"
| hook: "profiler_runs fd E p0 es p \<Longrightarrow> hook_call_ok E p ans \<Longrightarrow>
    lws_profiler_hook fd ans d p = Some (Inr (), p') \<Longrightarrow> profiler_runs fd E p0 (es @ [(ans, d)]) p'"

lemma start_rel:
  assumes "lws_start_profiler E stack_alloc_ok state = Inr p" "strncasecmp_ok E"
  shows "core_rel E p empty_profile" "timed_rel p empty_profile" "stack_ok p"
proof -
  from assms(1) obtain t where t: "lws_table_create E 32 = Some t"
    and p: "p_functions p = snd (lws_table_set_free (snd (lws_table_set_dup t True)) True)"
      "p_stack p = []" "p_stack_alloc p = 32" "p_records p = Map.empty"
    by (auto simp: lws_start_profiler_def Let_def split: option.splits if_splits)
  from t obtain a where a: "t = \<lparr>t_alloc = a, t_load = lws_table_load a, t_count = 0,
      t_entries = replicate a zero_entry, t_order = [], t_timeout = 0, t_cap = 0, t_dup = False,
      t_free = False, t_ci = False, t_timed = False, t_capped = False, t_freed = []\<rparr>"
    by (auto simp: lws_table_create_def Let_def split: option.splits if_splits)
  have start: "table_wf E t" "lws_table_items t = []" "t_count t = 0" "\<not> t_ci t" "\<not> t_timed t" "\<not> t_capped t"
    using create_spec [OF t] by (simp_all add: a table_wf_def entries_ok_def distinct_on_def)
  have pt: "p_functions p = t\<lparr>t_dup := True, t_free := True\<rparr>"
    using start(3) p(1) by (simp add: lws_table_set_dup_def lws_table_set_free_def)
  have items: "lws_table_items (p_functions p) = []" using start(2) by (simp add: pt lws_table_items_def)
  have "table_wf E (p_functions p)"
    by (rule empty_wf [OF start(1,3)]) (use start(6) in \<open>simp_all add: pt\<close>)
  then have "exact_table E (p_functions p)" "table_map (p_functions p) = Map.empty"
    using start(4-6) assms(2) items
    by (simp_all add: exact_table_def clean_items_def table_map_def map_items_def pt)
  with p show "core_rel E p empty_profile" "timed_rel p empty_profile" "stack_ok p"
    by (simp_all add: core_rel_def timed_rel_def stack_ok_def empty_profile_def record_rel_def idle_def)
qed

lemma runs_rel:
  assumes runs: "profiler_runs fd E p0 es p" and fd: "\<forall>n. 0 \<notin> set (fd n)"
    and start: "lws_start_profiler E stack_alloc_ok state = Inr p0" "strncasecmp_ok E"
  shows "length es < 2 ^ 64 \<Longrightarrow> core_rel E p (profile_of (map (event_of fd) es)) \<and>
    timed_rel p (profile_of (map (event_of fd) es)) \<and> stack_ok p"
  using runs
proof induction
  case start
  with start_rel [OF assms(3,4)] show ?case by (simp add: profile_of_def)
next
  case (hook es p ans d p')
  let ?s = "profile_of (map (event_of fd) es)"
  from hook have rel: "core_rel E p ?s" "timed_rel p ?s" "stack_ok p" by simp_all
  have "length (pf_stack ?s) < 2 ^ 64"
    using profile_stack_length [of "map (event_of fd) es"] hook.prems by simp
  from hook_rel [OF rel(1,2) this hook.hyps(2) fd hook.hyps(3)] hook_stack_ok [OF rel(3) hook.hyps(3)]
  show ?case by (simp add: profile_of_snoc)
qed

text \<open>The hook returns: its lookups end.\<close>

lemma hook_returns:
  assumes rel: "core_rel E p s" "timed_rel p s" and small: "length (pf_stack s) < 2 ^ 64"
    and call: "hook_call_ok E p ans" and fd: "\<forall>n. 0 \<notin> set (fd n)"
  shows "\<exists>r p'. lws_profiler_hook fd ans d p = Some (r, p')"
proof (cases "hk_time1 ans")
  case None
  then show ?thesis by (simp add: lws_profiler_hook_def)
next
  case (Some t1)
  let ?p = "profiler_exit d t1 (hk_memory ans) p" and ?key = "function_key fd d"
  have t1: "clock_ok t1" using call Some by (simp add: hook_call_ok_def)
  from core_relD(1) [OF exit_rel [OF rel t1 small]] call
  have t: "exact_table (hk_env ans) (p_functions ?p)" by (auto simp: hook_call_ok_def intro: exact_process)
  note get = exact.get_map [OF t function_key_no_nul [OF fd]]
  have rcd: "\<exists>r p2. function_record ans ?key ?p = Some (r, p2)"
  proof (cases "table_map (p_functions ?p) ?key")
    case None
    show ?thesis
    proof (cases "hk_record ans")
      case q: (Some q)
      from exact.put_map [OF t function_key_no_nul [OF fd], of d q] obtain rc t' where
        "lws_table_set (hk_env ans) (p_functions ?p) ?key (Some q) = Some (rc, t')" by blast
      with get None q show ?thesis by (simp add: function_record_def set_record_def Let_def)
    qed (use get None in \<open>simp add: function_record_def Let_def\<close>)
  qed (use get in \<open>simp add: function_record_def\<close>)
  show ?thesis
  proof (cases "enters d")
    case True
    from rcd obtain r p2 where "function_record ans ?key ?p = Some (r, p2)" by blast
    with Some True show ?thesis
      by (cases r) (auto simp: lws_profiler_hook_def Let_def split: sum.split prod.split)
  next
    case False
    with Some show ?thesis by (simp add: lws_profiler_hook_def Let_def)
  qed
qed

section \<open>Times\<close>

text \<open>The clock does not run backwards: \<open>now\<close> is the time of the previous event.\<close>

fun monotone_from :: "int \<Rightarrow> profile_event list \<Rightarrow> bool" where
  "monotone_from now [] = True"
| "monotone_from now (e # es) = (now \<le> pe_in e \<and> pe_in e \<le> pe_out e \<and> monotone_from (pe_out e) es)"

definition last_out :: "int \<Rightarrow> profile_event list \<Rightarrow> int" where
  "last_out now es = (if es = [] then now else pe_out (last es))"

lemma monotone_snoc:
  "monotone_from now (es @ [e]) \<longleftrightarrow> monotone_from now es \<and> last_out now es \<le> pe_in e \<and> pe_in e \<le> pe_out e"
  by (induction es arbitrary: now) (auto simp: last_out_def)

text \<open>What has passed of the total time of an active function.\<close>

definition open_time :: "int \<Rightarrow> profile \<Rightarrow> ngx_str \<Rightarrow> int" where
  "open_time now s k = (if k \<in> set (pf_stack s) then now - pf_start s k else 0)"

definition key_times :: "int \<Rightarrow> int \<Rightarrow> profile \<Rightarrow> ngx_str \<Rightarrow> bool" where
  "key_times begin now s k \<longleftrightarrow> 0 \<le> pf_self s k \<and> pf_self s k \<le> pf_total s k + open_time now s k \<and>
     0 \<le> pf_total s k \<and> pf_total s k + open_time now s k \<le> now - begin \<and>
     (k \<in> set (pf_stack s) \<longrightarrow> pf_start s k \<le> now)"

lemma key_times_advance: "key_times begin now s k \<Longrightarrow> now \<le> now' \<Longrightarrow> key_times begin now' s k"
  by (simp add: key_times_def open_time_def split: if_splits)

lemma key_times_same: "same_key s s' k \<Longrightarrow> key_times begin now s' k = key_times begin now s k"
proof -
  assume same: "same_key s s' k"
  then have "k \<in> set (pf_stack s') \<longleftrightarrow> k \<in> set (pf_stack s)" by (metis same_key_def count_list_0_iff)
  with same show ?thesis by (simp add: key_times_def open_time_def same_key_def)
qed

lemma key_times_exit:
  assumes "key_times begin now s k" "pf_stack s \<noteq> [] \<Longrightarrow> pf_out s = now" "now \<le> now'"
  shows "key_times begin now' (profile_exit ends now' m s) k"
proof (cases "pf_stack s")
  case Nil
  with key_times_advance [OF assms(1,3)] show ?thesis by (simp add: profile_exit_def)
next
  case (Cons c ks)
  let ?s = "profile_exit ends now' m s"
  have out: "pf_out s = now" using assms(2) Cons by simp
  show ?thesis
  proof (cases "k = c")
    case False
    then have "same_key s ?s k" using Cons by (simp add: same_key_def profile_exit_def Let_def)
    with key_times_same key_times_advance [OF assms(1,3)] show ?thesis by blast
  next
    case True
    have s: "pf_self ?s k = pf_self s k + (now' - now)" "pf_start ?s = pf_start s"
      "pf_stack ?s = (if ends then ks else pf_stack s)"
      "pf_total ?s k = (if ends \<and> k \<notin> set ks then pf_total s k + (now' - pf_start s k) else pf_total s k)"
      using Cons True out by (simp_all add: profile_exit_def Let_def)
    from assms(1) Cons True have t: "0 \<le> pf_self s k" "pf_self s k \<le> pf_total s k + (now - pf_start s k)"
      "0 \<le> pf_total s k" "pf_total s k + (now - pf_start s k) \<le> now - begin" "pf_start s k \<le> now"
      by (simp_all add: key_times_def open_time_def)
    show ?thesis
      using t assms(3) Cons True unfolding key_times_def open_time_def s by auto
  qed
qed

lemma key_times_enter:
  assumes "key_times begin now s k" "now \<le> now'"
  shows "key_times begin now' (profile_enter key now' m s) k"
proof (cases "key = Some k")
  case False
  then have "same_key s (profile_enter key now' m s) k"
    by (auto simp: same_key_def profile_enter_def split: option.split)
  with key_times_same key_times_advance [OF assms] show ?thesis by blast
next
  case True
  from key_times_advance [OF assms] show ?thesis
    by (auto simp: True key_times_def open_time_def profile_enter_def)
qed

lemma profile_enter_out: "pf_out (profile_enter key now m s) = now"
  by (simp add: profile_enter_def)

lemma profile_times:
  "monotone_from begin es \<Longrightarrow>
    key_times begin (last_out begin es) (profile_of es) k \<and>
    (pf_stack (profile_of es) \<noteq> [] \<longrightarrow> pf_out (profile_of es) = last_out begin es)"
proof (induction es rule: rev_induct)
  case Nil
  then show ?case by (simp add: profile_of_def empty_profile_def key_times_def open_time_def last_out_def)
next
  case (snoc e es)
  then have now: "last_out begin es \<le> pe_in e" "pe_in e \<le> pe_out e"
    and IH: "key_times begin (last_out begin es) (profile_of es) k"
      "pf_stack (profile_of es) \<noteq> [] \<Longrightarrow> pf_out (profile_of es) = last_out begin es"
    by (auto simp: monotone_snoc)
  from key_times_enter [OF key_times_exit [OF IH now(1)] now(2)] show ?case
    by (simp add: profile_of_snoc profile_event_def profile_enter_out) (simp add: last_out_def)
qed

lemma self_sum:
  assumes "finite K"
  shows "monotone_from begin es \<Longrightarrow> (\<Sum>k\<in>K. pf_self (profile_of es) k) \<le> last_out begin es - begin"
proof (induction es rule: rev_induct)
  case Nil
  then show ?case by (simp add: profile_of_def empty_profile_def last_out_def)
next
  case (snoc e es)
  let ?s = "profile_of es" and ?now = "last_out begin es"
  from snoc.prems have now: "monotone_from begin es" "?now \<le> pe_in e" "pe_in e \<le> pe_out e"
    by (simp_all add: monotone_snoc)
  have out: "pf_stack ?s \<noteq> [] \<Longrightarrow> pf_out ?s = ?now" using profile_times [OF now(1)] by blast
  have "(\<Sum>k\<in>K. pf_self (profile_of (es @ [e])) k) \<le> (\<Sum>k\<in>K. pf_self ?s k) + (pe_in e - ?now)"
  proof (cases "pf_stack ?s")
    case Nil
    then show ?thesis using now
      by (simp add: profile_of_snoc profile_event_def profile_exit_def profile_enter_def split: option.split)
  next
    case (Cons c ks)
    have "pf_self (profile_of (es @ [e])) = (pf_self ?s)(c := pf_self ?s c + (pe_in e - ?now))"
      using Cons out
      by (simp add: profile_of_snoc profile_event_def profile_exit_def profile_enter_def Let_def split: option.split)
    moreover have "(\<Sum>k\<in>K. ((pf_self ?s)(c := pf_self ?s c + (pe_in e - ?now))) k) =
      (\<Sum>k\<in>K. pf_self ?s k) + (if c \<in> K then pe_in e - ?now else 0)"
    proof -
      have "((pf_self ?s)(c := pf_self ?s c + (pe_in e - ?now))) =
        (\<lambda>k. pf_self ?s k + (if k = c then pe_in e - ?now else 0))" by auto
      then show ?thesis using assms by (simp add: sum.distrib)
    qed
    ultimately show ?thesis using now by simp
  qed
  with snoc.IH [OF now(1)] now show ?case by (simp add: last_out_def)
qed

section \<open>Properties\<close>

text \<open>What the profiler has recorded of a function.\<close>

definition profiled :: "lws_profiler \<Rightarrow> ngx_str \<Rightarrow> lws_activation_record" where
  "profiled p key = (case table_map (p_functions p) key of
     None \<Rightarrow> zero_record | Some par \<Rightarrow> the (p_records p par))"

lemma profiled_ok:
  assumes "core_rel E p s"
  shows "record_ok s k (profiled p k)"
  using core_relD(3) [OF assms, of k]
  by (auto simp: record_rel_def profiled_def record_ok_def idle_def zero_record_def zero_time_def
      timespec_ok_def ns_def count_list_0_iff split: option.splits)

lemma profile_calls: "pf_calls (profile_of es) k \<le> length es"
proof (induction es rule: rev_induct)
  case Nil
  then show ?case by (simp add: profile_of_def empty_profile_def)
next
  case (snoc e es)
  have "pf_calls (profile_of (es @ [e])) k \<le> Suc (pf_calls (profile_of es) k)"
    by (simp add: profile_of_snoc profile_event_def profile_enter_def profile_exit_def Let_def
        split: option.split list.split)
  with snoc show ?case by simp
qed

text \<open>C11: The profiler implements the profile. After the start of the profiler and any calls of its
  hook that raise no error, whatever functions are entered, left or tail called in whatever order,
  recursively or not, the record of every function key holds the number of its calls, its depth
  on the stack, its self and total times to the nanosecond, and its memory, as the profile of the
  events has them. The stack never exceeds its allocation, and the next call of the hook returns.\<close>

theorem lws_profiler_profile:
  assumes "lws_start_profiler E stack_alloc_ok state = Inr p0" "strncasecmp_ok E"
    and "\<forall>n. 0 \<notin> set (fd n)" "profiler_runs fd E p0 es p" "length es < 2 ^ 64"
    and "s = profile_of (map (event_of fd) es)"
  shows "unat (ar_calls (profiled p key)) = pf_calls s key \<and>
    unat (ar_depth (profiled p key)) = count_list (pf_stack s) key \<and>
    ns (ar_time_self (profiled p key)) = pf_self s key \<and>
    ns (ar_time_total (profiled p key)) = pf_total s key \<and>
    ar_memory (profiled p key) = of_nat (pf_alloc s key) \<and>
    length (p_stack p) = length (pf_stack s) \<and> length (p_stack p) \<le> p_stack_alloc p \<and>
    (hook_call_ok E p ans \<longrightarrow> lws_profiler_hook fd ans d p \<noteq> None)"
proof -
  from runs_rel [OF assms(4,3,1,2,5)] assms(6)
  have rel: "core_rel E p s" "timed_rel p s" "stack_ok p" by simp_all
  have len: "length (pf_stack s) \<le> length es"
    using profile_stack_length [of "map (event_of fd) es"] assms(6) by simp
  then have small: "length (pf_stack s) < 2 ^ 64" using assms(5) by simp
  have "pf_calls s key < 2 ^ 64"
    using profile_calls [of "map (event_of fd) es" key] assms(5,6) by simp
  moreover have "count_list (pf_stack s) key < 2 ^ 64"
    using count_le_length [of "pf_stack s" key] small by simp
  moreover have "length (p_stack p) = length (pf_stack s)"
    using arg_cong [OF core_relD(4) [OF rel(1)], of length] by simp
  moreover have "lws_profiler_hook fd ans d p \<noteq> None" if "hook_call_ok E p ans"
    using hook_returns [OF rel(1,2) small that assms(3)] by auto
  ultimately show ?thesis
    using profiled_ok [OF rel(1), of key] rel(3)
    by (simp add: record_ok_def stack_ok_def unat_of_nat take_bit_nat_eq_self)
qed

text \<open>C15: The times of a profile make sense. If the clock does not run backwards and every function that
  was entered has been left, then for every function the self time is between 0 and the total
  time, and the total time is at most the time that has passed; and the self times of any set of
  functions add up to at most the time that has passed, so no time is counted twice.\<close>

theorem lws_profiler_times:
  assumes "lws_start_profiler E stack_alloc_ok state = Inr p0" "strncasecmp_ok E"
    and "\<forall>n. 0 \<notin> set (fd n)" "profiler_runs fd E p0 es p" "length es < 2 ^ 64"
    and "monotone_from begin (map (event_of fd) es)" "p_stack p = []" "finite K"
  shows "0 \<le> ns (ar_time_self (profiled p key)) \<and>
    ns (ar_time_self (profiled p key)) \<le> ns (ar_time_total (profiled p key)) \<and>
    ns (ar_time_total (profiled p key)) \<le> last_out begin (map (event_of fd) es) - begin \<and>
    (\<Sum>k\<in>K. ns (ar_time_self (profiled p k))) \<le> last_out begin (map (event_of fd) es) - begin"
proof -
  let ?s = "profile_of (map (event_of fd) es)"
  from runs_rel [OF assms(4,3,1,2,5)] have rel: "core_rel E p ?s" by simp
  have st: "pf_stack ?s = []" using core_relD(4) [OF rel] assms(7) by simp
  have "ns (ar_time_self (profiled p k)) = pf_self ?s k" "ns (ar_time_total (profiled p k)) = pf_total ?s k" for k
    using profiled_ok [OF rel, of k] by (simp_all add: record_ok_def)
  with profile_times [OF assms(6), of key] st self_sum [OF assms(8,6)] show ?thesis
    by (simp add: key_times_def open_time_def)
qed

section \<open>An example\<close>

text \<open>Where a hook succeeds.\<close>

lemma hook_succeeds:
  assumes rel: "core_rel E p s" "timed_rel p s" and small: "length (pf_stack s) < 2 ^ 64"
    and call: "hook_call_ok E p ans" and fd: "\<forall>n. 0 \<notin> set (fd n)"
    and t: "hk_time1 ans = Some t1" "hk_time2 ans = Some t2" and stack: "hk_stack ans"
    and room: "enters d \<Longrightarrow> table_map (p_functions p) (function_key fd d) \<noteq> None \<or>
      hk_record ans \<noteq> None \<and> lws_table_set_ok (hk_env ans) (p_functions p) (function_key fd d)"
  shows "\<exists>p'. lws_profiler_hook fd ans d p = Some (Inr (), p')"
proof -
  let ?p = "profiler_exit d t1 (hk_memory ans) p" and ?key = "function_key fd d"
  have fns: "p_functions ?p = p_functions p"
    by (simp add: profiler_exit_def set_record_def Let_def)
  have enter: "\<exists>p'. profiler_enter ans d m par p1 = (Inr (), p')" for m par p1
    using t(2) by (simp add: profiler_enter_def Let_def split: option.split)
  show ?thesis
  proof (cases "enters d")
    case True
    have tab: "exact_table (hk_env ans) (p_functions p)"
      using core_relD(1) [OF rel(1)] call by (auto simp: hook_call_ok_def intro: exact_process)
    note key = function_key_no_nul [OF fd, of d]
    note get = exact.get_map [OF tab key]
    have "\<exists>par p2. function_record ans ?key ?p = Some (Inr par, p2)"
    proof (cases "table_map (p_functions p) ?key")
      case None
      with room [OF True] obtain q where q: "hk_record ans = Some q"
        and ok: "lws_table_set_ok (hk_env ans) (p_functions p) ?key" by auto
      from put_exact_rc [OF tab key ok, of q] obtain t' where
        "lws_table_set (hk_env ans) (p_functions p) ?key (Some q) = Some (0, t')" by blast
      with get None q fns show ?thesis by (simp add: function_record_def set_record_def Let_def)
    qed (use get fns in \<open>simp add: function_record_def\<close>)
    then obtain par p2 where "function_record ans ?key ?p = Some (Inr par, p2)" by blast
    moreover obtain p3 where "profiler_push ans par p2 = Inr p3"
      using stack by (simp add: profiler_push_def Let_def)
    moreover obtain p' where "profiler_enter ans d (hk_memory ans) (Some par) p3 = (Inr (), p')"
      using enter by blast
    ultimately show ?thesis using True t(1) by (simp add: lws_profiler_hook_def Let_def)
  next
    case False
    then show ?thesis using t(1) enter by (simp add: lws_profiler_hook_def Let_def)
  qed
qed

text \<open>A function \<open>f\<close> that calls itself once.\<close>

definition demo_f :: "hook_event \<Rightarrow> lua_debug" where
  "demo_f e = \<lparr>d_event = e, d_name = Some (lit ''f''), d_what = lit ''Lua'', d_linedefined = 1,
     d_short_src = lit ''a.lua''\<rparr>"

definition demo_hook :: "int \<Rightarrow> size_t \<Rightarrow> hook_answers" where
  "demo_hook now memory = \<lparr>hk_env = demo_env, hk_time1 = Some \<lparr>tv_sec = 0, tv_nsec = now\<rparr>,
     hk_memory = memory, hk_record = None, hk_stack = True,
     hk_time2 = Some \<lparr>tv_sec = 0, tv_nsec = now + 1\<rparr>\<rparr>"

definition demo_hooks :: "(hook_answers \<times> lua_debug) list" where
  "demo_hooks = [((demo_hook 10 100)\<lparr>hk_record := Some 7\<rparr>, demo_f LUA_HOOKCALL),
     (demo_hook 20 150, demo_f LUA_HOOKCALL), (demo_hook 30 150, demo_f LUA_HOOKRET),
     (demo_hook 40 120, demo_f LUA_HOOKRET)]"

definition demo_fkey :: ngx_str where
  "demo_fkey = function_key demo_i (demo_f LUA_HOOKCALL)"

lemma dec_digits_no_nul: "0 \<notin> set (dec_digits n)"
proof (induction n rule: dec_digits.induct)
  case (1 n)
  have digit: "(48 + of_nat k :: byte) \<noteq> 0" if "k < 10" for k
  proof -
    have "k \<in> {0, 1, 2, 3, 4, 5, 6, 7, 8, 9}" using that by auto
    then show ?thesis by auto
  qed
  from 1 digit [of n] digit [of "n mod 10"] show ?case
    by (auto simp: dec_digits.simps [of n] eq_commute [of 0])
qed

lemma demo_i_no_nul: "\<forall>n. 0 \<notin> set (demo_i n)"
  using dec_digits_no_nul by (simp add: demo_i_def)

lemma demo_fkey_event: "function_key demo_i (demo_f e) = demo_fkey"
  by (simp add: demo_fkey_def function_key_def function_name_def demo_f_def)

lemma demo_f_event: "d_event (demo_f e) = e"
  by (simp add: demo_f_def)

definition demo_event :: "bool \<Rightarrow> bool \<Rightarrow> int \<Rightarrow> size_t \<Rightarrow> profile_event" where
  "demo_event ends enter now memory = \<lparr>pe_ends = ends, pe_key = (if enter then Some demo_fkey else None),
     pe_in = now, pe_out = now + 1, pe_memory = memory\<rparr>"

lemma demo_events: "map (event_of demo_i) demo_hooks =
  [demo_event False True 10 100, demo_event False True 20 150, demo_event True False 30 150,
   demo_event True False 40 120]"
  by (simp add: demo_hooks_def demo_hook_def event_of_def leaves_def enters_def demo_fkey_event
      demo_f_event demo_event_def ns_def)

lemma demo_profile:
  "pf_calls (profile_of (map (event_of demo_i) demo_hooks)) demo_fkey = 2"
  "pf_self (profile_of (map (event_of demo_i) demo_hooks)) demo_fkey = 27"
  "pf_total (profile_of (map (event_of demo_i) demo_hooks)) demo_fkey = 29"
  "pf_alloc (profile_of (map (event_of demo_i) demo_hooks)) demo_fkey = 50"
  "pf_stack (profile_of (map (event_of demo_i) demo_hooks)) = []"
  "monotone_from 0 (map (event_of demo_i) demo_hooks)"
  "last_out 0 (map (event_of demo_i) demo_hooks) = 41"
  unfolding demo_events
  by (simp_all add: profile_of_def profile_event_def profile_exit_def profile_enter_def demo_event_def
      empty_profile_def last_out_def Let_def)

lemma demo_start: "\<exists>p. lws_start_profiler demo_env True 1 = Inr p \<and>
    lws_table_set_ok demo_env (p_functions p) key"
proof -
  from demo_created obtain t :: "nat lws_table" where
    t: "lws_table_create demo_env 32 = Some t" "32 \<le> t_load t" "t_count t = 0" "\<not> t_capped t" by blast
  then have "lws_table_set_ok demo_env (t\<lparr>t_dup := True, t_free := True\<rparr>) key"
    by (simp add: lws_table_set_ok_def lws_table_grow_ok_def lws_table_copy_ok_def
        lws_table_evict_def demo_env_sel)
  with t(1,3) show ?thesis
    by (simp add: lws_start_profiler_def lws_table_set_dup_def lws_table_set_free_def)
qed

lemma demo_hook_ok:
  "0 \<le> now \<Longrightarrow> now < 100 \<Longrightarrow> hook_call_ok demo_env p (demo_hook now memory)"
  "0 \<le> now \<Longrightarrow> now < 100 \<Longrightarrow> p_records p q = None \<Longrightarrow>
    hook_call_ok demo_env p ((demo_hook now memory)\<lparr>hk_record := Some q\<rparr>)"
  by (simp_all add: hook_call_ok_def demo_hook_def clock_ok_def same_process_refl demo_env_ok)

text \<open>The next call of the hook, if it has nothing to allocate.\<close>

lemma demo_next:
  assumes runs: "profiler_runs demo_i demo_env p0 es p" "lws_start_profiler demo_env True 1 = Inr p0"
    and len: "length es < 10" and now: "0 \<le> now" "now < 100"
    and known: "d_event d = LUA_HOOKRET \<or> pf_calls (profile_of (map (event_of demo_i) es)) (function_key demo_i d) \<noteq> 0"
  shows "\<exists>p'. profiler_runs demo_i demo_env p0 (es @ [(demo_hook now memory, d)]) p'"
proof -
  let ?s = "profile_of (map (event_of demo_i) es)"
  have l: "length es < 2 ^ 64" using len by simp
  from runs_rel [OF runs(1) demo_i_no_nul runs(2) demo_env_ok l]
  have rel: "core_rel demo_env p ?s" "timed_rel p ?s" by simp_all
  have small: "length (pf_stack ?s) < 2 ^ 64"
    using profile_stack_length [of "map (event_of demo_i) es"] l by simp
  note ok = demo_hook_ok(1) [OF now, of p memory]
  have "table_map (p_functions p) (function_key demo_i d) \<noteq> None" if "enters d"
    using core_relD(3) [OF rel(1), of "function_key demo_i d"] known that
    by (auto simp: record_rel_def idle_def enters_def split: option.splits)
  from hook_succeeds [OF rel small ok demo_i_no_nul, of _ _ d] this
  have "\<exists>p'. lws_profiler_hook demo_i (demo_hook now memory) d p = Some (Inr (), p')"
    by (simp add: demo_hook_def)
  with profiler_runs.hook [OF runs(1) ok] show ?thesis by blast
qed

lemma demo_profile_run: "\<exists>p0 p. lws_start_profiler demo_env True 1 = Inr p0 \<and>
    profiler_runs demo_i demo_env p0 demo_hooks p"
proof -
  let ?h1 = "(demo_hook 10 100)\<lparr>hk_record := Some 7\<rparr>"
  from demo_start [of demo_fkey] obtain p0 where p0: "lws_start_profiler demo_env True 1 = Inr p0"
    "lws_table_set_ok demo_env (p_functions p0) demo_fkey" by blast
  note rel = start_rel [OF p0(1) demo_env_ok]
  have "p_records p0 7 = None"
    using p0(1) by (auto simp: lws_start_profiler_def Let_def split: option.splits)
  then have ok: "hook_call_ok demo_env p0 ?h1" by (intro demo_hook_ok) simp_all
  have "\<exists>p'. lws_profiler_hook demo_i ?h1 (demo_f LUA_HOOKCALL) p0 = Some (Inr (), p')"
    by (rule hook_succeeds [OF rel(1,2) _ ok demo_i_no_nul])
      (use p0(2) in \<open>simp_all add: demo_hook_def empty_profile_def demo_fkey_event\<close>)
  with profiler_runs.hook [OF profiler_runs.start ok] obtain p1 where
    "profiler_runs demo_i demo_env p0 [(?h1, demo_f LUA_HOOKCALL)] p1" by fastforce
  from demo_next [OF this p0(1), of 20 "demo_f LUA_HOOKCALL" 150] obtain p2 where
    "profiler_runs demo_i demo_env p0 [(?h1, demo_f LUA_HOOKCALL), (demo_hook 20 150, demo_f LUA_HOOKCALL)] p2"
    by (auto simp: profile_of_def profile_event_def profile_enter_def profile_exit_def event_of_def
        empty_profile_def enters_def demo_f_event demo_fkey_event)
  from demo_next [OF this p0(1), of 30 "demo_f LUA_HOOKRET" 150] obtain p3 where
    "profiler_runs demo_i demo_env p0 [(?h1, demo_f LUA_HOOKCALL), (demo_hook 20 150, demo_f LUA_HOOKCALL),
      (demo_hook 30 150, demo_f LUA_HOOKRET)] p3" by (auto simp: demo_f_event)
  from demo_next [OF this p0(1), of 40 "demo_f LUA_HOOKRET" 120] obtain p4 where
    "profiler_runs demo_i demo_env p0 demo_hooks p4" by (auto simp: demo_f_event demo_hooks_def)
  with p0(1) show ?thesis by blast
qed

lemma demo_length: "length demo_hooks < 2 ^ 64"
  by (simp add: demo_hooks_def)

theorem lws_profiler_profile_witness:
  "\<exists>p0 p. lws_start_profiler demo_env True 1 = Inr p0 \<and> profiler_runs demo_i demo_env p0 demo_hooks p \<and>
    unat (ar_calls (profiled p demo_fkey)) = 2 \<and> ns (ar_time_self (profiled p demo_fkey)) = 27 \<and>
    ns (ar_time_total (profiled p demo_fkey)) = 29 \<and> ar_memory (profiled p demo_fkey) = 50"
proof -
  from demo_profile_run obtain p0 p where p: "lws_start_profiler demo_env True 1 = Inr p0"
    "profiler_runs demo_i demo_env p0 demo_hooks p" by blast
  with lws_profiler_profile [OF p(1) demo_env_ok demo_i_no_nul p(2) demo_length refl, of demo_fkey
      "demo_hook 50 0" undefined] demo_profile show ?thesis by force
qed

theorem lws_profiler_times_witness:
  "\<exists>p0 p. lws_start_profiler demo_env True 1 = Inr p0 \<and> profiler_runs demo_i demo_env p0 demo_hooks p \<and>
    ns (ar_time_self (profiled p demo_fkey)) \<le> ns (ar_time_total (profiled p demo_fkey)) \<and>
    ns (ar_time_total (profiled p demo_fkey)) \<le> 41"
proof -
  from demo_profile_run obtain p0 p where p: "lws_start_profiler demo_env True 1 = Inr p0"
    "profiler_runs demo_i demo_env p0 demo_hooks p" by blast
  from runs_rel [OF p(2) demo_i_no_nul p(1) demo_env_ok demo_length]
  have "core_rel demo_env p (profile_of (map (event_of demo_i) demo_hooks))" by simp
  from core_relD(4) [OF this] have "p_stack p = []" by (simp add: demo_profile(5))
  from lws_profiler_times [OF p(1) demo_env_ok demo_i_no_nul p(2) demo_length demo_profile(6) this
      finite.emptyI, of demo_fkey] p show ?thesis by (auto simp: demo_profile(7))
qed

end
