(* ===== verification/LwsProfileStop.thy ===== *)
theory LwsProfileStop
  imports LwsProfile
begin

text \<open>
  The end of a profile: \<open>lws_stop_profiler\<close> (src/lws_profiler.c) adds what was measured to the functions
  of the monitor.
\<close>

section \<open>Functions that the monitor has\<close>

definition function_synced :: "(ngx_str \<rightharpoonup> nat) \<Rightarrow> (nat \<rightharpoonup> lws_activation_record) \<Rightarrow> lws_function \<Rightarrow> lws_function" where
  "function_synced T h f = (case T (fn_key f) of None \<Rightarrow> f | Some par \<Rightarrow> function_add (the (h par)) f)"

lemma fn_key_add [simp]: "fn_key (function_add a f) = fn_key f"
  by (simp add: function_add_def)

lemma fn_key_synced [simp]: "fn_key (function_synced T h f) = fn_key f"
  by (simp add: function_synced_def split: option.split)

lemma sync_spec:
  assumes "exact_table E t" "distinct (map fn_key fs)" "\<forall>f\<in>set fs. 0 \<notin> set (fn_key f)"
  shows "\<exists>t'. sync_functions E h fs t = Some (map (function_synced (table_map t) h) fs, t') \<and>
    exact_table E t' \<and> table_map t' = table_map t |` (- fn_key ` set fs)"
  using assms
proof (induction fs arbitrary: t)
  case Nil
  then show ?case by simp
next
  case (Cons f fs)
  then have key: "0 \<notin> set (fn_key f)" by simp
  note get = exact.get_map [OF Cons.prems(1) key]
  have fs: "distinct (map fn_key fs)" "\<forall>f\<in>set fs. 0 \<notin> set (fn_key f)" "fn_key f \<notin> fn_key ` set fs"
    using Cons.prems by auto
  show ?case
  proof (cases "table_map t (fn_key f)")
    case None
    from Cons.IH [OF Cons.prems(1) fs(1,2)] obtain t' where
      t': "sync_functions E h fs t = Some (map (function_synced (table_map t) h) fs, t')"
      "exact_table E t'" "table_map t' = table_map t |` (- fn_key ` set fs)" by blast
    moreover have "table_map t |` (- fn_key ` set fs) = table_map t |` (- fn_key ` set (f # fs))"
      using None by (auto simp: restrict_map_def fun_eq_iff)
    ultimately show ?thesis using get None by (simp add: function_synced_def)
  next
    case (Some par)
    from exact.del_map [OF Cons.prems(1) key] obtain t1 where
      t1: "lws_table_set E t (fn_key f) None = Some (0, t1)" "exact_table E t1"
      "table_map t1 = (table_map t)(fn_key f := None)" by blast
    from Cons.IH [OF t1(2) fs(1,2)] obtain t' where
      t': "sync_functions E h fs t1 = Some (map (function_synced (table_map t1) h) fs, t')"
      "exact_table E t'" "table_map t' = table_map t1 |` (- fn_key ` set fs)" by blast
    have "map (function_synced (table_map t1) h) fs = map (function_synced (table_map t) h) fs"
    proof (rule map_cong [OF refl])
      fix g assume "g \<in> set fs"
      with fs(3) have "fn_key g \<noteq> fn_key f" by (metis imageI)
      then show "function_synced (table_map t1) h g = function_synced (table_map t) h g"
        by (simp add: function_synced_def t1(3))
    qed
    moreover have "table_map t1 |` (- fn_key ` set fs) = table_map t |` (- fn_key ` set (f # fs))"
      by (auto simp: restrict_map_def fun_eq_iff t1(3))
    ultimately show ?thesis using get Some t1(1) t' by (simp add: function_synced_def)
  qed
qed

section \<open>New functions\<close>

definition new_function :: "(nat \<rightharpoonup> lws_activation_record) \<Rightarrow> ngx_str \<times> nat \<Rightarrow> lws_function" where
  "new_function h x = (let a = the (h (snd x)) in
     \<lparr>fn_key = fst x, fn_calls = ar_calls a, fn_time_self = ar_time_self a,
       fn_time_total = ar_time_total a, fn_memory = ar_memory a\<rparr>)"

text \<open>The slab allocator refuses what the next function takes: a larger array, if the array is full, or a
  copy of the key.\<close>

definition refused :: "(nat \<Rightarrow> bool) \<Rightarrow> (nat \<Rightarrow> bool) \<Rightarrow> nat \<Rightarrow> nat \<Rightarrow> bool" where
  "refused grow copy alloc n \<longleftrightarrow> n = alloc \<and> \<not> grow n \<or> \<not> copy n"

text \<open>The monitor after \<open>n\<close> of the new functions \<open>xs\<close> were added: all of them, or those before one that the
  allocator refused.\<close>

definition functions_added ::
  "(nat \<Rightarrow> bool) \<Rightarrow> (nat \<Rightarrow> bool) \<Rightarrow> (nat \<rightharpoonup> lws_activation_record) \<Rightarrow> (ngx_str \<times> nat) list \<Rightarrow> lws_monitor_shm \<Rightarrow>
   lws_monitor_shm \<Rightarrow> bool" where
  "functions_added grow copy h xs m m' \<longleftrightarrow> (\<exists>n alloc oom. n \<le> length xs \<and>
     length (m_functions m) + n \<le> alloc \<and> 0 < alloc \<and>
     (oom = m_out_of_memory m \<and> n = length xs \<or>
      oom = 1 \<and> n < length xs \<and> refused grow copy alloc (length (m_functions m) + n)) \<and>
     m' = m\<lparr>m_functions_alloc := alloc, m_slab := m_slab m + n,
       m_functions := m_functions m @ map (new_function h) (take n xs), m_out_of_memory := oom\<rparr>)"

lemma functions_added_none:
  "length (m_functions m) \<le> alloc \<Longrightarrow> 0 < alloc \<Longrightarrow> refused grow copy alloc (length (m_functions m)) \<Longrightarrow> xs \<noteq> [] \<Longrightarrow>
    functions_added grow copy h xs m (m\<lparr>m_functions_alloc := alloc, m_out_of_memory := 1\<rparr>)"
  unfolding functions_added_def by (intro exI [of _ 0] exI [of _ alloc] exI [of _ 1]) simp

lemma add_functions:
  assumes "length (m_functions m) \<le> m_functions_alloc m" "0 < m_functions_alloc m"
  shows "\<exists>m'. each_item (add_function grow copy h) xs m \<in> {Inl m', Inr m'} \<and>
    functions_added grow copy h (map (\<lambda>x. (fst x, fst (snd x))) xs) m m'"
  using assms
proof (induction xs arbitrary: m)
  case Nil
  have "functions_added grow copy h [] m m"
    unfolding functions_added_def
    by (intro exI [of _ 0] exI [of _ "m_functions_alloc m"] exI [of _ "m_out_of_memory m"]) (use Nil in simp)
  then show ?case by (intro exI [of _ m]) simp
next
  case (Cons x xs)
  let ?n = "length (m_functions m)" and ?xs = "map (\<lambda>x. (fst x, fst (snd x))) xs"
  let ?f = "new_function h (fst x, fst (snd x))"
  define alloc where "alloc = (if ?n = m_functions_alloc m then m_functions_alloc m * 2 else m_functions_alloc m)"
  have alloc: "?n < alloc" "0 < alloc" using Cons.prems by (auto simp: alloc_def)
  let ?m = "m\<lparr>m_functions_alloc := alloc, m_slab := m_slab m + 1, m_functions := m_functions m @ [?f]\<rparr>"
  have add: "add_function grow copy h (fst x) (Some (fst (snd x))) m =
    (if ?n = m_functions_alloc m \<and> \<not> grow ?n then Inl (m\<lparr>m_functions_alloc := m_functions_alloc m, m_out_of_memory := 1\<rparr>)
     else if \<not> copy ?n then Inl (m\<lparr>m_functions_alloc := alloc, m_out_of_memory := 1\<rparr>)
     else Inr ?m)"
    by (cases "?n = m_functions_alloc m") (simp_all add: add_function_def new_function_def alloc_def Let_def)
  consider (fail) alloc' where "?n \<le> alloc'" "0 < alloc'" "refused grow copy alloc' ?n"
      "each_item (add_function grow copy h) (x # xs) m =
        Inl (m\<lparr>m_functions_alloc := alloc', m_out_of_memory := 1\<rparr>)"
    | (step) "each_item (add_function grow copy h) (x # xs) m = each_item (add_function grow copy h) xs ?m"
  proof (cases "?n = m_functions_alloc m \<and> \<not> grow ?n")
    case True
    then have r: "refused grow copy (m_functions_alloc m) ?n" unfolding refused_def by blast
    show thesis
      by (rule that(1) [OF Cons.prems r]) (simp only: each_item.simps add if_P [OF True] sum.case)
  next
    case grown: False
    show thesis
    proof (cases "copy ?n")
      case False
      then have r: "\<not> copy ?n" "refused grow copy alloc ?n" by (simp_all add: refused_def)
      show thesis
        by (rule that(1) [OF less_imp_le [OF alloc(1)] alloc(2) r(2)]) (simp only: each_item.simps add if_not_P [OF grown] if_P [OF \<open>\<not> copy ?n\<close>] sum.case)
    next
      case True
      with grown show thesis by (intro that(2)) (simp only: each_item.simps add if_False sum.case not_True_eq_False simp_thms)
    qed
  qed
  then show ?case
  proof cases
    case fail
    with functions_added_none [OF fail(1-3)] show ?thesis by auto
  next
    case step
    have "length (m_functions ?m) \<le> m_functions_alloc ?m" "0 < m_functions_alloc ?m" using alloc by simp_all
    from Cons.IH [OF this] obtain m' where
      m': "each_item (add_function grow copy h) xs ?m \<in> {Inl m', Inr m'}" "functions_added grow copy h ?xs ?m m'" by blast
    from m'(2) obtain n alloc' oom where "n \<le> length xs" "Suc (?n + n) \<le> alloc'" "0 < alloc'"
      "oom = m_out_of_memory m \<and> n = length xs \<or> oom = 1 \<and> n < length xs \<and> refused grow copy alloc' (Suc (?n + n))"
      "m' = m\<lparr>m_functions_alloc := alloc', m_slab := m_slab m + Suc n,
        m_functions := m_functions m @ ?f # map (new_function h) (take n ?xs), m_out_of_memory := oom\<rparr>"
      by (auto simp: functions_added_def)
    then have "functions_added grow copy h ((fst x, fst (snd x)) # ?xs) m m'"
      unfolding functions_added_def by (intro exI [of _ "Suc n"] exI [of _ alloc'] exI [of _ oom]) simp
    with m'(1) step show ?thesis by auto
  qed
qed

section \<open>Stop\<close>

text \<open>What was measured of a function, in the monitor and in a profile.\<close>

type_synonym measure4 = "64 word \<times> int \<times> int \<times> size_t"

definition function_measure :: "lws_function \<Rightarrow> measure4" where
  "function_measure f = (fn_calls f, ns (fn_time_self f), ns (fn_time_total f), fn_memory f)"

definition record_measure :: "lws_activation_record \<Rightarrow> measure4" where
  "record_measure a = (ar_calls a, ns (ar_time_self a), ns (ar_time_total a), ar_memory a)"

definition measure_add :: "measure4 \<Rightarrow> measure4 \<Rightarrow> measure4" where
  "measure_add x y = (case (x, y) of
     ((c, s, t, m), (c', s', t', m')) \<Rightarrow> (c + c', s + s', t + t', m + m'))"

definition monitored :: "lws_monitor_shm \<Rightarrow> ngx_str \<Rightarrow> measure4" where
  "monitored m key = (case find (\<lambda>f. fn_key f = key) (m_functions m) of
     None \<Rightarrow> (0, 0, 0, 0) | Some f \<Rightarrow> function_measure f)"

lemma measure_add_0 [simp]: "measure_add x (0, 0, 0, 0) = x" "measure_add (0, 0, 0, 0) x = x"
  by (simp_all add: measure_add_def split_beta)

lemma zero_measure: "record_measure zero_record = (0, 0, 0, 0)"
  by (simp add: record_measure_def zero_record_def zero_time_def ns_def)

lemma find_map_key:
  assumes "\<And>f. fn_key (g f) = fn_key f"
  shows "find (\<lambda>f. fn_key f = key) (map g fs) = map_option g (find (\<lambda>f. fn_key f = key) fs)"
  using assms by (induction fs) simp_all

lemma find_new:
  "find (\<lambda>f. fn_key f = key) (map (new_function h) xs) =
    map_option (\<lambda>par. new_function h (key, par)) (map_of xs key)"
  by (induction xs) (auto simp: new_function_def Let_def)

lemma map_of_take:
  assumes "distinct (map fst xs)"
  shows "map_of (take n xs) k = None \<or> map_of (take n xs) k = map_of xs k"
proof (cases "map_of (take n xs) k")
  case (Some v)
  then have "(k, v) \<in> set xs" by (meson in_set_takeD map_of_SomeD)
  with assms Some show ?thesis by (simp add: map_of_is_SomeI)
qed simp

lemma monitored_append:
  "find (\<lambda>f. fn_key f = key) (m_functions m @ fs) =
    (case find (\<lambda>f. fn_key f = key) (m_functions m) of None \<Rightarrow> find (\<lambda>f. fn_key f = key) fs | Some f \<Rightarrow> Some f)"
  by (rule find_append)

lemma find_fn_None: "find (\<lambda>f. fn_key f = key) fs = None \<longleftrightarrow> key \<notin> fn_key ` set fs"
  by (auto simp: find_None_iff)

lemma function_add_ok:
  assumes "function_ok f" "record_ok s k a"
  shows "function_ok (function_add a f)"
    "function_measure (function_add a f) = measure_add (function_measure f) (record_measure a)"
proof -
  from assms have t: "timespec_ok (fn_time_self f)" "timespec_ok (fn_time_total f)"
    "timespec_ok (ar_time_self a)" "timespec_ok (ar_time_total a)" "0 \<notin> set (fn_key f)"
    by (simp_all add: function_ok_def record_ok_def)
  from add_timespec [OF t(1,3)] add_timespec [OF t(2,4)] t show "function_ok (function_add a f)"
    "function_measure (function_add a f) = measure_add (function_measure f) (record_measure a)"
    by (simp_all add: function_ok_def function_add_def function_measure_def record_measure_def measure_add_def)
qed

text \<open>The loops of \<open>lws_stop_profiler\<close> on a profiler that implements a profile.\<close>

lemma stop_spec:
  assumes rel: "core_rel E p s" and same: "same_process E' E" and m: "monitor_ok m"
  shows "\<exists>p' m' fs xs. lws_stop_profiler E' grow copy (Some p) m = Some (Inr (p', m')) \<and>
    fs = map (function_synced (table_map (p_functions p)) (p_records p)) (m_functions m) \<and>
    distinct (map fst xs) \<and> (\<forall>x\<in>set xs. 0 \<notin> set (fst x)) \<and>
    map_of xs = table_map (p_functions p) |` (- fn_key ` set (m_functions m)) \<and>
    (if m_out_of_memory m = 0 then functions_added grow copy (p_records p) xs (m\<lparr>m_functions := fs\<rparr>) m'
     else m' = m\<lparr>m_functions := fs\<rparr>)"
proof -
  have t: "exact_table E' (p_functions p)" by (rule exact_process [OF core_relD(1) [OF rel] same])
  have keys: "distinct (map fn_key (m_functions m))" "\<forall>f\<in>set (m_functions m). 0 \<notin> set (fn_key f)"
    using m by (auto simp: monitor_ok_def function_ok_def)
  from sync_spec [OF t keys, of "p_records p"] obtain t' where
    sync: "sync_functions E' (p_records p) (m_functions m) (p_functions p) =
        Some (map (function_synced (table_map (p_functions p)) (p_records p)) (m_functions m), t')"
      "exact_table E' t'" "table_map t' = table_map (p_functions p) |` (- fn_key ` set (m_functions m))"
    by blast
  let ?fs = "map (function_synced (table_map (p_functions p)) (p_records p)) (m_functions m)"
  let ?xs = "map_items (lws_table_abs t')" and ?m = "m\<lparr>m_functions := ?fs\<rparr>"
  note t' = exact_tableD [OF sync(2)]
  have xs: "distinct (map fst ?xs)" "\<forall>x\<in>set ?xs. 0 \<notin> set (fst x)"
    using exact_distinct [OF sync(2)] t'(6)
    by (auto simp: map_items_def clean_items_def simp del: lws_table_abs_sel)
  have each: "lws_table_each E' t' (add_function grow copy (p_records p)) None ?m =
    Some (each_item (add_function grow copy (p_records p)) (lru_items (lws_table_abs t')) ?m)"
    by (rule each_all [OF t'(1,2)])
  have "length (m_functions ?m) \<le> m_functions_alloc ?m" "0 < m_functions_alloc ?m"
    using m by (simp_all add: monitor_ok_def)
  from add_functions [OF this, of grow copy "p_records p" "lru_items (lws_table_abs t')"] obtain m' where
    m': "each_item (add_function grow copy (p_records p)) (lru_items (lws_table_abs t')) ?m \<in> {Inl m', Inr m'}"
      "functions_added grow copy (p_records p) ?xs ?m m'" by (auto simp: map_items_def)
  show ?thesis
  proof (cases "m_out_of_memory m = 0")
    case True
    with sync(1) each m'(1)
    have "lws_stop_profiler E' grow copy (Some p) m = Some (Inr (p\<lparr>p_functions := t'\<rparr>, m'))"
      by (auto simp: lws_stop_profiler_def Let_def)
    with xs sync(3) m'(2) True show ?thesis
      by (intro exI [of _ "p\<lparr>p_functions := t'\<rparr>"] exI [of _ m'] exI [of _ ?fs] exI [of _ ?xs])
        (simp add: table_map_def del: lws_table_abs_sel)
  next
    case False
    with sync(1)
    have "lws_stop_profiler E' grow copy (Some p) m = Some (Inr (p\<lparr>p_functions := t'\<rparr>, ?m))"
      by (simp add: lws_stop_profiler_def Let_def)
    with False xs sync(3) show ?thesis
      by (intro exI [of _ "p\<lparr>p_functions := t'\<rparr>"] exI [of _ ?m] exI [of _ ?fs] exI [of _ ?xs])
        (simp add: table_map_def del: lws_table_abs_sel)
  qed
qed

text \<open>The measures that the profile of a sequence of events gives for a function.\<close>

definition profile_measure :: "profile \<Rightarrow> ngx_str \<Rightarrow> measure4" where
  "profile_measure s key = (of_nat (pf_calls s key), pf_self s key, pf_total s key, of_nat (pf_alloc s key))"

lemma profiled_measure:
  assumes "core_rel E p s"
  shows "record_measure (profiled p key) = profile_measure s key"
  using profiled_ok [OF assms, of key] by (simp add: record_ok_def record_measure_def profile_measure_def)

lemma stop_adds:
  assumes "core_rel E p s" "monitor_ok m" "same_process E' E"
  shows "\<exists>p' m'. lws_stop_profiler E' grow copy (Some p) m = Some (Inr (p', m')) \<and> monitor_ok m' \<and>
    (\<exists>new. map fn_key (m_functions m') = map fn_key (m_functions m) @ new \<and> (m_out_of_memory m \<noteq> 0 \<longrightarrow> new = [])) \<and>
    m_profiler m' = m_profiler m \<and>
    (\<forall>key. key \<in> fn_key ` set (m_functions m') \<or> m_out_of_memory m' = 0 \<longrightarrow>
       monitored m' key = measure_add (monitored m key) (record_measure (profiled p key))) \<and>
    (m_out_of_memory m' = m_out_of_memory m \<or>
     m_out_of_memory m' = 1 \<and> refused grow copy (m_functions_alloc m') (length (m_functions m')))"
proof -
  let ?T = "table_map (p_functions p)"
  note rel = assms(1)
  let ?g = "function_synced ?T (p_records p)"
  from stop_spec [OF rel assms(3,2), of grow copy] obtain p' m' xs where
    run: "lws_stop_profiler E' grow copy (Some p) m = Some (Inr (p', m'))"
    and xs: "distinct (map fst xs)" "\<forall>x\<in>set xs. 0 \<notin> set (fst x)"
      "map_of xs = ?T |` (- fn_key ` set (m_functions m))"
    and m': "if m_out_of_memory m = 0
      then functions_added grow copy (p_records p) xs (m\<lparr>m_functions := map ?g (m_functions m)\<rparr>) m'
      else m' = m\<lparr>m_functions := map ?g (m_functions m)\<rparr>" by blast
  obtain n alloc oom where n: "n \<le> length xs" "length (m_functions m) + n \<le> alloc" "0 < alloc"
    and oom: "m_out_of_memory m \<noteq> 0 \<and> oom = m_out_of_memory m \<and> n = 0 \<or>
      m_out_of_memory m = 0 \<and> (oom = 0 \<and> n = length xs \<or> oom = 1 \<and> refused grow copy alloc (length (m_functions m) + n))"
    and m'_eq: "m' = m\<lparr>m_functions_alloc := alloc, m_slab := m_slab m + n, m_functions :=
      map ?g (m_functions m) @ map (new_function (p_records p)) (take n xs), m_out_of_memory := oom\<rparr>"
  proof (cases "m_out_of_memory m = 0")
    case True
    with m' that show thesis by (auto simp: functions_added_def)
  next
    case False
    with m' assms(2) show thesis
      by (intro that [of 0 "m_functions_alloc m" "m_out_of_memory m"]) (simp_all add: monitor_ok_def)
  qed
  have prof: "profiled p key = (case ?T key of None \<Rightarrow> zero_record | Some par \<Rightarrow> the (p_records p par))" for key
    by (simp add: profiled_def)
  have rec: "record_ok s key (the (p_records p par))" if "?T key = Some par" for key par
    using profiled_ok [OF rel, of key] that by (simp add: prof)
  have g: "function_ok (?g f) \<and> function_measure (?g f) =
      measure_add (function_measure f) (record_measure (profiled p (fn_key f)))" if "function_ok f" for f
  proof (cases "?T (fn_key f)")
    case (Some par)
    with function_add_ok [OF that rec [OF Some]] show ?thesis by (simp add: function_synced_def prof)
  qed (use that in \<open>simp add: function_synced_def prof zero_measure\<close>)
  have new: "?T k = Some par \<and> k \<notin> fn_key ` set (m_functions m)" if "(k, par) \<in> set xs" for k par
    using map_of_is_SomeI [OF xs(1) that] xs(3) by (auto simp: restrict_map_def split: if_splits)
  have new_ok: "function_ok (new_function (p_records p) x)" if "x \<in> set (take n xs)" for x
  proof -
    have x: "x \<in> set xs" using that by (rule in_set_takeD)
    with new [of "fst x" "snd x"] have "?T (fst x) = Some (snd x)" by simp
    from rec [OF this] xs(2) x show ?thesis
      by (simp add: function_ok_def new_function_def record_ok_def Let_def)
  qed
  have keys: "map fn_key (m_functions m') = map fn_key (m_functions m) @ map fst (take n xs)"
    by (simp add: m'_eq comp_def new_function_def Let_def)
  have "distinct (map fst (take n xs))" "fst ` set (take n xs) \<inter> fn_key ` set (m_functions m) = {}"
    using xs(1) new by (auto simp: take_map [symmetric] dest!: in_set_takeD) (metis imageI)
  with assms(2) keys have "distinct (map fn_key (m_functions m'))"
    by (auto simp: monitor_ok_def)
  moreover have "\<forall>f\<in>set (m_functions m'). function_ok f"
    using new_ok g assms(2) by (auto simp: m'_eq monitor_ok_def)
  ultimately have ok': "monitor_ok m'"
    using assms(2) n oom by (auto simp: monitor_ok_def m'_eq)
  have "monitored m' key = measure_add (monitored m key) (record_measure (profiled p key))"
    if present: "key \<in> fn_key ` set (m_functions m') \<or> m_out_of_memory m' = 0" for key
  proof -
    have find': "find (\<lambda>f. fn_key f = key) (m_functions m') =
      (case map_option ?g (find (\<lambda>f. fn_key f = key) (m_functions m)) of
         None \<Rightarrow> map_option (\<lambda>par. new_function (p_records p) (key, par)) (map_of (take n xs) key)
       | Some f \<Rightarrow> Some f)"
      by (cases "find (\<lambda>f. fn_key f = key) (m_functions m)")
        (simp_all add: m'_eq find_append find_map_key find_new)
    show ?thesis
    proof (cases "find (\<lambda>f. fn_key f = key) (m_functions m)")
      case (Some f)
      then have f: "f \<in> set (m_functions m)" "fn_key f = key" by (auto simp: find_Some_iff)
      with g [of f] assms(2) Some find' show ?thesis by (simp add: monitored_def monitor_ok_def)
    next
      case None
      then have key: "key \<notin> fn_key ` set (m_functions m)" by (simp add: find_fn_None)
      then have T: "map_of xs key = ?T key" using xs(3) by (simp add: restrict_map_def)
      show ?thesis
      proof (cases "map_of (take n xs) key")
        case (Some par)
        with map_of_take [OF xs(1), of n key] T have "?T key = Some par" by simp
        with Some None find' show ?thesis
          by (simp add: monitored_def function_measure_def record_measure_def new_function_def prof Let_def)
      next
        case missing: None
        then have "monitored m' key = (0, 0, 0, 0)" "key \<notin> fn_key ` set (m_functions m')"
          using None find' find_fn_None [of key "m_functions m'"] by (simp_all add: monitored_def)
        moreover from this(2) present have "m_out_of_memory m' = 0" by simp
        with missing T oom have "?T key = None" by (auto simp: m'_eq)
        ultimately show ?thesis using None key by (auto simp: monitored_def prof zero_measure)
      qed
    qed
  qed
  moreover have "m_out_of_memory m' = m_out_of_memory m \<or>
     m_out_of_memory m' = 1 \<and> refused grow copy (m_functions_alloc m') (length (m_functions m'))"
    using n(1) oom by (auto simp: m'_eq min_absorb1)
  moreover have "m_out_of_memory m \<noteq> 0 \<longrightarrow> map fst (take n xs) = []" using oom by auto
  moreover have "m_profiler m' = m_profiler m" by (simp add: m'_eq)
  ultimately show ?thesis using run ok' keys by blast
qed

text \<open>C13: A profile reaches the monitor. The profiler was started and has seen the events \<open>es\<close>, none of which
  made its hook raise an error; stopping it adds the profile of the events to the monitor. Every function
  of the monitor then has its calls, times and memory from before plus those of the profile. All functions
  of the profile are there, and the flag is not set, unless the zone of the monitor was out of memory
  before, when no function is added, or its allocator refuses the array or the key for the next function,
  when the flag is set. The functions that the monitor had keep their places, no key occurs twice, and the
  monitor stays within its bounds, with one block of its zone for each key.\<close>

theorem lws_stop_profiler_correct:
  assumes "lws_start_profiler E stack_alloc_ok state = Inr p0" "strncasecmp_ok E"
    and "\<forall>n. 0 \<notin> set (fd n)" "profiler_runs fd E p0 es p" "length es < 2 ^ 64"
    and "monitor_ok m" "same_process E' E"
  shows "\<exists>p' m'. lws_stop_profiler E' grow copy (Some p) m = Some (Inr (p', m')) \<and> monitor_ok m' \<and>
    (\<exists>new. map fn_key (m_functions m') = map fn_key (m_functions m) @ new \<and> (m_out_of_memory m \<noteq> 0 \<longrightarrow> new = [])) \<and>
    m_profiler m' = m_profiler m \<and>
    (\<forall>key. key \<in> fn_key ` set (m_functions m') \<or> m_out_of_memory m' = 0 \<longrightarrow>
       monitored m' key = measure_add (monitored m key) (profile_measure (profile_of (map (event_of fd) es)) key)) \<and>
    (m_out_of_memory m' = m_out_of_memory m \<or>
     m_out_of_memory m' = 1 \<and> refused grow copy (m_functions_alloc m') (length (m_functions m')))"
proof -
  from runs_rel [OF assms(4,3,1,2,5)] have "core_rel E p (profile_of (map (event_of fd) es))" by simp
  from stop_adds [OF this assms(6,7), of grow copy] profiled_measure [OF this] show ?thesis by simp
qed

text \<open>The function of the example is in the monitor already.\<close>

definition demo_profiled_monitor :: lws_monitor_shm where
  "demo_profiled_monitor = demo_monitor\<lparr>m_functions := [(demo_fn ''a'' 3)\<lparr>fn_key := demo_fkey\<rparr>], m_slab := 3, m_out_of_memory := 0\<rparr>"

lemma demo_profiled_monitor_ok: "monitor_ok demo_profiled_monitor"
  using function_key_no_nul [OF demo_i_no_nul] demo_monitor_ok
  by (auto simp: monitor_ok_def demo_profiled_monitor_def demo_monitor_def function_ok_def demo_fn_def demo_fkey_def)

theorem lws_stop_profiler_correct_witness:
  "\<exists>p0 p p' m'. lws_start_profiler demo_env True 1 = Inr p0 \<and> profiler_runs demo_i demo_env p0 demo_hooks p \<and>
     lws_stop_profiler demo_env (\<lambda>_. True) (\<lambda>_. True) (Some p) demo_profiled_monitor = Some (Inr (p', m')) \<and>
     m_out_of_memory m' = 0 \<and>
     monitored m' demo_fkey = measure_add (monitored demo_profiled_monitor demo_fkey) (2, 27, 29, 50)"
proof -
  from demo_profile_run obtain p0 p where p: "lws_start_profiler demo_env True 1 = Inr p0"
    "profiler_runs demo_i demo_env p0 demo_hooks p" by blast
  from lws_stop_profiler_correct [OF p(1) demo_env_ok demo_i_no_nul p(2) demo_length demo_profiled_monitor_ok
      same_process_refl [OF demo_env_ok], of "\<lambda>_. True" "\<lambda>_. True", unfolded refused_def simp_thms]
  obtain p' m' where stop: "lws_stop_profiler demo_env (\<lambda>_. True) (\<lambda>_. True) (Some p) demo_profiled_monitor = Some (Inr (p', m'))"
    "m_out_of_memory m' = 0 \<longrightarrow> monitored m' demo_fkey =
       measure_add (monitored demo_profiled_monitor demo_fkey) (profile_measure (profile_of (map (event_of demo_i) demo_hooks)) demo_fkey)"
    "m_out_of_memory m' = m_out_of_memory demo_profiled_monitor"
    by blast
  moreover have "m_out_of_memory demo_profiled_monitor = 0" by (simp add: demo_profiled_monitor_def demo_monitor_def)
  moreover have "profile_measure (profile_of (map (event_of demo_i) demo_hooks)) demo_fkey = (2, 27, 29, 50)"
    by (simp add: profile_measure_def demo_profile(1-4))
  ultimately show ?thesis using p by (metis (no_types))
qed

end
