(* ===== verification/LwsGen.thy ===== *)
theory LwsGen
  imports LwsSizes
begin

text \<open>
  The generator of the table sizes, src/gen/table.c: a program without input that prints the two
  arrays \<open>lws_table_sizes\<close> of lws_table.c, for 64-bit and for 32-bit platforms. \<open>size_t\<close> is a 64-bit
  word. Each loop is a \<open>partial_function (option)\<close>, so \<open>None\<close> stands for a run without end.
\<close>

section \<open>Primes\<close>

partial_function (option) isqrt_loop ::
  "64 word \<Rightarrow> 64 word \<Rightarrow> 64 word \<Rightarrow> 64 word \<Rightarrow> 64 word option" where
  "isqrt_loop n l a d = (if a \<le> n then isqrt_loop n (l + 1) (a + d) (d + 2) else Some l)"

definition isqrt :: "64 word \<Rightarrow> 64 word option" where
  "isqrt n = isqrt_loop n 0 1 3"

partial_function (option) is_prime_loop :: "64 word \<Rightarrow> 64 word \<Rightarrow> 64 word \<Rightarrow> bool option" where
  "is_prime_loop n sqrt i =
     (if i \<le> sqrt then
        if n mod i = 0 \<or> n mod (i + 2) = 0 then Some False else is_prime_loop n sqrt (i + 6)
      else Some True)"

definition is_prime :: "64 word \<Rightarrow> bool option" where
  "is_prime n =
     (if n \<le> 3 then Some (n > 1)
      else if n mod 2 = 0 \<or> n mod 3 = 0 then Some False
      else do { sqrt \<leftarrow> isqrt n; is_prime_loop n sqrt 5 })"

partial_function (option) next_prime :: "64 word \<Rightarrow> 64 word option" where
  "next_prime p = do { found \<leftarrow> is_prime p; if found then Some p else next_prime (p + 1) }"

section \<open>Printing\<close>

text \<open>The decimal digits that \<open>printf\<close> prints for \<open>%zu\<close> and \<open>%d\<close>.\<close>

fun digits :: "nat \<Rightarrow> string" where
  "digits n = (if n < 10 then [''0123456789'' ! n] else digits (n div 10) @ [''0123456789'' ! (n mod 10)])"

declare digits.simps [simp del]

definition newline :: string where "newline = [CHR 0x0A]"
definition tab :: string where "tab = [CHR 0x09]"

text \<open>The variables of the loop in \<open>primes\<close>; \<open>g_out\<close> is the text printed so far.\<close>

record gen =
  g_n :: nat
  g_line_len :: nat
  g_prime_prev :: "64 word"
  g_out :: string

definition print_prime :: "64 word \<Rightarrow> gen \<Rightarrow> gen" where
  "print_prime prime g =
     (let buf = digits (unat prime); prime_len = length buf;
          g = (if g_line_len g = 0
               then g\<lparr>g_out := g_out g @ tab @ buf, g_line_len := 8 + prime_len\<rparr>
               else if g_line_len g + 2 + prime_len < 98
               then g\<lparr>g_out := g_out g @ '', '' @ buf, g_line_len := g_line_len g + (2 + prime_len)\<rparr>
               else g\<lparr>g_out := g_out g @ '','' @ newline @ tab @ buf, g_line_len := 8 + prime_len\<rparr>)
      in g\<lparr>g_n := g_n g + 1, g_prime_prev := prime\<rparr>)"

partial_function (option) primes_loop :: "64 word \<Rightarrow> 64 word \<Rightarrow> gen \<Rightarrow> gen option" where
  "primes_loop limit size' g =
     (if size' < limit then
        do {
          prime \<leftarrow> next_prime size';
          primes_loop limit (size' + size' div 3)
            (if prime = g_prime_prev g then g else print_prime prime g)
        }
      else Some g)"

definition primes :: "64 word \<Rightarrow> string option" where
  "primes limit =
     do {
       g \<leftarrow> primes_loop limit 3
         \<lparr>g_n = 0, g_line_len = 0, g_prime_prev = 0,
          g_out = ''static size_t lws_table_sizes[] = {'' @ newline\<rparr>;
       Some (g_out g @ newline @ ''};'' @ newline @
         ''static int lws_table_sizes_n = '' @ digits (g_n g) @ '';'' @ newline)
     }"

definition gen_main :: "string option" where
  "gen_main =
     do {
       out64 \<leftarrow> primes (push_bit 48 1);
       out32 \<leftarrow> primes (push_bit 32 1);
       Some (''#if SIZE_MAX > UINT32_MAX'' @ newline @ out64 @
         ''#else'' @ newline @ out32 @ ''#endif'' @ newline)
     }"

section \<open>The test for primes\<close>

lemma unat_of_nat_64: "m < 2 ^ 64 \<Longrightarrow> unat (of_nat m :: 64 word) = m"
  by (simp add: unat_of_nat)

lemma isqrt_loop_result:
  assumes "r * r \<le> unat n" "unat n < (r + 1) * (r + 1)" "r + 1 < 2 ^ 32" "l \<le> r"
  shows "isqrt_loop n (of_nat l) (of_nat ((l + 1) * (l + 1))) (of_nat (2 * l + 3)) = Some (of_nat r)"
  using \<open>l \<le> r\<close>
proof (induction "r - l" arbitrary: l)
  have sq: "unat (of_nat ((m + 1) * (m + 1)) :: 64 word) = (m + 1) * (m + 1)" if "m \<le> r" for m
  proof -
    have "(m + 1) * (m + 1) \<le> (2 ^ 32 - 1) * (2 ^ 32 - 1)"
      using that assms(3) by (intro mult_mono) auto
    also have "\<dots> < (2 :: nat) ^ 64" by simp
    finally show ?thesis by (rule unat_of_nat_64)
  qed
  {
    case 0
    then have "l = r" by simp
    with assms(2) sq [of r] show ?case
      by (subst isqrt_loop.simps) (simp add: word_le_nat_alt del: of_nat_mult of_nat_add)
  next
    case (Suc k)
    then have l: "k = r - (l + 1)" "l + 1 \<le> r" by auto
    have "(l + 1) * (l + 1) \<le> r * r" using l(2) by (intro mult_mono) auto
    with assms(1) sq [of l] l(2) have "of_nat ((l + 1) * (l + 1)) \<le> n"
      by (simp add: word_le_nat_alt del: of_nat_mult of_nat_add)
    moreover have "of_nat ((l + 1) * (l + 1)) + of_nat (2 * l + 3) =
        (of_nat ((l + 1 + 1) * (l + 1 + 1)) :: 64 word)"
      "of_nat (2 * l + 3) + 2 = (of_nat (2 * (l + 1) + 3) :: 64 word)"
      "of_nat l + 1 = (of_nat (l + 1) :: 64 word)"
      by (simp_all add: algebra_simps)
    ultimately show ?case
      using Suc.hyps(1) [OF l]
      by (subst isqrt_loop.simps) (simp only: if_True)
  }
qed

lemma exists_sqrt: "\<exists>r. r * r \<le> n \<and> n < (r + 1) * (r + 1)" for n :: nat
proof (induction n)
  case (Suc n)
  then obtain r where "r * r \<le> n" "n < (r + 1) * (r + 1)" by blast
  then show ?case
    by (cases "Suc n < (r + 1) * (r + 1)") (intro exI [of _ r], simp, intro exI [of _ "r + 1"], simp)
qed simp

abbreviation (input) gen_bound :: nat where "gen_bound \<equiv> (2 ^ 32 - 1) * (2 ^ 32 - 1)"

lemma isqrt_result:
  assumes "unat n < gen_bound"
  obtains r where "isqrt n = Some (of_nat r)" "r * r \<le> unat n" "unat n < (r + 1) * (r + 1)"
    "r + 1 < 2 ^ 32"
proof -
  obtain r where r: "r * r \<le> unat n" "unat n < (r + 1) * (r + 1)" using exists_sqrt by blast
  have "r < 2 ^ 32 - 1"
  proof (rule ccontr)
    assume "\<not> r < 2 ^ 32 - 1"
    then have "gen_bound \<le> r * r" by (intro mult_mono) auto
    with r(1) assms show False by simp
  qed
  then have "r + 1 < 2 ^ 32" by simp
  with isqrt_loop_result [OF r this, of 0] r that show thesis by (simp add: isqrt_def)
qed

lemma word_mod_eq_0_iff: "n mod i = 0 \<longleftrightarrow> unat i dvd unat (n :: 64 word)"
  by (metis dvd_eq_mod_eq_0 unat_eq_zero unat_mod_distrib)

lemma not_prime_divisor: "d dvd n \<Longrightarrow> 1 < d \<Longrightarrow> d < n \<Longrightarrow> \<not> prime_nat n"
  by (auto simp: prime_nat_def)

lemma between_multiples:
  fixes d i n :: nat
  assumes "i mod 6 = 5" "i < d" "d < i + 6" "d \<noteq> i + 2" "d dvd n"
  shows "2 dvd n \<or> 3 dvd n"
proof -
  obtain q where "i = 6 * q + 5" using assms(1) by (metis mult_div_mod_eq)
  with assms(2-4) have "d = 2 * (3 * q + 3) \<or> d = 2 * (3 * q + 4) \<or> d = 3 * (2 * q + 3) \<or>
      d = 2 * (3 * q + 5)" by auto
  then have "2 dvd d \<or> 3 dvd d" by (metis dvd_triv_left)
  with assms(5) show ?thesis by (metis dvd_trans)
qed

lemma is_prime_loop_result:
  assumes r: "r * r \<le> unat n" "unat n < (r + 1) * (r + 1)" "r + 1 < 2 ^ 32"
    and n: "3 < unat n" "\<not> 2 dvd unat n" "\<not> 3 dvd unat n"
    and i: "i mod 6 = 5" "i \<le> r + 6" "\<And>d. 1 < d \<Longrightarrow> d < i \<Longrightarrow> \<not> d dvd unat n"
  shows "is_prime_loop n (of_nat r) (of_nat i) = Some (prime_nat (unat n))"
  using i
proof (induction "r + 6 - i" arbitrary: i rule: less_induct)
  case less
  have small: "unat (of_nat i :: 64 word) = i" "unat (of_nat (i + 2) :: 64 word) = i + 2"
    "unat (of_nat r :: 64 word) = r"
    using less.prems(2) r(3) by (intro unat_of_nat_64; simp)+
  have add: "of_nat i + 2 = (of_nat (i + 2) :: 64 word)" "of_nat i + 6 = (of_nat (i + 6) :: 64 word)"
    by simp_all
  have "5 \<le> i" using less.prems(1) by (metis mod_less_eq_dividend)
  show ?case
  proof (cases "i \<le> r")
    case True
    have "5 * r \<le> r * r" using True \<open>5 \<le> i\<close> by (intro mult_right_mono) auto
    then have lt: "i + 2 < unat n" using True \<open>5 \<le> i\<close> r(1) by linarith
    show ?thesis
    proof (cases "i dvd unat n \<or> (i + 2) dvd unat n")
      case div: True
      then have "\<not> prime_nat (unat n)"
        using lt \<open>5 \<le> i\<close> by (auto dest: not_prime_divisor)
      with div True small show ?thesis
        by (subst is_prime_loop.simps)
          (simp add: word_le_nat_alt word_mod_eq_0_iff add(1) del: of_nat_add)
    next
      case ndiv: False
      have "is_prime_loop n (of_nat r) (of_nat (i + 6)) = Some (prime_nat (unat n))"
      proof (rule less.hyps)
        fix d assume d: "1 < d" "d < i + 6"
        show "\<not> d dvd unat n"
        proof (cases "d < i")
          case False
          with between_multiples [OF less.prems(1) _ d(2), of "unat n"] n ndiv show ?thesis
            by (cases "d = i"; cases "d = i + 2") auto
        qed (use less.prems(3) d in blast)
      qed (use less.prems(1) True in auto)
      with ndiv True small show ?thesis
        by (subst is_prime_loop.simps)
          (simp add: word_le_nat_alt word_mod_eq_0_iff add del: of_nat_add)
    qed
  next
    case False
    then have "(r + 1) * (r + 1) \<le> i * i" by (intro mult_mono) auto
    with r(2) have "unat n < i * i" by simp
    then have "prime_nat (unat n)"
      using less.prems(3) n(1) by (intro prime_nat_trial [of _ i]) auto
    with False small show ?thesis
      by (subst is_prime_loop.simps) (simp add: word_le_nat_alt)
  qed
qed

lemma prime_nat_small: "n \<le> 3 \<Longrightarrow> prime_nat n \<longleftrightarrow> 1 < n"
proof -
  assume "n \<le> 3"
  moreover have "prime_nat 3" using small_primes_prime [of 3] by (simp add: small_primes_def)
  ultimately show ?thesis
    using prime_nat_2 by (cases "n = 2"; cases "n = 3") (auto simp: prime_nat_def)
qed

lemma is_prime_result:
  assumes "unat n < gen_bound"
  shows "is_prime n = Some (prime_nat (unat n))"
proof (cases "n \<le> 3")
  case True
  then show ?thesis
    by (simp add: is_prime_def prime_nat_small word_le_nat_alt word_less_nat_alt)
next
  case False
  then have 3: "3 < unat n" by (simp add: word_le_nat_alt)
  show ?thesis
  proof (cases "2 dvd unat n \<or> 3 dvd unat n")
    case True
    with 3 have "\<not> prime_nat (unat n)" by (auto dest: not_prime_divisor)
    with True False show ?thesis by (auto simp: is_prime_def word_mod_eq_0_iff)
  next
    case ndvd: False
    obtain r where r: "isqrt n = Some (of_nat r)" "r * r \<le> unat n" "unat n < (r + 1) * (r + 1)"
      "r + 1 < 2 ^ 32" by (rule isqrt_result [OF assms])
    have "\<not> d dvd unat n" if "1 < d" "d < 5" for d
    proof -
      from that have "d = 2 \<or> d = 3 \<or> d = 4" by auto
      then show ?thesis using ndvd dvd_trans [of 2 4] by auto
    qed
    then have "is_prime_loop n (of_nat r) (of_nat 5) = Some (prime_nat (unat n))"
      using 3 ndvd r(2-4) by (intro is_prime_loop_result) auto
    with r(1) ndvd False show ?thesis by (simp add: is_prime_def word_mod_eq_0_iff)
  qed
qed

lemma next_prime_result:
  assumes "prime_nat p" "m \<le> p" "p < gen_bound" "\<And>k. m \<le> k \<Longrightarrow> k < p \<Longrightarrow> \<not> prime_nat k"
  shows "next_prime (of_nat m) = Some (of_nat p)"
  using assms(2,4)
proof (induction "p - m" arbitrary: m)
  have unat: "unat (of_nat k :: 64 word) = k" if "k \<le> p" for k
    using that assms(3) by (intro unat_of_nat_64) simp
  {
    case 0
    with assms(1,3) show ?case
      by (subst next_prime.simps) (simp add: is_prime_result unat)
  next
    case (Suc j)
    then have m: "j = p - (m + 1)" "m + 1 \<le> p" by auto
    then have "\<not> prime_nat m" using Suc.prems(2) by simp
    moreover have "of_nat m + 1 = (of_nat (m + 1) :: 64 word)" by simp
    ultimately show ?case
      using Suc.hyps(1) [OF m] Suc.prems(2) m(2) assms(3)
      by (subst next_prime.simps) (simp add: is_prime_result unat add.commute)
  }
qed

lemma isqrt_loop_ends: "isqrt_loop n l a d = Some r \<Longrightarrow> n \<noteq> - 1"
  by (rule isqrt_loop.raw_induct [of "\<lambda>n l a d r. n \<noteq> - 1"]) (auto split: if_splits)

lemma isqrt_diverges: "isqrt (- 1) = None"
  using isqrt_loop_ends [of "- 1"] by (cases "isqrt (- 1)") (auto simp: isqrt_def)

text \<open>The primality test of the generator ends and answers correctly for every number below
  (2^32 - 1)^2: it returns 1 for the primes, 0 for the others. From there, \<open>next_prime\<close> finds the least
  prime at or above its argument, provided that there is one below that bound. (The test takes the
  square root by adding up odd numbers; the sum wraps around for larger numbers, and for the largest
  one the loop never ends.)\<close>

theorem gen_next_prime_correct:
  assumes "unat n \<le> p" "p < gen_bound" "prime_nat p"
  shows "is_prime n = Some (prime_nat (unat n)) \<and>
    (\<exists>q. next_prime n = Some q \<and> n \<le> q \<and> prime_nat (unat q) \<and>
      (\<forall>k. unat n \<le> k \<and> k < unat q \<longrightarrow> \<not> prime_nat k))"
proof -
  define q where "q = (LEAST q. unat n \<le> q \<and> prime_nat q)"
  have q: "unat n \<le> q" "prime_nat q" "q \<le> p" "\<And>k. unat n \<le> k \<Longrightarrow> k < q \<Longrightarrow> \<not> prime_nat k"
    unfolding q_def using assms LeastI [of "\<lambda>q. unat n \<le> q \<and> prime_nat q" p]
      Least_le [of "\<lambda>q. unat n \<le> q \<and> prime_nat q" p] not_less_Least by auto
  then have unat: "unat (of_nat q :: 64 word) = q" using assms(2) by (intro unat_of_nat_64) simp
  have "next_prime (of_nat (unat n)) = Some (of_nat q)"
    using q assms(2) by (intro next_prime_result) auto
  with q unat assms is_prime_result [of n] show ?thesis
    by (auto simp: word_le_nat_alt)
qed

theorem gen_next_prime_correct_witness:
  "is_prime 91 = Some False \<and>
    (\<exists>q. next_prime 91 = Some q \<and> 91 \<le> q \<and> q \<le> 97 \<and> prime_nat (unat q))"
proof -
  have 97: "prime_nat 97" using small_primes_prime [of 97] by (simp add: small_primes_def)
  have "\<not> prime_nat 91" by (rule not_prime_divisor [of 7]) auto
  moreover obtain q where q: "next_prime 91 = Some q" "91 \<le> q" "prime_nat (unat q)"
    "\<forall>k. unat (91 :: 64 word) \<le> k \<and> k < unat q \<longrightarrow> \<not> prime_nat k"
    and "is_prime 91 = Some (prime_nat (unat (91 :: 64 word)))"
    using gen_next_prime_correct [of 91 97] 97 by auto
  moreover have "\<not> 97 < unat q" using q(4) [rule_format, of 97] 97 by auto
  then have "q \<le> 97" by (simp add: word_le_nat_alt)
  ultimately show ?thesis by auto
qed

end
