(* ===== verification/LwsGenCorrect.thy ===== *)
theory LwsGenCorrect
  imports LwsGen
begin

text \<open>
  What src/gen/table.c prints is what lws_table.c contains. The sequence of sizes is followed with the
  certified primes of LwsPrimeCerts and with divisors of the numbers between them; the layout of the
  text is computed on the digits of the primes.
\<close>

section \<open>The sequence of sizes\<close>

text \<open>
  A chain lists, for each value of \<open>size\<close> from a start on, the prime that \<open>next_prime\<close> returns for it,
  and a divisor of each number that it passes over. The divisors were computed outside the kernel.
\<close>

fun composites_ok :: "int \<Rightarrow> int \<Rightarrow> int list \<Rightarrow> bool" where
  "composites_ok m p [] = (m = p)"
| "composites_ok m p (d # ds) = (1 < d \<and> d < m \<and> m mod d = 0 \<and> composites_ok (m + 1) p ds)"

fun chain_ok :: "int \<Rightarrow> int \<Rightarrow> int \<Rightarrow> (int \<times> int list) list \<Rightarrow> bool" where
  "chain_ok limit s e [] = (s = e)"
| "chain_ok limit s e ((p, ds) # ch) =
     (s < limit \<and> composites_ok s p ds \<and> chain_ok limit (s + s div 3) e ch)"

definition chain_32 :: "(int \<times> int list) list" where
  "chain_32 = [
     (3, []), (5, [2]), (5, []), (7, [2]), (11, [2, 3, 2]), (11, [2]), (13, []), (17, []),
     (23, [2]), (29, []), (41, [2, 3, 2]), (53, [2, 3, 2]), (67, [2]), (89, [2]), (127, [3,
     2, 7, 2, 11, 2, 3, 2, 5, 2]), (157, [2]), (211, [2, 11, 2]), (277, []), (373, [3, 2, 7,
     2]), (499, [2, 17, 2, 3, 2, 7, 2]), (659, [2, 3, 2]), (877, [2, 5, 2]), (1171, [5, 2,
     3, 2, 7, 2]), (1553, []), (2081, [2, 19, 2, 3, 2, 5, 2, 31, 2, 3, 2]), (2767, [2, 11,
     2, 3, 2, 5, 2]), (3691, [2, 3, 2, 29, 2, 5, 2, 3, 2, 7, 2]), (4909, [2, 7, 2]), (6547,
     [31, 2, 3, 2, 5, 2]), (8731, [3, 2, 11, 2, 5, 2, 3, 2, 7, 2]), (11633, [2, 29, 2, 3,
     2]), (15511, [2, 5, 2, 3, 2, 13, 2]), (20681, [2, 3, 2, 5, 2, 23, 2, 3, 2]), (27581,
     [2, 43, 2, 5, 2, 3, 2, 19, 2, 79, 2, 3, 2, 5, 2, 11, 2, 3, 2]), (36749, []), (49003,
     [2, 3, 2, 19, 2]), (65353, [2, 3, 2, 79, 2, 5, 2, 3, 2, 223, 2, 19, 2, 3, 2, 5, 2, 101,
     2, 3, 2, 11, 2]), (87107, [2]), (116141, []), (154871, [2, 5, 2, 3, 2, 23, 2, 7, 2, 3,
     2, 5, 2, 251, 2, 3, 2]), (206477, [2, 19, 2, 3, 2]), (275299, [2, 11, 2]), (367069,
     [19, 2, 557, 2, 3, 2, 593, 2]), (489427, [2, 5, 2, 3, 2, 7, 2, 19, 2, 3, 2, 5, 2]),
     (652559, [2, 11, 2, 5, 2, 3, 2]), (870083, [3, 2, 733, 2, 59, 2, 3, 2, 13, 2, 7, 2, 3,
     2]), (1160111, [2, 11, 2, 5, 2, 3, 2, 179, 2, 47, 2, 3, 2, 5, 2, 13, 2, 3, 2]),
     (1546799, [557, 2, 3, 2, 173, 2, 5, 2, 3, 2]), (2062391, [5, 2, 23, 2, 3, 2]),
     (2749847, [2]), (3666461, []), (4888619, [2, 5, 2, 3, 2]), (6518173, [2, 31, 2, 5, 2,
     3, 2, 19, 2, 13, 2, 3, 2, 5, 2, 131, 2, 3, 2, 11, 2]), (8690917, [11, 2, 3, 2, 401, 2,
     5, 2, 3, 2, 211, 2, 31, 2, 3, 2, 5, 2, 53, 2, 3, 2, 11, 2, 17, 2, 3, 2, 71, 2, 7, 2, 3,
     2, 13, 2, 5, 2, 3, 2, 97, 2, 47, 2, 3, 2, 5, 2]), (11587841, [5, 2, 3, 2, 11, 2, 31, 2,
     3, 2, 5, 2, 23, 2, 3, 2]), (15450437, [17, 2, 3, 2]), (20600597, [3, 2, 19, 2, 1831, 2,
     3, 2, 5, 2, 7, 2, 3, 2, 11, 2, 13, 2, 3, 2]), (27467443, [2, 29, 2, 3, 2, 1129, 2]),
     (36623261, [2, 13, 2, 7, 2, 3, 2, 5, 2, 11, 2, 3, 2]), (48831017, [3, 2, 7, 2, 23, 2,
     3, 2, 5, 2, 19, 2, 3, 2, 569, 2, 7, 2, 3, 2]), (65107997, [2]), (86810681, [3, 2, 853,
     2, 5, 2, 3, 2, 11, 2, 23, 2, 3, 2, 5, 2, 19, 2, 3, 2]), (115747549, [2]), (154330079,
     [2, 3, 2, 10247, 2, 23, 2, 3, 2, 71, 2, 5, 2, 3, 2]), (205773427, [2, 1223, 2, 7, 2, 3,
     2, 5, 2]), (274364561, [137, 2, 3, 2]), (365819417, [3, 2, 59, 2, 17, 2, 3, 2]),
     (487759219, [2, 227, 2, 3, 2, 11, 2]), (650345651, [2, 67, 2, 3, 2, 31, 2, 19, 2, 3, 2,
     47, 2, 9103, 2, 3, 2, 7, 2, 5, 2, 3, 2, 233, 2, 11, 2, 3, 2, 5, 2, 7, 2, 3, 2]),
     (867127501, [2, 9643, 2, 3, 2, 641, 2, 5, 2, 3, 2, 7, 2]), (1156170011, [2, 3, 2, 7, 2,
     13, 2, 3, 2, 11, 2, 5, 2, 3, 2, 29, 2, 7, 2, 3, 2, 5, 2, 19, 2, 3, 2]), (1541560037,
     [2, 2309, 2, 3, 2, 17, 2, 5, 2, 3, 2, 29, 2, 12347, 2, 3, 2, 5, 2, 4651, 2, 3, 2, 359,
     2, 19, 2, 3, 2, 13, 2, 11, 2, 3, 2, 7, 2, 5, 2, 3, 2, 43, 2, 107, 2, 3, 2, 5, 2, 7, 2,
     3, 2, 11, 2, 13, 2, 3, 2]), (2055413317, [2, 5, 2, 3, 2, 29, 2, 7, 2, 3, 2, 5, 2]),
     (2740551103, [2, 13, 2, 3, 2, 11, 2, 7, 2, 3, 2, 53, 2, 5, 2, 3, 2, 19, 2, 1201, 2, 3,
     2, 5, 2, 26431, 2, 3, 2, 89, 2]), (3654068141, [2, 3, 2, 11, 2, 3491, 2, 3, 2, 5, 2,
     313, 2, 3, 2, 17, 2, 173, 2, 3, 2, 7, 2, 13, 2, 3, 2, 4441, 2, 5, 2, 3, 2, 1867, 2, 7,
     2, 3, 2, 5, 2, 10597, 2, 3, 2])]"

definition chain_64 :: "(int \<times> int list) list" where
  "chain_64 = [
     (4872090871, [2, 3, 2, 7, 2, 29, 2, 3, 2, 41, 2, 5, 2, 3, 2, 17, 2, 7, 2, 3, 2, 5, 2,
     11, 2, 3, 2, 13, 2, 101, 2, 3, 2, 19, 2, 47, 2, 3, 2, 9619, 2, 5, 2, 3, 2, 7, 2, 3623,
     2, 3, 2, 5, 2, 13, 2, 3, 2, 23, 2, 7, 2, 3, 2, 29, 2, 103, 2, 3, 2, 1279, 2, 5, 2, 3,
     2, 1597, 2]), (6496121063, [2, 673, 2, 3, 2]), (8661494753, [2, 3, 2, 17, 2, 73, 2, 3,
     2]), (11548659701, [2, 97, 2, 7, 2, 3, 2, 5, 2, 19, 2, 3, 2, 563, 2, 281, 2, 3, 2,
     7829, 2, 31, 2, 3, 2, 11, 2, 5, 2, 3, 2, 7, 2, 17, 2, 3, 2, 5, 2, 23, 2, 3, 2]),
     (15398212901, [8677, 2, 7, 2, 3, 2, 19, 2, 5, 2, 3, 2, 811, 2, 23, 2, 3, 2, 5, 2, 47,
     2, 3, 2]), (20530950533, [2, 7, 2, 5, 2, 3, 2, 4093, 2, 77719, 2, 3, 2, 5, 2, 7, 2, 3,
     2, 49109, 2, 42487, 2, 3, 2, 619, 2, 23, 2, 3, 2]), (27374600677, [13, 2, 11, 2, 3, 2,
     5, 2]), (36499467569, [2, 1163, 2, 3, 2, 13, 2, 5, 2, 3, 2]), (48665956771, [2, 5, 2,
     53, 2, 3, 2, 79, 2, 509, 2, 3, 2, 11, 2, 7, 2, 3, 2, 17, 2, 5, 2, 3, 2, 3181, 2]),
     (64887942367, [5, 2, 3, 2, 7, 2, 139, 2, 3, 2, 5, 2, 29, 2, 3, 2, 21569, 2, 7, 2, 3, 2,
     53, 2, 46237, 2, 3, 2, 13, 2, 5, 2, 3, 2, 19, 2, 11, 2, 3, 2, 5, 2]), (86517256433,
     []), (115356341911, [2]), (153808455923, [2, 2039, 2, 31, 2, 3, 2, 23, 2, 11, 2, 3, 2,
     17, 2, 5, 2, 3, 2, 7, 2, 491, 2, 3, 2, 5, 2, 197137, 2, 3, 2, 11, 2, 7, 2, 3, 2, 61, 2,
     547, 2, 3, 2]), (205077941191, [7, 2, 3, 2, 131, 2, 196583, 2, 3, 2, 37, 2, 5, 2, 3, 2,
     11, 2]), (273437254897, []), (364583006561, [3, 2, 1733, 2, 71, 2, 3, 2, 67, 2, 61, 2,
     3, 2, 7, 2, 5, 2, 3, 2, 569, 2, 47819, 2, 3, 2, 5, 2, 7, 2, 3, 2]), (486110675443, [2,
     3, 2, 5, 2, 25667, 2, 3, 2, 173, 2, 367, 2, 3, 2, 17, 2, 89, 2, 3, 2, 7, 2, 5, 2, 3, 2,
     31, 2, 13, 2, 3, 2, 5, 2, 7, 2, 3, 2, 23, 2, 11, 2, 3, 2, 41, 2, 3761, 2, 3, 2, 32117,
     2, 5, 2, 3, 2, 19, 2, 37, 2, 3, 2, 5, 2, 31517, 2, 3, 2, 18787, 2]), (648147567293, [2,
     48883, 2, 3, 2, 12203, 2, 19, 2, 3, 2, 239, 2, 5, 2, 3, 2, 7, 2, 73, 2, 3, 2, 5, 2,
     283, 2, 3, 2, 43, 2, 7, 2, 3, 2, 13, 2, 11, 2, 3, 2, 2003, 2, 5, 2, 3, 2, 31, 2, 17, 2,
     3, 2, 5, 2, 1871, 2, 3, 2, 7, 2, 13, 2, 3, 2, 113, 2, 37, 2, 3, 2, 59, 2, 5, 2, 3, 2,
     599, 2, 7907, 2, 3, 2, 5, 2, 61813, 2, 3, 2, 97, 2, 23, 2, 3, 2, 1087, 2, 223, 2, 3, 2,
     7, 2, 5, 2, 3, 2, 311, 2, 31, 2, 3, 2, 5, 2, 7, 2, 3, 2, 2729, 2, 19, 2, 3, 2, 11, 2,
     676211, 2, 3, 2]), (864196756231, [2, 73, 2, 17, 2, 3, 2, 331, 2, 5, 2, 3, 2, 71, 2]),
     (1152262341641, [3, 2, 59, 2, 5, 2, 3, 2, 7, 2, 17, 2, 3, 2, 5, 2, 11, 2, 3, 2]),
     (1536349788871, [2, 41, 2, 3, 2, 383, 2, 5, 2, 3, 2, 13037, 2, 7, 2, 3, 2, 5, 2, 17, 2,
     3, 2, 43, 2, 11, 2, 3, 2, 13, 2, 9413, 2, 3, 2, 151, 2, 5, 2, 3, 2, 7, 2]),
     (2048466385123, [2, 5, 2, 3, 2, 53, 2, 19, 2, 3, 2, 5, 2, 67, 2, 3, 2, 13, 2]),
     (2731288513529, [2, 3, 2, 5, 2, 23, 2, 3, 2, 11, 2, 580529, 2, 3, 2, 89, 2, 43, 2, 3,
     2, 199, 2, 5, 2, 3, 2, 7, 2, 37, 2, 3, 2, 5, 2, 1123, 2, 3, 2, 31, 2, 7, 2, 3, 2, 79,
     2, 17, 2, 3, 2, 23, 2, 5, 2, 3, 2]), (3641718017983, [2, 17, 2, 5, 2, 3, 2, 8419, 2,
     11, 2, 3, 2, 5, 2, 13, 2, 3, 2, 24197, 2]), (4855624023953, [1883471, 2, 3, 2]),
     (6474165365293, [3, 2, 47, 2, 7, 2, 3, 2, 630841, 2, 5, 2, 3, 2, 19, 2, 101, 2, 3, 2,
     5, 2, 271, 2, 3, 2, 13, 2]), (8632220487029, [2, 3, 2, 7, 2, 5, 2, 3, 2]),
     (11509627316059, [2, 31, 2, 179947, 2, 3, 2, 7, 2, 5, 2, 3, 2, 2447, 2, 19, 2, 3, 2, 5,
     2, 7, 2, 3, 2, 1117, 2, 719, 2, 3, 2, 13, 2]), (15346169754719, [32957, 2, 177763, 2,
     3, 2, 11, 2, 5179, 2, 3, 2, 7, 2, 5, 2, 3, 2]), (20461559672951, [2, 5, 2, 3, 2, 7, 2,
     44201, 2, 3, 2, 5, 2, 19, 2, 3, 2]), (27282079563967, [2, 163, 2, 3, 2, 29, 2, 103, 2,
     3, 2, 19, 2, 5, 2, 3, 2, 43, 2, 17, 2, 3, 2, 5, 2, 11, 2, 3, 2, 317, 2, 101, 2, 3, 2,
     13, 2, 7, 2, 3, 2, 373, 2, 5, 2, 3, 2, 11, 2, 19, 2, 3, 2, 5, 2]), (36376106085223, [2,
     71, 2, 3, 2, 7, 2]), (48501474780299, [2, 103, 2, 3, 2, 126317, 2, 5, 2, 3, 2]),
     (64668633040457, [2, 5, 2, 107, 2, 3, 2, 379, 2, 1135093, 2, 3, 2, 31, 2, 10337, 2, 3,
     2, 7, 2, 5, 2, 3, 2, 1487777, 2, 227, 2, 3, 2, 5, 2, 7, 2, 3, 2, 1378129, 2, 277, 2, 3,
     2, 13, 2, 11, 2, 3, 2, 61, 2, 5, 2, 3, 2, 1069, 2, 17, 2, 3, 2, 5, 2, 653, 2, 3, 2, 11,
     2, 13, 2, 3, 2]), (86224844053847, [3, 2]), (114966458738489, [2, 11, 2, 3, 2, 5, 2, 7,
     2, 3, 2, 41, 2, 17, 2, 3, 2, 6761, 2, 79, 2, 3, 2, 11, 2, 5, 2, 3, 2]),
     (153288611651291, [2, 41, 2, 3, 2, 5, 2, 7, 2, 3, 2]), (204384815535079, [2, 29, 2, 11,
     2, 3, 2, 7, 2, 2141, 2, 3, 2, 23, 2, 5, 2, 3, 2, 3061, 2, 7, 2, 3, 2, 5, 2, 83, 2, 3,
     2, 30241, 2, 367, 2, 3, 2, 47, 2]), (272513087380099, [3, 2, 5, 2, 227, 2, 3, 2, 11, 2,
     23, 2, 3, 2, 293, 2, 2357, 2, 3, 2, 10243, 2, 5, 2, 3, 2, 7, 2, 17, 2, 3, 2, 5, 2, 41,
     2, 3, 2, 2472611, 2, 7, 2, 3, 2, 233, 2])]"


lemma chain_32_ok: "chain_ok 4294967296 3 4872090794 chain_32"
  by code_simp

lemma chain_64_ok: "chain_ok 281474976710656 4872090794 363350783173404 chain_64"
  by code_simp

lemma composites_okD:
  "composites_ok m p ds \<Longrightarrow> 0 \<le> m \<Longrightarrow> m \<le> p \<and> (\<forall>k. nat m \<le> k \<and> k < nat p \<longrightarrow> \<not> prime_nat k)"
proof (induction ds arbitrary: m)
  case (Cons d ds)
  then have d: "1 < d" "d < m" "d dvd m" and IH: "m + 1 \<le> p"
    "\<And>k. nat (m + 1) \<le> k \<Longrightarrow> k < nat p \<Longrightarrow> \<not> prime_nat k"
    by (auto simp: dvd_eq_mod_eq_0)
  have "nat d dvd nat m" using d by (simp add: nat_dvd_iff)
  then have m: "\<not> prime_nat (nat m)" using d by (intro not_prime_divisor [of "nat d"]) auto
  have "\<not> prime_nat k" if "nat m \<le> k" "k < nat p" for k
    using m IH(2) [of k] that Cons.prems(2) by (cases "k = nat m") auto
  with IH(1) show ?case by auto
qed auto

definition print_step :: "int \<Rightarrow> gen \<Rightarrow> gen" where
  "print_step p g = (if of_int p = g_prime_prev g then g else print_prime (of_int p) g)"

lemma primes_loop_chain:
  assumes "chain_ok lim s e ch" "3 \<le> s" "\<forall>p\<in>fst ` set ch. prime_nat (nat p) \<and> p < 2 ^ 49"
    and lim: "lim \<le> limit" "limit \<le> 2 ^ 48"
  shows "primes_loop (of_int limit) (of_int s) g =
    primes_loop (of_int limit) (of_int e) (fold print_step (map fst ch) g)"
  using assms(1-3)
proof (induction ch arbitrary: s g)
  case (Cons pd ch)
  obtain p ds where pd: "pd = (p, ds)" by (cases pd)
  have s: "s < limit" "composites_ok s p ds" "chain_ok lim (s + s div 3) e ch"
    using Cons.prems(1) lim by (auto simp: pd)
  from composites_okD [OF s(2)] Cons.prems(2)
  have p: "s \<le> p" "\<And>k. nat s \<le> k \<Longrightarrow> k < nat p \<Longrightarrow> \<not> prime_nat k" by auto
  have prime: "prime_nat (nat p)" "p < 2 ^ 49" using Cons.prems(3) by (auto simp: pd)
  have unat: "unat (of_int k :: 64 word) = nat k" if "0 \<le> k" "k \<le> 2 ^ 48" for k
    using that by (simp add: unat_eq_nat_uint uint_word_of_int)
  have "next_prime (of_nat (nat s)) = Some (of_nat (nat p))"
    using prime p Cons.prems(2) by (intro next_prime_result) auto
  then have next_prime: "next_prime (of_int s) = Some (of_int p)"
    using p(1) Cons.prems(2) by simp
  have third: "of_int s + of_int s div 3 = (of_int (s + s div 3) :: 64 word)"
  proof -
    have "of_int s div 3 = (of_int (s div 3) :: 64 word)"
      using s(1) Cons.prems(2) lim
      by (intro word_unat_eq_iff [THEN iffD2])
        (simp add: unat_div_distrib unat nat_div_distrib)
    then show ?thesis by simp
  qed
  have less: "(of_int s :: 64 word) < of_int limit"
    using s(1) Cons.prems(2) lim by (simp add: word_less_nat_alt unat)
  show ?case
    using Cons.IH [OF s(3)] Cons.prems(2,3) less
    by (subst primes_loop.simps)
      (simp add: next_prime pd third print_step_def [of p g] del: of_int_add)
qed simp

section \<open>The text of lws_table.c\<close>

text \<open>The lines that lws_table.c has between the braces of the two arrays, without the leading tab.\<close>

definition array_64 :: "string list" where
  "array_64 = [
     ''3, 5, 7, 11, 13, 17, 23, 29, 41, 53, 67, 89, 127, 157, 211, 277, 373, 499, 659, 877, 1171,'',
     ''1553, 2081, 2767, 3691, 4909, 6547, 8731, 11633, 15511, 20681, 27581, 36749, 49003, 65353,'',
     ''87107, 116141, 154871, 206477, 275299, 367069, 489427, 652559, 870083, 1160111, 1546799,'',
     ''2062391, 2749847, 3666461, 4888619, 6518173, 8690917, 11587841, 15450437, 20600597,'',
     ''27467443, 36623261, 48831017, 65107997, 86810681, 115747549, 154330079, 205773427,'',
     ''274364561, 365819417, 487759219, 650345651, 867127501, 1156170011, 1541560037, 2055413317,'',
     ''2740551103, 3654068141, 4872090871, 6496121063, 8661494753, 11548659701, 15398212901,'',
     ''20530950533, 27374600677, 36499467569, 48665956771, 64887942367, 86517256433,'',
     ''115356341911, 153808455923, 205077941191, 273437254897, 364583006561, 486110675443,'',
     ''648147567293, 864196756231, 1152262341641, 1536349788871, 2048466385123, 2731288513529,'',
     ''3641718017983, 4855624023953, 6474165365293, 8632220487029, 11509627316059,'',
     ''15346169754719, 20461559672951, 27282079563967, 36376106085223, 48501474780299,'',
     ''64668633040457, 86224844053847, 114966458738489, 153288611651291, 204384815535079,'',
     ''272513087380099'']"

definition array_32 :: "string list" where
  "array_32 = [
     ''3, 5, 7, 11, 13, 17, 23, 29, 41, 53, 67, 89, 127, 157, 211, 277, 373, 499, 659, 877, 1171,'',
     ''1553, 2081, 2767, 3691, 4909, 6547, 8731, 11633, 15511, 20681, 27581, 36749, 49003, 65353,'',
     ''87107, 116141, 154871, 206477, 275299, 367069, 489427, 652559, 870083, 1160111, 1546799,'',
     ''2062391, 2749847, 3666461, 4888619, 6518173, 8690917, 11587841, 15450437, 20600597,'',
     ''27467443, 36623261, 48831017, 65107997, 86810681, 115747549, 154330079, 205773427,'',
     ''274364561, 365819417, 487759219, 650345651, 867127501, 1156170011, 1541560037, 2055413317,'',
     ''2740551103, 3654068141'']"

definition lws_table_text :: "string list" where
  "lws_table_text =
     [''#if SIZE_MAX > UINT32_MAX'', ''static size_t lws_table_sizes[] = {''] @
     map ((@) tab) array_64 @
     [''};'', ''static int lws_table_sizes_n = 112;'',
      ''#else'', ''static size_t lws_table_sizes[] = {''] @
     map ((@) tab) array_32 @
     [''};'', ''static int lws_table_sizes_n = 73;'', ''#endif'']"

text \<open>What is printed before a number of \<open>prime_len\<close> digits, and the column that it starts in.\<close>

definition separator :: "nat \<Rightarrow> nat \<Rightarrow> string \<times> nat" where
  "separator line_len prime_len =
     (if line_len = 0 then (tab, 8)
      else if line_len + 2 + prime_len < 98 then ('', '', line_len + 2)
      else ('','' @ newline @ tab, 8))"

fun layout :: "nat \<Rightarrow> string list \<Rightarrow> string" where
  "layout line_len [] = []"
| "layout line_len (buf # bufs) =
     fst (separator line_len (length buf)) @ buf @
     layout (snd (separator line_len (length buf)) + length buf) bufs"

fun dedup :: "int \<Rightarrow> int list \<Rightarrow> int list" where
  "dedup prev [] = []"
| "dedup prev (p # ps) = (if p = prev then dedup prev ps else p # dedup p ps)"

lemma fold_print_step:
  assumes "\<forall>p\<in>set ps. 0 \<le> p \<and> p < 2 ^ 49" "0 \<le> prev" "prev < 2 ^ 49" "g_prime_prev g = of_int prev"
  shows "g_n (fold print_step ps g) = g_n g + length (dedup prev ps) \<and>
    g_out (fold print_step ps g) =
      g_out g @ layout (g_line_len g) (map (\<lambda>p. digits (nat p)) (dedup prev ps))"
  using assms
proof (induction ps arbitrary: g prev)
  case (Cons p ps)
  have "uint (of_int k :: 64 word) = k" if "0 \<le> k" "k < 2 ^ 49" for k
    using that by (simp add: uint_word_of_int)
  then have eq: "of_int p = (of_int prev :: 64 word) \<longleftrightarrow> p = prev"
    and unat: "unat (of_int p :: 64 word) = nat p"
    using Cons.prems by (auto simp: word_uint_eq_iff unat_eq_nat_uint)
  show ?case
  proof (cases "p = prev")
    case True
    with Cons.IH [of prev g] Cons.prems show ?thesis by (simp add: print_step_def [of prev g])
  next
    case False
    with Cons.IH [of p "print_prime (of_int p) g"] Cons.prems eq unat show ?thesis
      by (simp add: print_step_def [of p g] print_prime_def separator_def Let_def)
  qed
qed simp

lemma chain_dedup: "dedup 0 (map fst (chain_32 @ chain_64)) = sizes_int"
  by code_simp

lemma chain_32_dedup: "dedup 0 (map fst chain_32) = take 73 sizes_int"
  by code_simp

definition sizes_digits :: "string list" where
  "sizes_digits = [
     ''3'', ''5'', ''7'', ''11'', ''13'', ''17'', ''23'', ''29'', ''41'', ''53'', ''67'',
     ''89'', ''127'', ''157'', ''211'', ''277'', ''373'', ''499'', ''659'', ''877'',
     ''1171'', ''1553'', ''2081'', ''2767'', ''3691'', ''4909'', ''6547'', ''8731'',
     ''11633'', ''15511'', ''20681'', ''27581'', ''36749'', ''49003'', ''65353'', ''87107'',
     ''116141'', ''154871'', ''206477'', ''275299'', ''367069'', ''489427'', ''652559'',
     ''870083'', ''1160111'', ''1546799'', ''2062391'', ''2749847'', ''3666461'',
     ''4888619'', ''6518173'', ''8690917'', ''11587841'', ''15450437'', ''20600597'',
     ''27467443'', ''36623261'', ''48831017'', ''65107997'', ''86810681'', ''115747549'',
     ''154330079'', ''205773427'', ''274364561'', ''365819417'', ''487759219'',
     ''650345651'', ''867127501'', ''1156170011'', ''1541560037'', ''2055413317'',
     ''2740551103'', ''3654068141'', ''4872090871'', ''6496121063'', ''8661494753'',
     ''11548659701'', ''15398212901'', ''20530950533'', ''27374600677'', ''36499467569'',
     ''48665956771'', ''64887942367'', ''86517256433'', ''115356341911'', ''153808455923'',
     ''205077941191'', ''273437254897'', ''364583006561'', ''486110675443'',
     ''648147567293'', ''864196756231'', ''1152262341641'', ''1536349788871'',
     ''2048466385123'', ''2731288513529'', ''3641718017983'', ''4855624023953'',
     ''6474165365293'', ''8632220487029'', ''11509627316059'', ''15346169754719'',
     ''20461559672951'', ''27282079563967'', ''36376106085223'', ''48501474780299'',
     ''64668633040457'', ''86224844053847'', ''114966458738489'', ''153288611651291'',
     ''204384815535079'', ''272513087380099'']"

lemma digits_sizes: "map (\<lambda>p. digits (nat p)) sizes_int = sizes_digits"
  by (simp add: sizes_int_def digits.simps sizes_digits_def)

lemma layout_64:
  "layout 0 sizes_digits @ newline = concat (map (\<lambda>l. tab @ l @ newline) array_64)"
  by code_simp

lemma layout_32:
  "layout 0 (take 73 sizes_digits) @ newline = concat (map (\<lambda>l. tab @ l @ newline) array_32)"
  by code_simp

text \<open>Reading the text back: the numbers of a line, separated by characters that are not digits.\<close>

definition digit :: "char \<Rightarrow> int option" where
  "digit c = map_of (zip ''0123456789'' [0, 1, 2, 3, 4, 5, 6, 7, 8, 9]) c"

fun numbers :: "int option \<Rightarrow> string \<Rightarrow> int list" where
  "numbers None [] = []"
| "numbers (Some v) [] = [v]"
| "numbers acc (c # cs) =
     (case digit c of
        Some d \<Rightarrow> numbers (Some (10 * (case acc of None \<Rightarrow> 0 | Some v \<Rightarrow> v) + d)) cs
      | None \<Rightarrow> (case acc of None \<Rightarrow> [] | Some v \<Rightarrow> [v]) @ numbers None cs)"

lemma numbers_64: "concat (map (numbers None) array_64) = sizes_int"
  by code_simp

lemma numbers_32: "concat (map (numbers None) array_32) = take 73 sizes_int"
  by code_simp

section \<open>What the generator prints\<close>

lemma chain_ok_append:
  "chain_ok lim s m ch \<Longrightarrow> chain_ok lim' m e ch' \<Longrightarrow> lim \<le> lim' \<Longrightarrow> chain_ok lim' s e (ch @ ch')"
  by (induction lim s m ch rule: chain_ok.induct) auto

lemma dedup_set: "set ps \<subseteq> insert prev (set (dedup prev ps))"
  by (induction prev ps rule: dedup.induct) auto

lemma chain_positive: "list_all (\<lambda>p. 0 < p) (map fst (chain_32 @ chain_64))"
  by code_simp

lemma chain_primes:
  assumes "p \<in> set (map fst (chain_32 @ chain_64))"
  shows "prime_nat (nat p)" "p < 2 ^ 49"
proof -
  have "p \<noteq> 0" using assms chain_positive unfolding list_all_iff by blast
  then have "p \<in> set sizes_int"
    using dedup_set [of "map fst (chain_32 @ chain_64)" 0] assms unfolding chain_dedup by blast
  then have "nat p \<in> set lws_table_sizes" by (simp add: lws_table_sizes_int)
  from lws_table_sizes_prime [OF this] sizes_bounds(2) [OF this]
  show "prime_nat (nat p)" "p < 2 ^ 49" by auto
qed

lemma primes_result:
  assumes "chain_ok lim 3 e ch" "lim \<le> limit" "0 \<le> limit" "limit \<le> 2 ^ 48" "limit \<le> e" "e < 2 ^ 50"
    and "set ch \<subseteq> set (chain_32 @ chain_64)"
  shows "primes (of_int limit) = Some (''static size_t lws_table_sizes[] = {'' @ newline @
    layout 0 (map (\<lambda>p. digits (nat p)) (dedup 0 (map fst ch))) @ newline @ ''};'' @ newline @
    ''static int lws_table_sizes_n = '' @ digits (length (dedup 0 (map fst ch))) @ '';'' @ newline)"
proof -
  let ?g = "\<lparr>g_n = 0, g_line_len = 0, g_prime_prev = 0,
    g_out = ''static size_t lws_table_sizes[] = {'' @ newline\<rparr>"
  have primes: "prime_nat (nat p)" "p < 2 ^ 49" if "p \<in> fst ` set ch" for p
  proof -
    have "fst ` set ch \<subseteq> set (map fst (chain_32 @ chain_64))"
      unfolding set_map using assms(7) by (rule image_mono)
    with that have "p \<in> set (map fst (chain_32 @ chain_64))" by blast
    then show "prime_nat (nat p)" "p < 2 ^ 49" by (rule chain_primes)+
  qed
  have range: "0 \<le> p \<and> p < 2 ^ 49" if "p \<in> set (map fst ch)" for p
    using primes [of p] that by (simp add: prime_nat_def)
  have "\<not> (of_int e :: 64 word) < of_int limit"
    using assms(3-6) by (simp add: word_less_nat_alt unat_eq_nat_uint uint_word_of_int)
  then have "primes_loop (of_int limit) (of_int e) g = Some g" for g
    by (subst primes_loop.simps) simp
  moreover have "primes_loop (of_int limit) (of_int 3) ?g =
      primes_loop (of_int limit) (of_int e) (fold print_step (map fst ch) ?g)"
    using assms primes by (intro primes_loop_chain) auto
  moreover have "g_n (fold print_step (map fst ch) ?g) = g_n ?g + length (dedup 0 (map fst ch)) \<and>
      g_out (fold print_step (map fst ch) ?g) = g_out ?g @
        layout (g_line_len ?g) (map (\<lambda>p. digits (nat p)) (dedup 0 (map fst ch)))"
    using range by (intro fold_print_step) auto
  ultimately show ?thesis by (simp add: primes_def)
qed

lemma digits_n: "digits 112 = ''112''" "digits 73 = ''73''"
  by (simp_all add: digits.simps)

lemma length_sizes_int: "length sizes_int = 112"
  by (simp add: sizes_int_def)

text \<open>C40: The generator ends, and what it prints is, byte by byte, the two arrays in lws_table.c with
  their lengths and the directives around them; read back, the lines hold exactly the numbers of the
  arrays that the model of the table uses.\<close>

theorem gen_main_correct:
  "gen_main = Some (concat (map (\<lambda>line. line @ newline) lws_table_text)) \<and>
   concat (map (numbers None) array_64) = map int lws_table_sizes \<and>
   concat (map (numbers None) array_32) = map int lws_table_sizes_32"
proof -
  have ch: "chain_ok (2 ^ 48) 3 363350783173404 (chain_32 @ chain_64)"
    using chain_ok_append [OF chain_32_ok chain_64_ok] by simp
  have p64: "primes (push_bit 48 1) = Some (''static size_t lws_table_sizes[] = {'' @ newline @
      layout 0 sizes_digits @ newline @ ''};'' @ newline @
      ''static int lws_table_sizes_n = '' @ ''112'' @ '';'' @ newline)"
    using primes_result [OF ch, of "2 ^ 48"]
    unfolding chain_dedup digits_sizes
    by (simp add: length_sizes_int digits_n push_bit_eq_mult)
  have p32: "primes (push_bit 32 1) = Some (''static size_t lws_table_sizes[] = {'' @ newline @
      layout 0 (take 73 sizes_digits) @ newline @ ''};'' @ newline @
      ''static int lws_table_sizes_n = '' @ ''73'' @ '';'' @ newline)"
    using primes_result [OF chain_32_ok, of "2 ^ 32"]
    unfolding chain_32_dedup take_map [symmetric] digits_sizes
    by (simp add: length_sizes_int digits_n push_bit_eq_mult)
  have lines: "concat (map (\<lambda>line. line @ newline) (map ((@) tab) ls)) =
      concat (map (\<lambda>l. tab @ l @ newline) ls)" for ls
    by (induction ls) auto
  have sizes: "map int lws_table_sizes = sizes_int" "map int lws_table_sizes_32 = take 73 sizes_int"
    by (simp_all add: lws_table_sizes_def lws_table_sizes_32_def sizes_int_def)
  have "gen_main = Some (concat (map (\<lambda>line. line @ newline) lws_table_text))"
    unfolding gen_main_def p64 p32 lws_table_text_def map_append concat_append lines
      layout_64 [symmetric] layout_32 [symmetric]
    by simp
  then show ?thesis by (simp only: numbers_64 numbers_32 sizes simp_thms)
qed

end
