(* ===== verification/LwsObjects.thy ===== *)
theory LwsObjects
  imports LwsRun
begin

text \<open>
  The objects of a Lua state that src/lws_lib.c makes: tables, userdata with their metatables, and the
  registry. \<open>LwsRun\<close> describes the calls of the library by their effect on a request; here is how Lua
  code reaches them. Only string keys are modelled, as the library uses no other, and functions are
  known by name; a function that is not one of the library is \<open>F_other\<close>.

  The operations of the Lua C interface have their documented meaning. Lua raises an error when it runs
  out of memory; these errors are not modelled here.
\<close>

section \<open>Objects\<close>

datatype lws_cfunction =
    F_log | F_getvariable | F_redirect | F_setcomplete | F_setclose | F_parseargs
  | F_ctx_tostring
  | F_table_index | F_table_newindex | F_table_next | F_table_pairs | F_table_tostring | F_table_gc
  | F_response_index | F_response_newindex | F_response_flush
  | F_strict_index
  | F_close_file | F_file_flush_hook
  | F_profiler_tostring | F_profiler_gc
  | F_other nat

text \<open>\<open>OTable\<close> and \<open>OUser\<close> hold addresses in the Lua heap; \<open>OClosure\<close> is a C function with one upvalue.\<close>

datatype obj =
    ONil | OBool bool | OInt "64 word" | OStr ngx_str
  | OTable nat | OUser nat | OFun lws_cfunction | OClosure lws_cfunction obj

record lua_table =
  tab_fields :: "ngx_str \<Rightarrow> obj"
  tab_meta :: "nat option"

text \<open>The blocks of userdata: \<open>lws_lua_request_ctx_t\<close>, \<open>lws_lua_table_t\<close>, and \<open>luaL_Stream\<close> of the Lua
  library. Pointers to C objects are numbers; \<open>None\<close> is NULL. \<open>lc_response_headers\<close> is a raw pointer to the
  block of another userdata; it does not keep the collector from taking that userdata. The chunk and the
  completion of a run are in \<open>LwsRun\<close>.\<close>

record lua_ctx_block =
  lc_ctx :: "nat option"
  lc_response_headers :: "nat option"
  lc_sealed :: bool

record lws_lua_table =
  lt_t :: "nat option"
  lt_readonly :: bool
  lt_external :: bool

record luaL_Stream =
  st_f :: "nat option"
  st_closef :: "lws_cfunction option"

datatype udata = UCtx lua_ctx_block | UTable lws_lua_table | UStream luaL_Stream

record lua_user =
  u_data :: udata
  u_meta :: "nat option"

record lua_heap =
  h_tables :: "nat \<rightharpoonup> lua_table"
  h_users :: "nat \<rightharpoonup> lua_user"
  h_next :: nat
  h_registry :: "ngx_str \<Rightarrow> obj"
  h_globals :: nat

section \<open>Names\<close>

definition LWS_LIB_NAME :: ngx_str where "LWS_LIB_NAME = lit ''lws''"
definition LWS_REQUEST_CTX :: ngx_str where "LWS_REQUEST_CTX = lit ''lws.request_ctx''"
definition LWS_REQUEST_CTX_CURRENT :: ngx_str where
  "LWS_REQUEST_CTX_CURRENT = lit ''lws.request_ctx_current''"
definition LWS_TABLE :: ngx_str where "LWS_TABLE = lit ''lws.table''"
definition LWS_RESPONSE :: ngx_str where "LWS_RESPONSE = lit ''lws.response''"
definition LUA_FILEHANDLE :: ngx_str where "LUA_FILEHANDLE = lit ''FILE*''"

definition LWS_PROFILER :: ngx_str where "LWS_PROFILER = lit ''lws.profiler''"

lemmas lws_names = LWS_PROFILER_def LWS_LIB_NAME_def LWS_REQUEST_CTX_def LWS_REQUEST_CTX_CURRENT_def LWS_TABLE_def
  LWS_RESPONSE_def LUA_FILEHANDLE_def

section \<open>Tables\<close>

definition empty_table :: lua_table where
  "empty_table = \<lparr>tab_fields = \<lambda>_. ONil, tab_meta = None\<rparr>"

definition table_at :: "lua_heap \<Rightarrow> nat \<Rightarrow> lua_table" where
  "table_at h a = (case h_tables h a of None \<Rightarrow> empty_table | Some t \<Rightarrow> t)"

definition lua_newtable :: "lua_heap \<Rightarrow> nat \<times> lua_heap" where
  "lua_newtable h =
     (h_next h, h\<lparr>h_tables := (h_tables h)(h_next h \<mapsto> empty_table), h_next := h_next h + 1\<rparr>)"

definition rawget :: "lua_heap \<Rightarrow> nat \<Rightarrow> ngx_str \<Rightarrow> obj" where
  "rawget h a key = tab_fields (table_at h a) key"

definition rawset :: "nat \<Rightarrow> ngx_str \<Rightarrow> obj \<Rightarrow> lua_heap \<Rightarrow> lua_heap" where
  "rawset a key v h =
     h\<lparr>h_tables := (h_tables h)(a \<mapsto> (table_at h a)
       \<lparr>tab_fields := (tab_fields (table_at h a))(key := v)\<rparr>)\<rparr>"

definition setmetatable :: "nat \<Rightarrow> obj \<Rightarrow> lua_heap \<Rightarrow> lua_heap" where
  "setmetatable a m h =
     h\<lparr>h_tables := (h_tables h)(a \<mapsto> (table_at h a)
       \<lparr>tab_meta := (case m of OTable b \<Rightarrow> Some b | _ \<Rightarrow> None)\<rparr>)\<rparr>"

text \<open>Several fields of a table without \<open>__newindex\<close>, in this order.\<close>

definition setfields :: "nat \<Rightarrow> (string \<times> obj) list \<Rightarrow> lua_heap \<Rightarrow> lua_heap" where
  "setfields a fs h = fold (\<lambda>(key, v). rawset a (lit key) v) fs h"

definition setregistry :: "ngx_str \<Rightarrow> obj \<Rightarrow> lua_heap \<Rightarrow> lua_heap" where
  "setregistry key v h = h\<lparr>h_registry := (h_registry h)(key := v)\<rparr>"

text \<open>\<open>luaL_newmetatable\<close>: the table that the registry has under the name, or a new one.\<close>

definition luaL_newmetatable :: "ngx_str \<Rightarrow> lua_heap \<Rightarrow> nat \<times> lua_heap" where
  "luaL_newmetatable name h =
     (case h_registry h name of
        OTable a \<Rightarrow> (a, h)
      | _ \<Rightarrow> let (a, h) = lua_newtable h in
          (a, setregistry name (OTable a) (rawset a (lit ''__name'') (OStr name) h)))"

definition meta_of :: "lua_heap \<Rightarrow> obj \<Rightarrow> nat option" where
  "meta_of h v =
     (case v of
        OTable a \<Rightarrow> tab_meta (table_at h a)
      | OUser u \<Rightarrow> (case h_users h u of None \<Rightarrow> None | Some ud \<Rightarrow> u_meta ud)
      | _ \<Rightarrow> None)"

text \<open>Reading a field of a table: the value, or the function that Lua calls for it with the table and
  the key. A chain of \<open>__index\<close> tables may be circular.\<close>

datatype lookup = Value obj | CallIndex obj nat

partial_function (option) gettable :: "lua_heap \<Rightarrow> nat \<Rightarrow> ngx_str \<Rightarrow> lookup option" where
  "gettable h a key =
     (if rawget h a key \<noteq> ONil then Some (Value (rawget h a key))
      else case tab_meta (table_at h a) of
        None \<Rightarrow> Some (Value ONil)
      | Some m \<Rightarrow>
          (case rawget h m (lit ''__index'') of
             ONil \<Rightarrow> Some (Value ONil)
           | OTable b \<Rightarrow> gettable h b key
           | f \<Rightarrow> Some (CallIndex f a)))"

section \<open>Userdata\<close>

definition newuserdata :: "udata \<Rightarrow> obj \<Rightarrow> lua_heap \<Rightarrow> nat \<times> lua_heap" where
  "newuserdata d m h =
     (h_next h, h\<lparr>h_users := (h_users h)(h_next h \<mapsto>
         \<lparr>u_data = d, u_meta = (case m of OTable b \<Rightarrow> Some b | _ \<Rightarrow> None)\<rparr>),
       h_next := h_next h + 1\<rparr>)"

definition set_user :: "nat \<Rightarrow> udata \<Rightarrow> lua_heap \<Rightarrow> lua_heap" where
  "set_user u d h = h\<lparr>h_users := (h_users h)(u := map_option (\<lambda>ud. ud\<lparr>u_data := d\<rparr>) (h_users h u))\<rparr>"

definition lws_create_request_ctx_object :: "lua_heap \<Rightarrow> nat \<times> lua_heap" where
  "lws_create_request_ctx_object h =
     newuserdata (UCtx \<lparr>lc_ctx = None, lc_response_headers = None, lc_sealed = False\<rparr>)
       (h_registry h LWS_REQUEST_CTX) h"

definition lws_create_lua_table :: "lua_heap \<Rightarrow> nat \<times> lua_heap" where
  "lws_create_lua_table h =
     newuserdata (UTable \<lparr>lt_t = None, lt_readonly = False, lt_external = False\<rparr>)
       (h_registry h LWS_TABLE) h"

definition lws_create_file :: "lua_heap \<Rightarrow> nat \<times> lua_heap" where
  "lws_create_file h =
     newuserdata (UStream \<lparr>st_f = None, st_closef = Some F_close_file\<rparr>) (h_registry h LUA_FILEHANDLE) h"

section \<open>Results of C functions\<close>

text \<open>A C function returns a value or raises an error with a message. \<open>Confused\<close> stands for a block read
  at a type that it does not have, \<open>Freed\<close> for an access through NULL or to an object that has been
  released: both are undefined behaviour. \<open>Loops\<close> is a call that does not end.\<close>

datatype 'a outcome = Ret 'a | Err ngx_str | Confused | Freed | Loops

primrec chain :: "'a outcome \<Rightarrow> ('a \<Rightarrow> 'b outcome) \<Rightarrow> 'b outcome" where
  "chain (Ret x) f = f x"
| "chain (Err e) f = Err e"
| "chain Confused f = Confused"
| "chain Freed f = Freed"
| "chain Loops f = Loops"

definition ended :: "'a option \<Rightarrow> 'a outcome" where
  "ended m = (case m of None \<Rightarrow> Loops | Some x \<Rightarrow> Ret x)"

definition arg :: "nat \<Rightarrow> obj list \<Rightarrow> obj" where
  "arg i args = (if i \<le> length args \<and> 0 < i then args ! (i - 1) else ONil)"

text \<open>\<open>luaL_checklstring\<close>, \<open>luaL_checktype\<close> for tables, and \<open>luaL_checkudata\<close>, which compares the metatable
  with the one in the registry; the cast of the block that it returns follows.\<close>

definition luaL_checklstring :: "lws_lua \<Rightarrow> nat \<Rightarrow> obj list \<Rightarrow> ngx_str outcome" where
  "luaL_checklstring LL i args =
     (case arg i args of
        OStr s \<Rightarrow> Ret s
      | OInt n \<Rightarrow> Ret (ll_number LL n)
      | _ \<Rightarrow> Err (ll_argerror LL i (lit ''string expected'')))"

definition luaL_checktable :: "lws_lua \<Rightarrow> nat \<Rightarrow> obj list \<Rightarrow> nat outcome" where
  "luaL_checktable LL i args =
     (case arg i args of OTable a \<Rightarrow> Ret a | _ \<Rightarrow> Err (ll_argerror LL i (lit ''table expected'')))"

definition luaL_testudata :: "lua_heap \<Rightarrow> obj \<Rightarrow> ngx_str \<Rightarrow> udata option" where
  "luaL_testudata h v name =
     (case v of
        OUser u \<Rightarrow>
          (case h_users h u of
             Some ud \<Rightarrow>
               (case u_meta ud of
                  Some m \<Rightarrow> if h_registry h name = OTable m then Some (u_data ud) else None
                | None \<Rightarrow> None)
           | None \<Rightarrow> None)
      | _ \<Rightarrow> None)"

definition luaL_checkudata :: "lws_lua \<Rightarrow> lua_heap \<Rightarrow> nat \<Rightarrow> obj list \<Rightarrow> ngx_str \<Rightarrow> udata outcome" where
  "luaL_checkudata LL h i args name =
     (case luaL_testudata h (arg i args) name of
        Some d \<Rightarrow> Ret d
      | None \<Rightarrow> Err (ll_argerror LL i (name @ lit '' expected'')))"

primrec as_table :: "udata \<Rightarrow> lws_lua_table outcome" where
  "as_table (UTable lt) = Ret lt"
| "as_table (UCtx c) = Confused"
| "as_table (UStream s) = Confused"

primrec as_ctx :: "udata \<Rightarrow> lua_ctx_block outcome" where
  "as_ctx (UCtx c) = Ret c"
| "as_ctx (UTable lt) = Confused"
| "as_ctx (UStream s) = Confused"

primrec as_stream :: "udata \<Rightarrow> luaL_Stream outcome" where
  "as_stream (UStream s) = Ret s"
| "as_stream (UCtx c) = Confused"
| "as_stream (UTable lt) = Confused"

section \<open>Lemmas\<close>

lemma chain_eq_Ret: "chain m f = Ret y \<longleftrightarrow> (\<exists>x. m = Ret x \<and> f x = Ret y)"
  by (cases m) auto

lemma chain_eq_Confused: "chain m f = Confused \<longleftrightarrow> m = Confused \<or> (\<exists>x. m = Ret x \<and> f x = Confused)"
  by (cases m) auto

lemma chain_eq_Freed: "chain m f = Freed \<longleftrightarrow> m = Freed \<or> (\<exists>x. m = Ret x \<and> f x = Freed)"
  by (cases m) auto

lemmas chain_eq = chain_eq_Ret chain_eq_Confused chain_eq_Freed

lemma ended_eq [simp]: "ended m = Ret x \<longleftrightarrow> m = Some x" "ended m \<noteq> Confused" "ended m \<noteq> Freed"
  by (auto simp: ended_def split: option.splits)

lemma check_not_ub [simp]:
  "luaL_checklstring LL i args \<noteq> Confused" "luaL_checklstring LL i args \<noteq> Freed"
  "luaL_checktable LL i args \<noteq> Confused" "luaL_checktable LL i args \<noteq> Freed"
  "luaL_checkudata LL h i args name \<noteq> Confused" "luaL_checkudata LL h i args name \<noteq> Freed"
  by (auto simp: luaL_checklstring_def luaL_checktable_def luaL_checkudata_def
      split: obj.splits option.splits)

lemma lit_eq_iff [simp]: "lit s = lit t \<longleftrightarrow> s = t"
  by (rule lit_inject)

lemma lws_names_neq [simp]:
  "LWS_REQUEST_CTX \<noteq> LWS_REQUEST_CTX_CURRENT"  "LWS_REQUEST_CTX \<noteq> LWS_TABLE"
  "LWS_REQUEST_CTX \<noteq> LWS_RESPONSE"  "LWS_REQUEST_CTX \<noteq> LUA_FILEHANDLE"
  "LWS_REQUEST_CTX \<noteq> LWS_PROFILER"  "LWS_REQUEST_CTX_CURRENT \<noteq> LWS_REQUEST_CTX"
  "LWS_REQUEST_CTX_CURRENT \<noteq> LWS_TABLE"  "LWS_REQUEST_CTX_CURRENT \<noteq> LWS_RESPONSE"
  "LWS_REQUEST_CTX_CURRENT \<noteq> LUA_FILEHANDLE"  "LWS_REQUEST_CTX_CURRENT \<noteq> LWS_PROFILER"
  "LWS_TABLE \<noteq> LWS_REQUEST_CTX"  "LWS_TABLE \<noteq> LWS_REQUEST_CTX_CURRENT"
  "LWS_TABLE \<noteq> LWS_RESPONSE"  "LWS_TABLE \<noteq> LUA_FILEHANDLE"
  "LWS_TABLE \<noteq> LWS_PROFILER"  "LWS_RESPONSE \<noteq> LWS_REQUEST_CTX"
  "LWS_RESPONSE \<noteq> LWS_REQUEST_CTX_CURRENT"  "LWS_RESPONSE \<noteq> LWS_TABLE"
  "LWS_RESPONSE \<noteq> LUA_FILEHANDLE"  "LWS_RESPONSE \<noteq> LWS_PROFILER"
  "LUA_FILEHANDLE \<noteq> LWS_REQUEST_CTX"  "LUA_FILEHANDLE \<noteq> LWS_REQUEST_CTX_CURRENT"
  "LUA_FILEHANDLE \<noteq> LWS_TABLE"  "LUA_FILEHANDLE \<noteq> LWS_RESPONSE"
  "LUA_FILEHANDLE \<noteq> LWS_PROFILER"  "LWS_PROFILER \<noteq> LWS_REQUEST_CTX"
  "LWS_PROFILER \<noteq> LWS_REQUEST_CTX_CURRENT"  "LWS_PROFILER \<noteq> LWS_TABLE"
  "LWS_PROFILER \<noteq> LWS_RESPONSE"  "LWS_PROFILER \<noteq> LUA_FILEHANDLE"
  by (simp_all add: lws_names)

text \<open>What each operation does to each part of the heap.\<close>

lemma rawget_ops [simp]:
  "rawget (rawset a k v h) b k' = (if b = a \<and> k' = k then v else rawget h b k')"
  "rawget (setmetatable a m h) b k' = rawget h b k'"
  "rawget (setregistry n v h) b k' = rawget h b k'"
  "rawget (snd (lua_newtable h)) b k' = (if b = h_next h then ONil else rawget h b k')"
  "rawget (snd (newuserdata d m h)) b k' = rawget h b k'"
  "rawget (set_user u d h) b k' = rawget h b k'"
  by (auto simp: rawget_def table_at_def rawset_def setmetatable_def setregistry_def lua_newtable_def
      newuserdata_def set_user_def empty_table_def)

lemma tab_meta_ops [simp]:
  "tab_meta (table_at (rawset a k v h) b) = tab_meta (table_at h b)"
  "tab_meta (table_at (setmetatable a m h) b) =
     (if b = a then (case m of OTable c \<Rightarrow> Some c | _ \<Rightarrow> None) else tab_meta (table_at h b))"
  "tab_meta (table_at (setregistry n v h) b) = tab_meta (table_at h b)"
  "tab_meta (table_at (snd (lua_newtable h)) b) =
     (if b = h_next h then None else tab_meta (table_at h b))"
  "tab_meta (table_at (snd (newuserdata d m h)) b) = tab_meta (table_at h b)"
  "tab_meta (table_at (set_user u d h) b) = tab_meta (table_at h b)"
  by (auto simp: table_at_def rawset_def setmetatable_def setregistry_def lua_newtable_def
      newuserdata_def set_user_def empty_table_def)

lemma h_registry_ops [simp]:
  "h_registry (rawset a k v h) = h_registry h"
  "h_registry (setmetatable a m h) = h_registry h"
  "h_registry (setregistry n v h) = (h_registry h)(n := v)"
  "h_registry (snd (lua_newtable h)) = h_registry h"
  "h_registry (snd (newuserdata d m h)) = h_registry h"
  "h_registry (set_user u d h) = h_registry h"
  by (simp_all add: rawset_def setmetatable_def setregistry_def lua_newtable_def newuserdata_def set_user_def)

lemma h_next_ops [simp]:
  "h_next (rawset a k v h) = h_next h"
  "h_next (setmetatable a m h) = h_next h"
  "h_next (setregistry n v h) = h_next h"
  "h_next (snd (lua_newtable h)) = h_next h + 1"
  "h_next (snd (newuserdata d m h)) = h_next h + 1"
  "h_next (set_user u d h) = h_next h"
  by (simp_all add: rawset_def setmetatable_def setregistry_def lua_newtable_def newuserdata_def set_user_def)

lemma h_globals_ops [simp]:
  "h_globals (rawset a k v h) = h_globals h"
  "h_globals (setmetatable a m h) = h_globals h"
  "h_globals (setregistry n v h) = h_globals h"
  "h_globals (snd (lua_newtable h)) = h_globals h"
  "h_globals (snd (newuserdata d m h)) = h_globals h"
  "h_globals (set_user u d h) = h_globals h"
  by (simp_all add: rawset_def setmetatable_def setregistry_def lua_newtable_def newuserdata_def set_user_def)

lemma h_users_ops [simp]:
  "h_users (rawset a k v h) = h_users h"
  "h_users (setmetatable a m h) = h_users h"
  "h_users (setregistry n v h) = h_users h"
  "h_users (snd (lua_newtable h)) = h_users h"
  "h_users (snd (newuserdata d m h)) = (h_users h)(h_next h \<mapsto>
     \<lparr>u_data = d, u_meta = (case m of OTable b \<Rightarrow> Some b | _ \<Rightarrow> None)\<rparr>)"
  "h_users (set_user u d h) =
     (h_users h)(u := map_option (\<lambda>ud. ud\<lparr>u_data := d\<rparr>) (h_users h u))"
  by (simp_all add: rawset_def setmetatable_def setregistry_def lua_newtable_def newuserdata_def set_user_def)

lemma new_address [simp]:
  "fst (lua_newtable h) = h_next h" "fst (newuserdata d m h) = h_next h"
  by (simp_all add: lua_newtable_def newuserdata_def)

lemma setfields_simps [simp]:
  "setfields a [] h = h"
  "setfields a ((k, v) # fs) h = setfields a fs (rawset a (lit k) v h)"
  by (simp_all add: setfields_def)

end
