(* ===== verification/LwsOpen.thy ===== *)
theory LwsOpen
  imports LwsObjects LwsRunCorrect
begin

text \<open>
  The initialization of a Lua state: \<open>lws_open_lws\<close> of src/lws_lib.c, which makes the library with its
  table of status codes, its metatables, and the hook on the \<open>flush\<close> method of files, and \<open>lws_init\<close> of
  src/lws_state.c, which opens the libraries and sets the paths that Lua loads modules from.
\<close>

section \<open>The library\<close>

definition lws_lua_functions :: "(string \<times> obj) list" where
  "lws_lua_functions =
     [(''log'', OFun F_log), (''getvariable'', OFun F_getvariable), (''redirect'', OFun F_redirect),
      (''setcomplete'', OFun F_setcomplete), (''setclose'', OFun F_setclose),
      (''parseargs'', OFun F_parseargs)]"

text \<open>The strict table of status codes: its metatable has the function that raises an error.\<close>

definition lws_lua_strict_index :: "lws_lua \<Rightarrow> lua_heap \<Rightarrow> obj list \<Rightarrow> obj outcome" where
  "lws_lua_strict_index LL h args =
     chain (luaL_checktable LL 1 args) (\<lambda>a.
       let v = (case arg 2 args of OStr key \<Rightarrow> rawget h a key | _ \<Rightarrow> ONil) in
       if v = ONil then Err (lit ''bad index'') else Ret v)"

definition set_statuses :: "nat \<Rightarrow> lua_heap \<Rightarrow> lua_heap" where
  "set_statuses a h =
     fold (\<lambda>status. rawset a (hs_key status) (OInt (of_int (hs_code status)))) lws_http_status h"

definition push_status :: "lua_heap \<Rightarrow> nat \<times> lua_heap" where
  "push_status h =
     (let (a, h) = lua_newtable h;
          (m, h) = lua_newtable h;
          h = rawset m (lit ''__index'') (OFun F_strict_index) h
      in (a, set_statuses a (setmetatable a (OTable m) h)))"

text \<open>The metatables.\<close>

definition open_metatable :: "ngx_str \<Rightarrow> (string \<times> obj) list \<Rightarrow> lua_heap \<Rightarrow> lua_heap" where
  "open_metatable name fs h = (let (a, h) = luaL_newmetatable name h in setfields a fs h)"

definition lws_request_ctx_methods :: "(string \<times> obj) list" where
  "lws_request_ctx_methods = [(''__tostring'', OFun F_ctx_tostring)]"

definition lws_table_methods :: "(string \<times> obj) list" where
  "lws_table_methods =
     [(''__index'', OFun F_table_index), (''__newindex'', OFun F_table_newindex),
      (''__pairs'', OFun F_table_pairs), (''__tostring'', OFun F_table_tostring),
      (''__gc'', OFun F_table_gc)]"

definition lws_response_methods :: "(string \<times> obj) list" where
  "lws_response_methods =
     [(''__index'', OFun F_response_index), (''__newindex'', OFun F_response_newindex)]"

text \<open>The hook: the \<open>flush\<close> method of files becomes a closure with the old method as its upvalue.\<close>

definition lws_hook_file :: "lua_heap \<Rightarrow> lua_heap outcome" where
  "lws_hook_file h =
     (case h_registry h LUA_FILEHANDLE of
        OTable m \<Rightarrow>
          (case rawget h m (lit ''__index'') of
             OTable i \<Rightarrow>
               (case rawget h i (lit ''flush'') of
                  OFun f \<Rightarrow> Ret (rawset i (lit ''flush'') (OClosure F_file_flush_hook (OFun f)) h)
                | OClosure f u \<Rightarrow>
                    Ret (rawset i (lit ''flush'') (OClosure F_file_flush_hook (OClosure f u)) h)
                | _ \<Rightarrow> Err (lit ''no file flush function''))
           | _ \<Rightarrow> Err (lit ''no file index table''))
      | _ \<Rightarrow> Err (lit ''no file metatable''))"

definition lws_open_lws :: "lua_heap \<Rightarrow> (obj \<times> lua_heap) outcome" where
  "lws_open_lws h =
     (let (lib, h) = lua_newtable h;
          h = setfields lib lws_lua_functions h;
          (st, h) = push_status h;
          h = rawset lib (lit ''status'') (OTable st) h;
          h = open_metatable LWS_REQUEST_CTX lws_request_ctx_methods h;
          h = open_metatable LWS_TABLE lws_table_methods h;
          h = open_metatable LWS_RESPONSE lws_response_methods h
      in chain (lws_hook_file h) (\<lambda>h. Ret (OTable lib, h)))"

section \<open>The state\<close>

definition lws_profiler_methods :: "(string \<times> obj) list" where
  "lws_profiler_methods = [(''__tostring'', OFun F_profiler_tostring), (''__gc'', OFun F_profiler_gc)]"

definition lws_open_profiler :: "lua_heap \<Rightarrow> lua_heap" where
  "lws_open_profiler h = open_metatable LWS_PROFILER lws_profiler_methods h"

text \<open>A path that begins with \<open>+\<close> is appended to the one that is there; an empty path changes nothing.\<close>

definition lws_set_path :: "ngx_str \<Rightarrow> string \<Rightarrow> lua_heap \<Rightarrow> lua_heap outcome" where
  "lws_set_path path field h =
     (if path = [] then Ret h
      else case rawget h (h_globals h) (lit ''package'') of
        OTable p \<Rightarrow>
          if hd path = 43 then
            (case rawget h p (lit field) of
               OStr s \<Rightarrow> Ret (rawset p (lit field) (OStr (s @ lit '';'' @ tl path)) h)
             | _ \<Rightarrow> Err (lit ''failed to get loader '' @ lit field))
          else Ret (rawset p (lit field) (OStr path) h)
      | _ \<Rightarrow> Err (lit ''failed to get loader''))"

text \<open>\<open>luaL_requiref\<close> calls the open function, enters its result into the table of loaded modules and
  sets the global.\<close>

definition luaL_requiref :: "ngx_str \<Rightarrow> (lua_heap \<Rightarrow> (obj \<times> lua_heap) outcome) \<Rightarrow> lua_heap \<Rightarrow> lua_heap outcome" where
  "luaL_requiref name open_fn h =
     chain (open_fn h) (\<lambda>(v, h).
       let h = (case h_registry h (lit ''_LOADED'') of
                  OTable a \<Rightarrow> rawset a name v h
                | _ \<Rightarrow> let (a, h) = lua_newtable h in setregistry (lit ''_LOADED'') (OTable a) (rawset a name v h))
       in Ret (rawset (h_globals h) name v h))"

text \<open>\<open>openlibs\<close> is what \<open>luaL_openlibs\<close> makes of the new state.\<close>

definition lws_init :: "(lua_heap \<Rightarrow> lua_heap) \<Rightarrow> ngx_str \<Rightarrow> ngx_str \<Rightarrow> bool \<Rightarrow> lua_heap \<Rightarrow> lua_heap outcome" where
  "lws_init openlibs path cpath monitor h =
     chain (luaL_requiref LWS_LIB_NAME lws_open_lws (openlibs h)) (\<lambda>h.
       chain (lws_set_path path ''path'' h) (\<lambda>h.
         chain (lws_set_path cpath ''cpath'' h) (\<lambda>h.
           Ret (if monitor then lws_open_profiler h else h))))"

section \<open>What Lua code finds\<close>

text \<open>Lua code that reads \<open>lws.status[key]\<close>: fields of tables, and the function of the strict table.\<close>

definition read_field :: "lws_lua \<Rightarrow> lua_heap \<Rightarrow> obj \<Rightarrow> ngx_str \<Rightarrow> obj outcome" where
  "read_field LL h v key =
     (case v of
        OTable a \<Rightarrow>
          chain (ended (gettable h a key)) (\<lambda>l. case l of
            Value w \<Rightarrow> Ret w
          | CallIndex f b \<Rightarrow>
              if f = OFun F_strict_index then lws_lua_strict_index LL h [OTable b, OStr key]
              else Err (lit ''other function''))
      | _ \<Rightarrow> Err (ll_index_nil LL))"

definition read_status :: "lws_lua \<Rightarrow> lua_heap \<Rightarrow> ngx_str \<Rightarrow> obj outcome" where
  "read_status LL h key =
     chain (read_field LL h (OTable (h_globals h)) (lit ''lws'')) (\<lambda>lib.
       chain (read_field LL h lib (lit ''status'')) (\<lambda>st. read_field LL h st key))"

definition status_codes :: "ngx_str \<rightharpoonup> int" where
  "status_codes = map_of (map (\<lambda>s. (hs_key s, hs_code s)) lws_http_status)"

lemma status_keys_distinct: "distinct (map hs_key lws_http_status)"
  by (simp add: lws_http_status_def lws_http_status_1xx_def lws_http_status_2xx_def lws_http_status_3xx_def
      lws_http_status_4xx_def lws_http_status_5xx_def)

lemma rawget_set_statuses_list:
  "distinct (map hs_key ss) \<Longrightarrow>
   rawget (fold (\<lambda>s. rawset a (hs_key s) (OInt (of_int (hs_code s)))) ss h) b key =
     (if b = a then
        case map_of (map (\<lambda>s. (hs_key s, hs_code s)) ss) key of
          Some c \<Rightarrow> OInt (of_int c) | None \<Rightarrow> rawget h b key
      else rawget h b key)"
proof (induction ss arbitrary: h)
  case (Cons s ss)
  then have "map_of (map (\<lambda>s. (hs_key s, hs_code s)) ss) (hs_key s) = None"
    by (force simp: map_of_eq_None_iff)
  with Cons show ?case by (auto split: option.split)
qed simp

lemma rawget_set_statuses [simp]:
  "rawget (set_statuses a h) b key =
     (if b = a then case status_codes key of Some c \<Rightarrow> OInt (of_int c) | None \<Rightarrow> rawget h b key
      else rawget h b key)"
  unfolding set_statuses_def status_codes_def by (rule rawget_set_statuses_list [OF status_keys_distinct])

lemma fold_rawset_other:
  "tab_meta (table_at (fold (\<lambda>s. rawset a (f s) (g s)) ss h) b) = tab_meta (table_at h b)"
  "h_registry (fold (\<lambda>s. rawset a (f s) (g s)) ss h) = h_registry h"
  "h_next (fold (\<lambda>s. rawset a (f s) (g s)) ss h) = h_next h"
  "h_globals (fold (\<lambda>s. rawset a (f s) (g s)) ss h) = h_globals h"
  "h_users (fold (\<lambda>s. rawset a (f s) (g s)) ss h) = h_users h"
  by (induction ss arbitrary: h) simp_all

lemma set_statuses_other [simp]:
  "tab_meta (table_at (set_statuses a h) b) = tab_meta (table_at h b)"
  "h_registry (set_statuses a h) = h_registry h"
  "h_next (set_statuses a h) = h_next h"
  "h_globals (set_statuses a h) = h_globals h"
  "h_users (set_statuses a h) = h_users h"
  by (simp_all add: set_statuses_def fold_rawset_other)

section \<open>The initialized state\<close>

text \<open>What the code relies on in the standard libraries: the table \<open>package\<close> with its paths, the table of
  loaded modules, and the metatable of files with its methods, \<open>flush\<close> among them. Only the metatable of
  files may be its own \<open>__index\<close>. No library of the name \<open>lws\<close> is open.\<close>

record std_libs =
  sl_package :: nat
  sl_path :: ngx_str
  sl_cpath :: ngx_str
  sl_loaded :: nat
  sl_file_meta :: nat
  sl_file_index :: nat
  sl_flush :: lws_cfunction

definition std_libs_ok :: "std_libs \<Rightarrow> lua_heap \<Rightarrow> bool" where
  "std_libs_ok sl h \<longleftrightarrow>
     rawget h (h_globals h) (lit ''package'') = OTable (sl_package sl) \<and>
     rawget h (sl_package sl) (lit ''path'') = OStr (sl_path sl) \<and>
     rawget h (sl_package sl) (lit ''cpath'') = OStr (sl_cpath sl) \<and>
     h_registry h (lit ''_LOADED'') = OTable (sl_loaded sl) \<and>
     h_registry h LUA_FILEHANDLE = OTable (sl_file_meta sl) \<and>
     rawget h (sl_file_meta sl) (lit ''__index'') = OTable (sl_file_index sl) \<and>
     rawget h (sl_file_index sl) (lit ''flush'') = OFun (sl_flush sl) \<and>
     distinct [h_globals h, sl_package sl, sl_loaded sl, sl_file_meta sl] \<and>
     sl_file_index sl \<notin> {h_globals h, sl_package sl, sl_loaded sl} \<and>
     {h_globals h, sl_package sl, sl_loaded sl, sl_file_meta sl, sl_file_index sl} \<subseteq> {..<h_next h} \<and>
     tab_meta (table_at h (h_globals h)) = None \<and>
     h_registry h LWS_REQUEST_CTX = ONil \<and> h_registry h LWS_TABLE = ONil \<and>
     h_registry h LWS_RESPONSE = ONil \<and> h_registry h LWS_PROFILER = ONil"

definition new_path :: "ngx_str \<Rightarrow> ngx_str \<Rightarrow> ngx_str" where
  "new_path path old = (if path = [] then old else if hd path = 43 then old @ lit '';'' @ tl path else path)"

lemma rawget_setfields:
  "distinct (map fst fs) \<Longrightarrow>
   rawget (setfields a fs h) b key =
     (if b = a then case map_of (map (\<lambda>(k, v). (lit k, v)) fs) key of Some v \<Rightarrow> v | None \<Rightarrow> rawget h b key
      else rawget h b key)"
proof (induction fs arbitrary: h)
  case (Cons f fs)
  obtain k v where "f = (k, v)" by (cases f)
  with Cons have "map_of (map (\<lambda>(k, v). (lit k, v)) fs) (lit k) = None"
    by (force simp: map_of_eq_None_iff)
  with Cons \<open>f = (k, v)\<close> show ?case by (auto split: option.split)
qed simp

lemma setfields_other [simp]:
  "tab_meta (table_at (setfields a fs h) b) = tab_meta (table_at h b)"
  "h_registry (setfields a fs h) = h_registry h"
  "h_next (setfields a fs h) = h_next h"
  "h_globals (setfields a fs h) = h_globals h"
  "h_users (setfields a fs h) = h_users h"
  by (induction fs arbitrary: h) auto

text \<open>Opening a metatable under a name that is not taken.\<close>

lemma open_metatable_new:
  assumes "h_registry h name = ONil" "distinct (map fst fs)" "''__name'' \<notin> set (map fst fs)"
  shows "h_registry (open_metatable name fs h) = (h_registry h)(name := OTable (h_next h))"
    "h_next (open_metatable name fs h) = h_next h + 1"
    "h_globals (open_metatable name fs h) = h_globals h"
    "h_users (open_metatable name fs h) = h_users h"
    "b \<noteq> h_next h \<Longrightarrow> rawget (open_metatable name fs h) b key = rawget h b key"
    "b \<noteq> h_next h \<Longrightarrow> tab_meta (table_at (open_metatable name fs h) b) = tab_meta (table_at h b)"
    "(k, v) \<in> set fs \<Longrightarrow> rawget (open_metatable name fs h) (h_next h) (lit k) = v"
proof -
  show "rawget (open_metatable name fs h) (h_next h) (lit k) = v" if "(k, v) \<in> set fs"
  proof -
    have "map_of (map (\<lambda>(k, v). (lit k, v)) fs) (lit k) = Some v"
      using that assms(2) by (induction fs) (auto, force)
    with assms show ?thesis
      by (simp add: open_metatable_def luaL_newmetatable_def split_beta Let_def rawget_setfields)
  qed
qed (use assms in \<open>simp_all add: open_metatable_def luaL_newmetatable_def split_beta Let_def
      rawget_setfields\<close>)

lemma push_status_result:
  "fst (push_status h) = h_next h"
  "rawget (snd (push_status h)) b key =
     (if b = h_next h then case status_codes key of Some c \<Rightarrow> OInt (of_int c) | None \<Rightarrow> ONil
      else if b = h_next h + 1 then (if key = lit ''__index'' then OFun F_strict_index else ONil)
      else rawget h b key)"
  "tab_meta (table_at (snd (push_status h)) b) =
     (if b = h_next h then Some (h_next h + 1) else if b = h_next h + 1 then None
      else tab_meta (table_at h b))"
  "h_registry (snd (push_status h)) = h_registry h"
  "h_next (snd (push_status h)) = h_next h + 2"
  "h_globals (snd (push_status h)) = h_globals h"
  "h_users (snd (push_status h)) = h_users h"
  by (auto simp: push_status_def split_beta Let_def split: option.split)

text \<open>What \<open>lws_open_lws\<close> makes: the library and its metatables; nothing else changes but \<open>flush\<close>.\<close>

definition opened :: "std_libs \<Rightarrow> lua_heap \<Rightarrow> lua_heap \<Rightarrow> bool" where
  "opened sl h h' \<longleftrightarrow>
     (\<forall>f v. (f, v) \<in> set lws_lua_functions \<longrightarrow> rawget h' (h_next h) (lit f) = v) \<and>
     rawget h' (h_next h) (lit ''status'') = OTable (h_next h + 1) \<and>
     (\<forall>key. rawget h' (h_next h + 1) key =
        (case status_codes key of Some c \<Rightarrow> OInt (of_int c) | None \<Rightarrow> ONil)) \<and>
     tab_meta (table_at h' (h_next h + 1)) = Some (h_next h + 2) \<and>
     rawget h' (h_next h + 2) (lit ''__index'') = OFun F_strict_index \<and>
     h_registry h' = (h_registry h)(LWS_REQUEST_CTX := OTable (h_next h + 3),
       LWS_TABLE := OTable (h_next h + 4), LWS_RESPONSE := OTable (h_next h + 5)) \<and>
     (\<forall>k v. (k, v) \<in> set lws_request_ctx_methods \<longrightarrow> rawget h' (h_next h + 3) (lit k) = v) \<and>
     (\<forall>k v. (k, v) \<in> set lws_table_methods \<longrightarrow> rawget h' (h_next h + 4) (lit k) = v) \<and>
     (\<forall>k v. (k, v) \<in> set lws_response_methods \<longrightarrow> rawget h' (h_next h + 5) (lit k) = v) \<and>
     (\<forall>b < h_next h. tab_meta (table_at h' b) = tab_meta (table_at h b) \<and>
       (\<forall>key. rawget h' b key =
         (if b = sl_file_index sl \<and> key = lit ''flush''
          then OClosure F_file_flush_hook (OFun (sl_flush sl)) else rawget h b key))) \<and>
     h_globals h' = h_globals h \<and> h_next h' = h_next h + 6 \<and> h_users h' = h_users h"

lemma lws_open_lws_opened:
  assumes "std_libs_ok sl h"
  shows "\<exists>h'. lws_open_lws h = Ret (OTable (h_next h), h') \<and> opened sl h h'"
proof -
  define h1 where "h1 = setfields (h_next h) lws_lua_functions (snd (lua_newtable h))"
  define h2 where "h2 = rawset (h_next h) (lit ''status'') (OTable (h_next h + 1)) (snd (push_status h1))"
  define h3 where "h3 = open_metatable LWS_REQUEST_CTX lws_request_ctx_methods h2"
  define h4 where "h4 = open_metatable LWS_TABLE lws_table_methods h3"
  define h5 where "h5 = open_metatable LWS_RESPONSE lws_response_methods h4"
  define h6 where "h6 = rawset (sl_file_index sl) (lit ''flush'')
    (OClosure F_file_flush_hook (OFun (sl_flush sl))) h5"
  note sl = assms [unfolded std_libs_ok_def]
  have next12: "h_next h1 = h_next h + 1" "h_next h2 = h_next h + 3"
    by (simp_all add: h1_def h2_def push_status_result)
  have reg2: "h_registry h2 = h_registry h" by (simp add: h1_def h2_def push_status_result)
  note open3 = open_metatable_new [of h2 LWS_REQUEST_CTX lws_request_ctx_methods, folded h3_def]
  have o3: "h_registry h3 = (h_registry h)(LWS_REQUEST_CTX := OTable (h_next h + 3))"
    "h_next h3 = h_next h + 4"
    using open3 sl by (simp_all add: reg2 next12 lws_request_ctx_methods_def)
  note open4 = open_metatable_new [of h3 LWS_TABLE lws_table_methods, folded h4_def]
  have o4: "h_registry h4 = (h_registry h)(LWS_REQUEST_CTX := OTable (h_next h + 3), LWS_TABLE := OTable (h_next h + 4))"
    "h_next h4 = h_next h + 5"
    using open4 sl by (simp_all add: o3 lws_table_methods_def)
  note open5 = open_metatable_new [of h4 LWS_RESPONSE lws_response_methods, folded h5_def]
  have o5: "h_registry h5 = (h_registry h)(LWS_REQUEST_CTX := OTable (h_next h + 3),
      LWS_TABLE := OTable (h_next h + 4), LWS_RESPONSE := OTable (h_next h + 5))"
    "h_next h5 = h_next h + 6"
    using open5 sl by (simp_all add: o4 lws_response_methods_def)
  have get2: "rawget h2 b key = (if b = h_next h then
        if key = lit ''status'' then OTable (h_next h + 1)
        else (case map_of (map (\<lambda>(k, v). (lit k, v)) lws_lua_functions) key of Some v \<Rightarrow> v | None \<Rightarrow> ONil)
      else if b = h_next h + 1 then (case status_codes key of Some c \<Rightarrow> OInt (of_int c) | None \<Rightarrow> ONil)
      else if b = h_next h + 2 then (if key = lit ''__index'' then OFun F_strict_index else ONil)
      else rawget h b key)" for b key
    by (simp add: h2_def push_status_result h1_def lws_lua_functions_def)
  have meta2: "tab_meta (table_at h2 b) = (if b = h_next h + 1 then Some (h_next h + 2)
      else if b \<in> {h_next h, h_next h + 2} then None else tab_meta (table_at h b))" for b
    by (simp add: h2_def push_status_result h1_def)
  have reg: "h_registry h2 LWS_REQUEST_CTX = ONil" "h_registry h3 LWS_TABLE = ONil"
    "h_registry h4 LWS_RESPONSE = ONil"
    using sl by (simp_all add: reg2 o3 o4)
  have get: "rawget h5 b key = rawget h2 b key" "tab_meta (table_at h5 b) = tab_meta (table_at h2 b)"
    if "b < h_next h + 3" for b key
    using that open3(5,6) [OF reg(1)] open4(5,6) [OF reg(2)] open5(5,6) [OF reg(3)]
    by (simp_all add: next12 o3 o4 lws_request_ctx_methods_def lws_table_methods_def lws_response_methods_def)
  have methods: "(k, v) \<in> set lws_request_ctx_methods \<Longrightarrow> rawget h5 (h_next h + 3) (lit k) = v"
    "(k, v) \<in> set lws_table_methods \<Longrightarrow> rawget h5 (h_next h + 4) (lit k) = v"
    "(k, v) \<in> set lws_response_methods \<Longrightarrow> rawget h5 (h_next h + 5) (lit k) = v" for k v
    using open3(7) [OF reg(1), of k v] open4(5) [OF reg(2), of "h_next h + 3" "lit k"]
      open4(7) [OF reg(2), of k v] open5(5) [OF reg(3), of "h_next h + 3" "lit k"] open5(5) [OF reg(3), of "h_next h + 4" "lit k"]
      open5(7) [OF reg(3), of k v]
    by (simp_all add: next12 o3 o4 lws_request_ctx_methods_def lws_table_methods_def lws_response_methods_def)
  have same: "h_globals h5 = h_globals h" "h_users h5 = h_users h"
    using open3(3,4) [OF reg(1)] open4(3,4) [OF reg(2)] open5(3,4) [OF reg(3)]
    by (simp_all add: lws_request_ctx_methods_def lws_table_methods_def lws_response_methods_def h2_def push_status_result h1_def)
  have old: "rawget h5 b key = rawget h b key" "tab_meta (table_at h5 b) = tab_meta (table_at h b)"
    if "b < h_next h" for b key
    using that by (simp_all add: get get2 meta2)
  have "sl_file_meta sl < h_next h" "sl_file_index sl < h_next h" using sl by simp_all
  moreover have "h_registry h5 LUA_FILEHANDLE = OTable (sl_file_meta sl)" using sl by (simp add: o5)
  ultimately have "lws_hook_file h5 = Ret h6"
    using sl by (simp add: lws_hook_file_def old h6_def)
  moreover have "lws_open_lws h = chain (lws_hook_file h5) (\<lambda>h'. Ret (OTable (h_next h), h'))"
    unfolding lws_open_lws_def h5_def h4_def h3_def h2_def h1_def
    by (simp add: split_beta Let_def push_status_result)
  ultimately have "lws_open_lws h = Ret (OTable (h_next h), h6)" by simp
  moreover have "opened sl h h6"
  proof -
    have index: "sl_file_index sl < h_next h" using sl by simp
    have "\<forall>b < h_next h. tab_meta (table_at h6 b) = tab_meta (table_at h b) \<and>
       (\<forall>key. rawget h6 b key =
         (if b = sl_file_index sl \<and> key = lit ''flush''
          then OClosure F_file_flush_hook (OFun (sl_flush sl)) else rawget h b key))"
      by (simp add: h6_def old)
    moreover have "(f, v) \<in> set lws_lua_functions \<Longrightarrow> rawget h6 (h_next h) (lit f) = v" for f v
      using index by (auto simp: h6_def get get2 lws_lua_functions_def)
    ultimately show ?thesis
      using index methods by (simp add: opened_def h6_def get get2 meta2 o5 same)
  qed
  ultimately show ?thesis by blast
qed

lemma gettable_value: "rawget h a key = v \<Longrightarrow> v \<noteq> ONil \<Longrightarrow> gettable h a key = Some (Value v)"
  by (subst gettable.simps) simp

lemma read_field_value: "rawget h a key = v \<Longrightarrow> v \<noteq> ONil \<Longrightarrow> read_field LL h (OTable a) key = Ret v"
  by (simp add: read_field_def gettable_value ended_def)

lemma lws_set_path_result:
  assumes "rawget h (h_globals h) (lit ''package'') = OTable p" "rawget h p (lit field) = OStr old"
  shows "\<exists>h'. lws_set_path path field h = Ret h' \<and>
    (\<forall>b k. rawget h' b k = (if b = p \<and> k = lit field then OStr (new_path path old) else rawget h b k)) \<and>
    (\<forall>b. tab_meta (table_at h' b) = tab_meta (table_at h b)) \<and>
    h_registry h' = h_registry h \<and> h_globals h' = h_globals h \<and> h_next h' = h_next h \<and> h_users h' = h_users h"
proof (cases "path = []")
  case True
  with assms show ?thesis by (simp add: lws_set_path_def new_path_def)
next
  case False
  with assms show ?thesis by (simp add: lws_set_path_def new_path_def)
qed

text \<open>Reading a status, from the tables that make up the library.\<close>

lemma read_status_result:
  assumes "rawget h (h_globals h) (lit ''lws'') = OTable lib" "rawget h lib (lit ''status'') = OTable st"
    and st: "\<And>key. rawget h st key = (case status_codes key of Some c \<Rightarrow> OInt (of_int c) | None \<Rightarrow> ONil)"
    and "tab_meta (table_at h st) = Some m" "rawget h m (lit ''__index'') = OFun F_strict_index"
  shows "read_status LL h key =
    (case status_codes key of Some c \<Rightarrow> Ret (OInt (of_int c)) | None \<Rightarrow> Err (lit ''bad index''))"
proof (cases "status_codes key")
  case None
  then have "gettable h st key = Some (CallIndex (OFun F_strict_index) st)"
    using assms by (subst gettable.simps) simp
  with None assms show ?thesis
    by (simp add: read_status_def read_field_value)
      (simp add: read_field_def ended_def lws_lua_strict_index_def luaL_checktable_def arg_def)
next
  case (Some c)
  with assms show ?thesis by (simp add: read_status_def read_field_value)
qed

text \<open>The steps of the initialization: the library is open and entered under its name, then the paths are set.\<close>

lemma requiref_result:
  assumes "std_libs_ok sl h"
  shows "\<exists>h1 h2. luaL_requiref LWS_LIB_NAME lws_open_lws h = Ret h2 \<and> opened sl h h1 \<and>
    (\<forall>b k. rawget h2 b k = (if b \<in> {h_globals h, sl_loaded sl} \<and> k = lit ''lws'' then OTable (h_next h)
       else rawget h1 b k)) \<and>
    (\<forall>b. tab_meta (table_at h2 b) = tab_meta (table_at h1 b)) \<and> h_registry h2 = h_registry h1 \<and>
    h_globals h2 = h_globals h \<and> h_next h2 = h_next h1 \<and> h_users h2 = h_users h"
proof -
  note sl = assms [unfolded std_libs_ok_def]
  obtain h1 where h1: "lws_open_lws h = Ret (OTable (h_next h), h1)" and o: "opened sl h h1"
    using lws_open_lws_opened [OF assms] by blast
  note o' = o [unfolded opened_def]
  define h2 where "h2 = rawset (h_globals h) LWS_LIB_NAME (OTable (h_next h))
    (rawset (sl_loaded sl) LWS_LIB_NAME (OTable (h_next h)) h1)"
  have "lit ''_LOADED'' \<notin> {LWS_REQUEST_CTX, LWS_TABLE, LWS_RESPONSE}" by (simp add: lws_names)
  then have "luaL_requiref LWS_LIB_NAME lws_open_lws h = Ret h2"
    using o' sl by (simp add: luaL_requiref_def h1 h2_def)
  moreover have "rawget h2 b k = (if b \<in> {h_globals h, sl_loaded sl} \<and> k = lit ''lws'' then OTable (h_next h)
      else rawget h1 b k)" for b k
    by (simp add: h2_def LWS_LIB_NAME_def)
  moreover have "tab_meta (table_at h2 b) = tab_meta (table_at h1 b)" "h_registry h2 = h_registry h1"
    "h_globals h2 = h_globals h" "h_next h2 = h_next h1" "h_users h2 = h_users h" for b
    using o' by (simp_all add: h2_def)
  ultimately show ?thesis using o by blast
qed

lemma set_paths_result:
  assumes "rawget h (h_globals h) (lit ''package'') = OTable p" "rawget h p (lit ''path'') = OStr s"
    "rawget h p (lit ''cpath'') = OStr t" "p \<noteq> h_globals h"
  shows "\<exists>h'. chain (lws_set_path path ''path'' h) (\<lambda>h. lws_set_path cpath ''cpath'' h) = Ret h' \<and>
    (\<forall>b k. rawget h' b k = (if b = p \<and> k = lit ''cpath'' then OStr (new_path cpath t)
       else if b = p \<and> k = lit ''path'' then OStr (new_path path s) else rawget h b k)) \<and>
    (\<forall>b. tab_meta (table_at h' b) = tab_meta (table_at h b)) \<and> h_registry h' = h_registry h \<and>
    h_globals h' = h_globals h \<and> h_next h' = h_next h \<and> h_users h' = h_users h"
proof -
  obtain h3 where h3: "lws_set_path path ''path'' h = Ret h3"
    "\<And>b k. rawget h3 b k = (if b = p \<and> k = lit ''path'' then OStr (new_path path s) else rawget h b k)"
    "\<And>b. tab_meta (table_at h3 b) = tab_meta (table_at h b)"
    "h_registry h3 = h_registry h" "h_globals h3 = h_globals h" "h_next h3 = h_next h" "h_users h3 = h_users h"
    using lws_set_path_result [OF assms(1,2), of path] by blast
  have "rawget h3 (h_globals h3) (lit ''package'') = OTable p" "rawget h3 p (lit ''cpath'') = OStr t"
    using assms by (simp_all add: h3)
  from lws_set_path_result [OF this, of cpath] show ?thesis by (auto simp: h3)
qed

text \<open>The state after the initialization: the new tables begin at \<open>n\<close>.\<close>

definition initialized :: "std_libs \<Rightarrow> ngx_str \<Rightarrow> ngx_str \<Rightarrow> bool \<Rightarrow> lua_heap \<Rightarrow> lua_heap \<Rightarrow> bool" where
  "initialized sl path cpath monitor h h' \<longleftrightarrow>
     (let n = h_next h in
      (\<exists>h1. opened sl h h1 \<and>
        (\<forall>b < n + 6. tab_meta (table_at h' b) = tab_meta (table_at h1 b) \<and>
          (\<forall>k. rawget h' b k =
            (if b = sl_package sl \<and> k = lit ''cpath'' then OStr (new_path cpath (sl_cpath sl))
             else if b = sl_package sl \<and> k = lit ''path'' then OStr (new_path path (sl_path sl))
             else if b \<in> {h_globals h, sl_loaded sl} \<and> k = lit ''lws'' then OTable n else rawget h1 b k)))) \<and>
      h_registry h' = (if monitor then (\<lambda>r. r(LWS_PROFILER := OTable (n + 6))) else id)
        ((h_registry h)(LWS_REQUEST_CTX := OTable (n + 3), LWS_TABLE := OTable (n + 4), LWS_RESPONSE := OTable (n + 5))) \<and>
      (monitor \<longrightarrow> (\<forall>k v. (k, v) \<in> set lws_profiler_methods \<longrightarrow> rawget h' (n + 6) (lit k) = v)) \<and>
      h_globals h' = h_globals h \<and> h_next h' = (if monitor then n + 7 else n + 6) \<and> h_users h' = h_users h)"

lemma lws_init_initialized:
  assumes "std_libs_ok sl (openlibs h0)"
  shows "\<exists>h. lws_init openlibs path cpath monitor h0 = Ret h \<and>
    initialized sl path cpath monitor (openlibs h0) h"
proof -
  let ?h = "openlibs h0"
  note sl = assms [unfolded std_libs_ok_def]
  obtain h1 h2 where h2: "luaL_requiref LWS_LIB_NAME lws_open_lws ?h = Ret h2" and o: "opened sl ?h h1"
    and get2: "\<And>b k. rawget h2 b k = (if b \<in> {h_globals ?h, sl_loaded sl} \<and> k = lit ''lws'' then OTable (h_next ?h)
      else rawget h1 b k)"
    and other2: "\<And>b. tab_meta (table_at h2 b) = tab_meta (table_at h1 b)" "h_registry h2 = h_registry h1"
      "h_globals h2 = h_globals ?h" "h_next h2 = h_next h1" "h_users h2 = h_users ?h"
    using requiref_result [OF assms] by blast
  note o' = o [unfolded opened_def]
  have old1: "rawget h1 b key = rawget ?h b key" if "b < h_next ?h" "b \<noteq> sl_file_index sl" for b key
    using o' that by auto
  have "rawget h2 (h_globals h2) (lit ''package'') = OTable (sl_package sl)"
    "rawget h2 (sl_package sl) (lit ''path'') = OStr (sl_path sl)"
    "rawget h2 (sl_package sl) (lit ''cpath'') = OStr (sl_cpath sl)" "sl_package sl \<noteq> h_globals h2"
    using sl by (simp_all add: get2 other2 old1)
  from set_paths_result [OF this, of path cpath] obtain h4 where
    h4: "chain (lws_set_path path ''path'' h2) (\<lambda>h. lws_set_path cpath ''cpath'' h) = Ret h4"
    and get4: "\<And>b k. rawget h4 b k = (if b = sl_package sl \<and> k = lit ''cpath'' then OStr (new_path cpath (sl_cpath sl))
       else if b = sl_package sl \<and> k = lit ''path'' then OStr (new_path path (sl_path sl)) else rawget h2 b k)"
    and other4: "\<And>b. tab_meta (table_at h4 b) = tab_meta (table_at h2 b)" "h_registry h4 = h_registry h2"
      "h_globals h4 = h_globals h2" "h_next h4 = h_next h2" "h_users h4 = h_users h2"
    by blast
  define h5 where "h5 = (if monitor then lws_open_profiler h4 else h4)"
  have "lws_init openlibs path cpath monitor h0 = Ret h5"
    using h4 by (cases "lws_set_path path ''path'' h2") (simp_all add: lws_init_def h2 h5_def)
  moreover have "initialized sl path cpath monitor ?h h5"
  proof -
    have "h_registry h4 LWS_PROFILER = ONil" using o' sl by (simp add: other4 other2)
    from open_metatable_new [OF this, of lws_profiler_methods, folded lws_open_profiler_def]
    have prof: "h_registry (lws_open_profiler h4) = (h_registry h4)(LWS_PROFILER := OTable (h_next h4))"
      "h_next (lws_open_profiler h4) = h_next h4 + 1" "h_globals (lws_open_profiler h4) = h_globals h4"
      "h_users (lws_open_profiler h4) = h_users h4"
      "b \<noteq> h_next h4 \<Longrightarrow> rawget (lws_open_profiler h4) b key = rawget h4 b key"
      "b \<noteq> h_next h4 \<Longrightarrow> tab_meta (table_at (lws_open_profiler h4) b) = tab_meta (table_at h4 b)"
      "(k, v) \<in> set lws_profiler_methods \<Longrightarrow> rawget (lws_open_profiler h4) (h_next h4) (lit k) = v" for b key k v
      by (simp_all add: lws_profiler_methods_def)
    have n4: "h_next h4 = h_next ?h + 6" using o' by (simp add: other4 other2)
    have "rawget h5 b k = rawget h4 b k" "tab_meta (table_at h5 b) = tab_meta (table_at h4 b)"
      if "b < h_next ?h + 6" for b k
      using that prof(5,6) [of b] n4 by (simp_all add: h5_def)
    then have "\<forall>b < h_next ?h + 6. tab_meta (table_at h5 b) = tab_meta (table_at h1 b) \<and>
          (\<forall>k. rawget h5 b k =
            (if b = sl_package sl \<and> k = lit ''cpath'' then OStr (new_path cpath (sl_cpath sl))
             else if b = sl_package sl \<and> k = lit ''path'' then OStr (new_path path (sl_path sl))
             else if b \<in> {h_globals ?h, sl_loaded sl} \<and> k = lit ''lws'' then OTable (h_next ?h) else rawget h1 b k))"
      by (auto simp: get4 get2 other4 other2)
    moreover have "h_registry h5 = (if monitor then (\<lambda>r. r(LWS_PROFILER := OTable (h_next ?h + 6))) else id)
        ((h_registry ?h)(LWS_REQUEST_CTX := OTable (h_next ?h + 3), LWS_TABLE := OTable (h_next ?h + 4),
          LWS_RESPONSE := OTable (h_next ?h + 5)))"
      using o' prof(1) n4 by (simp add: h5_def other4 other2)
    moreover have "monitor \<longrightarrow> (\<forall>k v. (k, v) \<in> set lws_profiler_methods \<longrightarrow> rawget h5 (h_next ?h + 6) (lit k) = v)"
      using prof(7) n4 by (simp add: h5_def)
    moreover have "h_globals h5 = h_globals ?h" "h_users h5 = h_users ?h"
      "h_next h5 = (if monitor then h_next ?h + 7 else h_next ?h + 6)"
      using prof(2,3,4) n4 by (simp_all add: h5_def other4 other2)
    ultimately show ?thesis using o unfolding initialized_def Let_def by blast
  qed
  ultimately show ?thesis by blast
qed

text \<open>A metatable of the registry, with its methods.\<close>

definition registered :: "lua_heap \<Rightarrow> ngx_str \<Rightarrow> (string \<times> obj) list \<Rightarrow> bool" where
  "registered h name methods \<longleftrightarrow> (\<exists>m. h_registry h name = OTable m \<and>
     list_all (\<lambda>(k, v). rawget h m (lit k) = v) methods)"

lemma initialized_fields:
  assumes "std_libs_ok sl h" "initialized sl path cpath monitor h h'"
  shows "rawget h' (h_globals h') (lit ''lws'') = OTable (h_next h)"
    "rawget h' (sl_loaded sl) (lit ''lws'') = OTable (h_next h)"
    "list_all (\<lambda>(f, v). rawget h' (h_next h) (lit f) = v) lws_lua_functions"
    "registered h' LWS_REQUEST_CTX lws_request_ctx_methods" "registered h' LWS_TABLE lws_table_methods"
    "registered h' LWS_RESPONSE lws_response_methods"
    "if monitor then registered h' LWS_PROFILER lws_profiler_methods else h_registry h' LWS_PROFILER = ONil"
    "rawget h' (sl_package sl) (lit ''path'') = OStr (new_path path (sl_path sl))"
    "rawget h' (sl_package sl) (lit ''cpath'') = OStr (new_path cpath (sl_cpath sl))"
    "rawget h' (sl_file_index sl) (lit ''flush'') = OClosure F_file_flush_hook (OFun (sl_flush sl))"
    "read_status LL h' key =
      (case status_codes key of Some c \<Rightarrow> Ret (OInt (of_int c)) | None \<Rightarrow> Err (lit ''bad index''))"
proof -
  note sl = assms(1) [unfolded std_libs_ok_def]
  have lt: "h_globals h < h_next h" "sl_package sl < h_next h" "sl_loaded sl < h_next h"
    "sl_file_index sl < h_next h" using sl by simp_all
  have ne: "sl_package sl \<notin> {h_globals h, sl_loaded sl, sl_file_index sl}"
    "h_globals h \<notin> {sl_package sl, sl_file_index sl}"
    "sl_file_index sl \<notin> {sl_package sl, h_globals h, sl_loaded sl}" using sl by auto
  from assms(2) obtain h1 where o: "opened sl h h1"
    and get: "\<And>b k. b < h_next h + 6 \<Longrightarrow> rawget h' b k =
      (if b = sl_package sl \<and> k = lit ''cpath'' then OStr (new_path cpath (sl_cpath sl))
       else if b = sl_package sl \<and> k = lit ''path'' then OStr (new_path path (sl_path sl))
       else if b \<in> {h_globals h, sl_loaded sl} \<and> k = lit ''lws'' then OTable (h_next h) else rawget h1 b k)"
    and meta: "\<And>b. b < h_next h + 6 \<Longrightarrow> tab_meta (table_at h' b) = tab_meta (table_at h1 b)"
    and other: "h_registry h' = (if monitor then (\<lambda>r. r(LWS_PROFILER := OTable (h_next h + 6))) else id)
        ((h_registry h)(LWS_REQUEST_CTX := OTable (h_next h + 3), LWS_TABLE := OTable (h_next h + 4),
          LWS_RESPONSE := OTable (h_next h + 5)))" "h_globals h' = h_globals h"
      "monitor \<Longrightarrow> (k, v) \<in> set lws_profiler_methods \<Longrightarrow> rawget h' (h_next h + 6) (lit k) = v" for k v
    unfolding initialized_def Let_def by blast
  note o' = o [unfolded opened_def]
  have new: "rawget h' b k = rawget h1 b k" if "h_next h \<le> b" "b < h_next h + 6" for b k
    using that lt by (auto simp: get)
  show lib: "rawget h' (h_globals h') (lit ''lws'') = OTable (h_next h)" using lt by (simp add: get other)
  show "rawget h' (sl_loaded sl) (lit ''lws'') = OTable (h_next h)" using lt ne by (auto simp: get)
  show "list_all (\<lambda>(f, v). rawget h' (h_next h) (lit f) = v) lws_lua_functions"
    "registered h' LWS_REQUEST_CTX lws_request_ctx_methods" "registered h' LWS_TABLE lws_table_methods"
    "registered h' LWS_RESPONSE lws_response_methods"
    "if monitor then registered h' LWS_PROFILER lws_profiler_methods else h_registry h' LWS_PROFILER = ONil"
    using o' sl other(3) by (auto simp: registered_def list_all_iff new other(1))
  show "rawget h' (sl_package sl) (lit ''path'') = OStr (new_path path (sl_path sl))"
    "rawget h' (sl_package sl) (lit ''cpath'') = OStr (new_path cpath (sl_cpath sl))"
    using lt by (simp_all add: get)
  show "rawget h' (sl_file_index sl) (lit ''flush'') = OClosure F_file_flush_hook (OFun (sl_flush sl))"
    using lt ne o' by (simp add: get)
  show "read_status LL h' key =
      (case status_codes key of Some c \<Rightarrow> Ret (OInt (of_int c)) | None \<Rightarrow> Err (lit ''bad index''))"
  proof (rule read_status_result)
    show "rawget h' (h_globals h') (lit ''lws'') = OTable (h_next h)" by (rule lib)
    show "tab_meta (table_at h' (h_next h + 1)) = Some (h_next h + 2)" using o' by (simp add: meta)
  qed (use o' in \<open>simp_all add: new\<close>)
qed

text \<open>C19: A new Lua state is initialized as documented, whatever the standard libraries and the paths of
  the location are: \<open>lws.status[key]\<close> is the code of the status for each of its names, and an error for
  every other key; the library is a global and a loaded module, with its functions; \<open>package.path\<close> and
  \<open>package.cpath\<close> are the configured paths, appended if they begin with a plus sign and left alone if they
  are empty; the metatables of request contexts, tables and responses are registered with all their methods,
  the collector of tables and the checks of responses among them, and that of profilers if there is a
  monitor; and \<open>flush\<close> of files is hooked with the old method.\<close>

theorem lws_init_correct:
  assumes "std_libs_ok sl (openlibs h0)"
  shows "\<exists>h. lws_init openlibs path cpath monitor h0 = Ret h \<and>
    (\<forall>key. read_status LL h key =
       (case status_codes key of Some c \<Rightarrow> Ret (OInt (of_int c)) | None \<Rightarrow> Err (lit ''bad index''))) \<and>
    (\<exists>lib. rawget h (h_globals h) (lit ''lws'') = OTable lib \<and> rawget h (sl_loaded sl) (lit ''lws'') = OTable lib \<and>
       list_all (\<lambda>(f, v). rawget h lib (lit f) = v) lws_lua_functions) \<and>
    rawget h (sl_package sl) (lit ''path'') = OStr (new_path path (sl_path sl)) \<and>
    rawget h (sl_package sl) (lit ''cpath'') = OStr (new_path cpath (sl_cpath sl)) \<and>
    registered h LWS_REQUEST_CTX [(''__tostring'', OFun F_ctx_tostring)] \<and>
    registered h LWS_TABLE [(''__index'', OFun F_table_index), (''__newindex'', OFun F_table_newindex),
      (''__pairs'', OFun F_table_pairs), (''__tostring'', OFun F_table_tostring), (''__gc'', OFun F_table_gc)] \<and>
    registered h LWS_RESPONSE [(''__index'', OFun F_response_index), (''__newindex'', OFun F_response_newindex)] \<and>
    (if monitor then registered h LWS_PROFILER [(''__tostring'', OFun F_profiler_tostring), (''__gc'', OFun F_profiler_gc)]
     else h_registry h LWS_PROFILER = ONil) \<and>
    rawget h (sl_file_index sl) (lit ''flush'') = OClosure F_file_flush_hook (OFun (sl_flush sl))"
proof -
  from lws_init_initialized [of sl openlibs h0 path cpath monitor, OF assms] obtain h where
    "lws_init openlibs path cpath monitor h0 = Ret h" and i: "initialized sl path cpath monitor (openlibs h0) h"
    by blast
  with initialized_fields [OF assms i, unfolded lws_request_ctx_methods_def lws_table_methods_def
    lws_response_methods_def lws_profiler_methods_def] show ?thesis by blast
qed

text \<open>Standard libraries as in Lua 5.3, where the metatable of files is its own \<open>__index\<close>.\<close>

definition demo_libs :: std_libs where
  "demo_libs = \<lparr>sl_package = 1, sl_path = lit ''?.lua'', sl_cpath = lit ''?.so'', sl_loaded = 2,
     sl_file_meta = 3, sl_file_index = 3, sl_flush = F_other 0\<rparr>"

definition demo_fields :: "(string \<times> obj) list \<Rightarrow> lua_table" where
  "demo_fields fs = \<lparr>tab_fields = (\<lambda>key. case map_of (map (\<lambda>(k, v). (lit k, v)) fs) key of
     Some v \<Rightarrow> v | None \<Rightarrow> ONil), tab_meta = None\<rparr>"

definition demo_lua_heap :: lua_heap where
  "demo_lua_heap = \<lparr>h_tables = [0 \<mapsto> demo_fields [(''package'', OTable 1)],
     1 \<mapsto> demo_fields [(''path'', OStr (lit ''?.lua'')), (''cpath'', OStr (lit ''?.so''))],
     2 \<mapsto> empty_table, 3 \<mapsto> demo_fields [(''__index'', OTable 3), (''flush'', OFun (F_other 0))]],
     h_users = Map.empty, h_next = 4,
     h_registry = (\<lambda>_. ONil)(lit ''_LOADED'' := OTable 2, LUA_FILEHANDLE := OTable 3), h_globals = 0\<rparr>"

lemma demo_libs_ok: "std_libs_ok demo_libs demo_lua_heap"
  by (simp add: std_libs_ok_def demo_libs_def demo_lua_heap_def rawget_def table_at_def demo_fields_def lws_names)

lemma status_code_404: "status_codes (lit ''NOT_FOUND'') = Some 404"
  by (simp add: status_codes_def lws_http_status_def lws_http_status_1xx_def lws_http_status_2xx_def
      lws_http_status_3xx_def lws_http_status_4xx_def)

theorem lws_init_correct_witness:
  "\<exists>h. lws_init id (lit ''+/m/?.lua'') [] True demo_lua_heap = Ret h \<and>
    read_status demo_lua h (lit ''NOT_FOUND'') = Ret (OInt 404) \<and>
    rawget h 1 (lit ''path'') = OStr (lit ''?.lua;/m/?.lua'') \<and>
    rawget h 1 (lit ''cpath'') = OStr (lit ''?.so'')"
  using lws_init_correct [of demo_libs id demo_lua_heap "lit ''+/m/?.lua''" "[]" True demo_lua]
    demo_libs_ok status_code_404
  by (auto simp: demo_libs_def new_path_def lit_def)

end
