(* ===== verification/LwsHandles.thy ===== *)
theory LwsHandles
  imports LwsOpen
begin

text \<open>
  How Lua code reaches the C objects of a request, from src/lws_lib.c: the environment that \<open>lws_run\<close>
  makes, with a handle (a userdata) for each table and each file of the request, the functions that
  Lua code can call on handles, in any way, and their collection.
\<close>

section \<open>C objects\<close>

text \<open>The fields of \<open>lws_request_ctx_t\<close> and of the request that the environment shows; tables and files are
  addresses. The tables, open files and request contexts that exist are \<open>lws_c\<close>.\<close>

record request_objects =
  x_method :: ngx_str
  x_uri :: ngx_str
  x_path :: ngx_str
  x_args :: ngx_str
  x_path_info :: ngx_str
  x_inet :: bool
  x_addr_text :: ngx_str
  x_variables :: nat
  x_request_headers :: nat
  x_response_headers :: nat
  x_request_body :: nat
  x_response_body :: nat

record lws_c =
  c_tables :: "nat \<rightharpoonup> ngx_str lws_table"
  c_files :: "nat set"
  c_ctxs :: "nat \<rightharpoonup> request_objects"

section \<open>The environment\<close>

definition push_table :: "bool \<Rightarrow> nat \<Rightarrow> lua_heap \<Rightarrow> nat \<times> lua_heap" where
  "push_table readonly t h =
     (let (u, h) = lws_create_lua_table h in
      (u, set_user u (UTable \<lparr>lt_t = Some t, lt_readonly = readonly, lt_external = True\<rparr>) h))"

definition push_file :: "nat \<Rightarrow> lua_heap \<Rightarrow> nat \<times> lua_heap" where
  "push_file f h =
     (let (u, h) = lws_create_file h in
      (u, set_user u (UStream \<lparr>st_f = Some f, st_closef = Some F_close_file\<rparr>) h))"

definition push_request :: "request_objects \<Rightarrow> lua_heap \<Rightarrow> nat \<times> lua_heap" where
  "push_request x h =
     (let (req, h) = lua_newtable h;
          h = setfields req [(''method'', OStr (x_method x)), (''uri'', OStr (x_uri x)),
            (''path'', OStr (x_path x)), (''args'', OStr (x_args x))] h;
          (headers, h) = push_table True (x_request_headers x) h;
          h = rawset req (lit ''headers'') (OUser headers) h;
          (body, h) = push_file (x_request_body x) h;
          h = rawset req (lit ''body'') (OUser body) h;
          h = rawset req (lit ''path_info'') (OStr (x_path_info x)) h;
          h = (if x_inet x \<and> x_addr_text x \<noteq> []
               then rawset req (lit ''ip'') (OStr (x_addr_text x)) h else h)
      in (req, h))"

text \<open>\<open>lctx->response_headers = ...\<close>, where \<open>lctx\<close> is the block of the userdata \<open>l\<close>.\<close>

definition point_headers :: "nat \<Rightarrow> nat \<Rightarrow> (nat \<rightharpoonup> lua_user) \<Rightarrow> (nat \<rightharpoonup> lua_user)" where
  "point_headers l u us =
     (case us l of
        Some ud \<Rightarrow>
          (case u_data ud of
             UCtx lctx \<Rightarrow> us(l \<mapsto> ud\<lparr>u_data := UCtx (lctx\<lparr>lc_response_headers := Some u\<rparr>)\<rparr>)
           | _ \<Rightarrow> us)
      | None \<Rightarrow> us)"

definition set_response_headers :: "nat \<Rightarrow> nat \<Rightarrow> lua_heap \<Rightarrow> lua_heap" where
  "set_response_headers l u h = h\<lparr>h_users := point_headers l u (h_users h)\<rparr>"

text \<open>The response table has its metatable when its two fields are set; \<open>lws_lua_response_newindex\<close> writes
  every key but \<open>status\<close> into the table itself.\<close>

definition push_response :: "nat \<Rightarrow> request_objects \<Rightarrow> lua_heap \<Rightarrow> nat \<times> lua_heap" where
  "push_response l x h =
     (let (resp, h) = lua_newtable h;
          h = setmetatable resp (h_registry h LWS_RESPONSE) h;
          (headers, h) = push_table False (x_response_headers x) h;
          h = set_response_headers l headers h;
          h = rawset resp (lit ''headers'') (OUser headers) h;
          (body, h) = push_file (x_response_body x) h;
          h = rawset resp (lit ''body'') (OUser body) h
      in (resp, h))"

definition push_env_objects :: "nat \<Rightarrow> request_objects \<Rightarrow> lua_heap \<Rightarrow> nat \<times> lua_heap" where
  "push_env_objects l x h =
     (let (env, h) = lua_newtable h;
          (m, h) = lua_newtable h;
          h = rawset m (lit ''__index'') (OTable (h_globals h)) h;
          h = setmetatable env (OTable m) h;
          (req, h) = push_request x h;
          h = rawset env (lit ''request'') (OTable req) h;
          (resp, h) = push_response l x h;
          h = rawset env (lit ''response'') (OTable resp) h
      in (env, h))"

section \<open>Access to the C objects\<close>

definition deref_table :: "lws_c \<Rightarrow> nat option \<Rightarrow> (nat \<times> ngx_str lws_table) outcome" where
  "deref_table c p =
     (case p of None \<Rightarrow> Freed
      | Some a \<Rightarrow> (case c_tables c a of None \<Rightarrow> Freed | Some t \<Rightarrow> Ret (a, t)))"

definition deref_ctx :: "lws_c \<Rightarrow> nat option \<Rightarrow> request_objects outcome" where
  "deref_ctx c p =
     (case p of None \<Rightarrow> Freed
      | Some a \<Rightarrow> (case c_ctxs c a of None \<Rightarrow> Freed | Some x \<Rightarrow> Ret x))"

definition put_table :: "nat \<Rightarrow> ngx_str lws_table \<Rightarrow> lws_c \<Rightarrow> lws_c" where
  "put_table a t c = c\<lparr>c_tables := (c_tables c)(a \<mapsto> t)\<rparr>"

definition lws_get_lua_request_ctx :: "lua_heap \<Rightarrow> lua_ctx_block outcome" where
  "lws_get_lua_request_ctx h =
     (case luaL_testudata h (h_registry h LWS_REQUEST_CTX_CURRENT) LWS_REQUEST_CTX of
        Some d \<Rightarrow> as_ctx d
      | None \<Rightarrow> Err (lit ''no request context''))"

definition current_ctx :: "lua_heap \<Rightarrow> lws_c \<Rightarrow> request_objects outcome" where
  "current_ctx h c = chain (lws_get_lua_request_ctx h) (\<lambda>lctx. deref_ctx c (lc_ctx lctx))"

definition check_lua_table :: "lws_lua \<Rightarrow> lua_heap \<Rightarrow> obj list \<Rightarrow> lws_lua_table outcome" where
  "check_lua_table LL h args = chain (luaL_checkudata LL h 1 args LWS_TABLE) as_table"

text \<open>The texts of \<open>%p\<close> are a parameter.\<close>

definition lws_lua_request_ctx_tostring ::
  "lws_lua \<Rightarrow> (nat option \<Rightarrow> ngx_str) \<Rightarrow> lua_heap \<Rightarrow> obj list \<Rightarrow> obj outcome" where
  "lws_lua_request_ctx_tostring LL pt h args =
     chain (luaL_checkudata LL h 1 args LWS_REQUEST_CTX) (\<lambda>d. chain (as_ctx d) (\<lambda>lctx.
       Ret (OStr (LWS_REQUEST_CTX @ lit '': '' @ pt (lc_ctx lctx)))))"

definition lws_lua_table_tostring ::
  "lws_lua \<Rightarrow> (nat option \<Rightarrow> ngx_str) \<Rightarrow> lua_heap \<Rightarrow> obj list \<Rightarrow> obj outcome" where
  "lws_lua_table_tostring LL pt h args =
     chain (check_lua_table LL h args) (\<lambda>lt. Ret (OStr (LWS_TABLE @ lit '': '' @ pt (lt_t lt))))"

text \<open>Freeing a table that is not there is a double free.\<close>

definition lws_lua_table_gc :: "lws_lua \<Rightarrow> lua_heap \<Rightarrow> obj list \<Rightarrow> lws_c \<Rightarrow> lws_c outcome" where
  "lws_lua_table_gc LL h args c =
     chain (check_lua_table LL h args) (\<lambda>lt.
       if \<not> lt_external lt \<and> lt_t lt \<noteq> None
       then chain (deref_table c (lt_t lt)) (\<lambda>(a, t). Ret (c\<lparr>c_tables := (c_tables c)(a := None)\<rparr>))
       else Ret c)"

definition lws_lua_table_pairs :: "obj list \<Rightarrow> obj list" where
  "lws_lua_table_pairs args = [OFun F_table_next, arg 1 args, ONil]"

text \<open>Values of \<open>LwsRun\<close> as objects.\<close>

definition obj_of :: "lua_value \<Rightarrow> obj" where
  "obj_of v = (case v of LuaInt i \<Rightarrow> OInt i | LuaString s \<Rightarrow> OStr s | _ \<Rightarrow> ONil)"

definition reply_of :: "lws_reply \<Rightarrow> obj outcome" where
  "reply_of r = (case r of Inr v \<Rightarrow> Ret (obj_of v) | Inl (LuaString s) \<Rightarrow> Err s | Inl _ \<Rightarrow> Err [])"

definition table_index_object ::
  "lws_lua \<Rightarrow> lws_env \<Rightarrow> lua_heap \<Rightarrow> obj list \<Rightarrow> lws_c \<Rightarrow> (obj \<times> lws_c) outcome" where
  "table_index_object LL E h args c =
     chain (check_lua_table LL h args) (\<lambda>lt. chain (luaL_checklstring LL 2 args) (\<lambda>key.
       chain (deref_table c (lt_t lt)) (\<lambda>(a, t).
         chain (ended (lws_lua_table_index E t key)) (\<lambda>(r, t').
           chain (reply_of r) (\<lambda>v. Ret (v, put_table a t' c))))))"

definition table_newindex_object ::
  "lws_lua \<Rightarrow> lws_env \<Rightarrow> lua_heap \<Rightarrow> obj list \<Rightarrow> lws_c \<Rightarrow> lws_c outcome" where
  "table_newindex_object LL E h args c =
     chain (check_lua_table LL h args) (\<lambda>lt.
       if lt_readonly lt then Err (lit ''table is read-only'')
       else chain (luaL_checklstring LL 2 args) (\<lambda>key. chain (luaL_checklstring LL 3 args) (\<lambda>val.
         chain (deref_table c (lt_t lt)) (\<lambda>(a, t).
           chain (ended (lws_lua_table_newindex E (lt_readonly lt) t key val)) (\<lambda>(r, t').
             chain (reply_of r) (\<lambda>_. Ret (put_table a t' c)))))))"

text \<open>\<open>lua_tolstring\<close> gives NULL and the length 0 for a value that is neither a string nor a number.\<close>

definition lua_tolstring :: "lws_lua \<Rightarrow> obj \<Rightarrow> ngx_str" where
  "lua_tolstring LL v = (case v of OStr s \<Rightarrow> s | OInt n \<Rightarrow> ll_number LL n | _ \<Rightarrow> [])"

definition table_next_object ::
  "lws_lua \<Rightarrow> lws_env \<Rightarrow> lua_heap \<Rightarrow> obj list \<Rightarrow> lws_c \<Rightarrow> obj list outcome" where
  "table_next_object LL E h args c =
     chain (check_lua_table LL h args) (\<lambda>lt.
       let key = (if arg 2 args = ONil then None else Some (lua_tolstring LL (arg 2 args))) in
       chain (deref_table c (lt_t lt)) (\<lambda>(a, t).
         chain (ended (lws_lua_table_next E t key)) (\<lambda>vs. Ret (map obj_of vs))))"

definition getvariable_object ::
  "lws_lua \<Rightarrow> lws_env \<Rightarrow> lua_heap \<Rightarrow> obj list \<Rightarrow> lws_c \<Rightarrow> (obj \<times> lws_c) outcome" where
  "getvariable_object LL E h args c =
     chain (luaL_checklstring LL 1 args) (\<lambda>key. chain (current_ctx h c) (\<lambda>x.
       chain (deref_table c (Some (x_variables x))) (\<lambda>(a, t).
         chain (ended (lws_table_get E t key)) (\<lambda>(v, t').
           Ret (case v of Some s \<Rightarrow> OStr s | None \<Rightarrow> ONil, put_table a t' c)))))"

section \<open>Files\<close>

text \<open>The \<open>flush\<close> of a file is the library's own for the response body of the current request, and the
  method that was there before for every other file: the upvalue of the closure.\<close>

datatype flush_target = OwnFlush | PrevFlush obj

definition flush_dispatch :: "lws_lua \<Rightarrow> lua_heap \<Rightarrow> obj \<Rightarrow> obj list \<Rightarrow> lws_c \<Rightarrow> flush_target outcome" where
  "flush_dispatch LL h upvalue args c =
     chain (luaL_checkudata LL h 1 args LUA_FILEHANDLE) (\<lambda>d. chain (as_stream d) (\<lambda>s.
       chain (current_ctx h c) (\<lambda>x.
         if st_f s \<noteq> Some (x_response_body x) then Ret (PrevFlush upvalue) else Ret OwnFlush)))"

text \<open>The two writes of the sealing, \<open>lctx->sealed = 1\<close> and \<open>lctx->response_headers->readonly = 1\<close>. The second
  goes through the raw pointer to a block that nothing checks: it may have been collected, and then
  another userdata may be there.\<close>

definition seal_response :: "lua_heap \<Rightarrow> lua_heap outcome" where
  "seal_response h =
     (case h_registry h LWS_REQUEST_CTX_CURRENT of
        OUser l \<Rightarrow>
          chain (lws_get_lua_request_ctx h) (\<lambda>lctx.
            let h = set_user l (UCtx (lctx\<lparr>lc_sealed := True\<rparr>)) h in
            case lc_response_headers lctx of
              None \<Rightarrow> Freed
            | Some u \<Rightarrow>
                (case h_users h u of
                   None \<Rightarrow> Freed
                 | Some ud \<Rightarrow> chain (as_table (u_data ud)) (\<lambda>lt.
                     Ret (set_user u (UTable (lt\<lparr>lt_readonly := True\<rparr>)) h))))
      | _ \<Rightarrow> Err (lit ''no request context''))"

text \<open>The hook as far as the objects are concerned. \<open>refused\<close> is the error of one of the tests before the
  sealing (redirection, no streaming, size of the body), which \<open>LwsRun\<close> describes. An error after the
  sealing leaves the same objects as success.\<close>

definition file_flush_hook :: "lws_lua \<Rightarrow> ngx_str option \<Rightarrow> lua_heap \<Rightarrow> obj \<Rightarrow> obj list \<Rightarrow> lws_c \<Rightarrow>
    (flush_target \<times> lua_heap) outcome" where
  "file_flush_hook LL refused h upvalue args c =
     chain (flush_dispatch LL h upvalue args c) (\<lambda>target.
       case target of
         PrevFlush g \<Rightarrow> Ret (PrevFlush g, h)
       | OwnFlush \<Rightarrow>
           (case refused of
              Some e \<Rightarrow> Err e
            | None \<Rightarrow> chain (seal_response h) (\<lambda>h. Ret (OwnFlush, h))))"

text \<open>\<open>response.flush\<close> makes a new handle for the response body and calls the hook as a function without
  an upvalue.\<close>

definition lws_lua_response_flush :: "lws_lua \<Rightarrow> ngx_str option \<Rightarrow> lua_heap \<Rightarrow> lws_c \<Rightarrow>
    (flush_target \<times> lua_heap) outcome" where
  "lws_lua_response_flush LL refused h c =
     chain (current_ctx h c) (\<lambda>x.
       let (u, h) = push_file (x_response_body x) h in
       file_flush_hook LL refused h ONil [OUser u] c)"

definition lws_close_file :: "obj outcome" where
  "lws_close_file = Ret (OBool True)"

section \<open>Logging\<close>

definition lws_lua_log_levels :: "string list" where
  "lws_lua_log_levels = [''emerg'', ''alert'', ''crit'', ''err'', ''warn'', ''notice'', ''info'', ''debug'']"

definition NGX_LOG_ERR :: nat where "NGX_LOG_ERR = 4"
definition NGX_LOG_DEBUG :: nat where "NGX_LOG_DEBUG = 8"
definition NGX_LOG_DEBUG_HTTP :: nat where "NGX_LOG_DEBUG_HTTP = 256"

text \<open>\<open>luaL_checkoption\<close>: the index of the option, with a default for nil.\<close>

definition luaL_checkoption :: "lws_lua \<Rightarrow> nat \<Rightarrow> obj list \<Rightarrow> string \<Rightarrow> string list \<Rightarrow> nat outcome" where
  "luaL_checkoption LL i args dflt opts =
     chain (if arg i args = ONil then Ret (lit dflt) else luaL_checklstring LL i args) (\<lambda>s.
       case find (\<lambda>j. lit (opts ! j) = c_view s) [0..<length opts] of
         Some j \<Rightarrow> Ret j
       | None \<Rightarrow> Err (ll_argerror LL i (lit ''invalid option '' @ s)))"

text \<open>The level and the message that go to the log of the connection.\<close>

definition lws_log :: "lws_lua \<Rightarrow> lua_heap \<Rightarrow> obj list \<Rightarrow> lws_c \<Rightarrow> (nat \<times> ngx_str) outcome" where
  "lws_log LL h args c =
     chain (if length args > 1
            then chain (luaL_checkoption LL 1 args ''err'' lws_lua_log_levels) (\<lambda>j. Ret (j + 1, 2))
            else Ret (NGX_LOG_ERR, 1)) (\<lambda>(level, i).
       chain (luaL_checklstring LL i args) (\<lambda>msg. chain (current_ctx h c) (\<lambda>x.
         Ret (if level \<noteq> NGX_LOG_DEBUG then level else or level NGX_LOG_DEBUG_HTTP, msg))))"

section \<open>The response table\<close>

definition response_index_object :: "lws_lua \<Rightarrow> (request_objects \<Rightarrow> obj) \<Rightarrow> lua_heap \<Rightarrow> obj list \<Rightarrow> lws_c \<Rightarrow> obj outcome" where
  "response_index_object LL status h args c =
     chain (luaL_checktable LL 1 args) (\<lambda>a. chain (luaL_checklstring LL 2 args) (\<lambda>key.
       if length key = 5 \<and> strncmp key (lit ''flush'') 5 = 0 then Ret (OFun F_response_flush)
       else if length key = 6 \<and> strncmp key (lit ''status'') 6 = 0
       then chain (current_ctx h c) (\<lambda>x. Ret (status x))
       else Ret (rawget h a key)))"

definition response_newindex_object :: "lws_lua \<Rightarrow> lua_heap \<Rightarrow> obj list \<Rightarrow> lws_c \<Rightarrow> lua_heap outcome" where
  "response_newindex_object LL h args c =
     chain (luaL_checktable LL 1 args) (\<lambda>a. chain (luaL_checklstring LL 2 args) (\<lambda>key.
       if length key = 6 \<and> strncmp key (lit ''status'') 6 = 0
       then chain (lws_get_lua_request_ctx h) (\<lambda>lctx.
         if lc_sealed lctx then Err (lit ''response header sealed'')
         else chain (deref_ctx c (lc_ctx lctx)) (\<lambda>x. Ret h))
       else Ret (rawset a key (arg 3 args) h)))"

section \<open>Calls\<close>

text \<open>Any function of the library on any arguments: its results and the objects after. Functions that change
  only the request are described by \<open>LwsRun\<close>; here they reach it through the registry. \<open>F_other\<close> stands
  for the functions of Lua, which do not touch what is modelled here, except that methods of files read
  and write the file (\<open>file_method\<close>). \<open>lws.parseargs\<close> touches no object, and the metamethods of the profiler
  cannot be reached by Lua code; they do nothing here.\<close>

definition file_method :: "lws_lua \<Rightarrow> lua_heap \<Rightarrow> obj list \<Rightarrow> lws_c \<Rightarrow> unit outcome" where
  "file_method LL h args c =
     chain (luaL_checkudata LL h 1 args LUA_FILEHANDLE) (\<lambda>d. chain (as_stream d) (\<lambda>s.
       if st_closef s = None then Err (lit ''attempt to use a closed file'')
       else case st_f s of None \<Rightarrow> Freed | Some f \<Rightarrow> if f \<in> c_files c then Ret () else Freed))"

definition lib_call :: "lws_lua \<Rightarrow> lws_env \<Rightarrow> (nat option \<Rightarrow> ngx_str) \<Rightarrow> (request_objects \<Rightarrow> obj) \<Rightarrow> ngx_str option \<Rightarrow>
    lws_cfunction \<Rightarrow> obj \<Rightarrow> obj list \<Rightarrow> lua_heap \<times> lws_c \<Rightarrow> (obj list \<times> lua_heap \<times> lws_c) outcome" where
  "lib_call LL E pt status refused f upvalue args hc =
     (case hc of (h, c) \<Rightarrow>
      case f of
        F_ctx_tostring \<Rightarrow> chain (lws_lua_request_ctx_tostring LL pt h args) (\<lambda>v. Ret ([v], h, c))
      | F_table_index \<Rightarrow> chain (table_index_object LL E h args c) (\<lambda>(v, c). Ret ([v], h, c))
      | F_table_newindex \<Rightarrow> chain (table_newindex_object LL E h args c) (\<lambda>c. Ret ([], h, c))
      | F_table_next \<Rightarrow> chain (table_next_object LL E h args c) (\<lambda>vs. Ret (vs, h, c))
      | F_table_pairs \<Rightarrow> Ret (lws_lua_table_pairs args, h, c)
      | F_table_tostring \<Rightarrow> chain (lws_lua_table_tostring LL pt h args) (\<lambda>v. Ret ([v], h, c))
      | F_table_gc \<Rightarrow> chain (lws_lua_table_gc LL h args c) (\<lambda>c. Ret ([], h, c))
      | F_response_index \<Rightarrow>
          chain (response_index_object LL status h args c) (\<lambda>v. Ret ([v], h, c))
      | F_response_newindex \<Rightarrow>
          chain (response_newindex_object LL h args c) (\<lambda>h. Ret ([], h, c))
      | F_response_flush \<Rightarrow> chain (lws_lua_response_flush LL refused h c) (\<lambda>(t, h). Ret ([], h, c))
      | F_file_flush_hook \<Rightarrow>
          chain (file_flush_hook LL refused h upvalue args c) (\<lambda>(t, h).
            case t of OwnFlush \<Rightarrow> Ret ([], h, c)
            | PrevFlush g \<Rightarrow> chain (file_method LL h args c) (\<lambda>_. Ret ([], h, c)))
      | F_strict_index \<Rightarrow> chain (lws_lua_strict_index LL h args) (\<lambda>v. Ret ([v], h, c))
      | F_close_file \<Rightarrow> chain lws_close_file (\<lambda>v. Ret ([v], h, c))
      | F_log \<Rightarrow> chain (lws_log LL h args c) (\<lambda>_. Ret ([], h, c))
      | F_parseargs \<Rightarrow> Ret ([], h, c)
      | F_profiler_tostring \<Rightarrow> Ret ([], h, c)
      | F_profiler_gc \<Rightarrow> Ret ([], h, c)
      | F_other n \<Rightarrow> chain (file_method LL h args c) (\<lambda>_. Ret ([], h, c))
      | F_getvariable \<Rightarrow> chain (getvariable_object LL E h args c) (\<lambda>(v, c). Ret ([v], h, c))
      | _ \<Rightarrow> chain (current_ctx h c) (\<lambda>x. Ret ([], h, c)))"

section \<open>Runs and requests\<close>

text \<open>The start of \<open>lws_run\<close>: the request context goes into the registry, the environment is made.\<close>

definition run_begin :: "nat \<Rightarrow> request_objects \<Rightarrow> lua_heap \<Rightarrow> lua_heap" where
  "run_begin a x h =
     (let (u, h) = lws_create_request_ctx_object h;
          h = set_user u (UCtx \<lparr>lc_ctx = Some a, lc_response_headers = None, lc_sealed = False\<rparr>) h;
          h = setregistry LWS_REQUEST_CTX_CURRENT (OUser u) h
      in snd (push_env_objects u x h))"

text \<open>\<open>lws_cleanup_request_ctx\<close> as far as the objects are concerned.\<close>

definition free_table :: "nat \<Rightarrow> lws_c \<Rightarrow> lws_c outcome" where
  "free_table a c =
     (if c_tables c a = None then Freed else Ret (c\<lparr>c_tables := (c_tables c)(a := None)\<rparr>))"

definition close_file :: "nat \<Rightarrow> lws_c \<Rightarrow> lws_c outcome" where
  "close_file f c = (if f \<notin> c_files c then Freed else Ret (c\<lparr>c_files := c_files c - {f}\<rparr>))"

definition cleanup_objects :: "nat \<Rightarrow> request_objects \<Rightarrow> lws_c \<Rightarrow> lws_c outcome" where
  "cleanup_objects a x c =
     chain (free_table (x_variables x) c) (\<lambda>c.
     chain (free_table (x_request_headers x) c) (\<lambda>c.
     chain (close_file (x_request_body x) c) (\<lambda>c.
     chain (free_table (x_response_headers x) c) (\<lambda>c.
     chain (close_file (x_response_body x) c) (\<lambda>c.
       Ret (c\<lparr>c_ctxs := (c_ctxs c)(a := None)\<rparr>))))))"

text \<open>A worker process with one Lua state: its heap, the C objects, the request that runs, and whether the
  state is marked to be closed, which a run that ends in an error does.\<close>

record lua_proc =
  p_heap :: lua_heap
  p_c :: lws_c
  p_run :: "nat option"
  p_closing :: bool

text \<open>What Lua code itself may do: change tables in any way, make userdata of other kinds or open files, also
  in the memory of a userdata that has been collected, and close files; it cannot change the registry or the metatable of userdata (the \<open>debug\<close> library can,
  and voids every guarantee).\<close>

definition foreign :: "lua_heap \<Rightarrow> lua_user \<Rightarrow> bool" where
  "foreign h ud \<longleftrightarrow>
     (\<forall>m. u_meta ud = Some m \<longrightarrow>
        h_registry h LWS_REQUEST_CTX \<noteq> OTable m \<and> h_registry h LWS_TABLE \<noteq> OTable m \<and>
        (h_registry h LUA_FILEHANDLE = OTable m \<longrightarrow> (\<exists>s. u_data ud = UStream s)))"

definition kept_user :: "lua_user \<Rightarrow> lua_user \<Rightarrow> bool" where
  "kept_user ud ud' \<longleftrightarrow> u_meta ud' = u_meta ud \<and>
     (u_data ud' = u_data ud \<or>
      (\<exists>s. u_data ud = UStream s \<and> u_data ud' = UStream (s\<lparr>st_closef := None\<rparr>)))"

definition lua_code_changes :: "lua_heap \<Rightarrow> lua_heap \<Rightarrow> bool" where
  "lua_code_changes h h' \<longleftrightarrow>
     h_registry h' = h_registry h \<and> h_globals h' = h_globals h \<and> h_next h \<le> h_next h' \<and>
     (\<forall>u ud. h_users h u = Some ud \<longrightarrow> (\<exists>ud'. h_users h' u = Some ud' \<and> kept_user ud ud')) \<and>
     (\<forall>u ud'. h_users h' u = Some ud' \<and> h_users h u = None \<longrightarrow> u < h_next h' \<and> foreign h ud')"

definition request_files :: "lws_c \<Rightarrow> nat set" where
  "request_files c = {f. \<exists>a x. c_ctxs c a = Some x \<and> f \<in> {x_request_body x, x_response_body x}}"

definition fresh_request :: "lws_c \<Rightarrow> nat \<Rightarrow> request_objects \<Rightarrow> bool" where
  "fresh_request c a x \<longleftrightarrow>
     c_ctxs c a = None \<and>
     distinct [x_variables x, x_request_headers x, x_response_headers x] \<and>
     {x_variables x, x_request_headers x, x_response_headers x} \<inter> dom (c_tables c) = {} \<and>
     x_request_body x \<noteq> x_response_body x \<and>
     {x_request_body x, x_response_body x} \<inter> c_files c = {}"

definition add_request :: "nat \<Rightarrow> request_objects \<Rightarrow> ngx_str lws_table \<Rightarrow> ngx_str lws_table \<Rightarrow> ngx_str lws_table \<Rightarrow>
    lws_c \<Rightarrow> lws_c" where
  "add_request a x tv tr ts c =
     c\<lparr>c_tables := (c_tables c)(x_variables x \<mapsto> tv, x_request_headers x \<mapsto> tr, x_response_headers x \<mapsto> ts),
       c_files := {x_request_body x, x_response_body x} \<union> c_files c,
       c_ctxs := (c_ctxs c)(a \<mapsto> x)\<rparr>"

inductive lua_proc_step :: "lws_lua \<Rightarrow> lws_env \<Rightarrow> (nat option \<Rightarrow> ngx_str) \<Rightarrow> (request_objects \<Rightarrow> obj) \<Rightarrow>
    lua_proc \<Rightarrow> lua_proc \<Rightarrow> bool" for LL E pt status where
  request: "fresh_request (p_c p) a x \<Longrightarrow>
    lua_proc_step LL E pt status p (p\<lparr>p_c := add_request a x tv tr ts (p_c p)\<rparr>)"
| run: "p_run p = None \<Longrightarrow> \<not> p_closing p \<Longrightarrow> c_ctxs (p_c p) a = Some x \<Longrightarrow>
    lua_proc_step LL E pt status p (p\<lparr>p_heap := run_begin a x (p_heap p), p_run := Some a\<rparr>)"
| call: "lib_call LL E pt status refused f upvalue args (p_heap p, p_c p) = Ret (vs, h, c) \<Longrightarrow>
    lua_proc_step LL E pt status p (p\<lparr>p_heap := h, p_c := c\<rparr>)"
| code: "lua_code_changes (p_heap p) h \<Longrightarrow> lua_proc_step LL E pt status p (p\<lparr>p_heap := h\<rparr>)"
| file_open: "f \<notin> c_files (p_c p) \<Longrightarrow>
    lua_proc_step LL E pt status p (p\<lparr>p_c := (p_c p)\<lparr>c_files := insert f (c_files (p_c p))\<rparr>\<rparr>)"
| file_close: "f \<notin> request_files (p_c p) \<Longrightarrow>
    lua_proc_step LL E pt status p (p\<lparr>p_c := (p_c p)\<lparr>c_files := c_files (p_c p) - {f}\<rparr>\<rparr>)"
| collect: "h_registry (p_heap p) LWS_REQUEST_CTX_CURRENT \<noteq> OUser u \<Longrightarrow>
    lws_lua_table_gc LL (p_heap p) [OUser u] (p_c p) = Ret c \<Longrightarrow>
    lua_proc_step LL E pt status p
      (p\<lparr>p_heap := (p_heap p)\<lparr>h_users := (h_users (p_heap p))(u := None)\<rparr>, p_c := c\<rparr>)"
| collect_other: "h_registry (p_heap p) LWS_REQUEST_CTX_CURRENT \<noteq> OUser u \<Longrightarrow>
    lws_lua_table_gc LL (p_heap p) [OUser u] (p_c p) = Err e \<Longrightarrow>
    lua_proc_step LL E pt status p
      (p\<lparr>p_heap := (p_heap p)\<lparr>h_users := (h_users (p_heap p))(u := None)\<rparr>\<rparr>)"
| run_ends: "p_run p = Some a \<Longrightarrow>
    lua_proc_step LL E pt status p
      (p\<lparr>p_heap := setregistry LWS_REQUEST_CTX_CURRENT ONil (p_heap p), p_run := None\<rparr>)"
| run_fails: "p_run p = Some a \<Longrightarrow>
    lua_proc_step LL E pt status p (p\<lparr>p_run := None, p_closing := True\<rparr>)"
| cleanup: "p_run p \<noteq> Some a \<Longrightarrow> c_ctxs (p_c p) a = Some x \<Longrightarrow> cleanup_objects a x (p_c p) = Ret c \<Longrightarrow>
    lua_proc_step LL E pt status p (p\<lparr>p_c := c\<rparr>)"

definition initial_proc :: "lua_proc \<Rightarrow> bool" where
  "initial_proc p \<longleftrightarrow>
     (\<exists>m1 m2 m3. h_registry (p_heap p) LWS_REQUEST_CTX = OTable m1 \<and>
        h_registry (p_heap p) LWS_TABLE = OTable m2 \<and>
        h_registry (p_heap p) LUA_FILEHANDLE = OTable m3 \<and> distinct [m1, m2, m3]) \<and>
     h_registry (p_heap p) LWS_REQUEST_CTX_CURRENT = ONil \<and>
     (\<forall>u ud. h_users (p_heap p) u = Some ud \<longrightarrow> u < h_next (p_heap p) \<and> foreign (p_heap p) ud) \<and>
     c_ctxs (p_c p) = Map.empty \<and> p_run p = None \<and> \<not> p_closing p"

definition lua_proc_reach :: "lws_lua \<Rightarrow> lws_env \<Rightarrow> (nat option \<Rightarrow> ngx_str) \<Rightarrow> (request_objects \<Rightarrow> obj) \<Rightarrow>
    lua_proc \<Rightarrow> bool" where
  "lua_proc_reach LL E pt status p \<longleftrightarrow>
     (\<exists>p0. initial_proc p0 \<and> (lua_proc_step LL E pt status)\<^sup>*\<^sup>* p0 p)"

end
