(* ===== verification/LwsHandlesInv.thy ===== *)
theory LwsHandlesInv
  imports LwsHandles
begin

text \<open>
  The invariant of the handles: the block of a userdata has the type that its metatable stands for, a
  table handle never owns its table, and the objects of every request exist until its cleanup. The handle
  of the response headers, to which the request context has a raw pointer, is there until it is collected.
\<close>

section \<open>Typed heaps\<close>

definition user_ok :: "lua_heap \<Rightarrow> lua_user \<Rightarrow> bool" where
  "user_ok h ud \<longleftrightarrow>
     (\<forall>m. u_meta ud = Some m \<longrightarrow>
        (h_registry h LWS_REQUEST_CTX = OTable m \<longrightarrow> (\<exists>p. u_data ud = UCtx p)) \<and>
        (h_registry h LWS_TABLE = OTable m \<longrightarrow> (\<exists>lt. u_data ud = UTable lt \<and> lt_external lt)) \<and>
        (h_registry h LUA_FILEHANDLE = OTable m \<longrightarrow> (\<exists>s. u_data ud = UStream s)))"

definition metas_ok :: "lua_heap \<Rightarrow> bool" where
  "metas_ok h \<longleftrightarrow>
     (\<exists>m1 m2 m3. h_registry h LWS_REQUEST_CTX = OTable m1 \<and> h_registry h LWS_TABLE = OTable m2 \<and>
        h_registry h LUA_FILEHANDLE = OTable m3 \<and> distinct [m1, m2, m3])"

definition heap_typed :: "lua_heap \<Rightarrow> bool" where
  "heap_typed h \<longleftrightarrow> metas_ok h \<and>
     (\<forall>u ud. h_users h u = Some ud \<longrightarrow> u < h_next h \<and> user_ok h ud)"

text \<open>What the library's functions do to the heap: the registry stays, and the old userdata stay but for the
  two writes of the sealing.\<close>

definition flushed_user :: "lua_user \<Rightarrow> lua_user \<Rightarrow> bool" where
  "flushed_user ud ud' \<longleftrightarrow> u_meta ud' = u_meta ud \<and>
     (u_data ud' = u_data ud \<or>
      (\<exists>lctx. u_data ud = UCtx lctx \<and> u_data ud' = UCtx (lctx\<lparr>lc_sealed := True\<rparr>)) \<or>
      (\<exists>lt. u_data ud = UTable lt \<and> u_data ud' = UTable (lt\<lparr>lt_readonly := True\<rparr>)))"

definition heap_grows :: "lua_heap \<Rightarrow> lua_heap \<Rightarrow> bool" where
  "heap_grows h h' \<longleftrightarrow>
     h_registry h' = h_registry h \<and> h_next h \<le> h_next h' \<and>
     (\<forall>u < h_next h. rel_option flushed_user (h_users h u) (h_users h' u)) \<and>
     (\<forall>u ud. h_next h \<le> u \<longrightarrow> h_users h' u = Some ud \<longrightarrow> u < h_next h' \<and> user_ok h ud)"

lemma user_ok_cong: "h_registry h' = h_registry h \<Longrightarrow> user_ok h' ud = user_ok h ud"
  by (simp add: user_ok_def)

lemma flushed_user_refl [simp]: "flushed_user ud ud"
  by (simp add: flushed_user_def)

lemma flushed_user_trans: "flushed_user a b \<Longrightarrow> flushed_user b c \<Longrightarrow> flushed_user a c"
  by (cases "u_data a") (auto simp: flushed_user_def)

lemma flushed_user_ok: "flushed_user ud ud' \<Longrightarrow> user_ok h ud \<Longrightarrow> user_ok h ud'"
  by (auto simp: flushed_user_def user_ok_def)

lemma flushed_refl [simp]: "rel_option flushed_user v v"
  by (cases v) simp_all

lemma heap_grows_rel: "heap_grows h h' \<Longrightarrow> u < h_next h \<Longrightarrow> rel_option flushed_user (h_users h u) (h_users h' u)"
  by (simp add: heap_grows_def)

lemma heap_grows_back:
  assumes "heap_grows h h'" "u < h_next h" "h_users h' u = Some ud'"
  shows "\<exists>ud. h_users h u = Some ud \<and> flushed_user ud ud'"
proof -
  have "rel_option flushed_user (h_users h u) (h_users h' u)" using assms(1,2) by (rule heap_grows_rel)
  with assms(3) show ?thesis by (simp add: option_rel_Some2)
qed

lemma heap_grows_old:
  assumes "heap_grows h h'" "heap_typed h" "h_users h u = Some ud"
  shows "\<exists>ud'. h_users h' u = Some ud' \<and> flushed_user ud ud'"
proof -
  have "u < h_next h" using assms(2,3) by (simp add: heap_typed_def)
  with assms(1) have "rel_option flushed_user (h_users h u) (h_users h' u)" by (rule heap_grows_rel)
  with assms(3) show ?thesis by (simp add: option_rel_Some1)
qed

lemma heap_grows_new:
  "heap_grows h h' \<Longrightarrow> \<not> u < h_next h \<Longrightarrow> h_users h' u = Some ud \<Longrightarrow> u < h_next h' \<and> user_ok h ud"
  unfolding heap_grows_def by (meson not_less)

lemma heap_grows_typed:
  assumes g: "heap_grows h h'" and h: "heap_typed h" shows "heap_typed h'"
proof -
  have le: "h_next h \<le> h_next h'" and reg: "h_registry h' = h_registry h" using g by (simp_all add: heap_grows_def)
  have "u < h_next h' \<and> user_ok h ud'" if ud': "h_users h' u = Some ud'" for u ud'
  proof (cases "u < h_next h")
    case True
    with heap_grows_back [OF g True ud'] h le show ?thesis
      by (auto simp: heap_typed_def intro: flushed_user_ok less_le_trans)
  next
    case False
    from heap_grows_new [OF g this ud'] show ?thesis .
  qed
  with h reg show ?thesis by (simp add: heap_typed_def metas_ok_def user_ok_cong [of h' h])
qed

lemma testudata_typed:
  assumes "heap_typed h"
  shows "luaL_testudata h v LWS_TABLE = Some d \<Longrightarrow> \<exists>lt. d = UTable lt \<and> lt_external lt"
    "luaL_testudata h v LWS_REQUEST_CTX = Some d \<Longrightarrow> \<exists>p. d = UCtx p"
    "luaL_testudata h v LUA_FILEHANDLE = Some d \<Longrightarrow> \<exists>s. d = UStream s"
  using assms
  by (fastforce simp: luaL_testudata_def heap_typed_def user_ok_def split: obj.splits option.splits if_splits)+

lemma testudata_data:
  "luaL_testudata h v name = Some d \<Longrightarrow> \<exists>u ud. v = OUser u \<and> h_users h u = Some ud \<and> u_data ud = d"
  by (auto simp: luaL_testudata_def split: obj.splits option.splits if_splits)

lemma checkudata_eq: "luaL_checkudata LL h i args name = Ret d \<longleftrightarrow> luaL_testudata h (arg i args) name = Some d"
  by (simp add: luaL_checkudata_def split: option.splits)

lemma check_lua_table_typed:
  assumes "heap_typed h"
  shows "check_lua_table LL h args = Ret lt \<Longrightarrow> lt_external lt" "check_lua_table LL h args \<noteq> Confused"
    "check_lua_table LL h args \<noteq> Freed"
  by (auto simp: check_lua_table_def chain_eq checkudata_eq dest: testudata_typed(1) [OF assms])

lemma get_ctx_typed:
  assumes "heap_typed h"
  shows "lws_get_lua_request_ctx h \<noteq> Confused" "lws_get_lua_request_ctx h \<noteq> Freed"
  by (auto simp: lws_get_lua_request_ctx_def split: option.splits dest: testudata_typed(2) [OF assms])

section \<open>Type safety of a call\<close>

lemma push_table_simps [simp]:
  "fst (push_table ro t h) = h_next h"
  "h_users (snd (push_table ro t h)) = (h_users h)(h_next h \<mapsto>
     \<lparr>u_data = UTable \<lparr>lt_t = Some t, lt_readonly = ro, lt_external = True\<rparr>,
      u_meta = (case h_registry h LWS_TABLE of OTable b \<Rightarrow> Some b | _ \<Rightarrow> None)\<rparr>)"
  "h_next (snd (push_table ro t h)) = h_next h + 1"
  "h_registry (snd (push_table ro t h)) = h_registry h"
  "h_globals (snd (push_table ro t h)) = h_globals h"
  "rawget (snd (push_table ro t h)) b k = rawget h b k"
  "tab_meta (table_at (snd (push_table ro t h)) b) = tab_meta (table_at h b)"
  by (simp_all add: push_table_def lws_create_lua_table_def split_beta Let_def)

lemma push_file_simps [simp]:
  "fst (push_file f h) = h_next h"
  "h_users (snd (push_file f h)) = (h_users h)(h_next h \<mapsto>
     \<lparr>u_data = UStream \<lparr>st_f = Some f, st_closef = Some F_close_file\<rparr>,
      u_meta = (case h_registry h LUA_FILEHANDLE of OTable b \<Rightarrow> Some b | _ \<Rightarrow> None)\<rparr>)"
  "h_next (snd (push_file f h)) = h_next h + 1"
  "h_registry (snd (push_file f h)) = h_registry h"
  "h_globals (snd (push_file f h)) = h_globals h"
  "rawget (snd (push_file f h)) b k = rawget h b k"
  "tab_meta (table_at (snd (push_file f h)) b) = tab_meta (table_at h b)"
  by (simp_all add: push_file_def lws_create_file_def split_beta Let_def)

text \<open>The block that the raw pointer to the response headers leads to is still a table handle. It is so from
  the start of the run until the collector takes the handle (\<open>headers_kept_begin\<close>, \<open>headers_kept_step\<close>).\<close>

definition response_headers_block :: "lua_heap \<Rightarrow> nat option" where
  "response_headers_block h =
     (case lws_get_lua_request_ctx h of Ret lctx \<Rightarrow> lc_response_headers lctx | _ \<Rightarrow> None)"

definition headers_kept :: "lua_heap \<Rightarrow> bool" where
  "headers_kept h =
     (case response_headers_block h of
        None \<Rightarrow> False
      | Some u \<Rightarrow>
          (case h_users h u of
             None \<Rightarrow> False
           | Some ud \<Rightarrow> (case u_data ud of UTable lt \<Rightarrow> True | _ \<Rightarrow> False)))"

definition headers_collected :: "lua_heap \<Rightarrow> bool" where
  "headers_collected h \<longleftrightarrow> response_headers_block h \<noteq> None \<and> \<not> headers_kept h"

definition flushes :: "lws_cfunction \<Rightarrow> bool" where
  "flushes f \<longleftrightarrow> f = F_response_flush \<or> f = F_file_flush_hook"

lemma deref_not_confused [simp]: "deref_table c p \<noteq> Confused" "deref_ctx c p \<noteq> Confused"
  by (auto simp: deref_table_def deref_ctx_def split: option.splits)

lemma reply_not_ub [simp]: "reply_of r \<noteq> Confused" "reply_of r \<noteq> Freed"
  by (auto simp: reply_of_def split: sum.splits lua_value.splits)

lemma current_not_confused: "heap_typed h \<Longrightarrow> current_ctx h c \<noteq> Confused"
  using get_ctx_typed by (auto simp: current_ctx_def chain_eq)

lemma stream_not_confused:
  "heap_typed h \<Longrightarrow> luaL_checkudata LL h i args LUA_FILEHANDLE = Ret d \<Longrightarrow> as_stream d \<noteq> Confused"
  "heap_typed h \<Longrightarrow> luaL_checkudata LL h i args LWS_REQUEST_CTX = Ret d \<Longrightarrow> as_ctx d \<noteq> Confused"
  using testudata_typed(2,3) by (fastforce simp: checkudata_eq)+

lemma heap_typed_fresh: "heap_typed h \<Longrightarrow> h_next h \<le> u \<Longrightarrow> h_users h u = None"
  unfolding heap_typed_def by (meson linorder_not_le option.exhaust)

lemma push_file_grows: "heap_typed h \<Longrightarrow> heap_grows h (snd (push_file f h))"
  by (auto simp: heap_grows_def push_file_def lws_create_file_def split_beta Let_def user_ok_def
      heap_typed_fresh) (auto simp: heap_typed_def metas_ok_def)

lemma get_ctx_eq:
  "lws_get_lua_request_ctx h = Ret lctx \<longleftrightarrow>
     (\<exists>l ud m. h_registry h LWS_REQUEST_CTX_CURRENT = OUser l \<and> h_users h l = Some ud \<and> u_data ud = UCtx lctx \<and>
        u_meta ud = Some m \<and> h_registry h LWS_REQUEST_CTX = OTable m)"
proof -
  have "as_ctx d = Ret lctx \<longleftrightarrow> d = UCtx lctx" for d by (cases d) auto
  then show ?thesis
    by (auto simp: lws_get_lua_request_ctx_def luaL_testudata_def split: obj.splits option.splits)
qed

lemma get_ctx_push_file:
  assumes h: "heap_typed h" shows "lws_get_lua_request_ctx (snd (push_file f h)) = lws_get_lua_request_ctx h"
proof -
  obtain m1 m3 where m: "h_registry h LWS_REQUEST_CTX = OTable m1" "h_registry h LUA_FILEHANDLE = OTable m3" "m1 \<noteq> m3"
    using h by (auto simp: heap_typed_def metas_ok_def)
  have "luaL_testudata (snd (push_file f h)) v LWS_REQUEST_CTX = luaL_testudata h v LWS_REQUEST_CTX" for v
  proof (cases "v = OUser (h_next h)")
    case True
    with m heap_typed_fresh [OF h] show ?thesis by (simp add: luaL_testudata_def)
  next
    case False
    then show ?thesis by (cases v) (simp_all add: luaL_testudata_def split: option.split)
  qed
  then show ?thesis by (simp add: lws_get_lua_request_ctx_def)
qed

lemma headers_kept_push_file:
  assumes h: "heap_typed h" and "headers_kept h" shows "headers_kept (snd (push_file f h))"
proof -
  have "u \<noteq> h_next h" if "h_users h u = Some ud" for u ud using h that by (fastforce simp: heap_typed_def)
  with assms(2) show ?thesis
    by (auto simp: headers_kept_def response_headers_block_def get_ctx_push_file [OF h] split: option.splits)
qed

text \<open>The sealing of a response whose handle is still there changes the two blocks only.\<close>

lemma seal_response_kept:
  assumes "headers_kept h"
  obtains l lctx u ud lt m where "h_registry h LWS_REQUEST_CTX_CURRENT = OUser l"
    "lws_get_lua_request_ctx h = Ret lctx" "h_users h l = Some \<lparr>u_data = UCtx lctx, u_meta = Some m\<rparr>"
    "h_registry h LWS_REQUEST_CTX = OTable m" "lc_response_headers lctx = Some u"
    "u \<noteq> l" "h_users h u = Some ud" "u_data ud = UTable lt"
    "seal_response h = Ret (set_user u (UTable (lt\<lparr>lt_readonly := True\<rparr>))
       (set_user l (UCtx (lctx\<lparr>lc_sealed := True\<rparr>)) h))"
proof -
  from assms obtain lctx u ud lt where l: "lws_get_lua_request_ctx h = Ret lctx" "lc_response_headers lctx = Some u"
    "h_users h u = Some ud" "u_data ud = UTable lt"
    by (auto simp: headers_kept_def response_headers_block_def split: outcome.splits option.splits udata.splits)
  from l(1) obtain l d where t: "luaL_testudata h (OUser l) LWS_REQUEST_CTX = Some d" "as_ctx d = Ret lctx"
    and r: "h_registry h LWS_REQUEST_CTX_CURRENT = OUser l"
    by (auto simp: lws_get_lua_request_ctx_def luaL_testudata_def split: option.splits obj.splits if_splits)
  have d: "d = UCtx lctx" using t(2) by (cases d) auto
  with t obtain m where m: "h_users h l = Some \<lparr>u_data = UCtx lctx, u_meta = Some m\<rparr>" "h_registry h LWS_REQUEST_CTX = OTable m"
    by (auto simp: luaL_testudata_def split: option.splits if_splits)
  have ne: "u \<noteq> l" using l m by auto
  then have "seal_response h = Ret (set_user u (UTable (lt\<lparr>lt_readonly := True\<rparr>))
      (set_user l (UCtx (lctx\<lparr>lc_sealed := True\<rparr>)) h))"
    using l r by (simp add: seal_response_def Let_def)
  with r l(1) m l(2) ne l(3,4) show ?thesis by (rule that)
qed

lemma hook_prev:
  "file_flush_hook LL refused h v args c = Ret (PrevFlush g, h') \<Longrightarrow> file_method LL h' args c = file_method LL h args c"
  by (cases "flush_dispatch LL h v args c")
    (auto simp: file_flush_hook_def chain_eq split: flush_target.splits option.splits)

lemma collected_push_file:
  assumes h: "heap_typed h" and "\<not> headers_collected h" shows "\<not> headers_collected (snd (push_file f h))"
  using assms(2) headers_kept_push_file [OF h]
  by (auto simp: headers_collected_def response_headers_block_def get_ctx_push_file [OF h])

lemma seal_not_confused:
  assumes h: "heap_typed h" and "\<not> headers_collected h" shows "seal_response h \<noteq> Confused"
proof (cases "headers_kept h")
  case True
  from seal_response_kept [OF True] show ?thesis by (metis outcome.distinct(3))
next
  case False
  with assms(2) have "response_headers_block h = None" by (simp add: headers_collected_def)
  with get_ctx_typed [OF h] show ?thesis
    by (cases "lws_get_lua_request_ctx h")
      (auto simp: seal_response_def response_headers_block_def Let_def split: obj.splits)
qed

lemma lib_call_not_confused:
  assumes h: "heap_typed h" and kept: "\<not> (flushes f \<and> headers_collected h)"
  shows "lib_call LL E pt status refused f upvalue args (h, c) \<noteq> Confused"
proof -
  note typed = check_lua_table_typed [OF h] current_not_confused [OF h] stream_not_confused [OF h] get_ctx_typed [OF h]
  have meth: "file_method LL h args c \<noteq> Confused"
    using typed by (auto simp: file_method_def chain_eq split: option.splits)
  have dispatch: "flush_dispatch LL h' v args' c \<noteq> Confused" if "heap_typed h'" for h' v args'
    using current_not_confused [OF that] stream_not_confused [OF that]
    by (auto simp: flush_dispatch_def chain_eq)
  have hook: "file_flush_hook LL refused h' v args' c \<noteq> Confused" if "heap_typed h'" "\<not> headers_collected h'" for h' v args'
    using dispatch [OF that(1)] seal_not_confused [OF that]
    by (auto simp: file_flush_hook_def chain_eq split: flush_target.splits option.splits)
  have flush: "lws_lua_response_flush LL refused h c \<noteq> Confused" if "\<not> headers_collected h"
    using typed hook [OF heap_grows_typed [OF push_file_grows [OF h] h] collected_push_file [OF h that]]
    by (auto simp: lws_lua_response_flush_def chain_eq split_beta Let_def)
  show ?thesis
    using typed meth hook [OF h] flush kept
    by (cases f)
      (auto simp: lib_call_def chain_eq flushes_def lws_lua_request_ctx_tostring_def lws_lua_table_tostring_def
        lws_lua_table_gc_def table_index_object_def table_newindex_object_def table_next_object_def
        getvariable_object_def response_index_object_def response_newindex_object_def lws_log_def
        luaL_checkoption_def lws_lua_strict_index_def lws_close_file_def Let_def
        dest!: hook_prev split: option.splits if_splits flush_target.splits)
qed

section \<open>What a call changes\<close>

definition c_same :: "lws_c \<Rightarrow> lws_c \<Rightarrow> bool" where
  "c_same c c' \<longleftrightarrow> dom (c_tables c') = dom (c_tables c) \<and> c_files c' = c_files c \<and> c_ctxs c' = c_ctxs c"

lemma c_same_refl [simp]: "c_same c c"
  by (simp add: c_same_def)

lemma heap_grows_refl: "heap_typed h \<Longrightarrow> heap_grows h h"
  by (auto simp: heap_grows_def heap_typed_fresh)

lemma heap_grows_rawset: "heap_typed h \<Longrightarrow> heap_grows h (rawset a k v h)"
  by (auto simp: heap_grows_def heap_typed_fresh)

lemma put_table_same: "deref_table c p = Ret (a, t) \<Longrightarrow> c_same c (put_table a t' c)"
  by (auto simp: c_same_def put_table_def deref_table_def split: option.splits)

lemma gc_same:
  assumes "heap_typed h"
  shows "lws_lua_table_gc LL h args c = Ret c' \<Longrightarrow> c' = c"
    "lws_lua_table_gc LL h args c \<noteq> Confused" "lws_lua_table_gc LL h args c \<noteq> Freed"
    "lws_lua_table_gc LL h args c \<noteq> Loops"
proof -
  have "lws_lua_table_gc LL h args c = chain (check_lua_table LL h args) (\<lambda>_. Ret c)"
    using check_lua_table_typed [OF assms, of LL args]
    by (cases "check_lua_table LL h args") (auto simp: lws_lua_table_gc_def)
  moreover have "check_lua_table LL h args \<noteq> Loops"
    by (auto simp: check_lua_table_def luaL_checkudata_def split: option.splits)
      (metis as_table.simps outcome.distinct udata.exhaust)
  ultimately show "lws_lua_table_gc LL h args c = Ret c' \<Longrightarrow> c' = c"
    "lws_lua_table_gc LL h args c \<noteq> Confused" "lws_lua_table_gc LL h args c \<noteq> Freed"
    "lws_lua_table_gc LL h args c \<noteq> Loops"
    using check_lua_table_typed [OF assms, of LL args] by (cases "check_lua_table LL h args"; simp)+
qed

lemma not_prev_flush [simp]: "(\<forall>g. t \<noteq> PrevFlush g) \<longleftrightarrow> t = OwnFlush"
  by (cases t) auto

lemma heap_grows_trans:
  assumes g: "heap_grows h h1" "heap_grows h1 h2" shows "heap_grows h h2"
proof -
  have le: "h_next h \<le> h_next h1" "h_next h1 \<le> h_next h2" and reg: "h_registry h1 = h_registry h"
    using g by (simp_all add: heap_grows_def)
  have trans: "rel_option flushed_user a c" if "rel_option flushed_user a b" "rel_option flushed_user b c" for a b c
    using that by (cases a; cases b; cases c) (auto intro: flushed_user_trans)
  have "rel_option flushed_user (h_users h u) (h_users h2 u)" if "u < h_next h" for u
    using that le by (intro trans [OF heap_grows_rel [OF g(1)] heap_grows_rel [OF g(2)]]) simp_all
  moreover have "u < h_next h2 \<and> user_ok h ud" if u: "h_next h \<le> u" "h_users h2 u = Some ud" for u ud
  proof (cases "u < h_next h1")
    case True
    from heap_grows_back [OF g(2) this u(2)] obtain ud1 where "h_users h1 u = Some ud1" "flushed_user ud1 ud" by blast
    with heap_grows_new [OF g(1), of u ud1] u(1) True le show ?thesis
      by (auto intro: flushed_user_ok less_le_trans)
  next
    case False
    with heap_grows_new [OF g(2) False u(2)] show ?thesis by (simp add: user_ok_cong [OF reg])
  qed
  ultimately show ?thesis using g le by (simp add: heap_grows_def)
qed

lemma seal_response_grows:
  assumes h: "heap_typed h" and s: "seal_response h = Ret h'" shows "heap_grows h h'"
proof -
  from s obtain l where l: "h_registry h LWS_REQUEST_CTX_CURRENT = OUser l"
    by (cases "h_registry h LWS_REQUEST_CTX_CURRENT") (auto simp: seal_response_def)
  with s obtain lctx where lctx: "lws_get_lua_request_ctx h = Ret lctx"
    by (cases "lws_get_lua_request_ctx h") (auto simp: seal_response_def)
  from lctx l obtain udl where udl: "h_users h l = Some udl" "u_data udl = UCtx lctx" by (auto simp: get_ctx_eq)
  let ?h = "set_user l (UCtx (lctx\<lparr>lc_sealed := True\<rparr>)) h"
  from s l lctx obtain u ud where u: "h_users ?h u = Some ud"
    "chain (as_table (u_data ud)) (\<lambda>lt. Ret (set_user u (UTable (lt\<lparr>lt_readonly := True\<rparr>)) ?h)) = Ret h'"
    by (cases "lc_response_headers lctx") (auto simp del: h_users_ops simp: seal_response_def Let_def split: option.splits)
  from u(2) obtain lt where lt: "u_data ud = UTable lt" "h' = set_user u (UTable (lt\<lparr>lt_readonly := True\<rparr>)) ?h"
    by (cases "u_data ud") auto
  with u(1) udl have ud: "h_users h u = Some ud" "u \<noteq> l" by (auto split: if_splits)
  have "l < h_next h" "u < h_next h" using h udl ud by (auto simp: heap_typed_def)
  then show ?thesis
    using udl ud lt by (auto simp: heap_grows_def flushed_user_def heap_typed_fresh [OF h])
qed

lemma flush_grows:
  assumes h: "heap_typed h"
  shows "file_flush_hook LL refused h v args c = Ret (t, h') \<Longrightarrow> heap_grows h h'"
    "lws_lua_response_flush LL refused h c = Ret (t, h') \<Longrightarrow> heap_grows h h'"
proof -
  have hook: "heap_grows h1 h'" if "heap_typed h1" "file_flush_hook LL refused h1 v args c = Ret (t, h')" for h1 v args
  proof -
    from that(2) obtain target where "flush_dispatch LL h1 v args c = Ret target"
      by (auto simp: file_flush_hook_def chain_eq)
    with that heap_grows_refl [OF that(1)] seal_response_grows [OF that(1)] show ?thesis
      by (cases target) (auto simp: file_flush_hook_def chain_eq split: option.splits)
  qed
  have response: "heap_grows h h'" if "file_flush_hook LL refused (snd (push_file f h)) v args c = Ret (t, h')" for f v args
    using heap_grows_trans [OF push_file_grows [OF h] hook [OF heap_grows_typed [OF push_file_grows [OF h] h] that]] .
  from hook [OF h] show "file_flush_hook LL refused h v args c = Ret (t, h') \<Longrightarrow> heap_grows h h'" .
  show "lws_lua_response_flush LL refused h c = Ret (t, h') \<Longrightarrow> heap_grows h h'"
    using response
    by (auto simp: lws_lua_response_flush_def chain_eq split_beta Let_def)
qed

lemma lib_call_effect:
  assumes h: "heap_typed h" and call: "lib_call LL E pt status refused f upvalue args (h, c) = Ret (vs, h', c')"
  shows "heap_grows h h' \<and> c_same c c'"
  using call heap_grows_refl [OF h] heap_grows_rawset [OF h] flush_grows [OF h]
  by (cases f)
    (auto simp: lib_call_def chain_eq table_index_object_def table_newindex_object_def put_table_same
      getvariable_object_def response_newindex_object_def split_beta Let_def
      split: if_splits flush_target.splits dest!: gc_same(1) [OF h])

section \<open>What the start of a run changes\<close>

text \<open>The userdata that stand for a table and for a file, in a heap with the metatables.\<close>

definition table_user :: "lua_heap \<Rightarrow> bool \<Rightarrow> nat \<Rightarrow> lua_user" where
  "table_user h ro t = \<lparr>u_data = UTable \<lparr>lt_t = Some t, lt_readonly = ro, lt_external = True\<rparr>,
     u_meta = (case h_registry h LWS_TABLE of OTable b \<Rightarrow> Some b | _ \<Rightarrow> None)\<rparr>"

definition file_user :: "lua_heap \<Rightarrow> nat \<Rightarrow> lua_user" where
  "file_user h f = \<lparr>u_data = UStream \<lparr>st_f = Some f, st_closef = Some F_close_file\<rparr>,
     u_meta = (case h_registry h LUA_FILEHANDLE of OTable b \<Rightarrow> Some b | _ \<Rightarrow> None)\<rparr>"

definition ctx_user :: "lua_heap \<Rightarrow> nat \<Rightarrow> nat \<Rightarrow> lua_user" where
  "ctx_user h a u = \<lparr>u_data = UCtx \<lparr>lc_ctx = Some a, lc_response_headers = Some u, lc_sealed = False\<rparr>,
     u_meta = (case h_registry h LWS_REQUEST_CTX of OTable b \<Rightarrow> Some b | _ \<Rightarrow> None)\<rparr>"

lemma push_request_simps [simp]:
  "fst (push_request x h) = h_next h"
  "h_users (snd (push_request x h)) = (h_users h)(h_next h + 1 \<mapsto> table_user h True (x_request_headers x),
     h_next h + 2 \<mapsto> file_user h (x_request_body x))"
  "h_next (snd (push_request x h)) = h_next h + 3"
  "h_registry (snd (push_request x h)) = h_registry h"
  "h_globals (snd (push_request x h)) = h_globals h"
  by (simp_all add: push_request_def split_beta Let_def table_user_def file_user_def)

lemma set_response_headers_simps [simp]:
  "h_users (set_response_headers l u h) = point_headers l u (h_users h)"
  "h_next (set_response_headers l u h) = h_next h" "h_registry (set_response_headers l u h) = h_registry h"
  "h_globals (set_response_headers l u h) = h_globals h" "rawget (set_response_headers l u h) = rawget h"
  "table_at (set_response_headers l u h) = table_at h"
  by (simp_all add: set_response_headers_def rawget_def table_at_def fun_eq_iff)

lemma point_headers_at:
  "us v = Some ud \<Longrightarrow> \<forall>lctx. u_data ud \<noteq> UCtx lctx \<Longrightarrow> point_headers l u us v = Some ud"
  by (cases "v = l") (auto simp: point_headers_def split: option.splits udata.splits)

lemma new_users_data:
  "u_data (table_user h ro t) = UTable \<lparr>lt_t = Some t, lt_readonly = ro, lt_external = True\<rparr>"
  "u_data (file_user h f) = UStream \<lparr>st_f = Some f, st_closef = Some F_close_file\<rparr>"
  by (simp_all add: table_user_def file_user_def)

lemma point_headers_ctx [simp]:
  "us l = Some ud \<Longrightarrow> u_data ud = UCtx lctx \<Longrightarrow>
     point_headers l u us = us(l \<mapsto> ud\<lparr>u_data := UCtx (lctx\<lparr>lc_response_headers := Some u\<rparr>)\<rparr>)"
  by (simp add: point_headers_def)

lemma push_response_simps [simp]:
  "fst (push_response l x h) = h_next h"
  "h_users (snd (push_response l x h)) = (point_headers l (h_next h + 1)
     ((h_users h)(h_next h + 1 \<mapsto> table_user h False (x_response_headers x))))
     (h_next h + 2 \<mapsto> file_user h (x_response_body x))"
  "h_next (snd (push_response l x h)) = h_next h + 3"
  "h_registry (snd (push_response l x h)) = h_registry h"
  "h_globals (snd (push_response l x h)) = h_globals h"
  by (simp_all add: push_response_def split_beta Let_def table_user_def file_user_def)

lemma push_env_simps [simp]:
  "fst (push_env_objects l x h) = h_next h"
  "h_users (snd (push_env_objects l x h)) = (point_headers l (h_next h + 6) ((h_users h)(
     h_next h + 3 \<mapsto> table_user h True (x_request_headers x), h_next h + 4 \<mapsto> file_user h (x_request_body x),
     h_next h + 6 \<mapsto> table_user h False (x_response_headers x))))
     (h_next h + 7 \<mapsto> file_user h (x_response_body x))"
  "h_next (snd (push_env_objects l x h)) = h_next h + 8"
  "h_registry (snd (push_env_objects l x h)) = h_registry h"
  "h_globals (snd (push_env_objects l x h)) = h_globals h"
  by (simp_all add: push_env_objects_def split_beta Let_def table_user_def file_user_def eval_nat_numeral)

lemma run_begin_simps [simp]:
  "h_registry (run_begin a x h) = (h_registry h)(LWS_REQUEST_CTX_CURRENT := OUser (h_next h))"
  "h_next (run_begin a x h) = h_next h + 9"
  "h_users (run_begin a x h) = (h_users h)(h_next h \<mapsto> ctx_user h a (h_next h + 7),
     h_next h + 4 \<mapsto> table_user h True (x_request_headers x), h_next h + 5 \<mapsto> file_user h (x_request_body x),
     h_next h + 7 \<mapsto> table_user h False (x_response_headers x), h_next h + 8 \<mapsto> file_user h (x_response_body x))"
  by (simp_all add: run_begin_def lws_create_request_ctx_object_def split_beta Let_def table_user_def
      file_user_def ctx_user_def eval_nat_numeral fun_eq_iff)

lemma new_users_ok:
  assumes "metas_ok h"
  shows "user_ok h (ctx_user h a u)" "user_ok h (table_user h ro t)" "user_ok h (file_user h f)"
  using assms by (auto simp: metas_ok_def user_ok_def ctx_user_def table_user_def file_user_def)

lemma run_begin_typed:
  assumes "heap_typed h" shows "heap_typed (run_begin a x h)"
proof -
  have metas: "metas_ok h" using assms by (simp add: heap_typed_def)
  then have "metas_ok (run_begin a x h)" by (simp add: metas_ok_def)
  moreover have "user_ok (run_begin a x h) ud \<longleftrightarrow> user_ok h ud" for ud by (simp add: user_ok_def)
  moreover have "u < h_next h + 9 \<and> user_ok h ud" if "h_users (run_begin a x h) u = Some ud" for u ud
  proof (cases "h_users h u = Some ud")
    case True
    with assms show ?thesis by (fastforce simp: heap_typed_def)
  next
    case False
    with that new_users_ok [OF metas] show ?thesis by (auto split: if_splits)
  qed
  ultimately show ?thesis by (simp add: heap_typed_def)
qed

section \<open>The invariant\<close>

definition x_tables :: "request_objects \<Rightarrow> nat list" where
  "x_tables x = [x_variables x, x_request_headers x, x_response_headers x]"

definition x_files :: "request_objects \<Rightarrow> nat list" where
  "x_files x = [x_request_body x, x_response_body x]"

definition objects_ok :: "lws_c \<Rightarrow> bool" where
  "objects_ok c \<longleftrightarrow>
     (\<forall>a x. c_ctxs c a = Some x \<longrightarrow>
        distinct (x_tables x) \<and> set (x_tables x) \<subseteq> dom (c_tables c) \<and>
        distinct (x_files x) \<and> set (x_files x) \<subseteq> c_files c) \<and>
     (\<forall>a x b y. c_ctxs c a = Some x \<longrightarrow> c_ctxs c b = Some y \<longrightarrow> a \<noteq> b \<longrightarrow>
        set (x_tables x) \<inter> set (x_tables y) = {} \<and> set (x_files x) \<inter> set (x_files y) = {})"

definition running_ok :: "lua_proc \<Rightarrow> bool" where
  "running_ok p \<longleftrightarrow>
     (\<forall>a. p_run p = Some a \<longrightarrow> c_ctxs (p_c p) a \<noteq> None \<and>
        (\<exists>lctx. lws_get_lua_request_ctx (p_heap p) = Ret lctx \<and> lc_ctx lctx = Some a \<and>
           lc_response_headers lctx \<noteq> None))"

text \<open>What stays of the context of a run: the request and the raw pointer.\<close>

definition same_ctx :: "lua_heap \<Rightarrow> lua_heap \<Rightarrow> bool" where
  "same_ctx h h' \<longleftrightarrow>
     (\<forall>lctx. lws_get_lua_request_ctx h = Ret lctx \<longrightarrow>
        (\<exists>lctx'. lws_get_lua_request_ctx h' = Ret lctx' \<and> lc_ctx lctx' = lc_ctx lctx \<and>
           lc_response_headers lctx' = lc_response_headers lctx))"

lemma running_ok_same:
  assumes "running_ok p" "same_ctx (p_heap p) h" "c_ctxs c = c_ctxs (p_c p)"
  shows "running_ok (p\<lparr>p_heap := h, p_c := c\<rparr>)"
  using assms by (fastforce simp: running_ok_def same_ctx_def)

definition lua_proc_inv :: "lua_proc \<Rightarrow> bool" where
  "lua_proc_inv p \<longleftrightarrow> heap_typed (p_heap p) \<and> objects_ok (p_c p) \<and> running_ok p"

lemma objects_ok_same: "c_same c c' \<Longrightarrow> objects_ok c \<Longrightarrow> objects_ok c'"
  by (simp add: objects_ok_def c_same_def)

lemma objects_ok_add:
  assumes "objects_ok c" "fresh_request c a x" shows "objects_ok (add_request a x tv tr ts c)"
proof -
  have old: "set (x_tables x) \<inter> set (x_tables y) = {}" "set (x_files x) \<inter> set (x_files y) = {}"
    if "c_ctxs c b = Some y" for b y
    using assms that by (fastforce simp: objects_ok_def fresh_request_def x_tables_def x_files_def)+
  have new: "distinct (x_tables x)" "distinct (x_files x)"
    using assms(2) by (simp_all add: fresh_request_def x_tables_def x_files_def)
  have "set (x_tables y) \<subseteq> dom (c_tables (add_request a x tv tr ts c)) \<and> set (x_files y) \<subseteq> c_files (add_request a x tv tr ts c)"
    if "c_ctxs (add_request a x tv tr ts c) b = Some y" for b y
    using assms(1) that
    by (fastforce simp: objects_ok_def add_request_def x_tables_def x_files_def split: if_splits)
  moreover have "distinct (x_tables y) \<and> distinct (x_files y)"
    if "c_ctxs (add_request a x tv tr ts c) b = Some y" for b y
    using assms(1) new that by (auto simp: objects_ok_def add_request_def split: if_splits)
  moreover have "set (x_tables y) \<inter> set (x_tables z) = {} \<and> set (x_files y) \<inter> set (x_files z) = {}"
    if yz: "c_ctxs (add_request a x tv tr ts c) b = Some y" "c_ctxs (add_request a x tv tr ts c) d = Some z" "b \<noteq> d"
    for b y d z
  proof -
    consider "b = a" "y = x" "c_ctxs c d = Some z" | "d = a" "z = x" "c_ctxs c b = Some y"
      | "c_ctxs c b = Some y" "c_ctxs c d = Some z"
      using yz by (cases "b = a"; cases "d = a") (simp_all add: add_request_def)
    then show ?thesis
    proof cases
      case 1
      with old [of d z] show ?thesis by simp
    next
      case 2
      with old [of b y] show ?thesis by (metis Int_commute)
    next
      case 3
      with assms(1) yz(3) show ?thesis unfolding objects_ok_def by blast
    qed
  qed
  ultimately show ?thesis unfolding objects_ok_def by blast
qed

text \<open>The cleanup of a request finds all its objects and releases exactly these.\<close>

lemma cleanup_objects_result:
  assumes "objects_ok c" "c_ctxs c a = Some x"
  shows "cleanup_objects a x c = Ret (c\<lparr>c_tables := (c_tables c) |` (- set (x_tables x)),
    c_files := c_files c - set (x_files x), c_ctxs := (c_ctxs c)(a := None)\<rparr>)"
proof -
  have "distinct (x_tables x) \<and> set (x_tables x) \<subseteq> dom (c_tables c) \<and> distinct (x_files x) \<and>
      set (x_files x) \<subseteq> c_files c"
    using assms unfolding objects_ok_def by blast
  then have "x_request_headers x \<noteq> x_variables x" "x_response_headers x \<noteq> x_variables x"
    "x_response_headers x \<noteq> x_request_headers x" "x_response_body x \<noteq> x_request_body x"
    "c_tables c (x_variables x) \<noteq> None" "c_tables c (x_request_headers x) \<noteq> None"
    "c_tables c (x_response_headers x) \<noteq> None" "x_request_body x \<in> c_files c" "x_response_body x \<in> c_files c"
    by (auto simp: x_tables_def x_files_def)
  then have "cleanup_objects a x c = Ret (c\<lparr>
      c_tables := (c_tables c)(x_variables x := None, x_request_headers x := None, x_response_headers x := None),
      c_files := c_files c - {x_request_body x} - {x_response_body x}, c_ctxs := (c_ctxs c)(a := None)\<rparr>)"
    by (simp add: cleanup_objects_def free_table_def close_file_def)
  moreover have "(c_tables c)(x_variables x := None, x_request_headers x := None, x_response_headers x := None) =
      (c_tables c) |` (- set (x_tables x))"
    by (rule ext) (simp add: x_tables_def restrict_map_def)
  moreover have "c_files c - {x_request_body x} - {x_response_body x} = c_files c - set (x_files x)"
    by (auto simp: x_files_def)
  ultimately show ?thesis by simp
qed

lemma objects_ok_cleanup:
  assumes "objects_ok c" "c_ctxs c a = Some x"
  shows "objects_ok (c\<lparr>c_tables := (c_tables c) |` (- set (x_tables x)),
    c_files := c_files c - set (x_files x), c_ctxs := (c_ctxs c)(a := None)\<rparr>)" (is "objects_ok ?c")
proof -
  have ctxs: "c_ctxs c b = Some y \<and> b \<noteq> a" if "c_ctxs ?c b = Some y" for b y
    using that by (auto split: if_splits)
  have apart: "set (x_tables x) \<inter> set (x_tables y) = {} \<and> set (x_files x) \<inter> set (x_files y) = {}"
    if "c_ctxs c b = Some y" "b \<noteq> a" for b y
    using assms that unfolding objects_ok_def by blast
  have "distinct (x_tables y) \<and> set (x_tables y) \<subseteq> dom (c_tables ?c) \<and> distinct (x_files y) \<and>
      set (x_files y) \<subseteq> c_files ?c" if "c_ctxs ?c b = Some y" for b y
  proof -
    from ctxs [OF that] have b: "c_ctxs c b = Some y" "b \<noteq> a" by simp_all
    with assms(1) have "distinct (x_tables y) \<and> set (x_tables y) \<subseteq> dom (c_tables c) \<and>
        distinct (x_files y) \<and> set (x_files y) \<subseteq> c_files c"
      unfolding objects_ok_def by blast
    with apart [OF b] show ?thesis by auto
  qed
  moreover have "set (x_tables y) \<inter> set (x_tables z) = {} \<and> set (x_files y) \<inter> set (x_files z) = {}"
    if "c_ctxs ?c b = Some y" "c_ctxs ?c d = Some z" "b \<noteq> d" for b y d z
    using assms(1) ctxs [OF that(1)] ctxs [OF that(2)] that(3) unfolding objects_ok_def by blast
  ultimately show ?thesis unfolding objects_ok_def by blast
qed

lemma initial_inv: "initial_proc p \<Longrightarrow> lua_proc_inv p"
  by (auto simp: initial_proc_def lua_proc_inv_def heap_typed_def metas_ok_def objects_ok_def
      running_ok_def foreign_def user_ok_def)

lemma same_ctx_grows:
  assumes g: "heap_grows h h'" and h: "heap_typed h" shows "same_ctx h h'"
proof -
  have "\<exists>lctx'. lws_get_lua_request_ctx h' = Ret lctx' \<and> lc_ctx lctx' = lc_ctx lctx \<and>
      lc_response_headers lctx' = lc_response_headers lctx" if lctx: "lws_get_lua_request_ctx h = Ret lctx" for lctx
  proof -
    from lctx obtain l ud m where l: "h_registry h LWS_REQUEST_CTX_CURRENT = OUser l" "h_users h l = Some ud"
      "u_data ud = UCtx lctx" "u_meta ud = Some m" "h_registry h LWS_REQUEST_CTX = OTable m"
      by (auto simp: get_ctx_eq)
    from heap_grows_old [OF g h l(2)] obtain ud' where "h_users h' l = Some ud'" "flushed_user ud ud'" by blast
    moreover have "h_registry h' = h_registry h" using g by (simp add: heap_grows_def)
    ultimately show ?thesis using l by (auto simp: get_ctx_eq flushed_user_def)
  qed
  then show ?thesis by (simp add: same_ctx_def)
qed

lemma code_changes_typed:
  assumes "lua_code_changes h h'" "heap_typed h" shows "heap_typed h'"
proof -
  have "u < h_next h' \<and> user_ok h ud'" if ud': "h_users h' u = Some ud'" for u ud'
  proof (cases "h_users h u")
    case None
    with ud' assms(1) have "u < h_next h'" "foreign h ud'" by (auto simp: lua_code_changes_def)
    with assms(2) show ?thesis by (auto simp: foreign_def user_ok_def heap_typed_def metas_ok_def)
  next
    case (Some ud)
    with ud' assms(1) have "kept_user ud ud'" "h_next h \<le> h_next h'"
      unfolding lua_code_changes_def by fastforce+
    moreover from Some assms(2) have "u < h_next h" "user_ok h ud" by (auto simp: heap_typed_def)
    ultimately show ?thesis by (auto simp: kept_user_def user_ok_def)
  qed
  moreover have "h_registry h' = h_registry h" using assms(1) by (simp add: lua_code_changes_def)
  ultimately show ?thesis
    using assms(2) by (simp add: heap_typed_def metas_ok_def user_ok_cong [of h' h])
qed

lemma same_ctx_code: "lua_code_changes h h' \<Longrightarrow> same_ctx h h'"
  by (fastforce simp: same_ctx_def get_ctx_eq lua_code_changes_def kept_user_def)

lemma same_ctx_collect:
  "h_registry h LWS_REQUEST_CTX_CURRENT \<noteq> OUser u \<Longrightarrow> same_ctx h (h\<lparr>h_users := (h_users h)(u := None)\<rparr>)"
  by (force simp: same_ctx_def get_ctx_eq)

lemma collect_inv:
  assumes "lua_proc_inv p" "h_registry (p_heap p) LWS_REQUEST_CTX_CURRENT \<noteq> OUser u"
  shows "lua_proc_inv (p\<lparr>p_heap := (p_heap p)\<lparr>h_users := (h_users (p_heap p))(u := None)\<rparr>\<rparr>)"
proof -
  have "running_ok (p\<lparr>p_heap := (p_heap p)\<lparr>h_users := (h_users (p_heap p))(u := None)\<rparr>\<rparr>)"
    using running_ok_same [OF _ same_ctx_collect [OF assms(2)], where c = "p_c p"] assms(1) by (simp add: lua_proc_inv_def)
  with assms(1) show ?thesis
    by (auto simp: lua_proc_inv_def heap_typed_def metas_ok_def user_ok_def split: if_splits)
qed

lemma step_inv:
  assumes "lua_proc_step LL E pt status p p'" "lua_proc_inv p"
  shows "lua_proc_inv p'"
  using assms
proof (induction rule: lua_proc_step.induct)
  case (request p a x tv tr ts)
  then show ?case
    using objects_ok_add [of "p_c p" a x tv tr ts]
    by (auto simp: lua_proc_inv_def running_ok_def add_request_def)
next
  case (run p a x)
  have metas: "metas_ok (p_heap p)" using run by (simp add: lua_proc_inv_def heap_typed_def)
  then have "lws_get_lua_request_ctx (run_begin a x (p_heap p)) =
      Ret \<lparr>lc_ctx = Some a, lc_response_headers = Some (h_next (p_heap p) + 7), lc_sealed = False\<rparr>"
    by (auto simp: get_ctx_eq ctx_user_def metas_ok_def)
  with run run_begin_typed show ?case by (simp add: lua_proc_inv_def running_ok_def)
next
  case (call refused f upvalue args p vs h c)
  from call have "heap_typed (p_heap p)" by (simp add: lua_proc_inv_def)
  from lib_call_effect [OF this call.hyps] have g: "heap_grows (p_heap p) h" "c_same (p_c p) c" by auto
  with call.prems show ?case
    using heap_grows_typed [OF g(1)] objects_ok_same [OF g(2)] running_ok_same [OF _ same_ctx_grows [OF g(1)], where c = c]
    by (simp add: lua_proc_inv_def c_same_def)
next
  case (code p h)
  then show ?case
    using code_changes_typed [OF code.hyps] running_ok_same [OF _ same_ctx_code [OF code.hyps], where c = "p_c p"]
    by (simp add: lua_proc_inv_def)
next
  case (file_open f p)
  then show ?case by (auto simp: lua_proc_inv_def running_ok_def objects_ok_def)
next
  case (file_close f p)
  have "f \<notin> set (x_files x)" if "c_ctxs (p_c p) a = Some x" for a x
    using file_close.hyps that by (auto simp: request_files_def x_files_def)
  with file_close.prems show ?case
    unfolding lua_proc_inv_def running_ok_def objects_ok_def by fastforce
next
  case (collect p u c)
  then have "c = p_c p" using gc_same(1) by (auto simp: lua_proc_inv_def)
  with collect.prems collect.hyps(1) show ?case by (simp add: collect_inv)
next
  case (collect_other p u e)
  then show ?case by (simp add: collect_inv)
next
  case (run_ends p a)
  then show ?case
    by (auto simp: lua_proc_inv_def running_ok_def heap_typed_def metas_ok_def user_ok_def)
next
  case (run_fails p a)
  then show ?case by (auto simp: lua_proc_inv_def running_ok_def)
next
  case (cleanup p a x c)
  then have "objects_ok (p_c p)" by (simp add: lua_proc_inv_def)
  from objects_ok_cleanup [OF this cleanup.hyps(2)] cleanup_objects_result [OF this cleanup.hyps(2)] cleanup
  show ?case by (auto simp: lua_proc_inv_def running_ok_def)
qed

section \<open>The handle of the response headers\<close>

lemma headers_kept_eq:
  "headers_kept h \<longleftrightarrow> (\<exists>u ud lt. response_headers_block h = Some u \<and> h_users h u = Some ud \<and> u_data ud = UTable lt)"
  by (auto simp: headers_kept_def split: option.splits udata.splits)

lemma same_ctx_block:
  "same_ctx h h' \<Longrightarrow> response_headers_block h = Some u \<Longrightarrow> response_headers_block h' = Some u"
  by (fastforce simp: same_ctx_def response_headers_block_def split: outcome.splits)

text \<open>A run starts with the handle, and in the run no step but its collection takes it away.\<close>

lemma headers_kept_begin:
  assumes "metas_ok h"
  shows "response_headers_block (run_begin a x h) = Some (h_next h + 7)" "headers_kept (run_begin a x h)"
proof -
  from assms have "lws_get_lua_request_ctx (run_begin a x h) =
      Ret \<lparr>lc_ctx = Some a, lc_response_headers = Some (h_next h + 7), lc_sealed = False\<rparr>"
    by (auto simp: get_ctx_eq ctx_user_def metas_ok_def)
  then show block: "response_headers_block (run_begin a x h) = Some (h_next h + 7)"
    by (simp add: response_headers_block_def)
  then show "headers_kept (run_begin a x h)" by (simp add: headers_kept_eq table_user_def)
qed

lemma headers_kept_step:
  assumes step: "lua_proc_step LL E pt status p p'" and inv: "lua_proc_inv p"
    and run: "p_run p = Some a" "p_run p' = Some a"
    and u: "headers_kept (p_heap p)" "response_headers_block (p_heap p) = Some u" "h_users (p_heap p') u \<noteq> None"
  shows "headers_kept (p_heap p') \<and> response_headers_block (p_heap p') = Some u"
proof -
  have h: "heap_typed (p_heap p)" using inv by (simp add: lua_proc_inv_def)
  from u(1,2) obtain ud lt where ud: "h_users (p_heap p) u = Some ud" "u_data ud = UTable lt"
    by (auto simp: headers_kept_eq)
  have kept: ?thesis if "same_ctx (p_heap p) (p_heap p')" "h_users (p_heap p') u = Some ud'" "u_data ud' = UTable lt'" for ud' lt'
    using same_ctx_block [OF that(1) u(2)] that(2,3) by (simp add: headers_kept_eq)
  have same: ?thesis if "p_heap p' = p_heap p"
    using that u by simp
  from step show ?thesis
  proof cases
    case (call refused f upvalue args vs h' c)
    from lib_call_effect [OF h call(2)] call(1) have g: "heap_grows (p_heap p) (p_heap p')" by simp
    from heap_grows_old [OF g h ud(1)] ud(2) kept [OF same_ctx_grows [OF g h]] show ?thesis
      by (auto simp: flushed_user_def)
  next
    case (code h')
    then have c: "lua_code_changes (p_heap p) (p_heap p')" by simp
    with ud(1) obtain ud' where "h_users (p_heap p') u = Some ud'" "kept_user ud ud'"
      unfolding lua_code_changes_def by blast
    with ud(2) kept [OF same_ctx_code [OF c]] show ?thesis by (auto simp: kept_user_def)
  next
    case (collect v c)
    with u(3) ud kept same_ctx_collect [OF collect(2)] show ?thesis by (auto split: if_splits)
  next
    case (collect_other v e)
    with u(3) ud kept same_ctx_collect [OF collect_other(2)] show ?thesis by (auto split: if_splits)
  qed (use run same in auto)
qed

end
