(* ===== verification/LwsHandlesCorrect.thy ===== *)
theory LwsHandlesCorrect
  imports LwsHandlesInv
begin

text \<open>
  What Lua code can and cannot do with the handles of a request: theorems on every process that the
  steps of \<open>LwsHandles\<close> reach, and the environment that a run starts with.
\<close>

lemma reach_inv: "lua_proc_reach LL E pt status p \<Longrightarrow> lua_proc_inv p"
proof -
  assume "lua_proc_reach LL E pt status p"
  then obtain p0 where "initial_proc p0" and steps: "(lua_proc_step LL E pt status)\<^sup>*\<^sup>* p0 p"
    by (auto simp: lua_proc_reach_def)
  from steps initial_inv [OF this(1)] show ?thesis
    by (induction rule: rtranclp_induct) (auto intro: step_inv)
qed

lemma reach_step:
  "lua_proc_reach LL E pt status p \<Longrightarrow> lua_proc_step LL E pt status p p' \<Longrightarrow> lua_proc_reach LL E pt status p'"
  unfolding lua_proc_reach_def by (meson rtranclp.rtrancl_into_rtrancl)

section \<open>A demonstration process\<close>

definition demo_proc_heap :: lua_heap where
  "demo_proc_heap = \<lparr>h_tables = [0 \<mapsto> empty_table, 1 \<mapsto> empty_table, 2 \<mapsto> empty_table, 3 \<mapsto> empty_table,
       4 \<mapsto> demo_fields [(''__index'', OFun F_response_index)]],
     h_users = Map.empty, h_next = 5,
     h_registry = (\<lambda>_. ONil)(LWS_REQUEST_CTX := OTable 1, LWS_TABLE := OTable 2, LUA_FILEHANDLE := OTable 3,
       LWS_RESPONSE := OTable 4),
     h_globals = 0\<rparr>"

definition demo_objects :: request_objects where
  "demo_objects = \<lparr>x_method = lit ''GET'', x_uri = lit ''/x?a=1'', x_path = lit ''/x'', x_args = lit ''a=1'',
     x_path_info = [], x_inet = True, x_addr_text = lit ''127.0.0.1'', x_variables = 10,
     x_request_headers = 11, x_response_headers = 12, x_request_body = 13, x_response_body = 14\<rparr>"

definition demo_proc_start :: lua_proc where
  "demo_proc_start = \<lparr>p_heap = demo_proc_heap, p_c = \<lparr>c_tables = Map.empty, c_files = {}, c_ctxs = Map.empty\<rparr>,
     p_run = None, p_closing = False\<rparr>"

definition demo_requested :: lua_proc where
  "demo_requested = demo_proc_start\<lparr>p_c := add_request 1 demo_objects demo_resp_start demo_resp_start demo_resp_start
     (p_c demo_proc_start)\<rparr>"

definition demo_running :: lua_proc where
  "demo_running = demo_requested\<lparr>p_heap := run_begin 1 demo_objects demo_proc_heap, p_run := Some 1\<rparr>"

lemma demo_proc_reach:
  "lua_proc_reach LL E pt status demo_proc_start" "lua_proc_reach LL E pt status demo_requested"
  "lua_proc_reach LL E pt status demo_running"
proof -
  have "initial_proc demo_proc_start"
    by (auto simp: initial_proc_def demo_proc_start_def demo_proc_heap_def foreign_def)
  then show start: "lua_proc_reach LL E pt status demo_proc_start" by (auto simp: lua_proc_reach_def)
  have "fresh_request (p_c demo_proc_start) 1 demo_objects"
    by (simp add: fresh_request_def demo_proc_start_def demo_objects_def)
  then show requested: "lua_proc_reach LL E pt status demo_requested"
    unfolding demo_requested_def by (intro reach_step [OF start] lua_proc_step.request)
  have "lua_proc_step LL E pt status demo_requested
      (demo_requested\<lparr>p_heap := run_begin 1 demo_objects (p_heap demo_requested), p_run := Some 1\<rparr>)"
    by (rule lua_proc_step.run) (simp_all add: demo_requested_def demo_proc_start_def add_request_def)
  then show "lua_proc_reach LL E pt status demo_running"
    unfolding demo_running_def by (intro reach_step [OF requested]) (simp add: demo_requested_def demo_proc_start_def)
qed

lemma demo_not_collected: "\<not> headers_collected (p_heap demo_running)" "response_headers_block (p_heap demo_running) = Some 12"
proof -
  have "metas_ok demo_proc_heap" by (simp add: metas_ok_def demo_proc_heap_def)
  from headers_kept_begin [OF this, of 1 demo_objects]
  show "\<not> headers_collected (p_heap demo_running)" "response_headers_block (p_heap demo_running) = Some 12"
    by (simp_all add: demo_running_def headers_collected_def) (simp add: demo_proc_heap_def)
qed

text \<open>The initialization of \<open>LwsOpen\<close> makes such a process, if the standard libraries have made no userdata but
  files.\<close>

lemma lws_init_reach:
  assumes "std_libs_ok sl (openlibs h0)" "h_registry (openlibs h0) LWS_REQUEST_CTX_CURRENT = ONil"
    and users: "\<And>u ud m. h_users (openlibs h0) u = Some ud \<Longrightarrow> u < h_next (openlibs h0) \<and>
      (u_meta ud = Some m \<longrightarrow> m < h_next (openlibs h0) \<and> (m = sl_file_meta sl \<longrightarrow> (\<exists>s. u_data ud = UStream s)))"
    and "c_ctxs c = Map.empty"
  shows "\<exists>h. lws_init openlibs path cpath monitor h0 = Ret h \<and>
    lua_proc_reach LL E pt status \<lparr>p_heap = h, p_c = c, p_run = None, p_closing = False\<rparr>"
proof -
  from lws_init_initialized [of sl openlibs h0 path cpath monitor, OF assms(1)] obtain h where
    h: "lws_init openlibs path cpath monitor h0 = Ret h" and i: "initialized sl path cpath monitor (openlibs h0) h"
    by blast
  from i have reg: "h_registry h LWS_REQUEST_CTX = OTable (h_next (openlibs h0) + 3)"
    "h_registry h LWS_TABLE = OTable (h_next (openlibs h0) + 4)" "h_registry h LUA_FILEHANDLE = OTable (sl_file_meta sl)"
    "h_registry h LWS_REQUEST_CTX_CURRENT = ONil" and other: "h_users h = h_users (openlibs h0)"
      "h_next (openlibs h0) \<le> h_next h" and lt: "sl_file_meta sl < h_next (openlibs h0)"
    using assms(1,2) by (auto simp: initialized_def std_libs_ok_def Let_def)
  have "u < h_next h \<and> foreign h ud" if "h_users h u = Some ud" for u ud
    using users [of u ud] that other reg by (fastforce simp: foreign_def)
  then have "initial_proc \<lparr>p_heap = h, p_c = c, p_run = None, p_closing = False\<rparr>"
    using reg lt assms(4) by (simp add: initial_proc_def)
  with h show ?thesis by (auto simp: lua_proc_reach_def)
qed

section \<open>Types\<close>

text \<open>C10: Whatever Lua code does, in and between runs, no function of the library reads a block at a type that
  it does not have: \<open>luaL_checkudata\<close> admits exactly the blocks that were made for it. This holds for every
  function that Lua code can get, called on any values, at any time, with one exception: a flush of the
  response writes through the raw pointer \<open>lctx->response_headers\<close>, so that its block may be of another type
  once the collector has taken the handle of the response headers (\<open>headers_collected\<close>; the exception is
  real, by \<open>lws_flush_after_collect\<close>). The two metamethods of the profiler are not among the functions, as its
  handle is in the registry only.\<close>

theorem lws_calls_typed:
  assumes "lua_proc_reach LL E pt status p" "\<not> (flushes f \<and> headers_collected (p_heap p))"
  shows "lib_call LL E pt status refused f upvalue args (p_heap p, p_c p) \<noteq> Confused"
  using reach_inv [OF assms(1)] assms(2) by (intro lib_call_not_confused) (simp_all add: lua_proc_inv_def)

theorem lws_calls_typed_witness:
  "lib_call demo_lua demo_env (\<lambda>_. []) (\<lambda>_. ONil) None F_response_flush ONil []
     (p_heap demo_running, p_c demo_running) \<noteq> Confused"
  using demo_not_collected by (intro lws_calls_typed [OF demo_proc_reach(3)]) simp

section \<open>Lifetimes\<close>

text \<open>The handles that may be used in a run: those of its request, and open files of the Lua library.\<close>

definition live_handle :: "lua_proc \<Rightarrow> request_objects \<Rightarrow> obj \<Rightarrow> bool" where
  "live_handle p x v \<longleftrightarrow>
     (case v of
        OUser u \<Rightarrow>
          (case h_users (p_heap p) u of
             None \<Rightarrow> True
           | Some ud \<Rightarrow>
               (case u_data ud of
                  UTable lt \<Rightarrow> lt_t lt \<in> {Some (x_request_headers x), Some (x_response_headers x)}
                | UStream s \<Rightarrow> st_closef s = None \<or> st_f s \<in> Some ` c_files (p_c p)
                | UCtx _ \<Rightarrow> True))
      | _ \<Rightarrow> True)"

lemma running_ctx:
  assumes "lua_proc_inv p" "p_run p = Some a" "c_ctxs (p_c p) a = Some x"
  obtains lctx where "lws_get_lua_request_ctx (p_heap p) = Ret lctx" "lc_ctx lctx = Some a"
    "lc_response_headers lctx \<noteq> None" "deref_ctx (p_c p) (lc_ctx lctx) = Ret x"
    "current_ctx (p_heap p) (p_c p) = Ret x"
  using assms by (auto simp: lua_proc_inv_def running_ok_def current_ctx_def deref_ctx_def)

lemma live_args:
  assumes inv: "lua_proc_inv p" and x: "c_ctxs (p_c p) a = Some x"
    and live: "list_all (live_handle p x) args"
  shows "check_lua_table LL (p_heap p) args = Ret lt \<Longrightarrow> deref_table (p_c p) (lt_t lt) \<noteq> Freed"
    "file_method LL (p_heap p) args (p_c p) \<noteq> Freed"
proof -
  have dom: "x_request_headers x \<in> dom (c_tables (p_c p))" "x_response_headers x \<in> dom (c_tables (p_c p))"
  proof -
    have "set (x_tables x) \<subseteq> dom (c_tables (p_c p))"
      using inv x unfolding lua_proc_inv_def objects_ok_def by blast
    then show "x_request_headers x \<in> dom (c_tables (p_c p))" "x_response_headers x \<in> dom (c_tables (p_c p))"
      by (simp_all add: x_tables_def)
  qed
  have first: "live_handle p x (arg 1 args)"
    using live by (cases args) (simp_all add: arg_def live_handle_def)
  show "deref_table (p_c p) (lt_t lt) \<noteq> Freed" if "check_lua_table LL (p_heap p) args = Ret lt"
  proof -
    from that obtain d where d: "luaL_testudata (p_heap p) (arg 1 args) LWS_TABLE = Some d" "as_table d = Ret lt"
      by (auto simp: check_lua_table_def chain_eq checkudata_eq)
    with first testudata_data [OF d(1)] have
      "lt_t lt \<in> {Some (x_request_headers x), Some (x_response_headers x)}"
      by (cases d) (auto simp: live_handle_def)
    with dom show ?thesis by (auto simp: deref_table_def)
  qed
  show "file_method LL (p_heap p) args (p_c p) \<noteq> Freed"
  proof (cases "luaL_testudata (p_heap p) (arg 1 args) LUA_FILEHANDLE")
    case None
    then show ?thesis by (simp add: file_method_def luaL_checkudata_def)
  next
    case (Some d)
    with first testudata_data [OF Some] show ?thesis
      by (cases d) (auto simp: live_handle_def file_method_def luaL_checkudata_def split: option.splits)
  qed
qed

lemma current_push_file: "heap_typed h \<Longrightarrow> current_ctx (snd (push_file f h)) c = current_ctx h c"
  by (simp add: current_ctx_def get_ctx_push_file)

text \<open>A flush of a running request whose handle of the response headers is there reaches live objects.\<close>

lemma flush_live:
  assumes h: "heap_typed h" and ctx: "current_ctx h c = Ret x" and kept: "headers_kept h"
  shows "file_flush_hook LL refused h v args c \<noteq> Freed" "lws_lua_response_flush LL refused h c \<noteq> Freed"
proof -
  have hook: "file_flush_hook LL refused h' v args' c \<noteq> Freed"
    if "current_ctx h' c = Ret x" "headers_kept h'" for h' v args'
  proof -
    have "as_stream d \<noteq> Freed" for d by (cases d) auto
    then have "flush_dispatch LL h' v args' c \<noteq> Freed" using that(1) by (auto simp: flush_dispatch_def chain_eq)
    moreover have "seal_response h' \<noteq> Freed" using seal_response_kept [OF that(2)] by (metis outcome.distinct(5))
    ultimately show ?thesis by (auto simp: file_flush_hook_def chain_eq split: flush_target.splits option.splits)
  qed
  from hook [OF ctx kept] show "file_flush_hook LL refused h v args c \<noteq> Freed" .
  from hook [OF _ headers_kept_push_file [OF h kept]] show "lws_lua_response_flush LL refused h c \<noteq> Freed"
    by (auto simp: lws_lua_response_flush_def chain_eq ctx split_beta Let_def current_push_file [OF h])
qed

text \<open>C9: In a run, a function of the library that is called on handles of the request of the run (and on
  files that are open) reaches only objects that exist, whatever else Lua code has done before: no NULL
  pointer and nothing freed. The exception is a flush of the response after the collector has taken the
  handle of the response headers, which Lua code brings about with \<open>response.headers = nil\<close>: the flush then
  writes to the freed block (\<open>lws_flush_after_collect\<close>). While the handle is there, flushing is safe as well.\<close>

theorem lws_handles_live:
  assumes "lua_proc_reach LL E pt status p" "p_run p = Some a" "c_ctxs (p_c p) a = Some x"
    and "list_all (live_handle p x) args" "\<not> (flushes f \<and> headers_collected (p_heap p))"
  shows "lib_call LL E pt status refused f upvalue args (p_heap p, p_c p) \<noteq> Freed"
proof -
  note inv = reach_inv [OF assms(1)]
  have h: "heap_typed (p_heap p)" using inv by (simp add: lua_proc_inv_def)
  obtain lctx where lctx: "lws_get_lua_request_ctx (p_heap p) = Ret lctx" "lc_response_headers lctx \<noteq> None"
      "deref_ctx (p_c p) (lc_ctx lctx) = Ret x" and ctx: "current_ctx (p_heap p) (p_c p) = Ret x"
    by (rule running_ctx [OF inv assms(2,3)])
  note live = live_args [OF inv assms(3,4)]
  note typed = check_lua_table_typed [OF h] gc_same [OF h]
  have variables: "deref_table (p_c p) (Some (x_variables x)) \<noteq> Freed"
  proof -
    have "set (x_tables x) \<subseteq> dom (c_tables (p_c p))"
      using inv assms(3) unfolding lua_proc_inv_def objects_ok_def by blast
    then show ?thesis by (auto simp: x_tables_def deref_table_def)
  qed
  have kept: "headers_kept (p_heap p)" if "flushes f"
    using that assms(5) lctx by (simp add: headers_collected_def response_headers_block_def)
  note flush = flush_live [OF h ctx kept]
  have as_ctx: "as_ctx d \<noteq> Freed" for d by (cases d) auto
  show ?thesis
    using typed live live(2) [THEN not_sym] flush variables
    by (cases f)
      (auto simp: lib_call_def chain_eq flushes_def ctx lctx lws_lua_request_ctx_tostring_def
        lws_lua_table_tostring_def as_ctx table_index_object_def table_newindex_object_def
        table_next_object_def getvariable_object_def response_index_object_def response_newindex_object_def
        lws_log_def luaL_checkoption_def lws_lua_strict_index_def lws_close_file_def Let_def
        dest!: hook_prev split: option.splits if_splits flush_target.splits)
qed

lemma demo_users:
  "h_users (p_heap demo_running) 9 = Some (table_user demo_proc_heap True 11)"
  "h_users (p_heap demo_running) 12 = Some (table_user demo_proc_heap False 12)"
  "h_users (p_heap demo_running) 13 = Some (file_user demo_proc_heap 14)"
  by (simp_all add: demo_running_def demo_proc_heap_def demo_objects_def table_user_def file_user_def)

theorem lws_handles_live_witness:
  "lib_call demo_lua demo_env (\<lambda>_. []) (\<lambda>_. ONil) None F_file_flush_hook ONil [OUser 13]
     (p_heap demo_running, p_c demo_running) \<noteq> Freed"
proof (rule lws_handles_live [OF demo_proc_reach(3)])
  show "p_run demo_running = Some 1" by (simp add: demo_running_def)
  show "c_ctxs (p_c demo_running) 1 = Some demo_objects"
    by (simp add: demo_running_def demo_requested_def add_request_def)
  show "list_all (live_handle demo_running demo_objects) [OUser 13]"
    using demo_users(3) by (simp add: live_handle_def file_user_def demo_objects_def demo_running_def
        demo_requested_def add_request_def)
  show "\<not> (flushes F_file_flush_hook \<and> headers_collected (p_heap demo_running))"
    using demo_not_collected(1) by simp
qed

text \<open>C21: The tables and the streams that the module makes for a request are released once and not before its
  cleanup. The collector, and every explicit call of \<open>__gc\<close>, leaves the tables of requests alone, because
  each handle is marked as external; and the cleanup of a request finds all of its tables and both of its
  streams, releases each once, and touches nothing else. This is about these objects only. The handles
  belong to the collector, which may take the one of the response headers while \<open>lctx\<close> still points to it
  (\<open>lws_flush_after_collect\<close>); and the descriptor under the stream of a request body in a temporary file
  belongs to NGINX, which closes it a second time.\<close>

theorem lws_objects_released_once:
  assumes "lua_proc_reach LL E pt status p"
  shows "lws_lua_table_gc LL (p_heap p) args (p_c p) \<in> {Ret (p_c p)} \<union> range Err \<and>
    (\<forall>a x. c_ctxs (p_c p) a = Some x \<longrightarrow>
       cleanup_objects a x (p_c p) = Ret ((p_c p)\<lparr>
         c_tables := (c_tables (p_c p)) |` (- {x_variables x, x_request_headers x, x_response_headers x}),
         c_files := c_files (p_c p) - {x_request_body x, x_response_body x},
         c_ctxs := (c_ctxs (p_c p))(a := None)\<rparr>))"
proof -
  from reach_inv [OF assms] have h: "heap_typed (p_heap p)" and ok: "objects_ok (p_c p)"
    by (auto simp: lua_proc_inv_def)
  have "lws_lua_table_gc LL (p_heap p) args (p_c p) \<in> {Ret (p_c p)} \<union> range Err"
    using gc_same [OF h, of LL args "p_c p"] by (cases "lws_lua_table_gc LL (p_heap p) args (p_c p)") auto
  with cleanup_objects_result [OF ok] show ?thesis by (simp add: x_tables_def x_files_def)
qed

theorem lws_objects_released_once_witness:
  "cleanup_objects 1 demo_objects (p_c demo_running) = Ret (p_c demo_proc_start)"
proof -
  have "c_ctxs (p_c demo_running) 1 = Some demo_objects"
    by (simp add: demo_running_def demo_requested_def add_request_def)
  with lws_objects_released_once [where LL = demo_lua and E = demo_env and pt = "\<lambda>_. []"
      and status = "\<lambda>_. ONil" and args = "[]", OF demo_proc_reach(3)] show ?thesis
    by (auto simp: demo_running_def demo_requested_def demo_proc_start_def add_request_def demo_objects_def
        restrict_map_def)
qed

section \<open>Handles that outlive their request\<close>

text \<open>A handle that Lua code keeps in a global variable is still a table to \<open>luaL_checkudata\<close> when the tables
  of its request are gone: the next request of the state reads freed memory through it.\<close>

definition demo_objects_2 :: request_objects where
  "demo_objects_2 = demo_objects\<lparr>x_variables := 20, x_request_headers := 21, x_response_headers := 22,
     x_request_body := 23, x_response_body := 24\<rparr>"

definition demo_ended :: lua_proc where
  "demo_ended = demo_running\<lparr>p_heap := setregistry LWS_REQUEST_CTX_CURRENT ONil (p_heap demo_running), p_run := None\<rparr>"

definition demo_second :: lua_proc where
  "demo_second = demo_ended\<lparr>p_c := add_request 2 demo_objects_2 demo_resp_start demo_resp_start demo_resp_start
       (p_c demo_proc_start), p_heap := run_begin 2 demo_objects_2 (p_heap demo_ended), p_run := Some 2\<rparr>"

lemma demo_second_reach: "lua_proc_reach LL E pt status demo_second"
proof -
  have "lua_proc_step LL E pt status demo_running demo_ended"
    unfolding demo_ended_def by (rule lua_proc_step.run_ends) (simp add: demo_running_def)
  then have ended: "lua_proc_reach LL E pt status demo_ended" by (rule reach_step [OF demo_proc_reach(3)])
  have c: "p_c demo_ended = p_c demo_running" by (simp add: demo_ended_def)
  let ?p3 = "demo_ended\<lparr>p_c := p_c demo_proc_start\<rparr>"
  have 3: "lua_proc_reach LL E pt status ?p3"
    by (rule reach_step [OF ended], rule lua_proc_step.cleanup [where a = 1 and x = demo_objects])
      (use lws_objects_released_once_witness in \<open>simp_all add: c demo_ended_def demo_running_def
        demo_requested_def add_request_def\<close>)
  let ?p4 = "?p3\<lparr>p_c := add_request 2 demo_objects_2 demo_resp_start demo_resp_start demo_resp_start (p_c ?p3)\<rparr>"
  have "fresh_request (p_c ?p3) 2 demo_objects_2"
    by (simp add: fresh_request_def demo_proc_start_def demo_objects_2_def)
  then have 4: "lua_proc_reach LL E pt status ?p4" by (intro reach_step [OF 3] lua_proc_step.request)
  have "lua_proc_step LL E pt status ?p4 (?p4\<lparr>p_heap := run_begin 2 demo_objects_2 (p_heap ?p4), p_run := Some 2\<rparr>)"
    by (rule lua_proc_step.run)
      (simp_all add: demo_ended_def demo_running_def demo_requested_def demo_proc_start_def add_request_def)
  with 4 show ?thesis unfolding demo_second_def by (auto intro: reach_step)
qed

lemma lws_stale_handle:
  "lua_proc_reach LL E pt status demo_second \<and> p_run demo_second = Some 2 \<and>
   h_users (p_heap demo_second) 9 = h_users (p_heap demo_running) 9 \<and>
   lib_call LL E pt status refused F_table_index ONil [OUser 9, OStr key] (p_heap demo_second, p_c demo_second) = Freed"
proof -
  have "h_users (p_heap demo_second) 9 = h_users (p_heap demo_running) 9"
    by (simp add: demo_second_def demo_ended_def demo_running_def demo_proc_heap_def)
  moreover have "p_run demo_second = Some 2" by (simp add: demo_second_def)
  moreover have reg: "h_registry (p_heap demo_second) LWS_TABLE = OTable 2"
    by (simp add: demo_second_def demo_ended_def demo_running_def demo_proc_heap_def)
  moreover have freed: "c_tables (p_c demo_second) 11 = None"
    by (simp add: demo_second_def demo_objects_2_def demo_objects_def add_request_def demo_proc_start_def)
  moreover from calculation have "check_lua_table LL (p_heap demo_second) [OUser 9, OStr key] =
      Ret \<lparr>lt_t = Some 11, lt_readonly = True, lt_external = True\<rparr>"
    using demo_users(1)
    by (simp add: check_lua_table_def luaL_checkudata_def luaL_testudata_def arg_def table_user_def
        demo_proc_heap_def)
  then have "lib_call LL E pt status refused F_table_index ONil [OUser 9, OStr key] (p_heap demo_second, p_c demo_second) = Freed"
    using freed by (simp add: lib_call_def table_index_object_def arg_def luaL_checklstring_def deref_table_def)
  ultimately show ?thesis using demo_second_reach by blast
qed

section \<open>Flushing after the handle is gone\<close>

text \<open>\<open>response.headers = nil\<close> takes the only reference to the handle of the response headers away; the collector
  may then take the handle; and if a file is opened next, its block may be where the handle was. The
  addresses of the demonstration are 11 for the response table and 12 for the handle.\<close>

definition demo_unreferenced :: lua_proc where
  "demo_unreferenced = demo_running\<lparr>p_heap := rawset 11 (lit ''headers'') ONil (p_heap demo_running)\<rparr>"

definition demo_collected :: lua_proc where
  "demo_collected = demo_unreferenced\<lparr>p_heap := (p_heap demo_unreferenced)
     \<lparr>h_users := (h_users (p_heap demo_unreferenced))(12 := None)\<rparr>\<rparr>"

definition demo_reused :: lua_proc where
  "demo_reused = demo_collected\<lparr>p_heap := (p_heap demo_collected)
     \<lparr>h_users := (h_users (p_heap demo_collected))(12 \<mapsto> \<lparr>u_data = UStream \<lparr>st_f = None, st_closef = None\<rparr>, u_meta = Some 3\<rparr>)\<rparr>\<rparr>"

lemmas demo_states = demo_running_def demo_requested_def demo_proc_start_def demo_proc_heap_def add_request_def

lemma demo_collected_reach:
  "lua_proc_reach LL E pt status demo_collected" "lua_proc_reach LL E pt status demo_reused"
proof -
  have "lib_call LL E pt status None F_response_newindex ONil [OTable 11, OStr (lit ''headers''), ONil]
      (p_heap demo_running, p_c demo_running) = Ret ([], p_heap demo_unreferenced, p_c demo_running)"
    by (simp add: lib_call_def response_newindex_object_def luaL_checktable_def luaL_checklstring_def arg_def
        demo_unreferenced_def lit_def)
  from lua_proc_step.call [OF this] have "lua_proc_step LL E pt status demo_running demo_unreferenced"
    by (simp add: demo_unreferenced_def)
  from reach_step [OF demo_proc_reach(3) this] have 1: "lua_proc_reach LL E pt status demo_unreferenced" .
  have user: "h_users (p_heap demo_unreferenced) 12 = Some (table_user demo_proc_heap False 12)"
    using demo_users(2) by (simp add: demo_unreferenced_def)
  have reg: "h_registry (p_heap demo_unreferenced) LWS_REQUEST_CTX_CURRENT = OUser 5"
    "h_registry (p_heap demo_unreferenced) LWS_TABLE = OTable 2"
    by (simp_all add: demo_unreferenced_def demo_states)
  then have "lws_lua_table_gc LL (p_heap demo_unreferenced) [OUser 12] (p_c demo_unreferenced) = Ret (p_c demo_unreferenced)"
    using user by (simp add: lws_lua_table_gc_def check_lua_table_def luaL_checkudata_def luaL_testudata_def arg_def
        table_user_def demo_proc_heap_def)
  from lua_proc_step.collect [OF _ this] reg have "lua_proc_step LL E pt status demo_unreferenced demo_collected"
    by (simp add: demo_collected_def)
  from reach_step [OF 1 this] show 2: "lua_proc_reach LL E pt status demo_collected" .
  have "lua_code_changes (p_heap demo_collected) (p_heap demo_reused)"
    by (auto simp: lua_code_changes_def demo_reused_def demo_collected_def demo_unreferenced_def demo_states
        kept_user_def foreign_def)
  from lua_proc_step.code [OF this] have "lua_proc_step LL E pt status demo_collected demo_reused"
    by (simp add: demo_reused_def)
  from reach_step [OF 2 this] show "lua_proc_reach LL E pt status demo_reused" .
qed

lemma response_flush_eq:
  assumes h: "heap_typed h" and ctx: "current_ctx h c = Ret x"
  shows "lws_lua_response_flush LL None h c =
    chain (seal_response (snd (push_file (x_response_body x) h))) (\<lambda>h. Ret (OwnFlush, h))"
proof -
  let ?h = "snd (push_file (x_response_body x) h)"
  have "luaL_testudata ?h (OUser (h_next h)) LUA_FILEHANDLE =
      Some (UStream \<lparr>st_f = Some (x_response_body x), st_closef = Some F_close_file\<rparr>)"
    using h by (auto simp: luaL_testudata_def heap_typed_def metas_ok_def)
  then have "flush_dispatch LL ?h ONil [OUser (h_next h)] c = Ret OwnFlush"
    by (simp add: flush_dispatch_def luaL_checkudata_def arg_def current_push_file [OF h] ctx)
  then show ?thesis by (simp add: lws_lua_response_flush_def ctx split_beta Let_def file_flush_hook_def)
qed

lemma seal_response_gone:
  assumes "response_headers_block h = Some u"
  shows "h_users h u = None \<Longrightarrow> seal_response h = Freed"
    "h_users h u = Some ud \<Longrightarrow> u_data ud = UStream s \<Longrightarrow> seal_response h = Confused"
proof -
  from assms obtain lctx where lctx: "lws_get_lua_request_ctx h = Ret lctx" "lc_response_headers lctx = Some u"
    by (auto simp: response_headers_block_def split: outcome.splits)
  from lctx(1) obtain l udl where l: "h_registry h LWS_REQUEST_CTX_CURRENT = OUser l" "h_users h l = Some udl"
      "u_data udl = UCtx lctx"
    by (auto simp: get_ctx_eq)
  show "h_users h u = None \<Longrightarrow> seal_response h = Freed"
    "h_users h u = Some ud \<Longrightarrow> u_data ud = UStream s \<Longrightarrow> seal_response h = Confused"
    using lctx l by (cases "u = l"; simp add: seal_response_def Let_def)+
qed

text \<open>What \<open>response.flush\<close> does in a run when the block of the pointer is free, or holds a file.\<close>

lemma flush_gone:
  assumes "lua_proc_reach LL E pt status p" "p_run p = Some a"
    and block: "response_headers_block (p_heap p) = Some u" "u < h_next (p_heap p)"
  shows "h_users (p_heap p) u = None \<Longrightarrow>
      lib_call LL E pt status None F_response_flush v args (p_heap p, p_c p) = Freed"
    "h_users (p_heap p) u = Some ud \<Longrightarrow> u_data ud = UStream s \<Longrightarrow>
      lib_call LL E pt status None F_response_flush v args (p_heap p, p_c p) = Confused"
proof -
  note inv = reach_inv [OF assms(1)]
  have h: "heap_typed (p_heap p)" using inv by (simp add: lua_proc_inv_def)
  from inv assms(2) obtain x where x: "c_ctxs (p_c p) a = Some x" by (auto simp: lua_proc_inv_def running_ok_def)
  have ctx: "current_ctx (p_heap p) (p_c p) = Ret x" by (rule running_ctx [OF inv assms(2) x])
  let ?h = "snd (push_file (x_response_body x) (p_heap p))"
  have "response_headers_block ?h = Some u" using block by (simp add: response_headers_block_def get_ctx_push_file [OF h])
  note gone = seal_response_gone [OF this]
  have same: "h_users ?h u = h_users (p_heap p) u" using block(2) by simp
  show "h_users (p_heap p) u = None \<Longrightarrow>
      lib_call LL E pt status None F_response_flush v args (p_heap p, p_c p) = Freed"
    using gone(1) same by (simp add: lib_call_def response_flush_eq [OF h ctx])
  show "h_users (p_heap p) u = Some ud \<Longrightarrow> u_data ud = UStream s \<Longrightarrow>
      lib_call LL E pt status None F_response_flush v args (p_heap p, p_c p) = Confused"
    using gone(2) [of ud s] same by (simp add: lib_call_def response_flush_eq [OF h ctx])
qed

lemma demo_blocks: "response_headers_block (p_heap demo_collected) = Some 12" "response_headers_block (p_heap demo_reused) = Some 12"
proof -
  have u: "h_registry (p_heap demo_unreferenced) LWS_REQUEST_CTX_CURRENT \<noteq> OUser 12"
    by (simp add: demo_unreferenced_def demo_states)
  have "same_ctx (p_heap demo_running) (p_heap demo_unreferenced)"
    by (simp add: demo_unreferenced_def same_ctx_def get_ctx_eq) blast
  from same_ctx_block [OF this demo_not_collected(2)] same_ctx_block [OF same_ctx_collect [OF u]]
  show c: "response_headers_block (p_heap demo_collected) = Some 12" by (simp add: demo_collected_def)
  have "h_users (p_heap demo_collected) 12 = None" "h_registry (p_heap demo_collected) LWS_REQUEST_CTX_CURRENT = OUser 5"
    by (simp_all add: demo_collected_def demo_unreferenced_def demo_states)
  then have "same_ctx (p_heap demo_collected) (p_heap demo_reused)"
    by (auto simp: demo_reused_def same_ctx_def get_ctx_eq)
  from same_ctx_block [OF this c] show "response_headers_block (p_heap demo_reused) = Some 12" .
qed

text \<open>So Lua code can make the library write to freed memory, or to a file.\<close>

lemma lws_flush_after_collect:
  "lua_proc_reach LL E pt status demo_collected \<and> p_run demo_collected = Some 1 \<and>
     lib_call LL E pt status None F_response_flush ONil [] (p_heap demo_collected, p_c demo_collected) = Freed"
  "lua_proc_reach LL E pt status demo_reused \<and> p_run demo_reused = Some 1 \<and>
     lib_call LL E pt status None F_response_flush ONil [] (p_heap demo_reused, p_c demo_reused) = Confused"
proof -
  have run: "p_run demo_collected = Some 1" "p_run demo_reused = Some 1"
    by (simp_all add: demo_reused_def demo_collected_def demo_unreferenced_def demo_running_def)
  have users: "h_users (p_heap demo_collected) 12 = None" "12 < h_next (p_heap demo_collected)"
    "12 < h_next (p_heap demo_reused)"
    "h_users (p_heap demo_reused) 12 = Some \<lparr>u_data = UStream \<lparr>st_f = None, st_closef = None\<rparr>, u_meta = Some 3\<rparr>"
    by (simp_all add: demo_reused_def demo_collected_def demo_unreferenced_def demo_states)
  note reach = demo_collected_reach [of LL E pt status]
  show "lua_proc_reach LL E pt status demo_collected \<and> p_run demo_collected = Some 1 \<and>
     lib_call LL E pt status None F_response_flush ONil [] (p_heap demo_collected, p_c demo_collected) = Freed"
    using reach(1) run(1) flush_gone(1) [OF reach(1) run(1) demo_blocks(1) users(2,1)] by simp
  show "lua_proc_reach LL E pt status demo_reused \<and> p_run demo_reused = Some 1 \<and>
     lib_call LL E pt status None F_response_flush ONil [] (p_heap demo_reused, p_c demo_reused) = Confused"
    using reach(2) run(2) flush_gone(2) [OF reach(2) run(2) demo_blocks(2) users(3,4)] by simp
qed

section \<open>Flushing\<close>

text \<open>The hook on \<open>flush\<close> takes over exactly for the response body of the running request: every other
  file goes to the method that was there before, and \<open>response.flush\<close>, which calls the hook without that
  method, never needs it. The hook then seals the context and makes the handle read-only.\<close>

theorem lws_flush_dispatch_correct:
  assumes "lua_proc_reach LL E pt status p" "p_run p = Some a" "c_ctxs (p_c p) a = Some x"
    and "h_users (p_heap p) u = Some ud" "u_data ud = UStream s" "OTable (the (u_meta ud)) = h_registry (p_heap p) LUA_FILEHANDLE"
      "u_meta ud \<noteq> None"
  shows "flush_dispatch LL (p_heap p) prev [OUser u] (p_c p) =
      Ret (if st_f s = Some (x_response_body x) then OwnFlush else PrevFlush prev) \<and>
    lws_lua_response_flush LL None (p_heap p) (p_c p) =
      chain (seal_response (snd (push_file (x_response_body x) (p_heap p)))) (\<lambda>h. Ret (OwnFlush, h))"
proof -
  note inv = reach_inv [OF assms(1)]
  have h: "heap_typed (p_heap p)" using inv by (simp add: lua_proc_inv_def)
  have ctx: "current_ctx (p_heap p) (p_c p) = Ret x" by (rule running_ctx [OF inv assms(2,3)])
  have "luaL_testudata (p_heap p) (OUser u) LUA_FILEHANDLE = Some (UStream s)"
    using assms(4-7) by (auto simp: luaL_testudata_def)
  then show ?thesis
    by (simp add: flush_dispatch_def luaL_checkudata_def arg_def ctx response_flush_eq [OF h ctx])
qed

theorem lws_flush_dispatch_correct_witness:
  "flush_dispatch demo_lua (p_heap demo_running) (OFun (F_other 0)) [OUser 10] (p_c demo_running) =
     Ret (PrevFlush (OFun (F_other 0))) \<and>
   flush_dispatch demo_lua (p_heap demo_running) (OFun (F_other 0)) [OUser 13] (p_c demo_running) = Ret OwnFlush"
proof -
  have run: "p_run demo_running = Some 1" "c_ctxs (p_c demo_running) 1 = Some demo_objects"
    by (simp_all add: demo_running_def demo_requested_def add_request_def)
  have users: "h_users (p_heap demo_running) 10 = Some (file_user demo_proc_heap 13)"
    "h_users (p_heap demo_running) 13 = Some (file_user demo_proc_heap 14)"
    "h_registry (p_heap demo_running) LUA_FILEHANDLE = OTable 3"
    by (simp_all add: demo_running_def demo_proc_heap_def demo_objects_def file_user_def)
  note demo = lws_flush_dispatch_correct [OF demo_proc_reach(3) run, where LL = demo_lua and prev = "OFun (F_other 0)"]
  from demo [OF users(1)] demo [OF users(2)] users(3) show ?thesis
    by (simp add: file_user_def demo_proc_heap_def demo_objects_def)
qed

section \<open>Log levels\<close>

text \<open>The names of the levels are numbered from 1 as in NGINX, the default is \<open>err\<close>, and debug messages go to
  the debug log for HTTP.\<close>

lemma lws_log_levels:
  assumes "i < 8" "current_ctx h c = Ret x"
  shows "lws_log LL h [OStr (lit (lws_lua_log_levels ! i)), OStr msg] c =
      Ret (if i = 7 then 264 else i + 1, msg)"
    "lws_log LL h [OStr msg] c = Ret (4, msg)" "lws_log LL h [ONil, OStr msg] c = Ret (4, msg)"
proof -
  have view: "c_view (lit (lws_lua_log_levels ! j)) = lit (lws_lua_log_levels ! j)" if "j < 8" for j
  proof (rule c_view_no_nul)
    have "list_all (\<lambda>s. 0 \<notin> set (lit s)) lws_lua_log_levels" by code_simp
    moreover have "lws_lua_log_levels ! j \<in> set lws_lua_log_levels"
      using that by (intro nth_mem) (simp add: lws_lua_log_levels_def)
    ultimately show "0 \<notin> set (lit (lws_lua_log_levels ! j))" by (simp add: list_all_iff)
  qed
  have len: "length lws_lua_log_levels = 8" by (simp add: lws_lua_log_levels_def)
  have found: "find (\<lambda>k. lit (lws_lua_log_levels ! k) = c_view (lit (lws_lua_log_levels ! j))) [0..<8] = Some j"
    if "j < 8" for j
  proof -
    have "distinct lws_lua_log_levels" by (simp add: lws_lua_log_levels_def)
    then show ?thesis
      using that len by (intro find_first_nth [THEN trans]) (auto simp: nth_eq_iff_index_eq view)
  qed
  have option: "luaL_checkoption LL 1 [OStr (lit (lws_lua_log_levels ! j)), v] dflt lws_lua_log_levels = Ret j"
    if "j < 8" for j dflt v
    using found [OF that] by (simp add: luaL_checkoption_def arg_def luaL_checklstring_def len)
  have none: "luaL_checkoption LL 1 [ONil, v] ''err'' lws_lua_log_levels = Ret 3" for v
    using found [of 3] by (simp add: luaL_checkoption_def arg_def len) (simp add: lws_lua_log_levels_def)
  show "lws_log LL h [OStr (lit (lws_lua_log_levels ! i)), OStr msg] c = Ret (if i = 7 then 264 else i + 1, msg)"
    using assms option [OF assms(1), unfolded One_nat_def]
    by (cases "i = 7")
      (simp_all add: lws_log_def arg_def luaL_checklstring_def NGX_LOG_DEBUG_def NGX_LOG_DEBUG_HTTP_def)
  show "lws_log LL h [OStr msg] c = Ret (4, msg)" "lws_log LL h [ONil, OStr msg] c = Ret (4, msg)"
    using assms none [unfolded One_nat_def]
    by (simp_all add: lws_log_def arg_def luaL_checklstring_def NGX_LOG_DEBUG_def NGX_LOG_ERR_def)
qed

section \<open>The environment\<close>

definition field_object :: "lua_heap \<Rightarrow> nat \<Rightarrow> string \<Rightarrow> obj" where
  "field_object h a key = rawget h a (lit key)"

lemma push_request_fields:
  "map (field_object (snd (push_request x h)) (h_next h)) [''method'', ''uri'', ''path'', ''args'', ''path_info''] =
     map OStr [x_method x, x_uri x, x_path x, x_args x, x_path_info x]"
  "field_object (snd (push_request x h)) (h_next h) ''ip'' =
     (if x_inet x \<and> x_addr_text x \<noteq> [] then OStr (x_addr_text x) else ONil)"
  "field_object (snd (push_request x h)) (h_next h) ''headers'' = OUser (h_next h + 1)"
  "field_object (snd (push_request x h)) (h_next h) ''body'' = OUser (h_next h + 2)"
  "b \<noteq> h_next h \<Longrightarrow> rawget (snd (push_request x h)) b = rawget h b"
  "b \<noteq> h_next h \<Longrightarrow> tab_meta (table_at (snd (push_request x h)) b) = tab_meta (table_at h b)"
  by (simp_all add: push_request_def field_object_def split_beta Let_def fun_eq_iff)

lemma push_response_fields:
  "field_object (snd (push_response l x h)) (h_next h) ''headers'' = OUser (h_next h + 1)"
  "field_object (snd (push_response l x h)) (h_next h) ''body'' = OUser (h_next h + 2)"
  "key \<notin> {lit ''headers'', lit ''body''} \<Longrightarrow> rawget (snd (push_response l x h)) (h_next h) key = ONil"
  "tab_meta (table_at (snd (push_response l x h)) (h_next h)) =
     (case h_registry h LWS_RESPONSE of OTable c \<Rightarrow> Some c | _ \<Rightarrow> None)"
  "b \<noteq> h_next h \<Longrightarrow> rawget (snd (push_response l x h)) b = rawget h b"
  "b \<noteq> h_next h \<Longrightarrow> tab_meta (table_at (snd (push_response l x h)) b) = tab_meta (table_at h b)"
  by (auto simp add: push_response_def field_object_def split_beta Let_def fun_eq_iff)

text \<open>The heap when the request is made and when it is entered into the environment. The tables are at
  \<open>n\<close> (environment), \<open>n + 1\<close> (its metatable), \<open>n + 2\<close> (request) and \<open>n + 5\<close> (response).\<close>

definition env_start :: "lua_heap \<Rightarrow> lua_heap" where
  "env_start h = setmetatable (h_next h) (OTable (h_next h + 1)) (rawset (h_next h + 1) (lit ''__index'') (OTable (h_globals h))
     (snd (lua_newtable (snd (lua_newtable h)))))"

definition env_request :: "request_objects \<Rightarrow> lua_heap \<Rightarrow> lua_heap" where
  "env_request x h = rawset (h_next h) (lit ''request'') (OTable (h_next h + 2)) (snd (push_request x (env_start h)))"

lemma env_start_simps:
  "h_next (env_start h) = h_next h + 2" "h_registry (env_start h) = h_registry h" "h_globals (env_start h) = h_globals h"
  "b < h_next h \<Longrightarrow> rawget (env_start h) b = rawget h b"
  "b < h_next h \<Longrightarrow> tab_meta (table_at (env_start h) b) = tab_meta (table_at h b)"
  "rawget (env_start h) (h_next h) key = ONil" "tab_meta (table_at (env_start h) (h_next h)) = Some (h_next h + 1)"
  "rawget (env_start h) (h_next h + 1) (lit ''__index'') = OTable (h_globals h)"
  by (auto simp: env_start_def fun_eq_iff)

lemma env_request_simps:
  "h_next (env_request x h) = h_next h + 5" "h_registry (env_request x h) = h_registry h"
  "h_globals (env_request x h) = h_globals h"
  "b < h_next h + 2 \<Longrightarrow> b \<noteq> h_next h \<Longrightarrow> rawget (env_request x h) b = rawget (env_start h) b"
  "b < h_next h + 2 \<Longrightarrow> tab_meta (table_at (env_request x h) b) = tab_meta (table_at (env_start h) b)"
  "rawget (env_request x h) (h_next h) key = (if key = lit ''request'' then OTable (h_next h + 2) else ONil)"
  "rawget (env_request x h) (h_next h + 2) = rawget (snd (push_request x (env_start h))) (h_next h + 2)"
  using push_request_fields(5,6) [of _ "env_start h" x]
  by (auto simp: env_request_def env_start_simps fun_eq_iff)

lemma push_env_eq:
  "push_env_objects l x h = (h_next h, rawset (h_next h) (lit ''response'') (OTable (h_next h + 5))
     (snd (push_response l x (env_request x h))))"
proof -
  have "fst (push_response l x (env_request x h)) = h_next h + 5" by (simp add: env_request_simps)
  then show ?thesis
    by (simp add: push_env_objects_def split_beta Let_def)
      (simp add: env_request_def env_start_def add.commute)
qed

lemma push_env_tables:
  fixes l x h defines "n \<equiv> h_next h" and "h' \<equiv> snd (push_env_objects l x h)"
  shows "rawget h' n key = (if key = lit ''response'' then OTable (n + 5)
      else if key = lit ''request'' then OTable (n + 2) else ONil)"
    "tab_meta (table_at h' n) = Some (n + 1)" "rawget h' (n + 1) (lit ''__index'') = OTable (h_globals h)"
    "b < n \<Longrightarrow> rawget h' b = rawget h b" "b < n \<Longrightarrow> tab_meta (table_at h' b) = tab_meta (table_at h b)"
    "rawget h' (n + 2) = rawget (snd (push_request x (env_start h))) (n + 2)"
    "rawget h' (n + 5) = rawget (snd (push_response l x (env_request x h))) (n + 5)"
    "tab_meta (table_at h' (n + 5)) = (case h_registry h LWS_RESPONSE of OTable c \<Rightarrow> Some c | _ \<Rightarrow> None)"
  using push_response_fields(5,6) [of _ "env_request x h" l x] push_response_fields(4) [of l x "env_request x h"]
    env_start_simps(8) [of h, simplified] env_request_simps(7) [of x h, simplified]
  by (auto simp: n_def h'_def push_env_eq env_request_simps env_start_simps fun_eq_iff)

text \<open>C20: The environment that a run makes. A name that is neither \<open>request\<close> nor \<open>response\<close> is looked up in the
  globals of the state. \<open>request\<close> holds the strings of the request, the address of the client only if it
  is an Internet address with a text, and handles for the request headers, which are read-only, and for
  the request body. \<open>response\<close> holds handles for the response headers, which may be changed, and for the
  response body; reading any other field of it, \<open>status\<close> for one, calls the function of the library.
  The tables that the state had before do not change. The request context, which is the block of the
  userdata \<open>l\<close>, points to the handle of the response headers.\<close>

theorem lws_push_env_correct:
  assumes "push_env_objects l x h = (env, h')" "h_globals h < h_next h"
    and "h_registry h LWS_RESPONSE = OTable m" "m < h_next h" "rawget h m (lit ''__index'') = OFun F_response_index"
  shows "\<exists>req resp uh ub vh vb.
    (\<forall>key. key \<notin> {lit ''request'', lit ''response''} \<longrightarrow> gettable h' env key = gettable h' (h_globals h) key) \<and>
    field_object h' env ''request'' = OTable req \<and> field_object h' env ''response'' = OTable resp \<and>
    map (field_object h' req) [''method'', ''uri'', ''path'', ''args'', ''path_info''] =
      map OStr [x_method x, x_uri x, x_path x, x_args x, x_path_info x] \<and>
    field_object h' req ''ip'' = (if x_inet x \<and> x_addr_text x \<noteq> [] then OStr (x_addr_text x) else ONil) \<and>
    field_object h' req ''headers'' = OUser uh \<and> h_users h' uh = Some (table_user h True (x_request_headers x)) \<and>
    field_object h' req ''body'' = OUser ub \<and> h_users h' ub = Some (file_user h (x_request_body x)) \<and>
    field_object h' resp ''headers'' = OUser vh \<and> h_users h' vh = Some (table_user h False (x_response_headers x)) \<and>
    field_object h' resp ''body'' = OUser vb \<and> h_users h' vb = Some (file_user h (x_response_body x)) \<and>
    (\<forall>key. key \<notin> {lit ''headers'', lit ''body''} \<longrightarrow>
       gettable h' resp key = Some (CallIndex (OFun F_response_index) resp)) \<and>
    (\<forall>a < h_next h. rawget h' a = rawget h a \<and> tab_meta (table_at h' a) = tab_meta (table_at h a)) \<and>
    (\<forall>ud lctx. l < h_next h \<longrightarrow> h_users h l = Some ud \<longrightarrow> u_data ud = UCtx lctx \<longrightarrow>
       h_users h' l = Some (ud\<lparr>u_data := UCtx (lctx\<lparr>lc_response_headers := Some vh\<rparr>)\<rparr>))"
proof -
  define n where "n = h_next h"
  have env: "env = n" using push_env_simps(1) [of l x h] assms(1) by (simp add: n_def)
  have h': "h' = snd (push_env_objects l x h)" using assms(1) by simp
  note tables = push_env_tables [where l = l and x = x and h = h, folded n_def h']
  have globals': "h_globals h' = h_globals h" by (simp add: h')
  have lookup: "gettable h' n key = gettable h' (h_globals h) key" if "key \<notin> {lit ''request'', lit ''response''}" for key
    using that tables(1) [of key] tables(2,3) by (subst gettable.simps) simp
  have lookup_resp: "gettable h' (n + 5) key = Some (CallIndex (OFun F_response_index) (n + 5))"
    if "key \<notin> {lit ''headers'', lit ''body''}" for key
  proof -
    have "rawget h' (n + 5) key = ONil"
      using push_response_fields(3) [OF that, of l x "env_request x h"] tables(7)
      by (simp add: env_request_simps n_def)
    moreover have "rawget h' m (lit ''__index'') = OFun F_response_index" using tables(4) [of m] assms(4,5) by (simp add: n_def)
    ultimately show ?thesis using tables(8) assms(3) by (subst gettable.simps) simp
  qed
  have fields: "field_object h' n ''request'' = OTable (n + 2)" "field_object h' n ''response'' = OTable (n + 5)"
    by (simp_all add: field_object_def tables(1))
  have req: "field_object h' (n + 2) = field_object (snd (push_request x (env_start h))) (h_next (env_start h))"
    using tables(6) by (simp add: field_object_def fun_eq_iff env_start_simps n_def)
  have resp: "field_object h' (n + 5) = field_object (snd (push_response l x (env_request x h))) (h_next (env_request x h))"
    using tables(7) by (simp add: field_object_def fun_eq_iff env_request_simps n_def)
  have strings: "map (field_object h' (n + 2)) [''method'', ''uri'', ''path'', ''args'', ''path_info''] =
      map OStr [x_method x, x_uri x, x_path x, x_args x, x_path_info x]"
    "field_object h' (n + 2) ''ip'' = (if x_inet x \<and> x_addr_text x \<noteq> [] then OStr (x_addr_text x) else ONil)"
    by (simp_all only: req push_request_fields)
  have req_handles: "field_object h' (n + 2) ''headers'' = OUser (n + 3)" "field_object h' (n + 2) ''body'' = OUser (n + 4)"
    using push_request_fields(3,4) [of x "env_start h"] unfolding req by (simp_all add: env_start_simps n_def)
  have resp_handles: "field_object h' (n + 5) ''headers'' = OUser (n + 6)" "field_object h' (n + 5) ''body'' = OUser (n + 7)"
    using push_response_fields(1,2) [of l x "env_request x h"] unfolding resp by (simp_all add: env_request_simps n_def)
  have users: "h_users h' (n + 3) = Some (table_user h True (x_request_headers x))"
    "h_users h' (n + 4) = Some (file_user h (x_request_body x))"
    "h_users h' (n + 6) = Some (table_user h False (x_response_headers x))"
    "h_users h' (n + 7) = Some (file_user h (x_response_body x))"
    by (simp_all add: h' n_def point_headers_at new_users_data)
  have same: "\<forall>a < h_next h. rawget h' a = rawget h a \<and> tab_meta (table_at h' a) = tab_meta (table_at h a)"
    using tables(4,5) by (simp add: n_def)
  have pointer: "\<forall>ud lctx. l < h_next h \<longrightarrow> h_users h l = Some ud \<longrightarrow> u_data ud = UCtx lctx \<longrightarrow>
      h_users h' l = Some (ud\<lparr>u_data := UCtx (lctx\<lparr>lc_response_headers := Some (n + 6)\<rparr>)\<rparr>)"
    by (simp add: h' n_def)
  have lookups: "\<forall>key. key \<notin> {lit ''request'', lit ''response''} \<longrightarrow> gettable h' n key = gettable h' (h_globals h) key"
    "\<forall>key. key \<notin> {lit ''headers'', lit ''body''} \<longrightarrow> gettable h' (n + 5) key = Some (CallIndex (OFun F_response_index) (n + 5))"
    using lookup lookup_resp by blast+
  show ?thesis
    unfolding env
    by (rule exI [of _ "n + 2"], rule exI [of _ "n + 5"], rule exI [of _ "n + 3"], rule exI [of _ "n + 4"],
        rule exI [of _ "n + 6"], rule exI [of _ "n + 7"])
      (intro conjI; fact)
qed

theorem lws_push_env_correct_witness:
  "\<exists>req uh. field_object (snd (push_env_objects 0 demo_objects demo_proc_heap)) 5 ''request'' = OTable req \<and>
     field_object (snd (push_env_objects 0 demo_objects demo_proc_heap)) req ''method'' = OStr (lit ''GET'') \<and>
     field_object (snd (push_env_objects 0 demo_objects demo_proc_heap)) req ''ip'' = OStr (lit ''127.0.0.1'') \<and>
     field_object (snd (push_env_objects 0 demo_objects demo_proc_heap)) req ''headers'' = OUser uh \<and>
     h_users (snd (push_env_objects 0 demo_objects demo_proc_heap)) uh = Some (table_user demo_proc_heap True 11)"
proof -
  define h' where "h' = snd (push_env_objects 0 demo_objects demo_proc_heap)"
  have "push_env_objects 0 demo_objects demo_proc_heap = (5, h')"
    by (simp add: prod_eq_iff h'_def) (simp add: demo_proc_heap_def)
  then obtain req uh where "field_object h' 5 ''request'' = OTable req"
    "map (field_object h' req) [''method'', ''uri'', ''path'', ''args'', ''path_info''] =
      map OStr [x_method demo_objects, x_uri demo_objects, x_path demo_objects, x_args demo_objects, x_path_info demo_objects]"
    "field_object h' req ''ip'' = (if x_inet demo_objects \<and> x_addr_text demo_objects \<noteq> []
       then OStr (x_addr_text demo_objects) else ONil)"
    "field_object h' req ''headers'' = OUser uh"
    "h_users h' uh = Some (table_user demo_proc_heap True (x_request_headers demo_objects))"
    using lws_push_env_correct [of 0 demo_objects demo_proc_heap 5 h' 4]
    by (auto simp: demo_proc_heap_def rawget_def table_at_def demo_fields_def)
  then show ?thesis unfolding h'_def [symmetric] by (intro exI [of _ req] exI [of _ uh]) (simp add: demo_objects_def lit_def)
qed

end
