(* ===== verification/LwsCommands.thy ===== *)
theory LwsCommands
  imports LwsConf
begin

text \<open>
  The table of directives of src/lws_module.c, and the way from the lines of a configuration to the
  settings of a location: NGINX looks up each line in the table, checks where it stands and how many
  arguments it has, and calls the function of the entry, which writes into the configuration of the
  block; then it merges the blocks from the outside (\<open>LwsConf\<close>).
\<close>

section \<open>The table\<close>

datatype conf_flag =
  NGX_HTTP_MAIN_CONF | NGX_HTTP_SRV_CONF | NGX_HTTP_LOC_CONF |
  NGX_CONF_NOARGS | NGX_CONF_TAKE1 | NGX_CONF_TAKE2 | NGX_CONF_TAKE12 | NGX_CONF_FLAG

text \<open>The functions of NGINX that set a field of a type, and the functions of this module.\<close>

datatype conf_set =
  ngx_conf_set_str_slot | ngx_conf_set_size_slot | ngx_conf_set_num_slot | ngx_conf_set_msec_slot |
  ngx_conf_set_flag_slot | set_lws_stat_cache | set_lws | set_lws_max_states | set_lws_variable |
  set_lws_error_response | set_lws_monitor

datatype conf_struct = NGX_HTTP_MAIN_CONF_OFFSET | NGX_HTTP_LOC_CONF_OFFSET

datatype conf_offset =
  OFF_thread_pool_name | OFF_stat_cache_cap | OFF_main | OFF_init | OFF_pre | OFF_post | OFF_path | OFF_cpath |
  OFF_states_max | OFF_state_memory_max | OFF_state_gc | OFF_state_requests_max | OFF_state_time_max |
  OFF_state_timeout | OFF_variables | OFF_error_response | OFF_streaming | OFF_monitor

record ngx_command =
  cmd_name :: ngx_str
  cmd_type :: "conf_flag list"
  cmd_set :: conf_set
  cmd_conf :: conf_struct
  cmd_offset :: conf_offset
  cmd_post :: "(ngx_str \<times> size_t) list option"

definition lws_commands :: "ngx_command list" where
  "lws_commands = [
     \<lparr>cmd_name = lit ''lws_thread_pool'', cmd_type = [NGX_HTTP_MAIN_CONF, NGX_CONF_TAKE1], cmd_set = ngx_conf_set_str_slot,
       cmd_conf = NGX_HTTP_MAIN_CONF_OFFSET, cmd_offset = OFF_thread_pool_name, cmd_post = None\<rparr>,
     \<lparr>cmd_name = lit ''lws_stat_cache'', cmd_type = [NGX_HTTP_MAIN_CONF, NGX_CONF_TAKE2], cmd_set = set_lws_stat_cache,
       cmd_conf = NGX_HTTP_MAIN_CONF_OFFSET, cmd_offset = OFF_stat_cache_cap, cmd_post = None\<rparr>,
     \<lparr>cmd_name = lit ''lws'', cmd_type = [NGX_HTTP_LOC_CONF, NGX_CONF_TAKE12], cmd_set = set_lws,
       cmd_conf = NGX_HTTP_LOC_CONF_OFFSET, cmd_offset = OFF_main, cmd_post = None\<rparr>,
     \<lparr>cmd_name = lit ''lws_init'', cmd_type = [NGX_HTTP_SRV_CONF, NGX_HTTP_LOC_CONF, NGX_CONF_TAKE1], cmd_set = ngx_conf_set_str_slot,
       cmd_conf = NGX_HTTP_LOC_CONF_OFFSET, cmd_offset = OFF_init, cmd_post = None\<rparr>,
     \<lparr>cmd_name = lit ''lws_pre'', cmd_type = [NGX_HTTP_SRV_CONF, NGX_HTTP_LOC_CONF, NGX_CONF_TAKE1], cmd_set = ngx_conf_set_str_slot,
       cmd_conf = NGX_HTTP_LOC_CONF_OFFSET, cmd_offset = OFF_pre, cmd_post = None\<rparr>,
     \<lparr>cmd_name = lit ''lws_post'', cmd_type = [NGX_HTTP_SRV_CONF, NGX_HTTP_LOC_CONF, NGX_CONF_TAKE1], cmd_set = ngx_conf_set_str_slot,
       cmd_conf = NGX_HTTP_LOC_CONF_OFFSET, cmd_offset = OFF_post, cmd_post = None\<rparr>,
     \<lparr>cmd_name = lit ''lws_path'', cmd_type = [NGX_HTTP_SRV_CONF, NGX_HTTP_LOC_CONF, NGX_CONF_TAKE1], cmd_set = ngx_conf_set_str_slot,
       cmd_conf = NGX_HTTP_LOC_CONF_OFFSET, cmd_offset = OFF_path, cmd_post = None\<rparr>,
     \<lparr>cmd_name = lit ''lws_cpath'', cmd_type = [NGX_HTTP_SRV_CONF, NGX_HTTP_LOC_CONF, NGX_CONF_TAKE1], cmd_set = ngx_conf_set_str_slot,
       cmd_conf = NGX_HTTP_LOC_CONF_OFFSET, cmd_offset = OFF_cpath, cmd_post = None\<rparr>,
     \<lparr>cmd_name = lit ''lws_max_states'', cmd_type = [NGX_HTTP_SRV_CONF, NGX_HTTP_LOC_CONF, NGX_CONF_TAKE12], cmd_set = set_lws_max_states,
       cmd_conf = NGX_HTTP_LOC_CONF_OFFSET, cmd_offset = OFF_states_max, cmd_post = None\<rparr>,
     \<lparr>cmd_name = lit ''lws_max_memory'', cmd_type = [NGX_HTTP_SRV_CONF, NGX_HTTP_LOC_CONF, NGX_CONF_TAKE1], cmd_set = ngx_conf_set_size_slot,
       cmd_conf = NGX_HTTP_LOC_CONF_OFFSET, cmd_offset = OFF_state_memory_max, cmd_post = None\<rparr>,
     \<lparr>cmd_name = lit ''lws_gc'', cmd_type = [NGX_HTTP_SRV_CONF, NGX_HTTP_LOC_CONF, NGX_CONF_TAKE1], cmd_set = ngx_conf_set_size_slot,
       cmd_conf = NGX_HTTP_LOC_CONF_OFFSET, cmd_offset = OFF_state_gc, cmd_post = None\<rparr>,
     \<lparr>cmd_name = lit ''lws_max_requests'', cmd_type = [NGX_HTTP_SRV_CONF, NGX_HTTP_LOC_CONF, NGX_CONF_TAKE1], cmd_set = ngx_conf_set_num_slot,
       cmd_conf = NGX_HTTP_LOC_CONF_OFFSET, cmd_offset = OFF_state_requests_max, cmd_post = None\<rparr>,
     \<lparr>cmd_name = lit ''lws_max_time'', cmd_type = [NGX_HTTP_SRV_CONF, NGX_HTTP_LOC_CONF, NGX_CONF_TAKE1], cmd_set = ngx_conf_set_msec_slot,
       cmd_conf = NGX_HTTP_LOC_CONF_OFFSET, cmd_offset = OFF_state_time_max, cmd_post = None\<rparr>,
     \<lparr>cmd_name = lit ''lws_timeout'', cmd_type = [NGX_HTTP_SRV_CONF, NGX_HTTP_LOC_CONF, NGX_CONF_TAKE1], cmd_set = ngx_conf_set_msec_slot,
       cmd_conf = NGX_HTTP_LOC_CONF_OFFSET, cmd_offset = OFF_state_timeout, cmd_post = None\<rparr>,
     \<lparr>cmd_name = lit ''lws_variable'', cmd_type = [NGX_HTTP_SRV_CONF, NGX_HTTP_LOC_CONF, NGX_CONF_TAKE1], cmd_set = set_lws_variable,
       cmd_conf = NGX_HTTP_LOC_CONF_OFFSET, cmd_offset = OFF_variables, cmd_post = None\<rparr>,
     \<lparr>cmd_name = lit ''lws_error_response'', cmd_type = [NGX_HTTP_SRV_CONF, NGX_HTTP_LOC_CONF, NGX_CONF_TAKE12], cmd_set = set_lws_error_response,
       cmd_conf = NGX_HTTP_LOC_CONF_OFFSET, cmd_offset = OFF_error_response, cmd_post = Some lws_error_responses\<rparr>,
     \<lparr>cmd_name = lit ''lws_streaming'', cmd_type = [NGX_HTTP_SRV_CONF, NGX_HTTP_LOC_CONF, NGX_CONF_FLAG], cmd_set = ngx_conf_set_flag_slot,
       cmd_conf = NGX_HTTP_LOC_CONF_OFFSET, cmd_offset = OFF_streaming, cmd_post = None\<rparr>,
     \<lparr>cmd_name = lit ''lws_monitor'', cmd_type = [NGX_HTTP_LOC_CONF, NGX_CONF_NOARGS], cmd_set = set_lws_monitor,
       cmd_conf = NGX_HTTP_LOC_CONF_OFFSET, cmd_offset = OFF_monitor, cmd_post = None\<rparr>]"

section \<open>Setting a field\<close>

text \<open>What NGINX and the system answer to the functions of the directives: the functions that set a
  field, which get the words of the line and the field as it is; parsers; and whether allocations
  succeed.\<close>

record 'cv conf_api =
  ca_str_slot :: "ngx_str list \<Rightarrow> ngx_str option \<Rightarrow> conf_result \<times> ngx_str option"
  ca_size_slot :: "ngx_str list \<Rightarrow> size_t \<Rightarrow> conf_result \<times> size_t"
  ca_num_slot :: "ngx_str list \<Rightarrow> int \<Rightarrow> conf_result \<times> int"
  ca_msec_slot :: "ngx_str list \<Rightarrow> ngx_msec \<Rightarrow> conf_result \<times> ngx_msec"
  ca_flag_slot :: "ngx_str list \<Rightarrow> int \<Rightarrow> conf_result \<times> int"
  ca_enum_slot :: "(ngx_str \<times> size_t) list \<Rightarrow> ngx_str \<Rightarrow> size_t \<Rightarrow> conf_result \<times> size_t"
  ca_parse_size :: "ngx_str \<Rightarrow> int"
  ca_parse_time :: "ngx_str \<Rightarrow> int"
  ca_variable_index :: "ngx_str \<Rightarrow> int"
  ca_strcasecmp :: "ngx_str \<Rightarrow> ngx_str \<Rightarrow> int"
  ca_compile :: "ngx_str \<Rightarrow> bool \<Rightarrow> 'cv option"
  ca_palloc :: bool
  ca_palloc2 :: bool
  ca_push :: bool
  ca_shm :: bool

datatype conf_handler = HANDLER_lws | HANDLER_lws_monitor

text \<open>The main configuration, the configuration of the block, and the handler of the block.\<close>

record 'cv block_conf =
  bc_main :: lws_main_conf
  bc_loc :: "'cv lws_loc_settings"
  bc_handler :: "conf_handler option"

definition in_main :: "'cv block_conf \<Rightarrow> conf_result \<times> lws_main_conf \<Rightarrow> (conf_result \<times> 'cv block_conf) option" where
  "in_main c r = (case r of (result, m) \<Rightarrow> Some (result, c\<lparr>bc_main := m\<rparr>))"

definition in_loc ::
  "'cv block_conf \<Rightarrow> conf_result \<times> 'cv lws_loc_settings \<Rightarrow> (conf_result \<times> 'cv block_conf) option" where
  "in_loc c r = (case r of (result, l) \<Rightarrow> Some (result, c\<lparr>bc_loc := l\<rparr>))"

text \<open>A field is written at an offset of a structure, through a pointer to the type of the function: if
  the field has another type, or the structure no such field, the outcome is \<open>None\<close>.\<close>

definition str_slot ::
  "'cv conf_api \<Rightarrow> conf_struct \<Rightarrow> conf_offset \<Rightarrow> ngx_str list \<Rightarrow> 'cv block_conf \<Rightarrow> (conf_result \<times> 'cv block_conf) option" where
  "str_slot A st off values c =
     (let slot = ca_str_slot A values; m = bc_main c; l = bc_loc c in
      case (st, off) of
        (NGX_HTTP_MAIN_CONF_OFFSET, OFF_thread_pool_name) \<Rightarrow>
          in_main c (apsnd (\<lambda>v. m\<lparr>mc_thread_pool_name := v\<rparr>) (slot (mc_thread_pool_name m)))
      | (NGX_HTTP_LOC_CONF_OFFSET, OFF_init) \<Rightarrow> in_loc c (apsnd (\<lambda>v. l\<lparr>lc_init := v\<rparr>) (slot (lc_init l)))
      | (NGX_HTTP_LOC_CONF_OFFSET, OFF_pre) \<Rightarrow> in_loc c (apsnd (\<lambda>v. l\<lparr>lc_pre := v\<rparr>) (slot (lc_pre l)))
      | (NGX_HTTP_LOC_CONF_OFFSET, OFF_post) \<Rightarrow> in_loc c (apsnd (\<lambda>v. l\<lparr>lc_post := v\<rparr>) (slot (lc_post l)))
      | (NGX_HTTP_LOC_CONF_OFFSET, OFF_path) \<Rightarrow> in_loc c (apsnd (\<lambda>v. l\<lparr>lc_path := v\<rparr>) (slot (lc_path l)))
      | (NGX_HTTP_LOC_CONF_OFFSET, OFF_cpath) \<Rightarrow> in_loc c (apsnd (\<lambda>v. l\<lparr>lc_cpath := v\<rparr>) (slot (lc_cpath l)))
      | _ \<Rightarrow> None)"

definition size_slot ::
  "'cv conf_api \<Rightarrow> conf_struct \<Rightarrow> conf_offset \<Rightarrow> ngx_str list \<Rightarrow> 'cv block_conf \<Rightarrow> (conf_result \<times> 'cv block_conf) option" where
  "size_slot A st off values c =
     (let slot = ca_size_slot A values; m = bc_main c; l = bc_loc c in
      case (st, off) of
        (NGX_HTTP_MAIN_CONF_OFFSET, OFF_stat_cache_cap) \<Rightarrow>
          in_main c (apsnd (\<lambda>v. m\<lparr>mc_stat_cache_cap := v\<rparr>) (slot (mc_stat_cache_cap m)))
      | (NGX_HTTP_LOC_CONF_OFFSET, OFF_states_max) \<Rightarrow> in_loc c (apsnd (\<lambda>v. l\<lparr>lc_states_max := v\<rparr>) (slot (lc_states_max l)))
      | (NGX_HTTP_LOC_CONF_OFFSET, OFF_state_memory_max) \<Rightarrow>
          in_loc c (apsnd (\<lambda>v. l\<lparr>lc_state_memory_max := v\<rparr>) (slot (lc_state_memory_max l)))
      | (NGX_HTTP_LOC_CONF_OFFSET, OFF_state_gc) \<Rightarrow> in_loc c (apsnd (\<lambda>v. l\<lparr>lc_state_gc := v\<rparr>) (slot (lc_state_gc l)))
      | _ \<Rightarrow> None)"

definition num_slot ::
  "'cv conf_api \<Rightarrow> conf_struct \<Rightarrow> conf_offset \<Rightarrow> ngx_str list \<Rightarrow> 'cv block_conf \<Rightarrow> (conf_result \<times> 'cv block_conf) option" where
  "num_slot A st off values c =
     (let slot = ca_num_slot A values; l = bc_loc c in
      case (st, off) of
        (NGX_HTTP_LOC_CONF_OFFSET, OFF_state_requests_max) \<Rightarrow>
          in_loc c (apsnd (\<lambda>v. l\<lparr>lc_state_requests_max := v\<rparr>) (slot (lc_state_requests_max l)))
      | _ \<Rightarrow> None)"

definition msec_slot ::
  "'cv conf_api \<Rightarrow> conf_struct \<Rightarrow> conf_offset \<Rightarrow> ngx_str list \<Rightarrow> 'cv block_conf \<Rightarrow> (conf_result \<times> 'cv block_conf) option" where
  "msec_slot A st off values c =
     (let slot = ca_msec_slot A values; l = bc_loc c in
      case (st, off) of
        (NGX_HTTP_LOC_CONF_OFFSET, OFF_state_time_max) \<Rightarrow>
          in_loc c (apsnd (\<lambda>v. l\<lparr>lc_state_time_max := v\<rparr>) (slot (lc_state_time_max l)))
      | (NGX_HTTP_LOC_CONF_OFFSET, OFF_state_timeout) \<Rightarrow>
          in_loc c (apsnd (\<lambda>v. l\<lparr>lc_state_timeout := v\<rparr>) (slot (lc_state_timeout l)))
      | _ \<Rightarrow> None)"

definition flag_slot ::
  "'cv conf_api \<Rightarrow> conf_struct \<Rightarrow> conf_offset \<Rightarrow> ngx_str list \<Rightarrow> 'cv block_conf \<Rightarrow> (conf_result \<times> 'cv block_conf) option" where
  "flag_slot A st off values c =
     (let slot = ca_flag_slot A values; l = bc_loc c in
      case (st, off) of
        (NGX_HTTP_LOC_CONF_OFFSET, OFF_streaming) \<Rightarrow> in_loc c (apsnd (\<lambda>v. l\<lparr>lc_streaming := v\<rparr>) (slot (lc_streaming l)))
      | _ \<Rightarrow> None)"

text \<open>The functions of the module get the structure of the entry; \<open>ngx_conf_set_enum_slot\<close>, which
  \<open>lws_error_response\<close> calls, also its offset and its list of values.\<close>

definition run_command ::
  "'cv conf_api \<Rightarrow> ngx_command \<Rightarrow> ngx_str list \<Rightarrow> 'cv block_conf \<Rightarrow> (conf_result \<times> 'cv block_conf) option" where
  "run_command A cmd values c =
     (let m = bc_main c; l = bc_loc c in
      case cmd_set cmd of
        ngx_conf_set_str_slot \<Rightarrow> str_slot A (cmd_conf cmd) (cmd_offset cmd) values c
      | ngx_conf_set_size_slot \<Rightarrow> size_slot A (cmd_conf cmd) (cmd_offset cmd) values c
      | ngx_conf_set_num_slot \<Rightarrow> num_slot A (cmd_conf cmd) (cmd_offset cmd) values c
      | ngx_conf_set_msec_slot \<Rightarrow> msec_slot A (cmd_conf cmd) (cmd_offset cmd) values c
      | ngx_conf_set_flag_slot \<Rightarrow> flag_slot A (cmd_conf cmd) (cmd_offset cmd) values c
      | set_lws_stat_cache \<Rightarrow>
          if cmd_conf cmd \<noteq> NGX_HTTP_MAIN_CONF_OFFSET then None
          else in_main c (lws_stat_cache (ca_parse_size A) (ca_parse_time A) values m)
      | _ \<Rightarrow>
          if cmd_conf cmd \<noteq> NGX_HTTP_LOC_CONF_OFFSET then None
          else
            (case cmd_set cmd of
               set_lws \<Rightarrow>
                 (case lws_directive (ca_palloc A) (ca_palloc2 A) (ca_compile A) values l of
                    ((result, installed), l) \<Rightarrow>
                      Some (result, c\<lparr>bc_loc := l,
                        bc_handler := (if installed then Some HANDLER_lws else bc_handler c)\<rparr>))
             | set_lws_max_states \<Rightarrow> in_loc c (lws_max_states (ca_parse_size A) values l)
             | set_lws_variable \<Rightarrow> in_loc c (lws_variable (ca_variable_index A) (ca_push A) values l)
             | set_lws_error_response \<Rightarrow>
                 if cmd_offset cmd \<noteq> OFF_error_response \<or> cmd_post cmd \<noteq> Some lws_error_responses then None
                 else in_loc c (lws_error_response (ca_enum_slot A) (ca_strcasecmp A) values l)
             | set_lws_monitor \<Rightarrow>
                 (case lws_monitor_directive (ca_shm A) m l of
                    ((result, installed), m, l) \<Rightarrow>
                      Some (result, c\<lparr>bc_main := m, bc_loc := l,
                        bc_handler := (if installed then Some HANDLER_lws_monitor else bc_handler c)\<rparr>))
             | _ \<Rightarrow> None))"

section \<open>Lines, blocks and levels\<close>

text \<open>A line stands in a block \<open>http\<close>, \<open>server\<close> or \<open>location\<close>; \<open>level\<close> is the flag of the block. The flags
  of the arguments count the words after the name.\<close>

definition arity_ok :: "conf_flag list \<Rightarrow> nat \<Rightarrow> bool" where
  "arity_ok flags n \<longleftrightarrow>
     (NGX_CONF_NOARGS \<in> set flags \<and> n = 0) \<or> (NGX_CONF_TAKE1 \<in> set flags \<and> n = 1) \<or>
     (NGX_CONF_TAKE2 \<in> set flags \<and> n = 2) \<or> (NGX_CONF_TAKE12 \<in> set flags \<and> n \<in> {1, 2}) \<or>
     (NGX_CONF_FLAG \<in> set flags \<and> n = 1)"

text \<open>A line that is not accepted ends the start of NGINX.\<close>

definition conf_line ::
  "'cv conf_api \<Rightarrow> conf_flag \<Rightarrow> ngx_str list \<Rightarrow> 'cv block_conf \<Rightarrow> 'cv block_conf option" where
  "conf_line A level values c =
     (case find (\<lambda>cmd. values \<noteq> [] \<and> cmd_name cmd = hd values) lws_commands of
        None \<Rightarrow> None
      | Some cmd \<Rightarrow>
          if level \<notin> set (cmd_type cmd) \<or> \<not> arity_ok (cmd_type cmd) (length values - 1) then None
          else (case run_command A cmd values c of
                  Some (NGX_CONF_OK, c) \<Rightarrow> Some c
                | _ \<Rightarrow> None))"

fun conf_block ::
  "'cv conf_api \<Rightarrow> conf_flag \<Rightarrow> ngx_str list list \<Rightarrow> 'cv block_conf \<Rightarrow> 'cv block_conf option" where
  "conf_block A level [] c = Some c"
| "conf_block A level (values # lines) c =
     (case conf_line A level values c of None \<Rightarrow> None | Some c \<Rightarrow> conf_block A level lines c)"

text \<open>The blocks around a location, the outermost first: each has a configuration of its own, and all
  share the main one.\<close>

fun conf_levels ::
  "'cv conf_api \<Rightarrow> (conf_flag \<times> ngx_str list list) list \<Rightarrow> lws_main_conf \<Rightarrow> (lws_main_conf \<times> 'cv block_conf list) option" where
  "conf_levels A [] m = Some (m, [])"
| "conf_levels A ((level, lines) # blocks) m =
     (case fst (lws_create_loc_conf True True True) of
        CONF_PTR l \<Rightarrow>
          (case conf_block A level lines \<lparr>bc_main = m, bc_loc = l, bc_handler = None\<rparr> of
             None \<Rightarrow> None
           | Some c \<Rightarrow>
               (case conf_levels A blocks (bc_main c) of
                  None \<Rightarrow> None
                | Some (m, cs) \<Rightarrow> Some (m, c # cs)))
      | _ \<Rightarrow> None)"

end
