(* ===== verification/LwsCommandsCorrect.thy ===== *)
theory LwsCommandsCorrect
  imports LwsCommands
begin

text \<open>
  From the lines of a configuration to the settings of a location.
\<close>

section \<open>What is documented of NGINX\<close>

text \<open>A function that sets a field succeeds only if the field is unset, and stores the value of the first
  argument, which is not the value for unset. The values are those of the parsers of NGINX.\<close>

definition slot_ok :: "'a \<Rightarrow> (ngx_str \<Rightarrow> 'a) \<Rightarrow> (ngx_str list \<Rightarrow> 'a \<Rightarrow> conf_result \<times> 'a) \<Rightarrow> bool" where
  "slot_ok unset parse slot \<longleftrightarrow>
     (\<forall>values v v'. slot values v = (NGX_CONF_OK, v') \<longrightarrow> v = unset \<and> v' = parse (values ! 1) \<and> v' \<noteq> unset)"

record conf_parsers =
  cp_num :: "ngx_str \<Rightarrow> int"
  cp_msec :: "ngx_str \<Rightarrow> ngx_msec"
  cp_flag :: "ngx_str \<Rightarrow> int"
  cp_enum :: "ngx_str \<Rightarrow> size_t"

definition api_ok :: "conf_parsers \<Rightarrow> 'cv conf_api \<Rightarrow> bool" where
  "api_ok P A \<longleftrightarrow>
     slot_ok None Some (ca_str_slot A) \<and>
     slot_ok NGX_CONF_UNSET_SIZE (\<lambda>s. word_of_int (ca_parse_size A s)) (ca_size_slot A) \<and>
     slot_ok NGX_CONF_UNSET (cp_num P) (ca_num_slot A) \<and>
     slot_ok NGX_CONF_UNSET_MSEC (cp_msec P) (ca_msec_slot A) \<and>
     slot_ok NGX_CONF_UNSET (cp_flag P) (ca_flag_slot A) \<and>
     slot_ok NGX_CONF_UNSET_SIZE (cp_enum P) (\<lambda>values. ca_enum_slot A lws_error_responses (values ! 1))"

section \<open>The effect of a line\<close>

text \<open>Each directive has an offset of its own, which stands for the directive here. These are the
  documented names.\<close>

definition directive_name :: "conf_offset \<Rightarrow> string" where
  "directive_name d = (case d of
     OFF_thread_pool_name \<Rightarrow> ''lws_thread_pool''
   | OFF_stat_cache_cap \<Rightarrow> ''lws_stat_cache''
   | OFF_main \<Rightarrow> ''lws''
   | OFF_init \<Rightarrow> ''lws_init''
   | OFF_pre \<Rightarrow> ''lws_pre''
   | OFF_post \<Rightarrow> ''lws_post''
   | OFF_path \<Rightarrow> ''lws_path''
   | OFF_cpath \<Rightarrow> ''lws_cpath''
   | OFF_states_max \<Rightarrow> ''lws_max_states''
   | OFF_state_memory_max \<Rightarrow> ''lws_max_memory''
   | OFF_state_gc \<Rightarrow> ''lws_gc''
   | OFF_state_requests_max \<Rightarrow> ''lws_max_requests''
   | OFF_state_time_max \<Rightarrow> ''lws_max_time''
   | OFF_state_timeout \<Rightarrow> ''lws_timeout''
   | OFF_variables \<Rightarrow> ''lws_variable''
   | OFF_error_response \<Rightarrow> ''lws_error_response''
   | OFF_streaming \<Rightarrow> ''lws_streaming''
   | OFF_monitor \<Rightarrow> ''lws_monitor'')"

lemma directive_name_inject: "directive_name d = directive_name d' \<longleftrightarrow> d = d'"
  by (cases d; cases d'; simp add: directive_name_def)

text \<open>The setting that a line makes, and that it was unset.\<close>

definition line_loc ::
  "conf_parsers \<Rightarrow> 'cv conf_api \<Rightarrow> conf_offset \<Rightarrow> ngx_str list \<Rightarrow> 'cv lws_loc_settings \<Rightarrow> 'cv lws_loc_settings" where
  "line_loc P A d values l =
     (let v = values ! 1 in
      case d of
        OFF_thread_pool_name \<Rightarrow> l
      | OFF_stat_cache_cap \<Rightarrow> l
      | OFF_main \<Rightarrow> l\<lparr>lc_main := ca_compile A v True,
          lc_path_info := (if length values \<ge> 3 then ca_compile A (values ! 2) False else lc_path_info l)\<rparr>
      | OFF_init \<Rightarrow> l\<lparr>lc_init := Some v\<rparr>
      | OFF_pre \<Rightarrow> l\<lparr>lc_pre := Some v\<rparr>
      | OFF_post \<Rightarrow> l\<lparr>lc_post := Some v\<rparr>
      | OFF_path \<Rightarrow> l\<lparr>lc_path := Some v\<rparr>
      | OFF_cpath \<Rightarrow> l\<lparr>lc_cpath := Some v\<rparr>
      | OFF_states_max \<Rightarrow> l\<lparr>lc_states_max := word_of_int (ca_parse_size A v),
          lc_requests_max := (if length values \<ge> 3 then word_of_int (ca_parse_size A (values ! 2)) else lc_requests_max l)\<rparr>
      | OFF_state_memory_max \<Rightarrow> l\<lparr>lc_state_memory_max := word_of_int (ca_parse_size A v)\<rparr>
      | OFF_state_gc \<Rightarrow> l\<lparr>lc_state_gc := word_of_int (ca_parse_size A v)\<rparr>
      | OFF_state_requests_max \<Rightarrow> l\<lparr>lc_state_requests_max := cp_num P v\<rparr>
      | OFF_state_time_max \<Rightarrow> l\<lparr>lc_state_time_max := cp_msec P v\<rparr>
      | OFF_state_timeout \<Rightarrow> l\<lparr>lc_state_timeout := cp_msec P v\<rparr>
      | OFF_variables \<Rightarrow> l\<lparr>lc_variables := lc_variables l @ [\<lparr>v_name = v, v_index = ca_variable_index A v\<rparr>]\<rparr>
      | OFF_error_response \<Rightarrow>
          l\<lparr>lc_error_response := cp_enum P v, lc_diagnostic := (if length values \<ge> 3 then 1 else 0)\<rparr>
      | OFF_streaming \<Rightarrow> l\<lparr>lc_streaming := cp_flag P v\<rparr>
      | OFF_monitor \<Rightarrow> l\<lparr>lc_monitor := True\<rparr>)"

definition line_main :: "'cv conf_api \<Rightarrow> conf_offset \<Rightarrow> ngx_str list \<Rightarrow> lws_main_conf \<Rightarrow> lws_main_conf" where
  "line_main A d values m =
     (case d of
        OFF_thread_pool_name \<Rightarrow> m\<lparr>mc_thread_pool_name := Some (values ! 1)\<rparr>
      | OFF_stat_cache_cap \<Rightarrow> m\<lparr>mc_stat_cache_cap := word_of_int (ca_parse_size A (values ! 1)),
          mc_stat_cache_timeout := ca_parse_time A (values ! 2)\<rparr>
      | OFF_monitor \<Rightarrow> m\<lparr>mc_monitor_shm := True\<rparr>
      | _ \<Rightarrow> m)"

definition line_handler :: "conf_offset \<Rightarrow> conf_handler option \<Rightarrow> conf_handler option" where
  "line_handler d h =
     (case d of OFF_main \<Rightarrow> Some HANDLER_lws | OFF_monitor \<Rightarrow> Some HANDLER_lws_monitor | _ \<Rightarrow> h)"

text \<open>The setting that must be unset: each directive but \<open>lws_variable\<close> has one.\<close>

definition line_unset :: "conf_offset \<Rightarrow> 'cv block_conf \<Rightarrow> bool" where
  "line_unset d c \<longleftrightarrow>
     (let l = bc_loc c; m = bc_main c in
      case d of
        OFF_thread_pool_name \<Rightarrow> mc_thread_pool_name m = None
      | OFF_stat_cache_cap \<Rightarrow> mc_stat_cache_cap m = NGX_CONF_UNSET_SIZE
      | OFF_main \<Rightarrow> lc_main l = None \<and> \<not> lc_monitor l
      | OFF_init \<Rightarrow> lc_init l = None
      | OFF_pre \<Rightarrow> lc_pre l = None
      | OFF_post \<Rightarrow> lc_post l = None
      | OFF_path \<Rightarrow> lc_path l = None
      | OFF_cpath \<Rightarrow> lc_cpath l = None
      | OFF_states_max \<Rightarrow> lc_states_max l = NGX_CONF_UNSET_SIZE
      | OFF_state_memory_max \<Rightarrow> lc_state_memory_max l = NGX_CONF_UNSET_SIZE
      | OFF_state_gc \<Rightarrow> lc_state_gc l = NGX_CONF_UNSET_SIZE
      | OFF_state_requests_max \<Rightarrow> lc_state_requests_max l = NGX_CONF_UNSET
      | OFF_state_time_max \<Rightarrow> lc_state_time_max l = NGX_CONF_UNSET_MSEC
      | OFF_state_timeout \<Rightarrow> lc_state_timeout l = NGX_CONF_UNSET_MSEC
      | OFF_variables \<Rightarrow> True
      | OFF_error_response \<Rightarrow> lc_error_response l = NGX_CONF_UNSET_SIZE
      | OFF_streaming \<Rightarrow> lc_streaming l = NGX_CONF_UNSET
      | OFF_monitor \<Rightarrow> lc_main l = None \<and> \<not> lc_monitor l)"

definition line_effect :: "conf_parsers \<Rightarrow> 'cv conf_api \<Rightarrow> conf_offset \<Rightarrow> ngx_str list \<Rightarrow> 'cv block_conf \<Rightarrow> 'cv block_conf \<Rightarrow> bool" where
  "line_effect P A d values c c' \<longleftrightarrow>
     bc_loc c' = line_loc P A d values (bc_loc c) \<and> bc_main c' = line_main A d values (bc_main c) \<and>
     bc_handler c' = line_handler d (bc_handler c) \<and> line_unset d c \<and> (d = OFF_variables \<or> \<not> line_unset d c') \<and>
     (d = OFF_main \<longrightarrow> lc_path_info (bc_loc c') \<noteq> None \<or> length values < 3) \<and>
     (d = OFF_states_max \<longrightarrow> lc_requests_max (bc_loc c') \<noteq> NGX_CONF_UNSET_SIZE \<or> length values < 3)"

lemma conf_line_command:
  assumes "conf_line A level values c = Some c'"
  shows "\<exists>cmd \<in> set lws_commands. values \<noteq> [] \<and> cmd_name cmd = hd values \<and> level \<in> set (cmd_type cmd) \<and>
    arity_ok (cmd_type cmd) (length values - 1) \<and> run_command A cmd values c = Some (NGX_CONF_OK, c')"
  using assms
  by (auto simp: conf_line_def find_Some_iff split: option.splits if_splits conf_result.splits)

lemma slot_okD:
  "slot_ok unset parse slot \<Longrightarrow> slot values v = (NGX_CONF_OK, v') \<Longrightarrow>
   v = unset \<and> v' = parse (values ! 1) \<and> v' \<noteq> unset"
  unfolding slot_ok_def by blast

lemma in_eq_Some:
  "in_main c r = Some (res, c') \<longleftrightarrow> (\<exists>m. r = (res, m) \<and> c' = c\<lparr>bc_main := m\<rparr>)"
  "in_loc c s = Some (res, c') \<longleftrightarrow> (\<exists>l. s = (res, l) \<and> c' = c\<lparr>bc_loc := l\<rparr>)"
  "apsnd f p = (res, y) \<longleftrightarrow> (\<exists>v. p = (res, v) \<and> y = f v)"
  by (auto simp: in_main_def in_loc_def apsnd_def map_prod_def split: prod.splits)

lemma attributes_ok:
  "error_response_attributes cmp vs l = (NGX_CONF_OK, l') \<Longrightarrow>
   l' = (if vs = [] then l else l\<lparr>lc_diagnostic := 1\<rparr>)"
  by (induction cmp vs l rule: error_response_attributes.induct) (auto split: if_splits)

text \<open>The functions of the module, when they succeed.\<close>

lemma own_ok:
  "lws_stat_cache ps pt values m = (NGX_CONF_OK, m') \<Longrightarrow>
     mc_stat_cache_cap m = NGX_CONF_UNSET_SIZE \<and> mc_stat_cache_cap m' \<noteq> NGX_CONF_UNSET_SIZE \<and>
     m' = m\<lparr>mc_stat_cache_cap := word_of_int (ps (values ! 1)), mc_stat_cache_timeout := pt (values ! 2)\<rparr>"
  "lws_max_states ps values l = (NGX_CONF_OK, l') \<Longrightarrow>
     lc_states_max l = NGX_CONF_UNSET_SIZE \<and> lc_states_max l' \<noteq> NGX_CONF_UNSET_SIZE \<and>
     (lc_requests_max l' \<noteq> NGX_CONF_UNSET_SIZE \<or> length values < 3) \<and>
     l' = l\<lparr>lc_states_max := word_of_int (ps (values ! 1)),
       lc_requests_max := (if length values \<ge> 3 then word_of_int (ps (values ! 2)) else lc_requests_max l)\<rparr>"
  "lws_directive pa pb compile values l = ((NGX_CONF_OK, inst), l') \<Longrightarrow>
     lc_main l = None \<and> \<not> lc_monitor l \<and> lc_main l' \<noteq> None \<and> inst \<and> (lc_path_info l' \<noteq> None \<or> length values < 3) \<and>
     l' = l\<lparr>lc_main := compile (values ! 1) True,
       lc_path_info := (if length values \<ge> 3 then compile (values ! 2) False else lc_path_info l)\<rparr>"
  "lws_variable vi pu values l = (NGX_CONF_OK, l') \<Longrightarrow>
     l' = l\<lparr>lc_variables := lc_variables l @ [\<lparr>v_name = values ! 1, v_index = vi (values ! 1)\<rparr>]\<rparr>"
  "lws_monitor_directive shm m l = ((NGX_CONF_OK, inst), m', l') \<Longrightarrow>
     lc_main l = None \<and> \<not> lc_monitor l \<and> inst \<and> l' = l\<lparr>lc_monitor := True\<rparr> \<and> m' = m\<lparr>mc_monitor_shm := True\<rparr>"
  by (auto simp: lws_stat_cache_def lws_max_states_def lws_directive_def lws_variable_def lws_monitor_directive_def
      NGX_CONF_UNSET_SIZE_def Let_def split: if_splits option.splits)

lemma error_response_keeps_fields:
  assumes "slot_ok NGX_CONF_UNSET_SIZE enum (\<lambda>values. es lws_error_responses (values ! 1))"
    "lws_error_response es cmp values l = (NGX_CONF_OK, l')"
  shows "lc_error_response l = NGX_CONF_UNSET_SIZE \<and> lc_error_response l' \<noteq> NGX_CONF_UNSET_SIZE \<and>
    l' = l\<lparr>lc_error_response := enum (values ! 1), lc_diagnostic := (if length values \<ge> 3 then 1 else 0)\<rparr>"
proof -
  obtain r er where e: "es lws_error_responses (values ! 1) (lc_error_response l) = (r, er)" by fastforce
  with assms(2) have "r = NGX_CONF_OK" by (auto simp: lws_error_response_def Let_def split: if_splits)
  with e have "es lws_error_responses (values ! 1) (lc_error_response l) = (NGX_CONF_OK, er)" by simp
  note s = slot_okD [OF assms(1) this]
  from assms(2) e have "error_response_attributes cmp (drop 2 values) (l\<lparr>lc_error_response := er, lc_diagnostic := 0\<rparr>) = (NGX_CONF_OK, l')"
    by (auto simp: lws_error_response_def Let_def split: if_splits)
  from attributes_ok [OF this] s show ?thesis by auto
qed

text \<open>The entries of the table, by offset.\<close>

definition setter :: "conf_offset \<Rightarrow> conf_set" where
  "setter d = (case d of
     OFF_thread_pool_name \<Rightarrow> ngx_conf_set_str_slot | OFF_stat_cache_cap \<Rightarrow> set_lws_stat_cache | OFF_main \<Rightarrow> set_lws
   | OFF_init \<Rightarrow> ngx_conf_set_str_slot | OFF_pre \<Rightarrow> ngx_conf_set_str_slot | OFF_post \<Rightarrow> ngx_conf_set_str_slot
   | OFF_path \<Rightarrow> ngx_conf_set_str_slot | OFF_cpath \<Rightarrow> ngx_conf_set_str_slot | OFF_states_max \<Rightarrow> set_lws_max_states
   | OFF_state_memory_max \<Rightarrow> ngx_conf_set_size_slot | OFF_state_gc \<Rightarrow> ngx_conf_set_size_slot
   | OFF_state_requests_max \<Rightarrow> ngx_conf_set_num_slot | OFF_state_time_max \<Rightarrow> ngx_conf_set_msec_slot
   | OFF_state_timeout \<Rightarrow> ngx_conf_set_msec_slot | OFF_variables \<Rightarrow> set_lws_variable
   | OFF_error_response \<Rightarrow> set_lws_error_response | OFF_streaming \<Rightarrow> ngx_conf_set_flag_slot | OFF_monitor \<Rightarrow> set_lws_monitor)"

lemma table_entry:
  assumes "cmd \<in> set lws_commands"
  shows "cmd_name cmd = lit (directive_name (cmd_offset cmd))" "cmd_set cmd = setter (cmd_offset cmd)"
    "cmd_conf cmd = (if cmd_offset cmd \<in> {OFF_thread_pool_name, OFF_stat_cache_cap}
       then NGX_HTTP_MAIN_CONF_OFFSET else NGX_HTTP_LOC_CONF_OFFSET)"
    "cmd_post cmd = (if cmd_offset cmd = OFF_error_response then Some lws_error_responses else None)"
proof -
  have "list_all (\<lambda>cmd. cmd_name cmd = lit (directive_name (cmd_offset cmd)) \<and> cmd_set cmd = setter (cmd_offset cmd) \<and>
    cmd_conf cmd = (if cmd_offset cmd \<in> {OFF_thread_pool_name, OFF_stat_cache_cap}
       then NGX_HTTP_MAIN_CONF_OFFSET else NGX_HTTP_LOC_CONF_OFFSET) \<and>
    cmd_post cmd = (if cmd_offset cmd = OFF_error_response then Some lws_error_responses else None)) lws_commands"
    by (simp add: lws_commands_def directive_name_def setter_def)
  with assms show "cmd_name cmd = lit (directive_name (cmd_offset cmd))" "cmd_set cmd = setter (cmd_offset cmd)"
    "cmd_conf cmd = (if cmd_offset cmd \<in> {OFF_thread_pool_name, OFF_stat_cache_cap}
       then NGX_HTTP_MAIN_CONF_OFFSET else NGX_HTTP_LOC_CONF_OFFSET)"
    "cmd_post cmd = (if cmd_offset cmd = OFF_error_response then Some lws_error_responses else None)"
    by (simp_all add: list_all_iff)
qed

text \<open>Every entry is well-typed: its function gets a structure and an offset at which a field of its type is.\<close>

lemma lws_commands_typed:
  assumes "cmd \<in> set lws_commands"
  shows "run_command A cmd vs c \<noteq> None"
  using table_entry(2-) [OF assms]
  by (cases "cmd_offset cmd"; simp add: run_command_def setter_def in_main_def in_loc_def str_slot_def size_slot_def num_slot_def
      msec_slot_def flag_slot_def Let_def split: prod.splits)

lemma run_effect:
  assumes A: "api_ok P A" and cmd: "cmd \<in> set lws_commands"
    and run: "run_command A cmd values c = Some (NGX_CONF_OK, c')"
  shows "line_effect P A (cmd_offset cmd) values c c'"
proof -
  note slots = A [unfolded api_ok_def]
  note oks = slots [THEN conjunct1, THEN slot_okD] slots [THEN conjunct2, THEN conjunct1, THEN slot_okD]
    slots [THEN conjunct2, THEN conjunct2, THEN conjunct1, THEN slot_okD]
    slots [THEN conjunct2, THEN conjunct2, THEN conjunct2, THEN conjunct1, THEN slot_okD]
    slots [THEN conjunct2, THEN conjunct2, THEN conjunct2, THEN conjunct2, THEN conjunct1, THEN slot_okD]
    error_response_keeps_fields [of "cp_enum P" "ca_enum_slot A", OF slots [THEN conjunct2, THEN conjunct2, THEN conjunct2, THEN conjunct2,
      THEN conjunct2]] own_ok
  note defs = line_effect_def line_loc_def line_main_def line_handler_def line_unset_def
  show ?thesis
    using run table_entry(2-) [OF cmd]
    by (cases "cmd_offset cmd"; simp add: run_command_def setter_def in_eq_Some str_slot_def size_slot_def num_slot_def
      msec_slot_def flag_slot_def Let_def split: prod.splits; auto simp: defs Let_def dest!: oks)
qed

lemma line_spec:
  assumes A: "api_ok P A" and line: "conf_line A level values c = Some c'"
  shows "\<exists>d. hd values = lit (directive_name d) \<and> line_effect P A d values c c'"
  using conf_line_command [OF line] table_entry(1) run_effect [OF A] by metis

section \<open>The effect of a block\<close>

text \<open>A setting that is not unset stays so, and no line for it is accepted any more.\<close>

lemma unset_mono:
  assumes "line_effect P A d values c c'" "line_unset k c'"
  shows "line_unset k c"
proof -
  have "d \<noteq> k \<or> d = OFF_variables" using assms by (auto simp: line_effect_def)
  with assms show ?thesis
    by (cases k; cases d; simp add: line_effect_def line_unset_def line_loc_def line_main_def Let_def)
qed

lemma block_closed:
  assumes A: "api_ok P A"
    and sel: "\<And>d values c c'. line_effect P A d values c c' \<Longrightarrow> hd values = lit (directive_name d) \<Longrightarrow> sel values \<Longrightarrow>
      line_unset k c"
  shows "conf_block A level lines c = Some c' \<Longrightarrow> \<not> line_unset k c \<Longrightarrow> values \<in> set lines \<Longrightarrow> \<not> sel values"
proof (induction lines arbitrary: c)
  case (Cons v lines)
  then obtain c1 where c1: "conf_line A level v c = Some c1" "conf_block A level lines c1 = Some c'"
    by (auto split: option.splits)
  obtain d where d: "hd v = lit (directive_name d)" "line_effect P A d v c c1" using line_spec [OF A c1(1)] by blast
  have "\<not> sel v" using sel [OF d(2,1)] Cons.prems(2) by blast
  moreover have "\<not> line_unset k c1" using unset_mono [OF d(2)] Cons.prems(2) by blast
  ultimately show ?case using Cons.IH [OF c1(2)] Cons.prems(3) by auto
qed simp

text \<open>The setting \<open>g\<close> is made by the lines that satisfy \<open>sel\<close>, and by no other line; it is closed with the
  directive \<open>k\<close>. Then it has the value of the one line of the block that makes it.\<close>

definition sets ::
  "conf_parsers \<Rightarrow> 'cv conf_api \<Rightarrow> conf_offset \<Rightarrow> (ngx_str list \<Rightarrow> bool) \<Rightarrow> 'a \<Rightarrow> (ngx_str list \<Rightarrow> 'a) \<Rightarrow>
   ('cv block_conf \<Rightarrow> 'a) \<Rightarrow> bool" where
  "sets P A k sel unset new g \<longleftrightarrow>
     (\<forall>d values c c'. line_effect P A d values c c' \<longrightarrow> hd values = lit (directive_name d) \<longrightarrow>
        (if sel values then g c' = new values \<and> new values \<noteq> unset \<and> line_unset k c \<and> \<not> line_unset k c'
         else g c' = g c))"

lemma block_field:
  assumes A: "api_ok P A" and g: "sets P A k sel unset new g"
  shows "conf_block A level lines c = Some c' \<Longrightarrow>
    (case find sel lines of None \<Rightarrow> g c' = g c | Some v \<Rightarrow> g c' = new v \<and> new v \<noteq> unset)"
proof (induction lines arbitrary: c)
  case (Cons v lines)
  then obtain c1 where c1: "conf_line A level v c = Some c1" "conf_block A level lines c1 = Some c'"
    by (auto split: option.splits)
  obtain d where d: "hd v = lit (directive_name d)" "line_effect P A d v c c1" using line_spec [OF A c1(1)] by blast
  note v = g [unfolded sets_def, rule_format, OF d(2,1)]
  show ?case
  proof (cases "sel v")
    case True
    with v have v': "g c1 = new v" "new v \<noteq> unset" "\<not> line_unset k c1" by simp_all
    have "\<forall>w \<in> set lines. \<not> sel w"
    proof
      fix w assume "w \<in> set lines"
      show "\<not> sel w"
        by (rule block_closed [OF A _ c1(2) v'(3) \<open>w \<in> set lines\<close>]) (use g in \<open>simp add: sets_def\<close>)
    qed
    then have "find sel lines = None" by (simp add: find_None_iff)
    with Cons.IH [OF c1(2)] v' True show ?thesis by simp
  next
    case False
    with Cons.IH [OF c1(2)] v show ?thesis by (auto split: option.splits)
  qed
qed simp

section \<open>The effect of the levels\<close>

definition fresh_loc :: "'cv lws_loc_settings" where
  "fresh_loc = (case fst (lws_create_loc_conf True True True) of CONF_PTR l \<Rightarrow> l)"

lemmas fresh_loc_simp = fresh_loc_def [unfolded lws_create_loc_conf_def Let_def, simplified]

text \<open>The value of a setting by the innermost line that makes it.\<close>

definition setting ::
  "(conf_flag \<times> ngx_str list list) list \<Rightarrow> (ngx_str list \<Rightarrow> bool) \<Rightarrow> 'a \<Rightarrow> (ngx_str list \<Rightarrow> 'a) \<Rightarrow> 'a" where
  "setting blocks sel dflt new =
     (case find sel (concat (rev (map snd blocks))) of None \<Rightarrow> dflt | Some v \<Rightarrow> new v)"

lemma inherit_snoc: "inherit unset dflt (xs @ [x]) = inherit unset (if x = unset then dflt else x) xs"
  by (induction xs) (simp_all add: inherit_Cons, simp add: inherit_def)

lemma setting_Cons:
  "setting ((level, lines) # blocks) sel dflt new =
   setting blocks sel (case find sel lines of None \<Rightarrow> dflt | Some v \<Rightarrow> new v) new"
  by (simp add: setting_def find_append split: option.splits)

lemma levels_Cons:
  "conf_levels A ((level, lines) # blocks) m =
     (case conf_block A level lines \<lparr>bc_main = m, bc_loc = fresh_loc, bc_handler = None\<rparr> of
        None \<Rightarrow> None
      | Some c \<Rightarrow> (case conf_levels A blocks (bc_main c) of None \<Rightarrow> None | Some (m, cs) \<Rightarrow> Some (m, c # cs)))"
  by (simp add: fresh_loc_simp lws_create_loc_conf_def Let_def)

lemma effective:
  assumes A: "api_ok P A" and g: "sets P A k sel unset new (\<lambda>c. g (bc_loc c))" and fresh: "g fresh_loc = unset"
  shows "conf_levels A blocks m = Some (m', cs) \<Longrightarrow>
    inherit unset dflt (map g (rev (map bc_loc cs))) = setting blocks sel dflt new"
proof (induction blocks arbitrary: m m' cs dflt)
  case Nil
  then show ?case by (simp add: inherit_def setting_def)
next
  case (Cons b blocks)
  obtain level lines where b: "b = (level, lines)" by (cases b)
  from Cons.prems obtain c cs' where c: "conf_block A level lines \<lparr>bc_main = m, bc_loc = fresh_loc, bc_handler = None\<rparr> = Some c"
    "conf_levels A blocks (bc_main c) = Some (m', cs')" "cs = c # cs'"
    by (auto simp: b levels_Cons simp del: conf_levels.simps split: option.splits)
  have "inherit unset dflt (map g (rev (map bc_loc cs))) =
      inherit unset (case find sel lines of None \<Rightarrow> dflt | Some v \<Rightarrow> new v) (map g (rev (map bc_loc cs')))"
    using block_field [OF A g c(1)] fresh by (simp add: c(3) inherit_snoc split: option.splits)
  also have "\<dots> = setting (b # blocks) sel dflt new" by (simp add: b setting_Cons Cons.IH [OF c(2)])
  finally show ?case .
qed

text \<open>Each setting, and the lines that make it.\<close>

lemma settings:
  fixes A :: "'cv conf_api"
  shows
    "sets P A OFF_main (\<lambda>v. hd v = lit ''lws'') None (\<lambda>v. ca_compile A (v ! 1) True)
       (\<lambda>c. lc_main (bc_loc c))"
    "sets P A OFF_init (\<lambda>v. hd v = lit ''lws_init'') None (\<lambda>v. Some (v ! 1))
       (\<lambda>c. lc_init (bc_loc c))"
    "sets P A OFF_pre (\<lambda>v. hd v = lit ''lws_pre'') None (\<lambda>v. Some (v ! 1))
       (\<lambda>c. lc_pre (bc_loc c))"
    "sets P A OFF_post (\<lambda>v. hd v = lit ''lws_post'') None (\<lambda>v. Some (v ! 1))
       (\<lambda>c. lc_post (bc_loc c))"
    "sets P A OFF_path (\<lambda>v. hd v = lit ''lws_path'') None (\<lambda>v. Some (v ! 1))
       (\<lambda>c. lc_path (bc_loc c))"
    "sets P A OFF_cpath (\<lambda>v. hd v = lit ''lws_cpath'') None (\<lambda>v. Some (v ! 1))
       (\<lambda>c. lc_cpath (bc_loc c))"
    "sets P A OFF_states_max (\<lambda>v. hd v = lit ''lws_max_states'') NGX_CONF_UNSET_SIZE (\<lambda>v. word_of_int (ca_parse_size A (v ! 1)))
       (\<lambda>c. lc_states_max (bc_loc c))"
    "sets P A OFF_state_memory_max (\<lambda>v. hd v = lit ''lws_max_memory'') NGX_CONF_UNSET_SIZE (\<lambda>v. word_of_int (ca_parse_size A (v ! 1)))
       (\<lambda>c. lc_state_memory_max (bc_loc c))"
    "sets P A OFF_state_gc (\<lambda>v. hd v = lit ''lws_gc'') NGX_CONF_UNSET_SIZE (\<lambda>v. word_of_int (ca_parse_size A (v ! 1)))
       (\<lambda>c. lc_state_gc (bc_loc c))"
    "sets P A OFF_state_requests_max (\<lambda>v. hd v = lit ''lws_max_requests'') NGX_CONF_UNSET (\<lambda>v. cp_num P (v ! 1))
       (\<lambda>c. lc_state_requests_max (bc_loc c))"
    "sets P A OFF_state_time_max (\<lambda>v. hd v = lit ''lws_max_time'') NGX_CONF_UNSET_MSEC (\<lambda>v. cp_msec P (v ! 1))
       (\<lambda>c. lc_state_time_max (bc_loc c))"
    "sets P A OFF_state_timeout (\<lambda>v. hd v = lit ''lws_timeout'') NGX_CONF_UNSET_MSEC (\<lambda>v. cp_msec P (v ! 1))
       (\<lambda>c. lc_state_timeout (bc_loc c))"
    "sets P A OFF_error_response (\<lambda>v. hd v = lit ''lws_error_response'') NGX_CONF_UNSET_SIZE (\<lambda>v. cp_enum P (v ! 1))
       (\<lambda>c. lc_error_response (bc_loc c))"
    "sets P A OFF_error_response (\<lambda>v. hd v = lit ''lws_error_response'') NGX_CONF_UNSET (\<lambda>v. if length v \<ge> 3 then 1 else 0)
       (\<lambda>c. lc_diagnostic (bc_loc c))"
    "sets P A OFF_streaming (\<lambda>v. hd v = lit ''lws_streaming'') NGX_CONF_UNSET (\<lambda>v. cp_flag P (v ! 1))
       (\<lambda>c. lc_streaming (bc_loc c))"
    "sets P A OFF_main (\<lambda>v. hd v = lit ''lws'' \<and> length v \<ge> 3) None (\<lambda>v. ca_compile A (v ! 2) False)
       (\<lambda>c. lc_path_info (bc_loc c))"
    "sets P A OFF_states_max (\<lambda>v. hd v = lit ''lws_max_states'' \<and> length v \<ge> 3) NGX_CONF_UNSET_SIZE
       (\<lambda>v. word_of_int (ca_parse_size A (v ! 2))) (\<lambda>c. lc_requests_max (bc_loc c))"
  by (unfold sets_def; intro allI impI; rename_tac d vs c c'; case_tac d;
      simp add: line_effect_def line_loc_def line_unset_def directive_name_def lit_inject NGX_CONF_UNSET_def Let_def; force?)+

lemma main_settings:
  fixes A :: "'cv conf_api"
  shows
    "sets P A OFF_thread_pool_name (\<lambda>v. hd v = lit ''lws_thread_pool'') None (\<lambda>v. Some (v ! 1))
       (\<lambda>c. mc_thread_pool_name (bc_main c))"
    "sets P A OFF_stat_cache_cap (\<lambda>v. hd v = lit ''lws_stat_cache'') NGX_CONF_UNSET_SIZE
       (\<lambda>v. word_of_int (ca_parse_size A (v ! 1))) (\<lambda>c. mc_stat_cache_cap (bc_main c))"
    "sets P A OFF_main (\<lambda>v. hd v \<in> {lit ''lws'', lit ''lws_monitor''}) None
       (\<lambda>v. Some (if hd v = lit ''lws'' then HANDLER_lws else HANDLER_lws_monitor)) bc_handler"
  by (unfold sets_def; intro allI impI; rename_tac d vs c c'; case_tac d;
      simp add: line_effect_def line_main_def line_handler_def line_loc_def line_unset_def directive_name_def lit_inject Let_def; force?)+

lemma block_variables:
  assumes A: "api_ok P A"
  shows "conf_block A level lines c = Some c' \<Longrightarrow>
    lc_variables (bc_loc c') = lc_variables (bc_loc c) @
      map (\<lambda>v. \<lparr>v_name = v ! 1, v_index = ca_variable_index A (v ! 1)\<rparr>) (filter (\<lambda>v. hd v = lit ''lws_variable'') lines)"
proof (induction lines arbitrary: c)
  case (Cons v lines)
  then obtain c1 where c1: "conf_line A level v c = Some c1" "conf_block A level lines c1 = Some c'"
    by (auto split: option.splits)
  obtain d where d: "hd v = lit (directive_name d)" "line_effect P A d v c c1" using line_spec [OF A c1(1)] by blast
  have "lc_variables (bc_loc c1) = lc_variables (bc_loc c) @
      (if hd v = lit ''lws_variable'' then [\<lparr>v_name = v ! 1, v_index = ca_variable_index A (v ! 1)\<rparr>] else [])"
    using d by (cases d) (simp_all add: line_effect_def line_loc_def directive_name_def lit_inject Let_def)
  with Cons.IH [OF c1(2)] show ?case by simp
qed simp

text \<open>No directive but \<open>lws_variable\<close> is accepted twice in a block, and each only in its contexts.\<close>

definition directive_contexts :: "conf_offset \<Rightarrow> conf_flag list" where
  "directive_contexts d =
     (case d of OFF_thread_pool_name \<Rightarrow> [NGX_HTTP_MAIN_CONF] | OFF_stat_cache_cap \<Rightarrow> [NGX_HTTP_MAIN_CONF]
      | OFF_main \<Rightarrow> [NGX_HTTP_LOC_CONF] | OFF_monitor \<Rightarrow> [NGX_HTTP_LOC_CONF]
      | _ \<Rightarrow> [NGX_HTTP_SRV_CONF, NGX_HTTP_LOC_CONF])"

definition block_ok :: "conf_flag \<times> ngx_str list list \<Rightarrow> bool" where
  "block_ok b \<longleftrightarrow> (case b of (level, lines) \<Rightarrow>
     distinct (filter (\<lambda>n. n \<noteq> lit ''lws_variable'') (map hd lines)) \<and>
     list_all (\<lambda>v. \<exists>d. hd v = lit (directive_name d) \<and> level \<in> set (directive_contexts d)) lines)"

lemma line_context:
  assumes "conf_line A level values c = Some c'" "level \<in> {NGX_HTTP_MAIN_CONF, NGX_HTTP_SRV_CONF, NGX_HTTP_LOC_CONF}"
  shows "\<exists>d. hd values = lit (directive_name d) \<and> level \<in> set (directive_contexts d)"
proof -
  from conf_line_command [OF assms(1)] obtain cmd where cmd: "cmd \<in> set lws_commands" "cmd_name cmd = hd values"
    "level \<in> set (cmd_type cmd)" by blast
  have "list_all (\<lambda>cmd. list_all (\<lambda>f. f \<in> {NGX_HTTP_MAIN_CONF, NGX_HTTP_SRV_CONF, NGX_HTTP_LOC_CONF} \<longrightarrow>
      f \<in> set (directive_contexts (cmd_offset cmd))) (cmd_type cmd)) lws_commands"
    by (simp add: lws_commands_def directive_contexts_def)
  with cmd assms(2) have "level \<in> set (directive_contexts (cmd_offset cmd))" by (auto simp: list_all_iff)
  with table_entry(1) [OF cmd(1)] cmd(2) show ?thesis by metis
qed

lemma block_accepted:
  assumes A: "api_ok P A" and level: "level \<in> {NGX_HTTP_MAIN_CONF, NGX_HTTP_SRV_CONF, NGX_HTTP_LOC_CONF}"
  shows "conf_block A level lines c = Some c' \<Longrightarrow> block_ok (level, lines)"
proof (induction lines arbitrary: c)
  case (Cons v lines)
  then obtain c1 where c1: "conf_line A level v c = Some c1" "conf_block A level lines c1 = Some c'"
    by (auto split: option.splits)
  obtain d where d: "hd v = lit (directive_name d)" "line_effect P A d v c c1" using line_spec [OF A c1(1)] by blast
  have "hd w \<noteq> hd v" if "d \<noteq> OFF_variables" "w \<in> set lines" for w
  proof (rule block_closed [OF A _ c1(2) _ that(2), of "\<lambda>w. hd w = hd v" d])
    show "\<not> line_unset d c1" using d(2) that(1) by (simp add: line_effect_def)
  qed (use d(1) in \<open>auto simp: lit_inject directive_name_inject line_effect_def\<close>)
  moreover have "d = OFF_variables \<Longrightarrow> hd v = lit ''lws_variable''" using d(1) by (simp add: directive_name_def)
  ultimately have "hd v = lit ''lws_variable'' \<or> hd v \<notin> hd ` set lines" by force
  with Cons.IH [OF c1(2)] line_context [OF c1(1) level] show ?case by (auto simp: block_ok_def)
qed (simp add: block_ok_def)

lemma levels_accepted:
  assumes A: "api_ok P A"
  shows "conf_levels A blocks m = Some (m', cs) \<Longrightarrow>
    list_all (\<lambda>b. fst b \<in> {NGX_HTTP_MAIN_CONF, NGX_HTTP_SRV_CONF, NGX_HTTP_LOC_CONF}) blocks \<Longrightarrow>
    list_all block_ok blocks \<and>
    concat (map (\<lambda>c. lc_variables (bc_loc c)) cs) =
      map (\<lambda>v. \<lparr>v_name = v ! 1, v_index = ca_variable_index A (v ! 1)\<rparr>)
        (filter (\<lambda>v. hd v = lit ''lws_variable'') (concat (map snd blocks))) \<and>
    length cs = length blocks \<and>
    (blocks \<noteq> [] \<longrightarrow> bc_handler (last cs) =
       (case find (\<lambda>v. hd v \<in> {lit ''lws'', lit ''lws_monitor''}) (snd (last blocks)) of
          None \<Rightarrow> None | Some v \<Rightarrow> Some (if hd v = lit ''lws'' then HANDLER_lws else HANDLER_lws_monitor)))"
proof (induction blocks arbitrary: m m' cs)
  case (Cons b blocks)
  obtain level lines where b: "b = (level, lines)" by (cases b)
  from Cons.prems(1) obtain c cs' where c: "conf_block A level lines \<lparr>bc_main = m, bc_loc = fresh_loc, bc_handler = None\<rparr> = Some c"
    "conf_levels A blocks (bc_main c) = Some (m', cs')" "cs = c # cs'"
    by (auto simp: b levels_Cons simp del: conf_levels.simps split: option.splits)
  have ok: "block_ok b" using block_accepted [OF A _ c(1)] Cons.prems(2) by (simp add: b)
  have vars: "lc_variables (bc_loc c) = map (\<lambda>v. \<lparr>v_name = v ! 1, v_index = ca_variable_index A (v ! 1)\<rparr>)
      (filter (\<lambda>v. hd v = lit ''lws_variable'') lines)"
    using block_variables [OF A c(1)] by (simp add: fresh_loc_simp)
  have handler: "bc_handler c = (case find (\<lambda>v. hd v \<in> {lit ''lws'', lit ''lws_monitor''}) lines of
      None \<Rightarrow> None | Some v \<Rightarrow> Some (if hd v = lit ''lws'' then HANDLER_lws else HANDLER_lws_monitor))"
    using block_field [OF A main_settings(3) c(1)] by (auto split: option.splits)
  have "list_all (\<lambda>b. fst b \<in> {NGX_HTTP_MAIN_CONF, NGX_HTTP_SRV_CONF, NGX_HTTP_LOC_CONF}) blocks"
    using Cons.prems(2) by simp
  note IH = Cons.IH [OF c(2) this]
  show ?case
  proof (cases "blocks = []")
    case True
    with c(2) have "cs' = []" by simp
    with True ok vars handler show ?thesis by (simp add: b c(3))
  next
    case False
    with IH ok vars show ?thesis by (auto simp: b c(3))
  qed
qed simp

section \<open>The settings of a location\<close>

definition by_line :: "(conf_flag \<times> ngx_str list list) list \<Rightarrow> string \<Rightarrow> 'a \<Rightarrow> (ngx_str \<Rightarrow> 'a) \<Rightarrow> 'a" where
  "by_line blocks n dflt new = setting blocks (\<lambda>v. hd v = lit n) dflt (\<lambda>v. new (v ! 1))"

definition by_second :: "(conf_flag \<times> ngx_str list list) list \<Rightarrow> string \<Rightarrow> 'a \<Rightarrow> (ngx_str \<Rightarrow> 'a) \<Rightarrow> 'a" where
  "by_second blocks n dflt new = setting blocks (\<lambda>v. hd v = lit n \<and> length v \<ge> 3) dflt (\<lambda>v. new (v ! 2))"

lemma merged_setting:
  assumes "api_ok P A" "conf_levels A blocks m = Some (m', c0 # cs)" "cs \<noteq> []" "dflt \<noteq> unset"
    and "sets P A k sel unset new (\<lambda>c. g (bc_loc c))" "g fresh_loc = unset"
  shows "foldl (ngx_conf_merge unset dflt) (g (bc_loc c0)) (map g (map bc_loc cs)) = setting blocks sel dflt new"
  using level_inherit(1) [of dflt unset "map bc_loc cs" g "bc_loc c0"] assms(3,4)
    effective [OF assms(1,5,6,2), of dflt] by simp

lemma merged_optional:
  assumes "api_ok P A" "conf_levels A blocks m = Some (m', c0 # cs)"
    and "sets P A k sel None new (\<lambda>c. g (bc_loc c))" "g fresh_loc = None"
  shows "foldl (\<lambda>p c. if c = None then p else c) (g (bc_loc c0)) (map g (map bc_loc cs)) = setting blocks sel None new"
  using level_inherit(2) [of g "bc_loc c0" "map bc_loc cs"]
    effective [OF assms(1,3,4,2), of None] by simp

text \<open>C23: From the lines of a configuration to the settings of a location, for all blocks around it. Each
  setting is made by the innermost line of its documented directive, in whatever order the lines of a
  block stand, or is the documented default; a second argument of \<open>lws\<close> or \<open>lws_max_states\<close> is
  inherited on its own. The variables are those of all lines \<open>lws_variable\<close>, the outermost first. The
  handler of the location is that of its own line \<open>lws\<close> or \<open>lws_monitor\<close>. A configuration is accepted only
  if each line is a directive of the module in a documented context, and only \<open>lws_variable\<close> is repeated
  in a block.\<close>

theorem lws_configuration_correct:
  assumes "api_ok P A" "conf_levels A blocks m = Some (m', c0 # cs)" "cs \<noteq> []"
    "list_all (\<lambda>b. fst b \<in> {NGX_HTTP_MAIN_CONF, NGX_HTTP_SRV_CONF, NGX_HTTP_LOC_CONF}) blocks"
  shows "let conf = lws_merge_levels junk (bc_loc c0) (map bc_loc cs);
      size = (\<lambda>v. word_of_int (ca_parse_size A v)) in
    lc_main conf = by_line blocks ''lws'' None (\<lambda>v. ca_compile A v True) \<and>
    lc_path_info conf = by_second blocks ''lws'' None (\<lambda>v. ca_compile A v False) \<and>
    lc_init conf = by_line blocks ''lws_init'' (Some []) Some \<and> lc_pre conf = by_line blocks ''lws_pre'' (Some []) Some \<and>
    lc_post conf = by_line blocks ''lws_post'' (Some []) Some \<and> lc_path conf = by_line blocks ''lws_path'' (Some []) Some \<and>
    lc_cpath conf = by_line blocks ''lws_cpath'' (Some []) Some \<and>
    lc_states_max conf = by_line blocks ''lws_max_states'' 32 size \<and>
    lc_requests_max conf = by_second blocks ''lws_max_states'' 256 size \<and>
    lc_state_memory_max conf = by_line blocks ''lws_max_memory'' 0 size \<and> lc_state_gc conf = by_line blocks ''lws_gc'' 0 size \<and>
    lc_state_requests_max conf = by_line blocks ''lws_max_requests'' 0 (cp_num P) \<and>
    lc_state_time_max conf = by_line blocks ''lws_max_time'' 0 (cp_msec P) \<and>
    lc_state_timeout conf = by_line blocks ''lws_timeout'' 0 (cp_msec P) \<and>
    lc_error_response conf = by_line blocks ''lws_error_response'' 0 (cp_enum P) \<and>
    lc_diagnostic conf = setting blocks (\<lambda>v. hd v = lit ''lws_error_response'') 0 (\<lambda>v. if length v \<ge> 3 then 1 else 0) \<and>
    lc_streaming conf = by_line blocks ''lws_streaming'' 0 (cp_flag P) \<and>
    lc_variables conf = map (\<lambda>v. \<lparr>v_name = v ! 1, v_index = ca_variable_index A (v ! 1)\<rparr>)
      (filter (\<lambda>v. hd v = lit ''lws_variable'') (concat (map snd blocks))) \<and>
    bc_handler (last cs) = (case find (\<lambda>v. hd v \<in> {lit ''lws'', lit ''lws_monitor''}) (snd (last blocks)) of
      None \<Rightarrow> None | Some v \<Rightarrow> Some (if hd v = lit ''lws'' then HANDLER_lws else HANDLER_lws_monitor)) \<and>
    list_all block_ok blocks"
proof -
  note merged = merged_setting [OF assms(1-3)] merged_optional [OF assms(1,2)]
  note fields = level_fields [of junk "bc_loc c0" "map bc_loc cs", unfolded LWS_STATES_MAX_DEFAULT_def LWS_REQUESTS_MAX_DEFAULT_def]
  note levels = levels_accepted [OF assms(1,2,4)]
  have blocks: "blocks \<noteq> []" using levels by auto
  show ?thesis
    unfolding Let_def by_line_def by_second_def fields
    by (intro conjI; (rule merged, (simp add: level_defaults; fail)?, rule settings, simp add: fresh_loc_simp)?)
      (use levels blocks assms(3) in \<open>simp_all add: foldl_concat last_map comp_def\<close>)
qed

text \<open>A server with two nested locations: the inner one has its own chunk and state limit.\<close>

definition decimal :: "ngx_str \<Rightarrow> int" where
  "decimal s = foldl (\<lambda>n d. 10 * n + (uint d - 48)) 0 s"

lemma decimal_demo: "decimal (lit ''5'') = 5" "decimal (lit ''9'') = 9" "decimal (lit ''100'') = 100"
  by (simp_all add: decimal_def lit_def)

definition demo_slot :: "'a \<Rightarrow> (ngx_str \<Rightarrow> 'a) \<Rightarrow> ngx_str list \<Rightarrow> 'a \<Rightarrow> conf_result \<times> 'a" where
  "demo_slot unset parse values v =
     (if v \<noteq> unset then (CONF_MESSAGE ''is duplicate'', v)
      else if parse (values ! 1) = unset then (CONF_MESSAGE ''invalid value'', v)
      else (NGX_CONF_OK, parse (values ! 1)))"

definition demo_parsers :: conf_parsers where
  "demo_parsers = \<lparr>cp_num = decimal, cp_msec = (\<lambda>s. 1000 * word_of_int (decimal s)),
     cp_flag = (\<lambda>s. if s = lit ''on'' then 1 else 0), cp_enum = (\<lambda>s. if s = lit ''html'' then 1 else 0)\<rparr>"

definition demo_api :: "ngx_str conf_api" where
  "demo_api = \<lparr>ca_str_slot = demo_slot None Some, ca_size_slot = demo_slot NGX_CONF_UNSET_SIZE (\<lambda>s. word_of_int (decimal s)),
     ca_num_slot = demo_slot NGX_CONF_UNSET decimal, ca_msec_slot = demo_slot NGX_CONF_UNSET_MSEC (cp_msec demo_parsers),
     ca_flag_slot = demo_slot NGX_CONF_UNSET (cp_flag demo_parsers),
     ca_enum_slot = (\<lambda>es s. demo_slot NGX_CONF_UNSET_SIZE (cp_enum demo_parsers) [s, s]),
     ca_parse_size = decimal, ca_parse_time = decimal, ca_variable_index = (\<lambda>s. int (length s)),
     ca_strcasecmp = (\<lambda>s t. if s = t then 0 else 1), ca_compile = (\<lambda>s zero. Some s),
     ca_palloc = True, ca_palloc2 = True, ca_push = True, ca_shm = True\<rparr>"

lemma demo_api_ok: "api_ok demo_parsers demo_api"
  by (auto simp: api_ok_def slot_ok_def demo_api_def demo_parsers_def demo_slot_def split: if_splits)

definition demo_blocks :: "(conf_flag \<times> ngx_str list list) list" where
  "demo_blocks = [(NGX_HTTP_MAIN_CONF, [map lit [''lws_thread_pool'', ''pool'']]),
     (NGX_HTTP_SRV_CONF, map (map lit) [[''lws_variable'', ''host''], [''lws_max_states'', ''5'', ''100''], [''lws_init'', ''i.lua'']]),
     (NGX_HTTP_LOC_CONF, map (map lit) [[''lws'', ''a.lua'', ''$1''], [''lws_streaming'', ''on'']]),
     (NGX_HTTP_LOC_CONF, map (map lit) [[''lws_max_states'', ''9''], [''lws'', ''b.lua''], [''lws_variable'', ''uri'']])]"

definition demo_main :: lws_main_conf where
  "demo_main = (case fst (lws_create_main_conf True True) of CONF_PTR m \<Rightarrow> m)"

lemma demo_levels_accepted: "\<exists>m c0 cs. conf_levels demo_api demo_blocks demo_main = Some (m, c0 # cs) \<and> length cs = 3"
  by (simp add: demo_blocks_def demo_main_def lws_create_main_conf_def levels_Cons conf_line_def lws_commands_def lit_inject
      arity_ok_def run_command_def str_slot_def flag_slot_def in_main_def in_loc_def demo_api_def demo_slot_def demo_parsers_def
      lws_variable_def lws_max_states_def lws_directive_def fresh_loc_simp decimal_demo level_defaults Let_def
      del: conf_levels.simps(2))

theorem lws_configuration_correct_witness:
  "\<exists>m c0 cs. conf_levels demo_api demo_blocks demo_main = Some (m, c0 # cs) \<and>
     (let conf = lws_merge_levels (\<lambda>_. \<lparr>v_name = [], v_index = 0\<rparr>) (bc_loc c0) (map bc_loc cs) in
      lc_main conf = Some (lit ''b.lua'') \<and> lc_path_info conf = Some (lit ''$1'') \<and> lc_init conf = Some (lit ''i.lua'') \<and>
      lc_states_max conf = 9 \<and> lc_requests_max conf = 100 \<and> lc_streaming conf = 1 \<and>
      map v_name (lc_variables conf) = [lit ''host'', lit ''uri'']) \<and> bc_handler (last cs) = Some HANDLER_lws"
proof -
  obtain m c0 cs where *: "conf_levels demo_api demo_blocks demo_main = Some (m, c0 # cs)" and "length cs = 3"
    using demo_levels_accepted by blast
  then have "cs \<noteq> []" by auto
  show ?thesis
    using lws_configuration_correct [OF demo_api_ok * \<open>cs \<noteq> []\<close>, where junk = "\<lambda>_. \<lparr>v_name = [], v_index = 0\<rparr>"] *
    by (simp add: demo_blocks_def by_line_def by_second_def setting_def lit_inject demo_api_def demo_parsers_def decimal_demo Let_def)
qed

end
