(* ===== verification/Spec2Isabelle.thy ===== *)
theory Spec2Isabelle
  imports LwsArgs LwsRequest LwsHandler LwsProfileStop LwsGenCorrect LwsHandlesCorrect LwsCommandsCorrect
begin

text \<open>
  LWS runs Lua code inside NGINX: a verification development of the C sources under src/.

  THE PROGRAM. A worker process of NGINX serves the requests of a location with Lua states. The
  content handler \<open>lws_handler\<close> (src/lws_module.c) looks up the main Lua file in a cache of \<open>stat\<close>
  results, makes the context of the request (tables of variables and headers, a memory stream for
  the response body, a pipe if streaming is enabled), and reads the request body. Then
  \<open>lws_body_handler\<close> takes an idle Lua state, makes one, queues the request, or refuses it. The Lua
  code runs in a thread: \<open>lws_run_state\<close> (src/lws_state.c) calls \<open>lws_run\<close> (src/lws_lib.c), which runs
  the chunks init, pre, main and post. While the thread runs, \<open>lws_stream_handler\<close> moves bytes from
  the pipe to the client. When it has ended, \<open>lws_finalization_handler\<close> gives the state back, wakes the
  queue, and sends the response: streamed, buffered, a redirect, or an error response. The tables are
  the hash tables of src/lws_table.c; status codes are looked up in src/lws_http.c. A monitor in
  shared memory (src/lws_monitor.c) counts states, requests and memory, and holds the profile that
  the hook of src/lws_profiler.c measures.

  CONVENTIONS. A definition has the name of the function it translates and takes the state of that
  function, which it returns updated; a part of a long function (a loop, a branch) is a definition of
  its own that the function's definition calls. Structures are records with the fields of the source
  under a common prefix. What NGINX, Lua or the operating system answers is an argument: a function,
  or a record of answers, for each call that the code makes (does this allocation succeed, what does
  \<open>read\<close> return, which error does this call raise). So every theorem holds for all answers, except
  where it assumes what is documented of them (\<open>strncasecmp_ok\<close>, \<open>same_process\<close>, \<open>answers_ok\<close>, the format
  functions of LwsError and LwsMonitor). \<open>size_t\<close>, \<open>ngx_uint_t\<close>, \<open>ngx_msec_t\<close> and the counters of the
  monitor are 64-bit words that wrap around; lengths of strings in memory are \<open>nat\<close>. A loop that could
  run forever is a \<open>partial_function (option)\<close>; that it ends is then part of the theorems, whose
  conclusions say that a result exists. No fuel is used. The platform is LP64, Lua is 5.2 or later.

  THEORIES, in the order of their dependency.

  LwsPrelude: byte strings, C string comparison, the environment of a table operation, binary search,
  splitting and joining. LwsHttp: the status array and its lookup (src/lws_http.c), equal to a linear
  scan of the standard codes.

  The hash table (src/lws_table.c). LwsPrimes (Fermat, Pocklington and the checker of certificates),
  LwsPrimeCerts (certificates for the table sizes) and LwsSizes (the sizes, \<open>lws_table_size\<close>,
  \<open>lws_table_load\<close>): all sizes are primes, which the probing needs. LwsTable: all operations.
  LwsGen: gen/table.c, the program that computes the sizes, and LwsGenCorrect: it ends, and what it
  prints are the initializers of lws_table.c. LwsTableProbe: probe sequences visit every slot; LwsTableInv: the invariant \<open>table_wf\<close> and what single
  steps do; LwsTableOps: rehash, create, evict, drain. LwsTableSpec: the specification, a list of
  items in queue order with optional cap and timeout (\<open>lru_get\<close>, \<open>lru_put\<close>, \<open>lru_next\<close>), and the
  refinement \<open>lws_table_abs\<close>. LwsTableStore: the locale \<open>lru_store\<close>, the contract between the table and
  its clients, interpreted as \<open>lws\<close> on the operations. LwsTableCorrect: the theorems. LwsTableMap: the
  locales \<open>class_map\<close> (a map on classes of keys, such as names up to case) and \<open>key_map\<close>, interpreted as
  \<open>cls\<close> and \<open>exact\<close>, for the clients that neither cap nor time their tables. LwsTableRoom: with enough
  memory, creating and filling a table succeeds.

  Lua states and the queue. LwsState: the allocator with its memory limit, creation, closing, timers,
  acquisition, release and run of a state (src/lws_state.c). LwsQueue: the handlers that move a
  request through the location, as events on a process \<open>lws_process\<close>, with \<open>lws_step\<close>, whose label is the
  request that an event brings, if any, and the reachable processes. LwsQueueInv: the invariant (counters, limits, monitor, idle states, wake-up) and its
  preservation by every event. LwsQueueCorrect: the invariant for reachable processes, conservation
  and order of requests, and the deadlock after a failed initialization.

  Responses (src/lws_module.c). LwsResponse: response headers with the walk through the table
  (\<open>lws_table_each\<close>), known headers, splitting of Set-Cookie. LwsError: error responses in JSON and HTML.
  LwsStream: the stream handler, the write handler and the finalization handler on \<open>lws_stream\<close>;
  LwsStreamCorrect: their interleavings with the Lua thread, as a step relation. LwsFinal: the
  response of a request that did not stream.

  Lua code (src/lws_lib.c). LwsArgs: URL decoding and argument parsing. LwsRun: the functions of the
  library and \<open>lws_run\<close>, with the two calls of the profiler. Lua code is a tree \<open>lua_code\<close> of calls of the library, whose continuation may
  depend on each answer, so statements for all trees hold for all Lua programs, as far as these
  functions can tell. LwsRunInv: the locales \<open>lua_relation\<close> (a relation that each call keeps holds for
  whole chunks) and \<open>run_relation\<close> (and for whole runs), interpreted as \<open>keeps\<close>, \<open>seal\<close>, \<open>body\<close> and
  \<open>clean\<close>. LwsRunCorrect: order of the chunks, sealing, body, injection of headers, released
  environments, results. LwsRequest: a request from its Lua code to its response, which composes the
  run, the release of the state and the finalization; a redirect that \<open>lws_strdup\<close> left at NULL makes the
  finalization undefined, which is an outcome of its own there.

  How Lua code reaches the C objects (src/lws_lib.c, \<open>lws_init\<close> of src/lws_state.c). LwsObjects: the
  tables and userdata of a Lua state and the operations of the Lua C interface on them. LwsOpen: the
  initialization of a state, that is the status table, the functions, paths, metatables and the hook
  of \<open>flush\<close>. LwsHandles: the environment that a run gets, with its handles on the tables and files of
  the request, each function as Lua code can call it, with any arguments, the collector, and the cleanup
  of the request, as steps of a process \<open>lua_proc\<close>. The request context has a raw pointer to the handle of
  the response headers, through which a flush writes; the collector may take that handle, and Lua may
  use its memory again. LwsHandlesInv: the invariant that every userdata has the block that its metatable
  stands for, and that the handle is there from the start of a run until it is collected.
  LwsHandlesCorrect: types, lifetimes, the environment.

  The handler and the configuration (src/lws_module.c). LwsConf: creating, parsing, merging and
  cleaning up the configurations. LwsCommands: the table of directives, and how the lines of nested
  blocks are run through it; LwsCommandsCorrect: the settings that result from the lines. LwsStatCache: \<open>lws_get_file_status\<close> on the cache that the
  configuration makes. LwsHeaders: the three loops that fold the request headers, with the structures
  they share in a heap. LwsHandler: \<open>lws_handler\<close> step by step with what it acquires,
  \<open>lws_cleanup_request_ctx\<close> with what it releases, and the read function of the request body.

  Monitor and profiler. LwsMonitor: the shared state, the JSON document and its length, the parser of
  modifications and their effects (src/lws_monitor.c). LwsProfiler: the hook, the start and the stop
  (src/lws_profiler.c). LwsProfile: what a profile is, on the events alone, and the simulation of it
  by the hook. LwsProfileStop: the transfer of the profile to the monitor.

  WHAT IS SHOWN. Refinement: the table implements the list of items, the profiler the profile of the
  events. Invariants: tables, process, conservation of requests, streamed bytes, body, environments,
  allocator, ownership of the tables and streams that handles name. Types and lifetimes: no function of
  the library reads a block at a type that it does not have, or reaches an object that is gone through a
  handle of the running request, except a flush after the handle of the response headers was collected.
  Functional results on every path, errors included: initialization, environment, handler,
  finalization, headers, error responses, monitor, profiles, and the settings that the lines of a
  configuration file give. Equivalence with reference definitions: decoding, parsing,
  searching, and the output of the generator with the sizes of the table. Round trips: arguments,
  cookies, request body. Termination and progress: probing, insertion, runs, the read loop, the
  generator. Bounds: JSON documents fill their buffers exactly, cached answers age less than the
  timeout, integer results within 32 bits.

  The theorems also state where the code does not do what it means to: a failed initialization of a
  state makes the location refuse service (\<open>lws_init_failure_wedges\<close>), large integer results are
  truncated (\<open>lws_result_documented\<close>), and a redirect without memory ends in a NULL pointer
  (\<open>lws_request_correct\<close>). The lemmas \<open>lws_stale_handle\<close>, \<open>lws_flush_after_collect\<close>,
  \<open>lws_redirect_dangling\<close>, \<open>lws_redirect_leaks\<close>, \<open>lws_monitor_reads_past\<close>, \<open>lws_monitor_file_body\<close>,
  \<open>lws_read_handler_empty\<close> and \<open>lws_create_main_conf_not_null\<close> record others; \<open>lws_stale_handle\<close> is why the
  statement on live objects is about the handles of the running request, and \<open>lws_flush_after_collect\<close> is
  why flushing is an exception in it.

  NOT MODELLED. The compatibility functions for Lua 5.1, which Lua 5.2 and later provide. In LwsObjects,
  errors of Lua for lack of memory. The metamethods of the userdata of the profiler as calls that Lua
  code makes: the userdata is in the registry, out of reach. Files that Lua code opens by itself, and
  seeking in the response body. The standard libraries and the debug library of Lua, which could
  replace a metatable. Connections, events and filters of NGINX beyond the answers that the code looks
  at, and the slots of NGINX that parse a directive, whose documented meaning is \<open>api_ok\<close>. The
  module definition, the table of hooks and the build files, data for NGINX and make.
\<close>

end
